(* ===== verification/Prelude.thy ===== *)
theory Prelude
  imports Complex_Main "HOL-Library.Word"
begin

text \<open>
  Shared vocabulary of the development: the result type of fallible Rust code with the
  combinators the source uses (\<^verbatim>\<open>?\<close>, \<^verbatim>\<open>map\<close>, \<^verbatim>\<open>map_err\<close>, \<^verbatim>\<open>ok_or\<close>,
  \<^verbatim>\<open>unwrap_or\<close>), the names of the opaque identifiers, and the generic lemmas that let
  \<open>auto\<close> and \<open>simp\<close> run through a chain of fallible calls.
\<close>

named_theorems result_simps \<open>unfolding of the result combinators\<close>
named_theorems float_laws \<open>consequences of the value semantics of Float\<close>
named_theorems agg_defs \<open>equations of the aggregates' operations\<close>

section \<open>Results\<close>

text \<open>
  \<^verbatim>\<open>Result<T, E>\<close> is \<open>'e + 'a\<close>: \<open>Inl\<close> is \<^verbatim>\<open>Err\<close>, \<open>Inr\<close> is \<^verbatim>\<open>Ok\<close>.
  \<open>tryr r k\<close> is \<^verbatim>\<open>let x = r?; k(x)\<close>.
\<close>

definition tryr :: "'e + 'a \<Rightarrow> ('a \<Rightarrow> 'e + 'b) \<Rightarrow> 'e + 'b" where
  "tryr r k = (case r of Inl e \<Rightarrow> Inl e | Inr x \<Rightarrow> k x)"

definition map_ok :: "('a \<Rightarrow> 'b) \<Rightarrow> 'e + 'a \<Rightarrow> 'e + 'b" where
  "map_ok f r = (case r of Inl e \<Rightarrow> Inl e | Inr x \<Rightarrow> Inr (f x))"

definition map_err :: "('e \<Rightarrow> 'd) \<Rightarrow> 'e + 'a \<Rightarrow> 'd + 'a" where
  "map_err f r = (case r of Inl e \<Rightarrow> Inl (f e) | Inr x \<Rightarrow> Inr x)"

definition ok_or :: "'e \<Rightarrow> 'a option \<Rightarrow> 'e + 'a" where
  "ok_or e x = (case x of None \<Rightarrow> Inl e | Some a \<Rightarrow> Inr a)"

definition unwrap_or :: "'a \<Rightarrow> 'e + 'a \<Rightarrow> 'a" where
  "unwrap_or d r = (case r of Inl _ \<Rightarrow> d | Inr x \<Rightarrow> x)"

definition result_ok :: "'e + 'a \<Rightarrow> 'a option" where
  "result_ok r = (case r of Inl _ \<Rightarrow> None | Inr x \<Rightarrow> Some x)"

definition is_ok :: "'e + 'a \<Rightarrow> bool" where
  "is_ok r = (case r of Inl _ \<Rightarrow> False | Inr _ \<Rightarrow> True)"

text \<open>\<^verbatim>\<open>Option::or\<close>: the first value if there is one, else the second.\<close>

definition option_or :: "'a option \<Rightarrow> 'a option \<Rightarrow> 'a option" where
  "option_or a b = (case a of None \<Rightarrow> b | Some _ \<Rightarrow> a)"

lemma tryr_Inl [simp]: "tryr (Inl e) k = Inl e"
  and tryr_Inr [simp]: "tryr (Inr x) k = k x"
  by (simp_all add: tryr_def)

lemma map_ok_simps [simp]: "map_ok f (Inl e) = Inl e" "map_ok f (Inr x) = Inr (f x)"
  by (simp_all add: map_ok_def)

lemma map_err_simps [simp]: "map_err f (Inl e) = Inl (f e)" "map_err f (Inr x) = Inr x"
  by (simp_all add: map_err_def)

lemma ok_or_simps [simp]: "ok_or e None = Inl e" "ok_or e (Some x) = Inr x"
  by (simp_all add: ok_or_def)

lemma unwrap_or_simps [simp]: "unwrap_or d (Inl e) = d" "unwrap_or d (Inr x) = x"
  by (simp_all add: unwrap_or_def)

lemma result_ok_simps [simp]: "result_ok (Inl e) = None" "result_ok (Inr x) = Some x"
  by (simp_all add: result_ok_def)

lemma is_ok_simps [simp]: "\<not> is_ok (Inl e)" "is_ok (Inr x)"
  by (simp_all add: is_ok_def)

lemma option_or_simps [simp]: "option_or None b = b" "option_or (Some a) b = Some a"
  by (simp_all add: option_or_def)

text \<open>
  A chain of fallible calls succeeds exactly when every call does. As simplification rules
  these turn \<open>tryr r k = Inr y\<close> into the intermediate values.
\<close>

lemma tryr_eq_Inr [simp]: "tryr r k = Inr y \<longleftrightarrow> (\<exists>x. r = Inr x \<and> k x = Inr y)"
  by (cases r) auto

lemma tryr_eq_Inl: "tryr r k = Inl e \<longleftrightarrow> r = Inl e \<or> (\<exists>x. r = Inr x \<and> k x = Inl e)"
  by (cases r) auto

lemma map_ok_eq_Inr [simp]: "map_ok f r = Inr y \<longleftrightarrow> (\<exists>x. r = Inr x \<and> y = f x)"
  by (cases r) auto

lemma map_ok_eq_Inl [simp]: "map_ok f r = Inl e \<longleftrightarrow> r = Inl e"
  by (cases r) auto

lemma map_err_eq_Inr [simp]: "map_err f r = Inr y \<longleftrightarrow> r = Inr y"
  by (cases r) auto

lemma map_err_eq_Inl [simp]: "map_err f r = Inl d \<longleftrightarrow> (\<exists>e. r = Inl e \<and> d = f e)"
  by (cases r) auto

lemma ok_or_eq_Inr [simp]: "ok_or e x = Inr a \<longleftrightarrow> x = Some a"
  by (cases x) auto

lemma ok_or_eq_Inl [simp]: "ok_or e x = Inl d \<longleftrightarrow> x = None \<and> d = e"
  by (cases x) auto

lemma result_ok_eq_Some [simp]: "result_ok r = Some x \<longleftrightarrow> r = Inr x"
  by (cases r) auto

lemma is_ok_iff: "is_ok r \<longleftrightarrow> (\<exists>x. r = Inr x)"
  by (cases r) auto

lemma option_or_eq_None [simp]: "option_or a b = None \<longleftrightarrow> a = None \<and> b = None"
  by (cases a) auto

text \<open>\<^verbatim>\<open>Iterator::try_fold\<close>: a left fold that stops at the first error.\<close>

fun try_fold :: "('a \<Rightarrow> 'b \<Rightarrow> 'e + 'a) \<Rightarrow> 'a \<Rightarrow> 'b list \<Rightarrow> 'e + 'a" where
  "try_fold f acc [] = Inr acc"
| "try_fold f acc (x # xs) = tryr (f acc x) (\<lambda>acc'. try_fold f acc' xs)"

lemma try_fold_invariant:
  "try_fold f acc xs = Inr acc' \<Longrightarrow> P acc \<Longrightarrow>
   (\<And>a x a'. x \<in> set xs \<Longrightarrow> P a \<Longrightarrow> f a x = Inr a' \<Longrightarrow> P a') \<Longrightarrow> P acc'"
  by (induction xs arbitrary: acc) auto

lemmas result_unfold [result_simps] =
  tryr_def map_ok_def map_err_def ok_or_def unwrap_or_def result_ok_def is_ok_def option_or_def

section \<open>Fallible effects\<close>

text \<open>
  An \<^verbatim>\<open>async fn\<close> returning \<^verbatim>\<open>Result\<close> over a world: \<open>seqw m k\<close> is \<^verbatim>\<open>let x = m.await?; k(x)\<close>,
  with the world of the failed call kept when it fails.
\<close>

type_synonym ('w, 'e, 'a) effect = "'w \<Rightarrow> ('e + 'a) \<times> 'w"

definition retw :: "'a \<Rightarrow> ('w, 'e, 'a) effect" where
  "retw x w = (Inr x, w)"

definition failw :: "'e \<Rightarrow> ('w, 'e, 'a) effect" where
  "failw e w = (Inl e, w)"

definition seqw :: "('w, 'e, 'a) effect \<Rightarrow> ('a \<Rightarrow> ('w, 'e, 'b) effect) \<Rightarrow> ('w, 'e, 'b) effect" where
  "seqw m k w = (case m w of (Inl e, w') \<Rightarrow> (Inl e, w') | (Inr x, w') \<Rightarrow> k x w')"

definition map_errw :: "('e \<Rightarrow> 'd) \<Rightarrow> ('w, 'e, 'a) effect \<Rightarrow> ('w, 'd, 'a) effect" where
  "map_errw f m w = map_prod (map_err f) id (m w)"

text \<open>\<^verbatim>\<open>match m.await\<close>: the outcome itself, never an early return.\<close>

definition outcomew :: "('w, 'e, 'a) effect \<Rightarrow> ('w, 'd, 'e + 'a) effect" where
  "outcomew m w = (Inr (fst (m w)), snd (m w))"

lemma retw_apply [simp]: "retw x w = (Inr x, w)"
  and failw_apply [simp]: "failw e w = (Inl e, w)"
  and outcomew_apply [simp]: "outcomew m w = (Inr (fst (m w)), snd (m w))"
  by (simp_all add: retw_def failw_def outcomew_def)

lemma seqw_Inl [simp]: "m w = (Inl e, w') \<Longrightarrow> seqw m k w = (Inl e, w')"
  and seqw_Inr [simp]: "m w = (Inr x, w') \<Longrightarrow> seqw m k w = k x w'"
  by (simp_all add: seqw_def)

lemma seqw_cases:
  assumes "seqw m k w = (r, w')"
  obtains (fail) e where "m w = (Inl e, w')" "r = Inl e"
  | (ok) x w1 where "m w = (Inr x, w1)" "k x w1 = (r, w')"
  using assms by (auto simp: seqw_def split: prod.splits sum.splits)

lemma map_errw_apply: "map_errw f m w = (map_err f (fst (m w)), snd (m w))"
  by (simp add: map_errw_def map_prod_def split: prod.split)

subsection \<open>Triples\<close>

text \<open>
  Hoare triples for effects: from a world with \<open>P\<close>, a success ends in \<open>Q\<close> and a failure in \<open>E\<close>.
\<close>

definition triple ::
  "('w \<Rightarrow> bool) \<Rightarrow> ('w, 'e, 'a) effect \<Rightarrow> ('a \<Rightarrow> 'w \<Rightarrow> bool) \<Rightarrow> ('e \<Rightarrow> 'w \<Rightarrow> bool) \<Rightarrow> bool" where
  "triple P m Q E \<longleftrightarrow>
     (\<forall>w. P w \<longrightarrow> (case m w of (Inr x, w') \<Rightarrow> Q x w' | (Inl e, w') \<Rightarrow> E e w'))"

lemma tripleI:
  assumes "\<And>w x w'. P w \<Longrightarrow> m w = (Inr x, w') \<Longrightarrow> Q x w'"
    and "\<And>w e w'. P w \<Longrightarrow> m w = (Inl e, w') \<Longrightarrow> E e w'"
  shows "triple P m Q E"
  using assms by (auto simp: triple_def split: prod.split sum.split)

lemma triple_Inr: "triple P m Q E \<Longrightarrow> P w \<Longrightarrow> m w = (Inr x, w') \<Longrightarrow> Q x w'"
  and triple_Inl: "triple P m Q E \<Longrightarrow> P w \<Longrightarrow> m w = (Inl e, w') \<Longrightarrow> E e w'"
  by (auto simp: triple_def dest!: spec [of _ w])

lemma triple_return [simp]:
  "triple P (Pair (Inr x)) Q E \<longleftrightarrow> (\<forall>w. P w \<longrightarrow> Q x w)"
  "triple P (Pair (Inl e)) Q E \<longleftrightarrow> (\<forall>w. P w \<longrightarrow> E e w)"
  by (simp_all add: triple_def)

lemma triple_retw [simp]: "triple P (retw x) Q E \<longleftrightarrow> (\<forall>w. P w \<longrightarrow> Q x w)"
  and triple_failw [simp]: "triple P (failw e) Q E \<longleftrightarrow> (\<forall>w. P w \<longrightarrow> E e w)"
  by (simp_all add: triple_def)

lemma triple_seqw:
  "triple P m R E \<Longrightarrow> (\<And>x. triple (R x) (k x) Q E) \<Longrightarrow> triple P (seqw m k) Q E"
  by (rule tripleI; erule seqw_cases) (auto dest: triple_Inr triple_Inl)

lemma triple_map_errw: "triple P m Q (\<lambda>e. E (f e)) \<Longrightarrow> triple P (map_errw f m) Q E"
  by (auto simp: triple_def map_errw_def map_prod_def split: prod.splits sum.splits)

lemma triple_map_err: "triple P m Q (\<lambda>_. E) \<Longrightarrow> triple P (map_errw f m) Q (\<lambda>_. E)"
  by (rule triple_map_errw)

lemma triple_outcomew:
  assumes "triple P m (\<lambda>x. Q (Inr x)) (\<lambda>e. Q (Inl e))"
  shows "triple P (outcomew m) Q E"
proof (rule tripleI)
  fix w r w' assume P: "P w" and "outcomew m w = (Inr r, w')"
  then have "m w = (r, w')" by (simp add: prod_eq_iff)
  with P assms show "Q r w'" by (cases r) (auto dest: triple_Inr triple_Inl)
qed simp

text \<open>\<^verbatim>\<open>match m.await { Ok(x) => .., Err(e) => .. }\<close>\<close>

lemma triple_match:
  assumes "triple P m Q1 E1" and "\<And>x. triple (Q1 x) (k (Inr x)) Q E"
    and "\<And>e. triple (E1 e) (k (Inl e)) Q E"
  shows "triple P (seqw (outcomew m) k) Q E"
proof (rule triple_seqw)
  show "triple P (outcomew m) (case_sum E1 Q1) E"
    using assms(1) by (intro triple_outcomew) simp
  show "triple (case_sum E1 Q1 r) (k r) Q E" for r
    using assms(2,3) by (cases r) auto
qed

lemma triple_weaken:
  assumes "triple P m Q E" and "\<And>w. P' w \<Longrightarrow> P w" and "\<And>x w. Q x w \<Longrightarrow> Q' x w"
    and "\<And>e w. E e w \<Longrightarrow> E' e w"
  shows "triple P' m Q' E'"
  using assms unfolding triple_def by (fastforce split: prod.splits sum.splits)

lemma triple_pre: "triple P m Q E \<Longrightarrow> (\<And>w. P' w \<Longrightarrow> P w) \<Longrightarrow> triple P' m Q E"
  by (rule triple_weaken)

lemma triple_if:
  "(b \<Longrightarrow> triple P m1 Q E) \<Longrightarrow> (\<not> b \<Longrightarrow> triple P m2 Q E) \<Longrightarrow> triple P (if b then m1 else m2) Q E"
  by simp

section \<open>Identifiers and machine types\<close>

text \<open>
  A \<^verbatim>\<open>DateTime<Utc>\<close> is an instant; the modelled code stores and compares instants, so an
  integer is enough. \<^verbatim>\<open>Symbol\<close>, \<^verbatim>\<open>ExecutorOrderId\<close> and error messages are strings.
  A \<^verbatim>\<open>Uuid\<close> has 128 bits, a \<^verbatim>\<open>TxHash\<close> 256, an \<^verbatim>\<open>Address\<close> 160.
\<close>

type_synonym timestamp = int
type_synonym symbol = string
type_synonym executor_order_id = string
type_synonym uuid = "128 word"
type_synonym tx_hash = "256 word"
type_synonym address = "160 word"
type_synonym u64 = "64 word"
type_synonym i64 = "64 word"
type_synonym u128 = "128 word"
type_synonym u256 = "256 word"

text \<open>
  \<^verbatim>\<open>str::trim().is_empty()\<close>: every character is white space. A HOL character is a code
  point below 256; the Unicode white space there is 9--13, 32, 133 and 160.
\<close>

definition char_is_whitespace :: "char \<Rightarrow> bool" where
  "char_is_whitespace c \<longleftrightarrow>
     (let n = of_char c :: nat in (9 \<le> n \<and> n \<le> 13) \<or> n = 32 \<or> n = 133 \<or> n = 160)"

definition trim_is_empty :: "string \<Rightarrow> bool" where
  "trim_is_empty s = list_all char_is_whitespace s"

definition i64_max :: int where
  "i64_max = 2 ^ 63 - 1"

section \<open>Strings and saturating words\<close>

text \<open>\<^verbatim>\<open>str::contains\<close> and \<^verbatim>\<open>u64::saturating_add\<close> of the standard library.\<close>

definition str_contains :: "string \<Rightarrow> string \<Rightarrow> bool" where
  "str_contains needle hay \<longleftrightarrow> (\<exists>i\<in>set [0..<Suc (length hay)]. take (length needle) (drop i hay) = needle)"

definition saturating_add :: "'a::len word \<Rightarrow> 'a word \<Rightarrow> 'a word" where
  "saturating_add a b = (if unat a + unat b < 2 ^ LENGTH('a) then a + b else - 1)"

lemma unat_bound: "unat (a :: 'a::len word) < 2 ^ LENGTH('a)" by (rule unsigned_less)

lemma unat_saturating_add:
  "unat (saturating_add (a :: 'a::len word) b) = min (unat a + unat b) (2 ^ LENGTH('a) - 1)"
  by (auto simp: saturating_add_def unat_word_ariths unsigned_minus_1_eq_mask mask_eq_exp_minus_1 min_def)

lemma saturating_add_ge: "a \<le> saturating_add a b" for a :: "'a::len word"
proof -
  have "unat a \<le> 2 ^ LENGTH('a) - 1" using unat_bound [of a] by linarith
  then show ?thesis by (simp add: word_le_nat_alt unat_saturating_add)
qed

text \<open>One past a nonce is above it, unless the nonce is the last one.\<close>

lemma saturating_Suc_gt: "a \<noteq> - 1 \<Longrightarrow> a < saturating_add a 1" for a :: "'a::len word"
proof -
  assume "a \<noteq> - 1"
  then have "unat a \<noteq> 2 ^ LENGTH('a) - 1"
    by (metis unsigned_minus_1_eq_mask mask_eq_exp_minus_1 word_unat_eq_iff)
  with unat_bound [of a] have "unat a + 1 < 2 ^ LENGTH('a)" by linarith
  then show ?thesis by (simp add: word_less_nat_alt unat_saturating_add)
qed

end
