(* ===== verification/Float_Ops.thy ===== *)
theory Float_Ops
  imports Prelude
begin

text \<open>
  \<^verbatim>\<open>rain_math_float::Float\<close> is a third-party type: a decimal floating-point number with a
  224-bit coefficient and a 32-bit exponent whose operations are all fallible. The development
  takes it as a parameter: a type \<open>'f\<close> and a record of its operations, passed to every
  definition that computes with \<^verbatim>\<open>Float\<close>. What theorems rely on is the named hypothesis
  \<open>float_sem F v\<close>: every operation that succeeds returns the exact result of the operation on
  the values \<open>v\<close> of its arguments (\<^verbatim>\<open>docs/float.md\<close>: no precision loss). Nothing is
  assumed about when operations fail; \<open>float_total F\<close> adds that they never do. Multiplication and
  division can round, so nothing is assumed of their results. \<open>fl_parse_int\<close> is
  \<^verbatim>\<open>Float::parse\<close> on the decimal rendering of an integer.
\<close>

datatype float_error = FloatError string

record 'f float_ops =
  fl_ZERO :: 'f
  fl_zero :: "float_error + 'f"
  fl_add :: "'f \<Rightarrow> 'f \<Rightarrow> float_error + 'f"
  fl_sub :: "'f \<Rightarrow> 'f \<Rightarrow> float_error + 'f"
  fl_mul :: "'f \<Rightarrow> 'f \<Rightarrow> float_error + 'f"
  fl_div :: "'f \<Rightarrow> 'f \<Rightarrow> float_error + 'f"
  fl_parse_int :: "int \<Rightarrow> float_error + 'f"
  fl_abs :: "'f \<Rightarrow> float_error + 'f"
  fl_frac :: "'f \<Rightarrow> float_error + 'f"
  fl_lt :: "'f \<Rightarrow> 'f \<Rightarrow> float_error + bool"
  fl_gt :: "'f \<Rightarrow> 'f \<Rightarrow> float_error + bool"
  fl_gte :: "'f \<Rightarrow> 'f \<Rightarrow> float_error + bool"
  fl_eq :: "'f \<Rightarrow> 'f \<Rightarrow> float_error + bool"
  fl_is_zero :: "'f \<Rightarrow> float_error + bool"
  fl_from_fixed_decimal :: "u256 \<Rightarrow> nat \<Rightarrow> float_error + 'f"
  fl_to_fixed_decimal :: "'f \<Rightarrow> nat \<Rightarrow> float_error + u256"
  fl_to_fixed_decimal_lossy :: "'f \<Rightarrow> nat \<Rightarrow> float_error + u256 \<times> bool"

definition float_sem :: "'f float_ops \<Rightarrow> ('f \<Rightarrow> rat) \<Rightarrow> bool" where
  "float_sem F v \<longleftrightarrow>
     v (fl_ZERO F) = 0 \<and>
     (\<forall>z. fl_zero F = Inr z \<longrightarrow> v z = 0) \<and>
     (\<forall>a b c. fl_add F a b = Inr c \<longrightarrow> v c = v a + v b) \<and>
     (\<forall>a b c. fl_sub F a b = Inr c \<longrightarrow> v c = v a - v b) \<and>
     (\<forall>a c. fl_abs F a = Inr c \<longrightarrow> v c = \<bar>v a\<bar>) \<and>
     (\<forall>a b x. fl_lt F a b = Inr x \<longrightarrow> x = (v a < v b)) \<and>
     (\<forall>a b x. fl_gt F a b = Inr x \<longrightarrow> x = (v a > v b)) \<and>
     (\<forall>a b x. fl_gte F a b = Inr x \<longrightarrow> x = (v a \<ge> v b)) \<and>
     (\<forall>a b x. fl_eq F a b = Inr x \<longrightarrow> x = (v a = v b)) \<and>
     (\<forall>a x. fl_is_zero F a = Inr x \<longrightarrow> x = (v a = 0))"

definition float_total :: "'f float_ops \<Rightarrow> bool" where
  "float_total F \<longleftrightarrow>
     is_ok (fl_zero F) \<and>
     (\<forall>a b. is_ok (fl_add F a b) \<and> is_ok (fl_sub F a b) \<and> is_ok (fl_mul F a b)) \<and>
     (\<forall>a. is_ok (fl_abs F a) \<and> is_ok (fl_frac F a) \<and> is_ok (fl_is_zero F a)) \<and>
     (\<forall>a b. is_ok (fl_lt F a b) \<and> is_ok (fl_gt F a b) \<and> is_ok (fl_gte F a b) \<and> is_ok (fl_eq F a b))"

text \<open>
  A concrete instance for witnesses: exact rationals, with an error as soon as a result's
  magnitude exceeds the bound. It satisfies \<open>float_sem\<close> for every bound, so the hypothesis
  is consistent with operations that do fail.
\<close>

definition in_bound :: "rat \<Rightarrow> rat \<Rightarrow> float_error + rat" where
  "in_bound b x = (if \<bar>x\<bar> \<le> b then Inr x else Inl (FloatError ''overflow''))"

definition bounded_rat :: "rat \<Rightarrow> rat float_ops" where
  "bounded_rat b = \<lparr>
     fl_ZERO = 0,
     fl_zero = Inr 0,
     fl_add = (\<lambda>x y. in_bound b (x + y)),
     fl_sub = (\<lambda>x y. in_bound b (x - y)),
     fl_mul = (\<lambda>x y. in_bound b (x * y)),
     fl_div = (\<lambda>x y. if y = 0 then Inl (FloatError ''division by zero'') else in_bound b (x / y)),
     fl_parse_int = (\<lambda>n. in_bound b (of_int n)),
     fl_abs = (\<lambda>x. in_bound b \<bar>x\<bar>),
     fl_frac = (\<lambda>x. Inr (frac x)),
     fl_lt = (\<lambda>x y. Inr (x < y)),
     fl_gt = (\<lambda>x y. Inr (x > y)),
     fl_gte = (\<lambda>x y. Inr (x \<ge> y)),
     fl_eq = (\<lambda>x y. Inr (x = y)),
     fl_is_zero = (\<lambda>x. Inr (x = 0)),
     fl_from_fixed_decimal = (\<lambda>n d. in_bound b (of_int (uint n) / 10 ^ d)),
     fl_to_fixed_decimal = (\<lambda>x d.
       if frac (x * 10 ^ d) = 0 \<and> 0 \<le> x \<and> \<lfloor>x * 10 ^ d\<rfloor> < 2 ^ 256
       then Inr (of_int \<lfloor>x * 10 ^ d\<rfloor>) else Inl (FloatError ''lossy'')),
     fl_to_fixed_decimal_lossy = (\<lambda>x d.
       if 0 \<le> x \<and> \<lfloor>x * 10 ^ d\<rfloor> < 2 ^ 256
       then Inr (of_int \<lfloor>x * 10 ^ d\<rfloor>, frac (x * 10 ^ d) = 0)
       else Inl (FloatError ''negative''))\<rparr>"

text \<open>Without a bound nothing fails: the instance of \<open>float_total\<close>.\<close>

definition exact_rat :: "rat float_ops" where
  "exact_rat = (bounded_rat 0)\<lparr>
     fl_add := (\<lambda>x y. Inr (x + y)),
     fl_sub := (\<lambda>x y. Inr (x - y)),
     fl_mul := (\<lambda>x y. Inr (x * y)),
     fl_div := (\<lambda>x y. if y = 0 then Inl (FloatError ''division by zero'') else Inr (x / y)),
     fl_parse_int := (\<lambda>n. Inr (of_int n)),
     fl_abs := (\<lambda>x. Inr \<bar>x\<bar>)\<rparr>"

lemma float_sem_ZERO [float_laws]: "float_sem F v \<Longrightarrow> v (fl_ZERO F) = 0"
  and float_sem_zero [float_laws]: "float_sem F v \<Longrightarrow> fl_zero F = Inr z \<Longrightarrow> v z = 0"
  and float_sem_add [float_laws]:
    "float_sem F v \<Longrightarrow> fl_add F a b = Inr c \<Longrightarrow> v c = v a + v b"
  and float_sem_sub [float_laws]:
    "float_sem F v \<Longrightarrow> fl_sub F a b = Inr c \<Longrightarrow> v c = v a - v b"
  and float_sem_abs [float_laws]:
    "float_sem F v \<Longrightarrow> fl_abs F a = Inr c \<Longrightarrow> v c = \<bar>v a\<bar>"
  and float_sem_lt [float_laws]: "float_sem F v \<Longrightarrow> fl_lt F a b = Inr x \<Longrightarrow> x = (v a < v b)"
  and float_sem_gt [float_laws]: "float_sem F v \<Longrightarrow> fl_gt F a b = Inr x \<Longrightarrow> x = (v a > v b)"
  and float_sem_gte [float_laws]: "float_sem F v \<Longrightarrow> fl_gte F a b = Inr x \<Longrightarrow> x = (v a \<ge> v b)"
  and float_sem_eq [float_laws]: "float_sem F v \<Longrightarrow> fl_eq F a b = Inr x \<Longrightarrow> x = (v a = v b)"
  and float_sem_is_zero [float_laws]:
    "float_sem F v \<Longrightarrow> fl_is_zero F a = Inr x \<Longrightarrow> x = (v a = 0)"
  by (auto simp: float_sem_def)

lemma float_total_add: "float_total F \<Longrightarrow> \<exists>c. fl_add F a b = Inr c"
  and float_total_sub: "float_total F \<Longrightarrow> \<exists>c. fl_sub F a b = Inr c"
  and float_total_mul: "float_total F \<Longrightarrow> \<exists>c. fl_mul F a b = Inr c"
  and float_total_abs: "float_total F \<Longrightarrow> \<exists>c. fl_abs F a = Inr c"
  and float_total_lt: "float_total F \<Longrightarrow> \<exists>c. fl_lt F a b = Inr c"
  and float_total_gt: "float_total F \<Longrightarrow> \<exists>c. fl_gt F a b = Inr c"
  and float_total_gte: "float_total F \<Longrightarrow> \<exists>c. fl_gte F a b = Inr c"
  and float_total_eq: "float_total F \<Longrightarrow> \<exists>c. fl_eq F a b = Inr c"
  and float_total_is_zero: "float_total F \<Longrightarrow> \<exists>c. fl_is_zero F a = Inr c"
  by (simp_all add: float_total_def is_ok_iff)

lemma in_bound_Inr [simp]: "in_bound b x = Inr y \<longleftrightarrow> \<bar>x\<bar> \<le> b \<and> y = x"
  by (auto simp: in_bound_def)

lemma bounded_rat_sem: "float_sem (bounded_rat b) (\<lambda>x. x)"
  by (auto simp: float_sem_def bounded_rat_def)

lemma exact_rat_sem: "float_sem exact_rat (\<lambda>x. x)"
  by (auto simp: float_sem_def exact_rat_def bounded_rat_def)

lemma exact_rat_total: "float_total exact_rat"
  by (simp add: float_total_def exact_rat_def bounded_rat_def)

lemmas exact_rat_ops = exact_rat_def bounded_rat_def

lemma exact_rat_simps:
  "fl_add exact_rat x y = Inr (x + y)" "fl_sub exact_rat x y = Inr (x - y)"
  "fl_mul exact_rat x y = Inr (x * y)" "y \<noteq> 0 \<Longrightarrow> fl_div exact_rat x y = Inr (x / y)"
  "fl_lt exact_rat x y = Inr (x < y)" "fl_gt exact_rat x y = Inr (x > y)"
  "fl_is_zero exact_rat x = Inr (x = 0)"
  by (simp_all add: exact_rat_ops)

end
