(* ===== verification/Finance.thy ===== *)
theory Finance
  imports Float_Ops
begin

text \<open>
  The financial primitives of \<^verbatim>\<open>crates/finance\<close> and the execution threshold of
  \<^verbatim>\<open>crates/config\<close>: the \<^verbatim>\<open>Float\<close> newtypes with their fallible arithmetic and partial
  order, the \<^verbatim>\<open>Positive\<close> and \<^verbatim>\<open>NonNegative\<close> refinements, and the conversions to
  fixed-point token amounts. The \<^verbatim>\<open>HasZero\<close> trait is a record of its methods, so that the
  generic constructors are written once, as in the source.
\<close>

section \<open>Symbols\<close>

text \<open>\<^verbatim>\<open>Symbol::new\<close> trims and refuses an empty symbol.\<close>

definition str_trim :: "string \<Rightarrow> string" where
  "str_trim s = rev (dropWhile char_is_whitespace (rev (dropWhile char_is_whitespace s)))"

datatype empty_symbol_error = EmptySymbolError

definition symbol_new :: "string \<Rightarrow> empty_symbol_error + symbol" where
  "symbol_new s = (if str_trim s = [] then Inl EmptySymbolError else Inr (str_trim s))"

section \<open>Newtypes\<close>

datatype 'f fractional_shares = FractionalShares (shares_inner: 'f)
datatype 'f usd = Usd (usd_inner: 'f)
datatype 'f usdc = Usdc (usdc_inner: 'f)

datatype direction = Buy | Sell
datatype supported_executor = AlpacaBrokerApi | DryRun
datatype ordering = Less | Equal | Greater

section \<open>HasZero, Positive and NonNegative\<close>

record 't has_zero =
  ZERO :: 't
  is_zero :: "'t \<Rightarrow> float_error + bool"
  is_negative :: "'t \<Rightarrow> float_error + bool"

definition shares_has_zero :: "'f float_ops \<Rightarrow> 'f fractional_shares has_zero" where
  "shares_has_zero F = \<lparr>
     ZERO = FractionalShares (fl_ZERO F),
     is_zero = (\<lambda>s. fl_is_zero F (shares_inner s)),
     is_negative = (\<lambda>s. fl_lt F (shares_inner s) (fl_ZERO F))\<rparr>"

definition usd_has_zero :: "'f float_ops \<Rightarrow> 'f usd has_zero" where
  "usd_has_zero F = \<lparr>
     ZERO = Usd (fl_ZERO F),
     is_zero = (\<lambda>s. fl_is_zero F (usd_inner s)),
     is_negative = (\<lambda>s. tryr (fl_zero F) (\<lambda>z. fl_lt F (usd_inner s) z))\<rparr>"

definition usdc_has_zero :: "'f float_ops \<Rightarrow> 'f usdc has_zero" where
  "usdc_has_zero F = \<lparr>
     ZERO = Usdc (fl_ZERO F),
     is_zero = (\<lambda>s. fl_is_zero F (usdc_inner s)),
     is_negative = (\<lambda>s. tryr (fl_zero F) (\<lambda>z. fl_lt F (usdc_inner s) z))\<rparr>"

datatype 't not_positive = NotPositive 't
datatype 't positive = Positive (positive_inner: 't)

definition positive_new :: "'t has_zero \<Rightarrow> 't \<Rightarrow> 't not_positive + 't positive" where
  "positive_new H value =
     (let zero = unwrap_or False (is_zero H value);
          negative = unwrap_or False (is_negative H value)
      in if zero \<or> negative then Inl (NotPositive value) else Inr (Positive value))"

datatype 't not_non_negative = NotNonNegative 't
datatype 't non_negative = NonNegative (non_negative_inner: 't)

definition non_negative_new :: "'t has_zero \<Rightarrow> 't \<Rightarrow> 't not_non_negative + 't non_negative" where
  "non_negative_new H value =
     (let negative = unwrap_or False (is_negative H value)
      in if negative then Inl (NotNonNegative value) else Inr (NonNegative value))"

section \<open>FractionalShares\<close>

definition shares_ZERO :: "'f float_ops \<Rightarrow> 'f fractional_shares" where
  "shares_ZERO F = FractionalShares (fl_ZERO F)"

definition shares_abs ::
  "'f float_ops \<Rightarrow> 'f fractional_shares \<Rightarrow> float_error + 'f fractional_shares" where
  "shares_abs F s = map_ok FractionalShares (fl_abs F (shares_inner s))"

definition shares_is_whole :: "'f float_ops \<Rightarrow> 'f fractional_shares \<Rightarrow> float_error + bool" where
  "shares_is_whole F s = tryr (fl_frac F (shares_inner s)) (fl_is_zero F)"

definition shares_add ::
  "'f float_ops \<Rightarrow> 'f fractional_shares \<Rightarrow> 'f fractional_shares \<Rightarrow> float_error + 'f fractional_shares" where
  "shares_add F a b = map_ok FractionalShares (fl_add F (shares_inner a) (shares_inner b))"

definition shares_sub ::
  "'f float_ops \<Rightarrow> 'f fractional_shares \<Rightarrow> 'f fractional_shares \<Rightarrow> float_error + 'f fractional_shares" where
  "shares_sub F a b = map_ok FractionalShares (fl_sub F (shares_inner a) (shares_inner b))"

definition shares_eq :: "'f float_ops \<Rightarrow> 'f fractional_shares \<Rightarrow> 'f fractional_shares \<Rightarrow> bool" where
  "shares_eq F a b = unwrap_or False (fl_eq F (shares_inner a) (shares_inner b))"

definition shares_partial_cmp ::
  "'f float_ops \<Rightarrow> 'f fractional_shares \<Rightarrow> 'f fractional_shares \<Rightarrow> ordering option" where
  "shares_partial_cmp F a b =
     (case result_ok (fl_lt F (shares_inner a) (shares_inner b)) of
        None \<Rightarrow> None
      | Some lt \<Rightarrow>
          if lt then Some Less
          else (case result_ok (fl_eq F (shares_inner a) (shares_inner b)) of
                  None \<Rightarrow> None
                | Some e \<Rightarrow> if e then Some Equal else Some Greater))"

text \<open>The operators \<^verbatim>\<open><\<close> and \<^verbatim>\<open>>\<close> that \<^verbatim>\<open>PartialOrd\<close> derives from \<^verbatim>\<open>partial_cmp\<close>.\<close>

definition shares_gt :: "'f float_ops \<Rightarrow> 'f fractional_shares \<Rightarrow> 'f fractional_shares \<Rightarrow> bool" where
  "shares_gt F a b = (shares_partial_cmp F a b = Some Greater)"

definition shares_lt :: "'f float_ops \<Rightarrow> 'f fractional_shares \<Rightarrow> 'f fractional_shares \<Rightarrow> bool" where
  "shares_lt F a b = (shares_partial_cmp F a b = Some Less)"

datatype 'f shares_conversion_error =
    SharesNegativeValue 'f
  | SharesFloatConversion float_error

definition to_u256_18_decimals ::
  "'f float_ops \<Rightarrow> 'f fractional_shares \<Rightarrow> 'f shares_conversion_error + u256" where
  "to_u256_18_decimals F s =
     tryr (map_err SharesFloatConversion (is_negative (shares_has_zero F) s)) (\<lambda>neg.
       if neg then Inl (SharesNegativeValue (shares_inner s))
       else tryr (map_err SharesFloatConversion (is_zero (shares_has_zero F) s)) (\<lambda>zero.
         if zero then Inr 0
         else map_err SharesFloatConversion
                (map_ok fst (fl_to_fixed_decimal_lossy F (shares_inner s) 18))))"

definition from_u256_18_decimals ::
  "'f float_ops \<Rightarrow> u256 \<Rightarrow> 'f shares_conversion_error + 'f fractional_shares" where
  "from_u256_18_decimals F value =
     (if value = 0 then Inr (shares_ZERO F)
      else map_err SharesFloatConversion
             (map_ok FractionalShares (fl_from_fixed_decimal F value 18)))"

section \<open>Usd and Usdc\<close>

definition usdc_ZERO :: "'f float_ops \<Rightarrow> 'f usdc" where
  "usdc_ZERO F = Usdc (fl_ZERO F)"

definition usdc_from_cents :: "'f float_ops \<Rightarrow> 64 word \<Rightarrow> 'f usdc option" where
  "usdc_from_cents F cents =
     (case (result_ok (fl_parse_int F (sint cents)), result_ok (fl_parse_int F 100)) of
        (Some cents_float, Some hundred) \<Rightarrow>
          map_option Usdc (result_ok (fl_div F cents_float hundred))
      | _ \<Rightarrow> None)"

definition shares_mul ::
  "'f float_ops \<Rightarrow> 'f fractional_shares \<Rightarrow> 'f \<Rightarrow> float_error + 'f fractional_shares" where
  "shares_mul F s rhs = map_ok FractionalShares (fl_mul F (shares_inner s) rhs)"

definition usdc_mul :: "'f float_ops \<Rightarrow> 'f usdc \<Rightarrow> 'f \<Rightarrow> float_error + 'f usdc" where
  "usdc_mul F u x = map_ok Usdc (fl_mul F (usdc_inner u) x)"

definition usdc_add :: "'f float_ops \<Rightarrow> 'f usdc \<Rightarrow> 'f usdc \<Rightarrow> float_error + 'f usdc" where
  "usdc_add F a b = map_ok Usdc (fl_add F (usdc_inner a) (usdc_inner b))"

definition usdc_sub :: "'f float_ops \<Rightarrow> 'f usdc \<Rightarrow> 'f usdc \<Rightarrow> float_error + 'f usdc" where
  "usdc_sub F a b = map_ok Usdc (fl_sub F (usdc_inner a) (usdc_inner b))"

datatype 'f usdc_conversion_error = UsdcNegativeValue 'f | UsdcFloat float_error

definition to_u256_6_decimals :: "'f float_ops \<Rightarrow> 'f usdc \<Rightarrow> 'f usdc_conversion_error + u256" where
  "to_u256_6_decimals F u =
     tryr (map_err UsdcFloat (fl_zero F)) (\<lambda>z.
     tryr (map_err UsdcFloat (fl_lt F (usdc_inner u) z)) (\<lambda>neg.
       if neg then Inl (UsdcNegativeValue (usdc_inner u))
       else map_err UsdcFloat (fl_to_fixed_decimal F (usdc_inner u) 6)))"

section \<open>Execution threshold\<close>

datatype 'f execution_threshold =
    Shares "'f fractional_shares positive"
  | DollarValue "'f usdc"

datatype 'f invalid_threshold_error =
    NegativeDollarValue "'f usdc"
  | ZeroDollarValue
  | ThresholdFloat float_error

definition dollar_value :: "'f float_ops \<Rightarrow> 'f usdc \<Rightarrow> 'f invalid_threshold_error + 'f execution_threshold" where
  "dollar_value F value =
     tryr (map_err ThresholdFloat (is_negative (usdc_has_zero F) value)) (\<lambda>neg.
       if neg then Inl (NegativeDollarValue value)
       else tryr (map_err ThresholdFloat (is_zero (usdc_has_zero F) value)) (\<lambda>zero.
         if zero then Inl ZeroDollarValue else Inr (DollarValue value)))"

section \<open>Laws\<close>

abbreviation sval :: "('f \<Rightarrow> rat) \<Rightarrow> 'f fractional_shares \<Rightarrow> rat" where
  "sval v s \<equiv> v (shares_inner s)"

text \<open>Signed value of a fill: buying adds shares, selling removes them.\<close>

definition signed :: "direction \<Rightarrow> rat \<Rightarrow> rat" where
  "signed d q = (case d of Buy \<Rightarrow> q | Sell \<Rightarrow> - q)"

lemma signed_simps [simp]: "signed Buy q = q" "signed Sell q = - q"
  by (simp_all add: signed_def)

lemma shares_has_zero_simps [simp]:
  "ZERO (shares_has_zero F) = shares_ZERO F"
  "is_zero (shares_has_zero F) s = fl_is_zero F (shares_inner s)"
  "is_negative (shares_has_zero F) s = fl_lt F (shares_inner s) (fl_ZERO F)"
  by (simp_all add: shares_has_zero_def shares_ZERO_def)

lemma sval_ZERO [simp]: "float_sem F v \<Longrightarrow> sval v (shares_ZERO F) = 0"
  by (simp add: shares_ZERO_def float_laws)

lemma shares_add_value: "float_sem F v \<Longrightarrow> shares_add F a b = Inr c \<Longrightarrow> sval v c = sval v a + sval v b"
  and shares_sub_value: "float_sem F v \<Longrightarrow> shares_sub F a b = Inr c \<Longrightarrow> sval v c = sval v a - sval v b"
  and shares_abs_value: "float_sem F v \<Longrightarrow> shares_abs F a = Inr c \<Longrightarrow> sval v c = \<bar>sval v a\<bar>"
  by (auto simp: shares_add_def shares_sub_def shares_abs_def float_laws)

lemma shares_gt_value:
  assumes "float_sem F v" and "shares_gt F a b"
  shows "sval v a > sval v b"
proof -
  have "fl_lt F (shares_inner a) (shares_inner b) = Inr False"
    and "fl_eq F (shares_inner a) (shares_inner b) = Inr False"
    using assms(2)
    by (auto simp: shares_gt_def shares_partial_cmp_def split: option.splits if_splits)
  then show ?thesis
    using float_sem_lt [OF assms(1)] float_sem_eq [OF assms(1)] by fastforce
qed

lemma not_shares_gt_value:
  assumes "float_sem F v" and "float_total F" and "\<not> shares_gt F a b"
  shows "sval v a \<le> sval v b"
proof -
  obtain x y where x: "fl_lt F (shares_inner a) (shares_inner b) = Inr x"
    and y: "fl_eq F (shares_inner a) (shares_inner b) = Inr y"
    using float_total_lt [OF assms(2)] float_total_eq [OF assms(2)] by blast
  from x y assms(3) have "x \<or> y"
    by (auto simp: shares_gt_def shares_partial_cmp_def split: if_splits)
  then show ?thesis
    using float_sem_lt [OF assms(1) x] float_sem_eq [OF assms(1) y] by auto
qed

lemma shares_total_add: "float_total F \<Longrightarrow> \<exists>c. shares_add F a b = Inr c"
  and shares_total_sub: "float_total F \<Longrightarrow> \<exists>c. shares_sub F a b = Inr c"
  and shares_total_abs: "float_total F \<Longrightarrow> \<exists>c. shares_abs F a = Inr c"
  by (simp_all add: shares_add_def shares_sub_def shares_abs_def
      float_total_add float_total_sub float_total_abs)

text \<open>
  \<^verbatim>\<open>Positive::new\<close> maps a failing comparison to \<open>false\<close>: it accepts the value then. Where the
  comparisons succeed it accepts exactly the values above zero.
\<close>

lemma positive_new_shares_value:
  assumes "float_sem F v" and "float_total F" and "positive_new (shares_has_zero F) s = Inr p"
  shows "positive_inner p = s \<and> 0 < sval v s"
proof -
  obtain z n where z: "fl_is_zero F (shares_inner s) = Inr z"
    and n: "fl_lt F (shares_inner s) (fl_ZERO F) = Inr n"
    using float_total_is_zero [OF assms(2)] float_total_lt [OF assms(2)] by blast
  from assms(3) z n have p: "p = Positive s" "\<not> z" "\<not> n"
    by (auto simp: positive_new_def Let_def split: if_splits)
  then have "sval v s \<noteq> 0" and "\<not> sval v s < 0"
    using float_sem_is_zero [OF assms(1) z] float_sem_lt [OF assms(1) n] float_sem_ZERO [OF assms(1)]
    by auto
  with p show ?thesis by simp
qed

lemma positive_new_shares_Inl_value:
  assumes "float_sem F v" and "positive_new (shares_has_zero F) s = Inl e"
  shows "sval v s \<le> 0"
proof -
  from assms(2) have "fl_is_zero F (shares_inner s) = Inr True \<or>
      fl_lt F (shares_inner s) (fl_ZERO F) = Inr True"
    by (auto simp: positive_new_def Let_def unwrap_or_def split: if_splits sum.splits)
  then show ?thesis
    using float_sem_is_zero [OF assms(1)] float_sem_lt [OF assms(1)] float_sem_ZERO [OF assms(1)]
    by fastforce
qed

end
