(* ===== verification/Execution_Types.thy ===== *)
theory Execution_Types
  imports Finance
begin

text \<open>
  The broker-facing vocabulary of \<^verbatim>\<open>crates/execution\<close> and the identifiers that
  \<^verbatim>\<open>src/position.rs\<close> and \<^verbatim>\<open>src/offchain/order.rs\<close> share: order identifiers, the broker's
  view of an order, market sessions and the reasons of a cancellation.
\<close>

datatype offchain_order_id = OffchainOrderId (as_uuid: uuid)

datatype client_order_id = Automated uuid | Cli uuid

definition client_order_id_from_uuid :: "uuid \<Rightarrow> client_order_id" where
  "client_order_id_from_uuid u = Automated u"

datatype cancellation_reason = MarketOpenReplacement | Unrequested

datatype market_session = Regular | Extended | Closed

datatype cancellation_outcome = Requested | OrderNotFound

datatype 'f order_state =
    OrderPending
  | OrderSubmitted executor_order_id
  | OrderPartiallyFilled executor_order_id "'f fractional_shares" "'f usd option" timestamp
  | OrderFilled timestamp executor_order_id "'f usd"
  | OrderCancelled timestamp executor_order_id "'f fractional_shares" "'f usd option"
  | OrderFailed timestamp "string option" "'f fractional_shares option" "'f usd option"

record 'f market_order =
  mo_symbol :: symbol
  mo_shares :: "'f fractional_shares positive"
  mo_direction :: direction
  mo_client_order_id :: client_order_id

record 'f limit_order =
  lo_symbol :: symbol
  lo_shares :: "'f fractional_shares positive"
  lo_direction :: direction
  lo_limit_price :: "'f usd positive"
  lo_extended_hours :: bool
  lo_client_order_id :: client_order_id

text \<open>A trade is identified by transaction hash and log index, ordered lexicographically.\<close>

datatype trade_id = TradeId (tid_tx_hash: tx_hash) (tid_log_index: u64)

instantiation trade_id :: linorder
begin

definition less_eq_trade_id :: "trade_id \<Rightarrow> trade_id \<Rightarrow> bool" where
  "less_eq_trade_id a b \<longleftrightarrow> tid_tx_hash a < tid_tx_hash b \<or>
     tid_tx_hash a = tid_tx_hash b \<and> tid_log_index a \<le> tid_log_index b"

definition less_trade_id :: "trade_id \<Rightarrow> trade_id \<Rightarrow> bool" where
  "less_trade_id a b \<longleftrightarrow> tid_tx_hash a < tid_tx_hash b \<or>
     tid_tx_hash a = tid_tx_hash b \<and> tid_log_index a < tid_log_index b"

instance
  by standard (auto simp: less_eq_trade_id_def less_trade_id_def trade_id.expand)

end

end
