(* ===== verification/Event_Sourcing.thy ===== *)
theory Event_Sourcing
  imports Prelude
begin

text \<open>
  The contract of the event-sourcing framework (\<^verbatim>\<open>st0x_event_sorcery\<close>, a third-party crate)
  as \<^verbatim>\<open>SPEC.md\<close> (EventSourced trait, Lifecycle wrapper) and \<^verbatim>\<open>docs/cqrs.md\<close> (Sending
  Commands) document it: an entity is \<open>Uninitialized\<close> until \<^verbatim>\<open>originate\<close> accepts an event,
  \<^verbatim>\<open>evolve\<close> moves it on, any rejected event makes the lifecycle fail, and a command is routed
  to \<^verbatim>\<open>initialize\<close> or \<^verbatim>\<open>transition\<close> by the lifecycle state. The framework's functions take
  the entity's four operations as arguments. The locale \<open>aggregate\<close> is the contract the
  repository's entities owe the framework: the events their command handlers emit are events
  their event handlers accept, and an entity invariant is kept.
\<close>

datatype 's lifecycle = Uninitialized | Live 's | FailedLifecycle

datatype 'err lifecycle_error = Apply 'err | OtherLifecycleError string

text \<open>\<^verbatim>\<open>SendError\<close>: a domain rejection, or an infrastructure failure of the store.\<close>

datatype 'err send_error = UserError "'err lifecycle_error" | InfrastructureError string

fun apply_event ::
  "('ev \<Rightarrow> 's option) \<Rightarrow> ('s \<Rightarrow> 'ev \<Rightarrow> 'err + 's option) \<Rightarrow> 's lifecycle \<Rightarrow> 'ev \<Rightarrow> 's lifecycle" where
  "apply_event originate evolve Uninitialized e =
     (case originate e of None \<Rightarrow> FailedLifecycle | Some s \<Rightarrow> Live s)"
| "apply_event originate evolve (Live s) e =
     (case evolve s e of Inr (Some s') \<Rightarrow> Live s' | _ \<Rightarrow> FailedLifecycle)"
| "apply_event originate evolve FailedLifecycle e = FailedLifecycle"

definition replay ::
  "('ev \<Rightarrow> 's option) \<Rightarrow> ('s \<Rightarrow> 'ev \<Rightarrow> 'err + 's option) \<Rightarrow> 's lifecycle \<Rightarrow> 'ev list \<Rightarrow> 's lifecycle" where
  "replay originate evolve = foldl (apply_event originate evolve)"

fun handle ::
  "('svc \<Rightarrow> 'cmd \<Rightarrow> 'err + 'ev list) \<Rightarrow> ('svc \<Rightarrow> 's \<Rightarrow> 'cmd \<Rightarrow> 'err + 'ev list) \<Rightarrow>
   's lifecycle \<Rightarrow> 'svc \<Rightarrow> 'cmd \<Rightarrow> 'err lifecycle_error + 'ev list" where
  "handle initialize transition Uninitialized sv c = map_err Apply (initialize sv c)"
| "handle initialize transition (Live s) sv c = map_err Apply (transition sv s c)"
| "handle initialize transition FailedLifecycle sv c = Inl (OtherLifecycleError ''failed'')"

text \<open>
  The event log of one entity under a sequence of commands: an accepted command appends its
  events, a rejected one changes nothing. A command comes with the services (and the clock
  reading) it is handled with.
\<close>

fun command_log ::
  "('ev \<Rightarrow> 's option) \<Rightarrow> ('s \<Rightarrow> 'ev \<Rightarrow> 'err + 's option) \<Rightarrow>
   ('svc \<Rightarrow> 'cmd \<Rightarrow> 'err + 'ev list) \<Rightarrow> ('svc \<Rightarrow> 's \<Rightarrow> 'cmd \<Rightarrow> 'err + 'ev list) \<Rightarrow>
   'ev list \<Rightarrow> ('svc \<times> 'cmd) list \<Rightarrow> 'ev list" where
  "command_log originate evolve initialize transition evlog [] = evlog"
| "command_log originate evolve initialize transition evlog ((sv, c) # cs) =
     (case handle initialize transition (replay originate evolve Uninitialized evlog) sv c of
        Inl _ \<Rightarrow> command_log originate evolve initialize transition evlog cs
      | Inr evs \<Rightarrow> command_log originate evolve initialize transition (evlog @ evs) cs)"

text \<open>
  \<^verbatim>\<open>Store<Entity>\<close> as its clients see it: two operations over a world \<open>'w\<close> (the database and
  whatever else runs beside it), each of which can fail.
\<close>

record ('w, 'id, 's, 'cmd, 'err) store =
  st_send :: "'id \<Rightarrow> 'cmd \<Rightarrow> 'w \<Rightarrow> ('err send_error + unit) \<times> 'w"
  st_load :: "'id \<Rightarrow> 'w \<Rightarrow> ('err send_error + 's option) \<times> 'w"

lemma replay_Nil [simp]: "replay og ev l [] = l"
  and replay_Cons [simp]: "replay og ev l (x # xs) = replay og ev (apply_event og ev l x) xs"
  and replay_append [simp]: "replay og ev l (xs @ ys) = replay og ev (replay og ev l xs) ys"
  by (simp_all add: replay_def)

lemma replay_failed [simp]: "replay og ev FailedLifecycle xs = FailedLifecycle"
  by (induction xs) auto

lemma replay_Live_not_Uninitialized: "replay og ev (Live s) xs \<noteq> Uninitialized"
proof (induction xs arbitrary: s)
  case (Cons x xs)
  show ?case
    by (cases "apply_event og ev (Live s) x") (auto simp: Cons split: sum.splits option.splits)
qed simp

lemma replay_Uninitialized_Nil: "replay og ev Uninitialized xs = Uninitialized \<longleftrightarrow> xs = []"
proof (cases xs)
  case (Cons y ys)
  then show ?thesis
    by (cases "og y") (auto simp: replay_Live_not_Uninitialized)
qed simp

lemma replay_Live_ConsE:
  assumes "replay og ev (Live s) (e # es) = Live s'"
  obtains s1 where "ev s e = Inr (Some s1)" "replay og ev (Live s1) es = Live s'"
  using assms by (cases "ev s e") (auto split: option.splits)

text \<open>Commands only append to the log.\<close>

lemma command_log_extends: "\<exists>es. command_log og ev ini tra evlog cs = evlog @ es"
proof (induction cs arbitrary: evlog)
  case (Cons x cs)
  obtain sv c where x: "x = (sv, c)" by (cases x)
  show ?case
  proof (cases "handle ini tra (replay og ev Uninitialized evlog) sv c")
    case (Inr evs)
    with x Cons.IH [of "evlog @ evs"] show ?thesis by auto
  qed (use x Cons.IH [of evlog] in simp)
qed simp

lemma command_log_snoc:
  "command_log og ev ini tra evlog (cs @ [(sv, c)]) =
   (case handle ini tra (replay og ev Uninitialized (command_log og ev ini tra evlog cs)) sv c of
      Inl _ \<Rightarrow> command_log og ev ini tra evlog cs
    | Inr evs \<Rightarrow> command_log og ev ini tra evlog cs @ evs)"
proof (induction cs arbitrary: evlog)
  case (Cons x cs)
  then show ?case by (cases x) (auto split: sum.split)
qed (simp split: sum.split)

text \<open>\<open>trail_in ps l\<close>: events satisfying \<open>ps\<close> occur in the log \<open>l\<close>, in this order.\<close>

fun trail_in :: "('ev \<Rightarrow> bool) list \<Rightarrow> 'ev list \<Rightarrow> bool" where
  "trail_in [] l = True"
| "trail_in (p # ps) [] = False"
| "trail_in (p # ps) (e # l) = (if p e then trail_in ps l else trail_in (p # ps) l)"

lemma trail_in_append: "trail_in ps l \<Longrightarrow> trail_in ps (l @ l')"
  by (induction ps l rule: trail_in.induct) (auto split: if_splits)

lemma trail_in_snoc: "trail_in ps l \<Longrightarrow> p e \<Longrightarrow> trail_in (ps @ [p]) (l @ [e])"
proof (induction ps l rule: trail_in.induct)
  case (1 l)
  then show ?case by (induction l) auto
qed (auto split: if_splits)

locale aggregate =
  fixes originate :: "'ev \<Rightarrow> 's option"
    and evolve :: "'s \<Rightarrow> 'ev \<Rightarrow> 'err + 's option"
    and initialize :: "'svc \<Rightarrow> 'cmd \<Rightarrow> 'err + 'ev list"
    and transition :: "'svc \<Rightarrow> 's \<Rightarrow> 'cmd \<Rightarrow> 'err + 'ev list"
    and inv :: "'s \<Rightarrow> bool"
  assumes init_sound: "initialize sv c = Inr evs \<Longrightarrow> evs \<noteq> [] \<Longrightarrow>
      \<exists>s. replay originate evolve Uninitialized evs = Live s \<and> inv s"
    and trans_sound: "inv s \<Longrightarrow> transition sv s c = Inr evs \<Longrightarrow>
      \<exists>s'. replay originate evolve (Live s) evs = Live s' \<and> inv s'"
begin

definition healthy :: "'s lifecycle \<Rightarrow> bool" where
  "healthy l = (case l of Uninitialized \<Rightarrow> True | Live s \<Rightarrow> inv s | FailedLifecycle \<Rightarrow> False)"

lemma handle_healthy:
  assumes "healthy l" and "handle initialize transition l sv c = Inr evs"
  shows "healthy (replay originate evolve l evs)"
proof (cases l)
  case Uninitialized
  with assms(2) show ?thesis
    by (cases "evs = []") (auto simp: healthy_def dest!: init_sound)
next
  case (Live s)
  with assms show ?thesis
    by (auto simp: healthy_def dest: trans_sound)
qed (use assms in \<open>simp add: healthy_def\<close>)

lemma command_log_healthy:
  "healthy (replay originate evolve Uninitialized evlog) \<Longrightarrow>
   healthy (replay originate evolve Uninitialized
     (command_log originate evolve initialize transition evlog cs))"
proof (induction cs arbitrary: evlog)
  case (Cons x cs)
  obtain sv c where x: "x = (sv, c)" by (cases x)
  show ?case
  proof (cases "handle initialize transition (replay originate evolve Uninitialized evlog) sv c")
    case (Inl e)
    with x Cons show ?thesis by simp
  next
    case (Inr evs)
    with Cons.prems have "healthy (replay originate evolve Uninitialized (evlog @ evs))"
      using handle_healthy by simp
    with Cons.IH x Inr show ?thesis by simp
  qed
qed simp

text \<open>No sequence of commands fails the lifecycle, and every state it reaches satisfies the invariant.\<close>

lemma commands_never_fail:
  "replay originate evolve Uninitialized
     (command_log originate evolve initialize transition [] cs) \<noteq> FailedLifecycle"
  using command_log_healthy [of "[]" cs] by (auto simp: healthy_def)

text \<open>
  Induction over the commands that led to a live entity: the batch that created it, then one
  accepted batch after the other.
\<close>

lemma commands_induct [consumes 1, case_names init step]:
  assumes "replay originate evolve Uninitialized
      (command_log originate evolve initialize transition [] cs) = Live s"
    and "\<And>sv c evs s. initialize sv c = Inr evs \<Longrightarrow>
      replay originate evolve Uninitialized evs = Live s \<Longrightarrow> P evs s"
    and "\<And>l s sv c evs s'. P l s \<Longrightarrow> inv s \<Longrightarrow> transition sv s c = Inr evs \<Longrightarrow>
      replay originate evolve (Live s) evs = Live s' \<Longrightarrow> P (l @ evs) s'"
  shows "P (command_log originate evolve initialize transition [] cs) s"
  using assms(1)
proof (induction cs arbitrary: s rule: rev_induct)
  case (snoc x cs)
  obtain sv c where x: "x = (sv, c)" by (cases x)
  let ?l = "command_log originate evolve initialize transition [] cs"
  show ?case
  proof (cases "handle initialize transition (replay originate evolve Uninitialized ?l) sv c")
    case (Inl e)
    then have same: "command_log originate evolve initialize transition [] (cs @ [x]) = ?l"
      by (simp add: x command_log_snoc)
    with snoc.prems show ?thesis by (simp only: same snoc.IH)
  next
    case (Inr evs)
    then have new: "command_log originate evolve initialize transition [] (cs @ [x]) = ?l @ evs"
      by (simp add: x command_log_snoc)
    show ?thesis
    proof (cases "replay originate evolve Uninitialized ?l")
      case Uninitialized
      with Inr new snoc.prems have "?l = []" "initialize sv c = Inr evs"
          "replay originate evolve Uninitialized evs = Live s"
        by (auto simp: replay_Uninitialized_Nil)
      with new assms(2) show ?thesis by simp
    next
      case (Live s1)
      with Inr new snoc.prems have "transition sv s1 c = Inr evs"
          "replay originate evolve (Live s1) evs = Live s"
        by auto
      moreover have "inv s1"
        using command_log_healthy [of "[]" cs] Live by (simp add: healthy_def)
      ultimately show ?thesis using new snoc.IH [OF Live] assms(3) by simp
    qed (use Inr in simp)
  qed
qed simp

lemma commands_invariant:
  "replay originate evolve Uninitialized
     (command_log originate evolve initialize transition [] cs) = Live s \<Longrightarrow> inv s"
  using command_log_healthy [of "[]" cs] by (auto simp: healthy_def)

end

text \<open>
  A fold over the log simulated by the state: if every accepted event moves the abstract value
  as it moves the state, the abstract value of a live entity is the fold of its log. This is the
  refinement rule of the read models that rebuild from the event log.
\<close>

locale log_abstraction =
  fixes originate :: "'ev \<Rightarrow> 's option"
    and evolve :: "'s \<Rightarrow> 'ev \<Rightarrow> 'err + 's option"
    and absf :: "'s \<Rightarrow> 'a"
    and start :: 'a
    and step :: "'a \<Rightarrow> 'ev \<Rightarrow> 'a"
  assumes originate_abs: "originate e = Some s \<Longrightarrow> absf s = step start e"
    and evolve_abs: "evolve s e = Inr (Some s') \<Longrightarrow> absf s' = step (absf s) e"
begin

lemma replay_Live_abs:
  "replay originate evolve (Live s) evlog = Live s' \<Longrightarrow> absf s' = foldl step (absf s) evlog"
proof (induction evlog arbitrary: s)
  case (Cons e evlog)
  then obtain s1 where "evolve s e = Inr (Some s1)"
    by (auto split: sum.splits option.splits)
  with Cons show ?case by (simp add: evolve_abs)
qed simp

lemma replay_abs:
  assumes "replay originate evolve Uninitialized evlog = Live s"
  shows "absf s = foldl step start evlog"
proof (cases evlog)
  case Nil
  with assms show ?thesis by simp
next
  case (Cons e es)
  with assms obtain s0 where "originate e = Some s0"
    by (auto split: option.splits)
  with assms Cons show ?thesis
    using replay_Live_abs [of s0 es s] by (simp add: originate_abs)
qed

end

section \<open>Store contract\<close>

text \<open>
  \<open>cmd_step c l l'\<close>: the log \<open>l\<close> accepts the command and becomes \<open>l'\<close>. The locale \<open>event_store\<close>
  is what the clients rely on: an acknowledged send has committed, a domain rejection has not, an
  infrastructure failure may have done either, other entities are untouched, and a load reports
  the replayed entity.
\<close>

definition cmd_step ::
  "('ev \<Rightarrow> 's option) \<Rightarrow> ('s \<Rightarrow> 'ev \<Rightarrow> 'err + 's option) \<Rightarrow>
   ('svc \<Rightarrow> 'cmd \<Rightarrow> 'err + 'ev list) \<Rightarrow> ('svc \<Rightarrow> 's \<Rightarrow> 'cmd \<Rightarrow> 'err + 'ev list) \<Rightarrow>
   'cmd \<Rightarrow> 'ev list \<Rightarrow> 'ev list \<Rightarrow> bool" where
  "cmd_step originate evolve initialize transition c l l' \<longleftrightarrow> (\<exists>sv evs.
     handle initialize transition (replay originate evolve Uninitialized l) sv c = Inr evs \<and>
     l' = l @ evs)"

locale event_store =
  fixes S :: "('w, 'id, 's, 'cmd, 'err) store"
    and evlog :: "'w \<Rightarrow> 'id \<Rightarrow> 'ev list"
    and originate :: "'ev \<Rightarrow> 's option"
    and evolve :: "'s \<Rightarrow> 'ev \<Rightarrow> 'err + 's option"
    and initialize :: "'svc \<Rightarrow> 'cmd \<Rightarrow> 'err + 'ev list"
    and transition :: "'svc \<Rightarrow> 's \<Rightarrow> 'cmd \<Rightarrow> 'err + 'ev list"
  assumes send_ok: "st_send S i c w = (Inr u, w') \<Longrightarrow>
      cmd_step originate evolve initialize transition c (evlog w i) (evlog w' i)"
    and send_rejected: "st_send S i c w = (Inl (UserError e), w') \<Longrightarrow> evlog w' i = evlog w i \<and>
      (\<exists>sv. handle initialize transition
        (replay originate evolve Uninitialized (evlog w i)) sv c = Inl e)"
    and send_infra: "st_send S i c w = (Inl (InfrastructureError m), w') \<Longrightarrow> evlog w' i = evlog w i \<or>
      cmd_step originate evolve initialize transition c (evlog w i) (evlog w' i)"
    and send_frame: "j \<noteq> i \<Longrightarrow> evlog (snd (st_send S i c w)) j = evlog w j"
    and load_some: "st_load S i w = (Inr (Some s), w') \<Longrightarrow>
      replay originate evolve Uninitialized (evlog w i) = Live s"
    and load_none: "st_load S i w = (Inr None, w') \<Longrightarrow>
      replay originate evolve Uninitialized (evlog w i) \<noteq> Live s"
    and load_frame: "evlog (snd (st_load S i w)) = evlog w"
begin

text \<open>A send leaves the log as it is or appends the batch the command yields.\<close>

lemma send_grows:
  assumes "st_send S i c w = (r, w')"
  shows "evlog w' i = evlog w i \<or>
    cmd_step originate evolve initialize transition c (evlog w i) (evlog w' i)"
proof (cases r)
  case (Inl e)
  with assms send_rejected send_infra show ?thesis by (cases e) blast+
next
  case (Inr u)
  with assms send_ok show ?thesis by blast
qed

lemma send_other: "st_send S i c w = (r, w') \<Longrightarrow> j \<noteq> i \<Longrightarrow> evlog w' j = evlog w j"
  using send_frame [of j i c w] by simp

lemma load_same: "st_load S i w = (r, w') \<Longrightarrow> evlog w' = evlog w"
  using load_frame [of i w] by simp

end

end
