(* ===== verification/Position.thy ===== *)
theory Position
  imports Execution_Types Event_Sourcing
begin

text \<open>
  The \<^verbatim>\<open>Position\<close> aggregate of \<^verbatim>\<open>src/position.rs\<close>: per-symbol exposure, the hedge order it is
  waiting for, the broker idempotency anchor and the two guards against double-counting a fill
  (ADR 0010). State is the record \<open>position\<close>, commands and events the source's enums (without
  the variants compiled for tests only), the handlers one function each. \<^verbatim>\<open>Utc::now()\<close> is the
  argument \<open>now\<close>; gauges and log lines have no state and are left out.
\<close>

section \<open>State, commands, events, errors\<close>

record 'f position =
  pos_symbol :: symbol
  net :: "'f fractional_shares"
  accumulated_long :: "'f fractional_shares"
  accumulated_short :: "'f fractional_shares"
  pending_offchain_order_id :: "offchain_order_id option"
  last_failed_offchain_order_id :: "offchain_order_id option"
  last_acknowledged_trade_id :: "trade_id option"
  pending_acknowledged_trade_ids :: "trade_id set"
  pos_threshold :: "'f execution_threshold"
  last_price_usdc :: "'f option"
  last_updated :: "timestamp option"

datatype 'f trigger_reason =
    SharesThreshold 'f 'f
  | DollarThreshold 'f 'f 'f 'f

datatype 'f position_error =
    Uninitialized
  | ThresholdNotMet "'f fractional_shares" "'f execution_threshold"
  | PendingExecution offchain_order_id
  | DuplicateTrade trade_id
  | ManualAdjustmentBlockedByPendingExecution offchain_order_id
  | ManualAdjustmentStateChanged "'f fractional_shares" "'f fractional_shares"
  | ManualAdjustmentRequiresPrice "'f fractional_shares"
  | ManualAdjustmentInvalidPrice "'f usdc"
  | NoPendingExecution
  | OffchainOrderIdMismatch offchain_order_id offchain_order_id
  | PositionFloat string

fun position_error_from_float :: "float_error \<Rightarrow> 'f position_error" where
  "position_error_from_float (FloatError msg) = PositionFloat msg"

datatype 'f position_command =
    AcknowledgeOnChainFill symbol "'f execution_threshold" trade_id "'f fractional_shares"
      direction 'f timestamp
  | SettleOnChainFill trade_id
  | PlaceOffChainOrder offchain_order_id "'f fractional_shares positive" direction
      supported_executor "'f execution_threshold"
  | CompleteOffChainOrder offchain_order_id "'f fractional_shares positive" direction
      executor_order_id "'f usd" timestamp
  | FailOffChainOrder offchain_order_id string
  | CancelOffChainOrder offchain_order_id cancellation_reason timestamp
  | UpdateThreshold "'f execution_threshold"
  | ManuallyAdjustPosition symbol "'f fractional_shares" string "'f execution_threshold"
      "'f fractional_shares option" "'f option"

datatype 'f position_event =
    Initialized symbol "'f execution_threshold" timestamp
  | OnChainOrderFilled trade_id "'f fractional_shares" direction 'f timestamp timestamp
  | OnChainFillApplied trade_id timestamp
  | OnChainFillSettled trade_id timestamp
  | OffChainOrderPlaced offchain_order_id "'f fractional_shares positive" direction
      supported_executor "'f trigger_reason" timestamp
  | OffChainOrderFilled offchain_order_id "'f fractional_shares positive" direction
      executor_order_id "'f usd" timestamp
  | OffChainOrderFailed offchain_order_id string timestamp
  | OffChainOrderCancelled offchain_order_id cancellation_reason timestamp
  | ThresholdUpdated "'f execution_threshold" "'f execution_threshold" timestamp
  | ManualPositionAdjusted "'f fractional_shares" "'f fractional_shares" string "'f option" timestamp

fun position_event_timestamp :: "'f position_event \<Rightarrow> timestamp" where
  "position_event_timestamp (Initialized _ _ initialized_at) = initialized_at"
| "position_event_timestamp (OnChainOrderFilled _ _ _ _ _ seen_at) = seen_at"
| "position_event_timestamp (OnChainFillApplied _ applied_at) = applied_at"
| "position_event_timestamp (OnChainFillSettled _ settled_at) = settled_at"
| "position_event_timestamp (OffChainOrderPlaced _ _ _ _ _ placed_at) = placed_at"
| "position_event_timestamp (OffChainOrderFilled _ _ _ _ _ broker_timestamp) = broker_timestamp"
| "position_event_timestamp (OffChainOrderFailed _ _ failed_at) = failed_at"
| "position_event_timestamp (OffChainOrderCancelled _ _ cancelled_at) = cancelled_at"
| "position_event_timestamp (ThresholdUpdated _ _ updated_at) = updated_at"
| "position_event_timestamp (ManualPositionAdjusted _ _ _ _ adjusted_at) = adjusted_at"

section \<open>Event side\<close>

fun position_originate :: "'f float_ops \<Rightarrow> 'f position_event \<Rightarrow> 'f position option" where
  "position_originate F (Initialized symbol threshold initialized_at) = Some \<lparr>
     pos_symbol = symbol,
     net = shares_ZERO F,
     accumulated_long = shares_ZERO F,
     accumulated_short = shares_ZERO F,
     pending_offchain_order_id = None,
     last_failed_offchain_order_id = None,
     last_acknowledged_trade_id = None,
     pending_acknowledged_trade_ids = {},
     pos_threshold = threshold,
     last_price_usdc = None,
     last_updated = Some initialized_at\<rparr>"
| "position_originate F _ = None"

fun position_evolve ::
  "'f float_ops \<Rightarrow> 'f position \<Rightarrow> 'f position_event \<Rightarrow> 'f position_error + 'f position option" where
  "position_evolve F p (OnChainOrderFilled trade_id amount Buy price_usdc _ seen_at) =
     tryr (map_err position_error_from_float (shares_add F (net p) amount)) (\<lambda>new_net.
     tryr (map_err position_error_from_float (shares_add F (accumulated_long p) amount)) (\<lambda>new_long.
       Inr (Some (p\<lparr>net := new_net, accumulated_long := new_long,
         last_acknowledged_trade_id := Some trade_id,
         last_price_usdc := Some price_usdc, last_updated := Some seen_at\<rparr>))))"
| "position_evolve F p (OnChainOrderFilled trade_id amount Sell price_usdc _ seen_at) =
     tryr (map_err position_error_from_float (shares_sub F (net p) amount)) (\<lambda>new_net.
     tryr (map_err position_error_from_float (shares_add F (accumulated_short p) amount)) (\<lambda>new_short.
       Inr (Some (p\<lparr>net := new_net, accumulated_short := new_short,
         last_acknowledged_trade_id := Some trade_id,
         last_price_usdc := Some price_usdc, last_updated := Some seen_at\<rparr>))))"
| "position_evolve F p (OnChainFillApplied trade_id _) =
     Inr (Some (p\<lparr>pending_acknowledged_trade_ids :=
       insert trade_id (pending_acknowledged_trade_ids p)\<rparr>))"
| "position_evolve F p (OnChainFillSettled trade_id _) =
     Inr (Some (p\<lparr>pending_acknowledged_trade_ids :=
       pending_acknowledged_trade_ids p - {trade_id}\<rparr>))"
| "position_evolve F p (OffChainOrderPlaced offchain_order_id _ _ _ _ placed_at) =
     (if pending_offchain_order_id p \<noteq> None then Inr None
      else Inr (Some (p\<lparr>pending_offchain_order_id := Some offchain_order_id,
             last_updated := Some placed_at\<rparr>)))"
| "position_evolve F p (OffChainOrderFilled offchain_order_id shares_filled direction _ _ broker_timestamp) =
     (if pending_offchain_order_id p \<noteq> Some offchain_order_id then Inr None
      else tryr (map_err position_error_from_float
             (case direction of
                Buy \<Rightarrow> shares_add F (net p) (positive_inner shares_filled)
              | Sell \<Rightarrow> shares_sub F (net p) (positive_inner shares_filled))) (\<lambda>new_net.
        Inr (Some (p\<lparr>net := new_net, pending_offchain_order_id := None,
          last_failed_offchain_order_id := None,
          last_updated := Some broker_timestamp\<rparr>))))"
| "position_evolve F p (OffChainOrderFailed offchain_order_id _ failed_at) =
     (if pending_offchain_order_id p \<noteq> Some offchain_order_id then Inr None
      else Inr (Some (p\<lparr>pending_offchain_order_id := None,
             last_failed_offchain_order_id :=
               option_or (last_failed_offchain_order_id p) (Some offchain_order_id),
             last_updated := Some failed_at\<rparr>)))"
| "position_evolve F p (OffChainOrderCancelled offchain_order_id _ cancelled_at) =
     (if pending_offchain_order_id p \<noteq> Some offchain_order_id then Inr None
      else Inr (Some (p\<lparr>pending_offchain_order_id := None,
             last_failed_offchain_order_id := None,
             last_updated := Some cancelled_at\<rparr>)))"
| "position_evolve F p (ThresholdUpdated _ new_threshold updated_at) =
     Inr (Some (p\<lparr>pos_threshold := new_threshold, last_updated := Some updated_at\<rparr>))"
| "position_evolve F p (ManualPositionAdjusted _ target_net _ price_usdc adjusted_at) =
     Inr (Some (p\<lparr>net := target_net,
       last_price_usdc := option_or price_usdc (last_price_usdc p),
       last_updated := Some adjusted_at,
       last_failed_offchain_order_id := None\<rparr>))"
| "position_evolve F p (Initialized _ _ _) = Inr None"

section \<open>Command side\<close>

definition acknowledge_on_chain_fill_init_events ::
  "symbol \<Rightarrow> 'f execution_threshold \<Rightarrow> trade_id \<Rightarrow> 'f fractional_shares \<Rightarrow> direction \<Rightarrow> 'f \<Rightarrow>
   timestamp \<Rightarrow> timestamp \<Rightarrow> 'f position_event list" where
  "acknowledge_on_chain_fill_init_events symbol threshold trade_id amount direction price_usdc
     block_timestamp seen_at =
     [Initialized symbol threshold seen_at,
      OnChainOrderFilled trade_id amount direction price_usdc block_timestamp seen_at,
      OnChainFillApplied trade_id seen_at]"

definition acknowledge_on_chain_fill_transition_events ::
  "'f position \<Rightarrow> trade_id \<Rightarrow> 'f fractional_shares \<Rightarrow> direction \<Rightarrow> 'f \<Rightarrow>
   timestamp \<Rightarrow> timestamp \<Rightarrow> 'f position_error + 'f position_event list" where
  "acknowledge_on_chain_fill_transition_events p trade_id amount direction price_usdc
     block_timestamp seen_at =
     (if last_acknowledged_trade_id p = Some trade_id \<or> trade_id \<in> pending_acknowledged_trade_ids p
      then Inl (DuplicateTrade trade_id)
      else Inr
        [OnChainOrderFilled trade_id amount direction price_usdc block_timestamp seen_at,
         OnChainFillApplied trade_id seen_at])"

definition create_trigger_reason ::
  "'f float_ops \<Rightarrow> 'f position \<Rightarrow> 'f execution_threshold \<Rightarrow>
   'f position_error + 'f trigger_reason option" where
  "create_trigger_reason F p threshold = (case threshold of
     Shares threshold_shares \<Rightarrow>
       tryr (map_err position_error_from_float (shares_abs F (net p))) (\<lambda>net_abs.
       let threshold_value = shares_inner (positive_inner threshold_shares) in
       tryr (map_err position_error_from_float (fl_gte F (shares_inner net_abs) threshold_value))
         (\<lambda>meets_threshold.
         Inr (if meets_threshold
              then Some (SharesThreshold (shares_inner net_abs) threshold_value) else None)))
   | DollarValue threshold_dollars \<Rightarrow>
       (case last_price_usdc p of
          None \<Rightarrow> Inr None
        | Some price \<Rightarrow>
            tryr (map_err position_error_from_float (shares_abs F (net p))) (\<lambda>net_abs.
            tryr (map_err position_error_from_float
                   (usdc_mul F (Usdc price) (shares_inner net_abs))) (\<lambda>value.
            tryr (map_err position_error_from_float
                   (fl_gte F (usdc_inner value) (usdc_inner threshold_dollars))) (\<lambda>met.
              Inr (if met
                   then Some (DollarThreshold (shares_inner (net p)) (usdc_inner value)
                          price (usdc_inner threshold_dollars))
                   else None))))))"

definition place_offchain_order_events ::
  "'f float_ops \<Rightarrow> 'f position \<Rightarrow> offchain_order_id \<Rightarrow> 'f fractional_shares positive \<Rightarrow> direction \<Rightarrow>
   supported_executor \<Rightarrow> timestamp \<Rightarrow> 'f position_error + 'f position_event list" where
  "place_offchain_order_events F p offchain_order_id shares direction executor placed_at =
     (case pending_offchain_order_id p of
        Some pending \<Rightarrow> Inl (PendingExecution pending)
      | None \<Rightarrow>
          tryr (create_trigger_reason F p (pos_threshold p)) (\<lambda>reason.
          tryr (ok_or (ThresholdNotMet (net p) (pos_threshold p)) reason) (\<lambda>trigger_reason.
            Inr [OffChainOrderPlaced offchain_order_id shares direction executor
                   trigger_reason placed_at])))"

definition validate_pending_execution ::
  "'f position \<Rightarrow> offchain_order_id \<Rightarrow> 'f position_error + unit" where
  "validate_pending_execution p offchain_order_id =
     (case pending_offchain_order_id p of
        None \<Rightarrow> Inl NoPendingExecution
      | Some pending_id \<Rightarrow>
          if pending_id \<noteq> offchain_order_id
          then Inl (OffchainOrderIdMismatch pending_id offchain_order_id)
          else Inr ())"

definition validate_manual_adjustment ::
  "'f float_ops \<Rightarrow> 'f fractional_shares option \<Rightarrow> 'f fractional_shares \<Rightarrow> 'f fractional_shares \<Rightarrow>
   'f execution_threshold \<Rightarrow> 'f option \<Rightarrow> 'f option \<Rightarrow> 'f position_error + unit" where
  "validate_manual_adjustment F expected_net current_net target_net threshold existing_price
     provided_price =
     tryr (case expected_net of
             None \<Rightarrow> Inr ()
           | Some expected \<Rightarrow>
               if \<not> shares_eq F expected current_net
               then Inl (ManualAdjustmentStateChanged expected current_net) else Inr ()) (\<lambda>_.
     tryr (case option_or provided_price existing_price of
             None \<Rightarrow> Inr ()
           | Some price \<Rightarrow>
               tryr (map_err position_error_from_float (fl_gt F price (fl_ZERO F))) (\<lambda>positive.
                 if \<not> positive then Inl (ManualAdjustmentInvalidPrice (Usdc price))
                 else Inr ())) (\<lambda>_.
     tryr (case threshold of
             DollarValue _ \<Rightarrow>
               tryr (map_err position_error_from_float
                      (is_zero (shares_has_zero F) target_net)) (\<lambda>zero.
                 Inr (\<not> zero \<and> existing_price = None \<and> provided_price = None))
           | Shares _ \<Rightarrow> Inr False) (\<lambda>needs_price.
       if needs_price then Inl (ManualAdjustmentRequiresPrice target_net) else Inr ())))"

definition is_ready_for_execution ::
  "'f float_ops \<Rightarrow> 'f position \<Rightarrow> 'f fractional_shares positive option \<Rightarrow>
   'f position_error + (direction \<times> 'f fractional_shares) option" where
  "is_ready_for_execution F p shares_limit =
     (if pending_offchain_order_id p \<noteq> None then Inr None
      else tryr (create_trigger_reason F p (pos_threshold p)) (\<lambda>trigger.
        case trigger of
          None \<Rightarrow> Inr None
        | Some _ \<Rightarrow>
            tryr (map_err position_error_from_float (shares_abs F (net p))) (\<lambda>raw_shares.
            let capped_shares = (case shares_limit of
                  None \<Rightarrow> raw_shares
                | Some cap \<Rightarrow> if shares_gt F raw_shares (positive_inner cap)
                              then positive_inner cap else raw_shares) in
            tryr (map_err position_error_from_float
                   (is_zero (shares_has_zero F) capped_shares)) (\<lambda>zero.
            if zero then Inr None
            else tryr (map_err position_error_from_float
                        (is_negative (shares_has_zero F) (net p))) (\<lambda>negative.
              Inr (Some (if negative then Buy else Sell, capped_shares)))))))"

fun position_initialize ::
  "'f float_ops \<Rightarrow> timestamp \<Rightarrow> 'f position_command \<Rightarrow> 'f position_error + 'f position_event list" where
  "position_initialize F now (AcknowledgeOnChainFill symbol threshold trade_id amount direction
       price_usdc block_timestamp) =
     Inr (acknowledge_on_chain_fill_init_events symbol threshold trade_id amount direction
       price_usdc block_timestamp now)"
| "position_initialize F now (SettleOnChainFill _) = Inr []"
| "position_initialize F now (ManuallyAdjustPosition symbol target_net reason threshold
       expected_net price_usdc) =
     tryr (validate_manual_adjustment F expected_net (shares_ZERO F) target_net threshold None
            price_usdc) (\<lambda>_.
       Inr [Initialized symbol threshold now,
            ManualPositionAdjusted (shares_ZERO F) target_net reason price_usdc now])"
| "position_initialize F now _ = Inl position_error.Uninitialized"

fun position_transition ::
  "'f float_ops \<Rightarrow> timestamp \<Rightarrow> 'f position \<Rightarrow> 'f position_command \<Rightarrow>
   'f position_error + 'f position_event list" where
  "position_transition F now p (AcknowledgeOnChainFill _ _ trade_id amount direction price_usdc
       block_timestamp) =
     acknowledge_on_chain_fill_transition_events p trade_id amount direction price_usdc
       block_timestamp now"
| "position_transition F now p (SettleOnChainFill trade_id) =
     (if trade_id \<in> pending_acknowledged_trade_ids p
      then Inr [OnChainFillSettled trade_id now] else Inr [])"
| "position_transition F now p (PlaceOffChainOrder offchain_order_id shares direction executor _) =
     place_offchain_order_events F p offchain_order_id shares direction executor now"
| "position_transition F now p (CompleteOffChainOrder offchain_order_id shares_filled direction
       executor_order_id price broker_timestamp) =
     tryr (validate_pending_execution p offchain_order_id) (\<lambda>_.
       Inr [OffChainOrderFilled offchain_order_id shares_filled direction executor_order_id price
              broker_timestamp])"
| "position_transition F now p (FailOffChainOrder offchain_order_id error) =
     tryr (validate_pending_execution p offchain_order_id) (\<lambda>_.
       Inr [OffChainOrderFailed offchain_order_id error now])"
| "position_transition F now p (CancelOffChainOrder offchain_order_id reason cancelled_at) =
     tryr (validate_pending_execution p offchain_order_id) (\<lambda>_.
       Inr [OffChainOrderCancelled offchain_order_id reason cancelled_at])"
| "position_transition F now p (UpdateThreshold threshold) =
     Inr [ThresholdUpdated (pos_threshold p) threshold now]"
| "position_transition F now p (ManuallyAdjustPosition _ target_net reason _ expected_net price_usdc) =
     (case pending_offchain_order_id p of
        Some pending \<Rightarrow> Inl (ManualAdjustmentBlockedByPendingExecution pending)
      | None \<Rightarrow>
          tryr (validate_manual_adjustment F expected_net (net p) target_net (pos_threshold p)
                 (last_price_usdc p) price_usdc) (\<lambda>_.
            Inr [ManualPositionAdjusted (net p) target_net reason price_usdc now]))"

section \<open>Invariant\<close>

definition position_inv :: "'f position \<Rightarrow> bool" where
  "position_inv p \<longleftrightarrow> finite (pending_acknowledged_trade_ids p) \<and>
     (last_acknowledged_trade_id p = None \<longrightarrow> pending_acknowledged_trade_ids p = {})"

lemmas position_handler_defs [agg_defs] =
  acknowledge_on_chain_fill_init_events_def acknowledge_on_chain_fill_transition_events_def
  place_offchain_order_events_def validate_pending_execution_def

lemma position_evolve_fill:
  assumes "float_total F"
  shows "\<exists>p'. position_evolve F p (OnChainOrderFilled t a d pr bt sa) = Inr (Some p') \<and>
    pending_acknowledged_trade_ids p' = pending_acknowledged_trade_ids p \<and>
    last_acknowledged_trade_id p' = Some t"
proof -
  obtain x y z w where "shares_add F (net p) a = Inr x" "shares_sub F (net p) a = Inr y"
    "shares_add F (accumulated_long p) a = Inr z" "shares_add F (accumulated_short p) a = Inr w"
    using shares_total_add [OF assms] shares_total_sub [OF assms] by meson
  then show ?thesis by (cases d) simp_all
qed

lemma position_evolve_offchain_fill:
  assumes "float_total F" and "pending_offchain_order_id p = Some oid"
  shows "\<exists>p'. position_evolve F p (OffChainOrderFilled oid q d eo pr ts) = Inr (Some p') \<and>
    pending_acknowledged_trade_ids p' = pending_acknowledged_trade_ids p \<and>
    last_acknowledged_trade_id p' = last_acknowledged_trade_id p"
proof -
  obtain x y where "shares_add F (net p) (positive_inner q) = Inr x"
    "shares_sub F (net p) (positive_inner q) = Inr y"
    using shares_total_add [OF assms(1)] shares_total_sub [OF assms(1)] by blast
  with assms(2) show ?thesis by (cases d) simp_all
qed

text \<open>
  Every batch a command handler emits is accepted by the event side: the events of an accepted
  command never fail the lifecycle.
\<close>

lemma position_trans_sound:
  assumes "float_total F" and "position_inv p" and "position_transition F now p c = Inr evs"
  shows "\<exists>p'. replay (position_originate F) (position_evolve F) (Live p) evs = Live p' \<and> position_inv p'"
proof (cases c)
  case (AcknowledgeOnChainFill sym th t a d pr bt)
  obtain p' where "position_evolve F p (OnChainOrderFilled t a d pr bt now) = Inr (Some p')"
    "pending_acknowledged_trade_ids p' = pending_acknowledged_trade_ids p"
    "last_acknowledged_trade_id p' = Some t"
    using position_evolve_fill [OF assms(1)] by blast
  with AcknowledgeOnChainFill assms show ?thesis
    by (auto simp: agg_defs position_inv_def split: if_splits)
next
  case (CompleteOffChainOrder oid q d eo pr ts)
  with assms have "pending_offchain_order_id p = Some oid"
    by (auto simp: agg_defs split: option.splits if_splits)
  from position_evolve_offchain_fill [OF assms(1) this]
  obtain p' where "position_evolve F p (OffChainOrderFilled oid q d eo pr ts) = Inr (Some p')"
    "pending_acknowledged_trade_ids p' = pending_acknowledged_trade_ids p"
    "last_acknowledged_trade_id p' = last_acknowledged_trade_id p"
    by blast
  with CompleteOffChainOrder assms show ?thesis
    by (auto simp: agg_defs position_inv_def split: option.splits if_splits)
qed (use assms in \<open>auto simp: agg_defs position_inv_def split: option.splits if_splits\<close>)

lemma position_init_sound:
  assumes "float_total F" and "position_initialize F now c = Inr evs" and "evs \<noteq> []"
  shows "\<exists>p. replay (position_originate F) (position_evolve F) lifecycle.Uninitialized evs = Live p \<and>
    position_inv p"
proof (cases c)
  case (AcknowledgeOnChainFill sym th t a d pr bt)
  let ?p0 = "the (position_originate F (Initialized sym th now))"
  obtain p' where "position_evolve F ?p0 (OnChainOrderFilled t a d pr bt now) = Inr (Some p')"
    "pending_acknowledged_trade_ids p' = pending_acknowledged_trade_ids ?p0"
    "last_acknowledged_trade_id p' = Some t"
    using position_evolve_fill [OF assms(1)] by blast
  with AcknowledgeOnChainFill assms show ?thesis
    by (auto simp: agg_defs position_inv_def)
qed (use assms in \<open>auto simp: position_inv_def\<close>)

lemma position_aggregate:
  "float_total F \<Longrightarrow> aggregate (position_originate F) (position_evolve F)
     (position_initialize F) (position_transition F) position_inv"
  by unfold_locales (auto dest: position_init_sound position_trans_sound)

interpretation pos_exact: aggregate "position_originate exact_rat" "position_evolve exact_rat"
  "position_initialize exact_rat" "position_transition exact_rat" position_inv
  by (rule position_aggregate [OF exact_rat_total])

section \<open>Ledger\<close>

text \<open>
  The abstract specification of the position's quantities: a ledger of net exposure and the
  totals bought and sold onchain. Only fills and manual adjustments move it.
\<close>

record ledger =
  led_net :: rat
  led_long :: rat
  led_short :: rat

fun ledger_step :: "('f \<Rightarrow> rat) \<Rightarrow> ledger \<Rightarrow> 'f position_event \<Rightarrow> ledger" where
  "ledger_step v l (OnChainOrderFilled _ a d _ _ _) =
     \<lparr>led_net = led_net l + signed d (sval v a),
      led_long = led_long l + (if d = Buy then sval v a else 0),
      led_short = led_short l + (if d = Sell then sval v a else 0)\<rparr>"
| "ledger_step v l (OffChainOrderFilled _ q d _ _ _) =
     l\<lparr>led_net := led_net l + signed d (sval v (positive_inner q))\<rparr>"
| "ledger_step v l (ManualPositionAdjusted _ target _ _ _) = l\<lparr>led_net := sval v target\<rparr>"
| "ledger_step v l _ = l"

definition ledger_zero :: ledger where
  "ledger_zero = \<lparr>led_net = 0, led_long = 0, led_short = 0\<rparr>"

definition position_ledger :: "('f \<Rightarrow> rat) \<Rightarrow> 'f position \<Rightarrow> ledger" where
  "position_ledger v p = \<lparr>led_net = sval v (net p), led_long = sval v (accumulated_long p),
     led_short = sval v (accumulated_short p)\<rparr>"

lemma position_evolve_ledger:
  assumes sem: "float_sem F v" and step: "position_evolve F p e = Inr (Some p')"
  shows "position_ledger v p' = ledger_step v (position_ledger v p) e"
proof (cases e)
  case (OnChainOrderFilled t a d pr bt sa)
  with step show ?thesis
    by (cases d) (auto simp: position_ledger_def shares_add_value [OF sem] shares_sub_value [OF sem])
next
  case (OffChainOrderFilled oid q d eo pr ts)
  with step show ?thesis
    by (cases d) (auto simp: position_ledger_def shares_add_value [OF sem] shares_sub_value [OF sem]
        split: if_splits)
qed (use step in \<open>auto simp: position_ledger_def split: if_splits\<close>)

lemma position_log_abstraction:
  "float_sem F v \<Longrightarrow> log_abstraction (position_originate F) (position_evolve F)
     (position_ledger v) ledger_zero (ledger_step v)"
proof unfold_locales
  fix e p assume "float_sem F v" and "position_originate F e = Some p"
  then show "position_ledger v p = ledger_step v ledger_zero e"
    by (cases e) (auto simp: position_ledger_def ledger_zero_def)
qed (rule position_evolve_ledger)

interpretation pos_ledger: log_abstraction "position_originate exact_rat" "position_evolve exact_rat"
  "position_ledger (\<lambda>x. x)" ledger_zero "ledger_step (\<lambda>x. x)"
  by (rule position_log_abstraction [OF exact_rat_sem])


section \<open>Frame lemmas\<close>

text \<open>Only an \<open>OnChainFillSettled t\<close> event takes \<open>t\<close> out of the pending set.\<close>

lemma position_evolve_keeps_pending:
  "position_evolve F p e = Inr (Some p') \<Longrightarrow> t \<in> pending_acknowledged_trade_ids p \<Longrightarrow>
   (\<forall>ts. e \<noteq> OnChainFillSettled t ts) \<Longrightarrow> t \<in> pending_acknowledged_trade_ids p'"
  by (induction F p e rule: position_evolve.induct) (auto split: if_splits)

lemma position_replay_keeps_pending:
  "replay (position_originate F) (position_evolve F) (Live p) es = Live p' \<Longrightarrow>
   t \<in> pending_acknowledged_trade_ids p \<Longrightarrow> (\<forall>ts. OnChainFillSettled t ts \<notin> set es) \<Longrightarrow>
   t \<in> pending_acknowledged_trade_ids p'"
proof (induction es arbitrary: p)
  case (Cons e es)
  from Cons.prems(1) obtain p1 where "position_evolve F p e = Inr (Some p1)"
    and rest: "replay (position_originate F) (position_evolve F) (Live p1) es = Live p'"
    by (rule replay_Live_ConsE)
  with Cons.prems have "t \<in> pending_acknowledged_trade_ids p1"
    by (auto intro: position_evolve_keeps_pending)
  with Cons rest show ?case by auto
qed simp

lemma position_replay_applied:
  assumes "replay (position_originate F) (position_evolve F) l (es @ [OnChainFillApplied t ts]) = Live p"
  shows "t \<in> pending_acknowledged_trade_ids p"
  using assms
  by (cases "replay (position_originate F) (position_evolve F) l es") auto

text \<open>
  The anchor survives every event but a fill, an intentional cancellation and a manual
  adjustment.
\<close>

fun clears_anchor :: "'f position_event \<Rightarrow> bool" where
  "clears_anchor (OffChainOrderFilled _ _ _ _ _ _) = True"
| "clears_anchor (OffChainOrderCancelled _ _ _) = True"
| "clears_anchor (ManualPositionAdjusted _ _ _ _ _) = True"
| "clears_anchor _ = False"

lemma position_evolve_keeps_anchor:
  "position_evolve F p e = Inr (Some p') \<Longrightarrow> last_failed_offchain_order_id p = Some oid \<Longrightarrow>
   \<not> clears_anchor e \<Longrightarrow> last_failed_offchain_order_id p' = Some oid"
  by (induction F p e rule: position_evolve.induct) (auto split: if_splits)

lemma position_replay_keeps_anchor:
  "replay (position_originate F) (position_evolve F) (Live p) es = Live p' \<Longrightarrow>
   last_failed_offchain_order_id p = Some oid \<Longrightarrow> (\<forall>e\<in>set es. \<not> clears_anchor e) \<Longrightarrow>
   last_failed_offchain_order_id p' = Some oid"
proof (induction es arbitrary: p)
  case (Cons e es)
  from Cons.prems(1) obtain p1 where "position_evolve F p e = Inr (Some p1)"
    and rest: "replay (position_originate F) (position_evolve F) (Live p1) es = Live p'"
    by (rule replay_Live_ConsE)
  with Cons.prems have "last_failed_offchain_order_id p1 = Some oid"
    by (auto intro: position_evolve_keeps_anchor)
  with Cons rest show ?case by auto
qed simp

text \<open>
  The orders a log opens and closes, in order: a pending order is closed by its own fill,
  failure or cancellation before another is placed.
\<close>

fun order_flow :: "offchain_order_id option \<Rightarrow> 'f position_event list \<Rightarrow> offchain_order_id option option" where
  "order_flow pending [] = Some pending"
| "order_flow pending (OffChainOrderPlaced oid _ _ _ _ _ # es) =
     (if pending = None then order_flow (Some oid) es else None)"
| "order_flow pending (OffChainOrderFilled oid _ _ _ _ _ # es) =
     (if pending = Some oid then order_flow None es else None)"
| "order_flow pending (OffChainOrderFailed oid _ _ # es) =
     (if pending = Some oid then order_flow None es else None)"
| "order_flow pending (OffChainOrderCancelled oid _ _ # es) =
     (if pending = Some oid then order_flow None es else None)"
| "order_flow pending (_ # es) = order_flow pending es"

lemma position_evolve_order_flow:
  "position_evolve F p e = Inr (Some p') \<Longrightarrow>
   order_flow (pending_offchain_order_id p) (e # es) = order_flow (pending_offchain_order_id p') es"
  by (induction F p e rule: position_evolve.induct) (auto split: if_splits)

lemma position_replay_order_flow:
  "replay (position_originate F) (position_evolve F) (Live p) es = Live p' \<Longrightarrow>
   order_flow (pending_offchain_order_id p) es = Some (pending_offchain_order_id p')"
proof (induction es arbitrary: p)
  case (Cons e es)
  from Cons.prems obtain p1 where e: "position_evolve F p e = Inr (Some p1)"
    and rest: "replay (position_originate F) (position_evolve F) (Live p1) es = Live p'"
    by (rule replay_Live_ConsE)
  from Cons.IH [OF rest] show ?case
    by (simp add: position_evolve_order_flow [OF e])
qed simp

section \<open>Execution readiness\<close>

lemma is_ready_SomeE:
  assumes "is_ready_for_execution F p limit = Inr (Some (d, s))"
  obtains r raw n where "pending_offchain_order_id p = None"
    and "create_trigger_reason F p (pos_threshold p) = Inr (Some r)"
    and "shares_abs F (net p) = Inr raw"
    and "s = (case limit of None \<Rightarrow> raw
           | Some cap \<Rightarrow> if shares_gt F raw (positive_inner cap) then positive_inner cap else raw)"
    and "fl_is_zero F (shares_inner s) = Inr False"
    and "fl_lt F (shares_inner (net p)) (fl_ZERO F) = Inr n"
    and "d = (if n then Buy else Sell)"
  using assms
  by (auto simp: is_ready_for_execution_def Let_def split: if_splits option.splits)

text \<open>A ready hedge is positive, no larger than the exposure, and against it.\<close>

lemma is_ready_bounds:
  assumes sem: "float_sem F v" and ready: "is_ready_for_execution F p limit = Inr (Some (d, s))"
    and lim_pos: "\<And>cap. limit = Some cap \<Longrightarrow> 0 < sval v (positive_inner cap)"
  shows "0 < sval v s \<and> sval v s \<le> \<bar>sval v (net p)\<bar> \<and>
    d = (if sval v (net p) < 0 then Buy else Sell)"
proof -
  from ready obtain raw n where raw: "shares_abs F (net p) = Inr raw"
    and s: "s = (case limit of None \<Rightarrow> raw
           | Some cap \<Rightarrow> if shares_gt F raw (positive_inner cap) then positive_inner cap else raw)"
    and z: "fl_is_zero F (shares_inner s) = Inr False"
    and n: "fl_lt F (shares_inner (net p)) (fl_ZERO F) = Inr n" "d = (if n then Buy else Sell)"
    by (rule is_ready_SomeE)
  have raw_v: "sval v raw = \<bar>sval v (net p)\<bar>"
    by (rule shares_abs_value [OF sem raw])
  have nz: "sval v s \<noteq> 0" using float_sem_is_zero [OF sem z] by simp
  have "n = (sval v (net p) < 0)"
    using float_sem_lt [OF sem n(1)] float_sem_ZERO [OF sem] by simp
  moreover have "0 < sval v s \<and> sval v s \<le> sval v raw"
  proof (cases "\<exists>cap. limit = Some cap \<and> shares_gt F raw (positive_inner cap)")
    case True
    then obtain cap where cap: "limit = Some cap" and gt: "shares_gt F raw (positive_inner cap)"
      by blast
    with s have "s = positive_inner cap" by simp
    with lim_pos [OF cap] shares_gt_value [OF sem gt] show ?thesis by simp
  next
    case False
    with s have "s = raw" by (auto split: option.splits)
    with nz raw_v show ?thesis by simp
  qed
  ultimately show ?thesis using raw_v n(2) by simp
qed

section \<open>Properties\<close>

text \<open>
  No sequence of commands drives a position into the failed lifecycle: every event an
  accepted command emits is accepted by \<^verbatim>\<open>evolve\<close>, as long as \<^verbatim>\<open>Float\<close> arithmetic itself
  does not fail, and every state reached keeps the invariant of the duplicate guards.
\<close>

theorem position_commands_never_fail:
  assumes "float_total F"
  shows "replay (position_originate F) (position_evolve F) lifecycle.Uninitialized
      (command_log (position_originate F) (position_evolve F) (position_initialize F)
        (position_transition F) [] cs) \<noteq> FailedLifecycle \<and>
    (\<forall>p. replay (position_originate F) (position_evolve F) lifecycle.Uninitialized
      (command_log (position_originate F) (position_evolve F) (position_initialize F)
        (position_transition F) [] cs) = Live p \<longrightarrow> position_inv p)"
  using aggregate.commands_never_fail [OF position_aggregate [OF assms], of cs]
    aggregate.commands_invariant [OF position_aggregate [OF assms], of cs]
  by blast

definition demo_threshold :: "rat execution_threshold" where
  "demo_threshold = Shares (Positive (FractionalShares 1))"

definition demo_fill :: "trade_id \<Rightarrow> rat \<Rightarrow> rat position_command" where
  "demo_fill t q = AcknowledgeOnChainFill ''AAPL'' demo_threshold t (FractionalShares q) Buy 100 0"

theorem position_commands_never_fail_witness:
  "float_total exact_rat \<and>
   replay (position_originate exact_rat) (position_evolve exact_rat) lifecycle.Uninitialized
      (command_log (position_originate exact_rat) (position_evolve exact_rat)
        (position_initialize exact_rat) (position_transition exact_rat) []
        [(1, demo_fill (TradeId 1 0) 2), (2, UpdateThreshold demo_threshold)]) \<noteq> FailedLifecycle"
  using exact_rat_total position_commands_never_fail [OF exact_rat_total] by blast

text \<open>
  C10. Replaying a position's event log yields the ledger of the log: net exposure is the signed
  sum of onchain and offchain fills since the last manual adjustment, and the accumulated totals
  are the sums bought and sold onchain.
\<close>

theorem position_replay_is_ledger:
  assumes "float_sem F v"
    and "replay (position_originate F) (position_evolve F) lifecycle.Uninitialized evlog = Live p"
  shows "position_ledger v p = foldl (ledger_step v) ledger_zero evlog"
  by (rule log_abstraction.replay_abs [OF position_log_abstraction [OF assms(1)] assms(2)])

definition demo_log :: "rat position_event list" where
  "demo_log = [Initialized ''AAPL'' demo_threshold 1,
     OnChainOrderFilled (TradeId 1 0) (FractionalShares 5) Buy 100 0 1,
     OffChainOrderPlaced (OffchainOrderId 7) (Positive (FractionalShares 5)) Sell DryRun
       (SharesThreshold 5 1) 2,
     OffChainOrderFilled (OffchainOrderId 7) (Positive (FractionalShares 4)) Sell ''x''
       (Usd 100) 3]"

theorem position_replay_is_ledger_witness:
  "float_sem exact_rat (\<lambda>x. x) \<and>
   (\<exists>p. replay (position_originate exact_rat) (position_evolve exact_rat)
          lifecycle.Uninitialized demo_log = Live p \<and>
        position_ledger (\<lambda>x. x) p = \<lparr>led_net = 1, led_long = 5, led_short = 0\<rparr>)"
proof -
  obtain p where p: "replay (position_originate exact_rat) (position_evolve exact_rat)
      lifecycle.Uninitialized demo_log = Live p"
    by (simp add: demo_log_def exact_rat_ops shares_add_def shares_sub_def)
  from position_replay_is_ledger [OF exact_rat_sem p]
  have "position_ledger (\<lambda>x. x) p = \<lparr>led_net = 1, led_long = 5, led_short = 0\<rparr>"
    by (simp add: demo_log_def ledger_zero_def)
  with p exact_rat_sem show ?thesis by blast
qed

text \<open>
  Once a fill has been applied, acknowledging it again is rejected as a duplicate however
  many other events intervene, until the fill is settled (ADR 0010).
\<close>

theorem applied_fill_rejected_until_settled:
  assumes "replay (position_originate F) (position_evolve F) lifecycle.Uninitialized
      (before @ [OnChainFillApplied t ts]) = Live p"
    and "replay (position_originate F) (position_evolve F) (Live p) mid = Live p'"
    and "\<forall>ts'. OnChainFillSettled t ts' \<notin> set mid"
  shows "position_transition F now p' (AcknowledgeOnChainFill sy th t a d pr bt) =
    Inl (DuplicateTrade t)"
proof -
  have "t \<in> pending_acknowledged_trade_ids p'"
    using position_replay_keeps_pending [OF assms(2) position_replay_applied [OF assms(1)] assms(3)] .
  then show ?thesis by (simp add: agg_defs)
qed

theorem applied_fill_rejected_until_settled_witness:
  "\<exists>p'. replay (position_originate exact_rat) (position_evolve exact_rat) lifecycle.Uninitialized
      ((take 2 demo_log @ [OnChainFillApplied (TradeId 1 0) 1]) @
       [OnChainOrderFilled (TradeId 2 0) (FractionalShares 3) Sell 100 0 2,
        OnChainFillApplied (TradeId 2 0) 2, OnChainFillSettled (TradeId 2 0) 3]) = Live p' \<and>
    last_acknowledged_trade_id p' = Some (TradeId 2 0) \<and>
    position_transition exact_rat 9 p' (demo_fill (TradeId 1 0) 5) =
      Inl (DuplicateTrade (TradeId 1 0))"
proof -
  let ?before = "take 2 demo_log"
  let ?mid = "[OnChainOrderFilled (TradeId 2 0) (FractionalShares 3) Sell 100 0 2,
      OnChainFillApplied (TradeId 2 0) 2, OnChainFillSettled (TradeId 2 0) 3] :: rat position_event list"
  obtain p where p: "replay (position_originate exact_rat) (position_evolve exact_rat)
      lifecycle.Uninitialized (?before @ [OnChainFillApplied (TradeId 1 0) 1]) = Live p"
    by (simp add: demo_log_def exact_rat_ops shares_add_def shares_sub_def)
  obtain p' where p': "replay (position_originate exact_rat) (position_evolve exact_rat)
      (Live p) ?mid = Live p'" and slot: "last_acknowledged_trade_id p' = Some (TradeId 2 0)"
    by (simp add: exact_rat_ops shares_add_def shares_sub_def)
  have "position_transition exact_rat 9 p' (demo_fill (TradeId 1 0) 5) =
      Inl (DuplicateTrade (TradeId 1 0))"
    unfolding demo_fill_def by (rule applied_fill_rejected_until_settled [OF p p']) simp
  moreover have "replay (position_originate exact_rat) (position_evolve exact_rat)
      lifecycle.Uninitialized ((?before @ [OnChainFillApplied (TradeId 1 0) 1]) @ ?mid) = Live p'"
    by (subst replay_append) (simp only: p p')
  ultimately show ?thesis using slot by blast
qed


text \<open>
  A hedge the position is ready for works against the exposure and never overshoots it:
  filling any part of it brings the net closer to zero by exactly the filled quantity and does
  not flip its sign. The quantity also respects the operational limit.
\<close>

theorem ready_hedge_reduces_exposure:
  assumes sem: "float_sem F v"
    and ready: "is_ready_for_execution F p limit = Inr (Some (d, s))"
    and lim_pos: "\<And>cap. limit = Some cap \<Longrightarrow> 0 < sval v (positive_inner cap)"
    and filled: "0 < sval v (positive_inner q)" "sval v (positive_inner q) \<le> sval v s"
    and step: "position_evolve F (p\<lparr>pending_offchain_order_id := Some oid\<rparr>)
        (OffChainOrderFilled oid q d eo pr ts) = Inr (Some p')"
  shows "\<bar>sval v (net p')\<bar> = \<bar>sval v (net p)\<bar> - sval v (positive_inner q) \<and>
    sval v (net p') * sval v (net p) \<ge> 0"
proof -
  from is_ready_bounds [OF sem ready lim_pos]
  have s: "sval v s \<le> \<bar>sval v (net p)\<bar>"
    and d: "d = (if sval v (net p) < 0 then Buy else Sell)"
    by simp_all
  have n: "sval v (net p') = sval v (net p) + signed d (sval v (positive_inner q))"
    using position_evolve_ledger [OF sem step] by (simp add: position_ledger_def)
  show ?thesis
  proof (cases "sval v (net p) < 0")
    case True
    with d n filled s have "sval v (net p') \<le> 0" by simp
    with True d n filled s show ?thesis by (simp add: mult_nonpos_nonpos)
  next
    case False
    with d n filled s have "sval v (net p') \<ge> 0" by simp
    with False d n filled s show ?thesis by simp
  qed
qed

definition demo_position :: "rat position" where
  "demo_position = \<lparr>pos_symbol = ''AAPL'', net = FractionalShares (- 5),
     accumulated_long = FractionalShares 0, accumulated_short = FractionalShares 5,
     pending_offchain_order_id = None, last_failed_offchain_order_id = None,
     last_acknowledged_trade_id = Some (TradeId 1 0), pending_acknowledged_trade_ids = {},
     pos_threshold = demo_threshold, last_price_usdc = Some 100, last_updated = Some 1\<rparr>"

lemmas position_eval = is_ready_for_execution_def create_trigger_reason_def Let_def
  shares_abs_def shares_add_def shares_sub_def shares_gt_def shares_partial_cmp_def
  shares_eq_def exact_rat_ops demo_position_def demo_threshold_def

theorem ready_hedge_reduces_exposure_witness:
  "is_ready_for_execution exact_rat demo_position (Some (Positive (FractionalShares 3))) =
     Inr (Some (Buy, FractionalShares 3)) \<and>
   (\<exists>p'. position_evolve exact_rat (demo_position\<lparr>pending_offchain_order_id := Some (OffchainOrderId 7)\<rparr>)
      (OffChainOrderFilled (OffchainOrderId 7) (Positive (FractionalShares 2)) Buy ''x'' (Usd 100) 3) =
      Inr (Some p') \<and> \<bar>sval (\<lambda>x. x) (net p')\<bar> = 3)"
proof -
  have ready: "is_ready_for_execution exact_rat demo_position (Some (Positive (FractionalShares 3))) =
     Inr (Some (Buy, FractionalShares 3))"
    by (simp add: position_eval)
  obtain p' where step: "position_evolve exact_rat
      (demo_position\<lparr>pending_offchain_order_id := Some (OffchainOrderId 7)\<rparr>)
      (OffChainOrderFilled (OffchainOrderId 7) (Positive (FractionalShares 2)) Buy ''x'' (Usd 100) 3) =
      Inr (Some p')"
    by (simp add: position_eval)
  have "\<bar>sval (\<lambda>x. x) (net p')\<bar> = \<bar>sval (\<lambda>x. x) (net demo_position)\<bar> - 2"
    using ready_hedge_reduces_exposure [OF exact_rat_sem ready _ _ _ step] by simp
  then have "\<bar>sval (\<lambda>x. x) (net p')\<bar> = 3" by (simp add: demo_position_def)
  with ready step show ?thesis by blast
qed



text \<open>
  Readiness and placement agree: when the position is ready, the placement command for the
  computed quantity and direction is accepted, and after it neither readiness nor a further
  placement is granted until the order is closed.
\<close>

theorem ready_then_placed_once:
  assumes "is_ready_for_execution F p limit = Inr (Some (d, s))"
  shows "\<exists>r p'. position_transition F now p (PlaceOffChainOrder oid (Positive s) d ex th) =
      Inr [OffChainOrderPlaced oid (Positive s) d ex r now] \<and>
    position_evolve F p (OffChainOrderPlaced oid (Positive s) d ex r now) = Inr (Some p') \<and>
    is_ready_for_execution F p' limit' = Inr None \<and>
    position_transition F now' p' (PlaceOffChainOrder oid' q d' ex' th') = Inl (PendingExecution oid)"
proof -
  from assms obtain r where "pending_offchain_order_id p = None"
    and "create_trigger_reason F p (pos_threshold p) = Inr (Some r)"
    by (rule is_ready_SomeE)
  then show ?thesis by (simp add: agg_defs is_ready_for_execution_def)
qed

theorem ready_then_placed_once_witness:
  "is_ready_for_execution exact_rat demo_position None = Inr (Some (Buy, FractionalShares 5)) \<and>
   (\<exists>r p'. position_transition exact_rat 2 demo_position
        (PlaceOffChainOrder (OffchainOrderId 7) (Positive (FractionalShares 5)) Buy DryRun demo_threshold) =
        Inr [OffChainOrderPlaced (OffchainOrderId 7) (Positive (FractionalShares 5)) Buy DryRun r 2] \<and>
      is_ready_for_execution exact_rat p' None = Inr None)"
proof -
  have ready: "is_ready_for_execution exact_rat demo_position None =
      Inr (Some (Buy, FractionalShares 5))"
    by (simp add: position_eval)
  from ready_then_placed_once [OF ready] show ?thesis using ready by blast
qed

text \<open>
  An accepted manual adjustment sets the net exposure to the target, is impossible while a
  hedge is pending, matches the net the operator observed, and leaves a strictly positive price
  behind whenever a dollar threshold has to value a nonzero exposure.
\<close>

theorem manual_adjustment_sound:
  assumes sem: "float_sem F v"
    and acc: "position_transition F now p
        (ManuallyAdjustPosition sy target reason th expected price) = Inr evs"
  shows "\<exists>p'. pending_offchain_order_id p = None \<and>
    replay (position_originate F) (position_evolve F) (Live p) evs = Live p' \<and>
    net p' = target \<and> last_failed_offchain_order_id p' = None \<and>
    (\<forall>e. expected = Some e \<longrightarrow> sval v e = sval v (net p)) \<and>
    (\<forall>pr. last_price_usdc p' = Some pr \<longrightarrow> 0 < v pr) \<and>
    (\<forall>dollars. pos_threshold p = DollarValue dollars \<and> sval v target \<noteq> 0 \<longrightarrow> last_price_usdc p' \<noteq> None)"
proof -
  from acc have free: "pending_offchain_order_id p = None"
    and valid: "validate_manual_adjustment F expected (net p) target (pos_threshold p)
        (last_price_usdc p) price = Inr ()"
    and evs: "evs = [ManualPositionAdjusted (net p) target reason price now]"
    by (auto split: option.splits)
  from valid have exp: "\<forall>e. expected = Some e \<longrightarrow> fl_eq F (shares_inner e) (shares_inner (net p)) = Inr True"
    by (auto simp: validate_manual_adjustment_def shares_eq_def unwrap_or_def
        split: option.splits if_splits sum.splits)
  from valid have pos: "\<forall>pr. option_or price (last_price_usdc p) = Some pr \<longrightarrow>
      fl_gt F pr (fl_ZERO F) = Inr True"
    by (auto simp: validate_manual_adjustment_def split: option.splits if_splits)
  from valid have known: "\<forall>dollars. pos_threshold p = DollarValue dollars \<longrightarrow>
      fl_is_zero F (shares_inner target) = Inr True \<or> option_or price (last_price_usdc p) \<noteq> None"
    by (auto simp: validate_manual_adjustment_def split: option.splits if_splits)
  have "\<forall>e. expected = Some e \<longrightarrow> sval v e = sval v (net p)"
    using exp float_sem_eq [OF sem] by blast
  moreover have "\<forall>pr. option_or price (last_price_usdc p) = Some pr \<longrightarrow> 0 < v pr"
    using pos float_sem_gt [OF sem] float_sem_ZERO [OF sem] by fastforce
  moreover have "\<forall>dollars. pos_threshold p = DollarValue dollars \<and> sval v target \<noteq> 0 \<longrightarrow>
      option_or price (last_price_usdc p) \<noteq> None"
    using known float_sem_is_zero [OF sem] by blast
  ultimately show ?thesis using free evs by (simp del: option_or_eq_None not_None_eq)
qed

theorem manual_adjustment_sound_witness:
  "\<exists>p'. replay (position_originate exact_rat) (position_evolve exact_rat)
      (Live (demo_position\<lparr>pos_threshold := DollarValue (Usdc 50)\<rparr>))
      [ManualPositionAdjusted (FractionalShares (- 5)) (FractionalShares 2) ''fix'' None 4] = Live p' \<and>
    net p' = FractionalShares 2 \<and> last_price_usdc p' \<noteq> None"
proof -
  let ?p = "demo_position\<lparr>pos_threshold := DollarValue (Usdc 50)\<rparr>"
  have acc: "position_transition exact_rat 4 ?p
      (ManuallyAdjustPosition ''AAPL'' (FractionalShares 2) ''fix'' demo_threshold
        (Some (FractionalShares (- 5))) None) =
      Inr [ManualPositionAdjusted (FractionalShares (- 5)) (FractionalShares 2) ''fix'' None 4]"
    by (simp add: position_eval validate_manual_adjustment_def)
  have "pos_threshold ?p = DollarValue (Usdc 50)" and "sval (\<lambda>x. x) (FractionalShares (2 :: rat)) \<noteq> 0"
    by simp_all
  with manual_adjustment_sound [OF exact_rat_sem acc] show ?thesis by blast
qed

end
