(* ===== verification/OffchainOrder.thy ===== *)
theory OffchainOrder
  imports Position
begin

text \<open>
  The \<^verbatim>\<open>OffchainOrder\<close> aggregate of \<^verbatim>\<open>src/offchain/order.rs\<close>: the lifecycle of one broker
  order, the reconciliation with the broker before a cancellation, the placement routine, and the
  mapping from a terminal order to the command that finalizes its position. The broker
  (\<^verbatim>\<open>OrderPlacer\<close>) is a parameter: the record of its answers.
\<close>

section \<open>State, commands, events, errors\<close>

datatype 'f retained_fill =
    Priced "'f fractional_shares" "'f usd" timestamp
  | Unpriced "'f fractional_shares"

fun retained_shares_filled :: "'f retained_fill \<Rightarrow> 'f fractional_shares" where
  "retained_shares_filled (Priced shares_filled _ _) = shares_filled"
| "retained_shares_filled (Unpriced shares_filled) = shares_filled"

datatype 'f counter_trade_order_kind = Market | ExtendedHoursLimit "'f usd positive"

fun kind_market_session :: "'f counter_trade_order_kind \<Rightarrow> market_session" where
  "kind_market_session Market = Regular"
| "kind_market_session (ExtendedHoursLimit _) = Extended"

datatype 'f offchain_order =
    Pending symbol "'f fractional_shares positive" direction supported_executor
      timestamp market_session
  | Submitted symbol "'f fractional_shares positive" direction supported_executor
      executor_order_id timestamp timestamp market_session
  | PartiallyFilled symbol "'f fractional_shares positive" "'f fractional_shares" direction
      supported_executor executor_order_id "'f usd" timestamp timestamp timestamp market_session
  | Cancelling symbol "'f fractional_shares positive" "'f retained_fill option" direction
      supported_executor executor_order_id cancellation_reason timestamp timestamp timestamp
      market_session
  | Filled symbol "'f fractional_shares positive" direction supported_executor
      executor_order_id "'f usd" timestamp timestamp timestamp
  | Failed symbol "'f fractional_shares positive" direction supported_executor
      "'f retained_fill option" "executor_order_id option" string timestamp timestamp
  | Cancelled symbol "'f fractional_shares positive" "'f retained_fill option" direction
      supported_executor executor_order_id cancellation_reason timestamp timestamp

datatype 'f offchain_order_event =
    Placed symbol "'f fractional_shares positive" direction supported_executor timestamp bool
      "'f usd positive option" "client_order_id option"
  | Submitted executor_order_id timestamp
  | Accepted executor_order_id "'f fractional_shares positive" timestamp market_session
      "'f usd positive option"
  | PartiallyFilled "'f fractional_shares" "'f usd" timestamp
  | CancelRequested cancellation_reason timestamp
  | Filled "'f usd" timestamp
  | Failed string timestamp
  | Cancelled cancellation_reason timestamp

datatype 'f offchain_order_command =
    Place symbol "'f fractional_shares positive" direction supported_executor client_order_id
      "'f counter_trade_order_kind"
  | CancelOrder cancellation_reason
  | ConfirmCancellation timestamp
  | UpdatePartialFill "'f fractional_shares" "'f usd" timestamp
  | CompleteFill "'f usd" timestamp
  | MarkAccepted executor_order_id "'f fractional_shares positive" timestamp market_session
      "'f usd positive option"
  | MarkPlacementFailed string
  | MarkFailed string timestamp

datatype 'f offchain_order_error =
    NotSubmitted
  | AlreadyCompleted
  | CancellationNotRequested
  | InvalidTerminalFillQuantity executor_order_id "'f fractional_shares"
  | NotPlaced
  | PlacePayloadMismatch
  | PreCancelStatusFetchFailed executor_order_id
  | PreCancelPartialFillMissingAvgPrice executor_order_id "'f fractional_shares"
  | FillComparisonFailed "'f fractional_shares" "'f fractional_shares"
  | CancelFailed executor_order_id

record 'f order_placement_result =
  opr_executor_order_id :: executor_order_id
  opr_placed_shares :: "'f fractional_shares positive"
  opr_is_extended_hours :: bool
  opr_limit_price :: "'f usd positive option"

text \<open>What the aggregate's handlers ask of the broker.\<close>

record 'f order_placer =
  op_cancel_order :: "executor_order_id \<Rightarrow> string + cancellation_outcome"
  op_get_order_status :: "executor_order_id \<Rightarrow> string + 'f order_state"

section \<open>Accessors\<close>

fun order_symbol :: "'f offchain_order \<Rightarrow> symbol" where
  "order_symbol (Pending s _ _ _ _ _) = s"
| "order_symbol (offchain_order.Submitted s _ _ _ _ _ _ _) = s"
| "order_symbol (offchain_order.PartiallyFilled s _ _ _ _ _ _ _ _ _ _) = s"
| "order_symbol (Cancelling s _ _ _ _ _ _ _ _ _ _) = s"
| "order_symbol (offchain_order.Filled s _ _ _ _ _ _ _ _) = s"
| "order_symbol (offchain_order.Failed s _ _ _ _ _ _ _ _) = s"
| "order_symbol (offchain_order.Cancelled s _ _ _ _ _ _ _ _) = s"

fun order_shares :: "'f offchain_order \<Rightarrow> 'f fractional_shares positive" where
  "order_shares (Pending _ q _ _ _ _) = q"
| "order_shares (offchain_order.Submitted _ q _ _ _ _ _ _) = q"
| "order_shares (offchain_order.PartiallyFilled _ q _ _ _ _ _ _ _ _ _) = q"
| "order_shares (Cancelling _ q _ _ _ _ _ _ _ _ _) = q"
| "order_shares (offchain_order.Filled _ q _ _ _ _ _ _ _) = q"
| "order_shares (offchain_order.Failed _ q _ _ _ _ _ _ _) = q"
| "order_shares (offchain_order.Cancelled _ q _ _ _ _ _ _ _) = q"

fun order_direction :: "'f offchain_order \<Rightarrow> direction" where
  "order_direction (Pending _ _ d _ _ _) = d"
| "order_direction (offchain_order.Submitted _ _ d _ _ _ _ _) = d"
| "order_direction (offchain_order.PartiallyFilled _ _ _ d _ _ _ _ _ _ _) = d"
| "order_direction (Cancelling _ _ _ d _ _ _ _ _ _ _) = d"
| "order_direction (offchain_order.Filled _ _ d _ _ _ _ _ _) = d"
| "order_direction (offchain_order.Failed _ _ d _ _ _ _ _ _) = d"
| "order_direction (offchain_order.Cancelled _ _ _ d _ _ _ _ _) = d"

fun order_executor :: "'f offchain_order \<Rightarrow> supported_executor" where
  "order_executor (Pending _ _ _ x _ _) = x"
| "order_executor (offchain_order.Submitted _ _ _ x _ _ _ _) = x"
| "order_executor (offchain_order.PartiallyFilled _ _ _ _ x _ _ _ _ _ _) = x"
| "order_executor (Cancelling _ _ _ _ x _ _ _ _ _ _) = x"
| "order_executor (offchain_order.Filled _ _ _ x _ _ _ _ _) = x"
| "order_executor (offchain_order.Failed _ _ _ x _ _ _ _ _) = x"
| "order_executor (offchain_order.Cancelled _ _ _ _ x _ _ _ _) = x"

fun order_executor_order_id :: "'f offchain_order \<Rightarrow> executor_order_id option" where
  "order_executor_order_id (offchain_order.Submitted _ _ _ _ i _ _ _) = Some i"
| "order_executor_order_id (offchain_order.PartiallyFilled _ _ _ _ _ i _ _ _ _ _) = Some i"
| "order_executor_order_id (Cancelling _ _ _ _ _ i _ _ _ _ _) = Some i"
| "order_executor_order_id (offchain_order.Filled _ _ _ _ i _ _ _ _) = Some i"
| "order_executor_order_id (offchain_order.Cancelled _ _ _ _ _ i _ _ _) = Some i"
| "order_executor_order_id (Pending _ _ _ _ _ _) = None"
| "order_executor_order_id (offchain_order.Failed _ _ _ _ _ _ _ _ _) = None"

section \<open>Event side\<close>

definition market_session_from_extended :: "bool \<Rightarrow> market_session" where
  "market_session_from_extended is_extended_hours =
     (if is_extended_hours then Extended else Regular)"

fun originate_offchain_order :: "'f offchain_order_event \<Rightarrow> 'f offchain_order option" where
  "originate_offchain_order (Placed symbol shares direction executor placed_at is_extended_hours _ _) =
     Some (Pending symbol shares direction executor placed_at
       (market_session_from_extended is_extended_hours))"
| "originate_offchain_order _ = None"

fun evolve_filled ::
  "'f offchain_order \<Rightarrow> 'f usd \<Rightarrow> timestamp \<Rightarrow> 'f offchain_order option" where
  "evolve_filled (offchain_order.Submitted symbol shares direction executor eoid placed_at submitted_at _)
       price filled_at =
     Some (offchain_order.Filled symbol shares direction executor eoid price placed_at submitted_at filled_at)"
| "evolve_filled (offchain_order.PartiallyFilled symbol shares _ direction executor eoid _ placed_at
       submitted_at _ _) price filled_at =
     Some (offchain_order.Filled symbol shares direction executor eoid price placed_at submitted_at filled_at)"
| "evolve_filled (Cancelling symbol shares _ direction executor eoid _ placed_at submitted_at _ _)
       price filled_at =
     Some (offchain_order.Filled symbol shares direction executor eoid price placed_at submitted_at filled_at)"
| "evolve_filled _ _ _ = None"

fun evolve_partially_filled ::
  "'f offchain_order \<Rightarrow> 'f fractional_shares \<Rightarrow> 'f usd \<Rightarrow> timestamp \<Rightarrow> 'f offchain_order option" where
  "evolve_partially_filled (offchain_order.Submitted symbol shares direction executor eoid placed_at
       submitted_at market_session) shares_filled avg_price partially_filled_at =
     Some (offchain_order.PartiallyFilled symbol shares shares_filled direction executor eoid avg_price
       placed_at submitted_at partially_filled_at market_session)"
| "evolve_partially_filled (offchain_order.PartiallyFilled symbol shares _ direction executor eoid _
       placed_at submitted_at _ market_session) shares_filled avg_price partially_filled_at =
     Some (offchain_order.PartiallyFilled symbol shares shares_filled direction executor eoid avg_price
       placed_at submitted_at partially_filled_at market_session)"
| "evolve_partially_filled (Cancelling symbol shares _ direction executor eoid reason placed_at
       submitted_at cancel_requested_at market_session) shares_filled avg_price partially_filled_at =
     Some (Cancelling symbol shares (Some (Priced shares_filled avg_price partially_filled_at))
       direction executor eoid reason placed_at submitted_at cancel_requested_at market_session)"
| "evolve_partially_filled _ _ _ _ = None"

fun evolve_cancel_requested ::
  "'f offchain_order \<Rightarrow> cancellation_reason \<Rightarrow> timestamp \<Rightarrow> 'f offchain_order option" where
  "evolve_cancel_requested (offchain_order.Submitted symbol shares direction executor eoid placed_at
       submitted_at market_session) reason cancel_requested_at =
     Some (Cancelling symbol shares None direction executor eoid reason placed_at submitted_at
       cancel_requested_at market_session)"
| "evolve_cancel_requested (offchain_order.PartiallyFilled symbol shares shares_filled direction executor
       eoid avg_price placed_at submitted_at partially_filled_at market_session) reason
       cancel_requested_at =
     Some (Cancelling symbol shares (Some (Priced shares_filled avg_price partially_filled_at))
       direction executor eoid reason placed_at submitted_at cancel_requested_at market_session)"
| "evolve_cancel_requested _ _ _ = None"

fun evolve_failed ::
  "'f offchain_order \<Rightarrow> string \<Rightarrow> timestamp \<Rightarrow> 'f offchain_order option" where
  "evolve_failed (Pending symbol shares direction executor placed_at _) error failed_at =
     Some (offchain_order.Failed symbol shares direction executor None None error placed_at failed_at)"
| "evolve_failed (offchain_order.Submitted symbol shares direction executor eoid placed_at _ _)
       error failed_at =
     Some (offchain_order.Failed symbol shares direction executor None (Some eoid) error placed_at failed_at)"
| "evolve_failed (offchain_order.PartiallyFilled symbol shares shares_filled direction executor eoid
       avg_price placed_at _ partially_filled_at _) error failed_at =
     Some (offchain_order.Failed symbol shares direction executor
       (Some (Priced shares_filled avg_price partially_filled_at)) (Some eoid) error placed_at failed_at)"
| "evolve_failed (Cancelling symbol shares retained_fill direction executor eoid _ placed_at _ _ _)
       error failed_at =
     Some (offchain_order.Failed symbol shares direction executor retained_fill (Some eoid) error
       placed_at failed_at)"
| "evolve_failed _ _ _ = None"

fun evolve_cancelled ::
  "'f offchain_order \<Rightarrow> cancellation_reason \<Rightarrow> timestamp \<Rightarrow> 'f offchain_order option" where
  "evolve_cancelled (offchain_order.Submitted symbol shares direction executor eoid placed_at _ _)
       reason cancelled_at =
     Some (offchain_order.Cancelled symbol shares None direction executor eoid reason placed_at cancelled_at)"
| "evolve_cancelled (offchain_order.PartiallyFilled symbol shares shares_filled direction executor eoid
       avg_price placed_at _ partially_filled_at _) reason cancelled_at =
     Some (offchain_order.Cancelled symbol shares
       (Some (Priced shares_filled avg_price partially_filled_at)) direction executor eoid reason
       placed_at cancelled_at)"
| "evolve_cancelled (Cancelling symbol shares retained_fill direction executor eoid requested_reason
       placed_at _ _ _) reason cancelled_at =
     Some (offchain_order.Cancelled symbol shares retained_fill direction executor eoid requested_reason
       placed_at cancelled_at)"
| "evolve_cancelled _ _ _ = None"

fun offchain_order_evolve ::
  "'f offchain_order \<Rightarrow> 'f offchain_order_event \<Rightarrow> 'f offchain_order_error + 'f offchain_order option" where
  "offchain_order_evolve ord (Placed _ _ _ _ _ _ _ _) = Inr None"
| "offchain_order_evolve ord (offchain_order_event.Submitted eoid submitted_at) =
     (case ord of
        Pending symbol shares direction executor placed_at market_session \<Rightarrow>
          Inr (Some (offchain_order.Submitted symbol shares direction executor eoid placed_at
            submitted_at market_session))
      | _ \<Rightarrow> Inr None)"
| "offchain_order_evolve ord (Accepted eoid placed_shares submitted_at market_session _) =
     (case ord of
        Pending symbol _ direction executor placed_at _ \<Rightarrow>
          Inr (Some (offchain_order.Submitted symbol placed_shares direction executor eoid placed_at
            submitted_at market_session))
      | _ \<Rightarrow> Inr None)"
| "offchain_order_evolve ord (offchain_order_event.PartiallyFilled shares_filled avg_price
       partially_filled_at) =
     Inr (evolve_partially_filled ord shares_filled avg_price partially_filled_at)"
| "offchain_order_evolve ord (offchain_order_event.Filled price filled_at) =
     Inr (evolve_filled ord price filled_at)"
| "offchain_order_evolve ord (CancelRequested reason cancel_requested_at) =
     Inr (evolve_cancel_requested ord reason cancel_requested_at)"
| "offchain_order_evolve ord (offchain_order_event.Failed error failed_at) =
     Inr (evolve_failed ord error failed_at)"
| "offchain_order_evolve ord (offchain_order_event.Cancelled reason cancelled_at) =
     Inr (evolve_cancelled ord reason cancelled_at)"

section \<open>Reconciliation with the broker before a cancellation\<close>

definition broker_fill_exceeds_local ::
  "'f float_ops \<Rightarrow> 'f fractional_shares \<Rightarrow> 'f fractional_shares \<Rightarrow> 'f offchain_order_error + bool" where
  "broker_fill_exceeds_local F broker_shares_filled local_shares_filled =
     map_err (\<lambda>_. FillComparisonFailed broker_shares_filled local_shares_filled)
       (fl_gt F (shares_inner broker_shares_filled) (shares_inner local_shares_filled))"

text \<open>
  \<^verbatim>\<open>if let Some(local) = local_filled && !exceeds(broker, local)?\<close>: true when the broker reports
  no more than is already recorded.
\<close>

definition fill_already_recorded ::
  "'f float_ops \<Rightarrow> 'f fractional_shares option \<Rightarrow> 'f fractional_shares \<Rightarrow> 'f offchain_order_error + bool" where
  "fill_already_recorded F local_filled broker_filled =
     (case local_filled of
        None \<Rightarrow> Inr False
      | Some loc \<Rightarrow> map_ok Not (broker_fill_exceeds_local F broker_filled loc))"

definition reconcile_terminal_fill ::
  "'f float_ops \<Rightarrow> executor_order_id \<Rightarrow> 'f fractional_shares option \<Rightarrow> 'f fractional_shares option \<Rightarrow>
   'f usd option \<Rightarrow> timestamp \<Rightarrow> 'f offchain_order_event \<Rightarrow>
   'f offchain_order_error + 'f offchain_order_event list" where
  "reconcile_terminal_fill F eoid local_filled shares_filled avg_price broker_timestamp terminal_event =
     (case (shares_filled, avg_price) of
        (Some broker_filled, Some price) \<Rightarrow>
          if \<not> is_ok (positive_new (shares_has_zero F) broker_filled)
          then (if shares_eq F broker_filled (shares_ZERO F) then Inr [terminal_event]
                else Inl (InvalidTerminalFillQuantity eoid broker_filled))
          else tryr (fill_already_recorded F local_filled broker_filled) (\<lambda>recorded.
            if recorded then Inr [terminal_event]
            else Inr [offchain_order_event.PartiallyFilled broker_filled price broker_timestamp,
                      terminal_event])
      | (Some broker_filled, None) \<Rightarrow>
          if \<not> is_ok (positive_new (shares_has_zero F) broker_filled)
          then (if shares_eq F broker_filled (shares_ZERO F) then Inr [terminal_event]
                else Inl (InvalidTerminalFillQuantity eoid broker_filled))
          else tryr (fill_already_recorded F local_filled broker_filled) (\<lambda>recorded.
            if recorded then Inr [terminal_event]
            else Inl (PreCancelPartialFillMissingAvgPrice eoid broker_filled))
      | (None, _) \<Rightarrow> Inr [terminal_event])"

definition reconcile_pre_cancel ::
  "'f float_ops \<Rightarrow> 'f order_placer \<Rightarrow> executor_order_id \<Rightarrow> 'f fractional_shares option \<Rightarrow>
   cancellation_reason \<Rightarrow> 'f offchain_order_error + 'f offchain_order_event list" where
  "reconcile_pre_cancel F services eoid local_filled cancellation_reason =
     tryr (map_err (\<lambda>_. PreCancelStatusFetchFailed eoid) (op_get_order_status services eoid)) (\<lambda>state.
     case state of
       OrderPartiallyFilled _ broker_filled avg_price partially_filled_at \<Rightarrow>
         if \<not> is_ok (positive_new (shares_has_zero F) broker_filled)
         then (if shares_eq F broker_filled (shares_ZERO F) then Inr []
               else Inl (InvalidTerminalFillQuantity eoid broker_filled))
         else tryr (fill_already_recorded F local_filled broker_filled) (\<lambda>recorded.
           if recorded then Inr []
           else (case avg_price of
               None \<Rightarrow> Inl (PreCancelPartialFillMissingAvgPrice eoid broker_filled)
             | Some price \<Rightarrow>
                 Inr [offchain_order_event.PartiallyFilled broker_filled price partially_filled_at]))
     | OrderFilled executed_at _ price \<Rightarrow> Inr [offchain_order_event.Filled price executed_at]
     | OrderFailed failed_at error_reason shares_filled avg_price \<Rightarrow>
         reconcile_terminal_fill F eoid local_filled shares_filled avg_price failed_at
           (offchain_order_event.Failed
             (case error_reason of None \<Rightarrow> ''Broker reported Failed at cancel time''
              | Some e \<Rightarrow> e) failed_at)
     | OrderCancelled cancelled_at _ shares_filled avg_price \<Rightarrow>
         reconcile_terminal_fill F eoid local_filled (Some shares_filled) avg_price cancelled_at
           (offchain_order_event.Cancelled cancellation_reason cancelled_at)
     | OrderPending \<Rightarrow> Inr []
     | OrderSubmitted _ \<Rightarrow> Inr [])"

fun is_terminal_event :: "'f offchain_order_event \<Rightarrow> bool" where
  "is_terminal_event (offchain_order_event.Filled _ _) = True"
| "is_terminal_event (offchain_order_event.Failed _ _) = True"
| "is_terminal_event (offchain_order_event.Cancelled _ _) = True"
| "is_terminal_event _ = False"

definition cancel_live_order_events ::
  "'f float_ops \<Rightarrow> 'f order_placer \<Rightarrow> timestamp \<Rightarrow> executor_order_id \<Rightarrow> 'f fractional_shares option \<Rightarrow>
   cancellation_reason \<Rightarrow> 'f offchain_order_error + 'f offchain_order_event list" where
  "cancel_live_order_events F services now eoid local_filled reason =
     tryr (reconcile_pre_cancel F services eoid local_filled reason) (\<lambda>events.
       if list_ex is_terminal_event events then Inr events
       else tryr (map_err (\<lambda>_. CancelFailed eoid) (op_cancel_order services eoid)) (\<lambda>outcome.
         case outcome of
           Requested \<Rightarrow> Inr (events @ [CancelRequested reason now])
         | OrderNotFound \<Rightarrow> Inr (events @ [offchain_order_event.Cancelled reason now])))"

definition cancel_order_events ::
  "'f float_ops \<Rightarrow> 'f offchain_order \<Rightarrow> 'f order_placer \<Rightarrow> timestamp \<Rightarrow> cancellation_reason \<Rightarrow>
   'f offchain_order_error + 'f offchain_order_event list" where
  "cancel_order_events F ord services now reason = (case ord of
     offchain_order.Submitted _ _ _ _ eoid _ _ _ \<Rightarrow>
       cancel_live_order_events F services now eoid None reason
   | offchain_order.PartiallyFilled _ _ shares_filled _ _ eoid _ _ _ _ _ \<Rightarrow>
       cancel_live_order_events F services now eoid (Some shares_filled) reason
   | Pending _ _ _ _ _ _ \<Rightarrow> Inl NotSubmitted
   | Cancelling _ _ _ _ _ _ _ _ _ _ _ \<Rightarrow> Inr []
   | _ \<Rightarrow> Inl AlreadyCompleted)"

section \<open>Command side\<close>

definition placed_event ::
  "symbol \<Rightarrow> 'f fractional_shares positive \<Rightarrow> direction \<Rightarrow> supported_executor \<Rightarrow> client_order_id \<Rightarrow>
   'f counter_trade_order_kind \<Rightarrow> timestamp \<Rightarrow> 'f offchain_order_event" where
  "placed_event symbol shares direction executor client_order_id kind placed_at =
     Placed symbol shares direction executor placed_at (kind_market_session kind = Extended)
       (case kind of ExtendedHoursLimit limit_price \<Rightarrow> Some limit_price | Market \<Rightarrow> None)
       (Some client_order_id)"

definition validate_place_replay ::
  "'f offchain_order \<Rightarrow> symbol \<Rightarrow> direction \<Rightarrow> supported_executor \<Rightarrow>
   'f offchain_order_error + 'f offchain_order_event list" where
  "validate_place_replay ord symbol direction executor =
     (if symbol \<noteq> order_symbol ord \<or> direction \<noteq> order_direction ord \<or> executor \<noteq> order_executor ord
      then Inl PlacePayloadMismatch else Inr [])"

fun offchain_order_initialize ::
  "'f order_placer \<times> timestamp \<Rightarrow> 'f offchain_order_command \<Rightarrow>
   'f offchain_order_error + 'f offchain_order_event list" where
  "offchain_order_initialize (_, now) (Place symbol shares direction executor client_order_id kind) =
     Inr [placed_event symbol shares direction executor client_order_id kind now]"
| "offchain_order_initialize _ _ = Inl NotPlaced"

definition update_partial_fill_events ::
  "'f float_ops \<Rightarrow> 'f offchain_order \<Rightarrow> 'f fractional_shares \<Rightarrow> 'f usd \<Rightarrow> timestamp \<Rightarrow>
   'f offchain_order_error + 'f offchain_order_event list" where
  "update_partial_fill_events F ord shares_filled avg_price partially_filled_at = (case ord of
     offchain_order.Submitted _ _ _ _ _ _ _ _ \<Rightarrow>
       Inr [offchain_order_event.PartiallyFilled shares_filled avg_price partially_filled_at]
   | offchain_order.PartiallyFilled _ _ local_filled _ _ _ _ _ _ _ _ \<Rightarrow>
       tryr (broker_fill_exceeds_local F shares_filled local_filled) (\<lambda>exceeds.
         if \<not> exceeds then Inr []
         else Inr [offchain_order_event.PartiallyFilled shares_filled avg_price partially_filled_at])
   | Cancelling _ _ retained _ _ _ _ _ _ _ _ \<Rightarrow>
       (let local_filled = (case retained of None \<Rightarrow> shares_ZERO F | Some r \<Rightarrow> retained_shares_filled r)
        in tryr (broker_fill_exceeds_local F shares_filled local_filled) (\<lambda>exceeds.
          if \<not> exceeds then Inr []
          else Inr [offchain_order_event.PartiallyFilled shares_filled avg_price partially_filled_at]))
   | Pending _ _ _ _ _ _ \<Rightarrow> Inl NotSubmitted
   | _ \<Rightarrow> Inl AlreadyCompleted)"

fun offchain_order_transition ::
  "'f float_ops \<Rightarrow> 'f order_placer \<times> timestamp \<Rightarrow> 'f offchain_order \<Rightarrow> 'f offchain_order_command \<Rightarrow>
   'f offchain_order_error + 'f offchain_order_event list" where
  "offchain_order_transition F sv ord (Place symbol _ direction executor _ _) =
     validate_place_replay ord symbol direction executor"
| "offchain_order_transition F sv ord (CancelOrder reason) =
     cancel_order_events F ord (fst sv) (snd sv) reason"
| "offchain_order_transition F sv ord (ConfirmCancellation cancelled_at) = (case ord of
     Cancelling _ _ _ _ _ _ reason _ _ _ _ \<Rightarrow>
       Inr [offchain_order_event.Cancelled reason cancelled_at]
   | Pending _ _ _ _ _ _ \<Rightarrow> Inl CancellationNotRequested
   | offchain_order.Submitted _ _ _ _ _ _ _ _ \<Rightarrow> Inl CancellationNotRequested
   | offchain_order.PartiallyFilled _ _ _ _ _ _ _ _ _ _ _ \<Rightarrow> Inl CancellationNotRequested
   | _ \<Rightarrow> Inl AlreadyCompleted)"
| "offchain_order_transition F sv ord (UpdatePartialFill shares_filled avg_price partially_filled_at) =
     update_partial_fill_events F ord shares_filled avg_price partially_filled_at"
| "offchain_order_transition F sv ord (CompleteFill price filled_at) = (case ord of
     offchain_order.Submitted _ _ _ _ _ _ _ _ \<Rightarrow> Inr [offchain_order_event.Filled price filled_at]
   | offchain_order.PartiallyFilled _ _ _ _ _ _ _ _ _ _ _ \<Rightarrow>
       Inr [offchain_order_event.Filled price filled_at]
   | Cancelling _ _ _ _ _ _ _ _ _ _ _ \<Rightarrow> Inr [offchain_order_event.Filled price filled_at]
   | Pending _ _ _ _ _ _ \<Rightarrow> Inl NotSubmitted
   | _ \<Rightarrow> Inl AlreadyCompleted)"
| "offchain_order_transition F sv ord (MarkAccepted eoid placed_shares submitted_at market_session
       limit_price) = (case ord of
     Pending _ _ _ _ _ _ \<Rightarrow> Inr [Accepted eoid placed_shares submitted_at market_session limit_price]
   | _ \<Rightarrow> Inr [])"
| "offchain_order_transition F sv ord (MarkPlacementFailed error) = (case ord of
     Pending _ _ _ _ _ _ \<Rightarrow> Inr [offchain_order_event.Failed error (snd sv)]
   | _ \<Rightarrow> Inr [])"
| "offchain_order_transition F sv ord (MarkFailed error failed_at) = (case ord of
     offchain_order.Failed _ _ _ _ _ _ _ _ _ \<Rightarrow> Inr []
   | offchain_order.Filled _ _ _ _ _ _ _ _ _ \<Rightarrow> Inl AlreadyCompleted
   | offchain_order.Cancelled _ _ _ _ _ _ _ _ _ \<Rightarrow> Inl AlreadyCompleted
   | _ \<Rightarrow> Inr [offchain_order_event.Failed error failed_at])"

section \<open>Finalizing the position of a terminal order\<close>

datatype no_fill_outcome =
    NoFillCancelled cancellation_reason timestamp
  | NoFillFailed string

datatype 'f terminal_position_finalization =
    Complete "'f fractional_shares positive" direction executor_order_id "'f usd" timestamp
  | NoFill no_fill_outcome
  | UnpricedFill "'f fractional_shares"

definition classify_terminal_fill ::
  "'f float_ops \<Rightarrow> 'f retained_fill option \<Rightarrow> direction \<Rightarrow> executor_order_id \<Rightarrow> no_fill_outcome \<Rightarrow>
   'f terminal_position_finalization" where
  "classify_terminal_fill F retained direction eoid no_fill = (case retained of
     Some (Priced shares_filled avg_price partially_filled_at) \<Rightarrow>
       (case positive_new (shares_has_zero F) shares_filled of
          Inl _ \<Rightarrow> NoFill no_fill
        | Inr positive \<Rightarrow> Complete positive direction eoid avg_price partially_filled_at)
   | Some (Unpriced shares_filled) \<Rightarrow>
       if is_ok (positive_new (shares_has_zero F) shares_filled) then UnpricedFill shares_filled
       else NoFill no_fill
   | None \<Rightarrow> NoFill no_fill)"

definition terminal_position_finalization ::
  "'f float_ops \<Rightarrow> 'f offchain_order \<Rightarrow> 'f terminal_position_finalization option" where
  "terminal_position_finalization F ord = (case ord of
     offchain_order.Filled _ shares direction _ eoid price _ _ filled_at \<Rightarrow>
       Some (Complete shares direction eoid price filled_at)
   | offchain_order.Cancelled _ _ retained direction _ eoid reason _ cancelled_at \<Rightarrow>
       Some (classify_terminal_fill F retained direction eoid (NoFillCancelled reason cancelled_at))
   | offchain_order.Failed _ _ direction _ retained (Some eoid) error _ _ \<Rightarrow>
       Some (classify_terminal_fill F retained direction eoid (NoFillFailed error))
   | offchain_order.Failed _ _ _ _ _ None error _ _ \<Rightarrow> Some (NoFill (NoFillFailed error))
   | _ \<Rightarrow> None)"

fun position_command_for_finalization ::
  "'f terminal_position_finalization \<Rightarrow> offchain_order_id \<Rightarrow> 'f position_command option" where
  "position_command_for_finalization (Complete shares_filled direction eoid price broker_timestamp) oid =
     Some (CompleteOffChainOrder oid shares_filled direction eoid price broker_timestamp)"
| "position_command_for_finalization (NoFill (NoFillCancelled reason cancelled_at)) oid =
     Some (CancelOffChainOrder oid reason cancelled_at)"
| "position_command_for_finalization (NoFill (NoFillFailed error)) oid =
     Some (FailOffChainOrder oid error)"
| "position_command_for_finalization (UnpricedFill _) oid = None"

definition client_order_id_for_placement ::
  "offchain_order_id \<Rightarrow> offchain_order_id option \<Rightarrow> client_order_id" where
  "client_order_id_for_placement oid last_failed =
     (let idempotency_source = (case last_failed of None \<Rightarrow> oid | Some f \<Rightarrow> f)
      in client_order_id_from_uuid (as_uuid idempotency_source))"

section \<open>Placement at the broker\<close>

record 'f offchain_order_placement =
  pl_symbol :: symbol
  pl_shares :: "'f fractional_shares positive"
  pl_direction :: direction
  pl_executor :: supported_executor
  pl_client_order_id :: client_order_id
  pl_kind :: "'f counter_trade_order_kind"

definition placement_market ::
  "symbol \<Rightarrow> 'f fractional_shares positive \<Rightarrow> direction \<Rightarrow> supported_executor \<Rightarrow> client_order_id \<Rightarrow>
   'f offchain_order_placement" where
  "placement_market symbol shares direction executor client_order_id = \<lparr>
     pl_symbol = symbol, pl_shares = shares, pl_direction = direction, pl_executor = executor,
     pl_client_order_id = client_order_id, pl_kind = Market\<rparr>"

text \<open>The broker's placement calls, over the same world as the store.\<close>

record ('w, 'f) broker_port =
  bp_place_market_order :: "'f market_order \<Rightarrow> ('w, string, 'f order_placement_result) effect"
  bp_place_limit_order :: "'f limit_order \<Rightarrow> ('w, string, 'f order_placement_result) effect"

type_synonym ('w, 'f) order_store =
  "('w, offchain_order_id, 'f offchain_order, 'f offchain_order_command, 'f offchain_order_error) store"

definition submit_to_broker ::
  "('w, 'f) broker_port \<Rightarrow> 'f offchain_order_placement \<Rightarrow>
   ('w, string, 'f order_placement_result) effect" where
  "submit_to_broker B pl = (case pl_kind pl of
     Market \<Rightarrow> bp_place_market_order B \<lparr>mo_symbol = pl_symbol pl, mo_shares = pl_shares pl,
       mo_direction = pl_direction pl, mo_client_order_id = pl_client_order_id pl\<rparr>
   | ExtendedHoursLimit limit_price \<Rightarrow> bp_place_limit_order B \<lparr>lo_symbol = pl_symbol pl,
       lo_shares = pl_shares pl, lo_direction = pl_direction pl, lo_limit_price = limit_price,
       lo_extended_hours = True, lo_client_order_id = pl_client_order_id pl\<rparr>)"

definition placement_outcome_command ::
  "timestamp \<Rightarrow> string + 'f order_placement_result \<Rightarrow> 'f offchain_order_command" where
  "placement_outcome_command now placement = (case placement of
     Inr result \<Rightarrow> MarkAccepted (opr_executor_order_id result) (opr_placed_shares result) now
       (market_session_from_extended (opr_is_extended_hours result)) (opr_limit_price result)
   | Inl error \<Rightarrow> MarkPlacementFailed error)"

definition place_offchain_order_at_broker ::
  "('w, 'f) order_store \<Rightarrow> ('w, 'f) broker_port \<Rightarrow> timestamp \<Rightarrow> offchain_order_id \<Rightarrow>
   'f offchain_order_placement \<Rightarrow>
   ('w, 'f offchain_order_error send_error, 'f offchain_order option) effect" where
  "place_offchain_order_at_broker S B now oid pl =
     seqw (st_send S oid (Place (pl_symbol pl) (pl_shares pl) (pl_direction pl) (pl_executor pl)
            (pl_client_order_id pl) (pl_kind pl))) (\<lambda>_.
     seqw (st_load S oid) (\<lambda>placed.
     case placed of
       Some (Pending _ _ _ _ _ _) \<Rightarrow>
         seqw (outcomew (submit_to_broker B pl)) (\<lambda>placement.
         seqw (st_send S oid (placement_outcome_command now placement)) (\<lambda>_.
           st_load S oid))
     | settled \<Rightarrow> retw settled))"

section \<open>Invariant and command/event coherence\<close>

fun priced_or_none :: "'f retained_fill option \<Rightarrow> bool" where
  "priced_or_none (Some (Unpriced _)) = False"
| "priced_or_none _ = True"

fun order_inv :: "'f offchain_order \<Rightarrow> bool" where
  "order_inv (Cancelling _ _ retained _ _ _ _ _ _ _ _) = priced_or_none retained"
| "order_inv (offchain_order.Failed _ _ _ _ retained eoid _ _ _) =
     (priced_or_none retained \<and> (eoid = None \<longrightarrow> retained = None))"
| "order_inv (offchain_order.Cancelled _ _ retained _ _ _ _ _ _) = priced_or_none retained"
| "order_inv _ = True"

fun is_live :: "'f offchain_order \<Rightarrow> bool" where
  "is_live (offchain_order.Submitted _ _ _ _ _ _ _ _) = True"
| "is_live (offchain_order.PartiallyFilled _ _ _ _ _ _ _ _ _ _ _) = True"
| "is_live _ = False"

fun is_terminal :: "'f offchain_order \<Rightarrow> bool" where
  "is_terminal (offchain_order.Filled _ _ _ _ _ _ _ _ _) = True"
| "is_terminal (offchain_order.Failed _ _ _ _ _ _ _ _ _) = True"
| "is_terminal (offchain_order.Cancelled _ _ _ _ _ _ _ _ _) = True"
| "is_terminal _ = False"

abbreviation order_replay ::
  "'f offchain_order lifecycle \<Rightarrow> 'f offchain_order_event list \<Rightarrow> 'f offchain_order lifecycle" where
  "order_replay \<equiv> replay originate_offchain_order offchain_order_evolve"

text \<open>The batches a pre-cancel reconciliation can emit: at most one fill, then at most one terminal event.\<close>

inductive reconcile_shape :: "'f offchain_order_event list \<Rightarrow> bool" where
  nothing: "reconcile_shape []"
| fill: "reconcile_shape [offchain_order_event.PartiallyFilled q pr ts]"
| terminal: "is_terminal_event e \<Longrightarrow> reconcile_shape [e]"
| fill_terminal: "is_terminal_event e \<Longrightarrow>
    reconcile_shape [offchain_order_event.PartiallyFilled q pr ts, e]"

lemma reconcile_terminal_fill_shape:
  "reconcile_terminal_fill F eoid loc sf av ts t = Inr evs \<Longrightarrow> is_terminal_event t \<Longrightarrow>
   reconcile_shape evs"
  by (auto simp: reconcile_terminal_fill_def intro: reconcile_shape.intros
      split: option.splits if_splits)

lemma reconcile_pre_cancel_shape:
  assumes "reconcile_pre_cancel F sv eoid loc reason = Inr evs"
  shows "reconcile_shape evs"
proof -
  from assms obtain st where "op_get_order_status sv eoid = Inr st"
    by (auto simp: reconcile_pre_cancel_def)
  with assms show ?thesis
    by (cases st) (auto simp: reconcile_pre_cancel_def intro: reconcile_shape.intros
        elim!: reconcile_terminal_fill_shape split: if_splits option.splits)
qed

lemma live_applies_fill:
  "is_live ord \<Longrightarrow> \<exists>ord'. evolve_partially_filled ord q pr ts = Some ord' \<and> is_live ord'"
  by (cases ord) auto

lemma live_applies_terminal:
  "is_live ord \<Longrightarrow> is_terminal_event e \<Longrightarrow>
   \<exists>ord'. offchain_order_evolve ord e = Inr (Some ord') \<and> is_terminal ord' \<and> order_inv ord'"
  by (cases ord; cases e) auto

lemma live_applies_cancel_request:
  "is_live ord \<Longrightarrow> \<exists>ord'. offchain_order_evolve ord (CancelRequested r ts) = Inr (Some ord') \<and> order_inv ord'"
  by (cases ord) auto

lemma live_order_inv: "is_live ord \<Longrightarrow> order_inv ord"
  by (cases ord) auto

lemma live_applies_shape:
  assumes "reconcile_shape evs" and "is_live ord"
  shows "\<exists>ord'. order_replay (Live ord) evs = Live ord' \<and> order_inv ord' \<and>
    (\<not> list_ex is_terminal_event evs \<longrightarrow> is_live ord')"
  using assms
proof (induction rule: reconcile_shape.induct)
  case (fill q pr ts)
  with live_applies_fill [of ord q pr ts] show ?case by (auto simp: live_order_inv)
next
  case (terminal e)
  with live_applies_terminal [of ord e] show ?case by auto
next
  case (fill_terminal e q pr ts)
  then obtain ord1 where ord1: "evolve_partially_filled ord q pr ts = Some ord1" "is_live ord1"
    using live_applies_fill by blast
  with live_applies_terminal [OF ord1(2) fill_terminal(1)] fill_terminal(1) show ?case by auto
qed (simp add: live_order_inv)

lemma cancel_liveE:
  assumes "cancel_live_order_events F sv now eoid loc reason = Inr evs"
  obtains (terminal) "reconcile_pre_cancel F sv eoid loc reason = Inr evs" "list_ex is_terminal_event evs"
  | (request) pre e where "reconcile_pre_cancel F sv eoid loc reason = Inr pre"
      "\<not> list_ex is_terminal_event pre" "evs = pre @ [e]"
      "e = CancelRequested reason now \<or> e = offchain_order_event.Cancelled reason now"
proof -
  from assms obtain pre where pre: "reconcile_pre_cancel F sv eoid loc reason = Inr pre"
    by (auto simp: cancel_live_order_events_def)
  show thesis
  proof (cases "list_ex is_terminal_event pre")
    case True
    with assms pre show thesis by (auto simp: cancel_live_order_events_def intro: terminal)
  next
    case False
    with assms pre obtain out where "op_cancel_order sv eoid = Inr out"
      by (auto simp: cancel_live_order_events_def)
    with False assms pre show thesis
      by (cases out) (auto simp: cancel_live_order_events_def intro: request)
  qed
qed

lemma cancel_live_sound:
  assumes "cancel_live_order_events F sv now eoid loc reason = Inr evs" and "is_live ord"
  shows "\<exists>ord'. order_replay (Live ord) evs = Live ord' \<and> order_inv ord'"
  using assms(1)
proof (cases rule: cancel_liveE)
  case terminal
  with live_applies_shape [OF reconcile_pre_cancel_shape assms(2)] show ?thesis by blast
next
  case (request pre e)
  then obtain ord1 where ord1: "order_replay (Live ord) pre = Live ord1" and live: "is_live ord1"
    using live_applies_shape [OF reconcile_pre_cancel_shape [OF request(1)] assms(2)] by blast
  with request(3,4) live_applies_cancel_request [OF live, of reason now]
    live_applies_terminal [OF live, of "offchain_order_event.Cancelled reason now"]
  show ?thesis by auto
qed

lemma offchain_order_trans_sound:
  assumes inv: "order_inv ord" and acc: "offchain_order_transition F sv ord c = Inr evs"
  shows "\<exists>ord'. order_replay (Live ord) evs = Live ord' \<and> order_inv ord'"
proof (cases c)
  case (CancelOrder reason)
  show ?thesis
  proof (cases "is_live ord")
    case True
    with CancelOrder acc obtain eoid loc
      where "cancel_live_order_events F (fst sv) (snd sv) eoid loc reason = Inr evs"
      by (cases ord) (auto simp: cancel_order_events_def)
    from cancel_live_sound [OF this True] show ?thesis .
  next
    case False
    with CancelOrder acc inv show ?thesis
      by (cases ord) (auto simp: cancel_order_events_def)
  qed
next
  case (UpdatePartialFill q pr ts)
  with acc inv show ?thesis
    by (cases ord) (auto simp: update_partial_fill_events_def Let_def split: if_splits)
qed (use acc inv in \<open>cases ord; auto simp: validate_place_replay_def split: if_splits\<close>)+

interpretation oord: aggregate originate_offchain_order offchain_order_evolve
  offchain_order_initialize "offchain_order_transition F" order_inv for F
proof
  fix sv :: "'f order_placer \<times> timestamp" and c and evs :: "'f offchain_order_event list"
  assume "offchain_order_initialize sv c = Inr evs"
  then show "\<exists>s. order_replay lifecycle.Uninitialized evs = Live s \<and> order_inv s"
    by (cases "(sv, c)" rule: offchain_order_initialize.cases) (auto simp: placed_event_def)
qed (rule offchain_order_trans_sound)

section \<open>Recorded fills\<close>

text \<open>The cumulative fill an order carries before it is completely filled.\<close>

fun recorded_fill :: "'f offchain_order \<Rightarrow> 'f retained_fill option" where
  "recorded_fill (offchain_order.PartiallyFilled _ _ q _ _ _ pr _ _ ts _) = Some (Priced q pr ts)"
| "recorded_fill (Cancelling _ _ r _ _ _ _ _ _ _ _) = r"
| "recorded_fill (offchain_order.Failed _ _ _ _ r _ _ _ _) = r"
| "recorded_fill (offchain_order.Cancelled _ _ r _ _ _ _ _ _) = r"
| "recorded_fill _ = None"

definition recorded_value :: "('f \<Rightarrow> rat) \<Rightarrow> 'f offchain_order \<Rightarrow> rat" where
  "recorded_value v ord = (case recorded_fill ord of None \<Rightarrow> 0 | Some r \<Rightarrow> sval v (retained_shares_filled r))"

fun is_filled :: "'f offchain_order \<Rightarrow> bool" where
  "is_filled (offchain_order.Filled _ _ _ _ _ _ _ _ _) = True"
| "is_filled _ = False"

text \<open>An event that is not a partial fill keeps the recorded fill, unless it completes the order.\<close>

lemma evolve_keeps_recorded:
  "offchain_order_evolve ord e = Inr (Some ord') \<Longrightarrow> \<not> is_filled ord' \<Longrightarrow>
   (\<forall>q pr ts. e \<noteq> offchain_order_event.PartiallyFilled q pr ts) \<Longrightarrow> recorded_fill ord' = recorded_fill ord"
  by (cases e; cases ord) auto

lemma evolve_records_fill:
  "evolve_partially_filled ord q pr ts = Some ord' \<Longrightarrow> recorded_fill ord' = Some (Priced q pr ts)"
  by (cases ord) auto

lemma filled_absorbs:
  "is_filled ord \<Longrightarrow> order_replay (Live ord) es = Live ord' \<Longrightarrow> is_filled ord'"
proof (induction es arbitrary: ord)
  case (Cons e es)
  from Cons.prems(2) obtain ord1 where "offchain_order_evolve ord e = Inr (Some ord1)"
    by (rule replay_Live_ConsE)
  with Cons.prems(1) show ?case by (cases ord; cases e) auto
qed simp

text \<open>
  A batch of events each of whose fills is above the recorded one cannot lower the recorded
  fill.
\<close>

lemma batch_monotone:
  assumes "order_replay (Live ord) es = Live ord'" and "\<not> is_filled ord'"
    and "\<And>q pr ts. offchain_order_event.PartiallyFilled q pr ts \<in> set es \<Longrightarrow>
      recorded_value v ord \<le> sval v q"
  shows "recorded_value v ord \<le> recorded_value v ord'"
proof -
  have "order_replay (Live o1) es = Live ord' \<Longrightarrow> \<not> is_filled ord' \<Longrightarrow> b \<le> recorded_value v o1 \<Longrightarrow>
      (\<forall>q pr ts. offchain_order_event.PartiallyFilled q pr ts \<in> set es \<longrightarrow> b \<le> sval v q) \<Longrightarrow>
      b \<le> recorded_value v ord'" for o1 b
  proof (induction es arbitrary: o1)
    case (Cons e es)
    from Cons.prems(1) obtain o2 where e: "offchain_order_evolve o1 e = Inr (Some o2)"
      and rest: "order_replay (Live o2) es = Live ord'"
      by (rule replay_Live_ConsE)
    have nf: "\<not> is_filled o2" using filled_absorbs [OF _ rest] Cons.prems(2) by blast
    have b2: "b \<le> recorded_value v o2"
    proof (cases "\<exists>q pr ts. e = offchain_order_event.PartiallyFilled q pr ts")
      case True
      then obtain q pr ts where q: "e = offchain_order_event.PartiallyFilled q pr ts" by blast
      with e have "recorded_fill o2 = Some (Priced q pr ts)" by (simp add: evolve_records_fill)
      with q Cons.prems(4) show ?thesis by (simp add: recorded_value_def)
    next
      case False
      with evolve_keeps_recorded [OF e nf] Cons.prems(3) show ?thesis
        by (simp add: recorded_value_def)
    qed
    from Cons.prems(4) show ?case by (intro Cons.IH [OF rest Cons.prems(2) b2]) simp
  qed simp
  with assms show ?thesis by blast
qed

lemma terminal_emits_nothing:
  "is_terminal ord \<Longrightarrow> offchain_order_transition F sv ord c = Inr evs \<Longrightarrow> evs = []"
  by (cases c; cases ord)
    (auto simp: validate_place_replay_def cancel_order_events_def update_partial_fill_events_def
      split: if_splits)

lemma exceeds_value:
  "float_sem F v \<Longrightarrow> broker_fill_exceeds_local F a b = Inr x \<Longrightarrow> x = (sval v a > sval v b)"
  using float_sem_gt [of F v] by (auto simp: broker_fill_exceeds_local_def)

lemma already_recorded_value:
  assumes "float_sem F v" and "fill_already_recorded F loc q = Inr x"
  shows "x = (\<exists>l. loc = Some l \<and> sval v q \<le> sval v l)"
  using assms exceeds_value [OF assms(1)]
  by (cases loc) (auto simp: fill_already_recorded_def, fastforce+)

text \<open>A reconciliation emits a fill only when it exceeds the one already recorded.\<close>

lemma reconcile_terminal_fill_fresh:
  assumes "reconcile_terminal_fill F eoid loc sf avg bt t = Inr evs" and "is_terminal_event t"
    and "offchain_order_event.PartiallyFilled q pr ts \<in> set evs"
  shows "fill_already_recorded F loc q = Inr False"
  using assms
  by (cases sf; cases avg) (auto simp: reconcile_terminal_fill_def split: if_splits)

lemma reconcile_fill_fresh:
  assumes "reconcile_pre_cancel F sv eoid loc reason = Inr evs"
    and "offchain_order_event.PartiallyFilled q pr ts \<in> set evs"
  shows "fill_already_recorded F loc q = Inr False"
proof -
  from assms(1) obtain st where "op_get_order_status sv eoid = Inr st"
    by (auto simp: reconcile_pre_cancel_def)
  with assms show ?thesis
    by (cases st) (auto simp: reconcile_pre_cancel_def split: if_splits option.splits
        elim!: reconcile_terminal_fill_fresh)
qed

lemma cancel_live_fill_fresh:
  assumes "cancel_live_order_events F sv now eoid loc reason = Inr evs"
    and "offchain_order_event.PartiallyFilled q pr ts \<in> set evs"
  shows "fill_already_recorded F loc q = Inr False"
  using assms(1)
proof (cases rule: cancel_liveE)
  case terminal
  with reconcile_fill_fresh assms(2) show ?thesis by blast
next
  case (request pre e)
  with assms(2) have "offchain_order_event.PartiallyFilled q pr ts \<in> set pre" by auto
  with reconcile_fill_fresh [OF request(1)] show ?thesis by blast
qed

lemma transition_fill_exceeds:
  assumes sem: "float_sem F v" and rec: "recorded_fill ord = Some r"
    and acc: "offchain_order_transition F sv ord c = Inr evs"
    and mem: "offchain_order_event.PartiallyFilled q pr ts \<in> set evs"
  shows "recorded_value v ord \<le> sval v q"
proof -
  have nt: "\<not> is_terminal ord" using terminal_emits_nothing [OF _ acc] mem by auto
  show ?thesis
  proof (cases c)
    case (CancelOrder reason)
    with acc rec nt mem obtain l where "recorded_value v ord = sval v l"
      and "fill_already_recorded F (Some l) q = Inr False"
      by (cases ord) (auto simp: cancel_order_events_def recorded_value_def
          dest: cancel_live_fill_fresh)
    with already_recorded_value [OF sem, of "Some l" q False] show ?thesis by auto
  next
    case (UpdatePartialFill q' pr' ts')
    with acc mem rec nt obtain l where "recorded_value v ord = sval v l"
      and "broker_fill_exceeds_local F q l = Inr True"
      by (cases ord) (auto simp: update_partial_fill_events_def Let_def recorded_value_def
          split: if_splits)
    with exceeds_value [OF sem] show ?thesis by fastforce
  qed (use acc mem nt in \<open>cases ord; auto simp: validate_place_replay_def split: if_splits\<close>)+
qed

lemma batch_keeps_recorded:
  "order_replay (Live ord) es = Live ord' \<Longrightarrow> \<not> is_filled ord' \<Longrightarrow> recorded_fill ord \<noteq> None \<Longrightarrow>
   recorded_fill ord' \<noteq> None"
proof (induction es arbitrary: ord)
  case (Cons e es)
  from Cons.prems(1) obtain o2 where e: "offchain_order_evolve ord e = Inr (Some o2)"
    and rest: "order_replay (Live o2) es = Live ord'"
    by (rule replay_Live_ConsE)
  have nf: "\<not> is_filled o2" using filled_absorbs [OF _ rest] Cons.prems(2) by blast
  have "recorded_fill o2 \<noteq> None"
  proof (cases "\<exists>q pr ts. e = offchain_order_event.PartiallyFilled q pr ts")
    case True
    with e show ?thesis by (auto simp: evolve_records_fill)
  next
    case False
    with evolve_keeps_recorded [OF e nf] Cons.prems(3) show ?thesis by simp
  qed
  with Cons.IH [OF rest Cons.prems(2)] show ?case by simp
qed simp

abbreviation order_log ::
  "'f float_ops \<Rightarrow> 'f offchain_order_event list \<Rightarrow>
   (('f order_placer \<times> timestamp) \<times> 'f offchain_order_command) list \<Rightarrow> 'f offchain_order_event list" where
  "order_log F \<equiv> command_log originate_offchain_order offchain_order_evolve
     offchain_order_initialize (offchain_order_transition F)"

text \<open>The state reached by further commands: the log grows by batches of accepted transitions.\<close>

lemma order_log_induct:
  assumes start: "order_replay lifecycle.Uninitialized evlog = Live ord"
    and final: "order_replay lifecycle.Uninitialized (order_log F evlog cs) = Live ord'"
    and base: "P ord"
    and step: "\<And>a b sv c evs. P a \<Longrightarrow> offchain_order_transition F sv a c = Inr evs \<Longrightarrow>
      order_replay (Live a) evs = Live b \<Longrightarrow> P b"
  shows "P ord'"
  using start final base
proof (induction cs arbitrary: evlog ord)
  case (Cons x cs)
  obtain sv c where x: "x = (sv, c)" by (cases x)
  show ?case
  proof (cases "offchain_order_transition F sv ord c")
    case (Inl e)
    with Cons x show ?thesis by simp
  next
    case (Inr evs)
    with Cons.prems x have log: "order_log F evlog (x # cs) = order_log F (evlog @ evs) cs" by simp
    obtain es where "order_log F (evlog @ evs) cs = (evlog @ evs) @ es"
      using command_log_extends by blast
    with Cons.prems(1,2) log have "order_replay (order_replay (Live ord) evs) es = Live ord'" by simp
    then obtain o1 where o1: "order_replay (Live ord) evs = Live o1"
      using replay_Live_not_Uninitialized [of originate_offchain_order offchain_order_evolve ord evs]
      by (cases "order_replay (Live ord) evs") auto
    show ?thesis
      using Cons.IH [of "evlog @ evs" o1] Cons.prems log o1 step [OF Cons.prems(3) Inr o1] by simp
  qed
qed simp

fun broker_fill ::
  "'f order_state \<Rightarrow> ('f fractional_shares \<times> 'f usd option \<times> timestamp) option" where
  "broker_fill (OrderPartiallyFilled _ q avg ts) = Some (q, avg, ts)"
| "broker_fill (OrderCancelled ts _ q avg) = Some (q, avg, ts)"
| "broker_fill (OrderFailed ts _ (Some q) avg) = Some (q, avg, ts)"
| "broker_fill _ = None"

lemma reconcile_records_broker_fill:
  assumes sem: "float_sem F v"
    and st: "op_get_order_status sv eoid = Inr st" "broker_fill st = Some (q, avg, ts)"
    and more: "0 < sval v q" "\<And>l. loc = Some l \<Longrightarrow> sval v l < sval v q"
    and pre: "reconcile_pre_cancel F sv eoid loc reason = Inr evs"
  shows "\<exists>pr rest. avg = Some pr \<and>
    evs = offchain_order_event.PartiallyFilled q pr ts # rest \<and>
    (rest = [] \<or> (\<exists>e. rest = [e] \<and> is_terminal_event e \<and> (\<forall>p t. e \<noteq> offchain_order_event.Filled p t)))"
proof -
  have pos: "is_ok (positive_new (shares_has_zero F) q)"
    using positive_new_shares_Inl_value [OF sem, of q] more(1)
    by (cases "positive_new (shares_has_zero F) q") auto
  have "fill_already_recorded F loc q \<noteq> Inr True"
    using already_recorded_value [OF sem, of loc q True] more(2) by fastforce
  with st pre pos show ?thesis
    by (cases st rule: broker_fill.cases)
      (auto simp: reconcile_pre_cancel_def reconcile_terminal_fill_def split: option.splits)
qed

definition settled_quantity :: "('f \<Rightarrow> rat) \<Rightarrow> 'f offchain_order \<Rightarrow> rat" where
  "settled_quantity v ord = (if is_filled ord then sval v (positive_inner (order_shares ord))
     else max 0 (recorded_value v ord))"

lemma classify_priced:
  assumes sem: "float_sem F v" and tot: "float_total F" and priced: "priced_or_none r"
  shows "(\<exists>q pr ts. classify_terminal_fill F r d eoid nf = Complete q d eoid pr ts \<and>
      sval v (positive_inner q) = max 0 (case r of None \<Rightarrow> 0 | Some x \<Rightarrow> sval v (retained_shares_filled x))) \<or>
    (classify_terminal_fill F r d eoid nf = NoFill nf \<and>
      0 = max 0 (case r of None \<Rightarrow> 0 | Some x \<Rightarrow> sval v (retained_shares_filled x)))"
proof (cases r)
  case (Some x)
  with priced obtain q pr ts where x: "x = Priced q pr ts" by (cases x) auto
  show ?thesis
  proof (cases "positive_new (shares_has_zero F) q")
    case (Inl e)
    from positive_new_shares_Inl_value [OF sem Inl] Inl x Some show ?thesis
      by (auto simp: classify_terminal_fill_def)
  next
    case (Inr p)
    from positive_new_shares_value [OF sem tot Inr] Inr x Some show ?thesis
      by (auto simp: classify_terminal_fill_def)
  qed
qed (simp add: classify_terminal_fill_def)

text \<open>Every terminal order that satisfies the invariant has a finalization with a command.\<close>

lemma terminal_finalization:
  assumes sem: "float_sem F v" and tot: "float_total F" and inv: "order_inv ord" "is_terminal ord"
  shows "(\<exists>q eoid pr ts. terminal_position_finalization F ord =
        Some (Complete q (order_direction ord) eoid pr ts) \<and>
      sval v (positive_inner q) = settled_quantity v ord) \<or>
    (\<exists>nf. terminal_position_finalization F ord = Some (NoFill nf) \<and> settled_quantity v ord = 0)"
proof (cases ord)
  case (Failed s sh d x r eo err t1 t2)
  show ?thesis
  proof (cases eo)
    case None
    with Failed inv show ?thesis
      by (simp add: terminal_position_finalization_def settled_quantity_def recorded_value_def)
  next
    case (Some eoid)
    with Failed inv have "priced_or_none r" by simp
    from classify_priced [OF sem tot this, of d eoid "NoFillFailed err"] Failed Some show ?thesis
      by (auto simp: terminal_position_finalization_def settled_quantity_def recorded_value_def)
  qed
next
  case (Cancelled s sh r d x eoid reason t1 t2)
  with inv have "priced_or_none r" by simp
  from classify_priced [OF sem tot this, of d eoid "NoFillCancelled reason t2"] Cancelled show ?thesis
    by (auto simp: terminal_position_finalization_def settled_quantity_def recorded_value_def)
qed (use inv in \<open>auto simp: terminal_position_finalization_def settled_quantity_def\<close>)

section \<open>Demonstration data\<close>

definition demo_broker :: "rat order_state \<Rightarrow> rat order_placer" where
  "demo_broker st = \<lparr>op_cancel_order = (\<lambda>_. Inr Requested), op_get_order_status = (\<lambda>_. Inr st)\<rparr>"

definition demo_place :: "rat offchain_order_command" where
  "demo_place = Place ''AAPL'' (Positive (FractionalShares 5)) Sell DryRun (Automated 7) Market"

definition demo_accept :: "rat offchain_order_command" where
  "demo_accept = MarkAccepted ''x'' (Positive (FractionalShares 5)) 2 Regular None"

definition demo_partial :: "rat \<Rightarrow> rat offchain_order_command" where
  "demo_partial q = UpdatePartialFill (FractionalShares q) (Usd 100) 3"

abbreviation demo_sv :: "rat order_placer \<times> timestamp" where
  "demo_sv \<equiv> (demo_broker OrderPending, 9)"

lemmas order_eval = demo_place_def demo_accept_def demo_partial_def demo_broker_def placed_event_def
  market_session_from_extended_def update_partial_fill_events_def broker_fill_exceeds_local_def
  exact_rat_ops

section \<open>Properties\<close>

text \<open>
  Whatever commands, broker answers and clock readings an order sees, its lifecycle never
  fails, and no reachable state carries a retained fill without a price or a retained fill
  without a broker order.
\<close>

theorem order_commands_never_fail:
  "order_replay lifecycle.Uninitialized (order_log F [] cs) \<noteq> FailedLifecycle \<and>
   (\<forall>ord. order_replay lifecycle.Uninitialized (order_log F [] cs) = Live ord \<longrightarrow> order_inv ord)"
  using oord.commands_never_fail oord.commands_invariant by blast

theorem order_commands_never_fail_witness:
  "\<exists>ord. order_replay lifecycle.Uninitialized
      (order_log exact_rat [] [(demo_sv, demo_place), (demo_sv, demo_accept),
        (demo_sv, demo_partial 2), (demo_sv, CancelOrder Unrequested)]) = Live ord \<and> order_inv ord \<and>
    recorded_fill ord = Some (Priced (FractionalShares 2) (Usd 100) 3)"
proof -
  obtain ord where ord: "order_replay lifecycle.Uninitialized
      (order_log exact_rat [] [(demo_sv, demo_place), (demo_sv, demo_accept),
        (demo_sv, demo_partial 2), (demo_sv, CancelOrder Unrequested)]) = Live ord"
    and "recorded_fill ord = Some (Priced (FractionalShares 2) (Usd 100) 3)"
    by (simp add: order_eval cancel_order_events_def cancel_live_order_events_def
        reconcile_pre_cancel_def)
  with order_commands_never_fail show ?thesis by blast
qed

text \<open>
  A completed, failed or cancelled order is final: no later command adds an event to its
  log, whatever the broker then answers.
\<close>

theorem terminal_order_is_final:
  assumes "order_replay lifecycle.Uninitialized evlog = Live ord" and "is_terminal ord"
  shows "order_log F evlog cs = evlog"
proof (induction cs)
  case (Cons x cs)
  obtain sv c where x: "x = (sv, c)" by (cases x)
  show ?case
  proof (cases "offchain_order_transition F sv ord c")
    case (Inr evs)
    with terminal_emits_nothing [OF assms(2) Inr] Cons assms(1) x show ?thesis by simp
  qed (use Cons assms(1) x in simp)
qed simp

definition demo_filled_log :: "rat offchain_order_event list" where
  "demo_filled_log = [Placed ''AAPL'' (Positive (FractionalShares 5)) Sell DryRun 1 False None None,
     offchain_order_event.Submitted ''x'' 2, offchain_order_event.Filled (Usd 100) 3]"

theorem terminal_order_is_final_witness:
  "order_log exact_rat demo_filled_log
     [(demo_sv, MarkFailed ''late'' 4), (demo_sv, CancelOrder Unrequested), (demo_sv, demo_partial 2)] =
   demo_filled_log"
  by (rule terminal_order_is_final [of demo_filled_log "offchain_order.Filled ''AAPL''
      (Positive (FractionalShares 5)) Sell DryRun ''x'' (Usd 100) 1 2 3"])
    (simp_all add: demo_filled_log_def market_session_from_extended_def)

text \<open>
  C20. The cumulative fill an order has recorded is never lowered or lost: after any further
  commands the order is either completely filled or records at least as much, with stale and
  out-of-order broker reports ignored.
\<close>

theorem recorded_fill_never_decreases:
  assumes sem: "float_sem F v"
    and start: "order_replay lifecycle.Uninitialized evlog = Live ord" "recorded_fill ord = Some r"
    and final: "order_replay lifecycle.Uninitialized (order_log F evlog cs) = Live ord'"
  shows "is_filled ord' \<or> (\<exists>r'. recorded_fill ord' = Some r' \<and>
    sval v (retained_shares_filled r) \<le> sval v (retained_shares_filled r'))"
proof -
  let ?P = "\<lambda>a. is_filled a \<or> (recorded_fill a \<noteq> None \<and> recorded_value v ord \<le> recorded_value v a)"
  have "?P ord'"
  proof (rule order_log_induct [OF start(1) final, where P = ?P])
    fix a b sv c evs
    assume P: "?P a" and acc: "offchain_order_transition F sv a c = Inr evs"
      and step: "order_replay (Live a) evs = Live b"
    show "?P b"
    proof (cases "is_filled b")
      case False
      with filled_absorbs [OF _ step] have "\<not> is_filled a" by blast
      with P obtain ra where ra: "recorded_fill a = Some ra"
        and le: "recorded_value v ord \<le> recorded_value v a"
        by auto
      have "recorded_value v a \<le> recorded_value v b"
        using batch_monotone [OF step False] transition_fill_exceeds [OF sem ra acc] by blast
      with le batch_keeps_recorded [OF step False] ra show ?thesis by simp
    qed simp
  qed (simp add: start(2))
  then show ?thesis using start(2) by (auto simp: recorded_value_def)
qed

definition demo_partial_log :: "rat offchain_order_event list" where
  "demo_partial_log = [Placed ''AAPL'' (Positive (FractionalShares 5)) Sell DryRun 1 False None None,
     offchain_order_event.Submitted ''x'' 2,
     offchain_order_event.PartiallyFilled (FractionalShares 3) (Usd 100) 3]"

definition demo_partial_order :: "rat offchain_order" where
  "demo_partial_order = offchain_order.PartiallyFilled ''AAPL'' (Positive (FractionalShares 5))
     (FractionalShares 3) Sell DryRun ''x'' (Usd 100) 1 2 3 Regular"

lemma demo_partial_log_replay:
  "order_replay lifecycle.Uninitialized demo_partial_log = Live demo_partial_order"
  by (simp add: demo_partial_log_def demo_partial_order_def market_session_from_extended_def)

theorem recorded_fill_never_decreases_witness:
  "\<exists>ord'. order_replay lifecycle.Uninitialized
      (order_log exact_rat demo_partial_log [(demo_sv, demo_partial 2)]) = Live ord' \<and>
    (is_filled ord' \<or> (\<exists>r'. recorded_fill ord' = Some r' \<and>
      (3 :: rat) \<le> sval (\<lambda>x. x) (retained_shares_filled r')))"
proof -
  obtain ord' where ord': "order_replay lifecycle.Uninitialized
      (order_log exact_rat demo_partial_log [(demo_sv, demo_partial 2)]) = Live ord'"
    by (simp add: demo_partial_log_replay demo_partial_order_def order_eval)
  have "recorded_fill demo_partial_order = Some (Priced (FractionalShares 3) (Usd 100) 3)"
    by (simp add: demo_partial_order_def)
  from recorded_fill_never_decreases [OF exact_rat_sem demo_partial_log_replay this ord'] ord'
  show ?thesis by auto
qed

text \<open>A batch without fills keeps the recorded fill.\<close>

lemma batch_without_fills:
  "order_replay (Live ord) es = Live ord' \<Longrightarrow> \<not> is_filled ord \<Longrightarrow>
   (\<forall>e\<in>set es. (\<forall>p t. e \<noteq> offchain_order_event.Filled p t) \<and>
      (\<forall>q p t. e \<noteq> offchain_order_event.PartiallyFilled q p t)) \<Longrightarrow>
   recorded_fill ord' = recorded_fill ord"
proof (induction es arbitrary: ord)
  case (Cons e es)
  from Cons.prems(1) obtain o2 where e: "offchain_order_evolve ord e = Inr (Some o2)"
    and rest: "order_replay (Live o2) es = Live ord'"
    by (rule replay_Live_ConsE)
  have nf: "\<not> is_filled o2" using e Cons.prems(2,3) by (cases e; cases ord) auto
  from Cons.prems(3) have "recorded_fill o2 = recorded_fill ord"
    by (intro evolve_keeps_recorded [OF e nf]) simp
  moreover have "recorded_fill ord' = recorded_fill o2"
    using Cons.prems(3) by (intro Cons.IH [OF rest nf]) simp
  ultimately show ?case by simp
qed simp

text \<open>
  C19. Cancelling loses no execution: when the broker reports a larger fill than the order has
  recorded, an accepted cancellation has recorded exactly that fill at the broker's price and
  time, and an unpriced one is refused.
\<close>

theorem cancel_records_broker_fill:
  assumes sem: "float_sem F v" and live: "is_live ord" "order_executor_order_id ord = Some eoid"
    and st: "op_get_order_status (fst sv) eoid = Inr st" "broker_fill st = Some (q, avg, ts)"
    and more: "0 < sval v q" "recorded_value v ord < sval v q"
    and acc: "offchain_order_transition F sv ord (CancelOrder reason) = Inr evs"
  shows "\<exists>pr ord'. avg = Some pr \<and> order_replay (Live ord) evs = Live ord' \<and>
    recorded_fill ord' = Some (Priced q pr ts)"
proof -
  obtain loc where cancel: "cancel_live_order_events F (fst sv) (snd sv) eoid loc reason = Inr evs"
    and loc: "\<And>l. loc = Some l \<Longrightarrow> sval v l < sval v q"
    using live acc more by (cases ord) (auto simp: cancel_order_events_def recorded_value_def)
  obtain pre rest pr where pre: "reconcile_pre_cancel F (fst sv) eoid loc reason = Inr pre"
    and evs: "evs = pre @ rest" and rest: "\<forall>e\<in>set rest. \<not> (\<exists>p t. e = offchain_order_event.Filled p t)"
      "\<forall>e\<in>set rest. \<not> (\<exists>q p t. e = offchain_order_event.PartiallyFilled q p t)"
    using cancel by (cases rule: cancel_liveE) auto
  obtain pr more' where pr: "avg = Some pr"
    and batch: "evs = offchain_order_event.PartiallyFilled q pr ts # more'"
    and noFill: "\<forall>e\<in>set more'. (\<forall>p t. e \<noteq> offchain_order_event.Filled p t) \<and>
      (\<forall>q p t. e \<noteq> offchain_order_event.PartiallyFilled q p t)"
    using reconcile_records_broker_fill [OF sem st more(1) loc pre] evs rest by fastforce
  obtain ord' where ord': "order_replay (Live ord) evs = Live ord'"
    using cancel_live_sound [OF cancel live(1)] by blast
  obtain o1 where o1: "evolve_partially_filled ord q pr ts = Some o1" "is_live o1"
    using live_applies_fill [OF live(1)] by blast
  with ord' batch have rep: "order_replay (Live o1) more' = Live ord'" by simp
  have "\<not> is_filled o1" using o1(2) by (cases o1) auto
  then have "recorded_fill ord' = Some (Priced q pr ts)"
    using batch_without_fills [OF rep _ noFill] evolve_records_fill [OF o1(1)] by simp
  with pr ord' show ?thesis by blast
qed


theorem cancel_records_broker_fill_witness:
  "\<exists>ord' pr. order_replay (Live demo_partial_order)
      [offchain_order_event.PartiallyFilled (FractionalShares 4) (Usd 101) 6,
       offchain_order_event.Cancelled Unrequested 6] = Live ord' \<and>
    recorded_fill ord' = Some (Priced (FractionalShares 4) pr 6) \<and> is_terminal ord'"
proof -
  let ?st = "OrderCancelled 6 ''x'' (FractionalShares 4) (Some (Usd 101))"
  have acc: "offchain_order_transition exact_rat (demo_broker ?st, 9) demo_partial_order
      (CancelOrder Unrequested) =
      Inr [offchain_order_event.PartiallyFilled (FractionalShares 4) (Usd 101) 6,
        offchain_order_event.Cancelled Unrequested 6]"
    by (simp add: demo_partial_order_def order_eval cancel_order_events_def
        cancel_live_order_events_def reconcile_pre_cancel_def reconcile_terminal_fill_def
        fill_already_recorded_def positive_new_def Let_def)
  from cancel_records_broker_fill [OF exact_rat_sem _ _ _ _ _ _ acc, of "''x''" ?st
      "FractionalShares 4" "Some (Usd 101)" 6]
  show ?thesis
    by (auto simp: demo_partial_order_def demo_broker_def recorded_value_def)
qed

text \<open>
  C9. Every terminal order that commands can reach settles its position: it has a finalization
  command (an unpriced fill never blocks it), the position waiting for the order accepts it,
  its hedge slot is freed, and its net moves by exactly the quantity the broker executed, in the
  order's direction.
\<close>

theorem terminal_order_settles_position:
  assumes sem: "float_sem F v" and tot: "float_total F"
    and ord: "order_replay lifecycle.Uninitialized (order_log F [] cs) = Live ord" "is_terminal ord"
    and pend: "pending_offchain_order_id p = Some oid"
  shows "\<exists>fin cmd evs p'. terminal_position_finalization F ord = Some fin \<and>
    position_command_for_finalization fin oid = Some cmd \<and>
    position_transition F now p cmd = Inr evs \<and>
    replay (position_originate F) (position_evolve F) (Live p) evs = Live p' \<and>
    pending_offchain_order_id p' = None \<and>
    sval v (net p') = sval v (net p) + signed (order_direction ord) (settled_quantity v ord)"
proof -
  have "order_inv ord" using oord.commands_invariant ord(1) by blast
  from terminal_finalization [OF sem tot this ord(2)] show ?thesis
  proof (elim disjE exE conjE)
    fix q eoid pr ts
    assume fin: "terminal_position_finalization F ord =
        Some (Complete q (order_direction ord) eoid pr ts)"
      and q: "sval v (positive_inner q) = settled_quantity v ord"
    obtain p' where step: "position_evolve F p
        (OffChainOrderFilled oid q (order_direction ord) eoid pr ts) = Inr (Some p')"
      using position_evolve_offchain_fill [OF tot pend] by blast
    then have "replay (position_originate F) (position_evolve F) (Live p)
        [OffChainOrderFilled oid q (order_direction ord) eoid pr ts] = Live p'"
      by (simp del: position_evolve.simps)
    moreover have "position_transition F now p
        (CompleteOffChainOrder oid q (order_direction ord) eoid pr ts) =
        Inr [OffChainOrderFilled oid q (order_direction ord) eoid pr ts]"
      using pend by (simp add: validate_pending_execution_def)
    moreover have "pending_offchain_order_id p' = None"
      using step pend by auto
    moreover have "sval v (net p') = sval v (net p) +
        signed (order_direction ord) (settled_quantity v ord)"
      using position_evolve_ledger [OF sem step] q by (simp add: position_ledger_def)
    ultimately show ?thesis using fin position_command_for_finalization.simps(1) by blast
  next
    fix nf
    assume "terminal_position_finalization F ord = Some (NoFill nf)" and "settled_quantity v ord = 0"
    with pend show ?thesis
      by (cases nf; cases "order_direction ord") (simp_all add: validate_pending_execution_def)
  qed
qed

theorem terminal_order_settles_position_witness:
  "\<exists>fin cmd evs p'. terminal_position_finalization exact_rat
      (offchain_order.Failed ''AAPL'' (Positive (FractionalShares 5)) Sell DryRun
        (Some (Priced (FractionalShares 2) (Usd 100) 3)) (Some ''x'') ''late'' 9 4) = Some fin \<and>
    position_command_for_finalization fin (OffchainOrderId 7) = Some cmd \<and>
    position_transition exact_rat 9 (demo_position\<lparr>pending_offchain_order_id := Some (OffchainOrderId 7)\<rparr>)
      cmd = Inr evs \<and>
    replay (position_originate exact_rat) (position_evolve exact_rat)
      (Live (demo_position\<lparr>pending_offchain_order_id := Some (OffchainOrderId 7)\<rparr>)) evs = Live p' \<and>
    sval (\<lambda>x. x) (net p') = - 7"
proof -
  let ?ord = "offchain_order.Failed ''AAPL'' (Positive (FractionalShares 5)) Sell DryRun
        (Some (Priced (FractionalShares 2) (Usd 100) 3)) (Some ''x'') ''late'' 9 4 :: rat offchain_order"
  let ?p = "demo_position\<lparr>pending_offchain_order_id := Some (OffchainOrderId 7)\<rparr>"
  have ord: "order_replay lifecycle.Uninitialized (order_log exact_rat []
      [(demo_sv, demo_place), (demo_sv, demo_accept), (demo_sv, demo_partial 2),
       (demo_sv, MarkFailed ''late'' 4)]) = Live ?ord"
    by (simp add: order_eval)
  have pend: "pending_offchain_order_id ?p = Some (OffchainOrderId 7)" by simp
  have "sval (\<lambda>x. x) (net ?p) + signed (order_direction ?ord) (settled_quantity (\<lambda>x. x) ?ord) = - 7"
    by (simp add: demo_position_def settled_quantity_def recorded_value_def)
  with terminal_order_settles_position [OF exact_rat_sem exact_rat_total ord _ pend] show ?thesis
    by fastforce
qed

text \<open>
  C12. The broker idempotency key is stable across retries: after the first failure of order
  \<open>o1\<close> every later placement for the position is submitted under \<open>o1\<close>'s key, through any number
  of further failures, fills onchain and threshold changes, until a fill, an intentional
  cancellation or a manual adjustment ends the exposure the anchor stands for.
\<close>

theorem retry_keeps_client_order_id:
  assumes "replay (position_originate F) (position_evolve F) lifecycle.Uninitialized before = Live p0"
    and "last_failed_offchain_order_id p0 = None"
    and "replay (position_originate F) (position_evolve F) (Live p0)
      (OffChainOrderFailed o1 err ts # later) = Live p"
    and "\<forall>e\<in>set later. \<not> clears_anchor e"
  shows "client_order_id_for_placement oid (last_failed_offchain_order_id p) = Automated (as_uuid o1)"
proof -
  from assms(3) obtain p1 where p1: "position_evolve F p0 (OffChainOrderFailed o1 err ts) = Inr (Some p1)"
    and rest: "replay (position_originate F) (position_evolve F) (Live p1) later = Live p"
    by (rule replay_Live_ConsE)
  from p1 assms(2) have "last_failed_offchain_order_id p1 = Some o1" by (auto split: if_splits)
  from position_replay_keeps_anchor [OF rest this assms(4)] show ?thesis
    by (simp add: client_order_id_for_placement_def client_order_id_from_uuid_def)
qed

theorem retry_keeps_client_order_id_witness:
  "\<exists>p. replay (position_originate exact_rat) (position_evolve exact_rat) lifecycle.Uninitialized
      (take 3 demo_log @ [OffChainOrderFailed (OffchainOrderId 7) ''t'' 3,
        OffChainOrderPlaced (OffchainOrderId 8) (Positive (FractionalShares 5)) Sell DryRun
          (SharesThreshold 5 1) 4, OffChainOrderFailed (OffchainOrderId 8) ''t'' 5]) = Live p \<and>
    client_order_id_for_placement (OffchainOrderId 9) (last_failed_offchain_order_id p) = Automated 7"
proof -
  let ?later = "[OffChainOrderPlaced (OffchainOrderId 8) (Positive (FractionalShares 5)) Sell DryRun
      (SharesThreshold 5 1) 4, OffChainOrderFailed (OffchainOrderId 8) ''t'' 5] :: rat position_event list"
  obtain p0 where p0: "replay (position_originate exact_rat) (position_evolve exact_rat)
      lifecycle.Uninitialized (take 3 demo_log) = Live p0"
    and none: "last_failed_offchain_order_id p0 = None"
    and pend: "pending_offchain_order_id p0 = Some (OffchainOrderId 7)"
    by (simp add: demo_log_def exact_rat_ops shares_add_def)
  obtain p where p: "replay (position_originate exact_rat) (position_evolve exact_rat) (Live p0)
      (OffChainOrderFailed (OffchainOrderId 7) ''t'' 3 # ?later) = Live p"
    by (simp add: pend)
  have "client_order_id_for_placement (OffchainOrderId 9) (last_failed_offchain_order_id p) =
      Automated (as_uuid (OffchainOrderId 7))"
    by (rule retry_keeps_client_order_id [OF p0 none p]) simp
  moreover have "replay (position_originate exact_rat) (position_evolve exact_rat)
      lifecycle.Uninitialized (take 3 demo_log @ OffChainOrderFailed (OffchainOrderId 7) ''t'' 3 # ?later) =
      Live p"
    by (subst replay_append) (simp only: p0 p)
  ultimately show ?thesis by auto
qed

end
