(* ===== verification/OnChainTrade.thy ===== *)
theory OnChainTrade
  imports Execution_Types Event_Sourcing
begin

text \<open>
  The \<^verbatim>\<open>OnChainTrade\<close> aggregate of \<^verbatim>\<open>src/onchain_trade.rs\<close>: one DEX fill, keyed by
  transaction hash and log index, witnessed once, enriched at most once and marked acknowledged
  after the position has counted it. The variants compiled for tests only are left out.
\<close>

section \<open>State, commands, events, errors\<close>

record pyth_price =
  pyth_value :: string
  pyth_expo :: "32 word"
  pyth_conf :: string
  pyth_publish_time :: timestamp

record enrichment =
  enr_gas_used :: u64
  enr_effective_gas_price :: u128
  enr_pyth_price :: pyth_price
  enr_enriched_at :: timestamp

record 'f onchain_trade =
  oct_symbol :: symbol
  oct_amount :: 'f
  oct_direction :: direction
  oct_price_usdc :: 'f
  oct_block_number :: "u64 option"
  oct_block_timestamp :: timestamp
  oct_filled_at :: timestamp
  enrichment :: "enrichment option"
  acknowledged_at :: "timestamp option"

datatype onchain_trade_error =
    NotFilled
  | AlreadyEnriched
  | AlreadyFilled
  | AlreadyAcknowledged
  | GasPriceOutOfRange u128

datatype 'f onchain_trade_command =
    Witness symbol 'f direction 'f u64 timestamp
  | Enrich u64 u128 pyth_price
  | Acknowledge

datatype 'f onchain_trade_event =
    Filled symbol 'f direction 'f u64 timestamp timestamp
  | Enriched u64 u128 pyth_price timestamp
  | Acknowledged timestamp

section \<open>Operations\<close>

definition is_enriched :: "'f onchain_trade \<Rightarrow> bool" where
  "is_enriched t = (enrichment t \<noteq> None)"

definition is_acknowledged :: "'f onchain_trade \<Rightarrow> bool" where
  "is_acknowledged t = (acknowledged_at t \<noteq> None)"

fun onchain_trade_originate :: "'f onchain_trade_event \<Rightarrow> 'f onchain_trade option" where
  "onchain_trade_originate (Filled symbol amount direction price_usdc block_number block_timestamp
       filled_at) = Some \<lparr>
     oct_symbol = symbol, oct_amount = amount, oct_direction = direction,
     oct_price_usdc = price_usdc, oct_block_number = Some block_number,
     oct_block_timestamp = block_timestamp, oct_filled_at = filled_at,
     enrichment = None, acknowledged_at = None\<rparr>"
| "onchain_trade_originate (Enriched _ _ _ _) = None"
| "onchain_trade_originate (Acknowledged _) = None"

fun onchain_trade_evolve ::
  "'f onchain_trade \<Rightarrow> 'f onchain_trade_event \<Rightarrow> onchain_trade_error + 'f onchain_trade option" where
  "onchain_trade_evolve t (Enriched gas_used effective_gas_price pyth_price enriched_at) =
     Inr (Some (t\<lparr>enrichment := Some \<lparr>enr_gas_used = gas_used,
       enr_effective_gas_price = effective_gas_price, enr_pyth_price = pyth_price,
       enr_enriched_at = enriched_at\<rparr>\<rparr>))"
| "onchain_trade_evolve t (Acknowledged ack_at) = Inr (Some (t\<lparr>acknowledged_at := Some ack_at\<rparr>))"
| "onchain_trade_evolve t (Filled _ _ _ _ _ _ _) = Inr None"

fun onchain_trade_initialize ::
  "timestamp \<Rightarrow> 'f onchain_trade_command \<Rightarrow> onchain_trade_error + 'f onchain_trade_event list" where
  "onchain_trade_initialize now (Witness symbol amount direction price_usdc block_number
       block_timestamp) =
     Inr [Filled symbol amount direction price_usdc block_number block_timestamp now]"
| "onchain_trade_initialize now (Enrich _ _ _) = Inl NotFilled"
| "onchain_trade_initialize now Acknowledge = Inl NotFilled"

fun onchain_trade_transition ::
  "timestamp \<Rightarrow> 'f onchain_trade \<Rightarrow> 'f onchain_trade_command \<Rightarrow>
   onchain_trade_error + 'f onchain_trade_event list" where
  "onchain_trade_transition now t (Witness _ _ _ _ _ _) = Inl AlreadyFilled"
| "onchain_trade_transition now t (Enrich gas_used effective_gas_price pyth_price) =
     (if is_enriched t then Inl AlreadyEnriched
      else if uint effective_gas_price > i64_max
      then Inl (GasPriceOutOfRange effective_gas_price)
      else Inr [Enriched gas_used effective_gas_price pyth_price now])"
| "onchain_trade_transition now t Acknowledge =
     (if is_acknowledged t then Inl AlreadyAcknowledged else Inr [Acknowledged now])"

section \<open>Invariant\<close>

text \<open>A stored gas price fits the signed 64-bit column of the database.\<close>

definition onchain_trade_inv :: "'f onchain_trade \<Rightarrow> bool" where
  "onchain_trade_inv t =
     (case enrichment t of None \<Rightarrow> True | Some en \<Rightarrow> uint (enr_effective_gas_price en) \<le> i64_max)"

interpretation oct: aggregate onchain_trade_originate onchain_trade_evolve
  onchain_trade_initialize onchain_trade_transition onchain_trade_inv
proof
  fix now and c :: "'f onchain_trade_command" and evs
  assume "onchain_trade_initialize now c = Inr evs" "evs \<noteq> []"
  then show "\<exists>s. replay onchain_trade_originate onchain_trade_evolve Uninitialized evs = Live s \<and>
      onchain_trade_inv s"
    by (cases c) (auto simp: onchain_trade_inv_def)
next
  fix s :: "'f onchain_trade" and now c evs
  assume "onchain_trade_inv s" "onchain_trade_transition now s c = Inr evs"
  then show "\<exists>s'. replay onchain_trade_originate onchain_trade_evolve (Live s) evs = Live s' \<and>
      onchain_trade_inv s'"
    by (cases c) (auto simp: onchain_trade_inv_def split: if_splits)
qed

text \<open>Once acknowledged, a trade stays acknowledged; the trade data never change.\<close>

lemma onchain_trade_evolve_frame:
  "onchain_trade_evolve t e = Inr (Some t') \<Longrightarrow>
   oct_symbol t' = oct_symbol t \<and> oct_amount t' = oct_amount t \<and> oct_direction t' = oct_direction t \<and>
   oct_price_usdc t' = oct_price_usdc t \<and> (is_acknowledged t \<longrightarrow> is_acknowledged t') \<and>
   (is_enriched t \<longrightarrow> is_enriched t')"
  by (cases e) (auto simp: is_acknowledged_def is_enriched_def)

lemma onchain_trade_replay_frame:
  "replay onchain_trade_originate onchain_trade_evolve (Live t) es = Live t' \<Longrightarrow>
   oct_symbol t' = oct_symbol t \<and> oct_amount t' = oct_amount t \<and> oct_direction t' = oct_direction t \<and>
   oct_price_usdc t' = oct_price_usdc t \<and> (is_acknowledged t \<longrightarrow> is_acknowledged t') \<and>
   (is_enriched t \<longrightarrow> is_enriched t')"
proof (induction es arbitrary: t)
  case (Cons e es)
  from Cons.prems obtain t1 where "onchain_trade_evolve t e = Inr (Some t1)"
    and "replay onchain_trade_originate onchain_trade_evolve (Live t1) es = Live t'"
    by (rule replay_Live_ConsE)
  with Cons.IH [of t1] onchain_trade_evolve_frame [of t e t1] show ?case by metis
qed simp

section \<open>Properties\<close>

text \<open>
  A fill's record never fails its lifecycle, its trade data are those first witnessed whatever
  commands follow, and a stored gas price always fits the database's signed 64-bit column.
\<close>

theorem witnessed_trade_immutable:
  "replay onchain_trade_originate onchain_trade_evolve Uninitialized
     (command_log onchain_trade_originate onchain_trade_evolve onchain_trade_initialize
       onchain_trade_transition [] ((now, Witness sy a d pr bn bt) # cs)) \<in>
   {Live t | t. oct_symbol t = sy \<and> oct_amount t = a \<and> oct_direction t = d \<and> oct_price_usdc t = pr \<and>
      onchain_trade_inv t}"
proof -
  let ?replay = "replay onchain_trade_originate onchain_trade_evolve"
  let ?cmds = "command_log onchain_trade_originate onchain_trade_evolve onchain_trade_initialize
       onchain_trade_transition"
  let ?f = "Filled sy a d pr bn bt now"
  obtain t0 where t0: "onchain_trade_originate ?f = Some t0" by simp
  obtain es where es: "?cmds [?f] cs = ?f # es"
    using command_log_extends [of onchain_trade_originate onchain_trade_evolve
        onchain_trade_initialize onchain_trade_transition "[?f]" cs] by auto
  have "oct.healthy (?replay Uninitialized (?cmds [] ((now, Witness sy a d pr bn bt) # cs)))"
    by (rule oct.command_log_healthy) (simp add: oct.healthy_def)
  then have "oct.healthy (?replay (Live t0) es)"
    using es t0 by (simp del: onchain_trade_originate.simps)
  then obtain t where t: "?replay (Live t0) es = Live t" and inv: "onchain_trade_inv t"
    using replay_Live_not_Uninitialized [of onchain_trade_originate onchain_trade_evolve t0 es]
    by (cases "?replay (Live t0) es") (auto simp: oct.healthy_def)
  from t0 have "oct_symbol t0 = sy \<and> oct_amount t0 = a \<and> oct_direction t0 = d \<and> oct_price_usdc t0 = pr"
    by auto
  with onchain_trade_replay_frame [OF t] es t t0 inv show ?thesis
    by (simp del: onchain_trade_originate.simps)
qed

end
