(* ===== verification/Fill_Accounting.thy ===== *)
theory Fill_Accounting
  imports OffchainOrder OnChainTrade
begin

text \<open>
  Onchain fill accounting of \<^verbatim>\<open>src/conductor.rs\<close>: witness, enrich, acknowledge, mark, settle
  (ADR 0010), over two event stores and one query of the pool. The stores are parameters; their
  contract is the locale \<open>event_store\<close>, and \<open>fill_stores\<close> puts the two together. A delivery that
  fails part-way, or is cut off after any of its calls, is a delivery whose call reported an
  infrastructure error, before or after its commit.
\<close>

section \<open>Data\<close>

record 'f onchain_fill =
  of_tx_hash :: tx_hash
  of_log_index :: u64
  of_symbol :: symbol
  of_equity_token :: address
  of_amount :: "'f fractional_shares"
  of_direction :: direction
  of_price :: "'f usdc"
  of_block_number :: "u64 option"
  of_block_timestamp :: "timestamp option"
  of_gas_used :: "u64 option"
  of_effective_gas_price :: "u128 option"
  of_pyth_price :: "pyth_price option"

datatype position_fill_lookup_error = LogIndex trade_id | Query trade_id string

datatype 'f trade_accounting_error =
    OnChain string
  | OnChainTradeCommand "onchain_trade_error send_error"
  | VaultRegistry string
  | PositionCommand "'f position_error send_error"
  | OffchainOrderCommand "'f offchain_order_error send_error"
  | Execution string
  | AlpacaBrokerApiFailure string
  | EnqueueJob string
  | PositionFillLookup position_fill_lookup_error
  | MissingBlockTimestamp trade_id
  | UnexpectedPostPlaceState offchain_order_id "'f offchain_order"
  | InconsistentOnChainTradeState trade_id
  | MarketSessionCheck symbol string
  | LimitPriceFetch symbol string
  | LimitPriceUnavailable symbol
  | SlippageCalculation string

datatype fill_accounting_outcome = AccountedAlready | Accounted trade_id

type_synonym ('w, 'f) trade_store =
  "('w, trade_id, 'f onchain_trade, 'f onchain_trade_command, onchain_trade_error) store"

type_synonym ('w, 'f) position_store =
  "('w, symbol, 'f position, 'f position_command, 'f position_error) store"

text \<open>The pool's one query here: how many fill events of a trade the position's log holds.\<close>

type_synonym 'w fill_query = "symbol \<Rightarrow> trade_id \<Rightarrow> ('w, string, nat) effect"

section \<open>Operations\<close>

definition fill_trade_id :: "'f onchain_fill \<Rightarrow> trade_id" where
  "fill_trade_id trade = TradeId (of_tx_hash trade) (of_log_index trade)"

definition execute_witness_trade ::
  "('w, 'f) trade_store \<Rightarrow> 'f onchain_fill \<Rightarrow> u64 \<Rightarrow> timestamp \<Rightarrow>
   ('w, onchain_trade_error send_error, bool) effect" where
  "execute_witness_trade onchain_trade trade block_number block_timestamp =
     seqw (outcomew (st_send onchain_trade (fill_trade_id trade)
       (Witness (of_symbol trade) (shares_inner (of_amount trade)) (of_direction trade)
         (usdc_inner (of_price trade)) block_number block_timestamp))) (\<lambda>r.
     case r of
       Inr _ \<Rightarrow> retw True
     | Inl (UserError (Apply AlreadyFilled)) \<Rightarrow> retw False
     | Inl error \<Rightarrow> failw error)"

definition execute_enrich_trade ::
  "('w, 'f) trade_store \<Rightarrow> 'f onchain_fill \<Rightarrow> ('w, 'e, unit) effect" where
  "execute_enrich_trade onchain_trade trade =
     (case (of_gas_used trade, of_effective_gas_price trade, of_pyth_price trade) of
        (Some gas_used, Some effective_gas_price, Some pyth_price) \<Rightarrow>
          seqw (outcomew (st_send onchain_trade (fill_trade_id trade)
            (Enrich gas_used effective_gas_price pyth_price))) (\<lambda>_. retw ())
      | _ \<Rightarrow> retw ())"

definition execute_acknowledge_fill ::
  "('w, 'f) position_store \<Rightarrow> 'f onchain_fill \<Rightarrow> 'f execution_threshold \<Rightarrow> timestamp \<Rightarrow>
   ('w, 'f position_error send_error, unit) effect" where
  "execute_acknowledge_fill position trade threshold block_timestamp =
     seqw (outcomew (st_send position (of_symbol trade)
       (AcknowledgeOnChainFill (of_symbol trade) threshold (fill_trade_id trade)
         (FractionalShares (shares_inner (of_amount trade))) (of_direction trade)
         (usdc_inner (of_price trade)) block_timestamp))) (\<lambda>r.
     case r of
       Inr _ \<Rightarrow> retw ()
     | Inl (UserError (Apply (DuplicateTrade _))) \<Rightarrow> retw ()
     | Inl error \<Rightarrow> failw error)"

definition execute_mark_acknowledged ::
  "('w, 'f) trade_store \<Rightarrow> trade_id \<Rightarrow> ('w, onchain_trade_error send_error, unit) effect" where
  "execute_mark_acknowledged onchain_trade trade_id =
     seqw (outcomew (st_send onchain_trade trade_id Acknowledge)) (\<lambda>r.
     case r of
       Inr _ \<Rightarrow> retw ()
     | Inl (UserError (Apply AlreadyAcknowledged)) \<Rightarrow> retw ()
     | Inl error \<Rightarrow> failw error)"

definition execute_settle_fill ::
  "('w, 'f) position_store \<Rightarrow> 'f onchain_fill \<Rightarrow> ('w, 'f position_error send_error, unit) effect" where
  "execute_settle_fill position trade =
     st_send position (of_symbol trade) (SettleOnChainFill (fill_trade_id trade))"

definition position_fill_already_recorded ::
  "'w fill_query \<Rightarrow> symbol \<Rightarrow> trade_id \<Rightarrow> ('w, position_fill_lookup_error, bool) effect" where
  "position_fill_already_recorded pool symbol trade_id =
     (if uint (tid_log_index trade_id) > i64_max then failw (LogIndex trade_id)
      else seqw (map_errw (Query trade_id) (pool symbol trade_id)) (\<lambda>count. retw (count > 0)))"

text \<open>The tail of \<^verbatim>\<open>account_for_onchain_fill\<close>, and its arm for a trade found in the store.\<close>

definition acknowledge_unrecorded_fill ::
  "'w fill_query \<Rightarrow> ('w, 'f) position_store \<Rightarrow> 'f onchain_fill \<Rightarrow> 'f execution_threshold \<Rightarrow> timestamp \<Rightarrow>
   ('w, 'f trade_accounting_error, fill_accounting_outcome) effect" where
  "acknowledge_unrecorded_fill pool position trade threshold block_timestamp =
     seqw (map_errw PositionFillLookup
       (position_fill_already_recorded pool (of_symbol trade) (fill_trade_id trade))) (\<lambda>recorded.
     seqw (if recorded then retw ()
           else map_errw PositionCommand
             (execute_acknowledge_fill position trade threshold block_timestamp)) (\<lambda>_.
     retw (Accounted (fill_trade_id trade))))"

definition resume_fill_accounting ::
  "'w fill_query \<Rightarrow> ('w, 'f) trade_store \<Rightarrow> ('w, 'f) position_store \<Rightarrow> 'f onchain_fill \<Rightarrow>
   'f execution_threshold \<Rightarrow> timestamp \<Rightarrow> 'f onchain_trade \<Rightarrow>
   ('w, 'f trade_accounting_error, fill_accounting_outcome) effect" where
  "resume_fill_accounting pool onchain_trade position trade threshold block_timestamp state =
     (if is_acknowledged state
      then seqw (map_errw PositionCommand (execute_settle_fill position trade)) (\<lambda>_.
        retw AccountedAlready)
      else seqw (if is_enriched state then retw () else execute_enrich_trade onchain_trade trade) (\<lambda>_.
        acknowledge_unrecorded_fill pool position trade threshold block_timestamp))"

definition account_for_onchain_fill ::
  "'w fill_query \<Rightarrow> ('w, 'f) trade_store \<Rightarrow> ('w, 'f) position_store \<Rightarrow> 'f onchain_fill \<Rightarrow> u64 \<Rightarrow>
   'f execution_threshold \<Rightarrow> ('w, 'f trade_accounting_error, fill_accounting_outcome) effect" where
  "account_for_onchain_fill pool onchain_trade position trade block_number threshold =
     (case of_block_timestamp trade of
        None \<Rightarrow> failw (MissingBlockTimestamp (fill_trade_id trade))
      | Some block_timestamp \<Rightarrow>
          seqw (map_errw OnChainTradeCommand (st_load onchain_trade (fill_trade_id trade))) (\<lambda>loaded.
          case loaded of
            Some state \<Rightarrow>
              resume_fill_accounting pool onchain_trade position trade threshold block_timestamp state
          | None \<Rightarrow>
              seqw (map_errw OnChainTradeCommand
                (execute_witness_trade onchain_trade trade block_number block_timestamp)) (\<lambda>witnessed.
              if witnessed
              then seqw (execute_enrich_trade onchain_trade trade) (\<lambda>_.
                acknowledge_unrecorded_fill pool position trade threshold block_timestamp)
              else seqw (map_errw OnChainTradeCommand
                (st_load onchain_trade (fill_trade_id trade))) (\<lambda>reloaded.
                case reloaded of
                  Some state \<Rightarrow>
                    resume_fill_accounting pool onchain_trade position trade threshold
                      block_timestamp state
                | None \<Rightarrow> failw (InconsistentOnChainTradeState (fill_trade_id trade))))))"

text \<open>The accounting part of \<^verbatim>\<open>process_queued_trade\<close>: account, mark, settle.\<close>

definition record_queued_fill ::
  "'w fill_query \<Rightarrow> ('w, 'f) trade_store \<Rightarrow> ('w, 'f) position_store \<Rightarrow> 'f onchain_fill \<Rightarrow> u64 \<Rightarrow>
   'f execution_threshold \<Rightarrow> ('w, 'f trade_accounting_error, fill_accounting_outcome) effect" where
  "record_queued_fill pool onchain_trade position trade block_number threshold =
     seqw (account_for_onchain_fill pool onchain_trade position trade block_number threshold) (\<lambda>outcome.
     case outcome of
       AccountedAlready \<Rightarrow> retw AccountedAlready
     | Accounted trade_id \<Rightarrow>
         seqw (map_errw OnChainTradeCommand (execute_mark_acknowledged onchain_trade trade_id)) (\<lambda>_.
         seqw (map_errw PositionCommand (execute_settle_fill position trade)) (\<lambda>_.
         retw (Accounted trade_id))))"

text \<open>
  What can happen to the two logs of a trade, one action after the other: deliveries of fills by
  the accounting job, and commands other jobs send.
\<close>

datatype 'f fill_action =
    Deliver "'f onchain_fill" u64 "'f execution_threshold"
  | OtherPositionCommand symbol "'f position_command"
  | OtherTradeCommand trade_id "'f onchain_trade_command"

fun run_fill_action ::
  "'w fill_query \<Rightarrow> ('w, 'f) trade_store \<Rightarrow> ('w, 'f) position_store \<Rightarrow> 'f fill_action \<Rightarrow> 'w \<Rightarrow> 'w" where
  "run_fill_action pool TS PS (Deliver tr bn th) w = snd (record_queued_fill pool TS PS tr bn th w)"
| "run_fill_action pool TS PS (OtherPositionCommand i c) w = snd (st_send PS i c w)"
| "run_fill_action pool TS PS (OtherTradeCommand i c) w = snd (st_send TS i c w)"

fun acknowledges :: "trade_id \<Rightarrow> 'f position_command \<Rightarrow> bool" where
  "acknowledges t (AcknowledgeOnChainFill _ _ t' _ _ _ _) = (t' = t)"
| "acknowledges t _ = False"

text \<open>Only deliveries acknowledge fills, and a trade always names the same symbol.\<close>

fun fill_action_allowed :: "trade_id \<Rightarrow> symbol \<Rightarrow> 'f fill_action \<Rightarrow> bool" where
  "fill_action_allowed t s (Deliver tr _ _) = (fill_trade_id tr = t \<longrightarrow> of_symbol tr = s)"
| "fill_action_allowed t s (OtherPositionCommand i c) = (i = s \<longrightarrow> \<not> acknowledges t c)"
| "fill_action_allowed t s (OtherTradeCommand i c) = (i = t \<longrightarrow> c \<noteq> Acknowledge)"

section \<open>Log-level invariant\<close>

fun is_fill_of :: "trade_id \<Rightarrow> 'f position_event \<Rightarrow> bool" where
  "is_fill_of t (OnChainOrderFilled t' _ _ _ _ _) = (t' = t)"
| "is_fill_of t _ = False"

fun is_applied_of :: "trade_id \<Rightarrow> 'f position_event \<Rightarrow> bool" where
  "is_applied_of t (OnChainFillApplied t' _) = (t' = t)"
| "is_applied_of t _ = False"

definition fill_count :: "trade_id \<Rightarrow> 'f position_event list \<Rightarrow> nat" where
  "fill_count t evs = length (filter (is_fill_of t) evs)"

definition trade_acknowledged :: "'f onchain_trade_event list \<Rightarrow> bool" where
  "trade_acknowledged tev = (\<exists>st. replay onchain_trade_originate onchain_trade_evolve
     lifecycle.Uninitialized tev = Live st \<and> is_acknowledged st)"

definition applied_coherent :: "trade_id \<Rightarrow> 'f position_event list \<Rightarrow> bool" where
  "applied_coherent t pev = (list_ex (is_applied_of t) pev \<longrightarrow> fill_count t pev > 0)"

text \<open>
  What sequential accounting keeps of a trade's two logs: the position counts the fill at least
  \<open>n\<close> times and at most once, and the marker is only set on a counted fill.
\<close>

definition accounting_inv ::
  "nat \<Rightarrow> trade_id \<Rightarrow> 'f onchain_trade_event list \<Rightarrow> 'f position_event list \<Rightarrow> bool" where
  "accounting_inv n t tev pev \<longleftrightarrow> n \<le> fill_count t pev \<and> fill_count t pev \<le> 1 \<and> applied_coherent t pev \<and>
     (trade_acknowledged tev \<longrightarrow> fill_count t pev = 1)"

abbreviation pos_step where
  "pos_step F \<equiv> cmd_step (position_originate F) (position_evolve F) (position_initialize F)
     (position_transition F)"

abbreviation trade_step where
  "trade_step \<equiv> cmd_step onchain_trade_originate onchain_trade_evolve onchain_trade_initialize
     onchain_trade_transition"

lemma fill_count_append [simp]: "fill_count t (xs @ ys) = fill_count t xs + fill_count t ys"
  and fill_count_Nil [simp]: "fill_count t [] = 0"
  and fill_count_Cons [simp]: "fill_count t (e # es) = (if is_fill_of t e then 1 else 0) + fill_count t es"
  by (simp_all add: fill_count_def)

text \<open>The batch a position command emits holds a fill of \<open>t\<close> exactly when it acknowledges \<open>t\<close>.\<close>

lemma position_transition_batch:
  assumes "position_transition F now p c = Inr evs"
  shows "fill_count t evs = (if acknowledges t c then 1 else 0) \<and>
    list_ex (is_applied_of t) evs = acknowledges t c"
  using assms by (cases c) (auto simp: agg_defs split: if_splits option.splits)

lemma position_initialize_batch:
  assumes "position_initialize F now c = Inr evs"
  shows "fill_count t evs = (if acknowledges t c then 1 else 0) \<and>
    list_ex (is_applied_of t) evs = acknowledges t c"
  using assms by (cases c) (auto simp: agg_defs split: if_splits option.splits)

lemma pos_step_batch:
  assumes "pos_step F c pev pev'"
  shows "fill_count t pev' = fill_count t pev + (if acknowledges t c then 1 else 0) \<and>
    list_ex (is_applied_of t) pev' = (list_ex (is_applied_of t) pev \<or> acknowledges t c)"
proof -
  from assms obtain now evs where
    h: "handle (position_initialize F) (position_transition F)
      (replay (position_originate F) (position_evolve F) lifecycle.Uninitialized pev) now c = Inr evs"
    and pev': "pev' = pev @ evs"
    by (auto simp: cmd_step_def)
  have "fill_count t evs = (if acknowledges t c then 1 else 0) \<and>
    list_ex (is_applied_of t) evs = acknowledges t c"
    using h
    by (cases "replay (position_originate F) (position_evolve F) lifecycle.Uninitialized pev")
      (simp_all add: position_initialize_batch position_transition_batch)
  with pev' show ?thesis by auto
qed

lemma trade_step_marks:
  assumes "trade_step c tev tev'" and "c \<noteq> Acknowledge" and "trade_acknowledged tev'"
  shows "trade_acknowledged tev"
proof -
  let ?r = "replay onchain_trade_originate onchain_trade_evolve lifecycle.Uninitialized tev"
  from assms(1) obtain now evs where
    h: "handle onchain_trade_initialize onchain_trade_transition ?r now c = Inr evs"
    and tev': "tev' = tev @ evs"
    by (auto simp: cmd_step_def)
  show ?thesis
  proof (cases ?r)
    case Uninitialized
    with h assms(2,3) tev' show ?thesis
      by (cases c) (auto simp: trade_acknowledged_def is_acknowledged_def)
  next
    case (Live st)
    with h assms(2,3) tev' show ?thesis
      by (cases c) (auto simp: trade_acknowledged_def is_acknowledged_def split: if_splits)
  qed (use h in simp)
qed

lemma trade_step_acknowledge:
  "trade_step Acknowledge tev tev' \<Longrightarrow> trade_acknowledged tev'"
  by (cases "replay onchain_trade_originate onchain_trade_evolve lifecycle.Uninitialized tev")
    (auto simp: cmd_step_def trade_acknowledged_def is_acknowledged_def split: if_splits)

lemma inv_other_position:
  assumes "accounting_inv n t tev pev" and "pos_step F c pev pev'" and "\<not> acknowledges t c"
  shows "accounting_inv n t tev pev'"
  using assms pos_step_batch [OF assms(2), of t]
  by (simp add: accounting_inv_def applied_coherent_def)

lemma inv_acknowledge:
  assumes "accounting_inv n t tev pev" and "pos_step F c pev pev'" and "fill_count t pev = 0"
  shows "accounting_inv n t tev pev'"
  using assms pos_step_batch [OF assms(2), of t]
  by (auto simp: accounting_inv_def applied_coherent_def)

lemma inv_trade:
  assumes "accounting_inv n t tev pev" and "trade_step c tev tev'"
    and "c = Acknowledge \<Longrightarrow> fill_count t pev = 1"
  shows "accounting_inv n t tev' pev"
  using assms trade_step_marks [OF assms(2)] by (cases "c = Acknowledge") (auto simp: accounting_inv_def)

text \<open>A duplicate rejection implies the fill is in the log.\<close>

lemma position_evolve_slot:
  "position_evolve F p e = Inr (Some p') \<Longrightarrow> \<not> is_fill_of t e \<Longrightarrow>
   last_acknowledged_trade_id p \<noteq> Some t \<Longrightarrow> last_acknowledged_trade_id p' \<noteq> Some t"
  by (induction F p e rule: position_evolve.induct) (auto split: if_splits)

lemma position_evolve_pending:
  "position_evolve F p e = Inr (Some p') \<Longrightarrow> \<not> is_applied_of t e \<Longrightarrow>
   t \<notin> pending_acknowledged_trade_ids p \<Longrightarrow> t \<notin> pending_acknowledged_trade_ids p'"
  by (induction F p e rule: position_evolve.induct) (auto split: if_splits)

lemma position_originate_fresh:
  "position_originate F e = Some p \<Longrightarrow>
   last_acknowledged_trade_id p = None \<and> pending_acknowledged_trade_ids p = {}"
  by (cases e) auto

lemma last_acknowledged_in_log:
  "replay (position_originate F) (position_evolve F) l pev = Live p \<Longrightarrow>
   last_acknowledged_trade_id p = Some t \<Longrightarrow>
   (\<And>p0. l = Live p0 \<Longrightarrow> last_acknowledged_trade_id p0 \<noteq> Some t) \<Longrightarrow> fill_count t pev > 0"
proof (induction pev arbitrary: l)
  case (Cons e pev)
  let ?l = "apply_event (position_originate F) (position_evolve F) l e"
  show ?case
  proof (cases "is_fill_of t e")
    case False
    have "?l = Live p1 \<Longrightarrow> last_acknowledged_trade_id p1 \<noteq> Some t" for p1
      using Cons.prems(3) position_evolve_slot [OF _ False]
      by (cases l) (auto split: sum.splits option.splits dest: position_originate_fresh)
    with Cons.IH [of ?l] Cons.prems False show ?thesis by simp
  qed simp
qed simp

lemma pending_in_log:
  "replay (position_originate F) (position_evolve F) l pev = Live p \<Longrightarrow>
   t \<in> pending_acknowledged_trade_ids p \<Longrightarrow>
   (\<And>p0. l = Live p0 \<Longrightarrow> t \<notin> pending_acknowledged_trade_ids p0) \<Longrightarrow> list_ex (is_applied_of t) pev"
proof (induction pev arbitrary: l)
  case (Cons e pev)
  let ?l = "apply_event (position_originate F) (position_evolve F) l e"
  show ?case
  proof (cases "is_applied_of t e")
    case False
    have "?l = Live p1 \<Longrightarrow> t \<notin> pending_acknowledged_trade_ids p1" for p1
      using Cons.prems(3) position_evolve_pending [OF _ False]
      by (cases l) (auto split: sum.splits option.splits dest: position_originate_fresh)
    with Cons.IH [of ?l] Cons.prems False show ?thesis by simp
  qed simp
qed simp

lemma duplicate_means_counted:
  assumes "applied_coherent t pev"
    and "handle (position_initialize F) (position_transition F)
      (replay (position_originate F) (position_evolve F) lifecycle.Uninitialized pev) now
      (AcknowledgeOnChainFill sy th t a d pr bt) = Inl (Apply (DuplicateTrade t'))"
  shows "fill_count t pev > 0"
proof -
  let ?r = "replay (position_originate F) (position_evolve F) lifecycle.Uninitialized pev"
  from assms(2) obtain p where p: "?r = Live p"
    and "last_acknowledged_trade_id p = Some t \<or> t \<in> pending_acknowledged_trade_ids p"
    by (cases ?r) (auto simp: agg_defs split: if_splits)
  then show ?thesis
    using last_acknowledged_in_log [OF p] pending_in_log [OF p] assms(1)
    by (auto simp: applied_coherent_def)
qed


section \<open>Sequential accounting over event stores\<close>

locale fill_stores =
  T: event_store TS tlog onchain_trade_originate onchain_trade_evolve onchain_trade_initialize
    onchain_trade_transition +
  P: event_store PS plog "position_originate F" "position_evolve F" "position_initialize F"
    "position_transition F"
  for TS :: "('w, 'f) trade_store" and tlog and PS :: "('w, 'f) position_store" and plog
    and F :: "'f float_ops" +
  fixes pool :: "'w fill_query"
  assumes trade_send_frame: "plog (snd (st_send TS i c w)) = plog w"
    and trade_load_frame: "plog (snd (st_load TS i w)) = plog w"
    and position_send_frame: "tlog (snd (st_send PS s c' w)) = tlog w"
    and query_frame: "tlog (snd (pool s t w)) = tlog w" "plog (snd (pool s t w)) = plog w"
    and query_counts: "pool s t w = (Inr n, w') \<Longrightarrow> n = fill_count t (plog w s)"
begin

text \<open>The invariant of trade \<open>t\<close> of symbol \<open>s\<close>, with a further fact \<open>G\<close> about its two logs.\<close>

definition holds ::
  "nat \<Rightarrow> trade_id \<Rightarrow> symbol \<Rightarrow> ('f onchain_trade_event list \<Rightarrow> 'f position_event list \<Rightarrow> bool) \<Rightarrow> 'w \<Rightarrow> bool" where
  "holds n t s G w \<longleftrightarrow> accounting_inv n t (tlog w t) (plog w s) \<and> G (tlog w t) (plog w s)"

abbreviation inv0 :: "nat \<Rightarrow> trade_id \<Rightarrow> symbol \<Rightarrow> 'w \<Rightarrow> bool" where
  "inv0 n t s \<equiv> holds n t s (\<lambda>_ _. True)"

definition counted :: "trade_id \<Rightarrow> 'f onchain_trade_event list \<Rightarrow> 'f position_event list \<Rightarrow> bool" where
  "counted t tev pev \<longleftrightarrow> fill_count t pev = 1"

definition marked :: "trade_id \<Rightarrow> 'f onchain_trade_event list \<Rightarrow> 'f position_event list \<Rightarrow> bool" where
  "marked t tev pev \<longleftrightarrow> fill_count t pev = 1 \<and> trade_acknowledged tev"

definition settled :: "trade_id \<Rightarrow> 'f onchain_trade_event list \<Rightarrow> 'f position_event list \<Rightarrow> bool" where
  "settled t tev pev \<longleftrightarrow> marked t tev pev \<and> (\<forall>p. replay (position_originate F) (position_evolve F)
     lifecycle.Uninitialized pev = Live p \<longrightarrow> t \<notin> pending_acknowledged_trade_ids p)"

lemma trade_send_logs:
  assumes "st_send TS i c w = (r, w')"
  shows "plog w' = plog w" and "tlog w' t = tlog w t \<or> (i = t \<and> trade_step c (tlog w t) (tlog w' t))"
  using trade_send_frame [of i c w] T.send_grows [OF assms] T.send_other [OF assms, of t] assms
  by (cases "i = t"; auto)+

lemma position_send_logs:
  assumes "st_send PS i c w = (r, w')"
  shows "tlog w' = tlog w" and "plog w' s = plog w s \<or> (i = s \<and> pos_step F c (plog w s) (plog w' s))"
  using position_send_frame [of i c w] P.send_grows [OF assms] P.send_other [OF assms, of s] assms
  by (cases "i = s"; auto)+

lemma trade_send_holds:
  assumes "st_send TS i c w = (r, w')" and "i = t \<Longrightarrow> c \<noteq> Acknowledge" and "inv0 n t s w"
  shows "inv0 n t s w'"
  using assms(2,3) trade_send_logs(1) [OF assms(1)] trade_send_logs(2) [OF assms(1), of t]
  by (auto simp: holds_def intro: inv_trade)

lemma position_send_holds:
  assumes "st_send PS i c w = (r, w')" and "i = s \<Longrightarrow> \<not> acknowledges t c" and "inv0 n t s w"
  shows "inv0 n t s w'"
  using assms(2,3) position_send_logs(1) [OF assms(1)] position_send_logs(2) [OF assms(1), of s]
  by (auto simp: holds_def intro: inv_other_position)

lemma enrich_keeps: "triple (inv0 n t s) (execute_enrich_trade TS trade) (\<lambda>_. inv0 n t s) (\<lambda>_. inv0 n t s)"
proof -
  have "triple (inv0 n t s) (st_send TS i (Enrich g e p)) (\<lambda>_. inv0 n t s) (\<lambda>_. inv0 n t s)" for i g e p
    by (rule tripleI) (auto elim!: trade_send_holds)
  then show ?thesis
    unfolding execute_enrich_trade_def
    by (auto intro!: triple_match split: option.split)
qed

lemma witness_keeps:
  "triple (inv0 n t s) (execute_witness_trade TS trade bn bt) (\<lambda>_. inv0 n t s) (\<lambda>_. inv0 n t s)"
proof -
  have "triple (inv0 n t s) (st_send TS i (Witness a b c d e f)) (\<lambda>_. inv0 n t s) (\<lambda>_. inv0 n t s)"
    for i a b c d e f
    by (rule tripleI) (auto elim!: trade_send_holds)
  then show ?thesis
    unfolding execute_witness_trade_def
    by (auto intro!: triple_match
        split: sum.split send_error.split lifecycle_error.split onchain_trade_error.split)
qed

text \<open>A fact about the logs of \<open>t\<close> that only a delivery of \<open>t\<close> itself establishes.\<close>

definition whent ::
  "'f onchain_fill \<Rightarrow> trade_id \<Rightarrow> (trade_id \<Rightarrow> 'f onchain_trade_event list \<Rightarrow> 'f position_event list \<Rightarrow> bool) \<Rightarrow>
   'f onchain_trade_event list \<Rightarrow> 'f position_event list \<Rightarrow> bool" where
  "whent tr t G tev pev \<longleftrightarrow> (fill_trade_id tr = t \<longrightarrow> G t tev pev)"

definition uncounted :: "trade_id \<Rightarrow> 'f onchain_trade_event list \<Rightarrow> 'f position_event list \<Rightarrow> bool" where
  "uncounted t tev pev \<longleftrightarrow> fill_count t pev = 0"

lemma holds_inv0: "holds n t s G w \<Longrightarrow> inv0 n t s w"
  by (simp add: holds_def)

lemma holdsI: "inv0 n t s w \<Longrightarrow> G (tlog w t) (plog w s) \<Longrightarrow> holds n t s G w"
  by (simp add: holds_def)

lemma settle_prunes:
  assumes "pos_step F (SettleOnChainFill t) pev pev'"
    and "replay (position_originate F) (position_evolve F) lifecycle.Uninitialized pev' = Live p"
  shows "t \<notin> pending_acknowledged_trade_ids p"
proof -
  let ?r = "replay (position_originate F) (position_evolve F) lifecycle.Uninitialized pev"
  from assms show ?thesis
    by (cases ?r) (auto simp: cmd_step_def split: if_splits)
qed

lemma settle_step:
  assumes con: "fill_trade_id tr = t \<longrightarrow> of_symbol tr = s"
  shows "triple (holds n t s (whent tr t marked)) (execute_settle_fill PS tr)
    (\<lambda>_. holds n t s (whent tr t settled)) (\<lambda>_. inv0 n t s)"
proof (rule tripleI; unfold execute_settle_fill_def)
  fix w u w'
  assume pre: "holds n t s (whent tr t marked) w"
    and send: "st_send PS (of_symbol tr) (SettleOnChainFill (fill_trade_id tr)) w = (Inr u, w')"
  have inv: "inv0 n t s w'" by (rule position_send_holds [OF send _ holds_inv0 [OF pre]]) simp
  show "holds n t s (whent tr t settled) w'"
  proof (rule holdsI [OF inv], unfold whent_def, rule impI)
    assume t: "fill_trade_id tr = t"
    with P.send_ok [OF send] con have step: "pos_step F (SettleOnChainFill t) (plog w s) (plog w' s)"
      by simp
    from pre t have "marked t (tlog w t) (plog w s)" by (simp add: holds_def whent_def)
    then have "marked t (tlog w' t) (plog w' s)"
      using pos_step_batch [OF step, of t] position_send_logs(1) [OF send] by (simp add: marked_def)
    then show "settled t (tlog w' t) (plog w' s)"
      using settle_prunes [OF step] by (simp add: settled_def)
  qed
next
  fix w e w'
  assume pre: "holds n t s (whent tr t marked) w"
    and send: "st_send PS (of_symbol tr) (SettleOnChainFill (fill_trade_id tr)) w = (Inl e, w')"
  show "inv0 n t s w'" by (rule position_send_holds [OF send _ holds_inv0 [OF pre]]) simp
qed

text \<open>After a marker send on a counted fill the invariant holds whatever its outcome.\<close>

lemma mark_send_inv:
  assumes pre: "holds n t s (whent tr t counted) w"
    and send: "st_send TS (fill_trade_id tr) Acknowledge w = (r, w')"
  shows "inv0 n t s w'"
  using pre trade_send_logs(1) [OF send] trade_send_logs(2) [OF send, of t]
  by (auto simp: holds_def whent_def counted_def intro: inv_trade)

lemma mark_step:
  "triple (holds n t s (whent tr t counted)) (execute_mark_acknowledged TS (fill_trade_id tr))
    (\<lambda>_. holds n t s (whent tr t marked)) (\<lambda>_. inv0 n t s)"
proof -
  have "triple (holds n t s (whent tr t counted)) (st_send TS (fill_trade_id tr) Acknowledge)
      (\<lambda>_. holds n t s (whent tr t marked))
      (\<lambda>e. if e = UserError (Apply AlreadyAcknowledged) then holds n t s (whent tr t marked) else inv0 n t s)"
  proof (rule tripleI)
    fix w u w'
    assume pre: "holds n t s (whent tr t counted) w"
      and send: "st_send TS (fill_trade_id tr) Acknowledge w = (Inr u, w')"
    have "trade_acknowledged (tlog w' (fill_trade_id tr))"
      by (rule trade_step_acknowledge [OF T.send_ok [OF send]])
    with pre trade_send_logs(1) [OF send] show "holds n t s (whent tr t marked) w'"
      by (intro holdsI [OF mark_send_inv [OF pre send]])
        (auto simp: holds_def whent_def counted_def marked_def)
  next
    fix w e w'
    assume pre: "holds n t s (whent tr t counted) w"
      and send: "st_send TS (fill_trade_id tr) Acknowledge w = (Inl e, w')"
    show "(if e = UserError (Apply AlreadyAcknowledged) then holds n t s (whent tr t marked) else inv0 n t s) w'"
    proof (cases "e = UserError (Apply AlreadyAcknowledged)")
      case True
      from T.send_rejected [OF send [unfolded True]]
      have "tlog w' (fill_trade_id tr) = tlog w (fill_trade_id tr)"
        and "trade_acknowledged (tlog w (fill_trade_id tr))"
        by (cases "replay onchain_trade_originate onchain_trade_evolve lifecycle.Uninitialized
            (tlog w (fill_trade_id tr))"; auto simp: trade_acknowledged_def split: if_splits)+
      with pre trade_send_logs(1) [OF send] True show ?thesis
        using mark_send_inv [OF pre send]
        by (auto simp: holds_def whent_def counted_def marked_def)
    next
      case False
      with mark_send_inv [OF pre send] show ?thesis by simp
    qed
  qed
  then show ?thesis
    unfolding execute_mark_acknowledged_def
    by (rule triple_match)
      (auto dest: holds_inv0 split: send_error.split lifecycle_error.split onchain_trade_error.split)
qed

lemma acknowledge_send_inv:
  assumes pre: "holds n t s (whent tr t uncounted) w"
    and send: "st_send PS i (AcknowledgeOnChainFill sy th (fill_trade_id tr) a d pr bt) w = (r, w')"
  shows "inv0 n t s w'"
proof (cases "fill_trade_id tr = t")
  case True
  with pre position_send_logs(1) [OF send] position_send_logs(2) [OF send, of s] show ?thesis
    by (auto simp: holds_def whent_def uncounted_def intro: inv_acknowledge)
next
  case False
  then show ?thesis by (intro position_send_holds [OF send _ holds_inv0 [OF pre]]) simp
qed

lemma acknowledge_step:
  assumes con: "fill_trade_id tr = t \<longrightarrow> of_symbol tr = s"
  shows "triple (holds n t s (whent tr t uncounted)) (execute_acknowledge_fill PS tr th bt)
    (\<lambda>_. holds n t s (whent tr t counted)) (\<lambda>_. inv0 n t s)"
proof -
  let ?c = "AcknowledgeOnChainFill (of_symbol tr) th (fill_trade_id tr)
      (FractionalShares (shares_inner (of_amount tr))) (of_direction tr) (usdc_inner (of_price tr)) bt"
  have "triple (holds n t s (whent tr t uncounted)) (st_send PS (of_symbol tr) ?c)
      (\<lambda>_. holds n t s (whent tr t counted))
      (\<lambda>e. if \<exists>t'. e = UserError (Apply (DuplicateTrade t')) then holds n t s (whent tr t counted) else inv0 n t s)"
  proof (rule tripleI)
    fix w u w'
    assume pre: "holds n t s (whent tr t uncounted) w"
      and send: "st_send PS (of_symbol tr) ?c w = (Inr u, w')"
    show "holds n t s (whent tr t counted) w'"
      using pre con pos_step_batch [OF P.send_ok [OF send], of t]
      by (intro holdsI [OF acknowledge_send_inv [OF pre send]])
        (auto simp: holds_def whent_def uncounted_def counted_def)
  next
    fix w e w'
    assume pre: "holds n t s (whent tr t uncounted) w"
      and send: "st_send PS (of_symbol tr) ?c w = (Inl e, w')"
    show "(if \<exists>t'. e = UserError (Apply (DuplicateTrade t')) then holds n t s (whent tr t counted)
        else inv0 n t s) w'"
    proof (cases "\<exists>t'. e = UserError (Apply (DuplicateTrade t'))")
      case True
      then obtain t' where e: "e = UserError (Apply (DuplicateTrade t'))" by blast
      have "fill_trade_id tr \<noteq> t"
      proof
        assume t: "fill_trade_id tr = t"
        with pre have "applied_coherent t (plog w s)" and "fill_count t (plog w s) = 0"
          by (auto simp: holds_def whent_def uncounted_def accounting_inv_def)
        with duplicate_means_counted P.send_rejected [OF send [unfolded e]] t con show False
          by fastforce
      qed
      with True show ?thesis
        by (simp add: holdsI [OF acknowledge_send_inv [OF pre send]] whent_def)
    next
      case False
      with acknowledge_send_inv [OF pre send] show ?thesis by simp
    qed
  qed
  then show ?thesis
    unfolding execute_acknowledge_fill_def
    by (rule triple_match)
      (auto dest: holds_inv0 split: send_error.split lifecycle_error.split position_error.split)
qed

lemma query_step:
  assumes con: "fill_trade_id tr = t \<longrightarrow> of_symbol tr = s"
  shows "triple (inv0 n t s) (position_fill_already_recorded pool (of_symbol tr) (fill_trade_id tr))
    (\<lambda>recorded. holds n t s (whent tr t (if recorded then counted else uncounted))) (\<lambda>_. inv0 n t s)"
proof -
  let ?n = "\<lambda>k. holds n t s (whent tr t (if k > 0 then counted else uncounted))"
  have "triple (inv0 n t s) (pool (of_symbol tr) (fill_trade_id tr)) ?n (\<lambda>_. inv0 n t s)"
  proof (rule tripleI)
    fix w k w'
    assume "inv0 n t s w" and q: "pool (of_symbol tr) (fill_trade_id tr) w = (Inr k, w')"
    then show "?n k w'"
      using query_counts [OF q] query_frame [of "of_symbol tr" "fill_trade_id tr" w] con
      by (auto simp: holds_def whent_def counted_def uncounted_def accounting_inv_def)
  next
    fix w e w'
    assume "inv0 n t s w" and "pool (of_symbol tr) (fill_trade_id tr) w = (Inl e, w')"
    then show "inv0 n t s w'"
      using query_frame [of "of_symbol tr" "fill_trade_id tr" w] by (auto simp: holds_def)
  qed
  then show ?thesis
    unfolding position_fill_already_recorded_def
    by (auto intro!: triple_seqw triple_map_err)
qed

lemma load_step:
  "triple (inv0 n t s) (st_load TS (fill_trade_id tr))
    (\<lambda>loaded. holds n t s (whent tr t
      (if \<exists>st. loaded = Some st \<and> is_acknowledged st then marked else (\<lambda>_ _ _. True))))
    (\<lambda>_. inv0 n t s)"
proof (rule tripleI)
  fix w x w'
  assume inv: "inv0 n t s w" and load: "st_load TS (fill_trade_id tr) w = (Inr x, w')"
  have same: "tlog w' = tlog w" "plog w' = plog w"
    using T.load_same [OF load] trade_load_frame [of "fill_trade_id tr" w] load by simp_all
  have "trade_acknowledged (tlog w (fill_trade_id tr))" if "x = Some st" "is_acknowledged st" for st
    using T.load_some [of "fill_trade_id tr" w st w'] load that by (auto simp: trade_acknowledged_def)
  with inv same show "holds n t s (whent tr t
      (if \<exists>st. x = Some st \<and> is_acknowledged st then marked else (\<lambda>_ _ _. True))) w'"
    by (auto simp: holds_def whent_def marked_def accounting_inv_def)
next
  fix w e w'
  assume inv: "inv0 n t s w" and load: "st_load TS (fill_trade_id tr) w = (Inl e, w')"
  then show "inv0 n t s w'"
    using T.load_same [OF load] trade_load_frame [of "fill_trade_id tr" w] by (simp add: holds_def)
qed

text \<open>What accounting establishes: settled when it was already acknowledged, counted otherwise.\<close>

definition accounted_post :: "nat \<Rightarrow> 'f onchain_fill \<Rightarrow> trade_id \<Rightarrow> symbol \<Rightarrow> fill_accounting_outcome \<Rightarrow> 'w \<Rightarrow> bool" where
  "accounted_post n tr t s outcome w = (case outcome of
     AccountedAlready \<Rightarrow> holds n t s (whent tr t settled) w
   | Accounted i \<Rightarrow> i = fill_trade_id tr \<and> holds n t s (whent tr t counted) w)"

lemma acknowledge_unrecorded_step:
  assumes con: "fill_trade_id tr = t \<longrightarrow> of_symbol tr = s"
  shows "triple (inv0 n t s) (acknowledge_unrecorded_fill pool PS tr th bt)
    (accounted_post n tr t s) (\<lambda>_. inv0 n t s)"
  unfolding acknowledge_unrecorded_fill_def
proof (rule triple_seqw [OF triple_map_err [OF query_step [OF con]]])
  show "triple (holds n t s (whent tr t (if recorded then counted else uncounted)))
    (seqw (if recorded then retw ()
       else map_errw PositionCommand (execute_acknowledge_fill PS tr th bt))
      (\<lambda>_. retw (Accounted (fill_trade_id tr)))) (accounted_post n tr t s) (\<lambda>_. inv0 n t s)" for recorded
    by (rule triple_seqw [where R = "\<lambda>_. holds n t s (whent tr t counted)"])
      (auto simp: accounted_post_def intro: triple_map_err acknowledge_step [OF con])
qed

lemma resume_step:
  assumes con: "fill_trade_id tr = t \<longrightarrow> of_symbol tr = s"
  shows "triple (holds n t s (whent tr t (if is_acknowledged state then marked else (\<lambda>_ _ _. True))))
    (resume_fill_accounting pool TS PS tr th bt state) (accounted_post n tr t s) (\<lambda>_. inv0 n t s)"
proof (cases "is_acknowledged state")
  case True
  then show ?thesis
    by (auto simp: resume_fill_accounting_def accounted_post_def
        intro!: triple_seqw [OF triple_map_err [OF settle_step [OF con]]])
next
  case False
  have "triple (inv0 n t s) (seqw (if is_enriched state then retw () else execute_enrich_trade TS tr)
      (\<lambda>_. acknowledge_unrecorded_fill pool PS tr th bt)) (accounted_post n tr t s) (\<lambda>_. inv0 n t s)"
    by (rule triple_seqw [OF _ acknowledge_unrecorded_step [OF con]]) (simp add: enrich_keeps)
  then have "triple (inv0 n t s) (resume_fill_accounting pool TS PS tr th bt state)
      (accounted_post n tr t s) (\<lambda>_. inv0 n t s)"
    unfolding resume_fill_accounting_def if_not_P [OF False] .
  then show ?thesis by (rule triple_pre) (rule holds_inv0)
qed

lemma account_step:
  assumes con: "fill_trade_id tr = t \<longrightarrow> of_symbol tr = s"
  shows "triple (inv0 n t s) (account_for_onchain_fill pool TS PS tr bn th)
    (accounted_post n tr t s) (\<lambda>_. inv0 n t s)"
proof (cases "of_block_timestamp tr")
  case (Some bt)
  have found: "triple (holds n t s (whent tr t
        (if \<exists>st. loaded = Some st \<and> is_acknowledged st then marked else (\<lambda>_ _ _. True))))
      (case loaded of Some state \<Rightarrow> resume_fill_accounting pool TS PS tr th bt state | None \<Rightarrow> m)
      (accounted_post n tr t s) (\<lambda>_. inv0 n t s)"
    if "triple (inv0 n t s) m (accounted_post n tr t s) (\<lambda>_. inv0 n t s)" for loaded m
    using resume_step [OF con] triple_pre [OF that holds_inv0] by (cases loaded) auto
  have lost: "triple (inv0 n t s) (failw (InconsistentOnChainTradeState (fill_trade_id tr)))
      (accounted_post n tr t s) (\<lambda>_. inv0 n t s)"
    by simp
  show ?thesis
    unfolding account_for_onchain_fill_def Some option.case
    by (intro triple_seqw [OF triple_map_err [OF load_step] found]
        triple_seqw [OF triple_map_err [OF witness_keeps]] triple_if
        triple_seqw [OF enrich_keeps acknowledge_unrecorded_step [OF con]] lost)
qed (simp add: account_for_onchain_fill_def)

lemma record_step:
  assumes con: "fill_trade_id tr = t \<longrightarrow> of_symbol tr = s"
  shows "triple (inv0 n t s) (record_queued_fill pool TS PS tr bn th)
    (\<lambda>_. holds n t s (whent tr t settled)) (\<lambda>_. inv0 n t s)"
proof -
  have "triple (accounted_post n tr t s outcome) (case outcome of
       AccountedAlready \<Rightarrow> retw AccountedAlready
     | Accounted trade_id \<Rightarrow>
         seqw (map_errw OnChainTradeCommand (execute_mark_acknowledged TS trade_id)) (\<lambda>_.
         seqw (map_errw PositionCommand (execute_settle_fill PS tr)) (\<lambda>_.
         retw (Accounted trade_id))))
     (\<lambda>_. holds n t s (whent tr t settled)) (\<lambda>_. inv0 n t s)" for outcome
  proof (cases outcome)
    case (Accounted i)
    show ?thesis
    proof (cases "i = fill_trade_id tr")
      case True
      have "triple (holds n t s (whent tr t counted))
          (seqw (map_errw OnChainTradeCommand (execute_mark_acknowledged TS (fill_trade_id tr))) (\<lambda>_.
            seqw (map_errw PositionCommand (execute_settle_fill PS tr)) (\<lambda>_. retw (Accounted (fill_trade_id tr)))))
          (\<lambda>_. holds n t s (whent tr t settled)) (\<lambda>_. inv0 n t s)"
        by (intro triple_seqw [OF triple_map_err [OF mark_step]]
            triple_seqw [OF triple_map_err [OF settle_step [OF con]]]) simp
      with Accounted True show ?thesis
        by simp (rule triple_pre, assumption, simp add: accounted_post_def)
    qed (simp add: Accounted accounted_post_def triple_def)
  qed (simp add: accounted_post_def)
  then show ?thesis
    unfolding record_queued_fill_def by (rule triple_seqw [OF account_step [OF con]])
qed

lemma action_keeps:
  assumes "inv0 n t s w" and "fill_action_allowed t s a"
  shows "inv0 n t s (run_fill_action pool TS PS a w)"
proof (cases a)
  case (Deliver tr bn th)
  with assms(2) have con: "fill_trade_id tr = t \<longrightarrow> of_symbol tr = s" by simp
  obtain r w' where r: "record_queued_fill pool TS PS tr bn th w = (r, w')" by fastforce
  have "inv0 n t s w'"
  proof (cases r)
    case (Inl e)
    with triple_Inl [OF record_step [OF con] assms(1)] r show ?thesis by blast
  next
    case (Inr x)
    with triple_Inr [OF record_step [OF con] assms(1)] r show ?thesis by (blast intro: holds_inv0)
  qed
  with Deliver r show ?thesis by simp
next
  case (OtherPositionCommand i c)
  with assms position_send_holds [of i c w] show ?thesis
    by (cases "st_send PS i c w") auto
next
  case (OtherTradeCommand i c)
  with assms trade_send_holds [of i c w] show ?thesis
    by (cases "st_send TS i c w") auto
qed

lemma actions_keep:
  assumes "inv0 n t s w" and "\<forall>a\<in>set acts. fill_action_allowed t s a"
  shows "inv0 n t s (fold (run_fill_action pool TS PS) acts w)"
  using assms by (induction acts arbitrary: w) (auto intro: action_keeps)

end


section \<open>Reference store\<close>

text \<open>
  An in-memory event store with a schedule of faults: a call can be lost before or after its
  commit. It satisfies the contract, so the theorems about the stores are not vacuous. Beside
  the logs it holds what the hedging code touches: the broker's answers, the orders submitted to
  it and the poll jobs queued.
\<close>

datatype store_fault = Healthy | LostBeforeCommit | LostAfterCommit

record 'f mem_world =
  mw_trades :: "trade_id \<Rightarrow> 'f onchain_trade_event list"
  mw_positions :: "symbol \<Rightarrow> 'f position_event list"
  mw_orders :: "offchain_order_id \<Rightarrow> 'f offchain_order_event list"
  mw_broker :: "'f order_placer"
  mw_submissions :: "client_order_id list"
  mw_polls :: "offchain_order_id list"
  mw_clock :: timestamp
  mw_faults :: "store_fault list"

definition take_fault :: "'f mem_world \<Rightarrow> store_fault \<times> 'f mem_world" where
  "take_fault w = (case mw_faults w of
     [] \<Rightarrow> (Healthy, w)
   | f # fs \<Rightarrow> (f, w\<lparr>mw_faults := fs\<rparr>))"

definition mem_send ::
  "('f mem_world \<Rightarrow> 'id \<Rightarrow> 'ev list) \<Rightarrow> (('id \<Rightarrow> 'ev list) \<Rightarrow> 'f mem_world \<Rightarrow> 'f mem_world) \<Rightarrow>
   ('f mem_world \<Rightarrow> 'svc) \<Rightarrow> ('ev \<Rightarrow> 's option) \<Rightarrow> ('s \<Rightarrow> 'ev \<Rightarrow> 'err + 's option) \<Rightarrow>
   ('svc \<Rightarrow> 'cmd \<Rightarrow> 'err + 'ev list) \<Rightarrow> ('svc \<Rightarrow> 's \<Rightarrow> 'cmd \<Rightarrow> 'err + 'ev list) \<Rightarrow>
   'id \<Rightarrow> 'cmd \<Rightarrow> ('f mem_world, 'err send_error, unit) effect" where
  "mem_send get put svc originate evolve initialize transition i c w =
     (case take_fault w of (f, w1) \<Rightarrow>
        if f = LostBeforeCommit then (Inl (InfrastructureError ''unavailable''), w1)
        else case handle initialize transition
               (replay originate evolve lifecycle.Uninitialized (get w1 i)) (svc w1) c of
            Inl e \<Rightarrow> (Inl (UserError e), w1)
          | Inr evs \<Rightarrow> (if f = Healthy then Inr () else Inl (InfrastructureError ''unavailable''),
              put ((get w1)(i := get w1 i @ evs)) (w1\<lparr>mw_clock := mw_clock w1 + 1\<rparr>)))"

definition mem_load ::
  "('f mem_world \<Rightarrow> 'id \<Rightarrow> 'ev list) \<Rightarrow> ('ev \<Rightarrow> 's option) \<Rightarrow> ('s \<Rightarrow> 'ev \<Rightarrow> 'err + 's option) \<Rightarrow>
   'id \<Rightarrow> ('f mem_world, 'err send_error, 's option) effect" where
  "mem_load get originate evolve i w =
     (case take_fault w of (f, w1) \<Rightarrow>
        if f \<noteq> Healthy then (Inl (InfrastructureError ''unavailable''), w1)
        else case replay originate evolve lifecycle.Uninitialized (get w1 i) of
            lifecycle.Uninitialized \<Rightarrow> (Inr None, w1)
          | Live s \<Rightarrow> (Inr (Some s), w1)
          | FailedLifecycle \<Rightarrow> (Inl (UserError (OtherLifecycleError ''failed'')), w1))"

definition mem_trades :: "('f mem_world, 'f) trade_store" where
  "mem_trades = \<lparr>
     st_send = mem_send mw_trades (\<lambda>l w. w\<lparr>mw_trades := l\<rparr>) mw_clock onchain_trade_originate
       onchain_trade_evolve onchain_trade_initialize onchain_trade_transition,
     st_load = mem_load mw_trades onchain_trade_originate onchain_trade_evolve\<rparr>"

definition mem_positions :: "'f float_ops \<Rightarrow> ('f mem_world, 'f) position_store" where
  "mem_positions F = \<lparr>
     st_send = mem_send mw_positions (\<lambda>l w. w\<lparr>mw_positions := l\<rparr>) mw_clock (position_originate F)
       (position_evolve F) (position_initialize F) (position_transition F),
     st_load = mem_load mw_positions (position_originate F) (position_evolve F)\<rparr>"

definition mem_fill_query :: "'f mem_world fill_query" where
  "mem_fill_query s t w = (case take_fault w of (f, w1) \<Rightarrow>
     (if f = Healthy then Inr (fill_count t (mw_positions w1 s)) else Inl ''unavailable'', w1))"

lemma take_fault_frame:
  assumes "take_fault w = (f, w1)"
  shows "mw_trades w1 = mw_trades w" "mw_positions w1 = mw_positions w" "mw_orders w1 = mw_orders w"
    "mw_clock w1 = mw_clock w"
  using assms by (auto simp: take_fault_def split: list.splits)

lemma mem_event_store:
  assumes put: "\<And>l w. get (put l w) = l" and get: "\<And>w c. get (w\<lparr>mw_clock := c\<rparr>) = get w"
    and fault: "\<And>w f w1. take_fault w = (f, w1) \<Longrightarrow> get w1 = get w"
  shows "event_store \<lparr>st_send = mem_send get put svc og ev ini tra, st_load = mem_load get og ev\<rparr>
    get og ev ini tra"
  by unfold_locales
    (auto simp: mem_send_def mem_load_def cmd_step_def put get dest!: fault
      split: prod.splits if_splits sum.splits lifecycle.splits)

interpretation mem: fill_stores mem_trades mw_trades "mem_positions F" mw_positions F mem_fill_query
  for F
proof (intro fill_stores.intro fill_stores_axioms.intro)
  show "event_store mem_trades mw_trades onchain_trade_originate onchain_trade_evolve
      onchain_trade_initialize onchain_trade_transition"
    unfolding mem_trades_def by (rule mem_event_store) (simp_all add: take_fault_frame)
  show "event_store (mem_positions F) mw_positions (position_originate F) (position_evolve F)
      (position_initialize F) (position_transition F)"
    unfolding mem_positions_def by (rule mem_event_store) (simp_all add: take_fault_frame)
qed (auto simp: mem_trades_def mem_positions_def mem_send_def mem_load_def mem_fill_query_def
    take_fault_frame split: prod.splits if_splits sum.splits lifecycle.splits)

section \<open>Fault-free deliveries\<close>

definition position_ok :: "'f float_ops \<Rightarrow> 'f position_event list \<Rightarrow> bool" where
  "position_ok F pev = (case replay (position_originate F) (position_evolve F)
     lifecycle.Uninitialized pev of
       lifecycle.Uninitialized \<Rightarrow> True | Live p \<Rightarrow> position_inv p | FailedLifecycle \<Rightarrow> False)"

definition mem_ready :: "'f float_ops \<Rightarrow> 'f onchain_fill \<Rightarrow> 'f mem_world \<Rightarrow> bool" where
  "mem_ready F tr w \<longleftrightarrow> mw_faults w = [] \<and> position_ok F (mw_positions w (of_symbol tr)) \<and>
     replay onchain_trade_originate onchain_trade_evolve lifecycle.Uninitialized
       (mw_trades w (fill_trade_id tr)) \<noteq> FailedLifecycle"

definition mem_live :: "'f float_ops \<Rightarrow> 'f onchain_fill \<Rightarrow> 'f mem_world \<Rightarrow> bool" where
  "mem_live F tr w \<longleftrightarrow> mem_ready F tr w \<and> (\<exists>st. replay onchain_trade_originate onchain_trade_evolve
     lifecycle.Uninitialized (mw_trades w (fill_trade_id tr)) = Live st)"

lemma position_ok_step:
  assumes tot: "float_total F" and ok: "position_ok F pev"
    and h: "handle (position_initialize F) (position_transition F)
      (replay (position_originate F) (position_evolve F) lifecycle.Uninitialized pev) now c = Inr evs"
  shows "position_ok F (pev @ evs)"
  using aggregate.handle_healthy [OF position_aggregate [OF tot] _ h] ok
  by (auto simp: position_ok_def aggregate.healthy_def [OF position_aggregate [OF tot]]
      split: lifecycle.splits)

text \<open>A fault-free position send fails only by a domain rejection, and keeps the world ready.\<close>

lemma mem_position_send:
  assumes tot: "float_total F"
    and acc: "\<And>p now e. position_transition F now p c = Inl e \<Longrightarrow> R e"
    and ini: "\<And>now e. position_initialize F now c = Inl e \<Longrightarrow> R e"
  shows "triple (mem_live F tr) (st_send (mem_positions F) (of_symbol tr) c)
    (\<lambda>_. mem_live F tr) (\<lambda>e w. mem_live F tr w \<and> (\<exists>d. e = UserError (Apply d) \<and> R d))"
proof -
  let ?rep = "\<lambda>w. replay (position_originate F) (position_evolve F) lifecycle.Uninitialized
      (mw_positions w (of_symbol tr))"
  let ?h = "\<lambda>w. handle (position_initialize F) (position_transition F) (?rep w) (mw_clock w) c"
  have ready: "take_fault w = (Healthy, w) \<and> ?rep w \<noteq> FailedLifecycle \<and>
      position_ok F (mw_positions w (of_symbol tr))" if "mem_live F tr w" for w
    using that by (auto simp: mem_live_def mem_ready_def take_fault_def position_ok_def)
  have send: "st_send (mem_positions F) (of_symbol tr) c w = (case ?h w of
        Inl e \<Rightarrow> (Inl (UserError e), w)
      | Inr evs \<Rightarrow> (Inr (), w\<lparr>mw_clock := mw_clock w + 1, mw_positions :=
          (mw_positions w)(of_symbol tr := mw_positions w (of_symbol tr) @ evs)\<rparr>))"
    if "mem_live F tr w" for w
    using ready [OF that] by (simp add: mem_positions_def mem_send_def split: sum.split)
  show ?thesis
  proof (rule tripleI)
    fix w u w' assume live: "mem_live F tr w" and "st_send (mem_positions F) (of_symbol tr) c w = (Inr u, w')"
    then obtain evs where "?h w = Inr evs" and "w' = w\<lparr>mw_clock := mw_clock w + 1, mw_positions :=
          (mw_positions w)(of_symbol tr := mw_positions w (of_symbol tr) @ evs)\<rparr>"
      by (auto simp: send [OF live] split: sum.splits)
    with live ready [OF live] position_ok_step [OF tot] show "mem_live F tr w'"
      by (auto simp: mem_live_def mem_ready_def)
  next
    fix w e w' assume live: "mem_live F tr w" and "st_send (mem_positions F) (of_symbol tr) c w = (Inl e, w')"
    then obtain d where d: "?h w = Inl d" and w': "w' = w" "e = UserError d"
      by (auto simp: send [OF live] split: sum.splits)
    from d ready [OF live] acc ini obtain d' where "d = Apply d'" "R d'"
      by (cases "?rep w") auto
    with w' live show "mem_live F tr w' \<and> (\<exists>d. e = UserError (Apply d) \<and> R d)" by auto
  qed
qed

lemma mem_settle:
  assumes "float_total F"
  shows "triple (mem_live F tr) (execute_settle_fill (mem_positions F) tr) (\<lambda>_. mem_live F tr) (\<lambda>_ _. False)"
  unfolding execute_settle_fill_def
  by (rule triple_weaken [OF mem_position_send [OF assms, where R = "\<lambda>_. False"]])
    (auto split: if_splits)

lemma mem_acknowledge:
  assumes "float_total F"
  shows "triple (mem_live F tr) (execute_acknowledge_fill (mem_positions F) tr th bt)
    (\<lambda>_. mem_live F tr) (\<lambda>_ _. False)"
  unfolding execute_acknowledge_fill_def
  by (rule triple_match [OF mem_position_send [OF assms,
        where R = "\<lambda>e. \<exists>t. e = DuplicateTrade t"]])
    (auto simp: agg_defs triple_def split: if_splits send_error.split lifecycle_error.split)

lemma mem_trade_send:
  assumes "\<And>w. P w \<Longrightarrow> mem_ready F tr w"
    and "\<And>w. P w \<Longrightarrow> c = Acknowledge \<or> (\<exists>a b p. c = Enrich a b p) \<Longrightarrow> mem_live F tr w"
  shows "triple P (st_send mem_trades (fill_trade_id tr) c) (\<lambda>_. mem_live F tr)
    (\<lambda>e w. mem_live F tr w \<and> (c = Acknowledge \<longrightarrow> e = UserError (Apply AlreadyAcknowledged)) \<and>
       ((\<exists>a b d f g h. c = Witness a b d f g h) \<longrightarrow> e = UserError (Apply AlreadyFilled)))"
proof -
  let ?rep = "\<lambda>w. replay onchain_trade_originate onchain_trade_evolve lifecycle.Uninitialized
      (mw_trades w (fill_trade_id tr))"
  let ?h = "\<lambda>w. handle onchain_trade_initialize onchain_trade_transition (?rep w) (mw_clock w) c"
  have send: "st_send mem_trades (fill_trade_id tr) c w = (case ?h w of
        Inl e \<Rightarrow> (Inl (UserError e), w)
      | Inr evs \<Rightarrow> (Inr (), w\<lparr>mw_clock := mw_clock w + 1, mw_trades :=
          (mw_trades w)(fill_trade_id tr := mw_trades w (fill_trade_id tr) @ evs)\<rparr>))"
    if "P w" for w
  proof -
    have "take_fault w = (Healthy, w)"
      using assms(1) [OF that] by (simp add: mem_ready_def take_fault_def)
    then show ?thesis by (simp add: mem_trades_def mem_send_def split: sum.split)
  qed
  show ?thesis
  proof (rule tripleI)
    fix w u w' assume P: "P w" and "st_send mem_trades (fill_trade_id tr) c w = (Inr u, w')"
    then obtain evs where "?h w = Inr evs" and "w' = w\<lparr>mw_clock := mw_clock w + 1, mw_trades :=
          (mw_trades w)(fill_trade_id tr := mw_trades w (fill_trade_id tr) @ evs)\<rparr>"
      by (auto simp: send [OF P] split: sum.splits)
    with assms(1) [OF P] show "mem_live F tr w'"
      by (cases "?rep w"; cases c) (auto simp: mem_live_def mem_ready_def split: if_splits)
  next
    fix w e w' assume P: "P w" and "st_send mem_trades (fill_trade_id tr) c w = (Inl e, w')"
    then obtain d where "?h w = Inl d" and "w' = w" "e = UserError d"
      by (auto simp: send [OF P] split: sum.splits)
    with assms(1) [OF P] assms(2) [OF P]
    show "mem_live F tr w' \<and> (c = Acknowledge \<longrightarrow> e = UserError (Apply AlreadyAcknowledged)) \<and>
       ((\<exists>a b d f g h. c = Witness a b d f g h) \<longrightarrow> e = UserError (Apply AlreadyFilled))"
      by (cases "?rep w"; cases c) (auto simp: mem_live_def mem_ready_def split: if_splits)
  qed
qed

lemma mem_mark:
  "triple (mem_live F tr) (execute_mark_acknowledged mem_trades (fill_trade_id tr))
    (\<lambda>_. mem_live F tr) (\<lambda>_ _. False)"
  unfolding execute_mark_acknowledged_def
  by (rule triple_match [OF mem_trade_send]) (auto simp: mem_live_def triple_def)

lemma mem_enrich:
  "triple (mem_live F tr) (execute_enrich_trade mem_trades tr) (\<lambda>_. mem_live F tr) (\<lambda>_ _. False)"
  unfolding execute_enrich_trade_def
  by (auto intro!: triple_match [OF mem_trade_send] simp: mem_live_def split: option.split)

lemma mem_witness:
  "triple (mem_ready F tr) (execute_witness_trade mem_trades tr bn bt) (\<lambda>_. mem_live F tr) (\<lambda>_ _. False)"
  unfolding execute_witness_trade_def
  by (rule triple_match [OF mem_trade_send]) (auto simp: triple_def)

lemma mem_load_trade:
  "triple (mem_ready F tr) (st_load mem_trades (fill_trade_id tr))
    (\<lambda>x. case x of None \<Rightarrow> mem_ready F tr | Some _ \<Rightarrow> mem_live F tr) (\<lambda>_ _. False)"
  by (rule tripleI) (auto simp: mem_trades_def mem_load_def mem_ready_def mem_live_def take_fault_def
      split: lifecycle.splits)

lemma mem_recorded:
  assumes "uint (of_log_index tr) \<le> i64_max"
  shows "triple (mem_live F tr)
    (position_fill_already_recorded mem_fill_query (of_symbol tr) (fill_trade_id tr))
    (\<lambda>_. mem_live F tr) (\<lambda>_ _. False)"
proof -
  have "triple (mem_live F tr) (mem_fill_query (of_symbol tr) (fill_trade_id tr))
      (\<lambda>_. mem_live F tr) (\<lambda>_ _. False)"
    by (rule tripleI) (auto simp: mem_fill_query_def take_fault_def mem_live_def mem_ready_def)
  with assms show ?thesis
    by (auto simp: position_fill_already_recorded_def fill_trade_id_def
        intro!: triple_seqw triple_map_err)
qed

lemma mem_acknowledge_unrecorded:
  assumes "float_total F" and "uint (of_log_index tr) \<le> i64_max"
  shows "triple (mem_live F tr) (acknowledge_unrecorded_fill mem_fill_query (mem_positions F) tr th bt)
    (\<lambda>x w. x = Accounted (fill_trade_id tr) \<and> mem_live F tr w) (\<lambda>_ _. False)"
  unfolding acknowledge_unrecorded_fill_def
  by (intro triple_seqw [OF triple_map_err [OF mem_recorded [OF assms(2)]]] triple_seqw triple_if
      triple_map_err) (auto intro: mem_acknowledge [OF assms(1)])

lemma mem_account:
  assumes tot: "float_total F" and idx: "uint (of_log_index tr) \<le> i64_max"
    and bt: "of_block_timestamp tr = Some bt"
  shows "triple (mem_ready F tr)
    (account_for_onchain_fill mem_fill_query mem_trades (mem_positions F) tr bn th)
    (\<lambda>x w. (x = AccountedAlready \<or> x = Accounted (fill_trade_id tr)) \<and> mem_live F tr w) (\<lambda>_ _. False)"
    (is "triple _ _ ?Q _")
proof -
  note ack = triple_weaken [OF mem_acknowledge_unrecorded [OF tot idx],
      where Q' = "?Q" and E' = "\<lambda>_ _. False" and P' = "mem_live F tr"]
  have resume: "triple (mem_live F tr)
      (resume_fill_accounting mem_fill_query mem_trades (mem_positions F) tr th bt st) ?Q (\<lambda>_ _. False)" for st
    unfolding resume_fill_accounting_def
    by (intro triple_if triple_seqw [OF triple_map_err [OF mem_settle [OF tot]]]
        triple_seqw [where R = "\<lambda>_. mem_live F tr", OF _ ack]) (auto intro: mem_enrich)
  have none: "triple (mem_live F tr) (case x of
        None \<Rightarrow> failw (InconsistentOnChainTradeState (fill_trade_id tr))
      | Some st \<Rightarrow> resume_fill_accounting mem_fill_query mem_trades (mem_positions F) tr th bt st)
      ?Q (\<lambda>_ _. False)" if "x \<noteq> None" for x
    using resume that by auto
  have reload: "triple (mem_live F tr) (map_errw OnChainTradeCommand (st_load mem_trades (fill_trade_id tr)))
      (\<lambda>x w. x \<noteq> None \<and> mem_live F tr w) (\<lambda>_ _. False)"
    by (rule triple_map_err, rule tripleI)
      (auto simp: mem_trades_def mem_load_def mem_ready_def mem_live_def take_fault_def)
  have reloaded: "triple (mem_live F tr) (seqw (map_errw OnChainTradeCommand (st_load mem_trades (fill_trade_id tr)))
      (\<lambda>x. case x of
        None \<Rightarrow> failw (InconsistentOnChainTradeState (fill_trade_id tr))
      | Some st \<Rightarrow> resume_fill_accounting mem_fill_query mem_trades (mem_positions F) tr th bt st))
      ?Q (\<lambda>_ _. False)"
    by (rule triple_seqw [OF reload]) (use none in \<open>auto simp: triple_def\<close>)
  have fresh: "triple (mem_live F tr)
      (seqw (execute_enrich_trade mem_trades tr) (\<lambda>_.
        acknowledge_unrecorded_fill mem_fill_query (mem_positions F) tr th bt)) ?Q (\<lambda>_ _. False)"
    by (rule triple_seqw [OF mem_enrich ack]) auto
  show ?thesis
    unfolding account_for_onchain_fill_def bt option.case
  proof (rule triple_seqw [OF triple_map_err [OF mem_load_trade]])
    show "triple (case x of None \<Rightarrow> mem_ready F tr | Some _ \<Rightarrow> mem_live F tr)
      (case x of
         None \<Rightarrow> seqw (map_errw OnChainTradeCommand (execute_witness_trade mem_trades tr bn bt)) (\<lambda>witnessed.
           if witnessed then seqw (execute_enrich_trade mem_trades tr) (\<lambda>_.
             acknowledge_unrecorded_fill mem_fill_query (mem_positions F) tr th bt)
           else seqw (map_errw OnChainTradeCommand (st_load mem_trades (fill_trade_id tr))) (\<lambda>reloaded.
             case reloaded of
               None \<Rightarrow> failw (InconsistentOnChainTradeState (fill_trade_id tr))
             | Some state \<Rightarrow>
                 resume_fill_accounting mem_fill_query mem_trades (mem_positions F) tr th bt state))
       | Some state \<Rightarrow>
           resume_fill_accounting mem_fill_query mem_trades (mem_positions F) tr th bt state)
      ?Q (\<lambda>_ _. False)" for x
      using resume
      by (cases x) (auto intro!: triple_seqw [OF triple_map_err [OF mem_witness]] fresh reloaded)
  qed
qed

lemma mem_record:
  assumes tot: "float_total F" and idx: "uint (of_log_index tr) \<le> i64_max"
    and bt: "of_block_timestamp tr = Some bt"
  shows "triple (mem_ready F tr)
    (record_queued_fill mem_fill_query mem_trades (mem_positions F) tr bn th) (\<lambda>_. mem_live F tr) (\<lambda>_ _. False)"
  unfolding record_queued_fill_def
proof (rule triple_seqw [OF mem_account [OF assms]])
  have "triple (mem_live F tr) (case x of AccountedAlready \<Rightarrow> retw AccountedAlready
      | Accounted trade_id \<Rightarrow>
          seqw (map_errw OnChainTradeCommand (execute_mark_acknowledged mem_trades trade_id)) (\<lambda>_.
          seqw (map_errw PositionCommand (execute_settle_fill (mem_positions F) tr)) (\<lambda>_.
          retw (Accounted trade_id)))) (\<lambda>_. mem_live F tr) (\<lambda>_ _. False)"
    if "x = AccountedAlready \<or> x = Accounted (fill_trade_id tr)" for x
    using that by (auto intro!: triple_seqw [OF triple_map_err [OF mem_mark]]
        triple_seqw [OF triple_map_err [OF mem_settle [OF tot]]])
  then show "triple (\<lambda>w. (x = AccountedAlready \<or> x = Accounted (fill_trade_id tr)) \<and> mem_live F tr w)
      (case x of AccountedAlready \<Rightarrow> retw AccountedAlready
      | Accounted trade_id \<Rightarrow>
          seqw (map_errw OnChainTradeCommand (execute_mark_acknowledged mem_trades trade_id)) (\<lambda>_.
          seqw (map_errw PositionCommand (execute_settle_fill (mem_positions F) tr)) (\<lambda>_.
          retw (Accounted trade_id)))) (\<lambda>_. mem_live F tr) (\<lambda>_ _. False)" for x
    by (auto simp: triple_def)
qed

section \<open>Demonstration data\<close>

definition demo_onchain_fill :: "rat onchain_fill" where
  "demo_onchain_fill = \<lparr>of_tx_hash = 1, of_log_index = 0, of_symbol = ''AAPL'', of_equity_token = 3,
     of_amount = FractionalShares 5, of_direction = Sell, of_price = Usdc 100, of_block_number = Some 7,
     of_block_timestamp = Some 10, of_gas_used = None, of_effective_gas_price = None,
     of_pyth_price = None\<rparr>"

definition demo_world :: "store_fault list \<Rightarrow> rat mem_world" where
  "demo_world faults = \<lparr>mw_trades = (\<lambda>_. []), mw_positions = (\<lambda>_. []), mw_orders = (\<lambda>_. []),
     mw_broker = demo_broker OrderPending, mw_submissions = [], mw_polls = [], mw_clock = 1,
     mw_faults = faults\<rparr>"

abbreviation demo_deliver :: "rat fill_action" where
  "demo_deliver \<equiv> Deliver demo_onchain_fill 7 demo_threshold"

text \<open>The reply to the position write is lost after its commit.\<close>

abbreviation demo_faults :: "store_fault list" where
  "demo_faults \<equiv> [Healthy, Healthy, Healthy, LostAfterCommit]"

abbreviation demo_run :: "rat fill_action list \<Rightarrow> rat mem_world" where
  "demo_run acts \<equiv> fold (run_fill_action mem_fill_query mem_trades (mem_positions exact_rat)) acts
     (demo_world demo_faults)"

lemma demo_run_ready: "mem_ready exact_rat demo_onchain_fill (demo_run [demo_deliver])"
  by (simp add: record_queued_fill_def account_for_onchain_fill_def acknowledge_unrecorded_fill_def
      execute_witness_trade_def execute_enrich_trade_def execute_acknowledge_fill_def
      position_fill_already_recorded_def mem_fill_query_def mem_trades_def mem_positions_def
      mem_send_def mem_load_def take_fault_def demo_world_def demo_onchain_fill_def fill_trade_id_def
      seqw_def map_errw_def i64_max_def agg_defs mem_ready_def position_ok_def position_inv_def
      exact_rat_ops shares_add_def shares_sub_def shares_ZERO_def)

section \<open>Properties\<close>

text \<open>
  C1. However often a fill is delivered, and wherever its deliveries fail or are cut off, the
  position counts it at most once, other fills, hedges and commands running in between.
\<close>

theorem fill_counted_at_most_once:
  assumes "fill_stores TS tlog PS plog F pool"
    and "tlog w t = []" and "plog w s = []"
    and "\<forall>a\<in>set acts. fill_action_allowed t s a"
  shows "fill_count t (plog (fold (run_fill_action pool TS PS) acts w) s) \<le> 1"
proof -
  have "fill_stores.holds tlog plog 0 t s (\<lambda>_ _. True) w"
    using assms(2,3) by (simp add: fill_stores.holds_def [OF assms(1)] accounting_inv_def
        applied_coherent_def trade_acknowledged_def)
  from fill_stores.actions_keep [OF assms(1) this assms(4)] show ?thesis
    by (simp add: fill_stores.holds_def [OF assms(1)] accounting_inv_def)
qed

theorem fill_counted_at_most_once_witness:
  "fill_stores mem_trades mw_trades (mem_positions exact_rat) mw_positions exact_rat mem_fill_query \<and>
   fill_count (TradeId 1 0) (mw_positions (demo_run [demo_deliver, demo_deliver, demo_deliver]) ''AAPL'') \<le> 1"
proof -
  have "fill_count (TradeId 1 0)
      (mw_positions (demo_run [demo_deliver, demo_deliver, demo_deliver]) ''AAPL'') \<le> 1"
    by (rule fill_counted_at_most_once [OF mem.fill_stores_axioms])
      (simp_all add: demo_world_def demo_onchain_fill_def)
  then show ?thesis using mem.fill_stores_axioms by blast
qed





section \<open>Interleaved processes\<close>

lemmas delivery_eval = record_queued_fill_def account_for_onchain_fill_def
  acknowledge_unrecorded_fill_def resume_fill_accounting_def execute_witness_trade_def
  execute_enrich_trade_def execute_acknowledge_fill_def execute_mark_acknowledged_def
  execute_settle_fill_def position_fill_already_recorded_def mem_fill_query_def mem_trades_def
  mem_positions_def mem_send_def mem_load_def take_fault_def demo_world_def demo_onchain_fill_def
  fill_trade_id_def seqw_def map_errw_def i64_max_def agg_defs is_acknowledged_def is_enriched_def
  exact_rat_ops shares_add_def shares_sub_def shares_ZERO_def

text \<open>
  The exactly-once guarantee is about sequential deliveries. When a second process runs a
  whole delivery of the same fill and then of a newer one between the first process's guard query
  and its acknowledgement, both dedup guards have been cleared by then and the fill is counted
  twice.
\<close>

theorem interleaved_deliveries_double_count:
  "\<exists>w1 w2 w3.
     execute_witness_trade mem_trades demo_onchain_fill 7 10 (demo_world []) = (Inr True, w1) \<and>
     position_fill_already_recorded mem_fill_query ''AAPL'' (TradeId 1 0) w1 = (Inr False, w1) \<and>
     fold (run_fill_action mem_fill_query mem_trades (mem_positions exact_rat))
       [demo_deliver, Deliver (demo_onchain_fill\<lparr>of_tx_hash := 2\<rparr>) 8 demo_threshold] w1 = w2 \<and>
     fill_count (TradeId 1 0) (mw_positions w2 ''AAPL'') = 1 \<and>
     execute_acknowledge_fill (mem_positions exact_rat) demo_onchain_fill demo_threshold 10 w2 =
       (Inr (), w3) \<and>
     fill_count (TradeId 1 0) (mw_positions w3 ''AAPL'') = 2"
  by (simp add: delivery_eval)

end
