(* ===== verification/Hedge_Dispatch.thy ===== *)
theory Hedge_Dispatch
  imports Fill_Accounting
begin

text \<open>
  Hedging of an accounted fill: the readiness check of \<^verbatim>\<open>src/onchain/accumulator.rs\<close>, the
  preflight, clamping, claiming, placing, dispatching and recovery of \<^verbatim>\<open>src/conductor.rs\<close>, and
  the rejection job of \<^verbatim>\<open>src/offchain/order/handle_rejection.rs\<close>. Stores, projection, broker,
  executor and job queues are parameters; clock readings and fresh order identifiers are
  arguments.
\<close>

section \<open>Data\<close>

datatype 'f counter_trade_skip_reason =
    InsufficientEquity "'f fractional_shares positive" "'f fractional_shares"
  | InsufficientBuyingPower i64 i64

datatype 'f counter_trade_reservation =
    EquityReservation symbol "'f fractional_shares positive" "'f fractional_shares"
  | BuyingPower i64 i64

datatype 'f counter_trade_preflight =
    PreflightAllowed "'f counter_trade_reservation option"
  | PreflightSkipped "'f counter_trade_skip_reason"

record 'f execution_ctx =
  ec_symbol :: symbol
  ec_direction :: direction
  ec_shares :: "'f fractional_shares positive"
  ec_executor :: supported_executor
  ec_market_session :: market_session

datatype operation_mode = Enabled | Disabled

record 'f equity_asset_config =
  ea_tokenized_equity :: address
  ea_tokenized_equity_derivative :: address
  ea_pyth_feed_id :: "u256 option"
  ea_vault_ids :: "u256 list"
  ea_trading :: operation_mode
  ea_rebalancing :: operation_mode
  ea_wrapped_equity_recovery :: operation_mode
  ea_extended_hours_counter_trading :: operation_mode
  ea_operational_limit :: "'f fractional_shares positive option"

record 'f equities_config =
  eq_operational_limit :: "'f fractional_shares positive option"
  eq_symbols :: "symbol \<rightharpoonup> 'f equity_asset_config"

text \<open>The broker executor as the inline path uses it.\<close>

record ('w, 'f) hedge_executor =
  he_to_supported_executor :: supported_executor
  he_market_session :: "('w, string, market_session) effect"
  he_preflight_counter_trade :: "'f market_order \<Rightarrow> ('w, string, 'f counter_trade_preflight) effect"

record 'f place_hedge =
  ph_symbol :: symbol
  ph_direction :: direction
  ph_shares :: "'f fractional_shares positive"
  ph_executor :: supported_executor
  ph_threshold :: "'f execution_threshold"
  ph_offchain_order_id :: offchain_order_id
  ph_market_session :: market_session

record ('w, 'f) trade_processing_cqrs =
  cq_pool :: "'w fill_query"
  cq_onchain_trade :: "('w, 'f) trade_store"
  cq_position :: "('w, 'f) position_store"
  cq_position_projection :: "symbol \<Rightarrow> ('w, string, 'f position option) effect"
  cq_offchain_order :: "('w, 'f) order_store"
  cq_order_placer :: "('w, 'f) broker_port"
  cq_execution_threshold :: "'f execution_threshold"
  cq_assets :: "'f equities_config"
  cq_poll_status_queue :: "offchain_order_id \<Rightarrow> ('w, string, unit) effect"
  cq_hedge_queue :: "'f place_hedge \<Rightarrow> ('w, string, unit) effect"

section \<open>Readiness\<close>

definition is_extended_hours_enabled :: "'f equities_config \<Rightarrow> symbol \<Rightarrow> bool" where
  "is_extended_hours_enabled equities symbol = (case eq_symbols equities symbol of
     None \<Rightarrow> False
   | Some config \<Rightarrow> ea_extended_hours_counter_trading config = Enabled)"

definition operational_shares_limit ::
  "'f equities_config \<Rightarrow> symbol \<Rightarrow> 'f fractional_shares positive option" where
  "operational_shares_limit equities symbol =
     option_or (Option.bind (eq_symbols equities symbol) ea_operational_limit)
       (eq_operational_limit equities)"

definition check_market_session ::
  "('w, 'f) hedge_executor \<Rightarrow> bool \<Rightarrow> ('w, string, market_session option) effect" where
  "check_market_session executor extended_hours_enabled =
     seqw (he_market_session executor) (\<lambda>session.
       retw (case session of
           Regular \<Rightarrow> Some session
         | Extended \<Rightarrow> if extended_hours_enabled then Some session else None
         | Closed \<Rightarrow> None))"

definition check_execution_readiness ::
  "'f float_ops \<Rightarrow> ('w, 'f) hedge_executor \<Rightarrow> (symbol \<Rightarrow> ('w, string, 'f position option) effect) \<Rightarrow>
   symbol \<Rightarrow> supported_executor \<Rightarrow> 'f equities_config \<Rightarrow> bool \<Rightarrow>
   ('w, string, 'f execution_ctx option) effect" where
  "check_execution_readiness F executor position_projection symbol executor_type assets asset_enabled =
     (if \<not> asset_enabled then retw None
      else seqw (position_projection symbol) (\<lambda>loaded.
        case loaded of
          None \<Rightarrow> retw None
        | Some position \<Rightarrow>
            (case is_ready_for_execution F position (operational_shares_limit assets symbol) of
               Inl _ \<Rightarrow> failw ''position error''
             | Inr None \<Rightarrow> retw None
             | Inr (Some (direction, shares)) \<Rightarrow>
                 seqw (check_market_session executor (is_extended_hours_enabled assets symbol))
                   (\<lambda>session.
                   case session of
                     None \<Rightarrow> retw None
                   | Some market_session \<Rightarrow>
                       (case positive_new (shares_has_zero F) shares of
                          Inl _ \<Rightarrow> failw ''not positive''
                        | Inr positive \<Rightarrow> retw (Some \<lparr>ec_symbol = symbol, ec_direction = direction,
                            ec_shares = positive, ec_executor = executor_type,
                            ec_market_session = market_session\<rparr>))))))"

section \<open>Preflight\<close>

record 'f counter_trade_batch_budget =
  reserved_buying_power_cents :: i64
  remaining_equity :: "symbol \<rightharpoonup> 'f fractional_shares"

definition i64_checked_sub :: "i64 \<Rightarrow> i64 \<Rightarrow> i64 option" where
  "i64_checked_sub a b = (let d = sint a - sint b in
     if - (2 ^ 63) \<le> d \<and> d \<le> i64_max then Some (word_of_int d) else None)"

definition check_reservation ::
  "'f float_ops \<Rightarrow> 'f counter_trade_batch_budget \<Rightarrow> 'f counter_trade_reservation \<Rightarrow>
   string + 'f counter_trade_skip_reason option" where
  "check_reservation F budget reservation = (case reservation of
     EquityReservation symbol required available \<Rightarrow>
       (let remaining = (case remaining_equity budget symbol of None \<Rightarrow> available | Some r \<Rightarrow> r)
        in tryr (map_err (\<lambda>_. ''float'') (fl_gte F (shares_inner remaining)
                  (shares_inner (positive_inner required)))) (\<lambda>enough.
          Inr (if enough then None else Some (InsufficientEquity required remaining))))
   | BuyingPower estimated_cost_cents available_buying_power_cents \<Rightarrow>
       tryr (ok_or ''BuyingPowerReservationOverflow''
              (i64_checked_sub available_buying_power_cents (reserved_buying_power_cents budget)))
         (\<lambda>remaining.
           Inr (if sint remaining < sint estimated_cost_cents
                then Some (InsufficientBuyingPower estimated_cost_cents remaining) else None)))"

definition clamp_shares_to_reservation ::
  "'f float_ops \<Rightarrow> 'f execution_ctx \<Rightarrow> 'f counter_trade_reservation option \<Rightarrow> 'f execution_ctx" where
  "clamp_shares_to_reservation F execution reservation = (case reservation of
     Some (EquityReservation _ required _) \<Rightarrow>
       if shares_lt F (positive_inner required) (positive_inner (ec_shares execution))
       then execution\<lparr>ec_shares := required\<rparr> else execution
   | _ \<Rightarrow> execution)"

datatype 'f counter_trade_submission_check =
    SubmissionAllowed "'f counter_trade_reservation option"
  | SubmissionSkipped

definition preflight_counter_trade_submission ::
  "'f float_ops \<Rightarrow> ('w, 'f) hedge_executor \<Rightarrow> 'f execution_ctx \<Rightarrow> 'f counter_trade_batch_budget option \<Rightarrow>
   uuid \<Rightarrow> ('w, 'f trade_accounting_error, 'f counter_trade_submission_check) effect" where
  "preflight_counter_trade_submission F executor execution batch_budget fresh =
     seqw (map_errw Execution (he_preflight_counter_trade executor
       \<lparr>mo_symbol = ec_symbol execution, mo_shares = ec_shares execution,
        mo_direction = ec_direction execution,
        mo_client_order_id = client_order_id_from_uuid fresh\<rparr>)) (\<lambda>preflight.
     case preflight of
       PreflightSkipped _ \<Rightarrow> retw SubmissionSkipped
     | PreflightAllowed reservation \<Rightarrow>
         (case (batch_budget, reservation) of
            (Some budget, Some r) \<Rightarrow>
              (case check_reservation F budget r of
                 Inl error \<Rightarrow> failw (Execution error)
               | Inr (Some _) \<Rightarrow> retw SubmissionSkipped
               | Inr None \<Rightarrow> retw (SubmissionAllowed reservation))
          | _ \<Rightarrow> retw (SubmissionAllowed reservation)))"

section \<open>Terminal orders\<close>

definition orphaned_order_position_command ::
  "'f float_ops \<Rightarrow> 'f offchain_order \<Rightarrow> offchain_order_id \<Rightarrow> 'f position_command option" where
  "orphaned_order_position_command F ord order_id = (case terminal_position_finalization F ord of
     Some (UnpricedFill _) \<Rightarrow> None
   | None \<Rightarrow> None
   | Some finalization \<Rightarrow> position_command_for_finalization finalization order_id)"

definition resolve_terminal_claimed_order ::
  "'f float_ops \<Rightarrow> ('w, 'f) position_store \<Rightarrow> symbol \<Rightarrow> offchain_order_id \<Rightarrow> 'f offchain_order option \<Rightarrow>
   ('w, 'f position_error send_error, bool) effect" where
  "resolve_terminal_claimed_order F position symbol order_id ord = (case ord of
     None \<Rightarrow>
       seqw (st_send position symbol (FailOffChainOrder order_id
         ''pending offchain order has no offchain order aggregate'')) (\<lambda>_. retw True)
   | Some ord \<Rightarrow>
       (case orphaned_order_position_command F ord order_id of
          None \<Rightarrow> retw False
        | Some command \<Rightarrow> seqw (st_send position symbol command) (\<lambda>_. retw True)))"

definition finalize_cancelled_position_or_log_unpriced ::
  "'f float_ops \<Rightarrow> ('w, 'f) position_store \<Rightarrow> symbol \<Rightarrow> offchain_order_id \<Rightarrow> 'f offchain_order \<Rightarrow>
   ('w, 'f position_error send_error, unit) effect" where
  "finalize_cancelled_position_or_log_unpriced F position symbol order_id cancelled =
     (case Option.bind (terminal_position_finalization F cancelled)
             (\<lambda>finalization. position_command_for_finalization finalization order_id) of
        None \<Rightarrow> retw ()
      | Some command \<Rightarrow> st_send position symbol command)"

section \<open>Dispatch and placement\<close>

datatype post_place_outcome =
    InFlight offchain_order_id
  | FailedPlacement offchain_order_id
  | ClearedNoOrder

definition dispatch_post_place_state ::
  "'f float_ops \<Rightarrow> 'f offchain_order option \<Rightarrow> symbol \<Rightarrow> ('w, 'f) trade_processing_cqrs \<Rightarrow>
   offchain_order_id \<Rightarrow> ('w, 'f trade_accounting_error, post_place_outcome) effect" where
  "dispatch_post_place_state F loaded symbol cqrs oid = (case loaded of
     Some (offchain_order.Failed _ _ _ _ _ _ error _ _) \<Rightarrow>
       seqw (map_errw PositionCommand
         (st_send (cq_position cqrs) symbol (FailOffChainOrder oid error))) (\<lambda>_.
       retw (FailedPlacement oid))
   | None \<Rightarrow>
       seqw (map_errw PositionCommand
         (st_send (cq_position cqrs) symbol
           (FailOffChainOrder oid ''Offchain order missing after Place''))) (\<lambda>_.
       retw ClearedNoOrder)
   | Some ord \<Rightarrow> (case ord of
         offchain_order.Cancelled _ _ _ _ _ _ _ _ _ \<Rightarrow>
           seqw (map_errw PositionCommand
             (finalize_cancelled_position_or_log_unpriced F (cq_position cqrs) symbol oid ord)) (\<lambda>_.
           retw ClearedNoOrder)
       | Pending _ _ _ _ _ _ \<Rightarrow> failw (UnexpectedPostPlaceState oid ord)
       | offchain_order.Filled _ _ _ _ _ _ _ _ _ \<Rightarrow> failw (UnexpectedPostPlaceState oid ord)
       | _ \<Rightarrow>
           seqw (map_errw EnqueueJob (cq_poll_status_queue cqrs oid)) (\<lambda>_.
           retw (InFlight oid))))"

definition is_expected_place_offchain_order_rejection :: "'f position_error send_error \<Rightarrow> bool" where
  "is_expected_place_offchain_order_rejection error = (case error of
     UserError (Apply (PendingExecution _)) \<Rightarrow> True
   | UserError (Apply (ThresholdNotMet _ _)) \<Rightarrow> True
   | _ \<Rightarrow> False)"

definition execute_place_offchain_order ::
  "'f execution_ctx \<Rightarrow> ('w, 'f) trade_processing_cqrs \<Rightarrow> offchain_order_id \<Rightarrow>
   ('w, 'f position_error send_error, bool) effect" where
  "execute_place_offchain_order execution cqrs oid =
     seqw (outcomew (st_send (cq_position cqrs) (ec_symbol execution)
       (PlaceOffChainOrder oid (ec_shares execution) (ec_direction execution)
         (ec_executor execution) (cq_execution_threshold cqrs)))) (\<lambda>r.
     case r of
       Inr _ \<Rightarrow> retw True
     | Inl error \<Rightarrow>
         if is_expected_place_offchain_order_rejection error then retw False else failw error)"

definition execute_create_offchain_order ::
  "'f execution_ctx \<Rightarrow> ('w, 'f) trade_processing_cqrs \<Rightarrow> timestamp \<Rightarrow> offchain_order_id \<Rightarrow>
   ('w, 'f trade_accounting_error, unit) effect" where
  "execute_create_offchain_order execution cqrs now oid =
     seqw (map_errw PositionCommand (st_load (cq_position cqrs) (ec_symbol execution))) (\<lambda>position.
     seqw (map_errw OffchainOrderCommand
       (place_offchain_order_at_broker (cq_offchain_order cqrs) (cq_order_placer cqrs) now oid
         (placement_market (ec_symbol execution) (ec_shares execution) (ec_direction execution)
           (ec_executor execution)
           (client_order_id_for_placement oid
             (Option.bind position last_failed_offchain_order_id))))) (\<lambda>_.
     retw ()))"

definition post_place_order_id :: "post_place_outcome \<Rightarrow> offchain_order_id option" where
  "post_place_order_id outcome = (case outcome of
     InFlight order_id \<Rightarrow> Some order_id
   | FailedPlacement order_id \<Rightarrow> Some order_id
   | ClearedNoOrder \<Rightarrow> None)"

definition recover_claimed_offchain_order ::
  "'f float_ops \<Rightarrow> 'f execution_ctx \<Rightarrow> ('w, 'f) trade_processing_cqrs \<Rightarrow> timestamp \<Rightarrow>
   ('w, 'f trade_accounting_error, offchain_order_id option) effect" where
  "recover_claimed_offchain_order F execution cqrs now =
     seqw (map_errw PositionCommand (st_load (cq_position cqrs) (ec_symbol execution))) (\<lambda>position.
     case Option.bind position pending_offchain_order_id of
       None \<Rightarrow> retw None
     | Some pending_id \<Rightarrow>
         seqw (map_errw OffchainOrderCommand (st_load (cq_offchain_order cqrs) pending_id)) (\<lambda>ord.
         seqw (map_errw PositionCommand (resolve_terminal_claimed_order F (cq_position cqrs)
           (ec_symbol execution) pending_id ord)) (\<lambda>resolved.
         if resolved then retw None
         else (case ord of
             Some (Pending symbol shares direction executor _ _) \<Rightarrow>
               seqw (map_errw PositionCommand (st_load (cq_position cqrs) symbol)) (\<lambda>anchored.
               seqw (map_errw OffchainOrderCommand
                 (place_offchain_order_at_broker (cq_offchain_order cqrs) (cq_order_placer cqrs) now
                   pending_id (placement_market symbol shares direction executor
                     (client_order_id_for_placement pending_id
                       (Option.bind anchored last_failed_offchain_order_id))))) (\<lambda>placed.
               seqw (dispatch_post_place_state F placed (ec_symbol execution) cqrs pending_id)
                 (\<lambda>outcome. retw (post_place_order_id outcome))))
           | Some ord' \<Rightarrow>
               if is_terminal ord' then retw None
               else seqw (map_errw EnqueueJob (cq_poll_status_queue cqrs pending_id)) (\<lambda>_.
                 retw (Some pending_id))
           | None \<Rightarrow> retw None))))"

definition place_offchain_order ::
  "'f float_ops \<Rightarrow> 'f execution_ctx \<Rightarrow> ('w, 'f) trade_processing_cqrs \<Rightarrow> timestamp \<Rightarrow> offchain_order_id \<Rightarrow>
   ('w, 'f trade_accounting_error, offchain_order_id option) effect" where
  "place_offchain_order F execution cqrs now oid =
     seqw (map_errw PositionCommand (execute_place_offchain_order execution cqrs oid)) (\<lambda>accepted.
     if \<not> accepted then recover_claimed_offchain_order F execution cqrs now
     else seqw (execute_create_offchain_order execution cqrs now oid) (\<lambda>_.
       seqw (map_errw OffchainOrderCommand (st_load (cq_offchain_order cqrs) oid)) (\<lambda>loaded.
       seqw (dispatch_post_place_state F loaded (ec_symbol execution) cqrs oid) (\<lambda>outcome.
       retw (post_place_order_id outcome)))))"

datatype existing_pending_order_outcome = NoPending | PendingInFlight | PendingCleared

definition reconcile_existing_pending_order ::
  "'f float_ops \<Rightarrow> symbol \<Rightarrow> ('w, 'f) trade_processing_cqrs \<Rightarrow>
   ('w, 'f trade_accounting_error, existing_pending_order_outcome) effect" where
  "reconcile_existing_pending_order F symbol cqrs =
     seqw (map_errw PositionCommand (st_load (cq_position cqrs) symbol)) (\<lambda>position.
     case Option.bind position pending_offchain_order_id of
       None \<Rightarrow> retw NoPending
     | Some oid \<Rightarrow>
         seqw (map_errw OffchainOrderCommand (st_load (cq_offchain_order cqrs) oid)) (\<lambda>loaded.
         seqw (dispatch_post_place_state F loaded symbol cqrs oid) (\<lambda>outcome.
         retw (case outcome of
             InFlight _ \<Rightarrow> PendingInFlight
           | FailedPlacement _ \<Rightarrow> PendingCleared
           | ClearedNoOrder \<Rightarrow> PendingCleared))))"

section \<open>The accounting job's hedge\<close>

definition enqueue_extended_hours_hedge ::
  "('w, 'f) trade_processing_cqrs \<Rightarrow> 'f execution_ctx \<Rightarrow> offchain_order_id \<Rightarrow>
   ('w, 'e, offchain_order_id option) effect" where
  "enqueue_extended_hours_hedge cqrs execution oid =
     seqw (outcomew (cq_hedge_queue cqrs \<lparr>ph_symbol = ec_symbol execution,
       ph_direction = ec_direction execution, ph_shares = ec_shares execution,
       ph_executor = ec_executor execution, ph_threshold = cq_execution_threshold cqrs,
       ph_offchain_order_id = oid, ph_market_session = ec_market_session execution\<rparr>)) (\<lambda>_.
     retw None)"

definition process_queued_trade ::
  "'f float_ops \<Rightarrow> ('w, 'f) hedge_executor \<Rightarrow> u64 \<Rightarrow> 'f onchain_fill \<Rightarrow> ('w, 'f) trade_processing_cqrs \<Rightarrow>
   bool \<Rightarrow> timestamp \<Rightarrow> uuid \<Rightarrow> offchain_order_id \<Rightarrow>
   ('w, 'f trade_accounting_error, offchain_order_id option) effect" where
  "process_queued_trade F executor block_number trade cqrs asset_enabled now fresh oid =
     seqw (record_queued_fill (cq_pool cqrs) (cq_onchain_trade cqrs) (cq_position cqrs) trade
       block_number (cq_execution_threshold cqrs)) (\<lambda>accounted.
     case accounted of
       AccountedAlready \<Rightarrow> retw None
     | Accounted _ \<Rightarrow>
         seqw (reconcile_existing_pending_order F (of_symbol trade) cqrs) (\<lambda>existing.
         if existing = PendingInFlight then retw None
         else seqw (map_errw OnChain (check_execution_readiness F executor
             (cq_position_projection cqrs) (of_symbol trade) (he_to_supported_executor executor)
             (cq_assets cqrs) asset_enabled)) (\<lambda>ready.
           case ready of
             None \<Rightarrow> retw None
           | Some execution \<Rightarrow>
               seqw (preflight_counter_trade_submission F executor execution None fresh) (\<lambda>check.
               case check of
                 SubmissionSkipped \<Rightarrow> retw None
               | SubmissionAllowed reservation \<Rightarrow>
                   let clamped = clamp_shares_to_reservation F execution reservation in
                   if ec_market_session execution = Extended
                   then enqueue_extended_hours_hedge cqrs clamped oid
                   else place_offchain_order F clamped cqrs now oid))))"

section \<open>The rejection job\<close>

record handle_order_rejection =
  hr_offchain_order_id :: offchain_order_id
  hr_error :: string
  hr_broker_failed_at :: "timestamp option"

datatype 'f job_error =
    JobOffchainOrder "'f offchain_order_error send_error"
  | JobPosition "'f position_error send_error"

definition position_command_for_retained_fill ::
  "'f float_ops \<Rightarrow> offchain_order_id \<Rightarrow> 'f fractional_shares \<Rightarrow> direction \<Rightarrow> executor_order_id \<Rightarrow>
   'f usd \<Rightarrow> timestamp \<Rightarrow> string \<Rightarrow> 'f position_command" where
  "position_command_for_retained_fill F oid shares_filled direction eoid avg_price broker_timestamp
     fallback_error =
     (case positive_new (shares_has_zero F) shares_filled of
        Inl _ \<Rightarrow> FailOffChainOrder oid fallback_error
      | Inr positive_filled \<Rightarrow>
          CompleteOffChainOrder oid positive_filled direction eoid avg_price broker_timestamp)"

definition rejection_position_command ::
  "'f float_ops \<Rightarrow> handle_order_rejection \<Rightarrow> 'f offchain_order \<Rightarrow> 'f position_command" where
  "rejection_position_command F job ord = (case ord of
     offchain_order.PartiallyFilled _ _ shares_filled direction _ eoid avg_price _ _
         partially_filled_at _ \<Rightarrow>
       position_command_for_retained_fill F (hr_offchain_order_id job) shares_filled direction eoid
         avg_price partially_filled_at (hr_error job)
   | Cancelling _ _ (Some (Priced shares_filled avg_price partially_filled_at)) direction _ eoid _ _ _ _ _ \<Rightarrow>
       position_command_for_retained_fill F (hr_offchain_order_id job) shares_filled direction eoid
         avg_price partially_filled_at (hr_error job)
   | offchain_order.Failed _ _ direction _ (Some (Priced shares_filled avg_price partially_filled_at))
         (Some eoid) _ _ _ \<Rightarrow>
       position_command_for_retained_fill F (hr_offchain_order_id job) shares_filled direction eoid
         avg_price partially_filled_at (hr_error job)
   | offchain_order.Cancelled _ _ _ _ _ _ _ _ _ \<Rightarrow>
       (case terminal_position_finalization F ord of
          Some (Complete shares_filled direction eoid price broker_timestamp) \<Rightarrow>
            CompleteOffChainOrder (hr_offchain_order_id job) shares_filled direction eoid price
              broker_timestamp
        | Some (NoFill (NoFillCancelled reason cancelled_at)) \<Rightarrow>
            CancelOffChainOrder (hr_offchain_order_id job) reason cancelled_at
        | _ \<Rightarrow> FailOffChainOrder (hr_offchain_order_id job) (hr_error job))
   | _ \<Rightarrow> FailOffChainOrder (hr_offchain_order_id job) (hr_error job))"

definition handle_rejection_perform ::
  "'f float_ops \<Rightarrow> ('w, 'f) order_store \<Rightarrow> ('w, 'f) position_store \<Rightarrow> timestamp \<Rightarrow>
   handle_order_rejection \<Rightarrow> ('w, 'f job_error, unit) effect" where
  "handle_rejection_perform F orders position now job =
     seqw (map_errw JobOffchainOrder (st_load orders (hr_offchain_order_id job))) (\<lambda>loaded.
     case loaded of
       None \<Rightarrow> retw ()
     | Some ord \<Rightarrow>
         if is_filled ord then retw ()
         else seqw (if is_terminal ord then retw ()
             else map_errw JobOffchainOrder (st_send orders (hr_offchain_order_id job)
               (MarkFailed (hr_error job)
                 (case hr_broker_failed_at job of None \<Rightarrow> now | Some at_time \<Rightarrow> at_time)))) (\<lambda>_.
           seqw (map_errw JobPosition (st_load position (order_symbol ord))) (\<lambda>loaded_position.
           if Option.bind loaded_position pending_offchain_order_id \<noteq> Some (hr_offchain_order_id job)
           then retw ()
           else map_errw JobPosition (st_send position (order_symbol ord)
             (rejection_position_command F job ord)))))"

section \<open>Lemmas\<close>

lemma check_execution_readinessE:
  assumes "check_execution_readiness F ex proj sy et assets en w = (Inr (Some ctx), w')"
  obtains p w1 d s q where "proj sy w = (Inr (Some p), w1)"
    and "is_ready_for_execution F p (operational_shares_limit assets sy) = Inr (Some (d, s))"
    and "positive_new (shares_has_zero F) s = Inr q"
    and "ec_direction ctx = d" and "ec_shares ctx = q" and "ec_symbol ctx = sy" and "en"
  using assms
  by (auto simp: check_execution_readiness_def check_market_session_def
      elim!: seqw_cases split: if_splits option.splits sum.splits)

lemma shares_lt_value:
  assumes "float_sem F v" and "shares_lt F a b"
  shows "sval v a < sval v b"
proof -
  have "fl_lt F (shares_inner a) (shares_inner b) = Inr True"
    using assms(2) by (auto simp: shares_lt_def shares_partial_cmp_def split: option.splits if_splits)
  then show ?thesis using float_sem_lt [OF assms(1)] by fastforce
qed

lemma clamp_cases:
  "clamp_shares_to_reservation F ctx res = ctx \<or>
   (\<exists>sy req av. res = Some (EquityReservation sy req av) \<and>
      shares_lt F (positive_inner req) (positive_inner (ec_shares ctx)) \<and>
      clamp_shares_to_reservation F ctx res = ctx\<lparr>ec_shares := req\<rparr>)"
  by (auto simp: clamp_shares_to_reservation_def split: option.splits counter_trade_reservation.splits)

text \<open>A command that finalizes order \<open>oid\<close> frees the slot of the position that waits for it.\<close>

fun finalizes :: "offchain_order_id \<Rightarrow> 'f position_command \<Rightarrow> bool" where
  "finalizes oid (CompleteOffChainOrder i _ _ _ _ _) = (i = oid)"
| "finalizes oid (FailOffChainOrder i _) = (i = oid)"
| "finalizes oid (CancelOffChainOrder i _ _) = (i = oid)"
| "finalizes oid _ = False"

lemma finalize_frees:
  assumes step: "pos_step F c pev pev'" and fin: "finalizes oid c"
    and live: "replay (position_originate F) (position_evolve F) lifecycle.Uninitialized pev' = Live p"
  shows "pending_offchain_order_id p \<noteq> Some oid"
proof -
  let ?r = "replay (position_originate F) (position_evolve F) lifecycle.Uninitialized pev"
  from step obtain now evs where h: "handle (position_initialize F) (position_transition F) ?r now c = Inr evs"
    and pev': "pev' = pev @ evs"
    by (auto simp: cmd_step_def)
  from h fin obtain p0 where p0: "?r = Live p0"
    by (cases ?r; cases c) auto
  with h pev' live have tr: "position_transition F now p0 c = Inr evs"
    and rep: "replay (position_originate F) (position_evolve F) (Live p0) evs = Live p"
    by simp_all
  from tr fin obtain e where "evs = [e]" and "position_evolve F p0 e = Inr (Some p)"
    and "(\<exists>q d eo pr ts. e = OffChainOrderFilled oid q d eo pr ts) \<or>
      (\<exists>er ts. e = OffChainOrderFailed oid er ts) \<or> (\<exists>r ts. e = OffChainOrderCancelled oid r ts)"
    using rep by (cases c) (auto elim!: replay_Live_ConsE)
  then show ?thesis by (auto split: if_splits)
qed

lemma rejection_command_finalizes: "finalizes (hr_offchain_order_id job) (rejection_position_command F job ord)"
proof -
  have "finalizes oid (position_command_for_retained_fill F oid q d eo pr ts er)" for oid q d eo pr ts er
    by (simp add: position_command_for_retained_fill_def split: sum.split)
  then show ?thesis
    by (auto simp: rejection_position_command_def split: offchain_order.split option.split
        retained_fill.split terminal_position_finalization.split no_fill_outcome.split)
qed

section \<open>Stores of the hedging code\<close>

locale hedge_stores =
  O: event_store OS olog originate_offchain_order offchain_order_evolve offchain_order_initialize
    "offchain_order_transition F" +
  P: event_store PS plog "position_originate F" "position_evolve F" "position_initialize F"
    "position_transition F"
  for OS :: "('w, 'f) order_store" and olog and PS :: "('w, 'f) position_store" and plog
    and F :: "'f float_ops" +
  assumes order_send_frame: "plog (snd (st_send OS i c w)) = plog w"
    and order_load_frame: "plog (snd (st_load OS i w)) = plog w"
begin

definition waits_for :: "symbol \<Rightarrow> offchain_order_id \<Rightarrow> 'w \<Rightarrow> bool" where
  "waits_for s oid w = (\<exists>p. replay (position_originate F) (position_evolve F) lifecycle.Uninitialized
     (plog w s) = Live p \<and> pending_offchain_order_id p = Some oid)"

lemma position_checked:
  "triple (\<lambda>_. True) (st_load PS s)
     (\<lambda>loaded w. Option.bind loaded pending_offchain_order_id = Some oid \<or> \<not> waits_for s oid w)
     (\<lambda>_ _. True)"
proof (rule tripleI)
  fix w loaded w' assume load: "st_load PS s w = (Inr loaded, w')"
  have "plog w' = plog w" by (rule P.load_same [OF load])
  with load P.load_some [of s w _ w'] P.load_none [of s w w']
  show "Option.bind loaded pending_offchain_order_id = Some oid \<or> \<not> waits_for s oid w'"
    by (cases loaded) (auto simp: waits_for_def)
qed simp

lemma finalizing_send:
  assumes "finalizes oid c"
  shows "triple (\<lambda>_. True) (st_send PS s c) (\<lambda>_ w. \<not> waits_for s oid w) (\<lambda>_ _. True)"
  by (rule tripleI) (auto simp: waits_for_def dest: finalize_frees [OF P.send_ok assms])

lemma rejection_step:
  assumes load: "st_load OS (hr_offchain_order_id job) w = (Inr (Some ord), w1)" and "\<not> is_filled ord"
    and ok: "handle_rejection_perform F OS PS now job w = (Inr u, w')"
  shows "\<not> waits_for (order_symbol ord) (hr_offchain_order_id job) w'"
proof -
  let ?s = "order_symbol ord" and ?oid = "hr_offchain_order_id job"
  let ?k = "seqw (map_errw JobPosition (st_load PS ?s)) (\<lambda>loaded_position.
      if Option.bind loaded_position pending_offchain_order_id \<noteq> Some ?oid then retw ()
      else map_errw JobPosition (st_send PS ?s (rejection_position_command F job ord)))"
  have k: "triple (\<lambda>_. True) ?k (\<lambda>_ w. \<not> waits_for ?s ?oid w) (\<lambda>_ _. True)"
    by (rule triple_seqw [OF triple_map_err [OF position_checked [of ?s ?oid]]])
      (auto intro!: triple_map_err intro: triple_pre [OF finalizing_send [OF rejection_command_finalizes]])
  from ok load assms(2) obtain m :: "('w, 'f job_error, unit) effect" and w2 where "seqw m (\<lambda>_. ?k) w2 = (Inr u, w')"
    by (simp add: handle_rejection_perform_def seqw_def [of "map_errw JobOffchainOrder
        (st_load OS (hr_offchain_order_id job))"] map_errw_apply)
  then obtain w3 where "?k w3 = (Inr u, w')"
    by (auto elim!: seqw_cases [of m])
  with triple_Inr [OF k] show ?thesis by blast
qed

end

definition mem_orders :: "'f float_ops \<Rightarrow> ('f mem_world, 'f) order_store" where
  "mem_orders F = \<lparr>
     st_send = mem_send mw_orders (\<lambda>l w. w\<lparr>mw_orders := l\<rparr>) (\<lambda>w. (mw_broker w, mw_clock w))
       originate_offchain_order offchain_order_evolve offchain_order_initialize
       (offchain_order_transition F),
     st_load = mem_load mw_orders originate_offchain_order offchain_order_evolve\<rparr>"

definition mem_broker_port :: "('f mem_world, 'f) broker_port" where
  "mem_broker_port = \<lparr>
     bp_place_market_order = (\<lambda>mo w. (Inr \<lparr>opr_executor_order_id = ''x'', opr_placed_shares = mo_shares mo,
       opr_is_extended_hours = False, opr_limit_price = None\<rparr>,
       w\<lparr>mw_submissions := mw_submissions w @ [mo_client_order_id mo]\<rparr>)),
     bp_place_limit_order = (\<lambda>lo w. (Inr \<lparr>opr_executor_order_id = ''x'', opr_placed_shares = lo_shares lo,
       opr_is_extended_hours = lo_extended_hours lo, opr_limit_price = Some (lo_limit_price lo)\<rparr>,
       w\<lparr>mw_submissions := mw_submissions w @ [lo_client_order_id lo]\<rparr>))\<rparr>"

definition mem_cqrs :: "'f float_ops \<Rightarrow> 'f execution_threshold \<Rightarrow> ('f mem_world, 'f) trade_processing_cqrs" where
  "mem_cqrs F threshold = \<lparr>
     cq_pool = mem_fill_query, cq_onchain_trade = mem_trades, cq_position = mem_positions F,
     cq_position_projection = (\<lambda>s. map_errw (\<lambda>_. ''projection'') (st_load (mem_positions F) s)),
     cq_offchain_order = mem_orders F, cq_order_placer = mem_broker_port,
     cq_execution_threshold = threshold,
     cq_assets = \<lparr>eq_operational_limit = None, eq_symbols = Map.empty\<rparr>,
     cq_poll_status_queue = (\<lambda>oid w. (Inr (), w\<lparr>mw_polls := mw_polls w @ [oid]\<rparr>)),
     cq_hedge_queue = (\<lambda>_ w. (Inr (), w))\<rparr>"

interpretation mem_hedge: hedge_stores "mem_orders F" mw_orders "mem_positions F" mw_positions F for F
proof (intro hedge_stores.intro hedge_stores_axioms.intro)
  show "event_store (mem_orders F) mw_orders originate_offchain_order offchain_order_evolve
      offchain_order_initialize (offchain_order_transition F)"
    unfolding mem_orders_def by (rule mem_event_store) (simp_all add: take_fault_frame)
qed (auto simp: mem_orders_def mem_send_def mem_load_def take_fault_frame
    intro: mem.P.event_store_axioms
    split: prod.splits if_splits sum.splits lifecycle.splits)

section \<open>Demonstration data\<close>

definition demo_hedge_log :: "rat position_event list" where
  "demo_hedge_log = [Initialized ''AAPL'' demo_threshold 1,
     OnChainOrderFilled (TradeId 1 0) (FractionalShares 5) Sell 100 0 1,
     OffChainOrderPlaced (OffchainOrderId 7) (Positive (FractionalShares 5)) Buy DryRun
       (SharesThreshold 5 1) 2]"

definition demo_failed_order_log :: "rat offchain_order_event list" where
  "demo_failed_order_log = [Placed ''AAPL'' (Positive (FractionalShares 5)) Buy DryRun 2 False None None,
     offchain_order_event.Submitted ''x'' 3,
     offchain_order_event.PartiallyFilled (FractionalShares 2) (Usd 100) 4,
     offchain_order_event.Failed ''rejected'' 5]"

definition demo_hedge_world :: "rat mem_world" where
  "demo_hedge_world = (demo_world [])\<lparr>mw_positions := (\<lambda>_. demo_hedge_log),
     mw_orders := (\<lambda>_. demo_failed_order_log)\<rparr>"

abbreviation demo_net :: "rat mem_world \<Rightarrow> rat" where
  "demo_net w \<equiv> led_net (foldl (ledger_step (\<lambda>x. x)) ledger_zero (mw_positions w ''AAPL''))"

definition demo_executor :: "('w, 'f) hedge_executor" where
  "demo_executor = \<lparr>he_to_supported_executor = DryRun, he_market_session = retw Regular,
     he_preflight_counter_trade = (\<lambda>_. retw (PreflightAllowed None))\<rparr>"

lemmas hedge_eval = mem_cqrs_def mem_orders_def mem_positions_def mem_send_def mem_load_def
  take_fault_def demo_hedge_world_def demo_hedge_log_def demo_failed_order_log_def demo_world_def
  seqw_def map_errw_def agg_defs exact_rat_ops shares_add_def shares_sub_def shares_ZERO_def

section \<open>Properties\<close>

text \<open>
  C21. The hedge the accounting job submits is always strictly positive, against the exposure of
  the position it was computed from and no larger than that exposure, also after it has been
  reduced to the inventory the broker reported, and it never exceeds that inventory's
  reservation.
\<close>

theorem hedge_never_overshoots:
  assumes sem: "float_sem F v" and tot: "float_total F"
    and limits: "\<forall>cap. operational_shares_limit assets sy = Some cap \<longrightarrow> 0 < sval v (positive_inner cap)"
    and reserved: "\<forall>s req av. res = Some (EquityReservation s req av) \<longrightarrow> 0 < sval v (positive_inner req)"
    and ready: "check_execution_readiness F ex proj sy et assets en w = (Inr (Some ctx), w')"
  shows "\<exists>p w1. proj sy w = (Inr (Some p), w1) \<and> pending_offchain_order_id p = None \<and>
    ec_direction (clamp_shares_to_reservation F ctx res) = (if sval v (net p) < 0 then Buy else Sell) \<and>
    0 < sval v (positive_inner (ec_shares (clamp_shares_to_reservation F ctx res))) \<and>
    sval v (positive_inner (ec_shares (clamp_shares_to_reservation F ctx res))) \<le> \<bar>sval v (net p)\<bar> \<and>
    (\<forall>s req av. res = Some (EquityReservation s req av) \<longrightarrow>
      sval v (positive_inner (ec_shares (clamp_shares_to_reservation F ctx res))) \<le>
      sval v (positive_inner req))"
proof -
  from ready obtain p w1 d s q where p: "proj sy w = (Inr (Some p), w1)"
    and r: "is_ready_for_execution F p (operational_shares_limit assets sy) = Inr (Some (d, s))"
    and q: "positive_new (shares_has_zero F) s = Inr q"
    and ctx: "ec_direction ctx = d" "ec_shares ctx = q"
    by (rule check_execution_readinessE)
  from is_ready_bounds [OF sem r limits [rule_format]]
  have s: "sval v s \<le> \<bar>sval v (net p)\<bar>" and d: "d = (if sval v (net p) < 0 then Buy else Sell)"
    by simp_all
  from positive_new_shares_value [OF sem tot q] ctx have eq: "positive_inner (ec_shares ctx) = s" "0 < sval v s"
    by simp_all
  from r have free: "pending_offchain_order_id p = None" by (rule is_ready_SomeE)
  let ?c = "clamp_shares_to_reservation F ctx res"
  have dir: "ec_direction ?c = d" using clamp_cases [of F ctx res] ctx by auto
  have bounds: "0 < sval v (positive_inner (ec_shares ?c)) \<and> sval v (positive_inner (ec_shares ?c)) \<le> sval v s"
    using clamp_cases [of F ctx res] eq reserved shares_lt_value [OF sem] by fastforce
  have inventory: "sval v (positive_inner (ec_shares ?c)) \<le> sval v (positive_inner req)"
    if "res = Some (EquityReservation sy' req av)" for sy' req av
  proof (cases "shares_lt F (positive_inner req) (positive_inner (ec_shares ctx))")
    case True
    with that show ?thesis by (simp add: clamp_shares_to_reservation_def)
  next
    case False
    have "\<not> sval v (positive_inner req) < sval v s"
    proof
      assume lt: "sval v (positive_inner req) < sval v s"
      obtain b where b: "fl_lt F (shares_inner (positive_inner req)) (shares_inner s) = Inr b"
        using float_total_lt [OF tot] by blast
      from float_sem_lt [OF sem b] lt have b by simp
      with b False eq(1) show False by (simp add: shares_lt_def shares_partial_cmp_def)
    qed
    with False that eq show ?thesis by (simp add: clamp_shares_to_reservation_def)
  qed
  from p free dir d bounds s inventory show ?thesis by auto
qed

theorem hedge_never_overshoots_witness:
  "\<exists>ctx. check_execution_readiness exact_rat demo_executor
      (\<lambda>_ w. (Inr (Some demo_position), w)) ''AAPL'' DryRun
      \<lparr>eq_operational_limit = None, eq_symbols = Map.empty\<rparr> True (0 :: int) = (Inr (Some ctx), 0) \<and>
    sval (\<lambda>x. x) (positive_inner (ec_shares (clamp_shares_to_reservation exact_rat ctx
      (Some (EquityReservation ''AAPL'' (Positive (FractionalShares 3)) (FractionalShares 3)))))) \<le> 3"
proof -
  let ?res = "Some (EquityReservation ''AAPL'' (Positive (FractionalShares 3)) (FractionalShares 3)) ::
    rat counter_trade_reservation option"
  let ?assets = "\<lparr>eq_operational_limit = None, eq_symbols = Map.empty\<rparr> :: rat equities_config"
  obtain ctx where ready: "check_execution_readiness exact_rat demo_executor
      (\<lambda>_ w. (Inr (Some demo_position), w)) ''AAPL'' DryRun ?assets True (0 :: int) = (Inr (Some ctx), 0)"
    by (simp add: check_execution_readiness_def check_market_session_def operational_shares_limit_def
        demo_executor_def position_eval seqw_def positive_new_def)
  have lim: "\<forall>cap. operational_shares_limit ?assets ''AAPL'' = Some cap \<longrightarrow>
      0 < sval (\<lambda>x. x) (positive_inner cap)"
    by (simp add: operational_shares_limit_def)
  have res: "\<forall>s req av. ?res = Some (EquityReservation s req av) \<longrightarrow>
      0 < sval (\<lambda>x. x) (positive_inner req)"
    by auto
  from hedge_never_overshoots [OF exact_rat_sem exact_rat_total lim res ready] ready
  show ?thesis by auto
qed

text \<open>
  A buying-power reservation that passes the batch budget fits: what the batch has already
  reserved plus the new cost is at most the available buying power, computed without wrap-around
  on the signed 64-bit amounts, and an amount that would wrap is an error, not a pass.
\<close>

theorem budget_accepts_only_affordable:
  assumes "check_reservation F budget (BuyingPower cost available) = Inr None"
  shows "sint (reserved_buying_power_cents budget) + sint cost \<le> sint available"
proof -
  let ?d = "sint available - sint (reserved_buying_power_cents budget)"
  from assms have range: "- (2 ^ 63) \<le> ?d \<and> ?d \<le> i64_max"
    and fits: "\<not> sint (word_of_int ?d :: i64) < sint cost"
    by (auto simp: check_reservation_def i64_checked_sub_def Let_def split: if_splits)
  from range have "sint (word_of_int ?d :: i64) = ?d"
    by (simp add: sint_word_ariths signed_take_bit_int_eq_self i64_max_def)
  with fits show ?thesis by simp
qed

theorem budget_accepts_only_affordable_witness:
  "check_reservation exact_rat \<lparr>reserved_buying_power_cents = 40, remaining_equity = Map.empty\<rparr>
     (BuyingPower 60 100) = Inr None \<and>
   sint (40 :: i64) + sint (60 :: i64) \<le> sint (100 :: i64)"
proof -
  have "check_reservation exact_rat \<lparr>reserved_buying_power_cents = 40, remaining_equity = Map.empty\<rparr>
      (BuyingPower 60 100) = Inr None"
    by (simp add: check_reservation_def i64_checked_sub_def i64_max_def)
  from budget_accepts_only_affordable [OF this] this show ?thesis by simp
qed

text \<open>
  When the rejection job reports success for an order that is not completely filled, its
  position no longer waits for that order, whichever of its two writes an earlier attempt had
  already done: running the job again is safe.
\<close>

theorem rejection_releases_position:
  assumes st: "hedge_stores OS olog PS plog F"
    and load: "st_load OS (hr_offchain_order_id job) w = (Inr (Some ord), w1)" and "\<not> is_filled ord"
    and ok: "handle_rejection_perform F OS PS now job w = (Inr u, w')"
    and live: "replay (position_originate F) (position_evolve F) lifecycle.Uninitialized
      (plog w' (order_symbol ord)) = Live p"
  shows "pending_offchain_order_id p \<noteq> Some (hr_offchain_order_id job)"
  using hedge_stores.rejection_step [OF st load assms(3) ok] live
  by (auto simp: hedge_stores.waits_for_def [OF st])

definition demo_rejection :: handle_order_rejection where
  "demo_rejection = \<lparr>hr_offchain_order_id = OffchainOrderId 7, hr_error = ''rejected'',
     hr_broker_failed_at = Some 5\<rparr>"

theorem rejection_releases_position_witness:
  "\<exists>w' p. handle_rejection_perform exact_rat (mem_orders exact_rat) (mem_positions exact_rat) 9
      demo_rejection demo_hedge_world = (Inr (), w') \<and>
    replay (position_originate exact_rat) (position_evolve exact_rat) lifecycle.Uninitialized
      (mw_positions w' ''AAPL'') = Live p \<and>
    pending_offchain_order_id p \<noteq> Some (OffchainOrderId 7)"
proof -
  obtain ord where load: "st_load (mem_orders exact_rat) (hr_offchain_order_id demo_rejection)
      demo_hedge_world = (Inr (Some ord), demo_hedge_world)"
    and ord: "\<not> is_filled ord" "order_symbol ord = ''AAPL''"
    by (simp add: hedge_eval market_session_from_extended_def)
  obtain w' where ok: "handle_rejection_perform exact_rat (mem_orders exact_rat) (mem_positions exact_rat) 9
      demo_rejection demo_hedge_world = (Inr (), w')"
    and "\<exists>p. replay (position_originate exact_rat) (position_evolve exact_rat) lifecycle.Uninitialized
      (mw_positions w' ''AAPL'') = Live p"
    by (simp add: hedge_eval handle_rejection_perform_def demo_rejection_def market_session_from_extended_def
        rejection_position_command_def position_command_for_retained_fill_def positive_new_def Let_def)
  then obtain p where "replay (position_originate exact_rat) (position_evolve exact_rat)
      lifecycle.Uninitialized (mw_positions w' ''AAPL'') = Live p" by blast
  with rejection_releases_position [OF mem_hedge.hedge_stores_axioms load ord(1) ok, of p] ord(2) ok
  show ?thesis by (auto simp: demo_rejection_def)
qed



text \<open>
  The dispatch of a pending order found failed while a new fill is accounted loses its
  executed shares: it fails the position's order without the retained fill, where the startup
  recovery of the very same order completes it, so the two leave different exposures.
\<close>

theorem pending_failed_order_drops_fill:
  "\<exists>w1 w2.
     reconcile_existing_pending_order exact_rat ''AAPL'' (mem_cqrs exact_rat demo_threshold)
       demo_hedge_world = (Inr PendingCleared, w1) \<and>
     resolve_terminal_claimed_order exact_rat (mem_positions exact_rat) ''AAPL'' (OffchainOrderId 7)
       (Some (offchain_order.Failed ''AAPL'' (Positive (FractionalShares 5)) Buy DryRun
         (Some (Priced (FractionalShares 2) (Usd 100) 4)) (Some ''x'') ''rejected'' 2 5))
       demo_hedge_world = (Inr True, w2) \<and>
     demo_net w1 = - 5 \<and> demo_net w2 = - 3"
  by (simp add: hedge_eval reconcile_existing_pending_order_def dispatch_post_place_state_def
      resolve_terminal_claimed_order_def orphaned_order_position_command_def
      terminal_position_finalization_def classify_terminal_fill_def positive_new_def Let_def
      market_session_from_extended_def ledger_zero_def)

end
