(* ===== verification/Tokenization.thy ===== *)
theory Tokenization
  imports Finance
begin

text \<open>
  The tokenization client of \<^verbatim>\<open>crates/tokenization\<close>: the request vocabulary, the scan of
  the provider's request list, the two polling loops, and the onchain verification of a mint.
  The HTTP transport, \<^verbatim>\<open>serde_json\<close>, the log decoder of the EVM library and the runtime's
  clock are parameters.
\<close>

section \<open>Requests\<close>

datatype issuer_request_id = IssuerRequestId uuid
datatype tokenization_request_id = TokenizationRequestId (request_id_str: string)
datatype tokenization_request_id_error = EmptyRequestId

definition tokenization_request_id_try_new ::
  "string \<Rightarrow> tokenization_request_id_error + tokenization_request_id" where
  "tokenization_request_id_try_new value =
     (if value = [] then Inl EmptyRequestId else Inr (TokenizationRequestId value))"

datatype tokenization_request_type = Mint | Redeem
datatype tokenization_request_status = Pending | Completed | Rejected

record 'f tokenization_request =
  tr_id :: tokenization_request_id
  tr_type :: "tokenization_request_type option"
  tr_status :: tokenization_request_status
  tr_underlying_symbol :: symbol
  tr_token_symbol :: "string option"
  tr_quantity :: "'f fractional_shares"
  tr_wallet :: "address option"
  tr_issuer_request_id :: "issuer_request_id option"
  tr_tx_hash :: "tx_hash option"
  tr_fees :: "'f option"
  tr_created_at :: timestamp

record list_requests_params =
  lr_request_type :: "tokenization_request_type option"
  lr_status :: "tokenization_request_status option"
  lr_underlying_symbol :: "symbol option"

definition default_list_requests_params :: list_requests_params where
  "default_list_requests_params =
     \<lparr>lr_request_type = None, lr_status = None, lr_underlying_symbol = None\<rparr>"

section \<open>Errors\<close>

type_synonym status_code = nat

datatype alpaca_tokenization_error =
    Reqwest "status_code option" string
  | JsonParse string
  | Utf8 string
  | ApiError status_code string
  | InsufficientPosition symbol
  | UnsupportedAccount
  | InvalidParameters string
  | RequestNotFound tokenization_request_id
  | Evm string
  | PollTimeout nat
  | MissingRedemptionWallet

fun error_status_code :: "alpaca_tokenization_error \<Rightarrow> status_code option" where
  "error_status_code (ApiError status _) = Some status"
| "error_status_code (Reqwest status _) = status"
| "error_status_code _ = None"

definition map_mint_error :: "status_code \<Rightarrow> string \<Rightarrow> symbol \<Rightarrow> alpaca_tokenization_error" where
  "map_mint_error status message symbol =
     (if status = 403 then
        (if str_contains ''insufficient'' message \<or> str_contains ''position'' message
         then InsufficientPosition symbol else UnsupportedAccount)
      else if status = 422 then InvalidParameters message
      else ApiError status message)"

section \<open>The request list\<close>

text \<open>
  \<^verbatim>\<open>serde_json\<close>: parsing of a body into JSON values, string fields of a value, and the typed
  decoding of one value. \<open>'v\<close> is \<^verbatim>\<open>serde_json::Value\<close>.
\<close>

record ('v, 'f) json_codec =
  js_parse :: "string \<Rightarrow> string + 'v list"
  js_str_field :: "'v \<Rightarrow> string \<Rightarrow> string option"
  js_from_value :: "'v \<Rightarrow> string + 'f tokenization_request"

definition parse_request_list ::
  "('v, 'f) json_codec \<Rightarrow> string \<Rightarrow> string + 'f tokenization_request list" where
  "parse_request_list J body = tryr (js_parse J body) (\<lambda>requests.
     Inr (List.map_filter (\<lambda>request. result_ok (js_from_value J request)) requests))"

fun scan_values :: "('v \<Rightarrow> string + 'a option) \<Rightarrow> 'v list \<Rightarrow> string + 'a option" where
  "scan_values matcher [] = Inr None"
| "scan_values matcher (request # requests) = tryr (matcher request) (\<lambda>m. case m of
     Some matched \<Rightarrow> Inr (Some matched)
   | None \<Rightarrow> scan_values matcher requests)"

definition scan_request_list ::
  "('v, 'f) json_codec \<Rightarrow> string \<Rightarrow> ('v \<Rightarrow> string + 'a option) \<Rightarrow> string + 'a option" where
  "scan_request_list J body matcher = tryr (js_parse J body) (scan_values matcher)"

text \<open>
  The client over a world \<open>'w\<close>: its HTTP fetch of the request list, and
  \<^verbatim>\<open>eq_ignore_ascii_case\<close> on the rendering \<^verbatim>\<open>{tx_hash:#x}\<close> of a hash.
\<close>

record ('w, 'v, 'f) tokenization_client =
  tc_fetch_requests_body ::
    "list_requests_params \<Rightarrow> ('w, alpaca_tokenization_error, string) effect"
  tc_json :: "('v, 'f) json_codec"
  tc_is_tx_hash :: "tx_hash \<Rightarrow> string \<Rightarrow> bool"

definition list_requests ::
  "('w, 'v, 'f) tokenization_client \<Rightarrow> list_requests_params \<Rightarrow>
   ('w, alpaca_tokenization_error, 'f tokenization_request list) effect" where
  "list_requests T params = seqw (tc_fetch_requests_body T params) (\<lambda>body.
     Pair (map_err JsonParse (parse_request_list (tc_json T) body)))"

definition get_request ::
  "('w, 'v, 'f) tokenization_client \<Rightarrow> tokenization_request_id \<Rightarrow>
   ('w, alpaca_tokenization_error, 'f tokenization_request) effect" where
  "get_request T id' = seqw (tc_fetch_requests_body T default_list_requests_params) (\<lambda>body.
     Pair (tryr (map_err JsonParse (scan_request_list (tc_json T) body (\<lambda>request.
         if js_str_field (tc_json T) request ''tokenization_request_id'' = Some (request_id_str id')
         then map_ok Some (js_from_value (tc_json T) request)
         else Inr None)))
       (ok_or (RequestNotFound id'))))"

definition find_redemption_by_tx ::
  "('w, 'v, 'f) tokenization_client \<Rightarrow> tx_hash \<Rightarrow>
   ('w, alpaca_tokenization_error, 'f tokenization_request option) effect" where
  "find_redemption_by_tx T hash =
     seqw (tc_fetch_requests_body T (default_list_requests_params\<lparr>lr_request_type := Some Redeem\<rparr>)) (\<lambda>body.
       Pair (map_err JsonParse (scan_request_list (tc_json T) body (\<lambda>request.
         if (case js_str_field (tc_json T) request ''tx_hash'' of
               Some request_tx_hash \<Rightarrow> tc_is_tx_hash T hash request_tx_hash
             | None \<Rightarrow> False)
         then map_ok Some (js_from_value (tc_json T) request)
         else Inr None))))"

definition list_pending_requests ::
  "('w, 'v, 'f) tokenization_client \<Rightarrow>
   ('w, alpaca_tokenization_error, 'f tokenization_request list) effect" where
  "list_pending_requests T =
     seqw (list_requests T (default_list_requests_params\<lparr>lr_status := Some Pending\<rparr>)) (\<lambda>requests.
       retw (filter (\<lambda>request. tr_status request = Pending) requests))"

section \<open>Polling\<close>

text \<open>
  \<^verbatim>\<open>tokio::time::interval\<close> with \<^verbatim>\<open>MissedTickBehavior::Skip\<close>: a tick sleeps until the
  interval's deadline, then the deadline moves on. Instants and durations are milliseconds.
\<close>

record polling_config =
  pc_interval :: nat
  pc_timeout :: nat
  pc_max_retries :: nat
  pc_min_retry_delay :: nat
  pc_max_retry_delay :: nat

definition default_polling_config :: polling_config where
  "default_polling_config = \<lparr>
     pc_interval = 10 * 1000,
     pc_timeout = 30 * 60 * 1000,
     pc_max_retries = 10,
     pc_min_retry_delay = 1000,
     pc_max_retry_delay = 60 * 1000\<rparr>"

record 'w clock =
  ck_now :: "'w \<Rightarrow> nat"
  ck_sleep_until :: "nat \<Rightarrow> 'w \<Rightarrow> 'w"
  ck_next_deadline :: "nat \<Rightarrow> nat \<Rightarrow> nat \<Rightarrow> nat"

partial_function (option) poll_loop ::
  "'w clock \<Rightarrow> polling_config \<Rightarrow> ('w, alpaca_tokenization_error, 'a option) effect \<Rightarrow>
   nat \<Rightarrow> nat \<Rightarrow> 'w \<Rightarrow> ((alpaca_tokenization_error + 'a) \<times> 'w) option" where
  "poll_loop C config probe start deadline w =
     (let w1 = ck_sleep_until C deadline w;
          deadline' = ck_next_deadline C (pc_interval config) deadline (ck_now C w1)
      in if pc_timeout config \<le> ck_now C w1 - start
         then Some (Inl (PollTimeout (ck_now C w1 - start)), w1)
         else (case probe w1 of
             (Inl e, w2) \<Rightarrow> Some (Inl e, w2)
           | (Inr (Some r), w2) \<Rightarrow> Some (Inr r, w2)
           | (Inr None, w2) \<Rightarrow> poll_loop C config probe start deadline' w2))"

definition terminal_probe ::
  "('w, 'v, 'f) tokenization_client \<Rightarrow> tokenization_request_id \<Rightarrow>
   ('w, alpaca_tokenization_error, 'f tokenization_request option) effect" where
  "terminal_probe T id' = seqw (get_request T id') (\<lambda>request.
     retw (case tr_status request of
         Completed \<Rightarrow> Some request
       | Rejected \<Rightarrow> Some request
       | Pending \<Rightarrow> None))"

definition poll_until_terminal ::
  "'w clock \<Rightarrow> ('w, 'v, 'f) tokenization_client \<Rightarrow> tokenization_request_id \<Rightarrow> polling_config \<Rightarrow>
   'w \<Rightarrow> ((alpaca_tokenization_error + 'f tokenization_request) \<times> 'w) option" where
  "poll_until_terminal C T id' config w =
     poll_loop C config (terminal_probe T id') (ck_now C w) (ck_now C w) w"

definition poll_for_redemption_detection ::
  "'w clock \<Rightarrow> ('w, 'v, 'f) tokenization_client \<Rightarrow> tx_hash \<Rightarrow> polling_config \<Rightarrow>
   'w \<Rightarrow> ((alpaca_tokenization_error + 'f tokenization_request) \<times> 'w) option" where
  "poll_for_redemption_detection C T hash config w =
     poll_loop C config (find_redemption_by_tx T hash) (ck_now C w) (ck_now C w) w"

text \<open>
  What the loops rely on of the runtime: a sleep ends no earlier than its deadline, the interval
  reschedules at least one period later (\<^verbatim>\<open>Skip\<close> never goes back), and no call turns the
  clock back.
\<close>

definition clock_contract :: "'w clock \<Rightarrow> bool" where
  "clock_contract C \<longleftrightarrow>
     (\<forall>t w. t \<le> ck_now C (ck_sleep_until C t w)) \<and>
     (\<forall>period deadline now. deadline + period \<le> ck_next_deadline C period deadline now)"

section \<open>Verification of a mint\<close>

record evm_log =
  log_address :: address
  log_topics :: "u256 list"
  log_data :: "8 word list"

record transfer =
  transfer_from :: address
  transfer_to :: address
  transfer_value :: u256

record receipt =
  receipt_status :: bool
  receipt_logs :: "evm_log list"

datatype mint_verification_error =
    ReceiptNotFound tx_hash
  | TransactionReverted tx_hash
  | NoMatchingTransfer tx_hash address address
  | InsufficientTransferAmount tx_hash u256 u256
  | TransferOverflow tx_hash
  | Provider string

text \<open>The chain: the receipt lookup, the event's signature hash and the typed log decoder.\<close>

record mint_chain =
  mc_get_transaction_receipt :: "tx_hash \<Rightarrow> string + receipt option"
  mc_transfer_signature :: u256
  mc_decode_transfer :: "evm_log \<Rightarrow> string + transfer"

definition u256_checked_add :: "u256 \<Rightarrow> u256 \<Rightarrow> u256 option" where
  "u256_checked_add a b = (if uint a + uint b < 2 ^ 256 then Some (a + b) else None)"

definition first_topic :: "evm_log \<Rightarrow> u256 option" where
  "first_topic l = (case log_topics l of [] \<Rightarrow> None | t # _ \<Rightarrow> Some t)"

definition matching_transfers ::
  "mint_chain \<Rightarrow> evm_log list \<Rightarrow> address \<Rightarrow> address \<Rightarrow> u256 list" where
  "matching_transfers C logs token_address wallet =
     map transfer_value
       (filter (\<lambda>decoded. transfer_to decoded = wallet)
         (List.map_filter (\<lambda>l. result_ok (mc_decode_transfer C l))
           (filter (\<lambda>l. first_topic l = Some (mc_transfer_signature C))
             (filter (\<lambda>l. log_address l = token_address) logs))))"

definition verify_mint_tx ::
  "mint_chain \<Rightarrow> tx_hash \<Rightarrow> address \<Rightarrow> address \<Rightarrow> u256 \<Rightarrow> mint_verification_error + unit" where
  "verify_mint_tx C hash token_address wallet expected_amount =
     tryr (map_err Provider (mc_get_transaction_receipt C hash)) (\<lambda>found.
     tryr (ok_or (ReceiptNotFound hash) found) (\<lambda>receipt.
     if \<not> receipt_status receipt then Inl (TransactionReverted hash) else
     tryr (try_fold (\<lambda>acc val. ok_or (TransferOverflow hash) (u256_checked_add acc val)) 0
             (matching_transfers C (receipt_logs receipt) token_address wallet)) (\<lambda>total_transferred.
     if total_transferred = 0 then Inl (NoMatchingTransfer hash wallet token_address)
     else if total_transferred < expected_amount
       then Inl (InsufficientTransferAmount hash expected_amount total_transferred)
     else Inr ())))"



section \<open>The polling loops end\<close>

lemmas poll_loop_unfold = poll_loop.simps

lemma poll_loop_returns:
  assumes C: "clock_contract C" and i: "0 < pc_interval config"
  shows "\<exists>r. poll_loop C config probe start deadline w = Some r"
proof (induction "start + pc_timeout config - deadline" arbitrary: deadline w rule: less_induct)
  case less
  let ?w1 = "ck_sleep_until C deadline w"
  let ?d = "ck_next_deadline C (pc_interval config) deadline (ck_now C ?w1)"
  have late: "deadline \<le> ck_now C ?w1" and d: "deadline + pc_interval config \<le> ?d"
    using C by (auto simp: clock_contract_def)
  show ?case
  proof (cases "pc_timeout config \<le> ck_now C ?w1 - start")
    case True
    then show ?thesis by (simp add: poll_loop_unfold [of C config] Let_def)
  next
    case False
    with late i d have "start + pc_timeout config - ?d < start + pc_timeout config - deadline"
      by linarith
    then have "\<exists>r. poll_loop C config probe start ?d w2 = Some r" for w2
      by (rule less)
    with False show ?thesis
      by (simp add: poll_loop_unfold [of C config probe start deadline w] Let_def
          split: prod.split sum.split option.split)
  qed
qed

text \<open>Whatever the loop returns as a success is a value its probe reported.\<close>

lemma poll_loop_result:
  assumes "poll_loop C config probe start deadline w = Some a"
  shows "(\<exists>n. fst a = Inl (PollTimeout n) \<and> pc_timeout config \<le> n) \<or>
    (\<exists>v. probe v = (map_ok Some (fst a), snd a))"
proof -
  let ?P = "\<lambda>C config probe start deadline w a.
    (\<exists>n. fst a = Inl (PollTimeout n) \<and> pc_timeout config \<le> n) \<or>
    (\<exists>v. probe v = (map_ok Some (fst a), snd a))"
  show "?P C config probe start deadline w a"
  proof (rule poll_loop.raw_induct [where P = ?P, OF _ assms])
    fix rec C config probe start deadline w a
    assume IH: "\<And>C config probe start deadline w a.
        rec C config probe start deadline w = Some a \<Longrightarrow> ?P C config probe start deadline w a"
      and body: "(let w1 = ck_sleep_until C deadline w;
            deadline' = ck_next_deadline C (pc_interval config) deadline (ck_now C w1)
        in if pc_timeout config \<le> ck_now C w1 - start
           then Some (Inl (PollTimeout (ck_now C w1 - start)), w1)
           else (case probe w1 of
               (Inl e, w2) \<Rightarrow> Some (Inl e, w2)
             | (Inr (Some r), w2) \<Rightarrow> Some (Inr r, w2)
             | (Inr None, w2) \<Rightarrow> rec C config probe start deadline' w2)) = Some a"
    then show "?P C config probe start deadline w a"
      by (cases "probe (ck_sleep_until C deadline w)")
        (fastforce simp: Let_def split: if_splits sum.splits option.splits dest: IH)
  qed
qed

lemma terminal_probe_status:
  "terminal_probe T i w = (Inr (Some request), w') \<Longrightarrow>
   tr_status request \<noteq> Pending"
  by (auto simp: terminal_probe_def elim!: seqw_cases split: tokenization_request_status.splits)

text \<open>
  C31. The polling loop ends: with a positive interval, on any runtime whose sleeps and intervals
  keep their contract, \<open>poll_until_terminal\<close> returns whatever the provider answers, and a success
  it returns is a request in a terminal status, never a pending one.
\<close>

theorem poll_until_terminal_returns:
  assumes "clock_contract C" and "0 < pc_interval config"
  shows "\<exists>r w'. poll_until_terminal C T i config w = Some (r, w') \<and>
    (\<forall>request. r = Inr request \<longrightarrow> tr_status request = Completed \<or> tr_status request = Rejected)"
proof -
  obtain r w' where ret: "poll_until_terminal C T i config w = Some (r, w')"
    using poll_loop_returns [OF assms, of "terminal_probe T i" "ck_now C w" "ck_now C w" w]
    by (auto simp: poll_until_terminal_def)
  moreover have "tr_status request = Completed \<or> tr_status request = Rejected"
    if "r = Inr request" for request
    using poll_loop_result [OF ret [unfolded poll_until_terminal_def]] that
    by (cases "tr_status request") (auto dest: terminal_probe_status)
  ultimately show ?thesis by blast
qed

text \<open>A runtime in which a fetch takes one millisecond, with a provider that answers the same forever.\<close>

definition demo_clock :: "nat clock" where
  "demo_clock = \<lparr>ck_now = (\<lambda>w. w), ck_sleep_until = (\<lambda>t w. max t w),
     ck_next_deadline = (\<lambda>period deadline now. deadline + period)\<rparr>"

definition demo_request :: "tokenization_request_status \<Rightarrow> rat tokenization_request" where
  "demo_request st = \<lparr>tr_id = TokenizationRequestId ''r'', tr_type = Some Mint, tr_status = st,
     tr_underlying_symbol = ''AAPL'', tr_token_symbol = Some ''tAAPL'',
     tr_quantity = FractionalShares 5, tr_wallet = None, tr_issuer_request_id = None,
     tr_tx_hash = Some 7, tr_fees = None, tr_created_at = 0\<rparr>"

definition demo_client ::
  "tokenization_request_status \<Rightarrow> (nat, tokenization_request_status, rat) tokenization_client" where
  "demo_client st = \<lparr>tc_fetch_requests_body = (\<lambda>_ w. (Inr [], w + 1)),
     tc_json = \<lparr>js_parse = (\<lambda>_. Inr [st]), js_str_field = (\<lambda>_ _. Some ''r''),
       js_from_value = (\<lambda>v. Inr (demo_request v))\<rparr>,
     tc_is_tx_hash = (\<lambda>_ _. True)\<rparr>"

lemma demo_clock_contract: "clock_contract demo_clock"
  by (simp add: clock_contract_def demo_clock_def)

theorem poll_until_terminal_returns_witness:
  "(\<exists>r w'. poll_until_terminal demo_clock (demo_client Pending) (TokenizationRequestId ''r'')
      default_polling_config (0 :: nat) = Some (r, w') \<and>
    (\<forall>request. r \<noteq> Inr request \<or> tr_status request = Completed \<or> tr_status request = Rejected)) \<and>
   pc_timeout default_polling_config = 180 * pc_interval default_polling_config"
  using poll_until_terminal_returns [OF demo_clock_contract, of default_polling_config
      "demo_client Pending" "TokenizationRequestId ''r''" 0]
  by (auto simp: default_polling_config_def)

section \<open>Mint verification\<close>

lemma u256_checked_add_Some [simp]:
  "u256_checked_add a b = Some c \<longleftrightarrow> uint c = uint a + uint b"
proof (cases "uint a + uint b < 2 ^ 256")
  case True
  then have "uint (a + b) = uint a + uint b" using uint_add_lem [of a b] by simp
  with True show ?thesis by (auto simp: u256_checked_add_def word_uint_eq_iff)
next
  case False
  with uint_bounded [of c] show ?thesis by (auto simp: u256_checked_add_def)
qed

text \<open>The checked sum is the exact sum, and it fails exactly when the exact sum does not fit.\<close>

lemma checked_sum:
  fixes vals :: "u256 list"
  shows "try_fold (\<lambda>acc val. ok_or e (u256_checked_add acc val)) acc vals = Inr total' \<longleftrightarrow>
   uint total' = uint acc + (\<Sum>val\<leftarrow>vals. uint val)"
proof (induction vals arbitrary: acc)
  case Nil
  show ?case by (auto simp: word_uint_eq_iff)
next
  case (Cons x xs)
  have nn: "0 \<le> (\<Sum>val\<leftarrow>xs. uint val)" by (induction xs) auto
  show ?case
  proof
    assume "uint total' = uint acc + (\<Sum>val\<leftarrow>x # xs. uint val)"
    moreover from this nn have "u256_checked_add acc x = Some (acc + x)"
      using uint_bounded [of total'] by (simp add: u256_checked_add_def)
    moreover from this have eq: "uint (acc + x) = uint acc + uint x" by simp
    ultimately show "try_fold (\<lambda>acc val. ok_or e (u256_checked_add acc val)) acc (x # xs) = Inr total'"
      using Cons.IH [of "acc + x"] by (auto intro!: exI [of _ "acc + x"])
  qed (auto simp: Cons.IH)
qed



text \<open>The tokens a receipt moved to the wallet, as an unbounded number.\<close>

definition received_value :: "mint_chain \<Rightarrow> evm_log list \<Rightarrow> address \<Rightarrow> address \<Rightarrow> int" where
  "received_value C logs token wallet = (\<Sum>l\<leftarrow>logs.
     case mc_decode_transfer C l of
       Inr t \<Rightarrow> if log_address l = token \<and> first_topic l = Some (mc_transfer_signature C) \<and>
           transfer_to t = wallet then uint (transfer_value t) else 0
     | Inl _ \<Rightarrow> 0)"

lemma matching_transfers_sum:
  "(\<Sum>val\<leftarrow>matching_transfers C logs token wallet. uint val) = received_value C logs token wallet"
  by (induction logs)
    (auto simp: matching_transfers_def received_value_def map_filter_simps
      split: sum.splits option.splits)

text \<open>
  A mint is confirmed exactly when its transaction succeeded and moved at least the expected
  amount, and something at all, of the token to the wallet. The amount is the exact sum of the
  transfer events: a sum that does not fit 256 bits is refused, never wrapped around.
\<close>

theorem verify_mint_tx_exact:
  "verify_mint_tx C hash token wallet expected = Inr () \<longleftrightarrow>
   (\<exists>receipt. mc_get_transaction_receipt C hash = Inr (Some receipt) \<and> receipt_status receipt \<and>
      0 < received_value C (receipt_logs receipt) token wallet \<and>
      uint expected \<le> received_value C (receipt_logs receipt) token wallet \<and>
      received_value C (receipt_logs receipt) token wallet < 2 ^ 256)"
proof -
  have fits: "(\<exists>total. uint total = s \<and> total \<noteq> 0 \<and> \<not> total < expected) \<longleftrightarrow>
      0 < s \<and> uint expected \<le> s \<and> s < 2 ^ 256" for s :: int
  proof
    assume "0 < s \<and> uint expected \<le> s \<and> s < 2 ^ 256"
    then have "uint (word_of_int s :: u256) = s" "word_of_int s \<noteq> (0 :: u256)"
      by (auto simp: uint_word_of_int_eq word_uint_eq_iff take_bit_int_eq_self)
    with \<open>0 < s \<and> uint expected \<le> s \<and> s < 2 ^ 256\<close>
    show "\<exists>total. uint total = s \<and> total \<noteq> 0 \<and> \<not> total < expected"
      by (intro exI [of _ "word_of_int s"]) (simp add: word_less_def)
  qed (use uint_bounded [where ?'a = 256] in \<open>auto simp: word_less_def word_uint_eq_iff
      less_le intro: uint_lt2p [where ?'a = 256, simplified]\<close>)
  show ?thesis
  proof (cases "mc_get_transaction_receipt C hash")
    case (Inr found)
    show ?thesis
    proof (cases found)
      case (Some receipt)
      have "verify_mint_tx C hash token wallet expected = Inr () \<longleftrightarrow> receipt_status receipt \<and>
          (\<exists>total. uint total = received_value C (receipt_logs receipt) token wallet \<and>
             total \<noteq> 0 \<and> \<not> total < expected)"
        by (auto simp: verify_mint_tx_def Inr Some checked_sum matching_transfers_sum split: if_splits)
      with Inr Some show ?thesis by (simp only: fits) auto
    qed (simp add: verify_mint_tx_def Inr)
  qed (simp add: verify_mint_tx_def)
qed

end
