(* ===== verification/Event_Table.thy ===== *)
theory Event_Table
  imports Event_Sourcing "HOL-Library.List_Lexorder" "HOL-Library.Char_ord"
begin

text \<open>
  The \<^verbatim>\<open>events\<close> table as the startup queries read it: one row per stored event with the
  stream's type and identifier, the position in the stream and the event's type. \<open>latest_rows\<close> is
  the common part of the queries, the last row of every stream. \<open>store_rows\<close> is the table the
  event store writes for a list of streams, its sequence numbers counting from \<open>start\<close>.
\<close>

record 'p event_row =
  er_aggregate_type :: string
  er_aggregate_id :: string
  er_sequence :: nat
  er_event_type :: string
  er_payload :: 'p

section \<open>Queries\<close>

definition stream_sequences :: "'p event_row list \<Rightarrow> string \<Rightarrow> string \<Rightarrow> nat list" where
  "stream_sequences rows agg i = map er_sequence
     (filter (\<lambda>r. er_aggregate_type r = agg \<and> er_aggregate_id r = i) rows)"

text \<open>
  \<^verbatim>\<open>WITH latest AS (SELECT aggregate_id, MAX(sequence) .. GROUP BY aggregate_id)\<close> joined with
  the events: the row at the highest sequence of its stream.
\<close>

definition latest_rows :: "'p event_row list \<Rightarrow> string \<Rightarrow> 'p event_row list" where
  "latest_rows rows agg = filter (\<lambda>r. er_aggregate_type r = agg \<and>
     er_sequence r = Max (set (stream_sequences rows agg (er_aggregate_id r)))) rows"

text \<open>\<^verbatim>\<open>INNER JOIN events first_ev ON .. first_ev.sequence = s\<close>.\<close>

definition row_at :: "'p event_row list \<Rightarrow> string \<Rightarrow> string \<Rightarrow> nat \<Rightarrow> 'p event_row option" where
  "row_at rows agg i s = List.find (\<lambda>r. er_aggregate_type r = agg \<and> er_aggregate_id r = i \<and>
     er_sequence r = s) rows"

text \<open>
  The identifiers of the streams whose last event has one of the given types, in the order of
  \<^verbatim>\<open>ORDER BY aggregate_id\<close>.
\<close>

definition ids_with_last_event_in :: "'p event_row list \<Rightarrow> string \<Rightarrow> string list \<Rightarrow> string list" where
  "ids_with_last_event_in rows agg types =
     sort (map er_aggregate_id (filter (\<lambda>r. er_event_type r \<in> set types) (latest_rows rows agg)))"

text \<open>The left join with the latest event of one type in a stream.\<close>

definition latest_of_type ::
  "'p event_row list \<Rightarrow> string \<Rightarrow> string \<Rightarrow> string \<Rightarrow> 'p event_row option" where
  "latest_of_type rows agg i ty = (case map er_sequence (filter (\<lambda>r. er_aggregate_type r = agg \<and>
       er_aggregate_id r = i \<and> er_event_type r = ty) rows) of
     [] \<Rightarrow> None
   | s # ss \<Rightarrow> row_at rows agg i (Max (set (s # ss))))"

section \<open>The rows of stored streams\<close>

definition stored_row ::
  "nat \<Rightarrow> string \<Rightarrow> ('ev \<Rightarrow> string) \<Rightarrow> string \<Rightarrow> 'ev list \<Rightarrow> nat \<Rightarrow> 'ev event_row" where
  "stored_row start agg event_type i l n = \<lparr>er_aggregate_type = agg, er_aggregate_id = i,
     er_sequence = start + n, er_event_type = event_type (l ! n), er_payload = l ! n\<rparr>"

definition store_rows ::
  "nat \<Rightarrow> string \<Rightarrow> ('ev \<Rightarrow> string) \<Rightarrow> (string \<times> 'ev list) list \<Rightarrow> 'ev event_row list" where
  "store_rows start agg event_type streams = concat (map (\<lambda>(i, l).
     map (stored_row start agg event_type i l) [0..<length l]) streams)"

lemma stored_row_simps [simp]:
  "er_aggregate_type (stored_row start agg ety i l n) = agg"
  "er_aggregate_id (stored_row start agg ety i l n) = i"
  "er_sequence (stored_row start agg ety i l n) = start + n"
  "er_event_type (stored_row start agg ety i l n) = ety (l ! n)"
  "er_payload (stored_row start agg ety i l n) = l ! n"
  by (simp_all add: stored_row_def)

lemma set_store_rows: "set (store_rows start agg ety streams) =
    {stored_row start agg ety i l n | i l n. (i, l) \<in> set streams \<and> n < length l}"
  by (auto simp: store_rows_def) force

lemma store_rowsE:
  assumes "r \<in> set (store_rows start agg ety streams)"
  obtains i l n where "(i, l) \<in> set streams" "n < length l" "r = stored_row start agg ety i l n"
  using assms by (auto simp: set_store_rows)

lemma distinct_streams_eq:
  "distinct (map fst streams) \<Longrightarrow> (i, l) \<in> set streams \<Longrightarrow> (i, l') \<in> set streams \<Longrightarrow> l' = l"
  by (metis eq_key_imp_eq_value)

lemma stream_sequences_store:
  assumes "distinct (map fst streams)" and "(i, l) \<in> set streams"
  shows "set (stream_sequences (store_rows start agg ety streams) agg i) =
    (\<lambda>n. start + n) ` {..<length l}"
proof -
  have "{r \<in> set (store_rows start agg ety streams). er_aggregate_type r = agg \<and> er_aggregate_id r = i} =
      stored_row start agg ety i l ` {..<length l}"
    (is "?L = ?R")
  proof
    show "?L \<subseteq> ?R"
      by (auto elim!: store_rowsE dest!: distinct_streams_eq [OF assms])
    show "?R \<subseteq> ?L"
      using assms(2) by (auto simp: set_store_rows)
  qed
  then show ?thesis by (simp add: stream_sequences_def image_image)
qed

lemma Max_stream:
  "l \<noteq> [] \<Longrightarrow> Max ((\<lambda>n. start + n) ` {..<length l}) = start + (length l - 1)"
  by (intro Max_eqI) auto

text \<open>The latest rows of the stored streams are their last events.\<close>

lemma set_latest_store:
  assumes "distinct (map fst streams)"
  shows "set (latest_rows (store_rows start agg ety streams) agg) =
    {stored_row start agg ety i l (length l - 1) | i l. (i, l) \<in> set streams \<and> l \<noteq> []}"
proof -
  have "start + n = Max (set (stream_sequences (store_rows start agg ety streams) agg i)) \<longleftrightarrow>
      n = length l - 1" if "(i, l) \<in> set streams" "n < length l" for i l n
    using that by (subst stream_sequences_store [OF assms that(1)], subst Max_stream) auto
  note last = this
  show ?thesis (is "?L = ?R")
  proof (rule set_eqI, rule iffI)
    fix r assume "r \<in> ?L"
    then have "r \<in> set (store_rows start agg ety streams)" and
        mx: "er_sequence r = Max (set (stream_sequences (store_rows start agg ety streams) agg
          (er_aggregate_id r)))"
      by (simp_all add: latest_rows_def)
    from this(1) obtain i l n where il: "(i, l) \<in> set streams" "n < length l"
        and r: "r = stored_row start agg ety i l n"
      by (rule store_rowsE)
    with mx last [OF il] have "n = length l - 1" by simp
    moreover from il have "l \<noteq> []" by auto
    ultimately show "r \<in> ?R" using il r by blast
  next
    fix r assume "r \<in> ?R"
    then obtain i l where "(i, l) \<in> set streams" "l \<noteq> []" "r = stored_row start agg ety i l (length l - 1)"
      by blast
    moreover from this(2) have n: "length l - 1 < length l" by simp
    moreover from calculation have "r \<in> set (store_rows start agg ety streams)"
      unfolding set_store_rows by blast
    ultimately show "r \<in> ?L"
      using last [of i l "length l - 1"] by (simp add: latest_rows_def)
  qed
qed

lemma ids_with_last_event_store:
  assumes "distinct (map fst streams)"
  shows "set (ids_with_last_event_in (store_rows start agg ety streams) agg types) =
    {i. \<exists>l. (i, l) \<in> set streams \<and> l \<noteq> [] \<and> ety (last l) \<in> set types}"
  by (force simp: ids_with_last_event_in_def set_latest_store [OF assms] last_conv_nth)

text \<open>A row number below the first one the store writes is not found.\<close>

lemma row_at_before_start: "s < start \<Longrightarrow> row_at (store_rows start agg ety streams) agg' i s = None"
  by (auto simp: row_at_def find_None_iff set_store_rows)

lemma row_at_store:
  assumes "distinct (map fst streams)" and "(i, l) \<in> set streams" and "n < length l"
  shows "row_at (store_rows start agg ety streams) agg i (start + n) =
    Some (stored_row start agg ety i l n)"
proof (cases "row_at (store_rows start agg ety streams) agg i (start + n)")
  case None
  with assms(2,3) show ?thesis by (force simp: row_at_def find_None_iff set_store_rows)
next
  case (Some r)
  then have r: "r \<in> set (store_rows start agg ety streams)" "er_aggregate_id r = i"
      "er_sequence r = start + n"
    by (auto simp: row_at_def find_Some_iff)
  then have "r = stored_row start agg ety i l n"
    using distinct_streams_eq [OF assms(1,2)] by (auto simp: set_store_rows)
  with Some show ?thesis by simp
qed

section \<open>Queries over the last event\<close>

text \<open>
  The queries decide by the type of the last event; what they mean to ask is a question about the
  state. The contract: an accepted event's type says whether the state it leads to is of the
  class the query looks for.
\<close>

locale last_event_class =
  fixes originate :: "'ev \<Rightarrow> 's option"
    and evolve :: "'s \<Rightarrow> 'ev \<Rightarrow> 'err + 's option"
    and event_class :: "'ev \<Rightarrow> bool"
    and state_class :: "'s \<Rightarrow> bool"
  assumes originate_class: "originate e = Some s \<Longrightarrow> event_class e \<longleftrightarrow> state_class s"
    and evolve_class: "evolve s e = Inr (Some s') \<Longrightarrow> event_class e \<longleftrightarrow> state_class s'"
begin

lemma replay_Live_class:
  "replay originate evolve (Live s) l = Live s' \<Longrightarrow> l \<noteq> [] \<Longrightarrow> event_class (last l) \<longleftrightarrow> state_class s'"
proof (induction l arbitrary: s)
  case (Cons e l)
  from Cons.prems(1) obtain s1 where s1: "evolve s e = Inr (Some s1)"
    and rest: "replay originate evolve (Live s1) l = Live s'"
    by (rule replay_Live_ConsE)
  show ?case
  proof (cases "l = []")
    case True
    with rest s1 show ?thesis by (auto dest: evolve_class)
  next
    case False
    with Cons.IH [OF rest] show ?thesis by simp
  qed
qed simp

lemma replay_class:
  assumes "replay originate evolve Uninitialized l = Live s"
  shows "l \<noteq> [] \<and> (event_class (last l) \<longleftrightarrow> state_class s)"
proof (cases l)
  case (Cons e es)
  with assms obtain s0 where s0: "originate e = Some s0"
    and rest: "replay originate evolve (Live s0) es = Live s"
    by (auto split: option.splits)
  show ?thesis
  proof (cases "es = []")
    case True
    with Cons s0 rest show ?thesis by (auto dest: originate_class)
  next
    case False
    with Cons replay_Live_class [OF rest] show ?thesis by simp
  qed
qed (use assms in simp)

text \<open>On streams that did not fail, the query finds exactly the streams in a state of the class.\<close>

lemma ids_by_state:
  assumes "distinct (map fst streams)"
    and alive: "\<And>i l. (i, l) \<in> set streams \<Longrightarrow> replay originate evolve Uninitialized l \<noteq> FailedLifecycle"
    and types: "\<And>e. ety e \<in> set types \<longleftrightarrow> event_class e"
  shows "set (ids_with_last_event_in (store_rows start agg ety streams) agg types) =
    {i. \<exists>l s. (i, l) \<in> set streams \<and> replay originate evolve Uninitialized l = Live s \<and> state_class s}"
proof -
  have "l \<noteq> [] \<and> event_class (last l) \<longleftrightarrow>
      (\<exists>s. replay originate evolve Uninitialized l = Live s \<and> state_class s)"
    if "(i, l) \<in> set streams" for i l
  proof (cases "replay originate evolve Uninitialized l")
    case Uninitialized
    then show ?thesis by (simp add: replay_Uninitialized_Nil)
  next
    case (Live s)
    with replay_class [OF Live] show ?thesis by simp
  qed (use alive [OF that] in simp)
  then show ?thesis by (simp add: ids_with_last_event_store [OF assms(1)] types) blast
qed

end

section \<open>One table for all aggregates\<close>

text \<open>
  The queries read four columns of the rows of one aggregate type; the payload and the other
  aggregates' rows do not matter. \<open>table_holds\<close> says that a table holds the streams of one
  aggregate among others, whatever its payload column contains.
\<close>

definition row_key :: "'p event_row \<Rightarrow> string \<times> string \<times> nat \<times> string" where
  "row_key r = (er_aggregate_type r, er_aggregate_id r, er_sequence r, er_event_type r)"

definition keys_of :: "'p event_row list \<Rightarrow> string \<Rightarrow> (string \<times> string \<times> nat \<times> string) list" where
  "keys_of rows agg = map row_key (filter (\<lambda>r. er_aggregate_type r = agg) rows)"

definition table_holds ::
  "'p event_row list \<Rightarrow> nat \<Rightarrow> string \<Rightarrow> ('ev \<Rightarrow> string) \<Rightarrow> (string \<times> 'ev list) list \<Rightarrow> bool" where
  "table_holds rows start agg event_type streams \<longleftrightarrow>
     keys_of rows agg = keys_of (store_rows start agg event_type streams) agg"

lemma stream_sequences_keys:
  "stream_sequences rows agg i = map (fst \<circ> snd \<circ> snd) (filter (\<lambda>k. fst (snd k) = i) (keys_of rows agg))"
  by (simp add: stream_sequences_def keys_of_def filter_map o_def row_key_def conj_commute)

lemma ids_with_last_event_keys:
  "ids_with_last_event_in rows agg types = sort (map (fst \<circ> snd) (filter
     (\<lambda>k. snd (snd (snd k)) \<in> set types \<and> fst (snd (snd k)) = Max (set (map (fst \<circ> snd \<circ> snd)
        (filter (\<lambda>k'. fst (snd k') = fst (snd k)) (keys_of rows agg))))) (keys_of rows agg)))"
proof -
  have "map er_aggregate_id (filter (\<lambda>r. er_event_type r \<in> set types \<and> er_aggregate_type r = agg \<and>
        er_sequence r = Max (set (stream_sequences rows agg (er_aggregate_id r)))) rows) =
      map (fst \<circ> snd \<circ> row_key) (filter (\<lambda>r. snd (snd (snd (row_key r))) \<in> set types \<and>
        fst (snd (snd (row_key r))) = Max (set (stream_sequences rows agg (fst (snd (row_key r))))))
        (filter (\<lambda>r. er_aggregate_type r = agg) rows))"
    by (simp add: row_key_def o_def conj_ac)
  then show ?thesis
    by (simp add: ids_with_last_event_in_def latest_rows_def keys_of_def [of rows agg] filter_map
        o_def stream_sequences_keys conj_ac)
qed

lemma table_holds_ids:
  "table_holds rows start agg ety streams \<Longrightarrow>
   ids_with_last_event_in rows agg types = ids_with_last_event_in (store_rows start agg ety streams) agg types"
  by (simp add: table_holds_def ids_with_last_event_keys)

end
