(* ===== verification/TokenizedEquityMint.thy ===== *)
theory TokenizedEquityMint
  imports Tokenization Event_Table
begin

text \<open>
  The \<^verbatim>\<open>TokenizedEquityMint\<close> aggregate of \<^verbatim>\<open>src/tokenized_equity_mint.rs\<close>: one mint from
  the request at the provider through the receipt of the tokens, their wrapping and the vault
  deposit, with its failure, recovery and reconciliation paths, and the startup query for
  interrupted mints. The tokenizer is a parameter: the record of its answers. The
  \<^verbatim>\<open>*At\<close> commands of the test build are not modelled.
\<close>

section \<open>Errors, commands, events, states\<close>

datatype 'f tokenized_equity_mint_error =
    NotInitialized
  | AlreadyInProgress
  | TokensNotWrapped
  | NotAccepted
  | TokensNotReceivedForWrap
  | AlreadyCompleted
  | AlreadyFailed
  | NotFailed
  | AlreadyReconciled
  | ReconcileReasonRequired
  | RequestFailed string
  | MissingTxHash
  | TokenSymbolMismatch symbol string
  | MissingTokenSymbol symbol
  | NegativeQuantity 'f
  | MintFloat string
  | VaultLookupFailed symbol
  | VaultDepositFailed

fun mint_error_from_float :: "float_error \<Rightarrow> 'f tokenized_equity_mint_error" where
  "mint_error_from_float (FloatError error) = MintFloat error"

datatype 'f tokenized_equity_mint_command =
    RequestMint issuer_request_id symbol 'f address
  | Poll
  | SubmitWrap tx_hash
  | SubmitVaultDeposit tx_hash
  | WrapTokens tx_hash u256 u64
  | DepositToVault tx_hash
  | FailAcceptance string
  | FailWrapping string
  | FailRaindexDeposit string
  | RecoverProviderCompletion issuer_request_id address tokenization_request_id tx_hash "'f option"
  | Reconcile string

datatype 'f tokenized_equity_mint_event =
    MintRequested symbol 'f address timestamp
  | MintRejected string timestamp
  | MintAccepted issuer_request_id tokenization_request_id timestamp
  | MintAcceptanceFailed string timestamp
  | TokensReceived tx_hash u256 "'f option" timestamp
  | WrapSubmitted tx_hash timestamp
  | TokensWrapped tx_hash u256 timestamp "u64 option"
  | WrappingFailed symbol 'f "string option" timestamp
  | VaultDepositSubmitted tx_hash timestamp
  | DepositedIntoRaindex tx_hash timestamp
  | RaindexDepositFailed string timestamp
  | ProviderCompletionRecovered issuer_request_id address tokenization_request_id tx_hash u256
      "'f option" timestamp
  | OperatorReconciled string timestamp

text \<open>
  Fields in the order of the source, e.g. \<open>TokensReceived symbol quantity wallet
  issuer_request_id tokenization_request_id tx_hash shares_minted fees requested_at accepted_at
  received_at\<close>.
\<close>

datatype 'f tokenized_equity_mint =
    MintRequested symbol 'f address timestamp
  | MintAccepted symbol 'f address issuer_request_id tokenization_request_id timestamp timestamp
  | TokensReceived symbol 'f address issuer_request_id tokenization_request_id tx_hash u256
      "'f option" timestamp timestamp timestamp
  | WrapSubmitted symbol 'f address issuer_request_id tokenization_request_id tx_hash u256
      "'f option" timestamp timestamp timestamp tx_hash
  | TokensWrapped symbol 'f address issuer_request_id tokenization_request_id tx_hash u256
      tx_hash u256 "u64 option" timestamp timestamp timestamp timestamp
  | VaultDepositSubmitted symbol 'f address issuer_request_id tokenization_request_id tx_hash u256
      tx_hash u256 timestamp timestamp timestamp timestamp tx_hash
  | DepositedIntoRaindex symbol 'f issuer_request_id tokenization_request_id tx_hash tx_hash tx_hash
      timestamp timestamp
  | Failed symbol 'f string timestamp timestamp
  | Reconciled symbol 'f string string timestamp timestamp

fun mint_event_type :: "'f tokenized_equity_mint_event \<Rightarrow> string" where
  "mint_event_type (tokenized_equity_mint_event.MintRequested _ _ _ _) =
     ''TokenizedEquityMintEvent::MintRequested''"
| "mint_event_type (MintRejected _ _) = ''TokenizedEquityMintEvent::MintRejected''"
| "mint_event_type (tokenized_equity_mint_event.MintAccepted _ _ _) =
     ''TokenizedEquityMintEvent::MintAccepted''"
| "mint_event_type (MintAcceptanceFailed _ _) = ''TokenizedEquityMintEvent::MintAcceptanceFailed''"
| "mint_event_type (tokenized_equity_mint_event.TokensReceived _ _ _ _) =
     ''TokenizedEquityMintEvent::TokensReceived''"
| "mint_event_type (tokenized_equity_mint_event.WrapSubmitted _ _) =
     ''TokenizedEquityMintEvent::WrapSubmitted''"
| "mint_event_type (tokenized_equity_mint_event.TokensWrapped _ _ _ _) =
     ''TokenizedEquityMintEvent::TokensWrapped''"
| "mint_event_type (tokenized_equity_mint_event.VaultDepositSubmitted _ _) =
     ''TokenizedEquityMintEvent::VaultDepositSubmitted''"
| "mint_event_type (WrappingFailed _ _ _ _) = ''TokenizedEquityMintEvent::WrappingFailed''"
| "mint_event_type (tokenized_equity_mint_event.DepositedIntoRaindex _ _) =
     ''TokenizedEquityMintEvent::DepositedIntoRaindex''"
| "mint_event_type (RaindexDepositFailed _ _) = ''TokenizedEquityMintEvent::RaindexDepositFailed''"
| "mint_event_type (ProviderCompletionRecovered _ _ _ _ _ _ _) =
     ''TokenizedEquityMintEvent::ProviderCompletionRecovered''"
| "mint_event_type (OperatorReconciled _ _) = ''TokenizedEquityMintEvent::OperatorReconciled''"

section \<open>Accessors\<close>

fun mint_quantity :: "'f tokenized_equity_mint \<Rightarrow> 'f" where
  "mint_quantity (tokenized_equity_mint.MintRequested _ quantity _ _) = quantity"
| "mint_quantity (tokenized_equity_mint.MintAccepted _ quantity _ _ _ _ _) = quantity"
| "mint_quantity (tokenized_equity_mint.TokensReceived _ quantity _ _ _ _ _ _ _ _ _) = quantity"
| "mint_quantity (tokenized_equity_mint.WrapSubmitted _ quantity _ _ _ _ _ _ _ _ _ _) = quantity"
| "mint_quantity (tokenized_equity_mint.TokensWrapped _ quantity _ _ _ _ _ _ _ _ _ _ _ _) = quantity"
| "mint_quantity (tokenized_equity_mint.VaultDepositSubmitted _ quantity _ _ _ _ _ _ _ _ _ _ _ _) = quantity"
| "mint_quantity (tokenized_equity_mint.DepositedIntoRaindex _ quantity _ _ _ _ _ _ _) = quantity"
| "mint_quantity (Failed _ quantity _ _ _) = quantity"
| "mint_quantity (Reconciled _ quantity _ _ _ _) = quantity"

fun mint_is_terminal :: "'f tokenized_equity_mint \<Rightarrow> bool" where
  "mint_is_terminal (tokenized_equity_mint.DepositedIntoRaindex _ _ _ _ _ _ _ _ _) = True"
| "mint_is_terminal (Failed _ _ _ _ _) = True"
| "mint_is_terminal (Reconciled _ _ _ _ _ _) = True"
| "mint_is_terminal _ = False"

section \<open>Dashboard status\<close>

datatype equity_mint_status =
    Minting
  | Wrapping
  | Depositing
  | Completed timestamp
  | Failed timestamp
  | Reconciled timestamp string string

record 'f equity_mint_operation =
  emo_id :: string
  emo_symbol :: symbol
  emo_quantity :: "'f fractional_shares"
  emo_status :: equity_mint_status
  emo_started_at :: timestamp
  emo_updated_at :: timestamp

text \<open>\<open>uuid_str\<close> is the \<^verbatim>\<open>Display\<close> of the \<^verbatim>\<open>uuid\<close> crate.\<close>

fun mint_to_dto ::
  "(uuid \<Rightarrow> string) \<Rightarrow> 'f tokenized_equity_mint \<Rightarrow> issuer_request_id \<Rightarrow> 'f equity_mint_operation" where
  "mint_to_dto uuid_str m (IssuerRequestId issuer_request_id) = (case m of
     tokenized_equity_mint.MintRequested symbol quantity _ requested_at \<Rightarrow>
       \<lparr>emo_id = uuid_str issuer_request_id, emo_symbol = symbol, emo_quantity = FractionalShares quantity,
        emo_status = Minting, emo_started_at = requested_at, emo_updated_at = requested_at\<rparr>
   | tokenized_equity_mint.MintAccepted symbol quantity _ _ _ requested_at accepted_at \<Rightarrow>
       \<lparr>emo_id = uuid_str issuer_request_id, emo_symbol = symbol, emo_quantity = FractionalShares quantity,
        emo_status = Minting, emo_started_at = requested_at, emo_updated_at = accepted_at\<rparr>
   | tokenized_equity_mint.TokensReceived symbol quantity _ _ _ _ _ _ requested_at _ received_at \<Rightarrow>
       \<lparr>emo_id = uuid_str issuer_request_id, emo_symbol = symbol, emo_quantity = FractionalShares quantity,
        emo_status = Wrapping, emo_started_at = requested_at, emo_updated_at = received_at\<rparr>
   | tokenized_equity_mint.WrapSubmitted symbol quantity _ _ _ _ _ _ requested_at _ received_at _ \<Rightarrow>
       \<lparr>emo_id = uuid_str issuer_request_id, emo_symbol = symbol, emo_quantity = FractionalShares quantity,
        emo_status = Wrapping, emo_started_at = requested_at, emo_updated_at = received_at\<rparr>
   | tokenized_equity_mint.TokensWrapped symbol quantity _ _ _ _ _ _ _ _ requested_at _ _ wrapped_at \<Rightarrow>
       \<lparr>emo_id = uuid_str issuer_request_id, emo_symbol = symbol, emo_quantity = FractionalShares quantity,
        emo_status = Depositing, emo_started_at = requested_at, emo_updated_at = wrapped_at\<rparr>
   | tokenized_equity_mint.VaultDepositSubmitted symbol quantity _ _ _ _ _ _ _ requested_at _ _ wrapped_at _ \<Rightarrow>
       \<lparr>emo_id = uuid_str issuer_request_id, emo_symbol = symbol, emo_quantity = FractionalShares quantity,
        emo_status = Depositing, emo_started_at = requested_at, emo_updated_at = wrapped_at\<rparr>
   | tokenized_equity_mint.DepositedIntoRaindex symbol quantity _ _ _ _ _ requested_at deposited_at \<Rightarrow>
       \<lparr>emo_id = uuid_str issuer_request_id, emo_symbol = symbol, emo_quantity = FractionalShares quantity,
        emo_status = Completed deposited_at, emo_started_at = requested_at,
        emo_updated_at = deposited_at\<rparr>
   | tokenized_equity_mint.Failed symbol quantity _ requested_at failed_at \<Rightarrow>
       \<lparr>emo_id = uuid_str issuer_request_id, emo_symbol = symbol, emo_quantity = FractionalShares quantity,
        emo_status = Failed failed_at, emo_started_at = requested_at, emo_updated_at = failed_at\<rparr>
   | tokenized_equity_mint.Reconciled symbol quantity failure_reason reconcile_reason requested_at
       reconciled_at \<Rightarrow>
       \<lparr>emo_id = uuid_str issuer_request_id, emo_symbol = symbol, emo_quantity = FractionalShares quantity,
        emo_status = Reconciled reconciled_at failure_reason reconcile_reason,
        emo_started_at = requested_at, emo_updated_at = reconciled_at\<rparr>)"

fun mint_status_is_terminal :: "equity_mint_status \<Rightarrow> bool" where
  "mint_status_is_terminal (Completed _) = True"
| "mint_status_is_terminal (Failed _) = True"
| "mint_status_is_terminal (Reconciled _ _ _) = True"
| "mint_status_is_terminal _ = False"

section \<open>Event side\<close>

fun mint_originate :: "'f tokenized_equity_mint_event \<Rightarrow> 'f tokenized_equity_mint option" where
  "mint_originate (tokenized_equity_mint_event.MintRequested symbol quantity wallet requested_at) =
     Some (tokenized_equity_mint.MintRequested symbol quantity wallet requested_at)"
| "mint_originate _ = None"

definition wrapping_failed_default :: string where
  "wrapping_failed_default = ''ERC-4626 wrapping failed''"

fun mint_evolve ::
  "'f tokenized_equity_mint \<Rightarrow> 'f tokenized_equity_mint_event \<Rightarrow>
   'f tokenized_equity_mint_error + 'f tokenized_equity_mint option" where
  "mint_evolve entity (tokenized_equity_mint_event.MintRequested _ _ _ _) = Inr None"
| "mint_evolve entity (WrappingFailed symbol quantity reason failed_at) = Inr (case entity of
     tokenized_equity_mint.TokensReceived _ _ _ _ _ _ _ _ requested_at _ _ \<Rightarrow>
       Some (tokenized_equity_mint.Failed symbol quantity
         (case reason of Some r \<Rightarrow> r | None \<Rightarrow> wrapping_failed_default) requested_at failed_at)
   | tokenized_equity_mint.WrapSubmitted _ _ _ _ _ _ _ _ requested_at _ _ _ \<Rightarrow>
       Some (tokenized_equity_mint.Failed symbol quantity
         (case reason of Some r \<Rightarrow> r | None \<Rightarrow> wrapping_failed_default) requested_at failed_at)
   | _ \<Rightarrow> None)"
| "mint_evolve entity (MintRejected reason rejected_at) = Inr (case entity of
     tokenized_equity_mint.MintRequested symbol quantity _ requested_at \<Rightarrow>
       Some (tokenized_equity_mint.Failed symbol quantity reason requested_at rejected_at)
   | _ \<Rightarrow> None)"
| "mint_evolve entity (tokenized_equity_mint_event.MintAccepted issuer_request_id
       tokenization_request_id accepted_at) = Inr (case entity of
     tokenized_equity_mint.MintRequested symbol quantity wallet requested_at \<Rightarrow>
       Some (tokenized_equity_mint.MintAccepted symbol quantity wallet issuer_request_id
         tokenization_request_id requested_at accepted_at)
   | _ \<Rightarrow> None)"
| "mint_evolve entity (MintAcceptanceFailed reason failed_at) = Inr (case entity of
     tokenized_equity_mint.MintAccepted symbol quantity _ _ _ requested_at _ \<Rightarrow>
       Some (tokenized_equity_mint.Failed symbol quantity reason requested_at failed_at)
   | tokenized_equity_mint.MintRequested symbol quantity _ requested_at \<Rightarrow>
       Some (tokenized_equity_mint.Failed symbol quantity reason requested_at failed_at)
   | _ \<Rightarrow> None)"
| "mint_evolve entity (tokenized_equity_mint_event.TokensReceived tx_hash shares_minted fees
       received_at) = Inr (case entity of
     tokenized_equity_mint.MintAccepted symbol quantity wallet issuer_request_id
         tokenization_request_id requested_at accepted_at \<Rightarrow>
       Some (tokenized_equity_mint.TokensReceived symbol quantity wallet issuer_request_id
         tokenization_request_id tx_hash shares_minted fees requested_at accepted_at received_at)
   | _ \<Rightarrow> None)"
| "mint_evolve entity (ProviderCompletionRecovered issuer_request_id wallet tokenization_request_id
       tx_hash shares_minted fees recovered_at) = Inr (case entity of
     tokenized_equity_mint.Failed symbol quantity _ requested_at _ \<Rightarrow>
       Some (tokenized_equity_mint.TokensReceived symbol quantity wallet issuer_request_id
         tokenization_request_id tx_hash shares_minted fees requested_at recovered_at recovered_at)
   | _ \<Rightarrow> None)"
| "mint_evolve entity (tokenized_equity_mint_event.WrapSubmitted wrap_tx_hash _) = Inr (case entity of
     tokenized_equity_mint.TokensReceived symbol quantity wallet issuer_request_id
         tokenization_request_id tx_hash shares_minted fees requested_at accepted_at received_at \<Rightarrow>
       Some (tokenized_equity_mint.WrapSubmitted symbol quantity wallet issuer_request_id
         tokenization_request_id tx_hash shares_minted fees requested_at accepted_at received_at
         wrap_tx_hash)
   | _ \<Rightarrow> None)"
| "mint_evolve entity (tokenized_equity_mint_event.TokensWrapped wrap_tx_hash wrapped_shares wrapped_at
       wrap_block) = Inr (case entity of
     tokenized_equity_mint.TokensReceived symbol quantity wallet issuer_request_id
         tokenization_request_id tx_hash shares_minted _ requested_at accepted_at received_at \<Rightarrow>
       Some (tokenized_equity_mint.TokensWrapped symbol quantity wallet issuer_request_id
         tokenization_request_id tx_hash shares_minted wrap_tx_hash wrapped_shares wrap_block
         requested_at accepted_at received_at wrapped_at)
   | tokenized_equity_mint.WrapSubmitted symbol quantity wallet issuer_request_id
         tokenization_request_id tx_hash shares_minted _ requested_at accepted_at received_at _ \<Rightarrow>
       Some (tokenized_equity_mint.TokensWrapped symbol quantity wallet issuer_request_id
         tokenization_request_id tx_hash shares_minted wrap_tx_hash wrapped_shares wrap_block
         requested_at accepted_at received_at wrapped_at)
   | _ \<Rightarrow> None)"
| "mint_evolve entity (tokenized_equity_mint_event.VaultDepositSubmitted vault_deposit_tx_hash _) =
     Inr (case entity of
     tokenized_equity_mint.TokensWrapped symbol quantity wallet issuer_request_id
         tokenization_request_id tx_hash shares_minted wrap_tx_hash wrapped_shares _ requested_at
         accepted_at received_at wrapped_at \<Rightarrow>
       Some (tokenized_equity_mint.VaultDepositSubmitted symbol quantity wallet issuer_request_id
         tokenization_request_id tx_hash shares_minted wrap_tx_hash wrapped_shares requested_at
         accepted_at received_at wrapped_at vault_deposit_tx_hash)
   | _ \<Rightarrow> None)"
| "mint_evolve entity (tokenized_equity_mint_event.DepositedIntoRaindex vault_deposit_tx_hash
       deposited_at) = Inr (case entity of
     tokenized_equity_mint.TokensWrapped symbol quantity _ issuer_request_id tokenization_request_id
         tx_hash _ wrap_tx_hash _ _ requested_at _ _ _ \<Rightarrow>
       Some (tokenized_equity_mint.DepositedIntoRaindex symbol quantity issuer_request_id
         tokenization_request_id tx_hash wrap_tx_hash vault_deposit_tx_hash requested_at deposited_at)
   | tokenized_equity_mint.VaultDepositSubmitted symbol quantity _ issuer_request_id
         tokenization_request_id tx_hash _ wrap_tx_hash _ requested_at _ _ _ _ \<Rightarrow>
       Some (tokenized_equity_mint.DepositedIntoRaindex symbol quantity issuer_request_id
         tokenization_request_id tx_hash wrap_tx_hash vault_deposit_tx_hash requested_at deposited_at)
   | _ \<Rightarrow> None)"
| "mint_evolve entity (RaindexDepositFailed reason failed_at) = Inr (case entity of
     tokenized_equity_mint.TokensWrapped symbol quantity _ _ _ _ _ _ _ _ requested_at _ _ _ \<Rightarrow>
       Some (tokenized_equity_mint.Failed symbol quantity reason requested_at failed_at)
   | tokenized_equity_mint.VaultDepositSubmitted symbol quantity _ _ _ _ _ _ _ requested_at _ _ _ _ \<Rightarrow>
       Some (tokenized_equity_mint.Failed symbol quantity reason requested_at failed_at)
   | _ \<Rightarrow> None)"
| "mint_evolve entity (OperatorReconciled reason reconciled_at) = Inr (case entity of
     tokenized_equity_mint.Failed symbol quantity failure_reason requested_at _ \<Rightarrow>
       Some (tokenized_equity_mint.Reconciled symbol quantity failure_reason reason requested_at
         reconciled_at)
   | _ \<Rightarrow> None)"

section \<open>Command side\<close>

text \<open>
  What the aggregate asks of the tokenizer: the answers, errors rendered as text. A handler also
  reads the clock, \<open>now\<close>.
\<close>

record 'f tokenizer =
  tk_request_mint :: "symbol \<Rightarrow> 'f fractional_shares \<Rightarrow> address \<Rightarrow> issuer_request_id \<Rightarrow>
    string + 'f tokenization_request"
  tk_poll_mint_until_complete :: "tokenization_request_id \<Rightarrow> string + 'f tokenization_request"

definition TOKENIZED_EQUITY_DECIMALS :: nat where
  "TOKENIZED_EQUITY_DECIMALS = 18"

definition quantity_to_u256_18_decimals ::
  "'f float_ops \<Rightarrow> 'f \<Rightarrow> 'f tokenized_equity_mint_error + u256" where
  "quantity_to_u256_18_decimals F value =
     tryr (map_err mint_error_from_float (fl_zero F)) (\<lambda>zero.
     tryr (map_err mint_error_from_float (fl_lt F value zero)) (\<lambda>negative.
     if negative then Inl (NegativeQuantity value)
     else map_err mint_error_from_float (fl_to_fixed_decimal F value TOKENIZED_EQUITY_DECIMALS)))"

fun mint_initialize ::
  "'f float_ops \<Rightarrow> 'f tokenizer \<times> timestamp \<Rightarrow> 'f tokenized_equity_mint_command \<Rightarrow>
   'f tokenized_equity_mint_error + 'f tokenized_equity_mint_event list" where
  "mint_initialize F (tokenizer, now) (RequestMint issuer_request_id symbol quantity wallet) =
     tryr (map_err mint_error_from_float (fl_zero F)) (\<lambda>zero.
     tryr (map_err mint_error_from_float (fl_lt F quantity zero)) (\<lambda>negative.
     if negative then Inl (NegativeQuantity quantity) else
     (let mint_requested = tokenized_equity_mint_event.MintRequested symbol quantity wallet now in
      case tk_request_mint tokenizer symbol (FractionalShares quantity) wallet issuer_request_id of
        Inl error \<Rightarrow> Inl (RequestFailed error)
      | Inr alpaca_request \<Rightarrow>
          if tr_status alpaca_request = Rejected
          then Inr [mint_requested, MintRejected ''Rejected by Alpaca'' now]
          else Inr [mint_requested, tokenized_equity_mint_event.MintAccepted issuer_request_id
                 (tr_id alpaca_request) now])))"
| "mint_initialize F sv _ = Inl NotInitialized"

fun transition_wrap_tokens ::
  "'f tokenized_equity_mint \<Rightarrow> tx_hash \<Rightarrow> u256 \<Rightarrow> u64 \<Rightarrow> timestamp \<Rightarrow>
   'f tokenized_equity_mint_error + 'f tokenized_equity_mint_event list" where
  "transition_wrap_tokens m wrap_tx_hash wrapped_shares wrap_block wrapped_at = (case m of
     tokenized_equity_mint.TokensReceived _ _ _ _ _ _ _ _ _ _ _ \<Rightarrow>
       Inr [tokenized_equity_mint_event.TokensWrapped wrap_tx_hash wrapped_shares wrapped_at (Some wrap_block)]
   | tokenized_equity_mint.WrapSubmitted _ _ _ _ _ _ _ _ _ _ _ _ \<Rightarrow>
       Inr [tokenized_equity_mint_event.TokensWrapped wrap_tx_hash wrapped_shares wrapped_at (Some wrap_block)]
   | tokenized_equity_mint.MintRequested _ _ _ _ \<Rightarrow> Inl TokensNotReceivedForWrap
   | tokenized_equity_mint.MintAccepted _ _ _ _ _ _ _ \<Rightarrow> Inl TokensNotReceivedForWrap
   | tokenized_equity_mint.TokensWrapped _ _ _ _ _ _ _ _ _ _ _ _ _ _ \<Rightarrow> Inl AlreadyCompleted
   | tokenized_equity_mint.VaultDepositSubmitted _ _ _ _ _ _ _ _ _ _ _ _ _ _ \<Rightarrow> Inl AlreadyCompleted
   | tokenized_equity_mint.DepositedIntoRaindex _ _ _ _ _ _ _ _ _ \<Rightarrow> Inl AlreadyCompleted
   | tokenized_equity_mint.Failed _ _ _ _ _ \<Rightarrow> Inl AlreadyFailed
   | tokenized_equity_mint.Reconciled _ _ _ _ _ _ \<Rightarrow> Inl AlreadyReconciled)"

fun transition_deposit_to_vault ::
  "'f tokenized_equity_mint \<Rightarrow> tx_hash \<Rightarrow> timestamp \<Rightarrow>
   'f tokenized_equity_mint_error + 'f tokenized_equity_mint_event list" where
  "transition_deposit_to_vault m vault_deposit_tx_hash deposited_at = (case m of
     tokenized_equity_mint.TokensWrapped _ _ _ _ _ _ _ _ _ _ _ _ _ _ \<Rightarrow>
       Inr [tokenized_equity_mint_event.DepositedIntoRaindex vault_deposit_tx_hash deposited_at]
   | tokenized_equity_mint.VaultDepositSubmitted _ _ _ _ _ _ _ _ _ _ _ _ _ _ \<Rightarrow>
       Inr [tokenized_equity_mint_event.DepositedIntoRaindex vault_deposit_tx_hash deposited_at]
   | tokenized_equity_mint.DepositedIntoRaindex _ _ _ _ _ _ _ _ _ \<Rightarrow> Inl AlreadyCompleted
   | tokenized_equity_mint.Failed _ _ _ _ _ \<Rightarrow> Inl AlreadyFailed
   | tokenized_equity_mint.Reconciled _ _ _ _ _ _ \<Rightarrow> Inl AlreadyReconciled
   | _ \<Rightarrow> Inl TokensNotWrapped)"

definition completed_mint_events ::
  "'f float_ops \<Rightarrow> timestamp \<Rightarrow> symbol \<Rightarrow> 'f \<Rightarrow> 'f tokenization_request \<Rightarrow>
   'f tokenized_equity_mint_error + 'f tokenized_equity_mint_event list" where
  "completed_mint_events F now symbol quantity completed =
     tryr (ok_or MissingTxHash (tr_tx_hash completed)) (\<lambda>tx_hash.
     tryr (case tr_token_symbol completed of
             Some actual \<Rightarrow> if actual = ''t'' @ symbol then Inr ()
               else Inl (TokenSymbolMismatch symbol actual)
           | None \<Rightarrow> Inl (MissingTokenSymbol symbol)) (\<lambda>_.
     tryr (quantity_to_u256_18_decimals F quantity) (\<lambda>shares_minted.
     Inr [tokenized_equity_mint_event.TokensReceived tx_hash shares_minted (tr_fees completed) now])))"

fun transition_poll ::
  "'f float_ops \<Rightarrow> 'f tokenizer \<times> timestamp \<Rightarrow> 'f tokenized_equity_mint \<Rightarrow>
   'f tokenized_equity_mint_error + 'f tokenized_equity_mint_event list" where
  "transition_poll F (tokenizer, now) m = (case m of
     tokenized_equity_mint.MintAccepted symbol quantity _ _ tokenization_request_id _ _ \<Rightarrow>
       (case tk_poll_mint_until_complete tokenizer tokenization_request_id of
          Inl error \<Rightarrow> Inr [MintAcceptanceFailed (''Polling failed: '' @ error) now]
        | Inr completed \<Rightarrow> (case tr_status completed of
            tokenization_request_status.Completed \<Rightarrow> completed_mint_events F now symbol quantity completed
          | tokenization_request_status.Rejected \<Rightarrow>
              Inr [MintAcceptanceFailed ''Rejected by Alpaca after acceptance'' now]
          | tokenization_request_status.Pending \<Rightarrow>
              Inr [MintAcceptanceFailed ''Unexpected Pending status after polling'' now]))
   | tokenized_equity_mint.MintRequested _ _ _ _ \<Rightarrow> Inl NotAccepted
   | tokenized_equity_mint.Failed _ _ _ _ _ \<Rightarrow> Inl AlreadyFailed
   | tokenized_equity_mint.Reconciled _ _ _ _ _ _ \<Rightarrow> Inl AlreadyReconciled
   | _ \<Rightarrow> Inl AlreadyCompleted)"

fun mint_transition ::
  "'f float_ops \<Rightarrow> 'f tokenizer \<times> timestamp \<Rightarrow> 'f tokenized_equity_mint \<Rightarrow>
   'f tokenized_equity_mint_command \<Rightarrow>
   'f tokenized_equity_mint_error + 'f tokenized_equity_mint_event list" where
  "mint_transition F sv m (RequestMint _ _ _ _) = Inl AlreadyInProgress"
| "mint_transition F sv m Poll = transition_poll F sv m"
| "mint_transition F sv m (SubmitWrap wrap_tx_hash) = (case m of
     tokenized_equity_mint.TokensReceived _ _ _ _ _ _ _ _ _ _ _ \<Rightarrow>
       Inr [tokenized_equity_mint_event.WrapSubmitted wrap_tx_hash (snd sv)]
   | tokenized_equity_mint.MintRequested _ _ _ _ \<Rightarrow> Inl TokensNotReceivedForWrap
   | tokenized_equity_mint.MintAccepted _ _ _ _ _ _ _ \<Rightarrow> Inl TokensNotReceivedForWrap
   | tokenized_equity_mint.Failed _ _ _ _ _ \<Rightarrow> Inl AlreadyFailed
   | tokenized_equity_mint.Reconciled _ _ _ _ _ _ \<Rightarrow> Inl AlreadyReconciled
   | _ \<Rightarrow> Inl AlreadyCompleted)"
| "mint_transition F sv m (SubmitVaultDeposit vault_deposit_tx_hash) = (case m of
     tokenized_equity_mint.TokensWrapped _ _ _ _ _ _ _ _ _ _ _ _ _ _ \<Rightarrow>
       Inr [tokenized_equity_mint_event.VaultDepositSubmitted vault_deposit_tx_hash (snd sv)]
   | tokenized_equity_mint.VaultDepositSubmitted _ _ _ _ _ _ _ _ _ _ _ _ _ _ \<Rightarrow> Inl AlreadyCompleted
   | tokenized_equity_mint.DepositedIntoRaindex _ _ _ _ _ _ _ _ _ \<Rightarrow> Inl AlreadyCompleted
   | tokenized_equity_mint.Failed _ _ _ _ _ \<Rightarrow> Inl AlreadyFailed
   | tokenized_equity_mint.Reconciled _ _ _ _ _ _ \<Rightarrow> Inl AlreadyReconciled
   | _ \<Rightarrow> Inl TokensNotWrapped)"
| "mint_transition F sv m (WrapTokens wrap_tx_hash wrapped_shares wrap_block) =
     transition_wrap_tokens m wrap_tx_hash wrapped_shares wrap_block (snd sv)"
| "mint_transition F sv m (DepositToVault vault_deposit_tx_hash) =
     transition_deposit_to_vault m vault_deposit_tx_hash (snd sv)"
| "mint_transition F sv m (FailAcceptance reason) = (case m of
     tokenized_equity_mint.MintRequested _ _ _ _ \<Rightarrow> Inr [MintAcceptanceFailed reason (snd sv)]
   | tokenized_equity_mint.MintAccepted _ _ _ _ _ _ _ \<Rightarrow> Inr [MintAcceptanceFailed reason (snd sv)]
   | tokenized_equity_mint.DepositedIntoRaindex _ _ _ _ _ _ _ _ _ \<Rightarrow> Inl AlreadyCompleted
   | tokenized_equity_mint.Failed _ _ _ _ _ \<Rightarrow> Inl AlreadyFailed
   | tokenized_equity_mint.Reconciled _ _ _ _ _ _ \<Rightarrow> Inl AlreadyReconciled
   | _ \<Rightarrow> Inl AlreadyInProgress)"
| "mint_transition F sv m (FailWrapping reason) = (case m of
     tokenized_equity_mint.TokensReceived symbol quantity _ _ _ _ _ _ _ _ _ \<Rightarrow>
       Inr [WrappingFailed symbol quantity (Some reason) (snd sv)]
   | tokenized_equity_mint.WrapSubmitted symbol quantity _ _ _ _ _ _ _ _ _ _ \<Rightarrow>
       Inr [WrappingFailed symbol quantity (Some reason) (snd sv)]
   | tokenized_equity_mint.DepositedIntoRaindex _ _ _ _ _ _ _ _ _ \<Rightarrow> Inl AlreadyCompleted
   | tokenized_equity_mint.Failed _ _ _ _ _ \<Rightarrow> Inl AlreadyFailed
   | tokenized_equity_mint.Reconciled _ _ _ _ _ _ \<Rightarrow> Inl AlreadyReconciled
   | _ \<Rightarrow> Inl AlreadyInProgress)"
| "mint_transition F sv m (FailRaindexDeposit reason) = (case m of
     tokenized_equity_mint.TokensWrapped _ _ _ _ _ _ _ _ _ _ _ _ _ _ \<Rightarrow>
       Inr [RaindexDepositFailed reason (snd sv)]
   | tokenized_equity_mint.VaultDepositSubmitted _ _ _ _ _ _ _ _ _ _ _ _ _ _ \<Rightarrow>
       Inr [RaindexDepositFailed reason (snd sv)]
   | tokenized_equity_mint.DepositedIntoRaindex _ _ _ _ _ _ _ _ _ \<Rightarrow> Inl AlreadyCompleted
   | tokenized_equity_mint.Failed _ _ _ _ _ \<Rightarrow> Inl AlreadyFailed
   | tokenized_equity_mint.Reconciled _ _ _ _ _ _ \<Rightarrow> Inl AlreadyReconciled
   | _ \<Rightarrow> Inl AlreadyInProgress)"
| "mint_transition F sv m (RecoverProviderCompletion issuer_request_id wallet tokenization_request_id
       tx_hash fees) = (case m of
     tokenized_equity_mint.Failed _ quantity _ _ _ \<Rightarrow>
       tryr (quantity_to_u256_18_decimals F quantity) (\<lambda>shares_minted.
       Inr [ProviderCompletionRecovered issuer_request_id wallet tokenization_request_id tx_hash
              shares_minted fees (snd sv)])
   | tokenized_equity_mint.Reconciled _ _ _ _ _ _ \<Rightarrow> Inl AlreadyReconciled
   | tokenized_equity_mint.DepositedIntoRaindex _ _ _ _ _ _ _ _ _ \<Rightarrow> Inl AlreadyCompleted
   | _ \<Rightarrow> Inl AlreadyInProgress)"
| "mint_transition F sv m (Reconcile reason) = (case m of
     tokenized_equity_mint.Failed _ _ _ _ _ \<Rightarrow>
       if trim_is_empty reason then Inl ReconcileReasonRequired
       else Inr [OperatorReconciled reason (snd sv)]
   | tokenized_equity_mint.Reconciled _ _ _ _ _ _ \<Rightarrow> Inl AlreadyReconciled
   | _ \<Rightarrow> Inl NotFailed)"

section \<open>Interrupted mints\<close>

definition interrupted_mint_event_types :: "string list" where
  "interrupted_mint_event_types = [
     ''TokenizedEquityMintEvent::MintAccepted'',
     ''TokenizedEquityMintEvent::ProviderCompletionRecovered'',
     ''TokenizedEquityMintEvent::TokensReceived'',
     ''TokenizedEquityMintEvent::WrapSubmitted'',
     ''TokenizedEquityMintEvent::TokensWrapped'',
     ''TokenizedEquityMintEvent::VaultDepositSubmitted'']"

fun collect_results :: "('e + 'a) list \<Rightarrow> 'e + 'a list" where
  "collect_results [] = Inr []"
| "collect_results (r # rs) = tryr r (\<lambda>x. map_ok (Cons x) (collect_results rs))"

text \<open>\<open>parse_id\<close> is \<^verbatim>\<open>Uuid::parse_str\<close>.\<close>

definition interrupted_mint_ids ::
  "(string \<Rightarrow> string + uuid) \<Rightarrow> 'p event_row list \<Rightarrow> string + issuer_request_id list" where
  "interrupted_mint_ids parse_id rows = collect_results (map (\<lambda>row. map_ok IssuerRequestId (parse_id row))
     (ids_with_last_event_in rows ''TokenizedEquityMint'' interrupted_mint_event_types))"

section \<open>Reachable mints\<close>

abbreviation mint_replay ::
  "'f tokenized_equity_mint lifecycle \<Rightarrow> 'f tokenized_equity_mint_event list \<Rightarrow>
   'f tokenized_equity_mint lifecycle" where
  "mint_replay \<equiv> replay mint_originate mint_evolve"

abbreviation mint_log ::
  "'f float_ops \<Rightarrow> 'f tokenized_equity_mint_event list \<Rightarrow>
   (('f tokenizer \<times> timestamp) \<times> 'f tokenized_equity_mint_command) list \<Rightarrow>
   'f tokenized_equity_mint_event list" where
  "mint_log F \<equiv> command_log mint_originate mint_evolve (mint_initialize F) (mint_transition F)"

text \<open>
  A sound mint: past the request, its quantity is not negative, and the tokens it records as
  received are its quantity in base units.
\<close>

definition mint_quantity_ok :: "'f float_ops \<Rightarrow> 'f \<Rightarrow> bool" where
  "mint_quantity_ok F q \<longleftrightarrow> (\<exists>z. fl_zero F = Inr z \<and> fl_lt F q z = Inr False)"

fun mint_inv :: "'f float_ops \<Rightarrow> 'f tokenized_equity_mint \<Rightarrow> bool" where
  "mint_inv F (tokenized_equity_mint.MintRequested _ _ _ _) = False"
| "mint_inv F (tokenized_equity_mint.TokensReceived _ q _ _ _ _ minted _ _ _ _) \<longleftrightarrow>
     mint_quantity_ok F q \<and> quantity_to_u256_18_decimals F q = Inr minted"
| "mint_inv F (tokenized_equity_mint.WrapSubmitted _ q _ _ _ _ minted _ _ _ _ _) \<longleftrightarrow>
     mint_quantity_ok F q \<and> quantity_to_u256_18_decimals F q = Inr minted"
| "mint_inv F (tokenized_equity_mint.TokensWrapped _ q _ _ _ _ minted _ _ _ _ _ _ _) \<longleftrightarrow>
     mint_quantity_ok F q \<and> quantity_to_u256_18_decimals F q = Inr minted"
| "mint_inv F (tokenized_equity_mint.VaultDepositSubmitted _ q _ _ _ _ minted _ _ _ _ _ _ _) \<longleftrightarrow>
     mint_quantity_ok F q \<and> quantity_to_u256_18_decimals F q = Inr minted"
| "mint_inv F m \<longleftrightarrow> mint_quantity_ok F (mint_quantity m)"

text \<open>The identity of a mint: what a request fixes for good.\<close>

fun mint_key :: "'f tokenized_equity_mint \<Rightarrow> symbol \<times> 'f \<times> timestamp" where
  "mint_key (tokenized_equity_mint.MintRequested s q _ t) = (s, q, t)"
| "mint_key (tokenized_equity_mint.MintAccepted s q _ _ _ t _) = (s, q, t)"
| "mint_key (tokenized_equity_mint.TokensReceived s q _ _ _ _ _ _ t _ _) = (s, q, t)"
| "mint_key (tokenized_equity_mint.WrapSubmitted s q _ _ _ _ _ _ t _ _ _) = (s, q, t)"
| "mint_key (tokenized_equity_mint.TokensWrapped s q _ _ _ _ _ _ _ _ t _ _ _) = (s, q, t)"
| "mint_key (tokenized_equity_mint.VaultDepositSubmitted s q _ _ _ _ _ _ _ t _ _ _ _) = (s, q, t)"
| "mint_key (tokenized_equity_mint.DepositedIntoRaindex s q _ _ _ _ _ t _) = (s, q, t)"
| "mint_key (tokenized_equity_mint.Failed s q _ t _) = (s, q, t)"
| "mint_key (tokenized_equity_mint.Reconciled s q _ _ t _) = (s, q, t)"

lemma completed_mint_events_Inr:
  "completed_mint_events F now s q c = Inr evs \<longleftrightarrow>
   (\<exists>tx minted. tr_tx_hash c = Some tx \<and> tr_token_symbol c = Some (''t'' @ s) \<and>
      quantity_to_u256_18_decimals F q = Inr minted \<and>
      evs = [tokenized_equity_mint_event.TokensReceived tx minted (tr_fees c) now])"
  by (auto simp: completed_mint_events_def split: option.splits if_splits)

text \<open>An accepted command emits one event, which the entity accepts; it keeps the identity.\<close>

lemma mint_transition_step:
  assumes "mint_transition F sv m c = Inr evs"
  obtains e m' where "evs = [e]" "mint_evolve m e = Inr (Some m')" "mint_key m' = mint_key m"
    "mint_inv F m \<Longrightarrow> mint_inv F m'"
  using assms
  by (cases c; cases m; cases sv)
    (auto simp: completed_mint_events_Inr split: sum.splits tokenization_request_status.splits if_splits)

lemma mint_initialize_step:
  assumes "mint_initialize F sv c = Inr evs"
  obtains i s q w m where "c = RequestMint i s q w" "mint_replay Uninitialized evs = Live m"
    "mint_key m = (s, q, snd sv)" "mint_inv F m"
  using assms
  by (cases "(F, sv, c)" rule: mint_initialize.cases)
    (auto simp: Let_def mint_quantity_ok_def split: sum.splits if_splits)

interpretation magg: aggregate mint_originate mint_evolve "mint_initialize F" "mint_transition F"
  "mint_inv F" for F
proof unfold_locales
  fix sv c and evs :: "'a tokenized_equity_mint_event list"
  assume "mint_initialize F sv c = Inr evs"
  then show "\<exists>s. mint_replay Uninitialized evs = Live s \<and> mint_inv F s"
    by (rule mint_initialize_step) blast
next
  fix s sv c and evs :: "'a tokenized_equity_mint_event list"
  assume "mint_inv F s" and "mint_transition F sv s c = Inr evs"
  then show "\<exists>s'. mint_replay (Live s) evs = Live s' \<and> mint_inv F s'"
    by (elim mint_transition_step) (auto simp del: mint_evolve.simps)
qed

lemma mint_log_alive: "mint_replay Uninitialized (mint_log F [] cs) \<noteq> FailedLifecycle"
  by (rule magg.commands_never_fail)

text \<open>
  Every mint that commands can reach is sound: no command sequence, whatever the provider
  answers and in whatever order the commands come, fails the lifecycle; a live mint has passed
  the provider's answer, its quantity is not negative, and from the receipt of the tokens to the
  deposit the recorded token amount is the requested quantity in 18-decimal base units.
\<close>

theorem reachable_mints_are_sound:
  "mint_replay Uninitialized (mint_log F [] cs) \<noteq> FailedLifecycle \<and>
   (\<forall>m. mint_replay Uninitialized (mint_log F [] cs) = Live m \<longrightarrow> mint_inv F m)"
  using magg.commands_never_fail magg.commands_invariant by blast

definition demo_tokenizer :: "rat tokenizer" where
  "demo_tokenizer = \<lparr>tk_request_mint = (\<lambda>_ _ _ _. Inr (demo_request Pending)),
     tk_poll_mint_until_complete = (\<lambda>_. Inr (demo_request tokenization_request_status.Completed))\<rparr>"

definition demo_mint_commands ::
  "((rat tokenizer \<times> timestamp) \<times> rat tokenized_equity_mint_command) list" where
  "demo_mint_commands = [((demo_tokenizer, 1), RequestMint (IssuerRequestId 1) ''AAPL'' 5 9),
     ((demo_tokenizer, 2), Poll), ((demo_tokenizer, 3), Poll),
     ((demo_tokenizer, 4), SubmitWrap 21), ((demo_tokenizer, 5), WrapTokens 21 4 100),
     ((demo_tokenizer, 6), DepositToVault 22)]"

lemma demo_five_shares: "quantity_to_u256_18_decimals exact_rat 5 = Inr 5000000000000000000"
  by (simp add: quantity_to_u256_18_decimals_def exact_rat_ops TOKENIZED_EQUITY_DECIMALS_def frac_def)

lemmas mint_eval = demo_mint_commands_def demo_tokenizer_def demo_request_def completed_mint_events_def
  demo_five_shares

lemma demo_init: "fl_zero exact_rat = Inr 0" "fl_lt exact_rat 5 0 = Inr False"
  by (simp_all add: exact_rat_ops)

lemma demo_mint_received:
  "mint_replay Uninitialized (mint_log exact_rat [] (take 2 demo_mint_commands)) =
   Live (tokenized_equity_mint.TokensReceived ''AAPL'' 5 9 (IssuerRequestId 1)
     (TokenizationRequestId ''r'') 7 5000000000000000000 None 1 1 2)"
  by (simp add: mint_eval demo_init)

theorem reachable_mints_are_sound_witness:
  "\<exists>minted. quantity_to_u256_18_decimals exact_rat 5 = Inr minted \<and> minted = 5000000000000000000"
  using reachable_mints_are_sound [of exact_rat "take 2 demo_mint_commands"]
  by (auto simp: demo_mint_received)

section \<open>The trail of a deposit\<close>

text \<open>The transactions a state records, in the order they happened, as tests on events.\<close>

fun is_receipt_of :: "tx_hash \<Rightarrow> 'f tokenized_equity_mint_event \<Rightarrow> bool" where
  "is_receipt_of tx (tokenized_equity_mint_event.TokensReceived tx' _ _ _) \<longleftrightarrow> tx' = tx"
| "is_receipt_of tx (ProviderCompletionRecovered _ _ _ tx' _ _ _) \<longleftrightarrow> tx' = tx"
| "is_receipt_of tx _ \<longleftrightarrow> False"

fun is_wrap_of :: "tx_hash \<Rightarrow> 'f tokenized_equity_mint_event \<Rightarrow> bool" where
  "is_wrap_of tx (tokenized_equity_mint_event.TokensWrapped tx' _ _ _) \<longleftrightarrow> tx' = tx"
| "is_wrap_of tx _ \<longleftrightarrow> False"

fun is_deposit_of :: "tx_hash \<Rightarrow> 'f tokenized_equity_mint_event \<Rightarrow> bool" where
  "is_deposit_of tx (tokenized_equity_mint_event.DepositedIntoRaindex tx' _) \<longleftrightarrow> tx' = tx"
| "is_deposit_of tx _ \<longleftrightarrow> False"

fun mint_trail :: "'f tokenized_equity_mint \<Rightarrow> ('f tokenized_equity_mint_event \<Rightarrow> bool) list" where
  "mint_trail (tokenized_equity_mint.TokensReceived _ _ _ _ _ tx _ _ _ _ _) = [is_receipt_of tx]"
| "mint_trail (tokenized_equity_mint.WrapSubmitted _ _ _ _ _ tx _ _ _ _ _ _) = [is_receipt_of tx]"
| "mint_trail (tokenized_equity_mint.TokensWrapped _ _ _ _ _ tx _ wtx _ _ _ _ _ _) =
     [is_receipt_of tx, is_wrap_of wtx]"
| "mint_trail (tokenized_equity_mint.VaultDepositSubmitted _ _ _ _ _ tx _ wtx _ _ _ _ _ _) =
     [is_receipt_of tx, is_wrap_of wtx]"
| "mint_trail (tokenized_equity_mint.DepositedIntoRaindex _ _ _ _ tx wtx vtx _ _) =
     [is_receipt_of tx, is_wrap_of wtx, is_deposit_of vtx]"
| "mint_trail _ = []"

text \<open>The test an event adds to the trail.\<close>

fun mint_event_test :: "'f tokenized_equity_mint_event \<Rightarrow> 'f tokenized_equity_mint_event \<Rightarrow> bool" where
  "mint_event_test (tokenized_equity_mint_event.TokensReceived tx _ _ _) = is_receipt_of tx"
| "mint_event_test (ProviderCompletionRecovered _ _ _ tx _ _ _) = is_receipt_of tx"
| "mint_event_test (tokenized_equity_mint_event.TokensWrapped tx _ _ _) = is_wrap_of tx"
| "mint_event_test (tokenized_equity_mint_event.DepositedIntoRaindex tx _) = is_deposit_of tx"
| "mint_event_test _ = (\<lambda>_. True)"

lemma mint_event_test_self: "mint_event_test e e"
  by (cases e) auto

lemma mint_evolve_trail:
  assumes "mint_evolve m e = Inr (Some m')" and tr: "trail_in (mint_trail m) evlog"
  shows "trail_in (mint_trail m') (evlog @ [e])"
proof -
  have "mint_trail m' \<in> {mint_trail m, [], mint_trail m @ [mint_event_test e], [] @ [mint_event_test e]}"
    using assms(1) by (cases e; cases m) auto
  then show ?thesis
    using trail_in_append [OF tr, of "[e]"] trail_in_snoc [OF tr, of "mint_event_test e" e]
      trail_in_snoc [of "[]" evlog "mint_event_test e" e] mint_event_test_self [of e]
    by (auto simp del: append_Nil)
qed

lemma mint_replay_trail:
  "mint_replay Uninitialized evlog = Live m \<Longrightarrow> trail_in (mint_trail m) evlog"
proof (induction evlog arbitrary: m rule: rev_induct)
  case (snoc e evlog)
  show ?case
  proof (cases "mint_replay Uninitialized evlog")
    case Uninitialized
    with snoc.prems show ?thesis by (cases e) auto
  next
    case (Live m1)
    with snoc.prems have "mint_evolve m1 e = Inr (Some m)"
      by (simp del: mint_evolve.simps split: sum.splits option.splits)
    from mint_evolve_trail [OF this snoc.IH [OF Live]] show ?thesis .
  qed (use snoc.prems in simp)
qed simp

text \<open>
  C22. No deposit without minted and wrapped tokens: the log of a mint that ended as deposited
  holds, in this order, the receipt of the tokens in the recorded mint transaction (by poll or by
  recovery), their wrapping in the recorded wrap transaction and the deposit in the recorded
  vault transaction. The mint kept the symbol, the quantity and the time of its request.
\<close>

theorem deposit_follows_receipt_and_wrap:
  assumes "mint_replay Uninitialized (mint_log F [] cs) =
      Live (tokenized_equity_mint.DepositedIntoRaindex s q i r tx wtx vtx t t')"
  shows "trail_in [is_receipt_of tx, is_wrap_of wtx, is_deposit_of vtx] (mint_log F [] cs) \<and>
    (\<exists>w. tokenized_equity_mint_event.MintRequested s q w t \<in> set (mint_log F [] cs))"
proof -
  have "\<exists>w. tokenized_equity_mint_event.MintRequested (fst (mint_key m)) (fst (snd (mint_key m))) w
      (snd (snd (mint_key m))) \<in> set (mint_log F [] cs)"
    if "mint_replay Uninitialized (mint_log F [] cs) = Live m" for m
    using that
  proof (induction rule: magg.commands_induct)
    case (init sv c evs m)
    then show ?case
      by (cases "(F, sv, c)" rule: mint_initialize.cases)
        (auto simp: Let_def split: sum.splits if_splits)
  next
    case (step l m sv c evs m')
    from step(3) obtain e m1 where "evs = [e]" "mint_evolve m e = Inr (Some m1)" "mint_key m1 = mint_key m"
      by (rule mint_transition_step)
    with step(1,4) show ?case by (simp del: mint_evolve.simps) blast
  qed
  from this [OF assms] mint_replay_trail [OF assms] show ?thesis by simp
qed

theorem deposit_follows_receipt_and_wrap_witness:
  "trail_in [is_receipt_of 7, is_wrap_of 21, is_deposit_of 22]
     (mint_log exact_rat [] demo_mint_commands) \<and>
   (\<exists>w. tokenized_equity_mint_event.MintRequested ''AAPL'' 5 w 1 \<in>
     set (mint_log exact_rat [] demo_mint_commands))"
proof (rule deposit_follows_receipt_and_wrap)
  show "mint_replay Uninitialized (mint_log exact_rat [] demo_mint_commands) =
    Live (tokenized_equity_mint.DepositedIntoRaindex ''AAPL'' 5 (IssuerRequestId 1)
      (TokenizationRequestId ''r'') 7 21 22 1 6)"
    by (simp add: mint_eval demo_init)
qed

section \<open>Terminal mints\<close>

text \<open>A completed or reconciled mint takes no command; a failed one only its two ways out.\<close>

lemma closed_mint_rejects:
  "mint_is_terminal m \<Longrightarrow> mint_transition F sv m c = Inr evs \<Longrightarrow>
   \<exists>s q r t t'. m = tokenized_equity_mint.Failed s q r t t' \<and>
     ((\<exists>i w k tx f. c = RecoverProviderCompletion i w k tx f) \<or> (\<exists>reason. c = Reconcile reason))"
  by (cases c; cases m; cases sv) auto

lemma failed_mint_recovers:
  assumes "quantity_to_u256_18_decimals F q = Inr minted"
  shows "\<exists>evs m. mint_transition F sv (tokenized_equity_mint.Failed s q r t t')
      (RecoverProviderCompletion i w k tx f) = Inr evs \<and>
    mint_replay (Live (tokenized_equity_mint.Failed s q r t t')) evs = Live m \<and> \<not> mint_is_terminal m"
  using assms by simp

lemma mint_dto_terminal:
  "mint_status_is_terminal (emo_status (mint_to_dto u m i)) \<longleftrightarrow> mint_is_terminal m"
  by (cases i; cases m) auto

section \<open>Startup resumes the open mints\<close>

fun mint_open :: "'f tokenized_equity_mint \<Rightarrow> bool" where
  "mint_open (tokenized_equity_mint.MintRequested _ _ _ _) = False"
| "mint_open m = (\<not> mint_is_terminal m)"

interpretation mlast: last_event_class mint_originate mint_evolve
  "\<lambda>e. mint_event_type e \<in> set interrupted_mint_event_types" mint_open
proof unfold_locales
  fix e :: "'a tokenized_equity_mint_event" and s
  assume "mint_originate e = Some s"
  then show "mint_event_type e \<in> set interrupted_mint_event_types \<longleftrightarrow> mint_open s"
    by (cases e) (auto simp: interrupted_mint_event_types_def)
next
  fix s s' :: "'a tokenized_equity_mint" and e
  assume "mint_evolve s e = Inr (Some s')"
  then show "mint_event_type e \<in> set interrupted_mint_event_types \<longleftrightarrow> mint_open s'"
    by (cases e; cases s) (auto simp: interrupted_mint_event_types_def)
qed

lemma parsed_ids:
  "collect_results (map (\<lambda>row. map_ok K (parse row)) rows) = Inr ids \<Longrightarrow>
   set ids = {K u | u i. i \<in> set rows \<and> parse i = Inr u}"
proof (induction rows arbitrary: ids)
  case (Cons a rows)
  then show ?case by auto blast+
qed simp

lemma mint_inv_open: "mint_inv F m \<Longrightarrow> mint_open m \<longleftrightarrow> \<not> mint_is_terminal m"
  by (cases m) auto

lemma interrupted_mints_exact:
  assumes "distinct (map fst streams)"
    and logs: "\<And>i l. (i, l) \<in> set streams \<Longrightarrow> \<exists>cs. l = mint_log F [] cs"
    and "interrupted_mint_ids parse_id (store_rows start ''TokenizedEquityMint'' mint_event_type streams) =
      Inr ids"
  shows "set ids = {IssuerRequestId u | u i l m. (i, l) \<in> set streams \<and> parse_id i = Inr u \<and>
    mint_replay Uninitialized l = Live m \<and> \<not> mint_is_terminal m}"
proof -
  have alive: "mint_replay Uninitialized l \<noteq> FailedLifecycle" if "(i, l) \<in> set streams" for i l
    using logs [OF that] mint_log_alive by blast
  have opn: "mint_open m \<longleftrightarrow> \<not> mint_is_terminal m"
    if "(i, l) \<in> set streams" "mint_replay Uninitialized l = Live m" for i l m
    using logs [OF that(1)] that(2) by (metis magg.commands_invariant mint_inv_open)
  have "{i. \<exists>l m. (i, l) \<in> set streams \<and> mint_replay Uninitialized l = Live m \<and> mint_open m} =
      {i. \<exists>l m. (i, l) \<in> set streams \<and> mint_replay Uninitialized l = Live m \<and> \<not> mint_is_terminal m}"
    using opn by blast
  then have "set (ids_with_last_event_in (store_rows start ''TokenizedEquityMint'' mint_event_type streams)
        ''TokenizedEquityMint'' interrupted_mint_event_types) =
      {i. \<exists>l m. (i, l) \<in> set streams \<and> mint_replay Uninitialized l = Live m \<and> \<not> mint_is_terminal m}"
    using mlast.ids_by_state [OF assms(1) alive refl] by simp
  then show ?thesis
    unfolding parsed_ids [OF assms(3) [unfolded interrupted_mint_ids_def]] by blast
qed

end
