(* ===== verification/Node_Sync.thy ===== *)
theory Node_Sync
  imports Prelude
begin

text \<open>
  Waiting for a load-balanced RPC node to see a block (\<^verbatim>\<open>wait_for_node_sync\<close> of
  \<^verbatim>\<open>crates/evm\<close>), the errors it reports, and how the wrapper's callers read the number of polls
  from them. The node is a parameter: \<open>get_block_number\<close> over a world, and the sleep between polls.
\<close>

type_synonym u32 = "32 word"

text \<open>
  The errors of the crate. An RPC failure is an error response of the node with its code and
  message, or any other transport failure; an error of a contract call has its text and the revert
  data, if the node sent any.
\<close>

datatype rpc_error =
    ErrorResp int string
  | RpcFailure string

datatype contract_error = ContractError string (as_revert_data: "8 word list option")

datatype evm_error =
    Transaction string
  | Transport rpc_error
  | ContractCall contract_error
  | AbiDecode string
  | DecodedRevert string
  | Reverted tx_hash
  | WalletConfigParse string
  | ReceiptTimeout tx_hash u64
  | TransactionDropped tx_hash u64
  | ReplacementUnderpriced u32
  | ReplacementFeeOverflow
  | InvalidPrivateKey string
  | Turnkey string
  | NodeBehindRequiredBlock u64 u64 u32

definition NODE_SYNC_MAX_ATTEMPTS :: u32 where
  "NODE_SYNC_MAX_ATTEMPTS = 30"

record 'w node =
  nd_get_block_number :: "'w \<Rightarrow> (rpc_error + u64) \<times> 'w"
  nd_sleep :: "'w \<Rightarrow> 'w"

text \<open>
  The loop \<^verbatim>\<open>for attempt in 1..=max_attempts\<close>: \<open>left\<close> polls remain, \<open>tip\<close> is the last
  observed tip, if any poll succeeded. The poll is the last one when \<open>left\<close> is 1.
\<close>

fun node_sync_loop ::
  "'w node \<Rightarrow> u64 \<Rightarrow> u32 \<Rightarrow> nat \<Rightarrow> bool \<Rightarrow> u64 option \<Rightarrow> 'w \<Rightarrow> (evm_error + unit) \<times> 'w" where
  "node_sync_loop N required_block max_attempts 0 first tip w =
     (Inl (NodeBehindRequiredBlock (case tip of Some t \<Rightarrow> t | None \<Rightarrow> 0) required_block max_attempts), w)"
| "node_sync_loop N required_block max_attempts (Suc left) first tip w =
     (case nd_get_block_number N (if first then w else nd_sleep N w) of
        (Inr t, w') \<Rightarrow>
          if required_block \<le> t then (Inr (), w')
          else node_sync_loop N required_block max_attempts left False (Some t) w'
      | (Inl transport_error, w') \<Rightarrow>
          if left = 0 \<and> tip = None then (Inl (Transport transport_error), w')
          else node_sync_loop N required_block max_attempts left False tip w')"

definition wait_for_node_sync :: "'w node \<Rightarrow> u64 \<Rightarrow> u32 \<Rightarrow> 'w \<Rightarrow> (evm_error + unit) \<times> 'w" where
  "wait_for_node_sync N required_block max_attempts w =
     node_sync_loop N required_block max_attempts (unat max_attempts) True None w"

datatype wrapper_error =
    SymbolNotConfigured symbol
  | MissingDepositEvent
  | MissingWithdrawEvent
  | RedeemExceedsMax address u256 u256
  | WrapperEvm evm_error
  | WrapperContract string
  | WrapperRatio string
  | MissingBlockNumber tx_hash

fun node_sync_attempts :: "wrapper_error \<Rightarrow> u32" where
  "node_sync_attempts (WrapperEvm (NodeBehindRequiredBlock _ _ attempts)) = attempts"
| "node_sync_attempts _ = NODE_SYNC_MAX_ATTEMPTS"

section \<open>What a successful wait has seen\<close>

text \<open>The worlds the polls are made in: after at most \<open>n\<close> polls, each after a sleep but the first.\<close>

fun polled_worlds :: "'w node \<Rightarrow> nat \<Rightarrow> bool \<Rightarrow> 'w \<Rightarrow> 'w list" where
  "polled_worlds N 0 first w = []"
| "polled_worlds N (Suc n) first w = (let v = if first then w else nd_sleep N w in
     v # polled_worlds N n False (snd (nd_get_block_number N v)))"

lemma node_sync_loop_ok:
  "(fst (node_sync_loop N b m n first tip w) = Inr ()) \<longleftrightarrow>
   (\<exists>v\<in>set (polled_worlds N n first w). \<exists>t. fst (nd_get_block_number N v) = Inr t \<and> b \<le> t)"
proof (induction n arbitrary: first tip w)
  case (Suc n)
  let ?v = "if first then w else nd_sleep N w"
  show ?case
  proof (cases "nd_get_block_number N ?v")
    case (Pair r w')
    show ?thesis
    proof (cases r)
      case (Inl e)
      with Pair Suc.IH [of False tip w'] show ?thesis
        by (cases "n = 0 \<and> tip = None") (auto simp: Let_def)
    next
      case (Inr t)
      with Pair Suc show ?thesis by (auto simp: Let_def)
    qed
  qed
qed simp

lemma node_sync_loop_attempts:
  "fst (node_sync_loop N b m n first tip w) = Inl (NodeBehindRequiredBlock t b' a) \<Longrightarrow> b' = b \<and> a = m"
  by (induction n arbitrary: first tip w) (auto split: prod.splits sum.splits if_splits)

text \<open>
  The wait succeeds exactly when one of its polls saw the block, and reports its own block and
  poll budget when the node stayed behind.
\<close>

lemma wait_for_node_sync_ok:
  "fst (wait_for_node_sync N b m w) = Inr () \<longleftrightarrow>
   (\<exists>v\<in>set (polled_worlds N (unat m) True w). \<exists>t. fst (nd_get_block_number N v) = Inr t \<and> b \<le> t)"
  by (simp add: wait_for_node_sync_def node_sync_loop_ok)

lemma wait_for_node_sync_behind:
  "fst (wait_for_node_sync N b m w) = Inl (NodeBehindRequiredBlock t b' a) \<Longrightarrow>
   b' = b \<and> a = m \<and> node_sync_attempts (WrapperEvm (NodeBehindRequiredBlock t b' a)) = m"
  by (auto simp: wait_for_node_sync_def dest: node_sync_loop_attempts)

end
