(* ===== verification/EquityRedemption.thy ===== *)
theory EquityRedemption
  imports TokenizedEquityMint Node_Sync
begin

text \<open>
  The \<^verbatim>\<open>EquityRedemption\<close> aggregate of \<^verbatim>\<open>src/equity_redemption.rs\<close>: one redemption from
  the vault withdrawal through the unwrapping and the transfer to the provider's wallet to the
  delivery of the shares, with its failure, recovery and reconciliation paths, and the startup
  queries over the \<^verbatim>\<open>events\<close> table. The vault registry, the Raindex contract, the wrapper and
  the tokenizer are parameters. The \<^verbatim>\<open>*At\<close> commands of the test build are not modelled.
\<close>

section \<open>Errors, commands, events, states\<close>

datatype redemption_aggregate_id = RedemptionAggregateId uuid

datatype equity_redemption_error =
    RaindexVaultNotFound address
  | RaindexWithdrawFailed address u256 string
  | RaindexWithdrawTransferNotFound tx_hash address address
  | RaindexWithdrawTransferOverflow tx_hash
  | RaindexWithdrawTransferDecodeFailed tx_hash address
  | RaindexWithdrawQuantityConversionFailed tx_hash u256 string
  | UnwrapFailed address u256 string
  | UnderlyingLookupFailed symbol string
  | TransactionFailed tx_hash
  | CannotUnwrapAlreadyStarted
  | TokensNotUnwrapped
  | TokensNotSent
  | NotPending
  | NotPendingForRejection
  | NotStarted
  | AlreadyStarted
  | AlreadyDetected
  | AlreadyCompleted
  | AlreadyFailed
  | NodeSyncFailed u64 u32
  | MissingWithdrawBlock tx_hash
  | NotFailed
  | AlreadyReconciled
  | ReconcileReasonRequired

datatype detection_failure = Timeout | ApiError "nat option" | Operator string

datatype 'f equity_redemption_command =
    Redeem symbol 'f address u256
  | ConfirmWithdraw
  | UnwrapTokens
  | ConfirmUnwrap
  | SendTokens
  | Detect tokenization_request_id
  | FailDetection detection_failure
  | Complete
  | RejectRedemption string
  | RecoverProviderCompletion tokenization_request_id
  | FailTransfer string
  | SubmitWithdraw
  | SubmitUnwrap
  | PrepareSend
  | Reconcile string

datatype 'f equity_redemption_event =
    VaultWithdrawPending symbol 'f address u256 timestamp
  | VaultWithdrawSubmitted symbol 'f address u256 tx_hash timestamp
  | WithdrawnFromRaindex symbol 'f address u256 "u256 option" tx_hash "u64 option" timestamp
  | TokensUnwrapped "'f option" address tx_hash u256 "u64 option" timestamp
  | UnwrapPending timestamp
  | UnwrapSubmitted tx_hash timestamp
  | SendPending timestamp
  | TransferFailed "tx_hash option" "string option" timestamp
  | TokensSent address tx_hash timestamp
  | DetectionFailed detection_failure timestamp
  | Detected tokenization_request_id timestamp
  | RedemptionRejected string timestamp
  | Completed timestamp
  | ProviderCompletionRecovered tokenization_request_id timestamp
  | OperatorReconciled string timestamp

datatype 'f equity_redemption =
    VaultWithdrawPending symbol 'f address u256 timestamp
  | VaultWithdrawSubmitted symbol 'f address u256 tx_hash timestamp
  | WithdrawnFromRaindex symbol 'f address u256 tx_hash "u64 option" timestamp
  | UnwrapPending symbol 'f address u256 tx_hash "u64 option" timestamp
  | UnwrapSubmitted symbol 'f address u256 tx_hash "u64 option" tx_hash timestamp
  | TokensUnwrapped symbol 'f address address tx_hash tx_hash u256 "u64 option" timestamp timestamp
  | SendPending symbol 'f address address tx_hash tx_hash u256 "u64 option" timestamp timestamp
  | TokensSent symbol 'f address tx_hash "tx_hash option" address tx_hash timestamp
  | Pending symbol 'f tx_hash tokenization_request_id timestamp timestamp
  | Completed symbol 'f tx_hash tokenization_request_id timestamp timestamp
  | Failed symbol 'f "tx_hash option" "tx_hash option" "tokenization_request_id option"
      "string option" timestamp timestamp
  | Reconciled symbol 'f "tx_hash option" "tx_hash option" "tokenization_request_id option"
      "string option" string timestamp timestamp

fun redemption_event_type :: "'f equity_redemption_event \<Rightarrow> string" where
  "redemption_event_type (equity_redemption_event.VaultWithdrawPending _ _ _ _ _) =
     ''EquityRedemptionEvent::VaultWithdrawPending''"
| "redemption_event_type (equity_redemption_event.VaultWithdrawSubmitted _ _ _ _ _ _) =
     ''EquityRedemptionEvent::VaultWithdrawSubmitted''"
| "redemption_event_type (equity_redemption_event.WithdrawnFromRaindex _ _ _ _ _ _ _ _) =
     ''EquityRedemptionEvent::WithdrawnFromRaindex''"
| "redemption_event_type (equity_redemption_event.UnwrapPending _) = ''EquityRedemptionEvent::UnwrapPending''"
| "redemption_event_type (equity_redemption_event.UnwrapSubmitted _ _) =
     ''EquityRedemptionEvent::UnwrapSubmitted''"
| "redemption_event_type (equity_redemption_event.SendPending _) = ''EquityRedemptionEvent::SendPending''"
| "redemption_event_type (equity_redemption_event.TokensUnwrapped _ _ _ _ _ _) =
     ''EquityRedemptionEvent::TokensUnwrapped''"
| "redemption_event_type (TransferFailed _ _ _) = ''EquityRedemptionEvent::TransferFailed''"
| "redemption_event_type (equity_redemption_event.TokensSent _ _ _) = ''EquityRedemptionEvent::TokensSent''"
| "redemption_event_type (DetectionFailed _ _) = ''EquityRedemptionEvent::DetectionFailed''"
| "redemption_event_type (Detected _ _) = ''EquityRedemptionEvent::Detected''"
| "redemption_event_type (RedemptionRejected _ _) = ''EquityRedemptionEvent::RedemptionRejected''"
| "redemption_event_type (equity_redemption_event.Completed _) = ''EquityRedemptionEvent::Completed''"
| "redemption_event_type (equity_redemption_event.ProviderCompletionRecovered _ _) =
     ''EquityRedemptionEvent::ProviderCompletionRecovered''"
| "redemption_event_type (equity_redemption_event.OperatorReconciled _ _) =
     ''EquityRedemptionEvent::OperatorReconciled''"

section \<open>Accessors\<close>

fun redemption_quantity :: "'f equity_redemption \<Rightarrow> 'f" where
  "redemption_quantity (equity_redemption.VaultWithdrawPending _ quantity _ _ _) = quantity"
| "redemption_quantity (equity_redemption.VaultWithdrawSubmitted _ quantity _ _ _ _) = quantity"
| "redemption_quantity (equity_redemption.WithdrawnFromRaindex _ quantity _ _ _ _ _) = quantity"
| "redemption_quantity (equity_redemption.UnwrapPending _ quantity _ _ _ _ _) = quantity"
| "redemption_quantity (equity_redemption.UnwrapSubmitted _ quantity _ _ _ _ _ _) = quantity"
| "redemption_quantity (equity_redemption.TokensUnwrapped _ quantity _ _ _ _ _ _ _ _) = quantity"
| "redemption_quantity (equity_redemption.SendPending _ quantity _ _ _ _ _ _ _ _) = quantity"
| "redemption_quantity (equity_redemption.TokensSent _ quantity _ _ _ _ _ _) = quantity"
| "redemption_quantity (equity_redemption.Pending _ quantity _ _ _ _) = quantity"
| "redemption_quantity (equity_redemption.Completed _ quantity _ _ _ _) = quantity"
| "redemption_quantity (Failed _ quantity _ _ _ _ _ _) = quantity"
| "redemption_quantity (Reconciled _ quantity _ _ _ _ _ _ _) = quantity"

fun redemption_is_terminal :: "'f equity_redemption \<Rightarrow> bool" where
  "redemption_is_terminal (equity_redemption.Completed _ _ _ _ _ _) = True"
| "redemption_is_terminal (Failed _ _ _ _ _ _ _ _) = True"
| "redemption_is_terminal (Reconciled _ _ _ _ _ _ _ _ _) = True"
| "redemption_is_terminal _ = False"

section \<open>Event side\<close>

definition resolve_withdrawn_wrapped_amount :: "u256 \<Rightarrow> u256 option \<Rightarrow> u256" where
  "resolve_withdrawn_wrapped_amount wrapped_amount actual_wrapped_amount =
     (case actual_wrapped_amount of Some a \<Rightarrow> a | None \<Rightarrow> wrapped_amount)"

fun redemption_originate :: "'f equity_redemption_event \<Rightarrow> 'f equity_redemption option" where
  "redemption_originate (equity_redemption_event.VaultWithdrawPending symbol quantity token
       wrapped_amount pending_at) =
     Some (equity_redemption.VaultWithdrawPending symbol quantity token wrapped_amount pending_at)"
| "redemption_originate (equity_redemption_event.VaultWithdrawSubmitted symbol quantity token
       wrapped_amount tx_hash submitted_at) =
     Some (equity_redemption.VaultWithdrawSubmitted symbol quantity token wrapped_amount tx_hash
       submitted_at)"
| "redemption_originate (equity_redemption_event.WithdrawnFromRaindex symbol quantity token
       wrapped_amount actual_wrapped_amount raindex_withdraw_tx raindex_withdraw_block withdrawn_at) =
     Some (equity_redemption.WithdrawnFromRaindex symbol quantity token
       (resolve_withdrawn_wrapped_amount wrapped_amount actual_wrapped_amount) raindex_withdraw_tx
       raindex_withdraw_block withdrawn_at)"
| "redemption_originate _ = None"

fun evolve_transfer_failed ::
  "'f equity_redemption \<Rightarrow> tx_hash option \<Rightarrow> string option \<Rightarrow> timestamp \<Rightarrow> 'f equity_redemption option" where
  "evolve_transfer_failed entity tx_hash reason failed_at = (case entity of
     equity_redemption.VaultWithdrawPending symbol quantity _ _ pending_at \<Rightarrow>
       Some (Failed symbol quantity None tx_hash None reason pending_at failed_at)
   | equity_redemption.VaultWithdrawSubmitted symbol quantity _ _ _ submitted_at \<Rightarrow>
       Some (Failed symbol quantity None tx_hash None reason submitted_at failed_at)
   | equity_redemption.WithdrawnFromRaindex symbol quantity _ _ raindex_withdraw_tx _ withdrawn_at \<Rightarrow>
       Some (Failed symbol quantity (Some raindex_withdraw_tx) tx_hash None reason withdrawn_at failed_at)
   | equity_redemption.UnwrapPending symbol quantity _ _ raindex_withdraw_tx _ withdrawn_at \<Rightarrow>
       Some (Failed symbol quantity (Some raindex_withdraw_tx) tx_hash None reason withdrawn_at failed_at)
   | equity_redemption.TokensUnwrapped symbol quantity _ _ raindex_withdraw_tx _ _ _ withdrawn_at _ \<Rightarrow>
       Some (Failed symbol quantity (Some raindex_withdraw_tx) tx_hash None reason withdrawn_at failed_at)
   | equity_redemption.SendPending symbol quantity _ _ raindex_withdraw_tx _ _ _ withdrawn_at _ \<Rightarrow>
       Some (Failed symbol quantity (Some raindex_withdraw_tx) tx_hash None reason withdrawn_at failed_at)
   | equity_redemption.UnwrapSubmitted symbol quantity _ _ raindex_withdraw_tx _ _ withdrawn_at \<Rightarrow>
       Some (Failed symbol quantity (Some raindex_withdraw_tx) tx_hash None reason withdrawn_at failed_at)
   | _ \<Rightarrow> None)"

fun evolve_tokens_unwrapped ::
  "'f equity_redemption \<Rightarrow> 'f option \<Rightarrow> address \<Rightarrow> tx_hash \<Rightarrow> u256 \<Rightarrow> u64 option \<Rightarrow> timestamp \<Rightarrow>
   'f equity_redemption option" where
  "evolve_tokens_unwrapped entity actual_quantity underlying_token unwrap_tx_hash unwrapped_amount
       unwrap_block unwrapped_at = (case entity of
     equity_redemption.WithdrawnFromRaindex symbol quantity token _ raindex_withdraw_tx _ withdrawn_at \<Rightarrow>
       Some (equity_redemption.TokensUnwrapped symbol
         (case actual_quantity of Some q \<Rightarrow> q | None \<Rightarrow> quantity) token underlying_token
         raindex_withdraw_tx unwrap_tx_hash unwrapped_amount unwrap_block withdrawn_at unwrapped_at)
   | equity_redemption.UnwrapPending symbol quantity token _ raindex_withdraw_tx _ withdrawn_at \<Rightarrow>
       Some (equity_redemption.TokensUnwrapped symbol
         (case actual_quantity of Some q \<Rightarrow> q | None \<Rightarrow> quantity) token underlying_token
         raindex_withdraw_tx unwrap_tx_hash unwrapped_amount unwrap_block withdrawn_at unwrapped_at)
   | equity_redemption.UnwrapSubmitted symbol quantity token _ raindex_withdraw_tx _ _ withdrawn_at \<Rightarrow>
       Some (equity_redemption.TokensUnwrapped symbol
         (case actual_quantity of Some q \<Rightarrow> q | None \<Rightarrow> quantity) token underlying_token
         raindex_withdraw_tx unwrap_tx_hash unwrapped_amount unwrap_block withdrawn_at unwrapped_at)
   | _ \<Rightarrow> None)"

fun detection_failure_reason :: "detection_failure \<Rightarrow> string option" where
  "detection_failure_reason (Operator reason) = Some reason"
| "detection_failure_reason Timeout = None"
| "detection_failure_reason (ApiError _) = None"

fun redemption_evolve ::
  "'f equity_redemption \<Rightarrow> 'f equity_redemption_event \<Rightarrow>
   equity_redemption_error + 'f equity_redemption option" where
  "redemption_evolve entity (equity_redemption_event.VaultWithdrawPending _ _ _ _ _) = Inr None"
| "redemption_evolve entity (equity_redemption_event.VaultWithdrawSubmitted symbol quantity token
       wrapped_amount tx_hash submitted_at) = Inr (case entity of
     equity_redemption.VaultWithdrawPending _ _ _ _ _ \<Rightarrow>
       Some (equity_redemption.VaultWithdrawSubmitted symbol quantity token wrapped_amount tx_hash
         submitted_at)
   | _ \<Rightarrow> None)"
| "redemption_evolve entity (equity_redemption_event.WithdrawnFromRaindex symbol quantity token
       wrapped_amount actual_wrapped_amount raindex_withdraw_tx raindex_withdraw_block withdrawn_at) =
     (let withdrawn = equity_redemption.WithdrawnFromRaindex symbol quantity token
            (resolve_withdrawn_wrapped_amount wrapped_amount actual_wrapped_amount)
            raindex_withdraw_tx raindex_withdraw_block withdrawn_at
      in Inr (case entity of
          equity_redemption.VaultWithdrawPending _ _ _ _ _ \<Rightarrow> Some withdrawn
        | equity_redemption.VaultWithdrawSubmitted _ _ _ _ _ _ \<Rightarrow> Some withdrawn
        | _ \<Rightarrow> None))"
| "redemption_evolve entity (TransferFailed tx_hash reason failed_at) =
     Inr (evolve_transfer_failed entity tx_hash reason failed_at)"
| "redemption_evolve entity (equity_redemption_event.UnwrapPending _) = Inr (case entity of
     equity_redemption.WithdrawnFromRaindex symbol quantity token wrapped_amount raindex_withdraw_tx
         raindex_withdraw_block withdrawn_at \<Rightarrow>
       Some (equity_redemption.UnwrapPending symbol quantity token wrapped_amount raindex_withdraw_tx
         raindex_withdraw_block withdrawn_at)
   | _ \<Rightarrow> None)"
| "redemption_evolve entity (equity_redemption_event.UnwrapSubmitted unwrap_tx_hash _) = Inr (case entity of
     equity_redemption.WithdrawnFromRaindex symbol quantity token wrapped_amount raindex_withdraw_tx
         raindex_withdraw_block withdrawn_at \<Rightarrow>
       Some (equity_redemption.UnwrapSubmitted symbol quantity token wrapped_amount raindex_withdraw_tx
         raindex_withdraw_block unwrap_tx_hash withdrawn_at)
   | equity_redemption.UnwrapPending symbol quantity token wrapped_amount raindex_withdraw_tx
         raindex_withdraw_block withdrawn_at \<Rightarrow>
       Some (equity_redemption.UnwrapSubmitted symbol quantity token wrapped_amount raindex_withdraw_tx
         raindex_withdraw_block unwrap_tx_hash withdrawn_at)
   | _ \<Rightarrow> None)"
| "redemption_evolve entity (equity_redemption_event.TokensUnwrapped actual_quantity underlying_token
       unwrap_tx_hash unwrapped_amount unwrap_block unwrapped_at) =
     Inr (evolve_tokens_unwrapped entity actual_quantity underlying_token unwrap_tx_hash
       unwrapped_amount unwrap_block unwrapped_at)"
| "redemption_evolve entity (equity_redemption_event.SendPending _) = Inr (case entity of
     equity_redemption.TokensUnwrapped symbol quantity token underlying_token raindex_withdraw_tx
         unwrap_tx_hash unwrapped_amount unwrap_block withdrawn_at unwrapped_at \<Rightarrow>
       Some (equity_redemption.SendPending symbol quantity token underlying_token raindex_withdraw_tx
         unwrap_tx_hash unwrapped_amount unwrap_block withdrawn_at unwrapped_at)
   | _ \<Rightarrow> None)"
| "redemption_evolve entity (equity_redemption_event.TokensSent redemption_wallet redemption_tx sent_at) =
     Inr (case entity of
     equity_redemption.WithdrawnFromRaindex symbol quantity token _ raindex_withdraw_tx _ _ \<Rightarrow>
       Some (equity_redemption.TokensSent symbol quantity token raindex_withdraw_tx None
         redemption_wallet redemption_tx sent_at)
   | equity_redemption.TokensUnwrapped symbol quantity _ underlying_token raindex_withdraw_tx
         unwrap_tx_hash _ _ _ _ \<Rightarrow>
       Some (equity_redemption.TokensSent symbol quantity underlying_token raindex_withdraw_tx
         (Some unwrap_tx_hash) redemption_wallet redemption_tx sent_at)
   | equity_redemption.SendPending symbol quantity _ underlying_token raindex_withdraw_tx
         unwrap_tx_hash _ _ _ _ \<Rightarrow>
       Some (equity_redemption.TokensSent symbol quantity underlying_token raindex_withdraw_tx
         (Some unwrap_tx_hash) redemption_wallet redemption_tx sent_at)
   | _ \<Rightarrow> None)"
| "redemption_evolve entity (Detected tokenization_request_id detected_at) = Inr (case entity of
     equity_redemption.TokensSent symbol quantity _ _ _ _ redemption_tx sent_at \<Rightarrow>
       Some (equity_redemption.Pending symbol quantity redemption_tx tokenization_request_id sent_at
         detected_at)
   | _ \<Rightarrow> None)"
| "redemption_evolve entity (DetectionFailed failure failed_at) = Inr (case entity of
     equity_redemption.TokensSent symbol quantity _ raindex_withdraw_tx _ _ redemption_tx sent_at \<Rightarrow>
       Some (Failed symbol quantity (Some raindex_withdraw_tx) (Some redemption_tx) None
         (detection_failure_reason failure) sent_at failed_at)
   | _ \<Rightarrow> None)"
| "redemption_evolve entity (equity_redemption_event.Completed completed_at) = Inr (case entity of
     equity_redemption.Pending symbol quantity redemption_tx tokenization_request_id sent_at _ \<Rightarrow>
       Some (equity_redemption.Completed symbol quantity redemption_tx tokenization_request_id sent_at
         completed_at)
   | _ \<Rightarrow> None)"
| "redemption_evolve entity (RedemptionRejected reason rejected_at) = Inr (case entity of
     equity_redemption.Pending symbol quantity redemption_tx tokenization_request_id sent_at _ \<Rightarrow>
       Some (Failed symbol quantity None (Some redemption_tx) (Some tokenization_request_id)
         (Some reason) sent_at rejected_at)
   | _ \<Rightarrow> None)"
| "redemption_evolve entity (equity_redemption_event.ProviderCompletionRecovered tokenization_request_id
       recovered_at) = Inr (case entity of
     Failed symbol quantity _ (Some redemption_tx) _ _ started_at _ \<Rightarrow>
       Some (equity_redemption.Completed symbol quantity redemption_tx tokenization_request_id
         started_at recovered_at)
   | _ \<Rightarrow> None)"
| "redemption_evolve entity (equity_redemption_event.OperatorReconciled reason reconciled_at) =
     Inr (case entity of
     Failed symbol quantity raindex_withdraw_tx redemption_tx tokenization_request_id failure_reason
         started_at _ \<Rightarrow>
       Some (Reconciled symbol quantity raindex_withdraw_tx redemption_tx tokenization_request_id
         failure_reason reason started_at reconciled_at)
   | _ \<Rightarrow> None)"

section \<open>Command side\<close>

record tx_receipt =
  rc_transaction_hash :: tx_hash
  rc_block_number :: "u64 option"
  rc_logs :: "evm_log list"

record unwrap_confirmation =
  uc_assets :: u256
  uc_block :: u64

text \<open>
  The services as the aggregate uses them: the answers of the vault registry, Raindex, the
  wrapper and the tokenizer, with errors rendered as text where the source renders them, and the
  event decoder of the EVM library.
\<close>

record redemption_services =
  rs_vault_id_for_token :: "address \<Rightarrow> string + u256"
  rs_submit_withdraw :: "address \<Rightarrow> u256 \<Rightarrow> u256 \<Rightarrow> nat \<Rightarrow> string + tx_hash"
  rs_confirm_tx_receipt :: "tx_hash \<Rightarrow> string + tx_receipt"
  rs_transfer_signature :: u256
  rs_decode_transfer :: "evm_log \<Rightarrow> string + transfer"
  rs_owner :: address
  rs_wrapper_wait_for_block :: "u64 \<Rightarrow> wrapper_error + unit"
  rs_submit_unwrap :: "address \<Rightarrow> u256 \<Rightarrow> address \<Rightarrow> address \<Rightarrow> string + tx_hash"
  rs_lookup_underlying :: "symbol \<Rightarrow> string + address"
  rs_confirm_unwrap :: "address \<Rightarrow> tx_hash \<Rightarrow> string + unwrap_confirmation"
  rs_redemption_wallet :: "address option"
  rs_tokenizer_wait_for_block :: "u64 \<Rightarrow> evm_error + unit"
  rs_send_for_redemption :: "address \<Rightarrow> u256 \<Rightarrow> string + tx_hash"

definition actual_withdrawn_amount_from_receipt ::
  "redemption_services \<Rightarrow> tx_receipt \<Rightarrow> address \<Rightarrow> address \<Rightarrow> equity_redemption_error + u256" where
  "actual_withdrawn_amount_from_receipt S receipt token recipient =
     tryr (try_fold (\<lambda>acc l.
        tryr (map_err (\<lambda>_. RaindexWithdrawTransferDecodeFailed (rc_transaction_hash receipt) token)
               (rs_decode_transfer S l)) (\<lambda>decoded.
        if transfer_to decoded \<noteq> recipient then Inr acc
        else ok_or (RaindexWithdrawTransferOverflow (rc_transaction_hash receipt))
               (u256_checked_add acc (transfer_value decoded)))) 0
       (filter (\<lambda>l. first_topic l = Some (rs_transfer_signature S))
         (filter (\<lambda>l. log_address l = token) (rc_logs receipt)))) (\<lambda>amount.
     if amount = 0
     then Inl (RaindexWithdrawTransferNotFound (rc_transaction_hash receipt) token recipient)
     else Inr amount)"

definition node_sync_failed :: "u64 \<Rightarrow> wrapper_error \<Rightarrow> equity_redemption_error" where
  "node_sync_failed required_block error = NodeSyncFailed required_block (node_sync_attempts error)"

definition node_sync_failed_from_evm :: "u64 \<Rightarrow> evm_error \<Rightarrow> equity_redemption_error" where
  "node_sync_failed_from_evm required_block error = NodeSyncFailed required_block
     (case error of NodeBehindRequiredBlock _ _ attempts \<Rightarrow> attempts | _ \<Rightarrow> NODE_SYNC_MAX_ATTEMPTS)"

fun redemption_initialize ::
  "redemption_services \<times> timestamp \<Rightarrow> 'f equity_redemption_command \<Rightarrow>
   equity_redemption_error + 'f equity_redemption_event list" where
  "redemption_initialize (_, now) (Redeem symbol quantity token amount) =
     Inr [equity_redemption_event.VaultWithdrawPending symbol quantity token amount now]"
| "redemption_initialize _ _ = Inl NotStarted"

text \<open>The guard that ends most handlers: terminal states answer with their own error.\<close>

fun terminal_error :: "'f equity_redemption \<Rightarrow> equity_redemption_error \<Rightarrow> equity_redemption_error" where
  "terminal_error (equity_redemption.Completed _ _ _ _ _ _) otherwise = AlreadyCompleted"
| "terminal_error (Failed _ _ _ _ _ _ _ _) otherwise = AlreadyFailed"
| "terminal_error (Reconciled _ _ _ _ _ _ _ _ _) otherwise = AlreadyReconciled"
| "terminal_error _ otherwise = otherwise"

fun transition_submit_withdraw ::
  "redemption_services \<times> timestamp \<Rightarrow> 'f equity_redemption \<Rightarrow>
   equity_redemption_error + 'f equity_redemption_event list" where
  "transition_submit_withdraw (S, now) r = (case r of
     equity_redemption.VaultWithdrawPending symbol quantity token wrapped_amount _ \<Rightarrow>
       tryr (map_err (\<lambda>_. RaindexVaultNotFound token) (rs_vault_id_for_token S token)) (\<lambda>vault_id.
       tryr (map_err (RaindexWithdrawFailed token wrapped_amount)
               (rs_submit_withdraw S token vault_id wrapped_amount TOKENIZED_EQUITY_DECIMALS)) (\<lambda>tx_hash.
       Inr [equity_redemption_event.VaultWithdrawSubmitted symbol quantity token wrapped_amount tx_hash now]))
   | _ \<Rightarrow> Inl (terminal_error r AlreadyStarted))"

fun transition_confirm_withdraw ::
  "redemption_services \<times> timestamp \<Rightarrow> 'f equity_redemption \<Rightarrow>
   equity_redemption_error + 'f equity_redemption_event list" where
  "transition_confirm_withdraw (S, now) r = (case r of
     equity_redemption.VaultWithdrawSubmitted symbol quantity token wrapped_amount tx_hash _ \<Rightarrow>
       tryr (map_err (RaindexWithdrawFailed token wrapped_amount) (rs_confirm_tx_receipt S tx_hash)) (\<lambda>receipt.
       tryr (ok_or (MissingWithdrawBlock tx_hash) (rc_block_number receipt)) (\<lambda>raindex_withdraw_block.
       tryr (actual_withdrawn_amount_from_receipt S receipt token (rs_owner S)) (\<lambda>actual_wrapped_amount.
       Inr [equity_redemption_event.WithdrawnFromRaindex symbol quantity token wrapped_amount
              (Some actual_wrapped_amount) tx_hash (Some raindex_withdraw_block) now])))
   | _ \<Rightarrow> Inl (terminal_error r AlreadyStarted))"

fun transition_unwrap_tokens ::
  "timestamp \<Rightarrow> 'f equity_redemption \<Rightarrow> equity_redemption_error + 'f equity_redemption_event list" where
  "transition_unwrap_tokens pending_at r = (case r of
     equity_redemption.WithdrawnFromRaindex _ _ _ _ _ _ _ \<Rightarrow>
       Inr [equity_redemption_event.UnwrapPending pending_at]
   | _ \<Rightarrow> Inl (terminal_error r CannotUnwrapAlreadyStarted))"

definition wait_if_known :: "(u64 \<Rightarrow> 'e + unit) \<Rightarrow> u64 option \<Rightarrow> 'e + unit" where
  "wait_if_known wait block = (case block of Some b \<Rightarrow> wait b | None \<Rightarrow> Inr ())"

fun transition_submit_unwrap ::
  "redemption_services \<times> timestamp \<Rightarrow> 'f equity_redemption \<Rightarrow>
   equity_redemption_error + 'f equity_redemption_event list" where
  "transition_submit_unwrap (S, now) r = (case r of
     equity_redemption.UnwrapPending _ _ token wrapped_amount _ raindex_withdraw_block _ \<Rightarrow>
       tryr (wait_if_known (\<lambda>block. map_err (node_sync_failed block) (rs_wrapper_wait_for_block S block))
               raindex_withdraw_block) (\<lambda>_.
       tryr (map_err (UnwrapFailed token wrapped_amount)
               (rs_submit_unwrap S token wrapped_amount (rs_owner S) (rs_owner S))) (\<lambda>unwrap_tx_hash.
       Inr [equity_redemption_event.UnwrapSubmitted unwrap_tx_hash now]))
   | _ \<Rightarrow> Inl (terminal_error r CannotUnwrapAlreadyStarted))"

fun float_error_message :: "float_error \<Rightarrow> string" where
  "float_error_message (FloatError m) = m"

fun transition_confirm_unwrap ::
  "'f float_ops \<Rightarrow> redemption_services \<times> timestamp \<Rightarrow> 'f equity_redemption \<Rightarrow>
   equity_redemption_error + 'f equity_redemption_event list" where
  "transition_confirm_unwrap F (S, now) r = (case r of
     equity_redemption.UnwrapSubmitted symbol _ token wrapped_amount _ _ unwrap_tx_hash _ \<Rightarrow>
       tryr (map_err (UnderlyingLookupFailed symbol) (rs_lookup_underlying S symbol)) (\<lambda>underlying_token.
       tryr (map_err (UnwrapFailed token wrapped_amount) (rs_confirm_unwrap S token unwrap_tx_hash))
         (\<lambda>unwrap_confirmation.
       tryr (map_err (\<lambda>error. RaindexWithdrawQuantityConversionFailed unwrap_tx_hash
                 (uc_assets unwrap_confirmation) (float_error_message error))
               (fl_from_fixed_decimal F (uc_assets unwrap_confirmation) TOKENIZED_EQUITY_DECIMALS)) (\<lambda>quantity.
       Inr [equity_redemption_event.TokensUnwrapped (Some quantity) underlying_token unwrap_tx_hash
              (uc_assets unwrap_confirmation) (Some (uc_block unwrap_confirmation)) now])))
   | _ \<Rightarrow> Inl (terminal_error r CannotUnwrapAlreadyStarted))"

fun transition_prepare_send ::
  "timestamp \<Rightarrow> 'f equity_redemption \<Rightarrow> equity_redemption_error + 'f equity_redemption_event list" where
  "transition_prepare_send pending_at r = (case r of
     equity_redemption.TokensUnwrapped _ _ _ _ _ _ _ _ _ _ \<Rightarrow>
       Inr [equity_redemption_event.SendPending pending_at]
   | _ \<Rightarrow> Inl (terminal_error r TokensNotUnwrapped))"

fun transition_send_tokens ::
  "redemption_services \<times> timestamp \<Rightarrow> 'f equity_redemption \<Rightarrow>
   equity_redemption_error + 'f equity_redemption_event list" where
  "transition_send_tokens (S, now) r = (case r of
     equity_redemption.SendPending _ _ _ underlying_token _ _ unwrapped_amount unwrap_block _ _ \<Rightarrow>
       (case rs_redemption_wallet S of
          None \<Rightarrow> Inr [TransferFailed None None now]
        | Some redemption_wallet \<Rightarrow>
            tryr (wait_if_known (\<lambda>block. map_err (node_sync_failed_from_evm block)
                     (rs_tokenizer_wait_for_block S block)) unwrap_block) (\<lambda>_.
            case rs_send_for_redemption S underlying_token unwrapped_amount of
              Inr redemption_tx \<Rightarrow>
                Inr [equity_redemption_event.TokensSent redemption_wallet redemption_tx now]
            | Inl _ \<Rightarrow> Inr [TransferFailed None None now]))
   | _ \<Rightarrow> Inl (terminal_error r TokensNotUnwrapped))"

fun transition_detect ::
  "tokenization_request_id \<Rightarrow> timestamp \<Rightarrow> 'f equity_redemption \<Rightarrow>
   equity_redemption_error + 'f equity_redemption_event list" where
  "transition_detect tokenization_request_id detected_at r = (case r of
     equity_redemption.TokensSent _ _ _ _ _ _ _ _ \<Rightarrow>
       Inr [Detected tokenization_request_id detected_at]
   | equity_redemption.Pending _ _ _ _ _ _ \<Rightarrow> Inl AlreadyDetected
   | _ \<Rightarrow> Inl (terminal_error r TokensNotSent))"

fun transition_complete ::
  "timestamp \<Rightarrow> 'f equity_redemption \<Rightarrow> equity_redemption_error + 'f equity_redemption_event list" where
  "transition_complete completed_at r = (case r of
     equity_redemption.Pending _ _ _ _ _ _ \<Rightarrow> Inr [equity_redemption_event.Completed completed_at]
   | _ \<Rightarrow> Inl (terminal_error r NotPending))"

fun redemption_transition ::
  "'f float_ops \<Rightarrow> redemption_services \<times> timestamp \<Rightarrow> 'f equity_redemption \<Rightarrow>
   'f equity_redemption_command \<Rightarrow> equity_redemption_error + 'f equity_redemption_event list" where
  "redemption_transition F sv r (Redeem _ _ _ _) = Inl (terminal_error r AlreadyStarted)"
| "redemption_transition F sv r SubmitWithdraw = transition_submit_withdraw sv r"
| "redemption_transition F sv r ConfirmWithdraw = transition_confirm_withdraw sv r"
| "redemption_transition F sv r UnwrapTokens = transition_unwrap_tokens (snd sv) r"
| "redemption_transition F sv r SubmitUnwrap = transition_submit_unwrap sv r"
| "redemption_transition F sv r ConfirmUnwrap = transition_confirm_unwrap F sv r"
| "redemption_transition F sv r PrepareSend = transition_prepare_send (snd sv) r"
| "redemption_transition F sv r SendTokens = transition_send_tokens sv r"
| "redemption_transition F sv r (Detect tokenization_request_id) =
     transition_detect tokenization_request_id (snd sv) r"
| "redemption_transition F sv r (FailDetection failure) = (case r of
     equity_redemption.TokensSent _ _ _ _ _ _ _ _ \<Rightarrow> Inr [DetectionFailed failure (snd sv)]
   | equity_redemption.Pending _ _ _ _ _ _ \<Rightarrow> Inl AlreadyDetected
   | _ \<Rightarrow> Inl (terminal_error r TokensNotSent))"
| "redemption_transition F sv r Complete = transition_complete (snd sv) r"
| "redemption_transition F sv r (RejectRedemption reason) = (case r of
     equity_redemption.Pending _ _ _ _ _ _ \<Rightarrow> Inr [RedemptionRejected reason (snd sv)]
   | _ \<Rightarrow> Inl (terminal_error r NotPendingForRejection))"
| "redemption_transition F sv r (equity_redemption_command.RecoverProviderCompletion
       tokenization_request_id) = (case r of
     Failed _ _ _ (Some _) _ _ _ _ \<Rightarrow>
       Inr [equity_redemption_event.ProviderCompletionRecovered tokenization_request_id (snd sv)]
   | equity_redemption.Completed _ _ _ _ _ _ \<Rightarrow> Inl AlreadyCompleted
   | Reconciled _ _ _ _ _ _ _ _ _ \<Rightarrow> Inl AlreadyReconciled
   | _ \<Rightarrow> Inl TokensNotSent)"
| "redemption_transition F sv r (FailTransfer reason) = (case r of
     equity_redemption.TokensSent _ _ _ _ _ _ _ _ \<Rightarrow> Inl AlreadyStarted
   | equity_redemption.Pending _ _ _ _ _ _ \<Rightarrow> Inl AlreadyStarted
   | equity_redemption.Completed _ _ _ _ _ _ \<Rightarrow> Inl AlreadyCompleted
   | Failed _ _ _ _ _ _ _ _ \<Rightarrow> Inl AlreadyFailed
   | Reconciled _ _ _ _ _ _ _ _ _ \<Rightarrow> Inl AlreadyReconciled
   | _ \<Rightarrow> Inr [TransferFailed None (Some reason) (snd sv)])"
| "redemption_transition F sv r (equity_redemption_command.Reconcile reason) = (case r of
     Failed _ _ _ _ _ _ _ _ \<Rightarrow>
       if trim_is_empty reason then Inl ReconcileReasonRequired
       else Inr [equity_redemption_event.OperatorReconciled reason (snd sv)]
   | Reconciled _ _ _ _ _ _ _ _ _ \<Rightarrow> Inl AlreadyReconciled
   | _ \<Rightarrow> Inl NotFailed)"

section \<open>Startup queries\<close>

text \<open>
  \<^verbatim>\<open>json_extract(payload, '$.Variant.field')\<close> on a stored event: the field when the event is
  of that variant, \<^verbatim>\<open>NULL\<close> otherwise. A \<^verbatim>\<open>TokensSent\<close> payload has no quantity.
\<close>

fun payload_symbol :: "'f equity_redemption_event \<Rightarrow> symbol option" where
  "payload_symbol (equity_redemption_event.VaultWithdrawPending symbol _ _ _ _) = Some symbol"
| "payload_symbol (equity_redemption_event.VaultWithdrawSubmitted symbol _ _ _ _ _) = Some symbol"
| "payload_symbol (equity_redemption_event.WithdrawnFromRaindex symbol _ _ _ _ _ _ _) = Some symbol"
| "payload_symbol _ = None"

fun payload_requested_quantity :: "'f equity_redemption_event \<Rightarrow> 'f option" where
  "payload_requested_quantity (equity_redemption_event.VaultWithdrawPending _ q _ _ _) = Some q"
| "payload_requested_quantity (equity_redemption_event.VaultWithdrawSubmitted _ q _ _ _ _) = Some q"
| "payload_requested_quantity (equity_redemption_event.WithdrawnFromRaindex _ q _ _ _ _ _ _) = Some q"
| "payload_requested_quantity _ = None"

fun payload_unwrapped_quantity :: "'f equity_redemption_event \<Rightarrow> 'f option" where
  "payload_unwrapped_quantity (equity_redemption_event.TokensUnwrapped q _ _ _ _ _) = q"
| "payload_unwrapped_quantity _ = None"

fun payload_unwrapped_amount :: "'f equity_redemption_event \<Rightarrow> u256 option" where
  "payload_unwrapped_amount (equity_redemption_event.TokensUnwrapped _ _ _ a _ _) = Some a"
| "payload_unwrapped_amount _ = None"

datatype stuck_redemption_recovery_error =
    Persistence string
  | InvalidActualWrappedAmount redemption_aggregate_id
  | InvalidRequestedQuantity redemption_aggregate_id

text \<open>The text forms the rows carry: identifiers, decimal floats and 256-bit integers.\<close>

record 'f row_codec =
  cd_parse_uuid :: "string \<Rightarrow> string + uuid"
  cd_float_text :: "'f \<Rightarrow> string"
  cd_parse_float :: "string \<Rightarrow> float_error + 'f"
  cd_u256_text :: "u256 \<Rightarrow> string"
  cd_parse_u256 :: "string \<Rightarrow> string + u256"

definition parse_stuck_symbol :: "string option \<Rightarrow> symbol option" where
  "parse_stuck_symbol raw = (case raw of None \<Rightarrow> None | Some value \<Rightarrow> result_ok (symbol_new value))"

definition parse_requested_stuck_quantity ::
  "'f row_codec \<Rightarrow> redemption_aggregate_id \<Rightarrow> string option \<Rightarrow>
   stuck_redemption_recovery_error + 'f fractional_shares option" where
  "parse_requested_stuck_quantity C aggregate_id raw = (case raw of
     None \<Rightarrow> Inr None
   | Some value \<Rightarrow>
       tryr (map_err (\<lambda>_. InvalidRequestedQuantity aggregate_id) (cd_parse_float C value)) (\<lambda>quantity.
       Inr (Some (FractionalShares quantity))))"

definition parse_stuck_quantity ::
  "'f float_ops \<Rightarrow> 'f row_codec \<Rightarrow> redemption_aggregate_id \<Rightarrow> string option \<Rightarrow> string option \<Rightarrow>
   stuck_redemption_recovery_error + 'f fractional_shares option" where
  "parse_stuck_quantity F C aggregate_id raw_quantity raw_wrapped_amount =
     (if raw_quantity \<noteq> None then parse_requested_stuck_quantity C aggregate_id raw_quantity
      else case raw_wrapped_amount of
        Some value \<Rightarrow>
          tryr (map_err (\<lambda>_. InvalidActualWrappedAmount aggregate_id) (cd_parse_u256 C value)) (\<lambda>amount.
          tryr (map_err (\<lambda>_. InvalidActualWrappedAmount aggregate_id)
                  (fl_from_fixed_decimal F amount TOKENIZED_EQUITY_DECIMALS)) (\<lambda>quantity.
          Inr (Some (FractionalShares quantity))))
      | None \<Rightarrow> parse_requested_stuck_quantity C aggregate_id raw_quantity)"

definition stuck_redemption_event_types :: "string list" where
  "stuck_redemption_event_types =
     [''EquityRedemptionEvent::DetectionFailed'', ''EquityRedemptionEvent::RedemptionRejected'']"

text \<open>
  The columns of the query for one latest row: the inner join on the first event drops a stream
  without a row at sequence 0; the latest \<^verbatim>\<open>TokensUnwrapped\<close> row is a left join.
\<close>

definition stuck_columns ::
  "'f row_codec \<Rightarrow> 'f equity_redemption_event event_row list \<Rightarrow> 'f equity_redemption_event event_row \<Rightarrow>
   (string \<times> string option \<times> string option \<times> string option) option" where
  "stuck_columns C rows last_ev =
     map_option (\<lambda>first_ev.
       let unwrapped_ev = latest_of_type rows ''EquityRedemption'' (er_aggregate_id last_ev)
             ''EquityRedemptionEvent::TokensUnwrapped''
       in (er_aggregate_id last_ev, payload_symbol (er_payload first_ev),
           map_option (cd_float_text C)
             (option_or (Option.bind unwrapped_ev (\<lambda>r. payload_unwrapped_quantity (er_payload r)))
               (payload_requested_quantity (er_payload first_ev))),
           map_option (cd_u256_text C)
             (Option.bind unwrapped_ev (\<lambda>r. payload_unwrapped_amount (er_payload r)))))
     (row_at rows ''EquityRedemption'' (er_aggregate_id last_ev) 0)"

definition stuck_rows ::
  "'f row_codec \<Rightarrow> 'f equity_redemption_event event_row list \<Rightarrow>
   (string \<times> string option \<times> string option \<times> string option) list" where
  "stuck_rows C rows = List.map_filter (stuck_columns C rows)
     (filter (\<lambda>r. er_event_type r \<in> set stuck_redemption_event_types)
       (latest_rows rows ''EquityRedemption''))"

fun add_stuck_row ::
  "'f float_ops \<Rightarrow> 'f row_codec \<Rightarrow> (symbol \<rightharpoonup> 'f fractional_shares) \<Rightarrow>
   string \<times> string option \<times> string option \<times> string option \<Rightarrow>
   stuck_redemption_recovery_error + (symbol \<rightharpoonup> 'f fractional_shares)" where
  "add_stuck_row F C result (raw_aggregate_id, raw_symbol, raw_quantity, raw_wrapped_amount) =
     (case cd_parse_uuid C raw_aggregate_id of
        Inl _ \<Rightarrow> Inr result
      | Inr uuid \<Rightarrow> (case parse_stuck_symbol raw_symbol of
          None \<Rightarrow> Inr result
        | Some symbol \<Rightarrow>
            tryr (parse_stuck_quantity F C (RedemptionAggregateId uuid) raw_quantity raw_wrapped_amount)
              (\<lambda>parsed. case parsed of
                 None \<Rightarrow> Inr result
               | Some quantity \<Rightarrow>
                   (let entry = (case result symbol of Some e \<Rightarrow> e | None \<Rightarrow> shares_ZERO F)
                    in case shares_add F entry quantity of
                        Inr added \<Rightarrow> Inr (result(symbol \<mapsto> added))
                      | Inl _ \<Rightarrow> Inr (result(symbol \<mapsto> entry))))))"

definition symbols_with_stuck_redemptions ::
  "'f float_ops \<Rightarrow> 'f row_codec \<Rightarrow> 'f equity_redemption_event event_row list \<Rightarrow>
   stuck_redemption_recovery_error + (symbol \<rightharpoonup> 'f fractional_shares)" where
  "symbols_with_stuck_redemptions F C rows = try_fold (add_stuck_row F C) Map.empty (stuck_rows C rows)"

definition active_redemption_event_types :: "string list" where
  "active_redemption_event_types = [
     ''EquityRedemptionEvent::VaultWithdrawPending'',
     ''EquityRedemptionEvent::VaultWithdrawSubmitted'',
     ''EquityRedemptionEvent::WithdrawnFromRaindex'',
     ''EquityRedemptionEvent::UnwrapPending'',
     ''EquityRedemptionEvent::UnwrapSubmitted'',
     ''EquityRedemptionEvent::TokensUnwrapped'',
     ''EquityRedemptionEvent::SendPending'',
     ''EquityRedemptionEvent::TokensSent'',
     ''EquityRedemptionEvent::Detected'']"

definition symbols_with_active_transfers :: "'f equity_redemption_event event_row list \<Rightarrow> symbol set" where
  "symbols_with_active_transfers rows = set (List.map_filter
     (\<lambda>last_ev. Option.bind (row_at rows ''EquityRedemption'' (er_aggregate_id last_ev) 0)
        (\<lambda>first_ev. Option.bind (payload_symbol (er_payload first_ev)) (\<lambda>value. result_ok (symbol_new value))))
     (filter (\<lambda>r. er_event_type r \<in> set active_redemption_event_types)
       (latest_rows rows ''EquityRedemption'')))"

definition interrupted_redemption_ids ::
  "(string \<Rightarrow> string + uuid) \<Rightarrow> 'p event_row list \<Rightarrow> redemption_aggregate_id list" where
  "interrupted_redemption_ids parse_id rows =
     List.map_filter (\<lambda>aggregate_id. result_ok (map_ok RedemptionAggregateId (parse_id aggregate_id)))
       (ids_with_last_event_in rows ''EquityRedemption'' active_redemption_event_types)"

section \<open>Reachable redemptions\<close>

abbreviation redemption_replay ::
  "'f equity_redemption lifecycle \<Rightarrow> 'f equity_redemption_event list \<Rightarrow> 'f equity_redemption lifecycle" where
  "redemption_replay \<equiv> replay redemption_originate redemption_evolve"

abbreviation redemption_log ::
  "'f float_ops \<Rightarrow> 'f equity_redemption_event list \<Rightarrow>
   ((redemption_services \<times> timestamp) \<times> 'f equity_redemption_command) list \<Rightarrow>
   'f equity_redemption_event list" where
  "redemption_log F \<equiv> command_log redemption_originate redemption_evolve redemption_initialize
     (redemption_transition F)"

text \<open>
  A sound redemption: from the confirmed withdrawal on it knows the block the next write has to
  wait for and a positive amount of wrapped tokens; its quantity from the unwrapping on is the
  unwrapped amount in shares; tokens are sent only unwrapped.
\<close>

fun redemption_inv :: "'f float_ops \<Rightarrow> 'f equity_redemption \<Rightarrow> bool" where
  "redemption_inv F (equity_redemption.WithdrawnFromRaindex _ _ _ a _ b _) \<longleftrightarrow> a \<noteq> 0 \<and> b \<noteq> None"
| "redemption_inv F (equity_redemption.UnwrapPending _ _ _ a _ b _) \<longleftrightarrow> a \<noteq> 0 \<and> b \<noteq> None"
| "redemption_inv F (equity_redemption.UnwrapSubmitted _ _ _ a _ b _ _) \<longleftrightarrow> a \<noteq> 0 \<and> b \<noteq> None"
| "redemption_inv F (equity_redemption.TokensUnwrapped _ q _ _ _ _ a b _ _) \<longleftrightarrow>
     fl_from_fixed_decimal F a TOKENIZED_EQUITY_DECIMALS = Inr q \<and> b \<noteq> None"
| "redemption_inv F (equity_redemption.SendPending _ q _ _ _ _ a b _ _) \<longleftrightarrow>
     fl_from_fixed_decimal F a TOKENIZED_EQUITY_DECIMALS = Inr q \<and> b \<noteq> None"
| "redemption_inv F (equity_redemption.TokensSent _ _ _ _ utx _ _ _) \<longleftrightarrow> utx \<noteq> None"
| "redemption_inv F _ \<longleftrightarrow> True"

fun redemption_symbol :: "'f equity_redemption \<Rightarrow> symbol" where
  "redemption_symbol (equity_redemption.VaultWithdrawPending s _ _ _ _) = s"
| "redemption_symbol (equity_redemption.VaultWithdrawSubmitted s _ _ _ _ _) = s"
| "redemption_symbol (equity_redemption.WithdrawnFromRaindex s _ _ _ _ _ _) = s"
| "redemption_symbol (equity_redemption.UnwrapPending s _ _ _ _ _ _) = s"
| "redemption_symbol (equity_redemption.UnwrapSubmitted s _ _ _ _ _ _ _) = s"
| "redemption_symbol (equity_redemption.TokensUnwrapped s _ _ _ _ _ _ _ _ _) = s"
| "redemption_symbol (equity_redemption.SendPending s _ _ _ _ _ _ _ _ _) = s"
| "redemption_symbol (equity_redemption.TokensSent s _ _ _ _ _ _ _) = s"
| "redemption_symbol (equity_redemption.Pending s _ _ _ _ _) = s"
| "redemption_symbol (equity_redemption.Completed s _ _ _ _ _) = s"
| "redemption_symbol (Failed s _ _ _ _ _ _ _) = s"
| "redemption_symbol (Reconciled s _ _ _ _ _ _ _ _) = s"

lemma withdrawn_amount_pos: "actual_withdrawn_amount_from_receipt S rc t o' = Inr a \<Longrightarrow> a \<noteq> 0"
  by (auto simp: actual_withdrawn_amount_from_receipt_def split: if_splits)

text \<open>An accepted command emits one event, which the entity accepts; the symbol never changes.\<close>

lemma redemption_transition_step:
  assumes "redemption_transition F sv r c = Inr evs"
  obtains e r' where "evs = [e]" "redemption_evolve r e = Inr (Some r')"
    "redemption_symbol r' = redemption_symbol r" "redemption_inv F r \<Longrightarrow> redemption_inv F r'"
  using assms
  by (cases c; cases r; cases sv)
    (auto simp: resolve_withdrawn_wrapped_amount_def dest: withdrawn_amount_pos
      split: sum.splits option.splits if_splits)

interpretation ragg: aggregate redemption_originate redemption_evolve redemption_initialize
  "redemption_transition F" "redemption_inv F" for F
proof unfold_locales
  fix sv c and evs :: "'a equity_redemption_event list"
  assume "redemption_initialize sv c = Inr evs"
  then show "\<exists>s. redemption_replay Uninitialized evs = Live s \<and> redemption_inv F s"
    by (cases "(sv, c)" rule: redemption_initialize.cases) auto
next
  fix s sv c and evs :: "'a equity_redemption_event list"
  assume "redemption_inv F s" and "redemption_transition F sv s c = Inr evs"
  then show "\<exists>s'. redemption_replay (Live s) evs = Live s' \<and> redemption_inv F s'"
    by (elim redemption_transition_step) (auto simp del: redemption_evolve.simps)
qed

lemma redemption_log_alive: "redemption_replay Uninitialized (redemption_log F [] cs) \<noteq> FailedLifecycle"
  by (rule ragg.commands_never_fail)

text \<open>
  Every redemption that commands can reach is sound: no command sequence, whatever the vault,
  the wrapper and the provider answer, fails the lifecycle; after the confirmed withdrawal the
  block to wait for is known before every dependent write and the withdrawn amount is positive;
  from the unwrapping until the transfer the quantity is the unwrapped amount in shares; and
  tokens are never sent without having been unwrapped.
\<close>

theorem reachable_redemptions_are_sound:
  "redemption_replay Uninitialized (redemption_log F [] cs) \<noteq> FailedLifecycle \<and>
   (\<forall>r. redemption_replay Uninitialized (redemption_log F [] cs) = Live r \<longrightarrow> redemption_inv F r)"
  using ragg.commands_never_fail ragg.commands_invariant by blast

definition demo_transfer_log :: evm_log where
  "demo_transfer_log = \<lparr>log_address = 3, log_topics = [1], log_data = []\<rparr>"

definition demo_services :: redemption_services where
  "demo_services = \<lparr>
     rs_vault_id_for_token = (\<lambda>_. Inr 1),
     rs_submit_withdraw = (\<lambda>_ _ _ _. Inr 11),
     rs_confirm_tx_receipt = (\<lambda>h. Inr \<lparr>rc_transaction_hash = h, rc_block_number = Some 100,
        rc_logs = [demo_transfer_log]\<rparr>),
     rs_transfer_signature = 1,
     rs_decode_transfer = (\<lambda>_. Inr \<lparr>transfer_from = 5, transfer_to = 4, transfer_value = 2000000000000000000\<rparr>),
     rs_owner = 4,
     rs_wrapper_wait_for_block = (\<lambda>_. Inr ()),
     rs_submit_unwrap = (\<lambda>_ _ _ _. Inr 12),
     rs_lookup_underlying = (\<lambda>_. Inr 6),
     rs_confirm_unwrap = (\<lambda>_ _. Inr \<lparr>uc_assets = 2000000000000000000, uc_block = 101\<rparr>),
     rs_redemption_wallet = Some 8,
     rs_tokenizer_wait_for_block = (\<lambda>_. Inr ()),
     rs_send_for_redemption = (\<lambda>_ _. Inr 13)\<rparr>"

definition demo_redemption_commands ::
  "((redemption_services \<times> timestamp) \<times> rat equity_redemption_command) list" where
  "demo_redemption_commands = map (\<lambda>c. ((demo_services, 1), c))
     [Redeem ''AAPL'' 5 3 5000000000000000000, SubmitWithdraw, ConfirmWithdraw, UnwrapTokens,
      SubmitUnwrap, ConfirmUnwrap, PrepareSend, SendTokens]"

lemma demo_two_shares:
  "fl_from_fixed_decimal (bounded_rat 100) 2000000000000000000 TOKENIZED_EQUITY_DECIMALS = Inr 2"
  by (simp add: bounded_rat_def TOKENIZED_EQUITY_DECIMALS_def)

lemma demo_checked_add: "u256_checked_add 0 a = Some a"
  by simp

lemmas redemption_eval = demo_redemption_commands_def demo_services_def demo_transfer_log_def
  demo_two_shares actual_withdrawn_amount_from_receipt_def first_topic_def demo_checked_add
  wait_if_known_def resolve_withdrawn_wrapped_amount_def

lemma demo_redemption_unwrapped:
  "redemption_replay Uninitialized (redemption_log (bounded_rat 100) [] (take 6 demo_redemption_commands)) =
   Live (equity_redemption.TokensUnwrapped ''AAPL'' 2 3 6 11 12 2000000000000000000 (Some 101) 1 1)"
  by (simp add: redemption_eval)

theorem reachable_redemptions_are_sound_witness:
  "redemption_inv (bounded_rat 100)
     (equity_redemption.TokensUnwrapped ''AAPL'' 2 3 6 11 12 2000000000000000000 (Some 101) 1 1)"
  using reachable_redemptions_are_sound [of "bounded_rat 100" "take 6 demo_redemption_commands"]
  by (simp add: demo_redemption_unwrapped del: redemption_inv.simps)

section \<open>The recorded transfer is the one that was sent\<close>

fun recorded_redemption_tx :: "'f equity_redemption \<Rightarrow> tx_hash option" where
  "recorded_redemption_tx (equity_redemption.TokensSent _ _ _ _ _ _ tx _) = Some tx"
| "recorded_redemption_tx (equity_redemption.Pending _ _ tx _ _ _) = Some tx"
| "recorded_redemption_tx (equity_redemption.Completed _ _ tx _ _ _) = Some tx"
| "recorded_redemption_tx (Failed _ _ _ tx _ _ _ _) = tx"
| "recorded_redemption_tx (Reconciled _ _ _ tx _ _ _ _ _) = tx"
| "recorded_redemption_tx _ = None"

fun sent_step :: "tx_hash option \<Rightarrow> 'f equity_redemption_event \<Rightarrow> tx_hash option" where
  "sent_step tx (equity_redemption_event.TokensSent _ tx' _) = Some tx'"
| "sent_step tx (TransferFailed tx' _ _) = tx'"
| "sent_step tx _ = tx"

interpretation rsent: log_abstraction redemption_originate redemption_evolve recorded_redemption_tx
  None sent_step
proof unfold_locales
  fix e :: "'a equity_redemption_event" and s
  assume "redemption_originate e = Some s"
  then show "recorded_redemption_tx s = sent_step None e" by (cases e) auto
next
  fix s s' :: "'a equity_redemption" and e
  assume "redemption_evolve s e = Inr (Some s')"
  then show "recorded_redemption_tx s' = sent_step (recorded_redemption_tx s) e"
    by (cases e; cases s) (auto split: option.splits)
qed

fun is_send_of :: "tx_hash \<Rightarrow> 'f equity_redemption_event \<Rightarrow> bool" where
  "is_send_of tx (equity_redemption_event.TokensSent _ tx' _) \<longleftrightarrow> tx' = tx"
| "is_send_of tx _ \<longleftrightarrow> False"

text \<open>Commands never put a transaction on a failed transfer, so the fold reports real sends.\<close>

lemma command_failures_carry_no_tx:
  "redemption_transition F sv r c = Inr evs \<Longrightarrow> TransferFailed tx reason t \<in> set evs \<Longrightarrow> tx = None"
  by (cases c; cases r; cases sv) (auto split: sum.splits option.splits if_splits)

lemma sent_fold:
  assumes "\<And>tx' reason t. TransferFailed tx' reason t \<in> set l \<Longrightarrow> tx' = None"
    and "foldl sent_step a l = Some tx"
  shows "a = Some tx \<or> (\<exists>e\<in>set l. is_send_of tx e)"
  using assms
proof (induction l rule: rev_induct)
  case (snoc e l)
  then show ?case by (cases e) auto
qed simp

lemma redemption_log_failures:
  assumes "redemption_replay Uninitialized (redemption_log F [] cs) = Live r"
  shows "TransferFailed tx reason t \<in> set (redemption_log F [] cs) \<Longrightarrow> tx = None"
  using assms
proof (induction arbitrary: tx reason t rule: ragg.commands_induct)
  case (init sv c evs s)
  then show ?case by (cases "(sv, c)" rule: redemption_initialize.cases) auto
next
  case (step l s sv c evs s')
  then show ?case using command_failures_carry_no_tx [OF step(3)] by auto
qed

text \<open>
  C23. A failed redemption can be completed after the fact only if its tokens did leave: when the
  provider's late completion is accepted, the log holds the transfer to the provider's wallet,
  the redemption ends as completed under that very transaction and the provider's request, and no
  further command changes it.
\<close>

theorem recovery_only_after_send:
  assumes r: "redemption_replay Uninitialized (redemption_log F [] cs) = Live r"
    and acc: "redemption_transition F sv r (equity_redemption_command.RecoverProviderCompletion k) = Inr evs"
  shows "\<exists>tx s q t t'. (\<exists>e\<in>set (redemption_log F [] cs). is_send_of tx e) \<and>
    redemption_replay (Live r) evs = Live (equity_redemption.Completed s q tx k t t') \<and>
    (\<forall>sv' c evs'. redemption_transition F sv' (equity_redemption.Completed s q tx k t t') c \<noteq> Inr evs')"
proof -
  obtain s q w tx k' reason t t' where failed: "r = Failed s q w (Some tx) k' reason t t'"
    and evs: "evs = [equity_redemption_event.ProviderCompletionRecovered k (snd sv)]"
    using acc by (auto split: equity_redemption.splits option.splits)
  have "foldl sent_step None (redemption_log F [] cs) = Some tx"
    using rsent.replay_abs [OF r] failed by simp
  from sent_fold [OF redemption_log_failures [OF r] this]
  have "\<exists>e\<in>set (redemption_log F [] cs). is_send_of tx e" by simp
  moreover have "redemption_transition F sv' (equity_redemption.Completed s q tx k t (snd sv)) c \<noteq> Inr evs'"
    for sv' c evs' by (cases c; cases sv') auto
  ultimately show ?thesis using failed evs by auto
qed

theorem recovery_only_after_send_witness:
  "\<exists>tx s q t t'. (\<exists>e\<in>set (redemption_log (bounded_rat 100) []
       (demo_redemption_commands @ [((demo_services, 2), FailDetection Timeout)])). is_send_of tx e) \<and>
    redemption_replay (Live (Failed ''AAPL'' (2 :: rat) (Some 11) (Some 13) None None 1 2))
      [equity_redemption_event.ProviderCompletionRecovered (TokenizationRequestId ''x'') 9] =
      Live (equity_redemption.Completed s q tx (TokenizationRequestId ''x'') t t')"
proof -
  let ?cs = "demo_redemption_commands @ [((demo_services, 2), FailDetection Timeout)]"
  have "redemption_replay Uninitialized (redemption_log (bounded_rat 100) [] ?cs) =
      Live (Failed ''AAPL'' 2 (Some 11) (Some 13) None None 1 2)"
    by (simp add: redemption_eval)
  moreover have "redemption_transition (bounded_rat 100) (demo_services, 9)
      (Failed ''AAPL'' 2 (Some 11) (Some 13) None None 1 2)
      (equity_redemption_command.RecoverProviderCompletion (TokenizationRequestId ''x'')) =
      Inr [equity_redemption_event.ProviderCompletionRecovered (TokenizationRequestId ''x'') 9]"
    by simp
  note recovery_only_after_send [OF calculation this]
  then show ?thesis by (elim exE conjE) (intro exI conjI)
qed

section \<open>Startup queries and the state\<close>

interpretation rlast: last_event_class redemption_originate redemption_evolve
  "\<lambda>e. redemption_event_type e \<in> set active_redemption_event_types" "\<lambda>r. \<not> redemption_is_terminal r"
proof unfold_locales
  fix e :: "'a equity_redemption_event" and s
  assume "redemption_originate e = Some s"
  then show "redemption_event_type e \<in> set active_redemption_event_types \<longleftrightarrow> \<not> redemption_is_terminal s"
    by (cases e) (auto simp: active_redemption_event_types_def)
next
  fix s s' :: "'a equity_redemption" and e
  assume "redemption_evolve s e = Inr (Some s')"
  then show "redemption_event_type e \<in> set active_redemption_event_types \<longleftrightarrow> \<not> redemption_is_terminal s'"
    by (cases e; cases s) (auto simp: active_redemption_event_types_def split: option.splits)
qed

lemma interrupted_redemptions_exact:
  assumes "distinct (map fst streams)"
    and logs: "\<And>i l. (i, l) \<in> set streams \<Longrightarrow> \<exists>cs. l = redemption_log F [] cs"
  shows "set (interrupted_redemption_ids parse_id
      (store_rows start ''EquityRedemption'' redemption_event_type streams)) =
    {RedemptionAggregateId u | u i l r. (i, l) \<in> set streams \<and> parse_id i = Inr u \<and>
      redemption_replay Uninitialized l = Live r \<and> \<not> redemption_is_terminal r}"
proof -
  have alive: "redemption_replay Uninitialized l \<noteq> FailedLifecycle" if "(i, l) \<in> set streams" for i l
    using logs [OF that] redemption_log_alive by blast
  have "set (List.map_filter (\<lambda>i. result_ok (map_ok RedemptionAggregateId (parse_id i))) is) =
      {RedemptionAggregateId u | u i. i \<in> set is \<and> parse_id i = Inr u}" for "is"
    by (force simp: List.map_filter_def)
  then show ?thesis
    using rlast.ids_by_state [OF assms(1) alive refl]
    by (simp add: interrupted_redemption_ids_def) blast
qed

text \<open>The first event of a live redemption names its symbol.\<close>

lemma redemption_first_symbol:
  assumes "redemption_replay Uninitialized (redemption_log F [] cs) = Live r"
  shows "\<exists>e l. redemption_log F [] cs = e # l \<and> payload_symbol e = Some (redemption_symbol r)"
  using assms
proof (induction rule: ragg.commands_induct)
  case (init sv c evs s)
  then show ?case by (cases "(sv, c)" rule: redemption_initialize.cases) auto
next
  case (step l s sv c evs s')
  from step(3) obtain e s1 where "evs = [e]" "redemption_evolve s e = Inr (Some s1)"
      "redemption_symbol s1 = redemption_symbol s"
    by (rule redemption_transition_step)
  with step(1,4) show ?case by (auto simp del: redemption_evolve.simps)
qed

lemma active_transfers_from_zero:
  assumes ids: "distinct (map fst streams)"
    and logs: "\<forall>(i, l)\<in>set streams. \<exists>cs. l = redemption_log F [] cs"
  shows "s \<in> symbols_with_active_transfers (store_rows 0 ''EquityRedemption'' redemption_event_type streams) \<longleftrightarrow>
    (\<exists>(i, l)\<in>set streams. \<exists>r. redemption_replay Uninitialized l = Live r \<and> \<not> redemption_is_terminal r \<and>
      symbol_new (redemption_symbol r) = Inr s)"
proof -
  let ?rows = "store_rows 0 ''EquityRedemption'' redemption_event_type streams"
  have first: "row_at ?rows ''EquityRedemption'' i 0 =
      Some (stored_row 0 ''EquityRedemption'' redemption_event_type i l 0)"
    if "(i, l) \<in> set streams" "l \<noteq> []" for i l
    using row_at_store [OF ids that(1), of 0 0] that(2) by simp
  have cls: "l \<noteq> [] \<and> redemption_event_type (last l) \<in> set active_redemption_event_types \<longleftrightarrow>
      (\<exists>r. redemption_replay Uninitialized l = Live r \<and> \<not> redemption_is_terminal r)"
    if il: "(i, l) \<in> set streams" for i l
  proof (cases "redemption_replay Uninitialized l")
    case Uninitialized
    then show ?thesis by (simp add: replay_Uninitialized_Nil)
  next
    case (Live r)
    with rlast.replay_class [OF Live] show ?thesis by simp
  next
    case FailedLifecycle
    with il logs redemption_log_alive show ?thesis by fastforce
  qed
  have sym: "payload_symbol (l ! 0) = Some (redemption_symbol r)"
    if "(i, l) \<in> set streams" "redemption_replay Uninitialized l = Live r" for i l r
    using that logs redemption_first_symbol [of F] by fastforce
  let ?sym = "\<lambda>e. Option.bind (payload_symbol e) (\<lambda>value. result_ok (symbol_new value))"
  have "s \<in> symbols_with_active_transfers ?rows \<longleftrightarrow> (\<exists>(i, l)\<in>set streams. l \<noteq> [] \<and>
      redemption_event_type (l ! (length l - 1)) \<in> set active_redemption_event_types \<and>
      Option.bind (row_at ?rows ''EquityRedemption'' i 0) (\<lambda>first_ev. ?sym (er_payload first_ev)) = Some s)"
    by (force simp: symbols_with_active_transfers_def List.map_filter_def set_latest_store [OF ids])
  also have "\<dots> \<longleftrightarrow> (\<exists>(i, l)\<in>set streams. (l \<noteq> [] \<and>
      redemption_event_type (last l) \<in> set active_redemption_event_types) \<and> ?sym (l ! 0) = Some s)"
    by (intro bex_cong refl) (auto simp: first last_conv_nth)
  also have "\<dots> \<longleftrightarrow> (\<exists>(i, l)\<in>set streams. \<exists>r. redemption_replay Uninitialized l = Live r \<and>
      \<not> redemption_is_terminal r \<and> symbol_new (redemption_symbol r) = Inr s)"
  proof (intro bex_cong refl, clarify)
    fix i l assume il: "(i, l) \<in> set streams"
    show "(l \<noteq> [] \<and> redemption_event_type (last l) \<in> set active_redemption_event_types) \<and>
        ?sym (l ! 0) = Some s \<longleftrightarrow> (\<exists>r. redemption_replay Uninitialized l = Live r \<and>
        \<not> redemption_is_terminal r \<and> symbol_new (redemption_symbol r) = Inr s)"
      using sym [OF il] unfolding cls [OF il] by auto
  qed
  finally show ?thesis .
qed

text \<open>
  The query that suppresses hedging during redemptions reads the first event at sequence 0:
  over a table numbered from 0 it returns exactly the symbols of the redemptions in progress,
  over a table numbered from any other start, as the store's 1, 2, 3, it returns none, and the
  query for stuck redemptions then restores nothing.
\<close>

theorem transfer_queries_need_sequence_zero:
  assumes ids: "distinct (map fst streams)"
    and logs: "\<forall>(i, l)\<in>set streams. \<exists>cs. l = redemption_log F [] cs"
  shows "symbols_with_active_transfers (store_rows start ''EquityRedemption'' redemption_event_type streams) =
      (if start = 0 then {s. \<exists>i l r. (i, l) \<in> set streams \<and> redemption_replay Uninitialized l = Live r \<and>
          \<not> redemption_is_terminal r \<and> symbol_new (redemption_symbol r) = Inr s} else {}) \<and>
    (start \<noteq> 0 \<longrightarrow> symbols_with_stuck_redemptions F C
      (store_rows start ''EquityRedemption'' redemption_event_type streams) = Inr Map.empty)"
proof (cases "start = 0")
  case False
  then show ?thesis
    by (auto simp: symbols_with_active_transfers_def symbols_with_stuck_redemptions_def stuck_rows_def
        stuck_columns_def row_at_before_start List.map_filter_def)
next
  case True
  with active_transfers_from_zero [OF assms] show ?thesis by (auto simp: set_eq_iff)
qed

definition demo_streams :: "(string \<times> rat equity_redemption_event list) list" where
  "demo_streams = [(''a'', redemption_log (bounded_rat 100) [] demo_redemption_commands)]"

lemma symbol_new_AAPL: "symbol_new ''AAPL'' = Inr ''AAPL''"
  by code_simp

theorem transfer_queries_need_sequence_zero_witness:
  "symbols_with_active_transfers (store_rows 1 ''EquityRedemption'' redemption_event_type demo_streams) = {} \<and>
   symbols_with_active_transfers (store_rows 0 ''EquityRedemption'' redemption_event_type demo_streams) = {''AAPL''}"
proof -
  have "distinct (map fst demo_streams)"
    and "\<forall>(i, l)\<in>set demo_streams. \<exists>cs. l = redemption_log (bounded_rat 100) [] cs"
    by (auto simp: demo_streams_def)
  note queries = transfer_queries_need_sequence_zero [OF this, of _ C for C]
  have "redemption_replay Uninitialized (redemption_log (bounded_rat 100) [] demo_redemption_commands) =
      Live (equity_redemption.TokensSent ''AAPL'' 2 6 11 (Some 12) 8 13 1)"
    by (simp add: redemption_eval)
  with queries [of 0] queries [of 1] show ?thesis
    by (auto simp: demo_streams_def symbol_new_AAPL simp del: redemption_evolve.simps)
qed

section \<open>Dashboard status\<close>

datatype equity_redemption_status =
    Withdrawing
  | Unwrapping
  | Sending
  | PendingConfirmation
  | Completed timestamp
  | Failed timestamp
  | Reconciled timestamp "string option" string

record 'f equity_redemption_operation =
  ero_id :: string
  ero_symbol :: symbol
  ero_quantity :: "'f fractional_shares"
  ero_status :: equity_redemption_status
  ero_started_at :: timestamp
  ero_updated_at :: timestamp

fun redemption_to_dto ::
  "(uuid \<Rightarrow> string) \<Rightarrow> 'f equity_redemption \<Rightarrow> redemption_aggregate_id \<Rightarrow> 'f equity_redemption_operation" where
  "redemption_to_dto uuid_str r (RedemptionAggregateId uuid) = (case r of
     equity_redemption.VaultWithdrawPending symbol quantity _ _ pending_at \<Rightarrow>
       \<lparr>ero_id = uuid_str uuid, ero_symbol = symbol, ero_quantity = FractionalShares quantity,
        ero_status = Withdrawing,
        ero_started_at = pending_at, ero_updated_at = pending_at\<rparr>
   | equity_redemption.VaultWithdrawSubmitted symbol quantity _ _ _ submitted_at \<Rightarrow>
       \<lparr>ero_id = uuid_str uuid, ero_symbol = symbol, ero_quantity = FractionalShares quantity,
        ero_status = Withdrawing,
        ero_started_at = submitted_at, ero_updated_at = submitted_at\<rparr>
   | equity_redemption.WithdrawnFromRaindex symbol quantity _ _ _ _ withdrawn_at \<Rightarrow>
       \<lparr>ero_id = uuid_str uuid, ero_symbol = symbol, ero_quantity = FractionalShares quantity,
        ero_status = Withdrawing,
        ero_started_at = withdrawn_at, ero_updated_at = withdrawn_at\<rparr>
   | equity_redemption.UnwrapPending symbol quantity _ _ _ _ withdrawn_at \<Rightarrow>
       \<lparr>ero_id = uuid_str uuid, ero_symbol = symbol, ero_quantity = FractionalShares quantity,
        ero_status = Unwrapping,
        ero_started_at = withdrawn_at, ero_updated_at = withdrawn_at\<rparr>
   | equity_redemption.UnwrapSubmitted symbol quantity _ _ _ _ _ withdrawn_at \<Rightarrow>
       \<lparr>ero_id = uuid_str uuid, ero_symbol = symbol, ero_quantity = FractionalShares quantity,
        ero_status = Unwrapping,
        ero_started_at = withdrawn_at, ero_updated_at = withdrawn_at\<rparr>
   | equity_redemption.TokensUnwrapped symbol quantity _ _ _ _ _ _ withdrawn_at unwrapped_at \<Rightarrow>
       \<lparr>ero_id = uuid_str uuid, ero_symbol = symbol, ero_quantity = FractionalShares quantity,
        ero_status = Unwrapping,
        ero_started_at = withdrawn_at, ero_updated_at = unwrapped_at\<rparr>
   | equity_redemption.SendPending symbol quantity _ _ _ _ _ _ withdrawn_at unwrapped_at \<Rightarrow>
       \<lparr>ero_id = uuid_str uuid, ero_symbol = symbol, ero_quantity = FractionalShares quantity,
        ero_status = Unwrapping,
        ero_started_at = withdrawn_at, ero_updated_at = unwrapped_at\<rparr>
   | equity_redemption.TokensSent symbol quantity _ _ _ _ _ sent_at \<Rightarrow>
       \<lparr>ero_id = uuid_str uuid, ero_symbol = symbol, ero_quantity = FractionalShares quantity,
        ero_status = Sending,
        ero_started_at = sent_at, ero_updated_at = sent_at\<rparr>
   | equity_redemption.Pending symbol quantity _ _ sent_at detected_at \<Rightarrow>
       \<lparr>ero_id = uuid_str uuid, ero_symbol = symbol, ero_quantity = FractionalShares quantity,
        ero_status = PendingConfirmation,
        ero_started_at = sent_at, ero_updated_at = detected_at\<rparr>
   | equity_redemption.Completed symbol quantity _ _ started_at completed_at \<Rightarrow>
       \<lparr>ero_id = uuid_str uuid, ero_symbol = symbol, ero_quantity = FractionalShares quantity,
        ero_status = equity_redemption_status.Completed completed_at,
        ero_started_at = started_at, ero_updated_at = completed_at\<rparr>
   | equity_redemption.Failed symbol quantity _ _ _ _ started_at failed_at \<Rightarrow>
       \<lparr>ero_id = uuid_str uuid, ero_symbol = symbol, ero_quantity = FractionalShares quantity,
        ero_status = equity_redemption_status.Failed failed_at,
        ero_started_at = started_at, ero_updated_at = failed_at\<rparr>
   | equity_redemption.Reconciled symbol quantity _ _ _ failure_reason reconcile_reason started_at reconciled_at \<Rightarrow>
       \<lparr>ero_id = uuid_str uuid, ero_symbol = symbol, ero_quantity = FractionalShares quantity,
        ero_status = equity_redemption_status.Reconciled reconciled_at failure_reason reconcile_reason,
        ero_started_at = started_at, ero_updated_at = reconciled_at\<rparr>)"

fun redemption_status_is_terminal :: "equity_redemption_status \<Rightarrow> bool" where
  "redemption_status_is_terminal (equity_redemption_status.Completed _) = True"
| "redemption_status_is_terminal (equity_redemption_status.Failed _) = True"
| "redemption_status_is_terminal (equity_redemption_status.Reconciled _ _ _) = True"
| "redemption_status_is_terminal _ = False"

lemma redemption_dto_terminal:
  "redemption_status_is_terminal (ero_status (redemption_to_dto u r i)) \<longleftrightarrow> redemption_is_terminal r"
  by (cases i; cases r) auto

section \<open>Where the code departs from its documentation\<close>

text \<open>A send that fails after the unwrapping ends the redemption as failed.\<close>

lemma send_failure_fails_redemption:
  assumes "rs_redemption_wallet S = Some w" and "rs_send_for_redemption S ut a = Inl err"
  shows "redemption_transition F (S, now) (equity_redemption.SendPending s q t ut wtx utx a None wa ua)
      SendTokens = Inr [TransferFailed None None now] \<and>
    redemption_replay (Live (equity_redemption.SendPending s q t ut wtx utx a None wa ua))
      [TransferFailed None None now] =
      Live (equity_redemption.Failed s q (Some wtx) None None None wa now)"
  using assms by (simp add: wait_if_known_def)

text \<open>A failed redemption whose tokens were sent can still be completed.\<close>

lemma failed_redemption_recovers:
  "\<exists>evs. redemption_transition F sv (equity_redemption.Failed s q w (Some tx) k reason t t')
      (equity_redemption_command.RecoverProviderCompletion k') = Inr evs \<and> evs \<noteq> []"
  by simp

end
