(* ===== verification/UsdcRebalance.thy ===== *)
theory UsdcRebalance
  imports Event_Table Execution_Types
begin

text \<open>
  The \<^verbatim>\<open>UsdcRebalance\<close> aggregate of \<^verbatim>\<open>src/usdc_rebalance.rs\<close>: one movement of USDC between
  Alpaca and Base through conversion, withdrawal, the CCTP bridge (burn, attestation, mint) and
  deposit, in either direction, with its failure, recovery and operator-reconciliation paths, the
  classifications startup recovery uses and the startup query. The \<^verbatim>\<open>*At\<close> commands of the test
  build are not modelled.
\<close>

section \<open>Vocabulary\<close>

datatype usdc_rebalance_id = UsdcRebalanceId uuid

type_synonym alpaca_transfer_id = uuid
type_synonym b256 = "256 word"
type_synonym bytes = "8 word list"

datatype transfer_ref = AlpacaId alpaca_transfer_id | OnchainTx tx_hash

datatype rebalance_direction = AlpacaToBase | BaseToAlpaca

record 'f conversion_amounts =
  source_amount :: "'f usdc"
  received_amount :: "'f usdc"

datatype reconcile_reason = FundsMovedManually | DepositCreditedOffline

fun reconcile_reason_to_string :: "reconcile_reason \<Rightarrow> string" where
  "reconcile_reason_to_string FundsMovedManually = ''funds moved manually''"
| "reconcile_reason_to_string DepositCreditedOffline = ''deposit credited offline''"

text \<open>\<^verbatim>\<open>PartialEq for Usdc\<close>: a comparison that errors is \<^verbatim>\<open>false\<close>.\<close>

definition usdc_eq :: "'f float_ops \<Rightarrow> 'f usdc \<Rightarrow> 'f usdc \<Rightarrow> bool" where
  "usdc_eq F a b = (case fl_eq F (usdc_inner a) (usdc_inner b) of Inl _ \<Rightarrow> False | Inr x \<Rightarrow> x)"

section \<open>Errors, commands, events, states\<close>

datatype 'f usdc_rebalance_error =
    AlreadyInitiated
  | ConversionNotInitiated
  | ConversionAlreadyCompleted
  | DepositNotConfirmed
  | WrongDirectionForPostDepositConversion
  | ConversionAmountMismatch "'f usdc" "'f usdc"
  | WithdrawalNotInitiated
  | WithdrawalAlreadyCompleted
  | WithdrawalNotConfirmed
  | InvalidBurnAmount "'f usdc" "'f usdc"
  | BurnAmountUncomparable "'f usdc" "'f usdc"
  | BridgingNotInitiated
  | AttestationNotReceived
  | BridgingAlreadyCompleted
  | BurnAlreadyRecorded
  | BridgingAlreadyStarted
  | BridgingNotCompleted
  | DepositNotInitiated
  | InvalidCommand string string

datatype 'f usdc_rebalance_command =
    InitiateConversion rebalance_direction "'f usdc" client_order_id
  | ConfirmConversion "'f conversion_amounts"
  | FailConversion string
  | InitiatePostDepositConversion client_order_id "'f usdc"
  | BeginWithdrawal rebalance_direction "'f usdc" u64
  | Initiate rebalance_direction "'f usdc" transfer_ref
  | ConfirmWithdrawal "tx_hash option"
  | BeginBridging u64 "'f usdc option"
  | InitiateBridging tx_hash
  | RecordPendingBurn tx_hash
  | ClearPendingBurn
  | ReceiveAttestation bytes b256 bytes u64
  | TimeoutAttestation timestamp
  | ConfirmBridging tx_hash "'f usdc" "'f usdc"
  | InitiateDeposit transfer_ref
  | ConfirmDeposit
  | FailWithdrawal string
  | FailBridging string
  | RecoverBridging tx_hash "'f usdc" "'f usdc"
  | FailDeposit string
  | ReconcileStuckRebalance reconcile_reason

datatype 'f usdc_rebalance_event =
    ConversionInitiated rebalance_direction "'f usdc" client_order_id timestamp
  | ConversionConfirmed rebalance_direction "'f conversion_amounts" timestamp
  | ConversionFailed string timestamp
  | WithdrawalSubmitting rebalance_direction "'f usdc" u64 timestamp
  | Initiated rebalance_direction "'f usdc" transfer_ref timestamp
  | WithdrawalConfirmed timestamp "tx_hash option"
  | WithdrawalFailed string timestamp
  | BridgingSubmitting u64 timestamp "'f usdc option"
  | BridgingInitiated tx_hash timestamp
  | PendingBurnRecorded tx_hash timestamp
  | PendingBurnCleared timestamp
  | BridgeAttestationReceived bytes b256 "bytes option" "u64 option" timestamp
  | AttestationTimedOut tx_hash timestamp timestamp
  | Bridged tx_hash "'f usdc" "'f usdc" timestamp
  | BridgingFailed "tx_hash option" "b256 option" string timestamp
  | BridgingCompletionRecovered tx_hash "'f usdc" "'f usdc" timestamp
  | DepositInitiated transfer_ref timestamp
  | DepositConfirmed rebalance_direction timestamp
  | DepositFailed "transfer_ref option" string timestamp
  | OperatorReconciled rebalance_direction "'f usdc" reconcile_reason timestamp timestamp

text \<open>
  Fields in the order of the source, e.g. \<open>BridgingSubmitting direction amount from_block
  initiated_at burn_amount pending_burn_tx\<close>.
\<close>

datatype 'f usdc_rebalance =
    Converting rebalance_direction "'f usdc" client_order_id timestamp
  | ConversionComplete rebalance_direction "'f usdc" "'f conversion_amounts" timestamp timestamp
  | ConversionFailed rebalance_direction "'f usdc" client_order_id string timestamp timestamp
  | WithdrawalSubmitting rebalance_direction "'f usdc" u64 timestamp
  | Withdrawing rebalance_direction "'f usdc" transfer_ref timestamp
  | WithdrawalComplete rebalance_direction "'f usdc" timestamp timestamp "tx_hash option"
  | WithdrawalFailed rebalance_direction "'f usdc" transfer_ref string timestamp timestamp
  | BridgingSubmitting rebalance_direction "'f usdc" u64 timestamp "'f usdc option" "tx_hash option"
  | Bridging rebalance_direction "'f usdc" tx_hash timestamp timestamp
  | AwaitingAttestation rebalance_direction "'f usdc" tx_hash timestamp timestamp timestamp
  | Attested rebalance_direction "'f usdc" tx_hash b256 bytes "bytes option" "u64 option" timestamp
      timestamp
  | Bridged rebalance_direction "'f usdc" "'f usdc" "'f usdc" tx_hash tx_hash timestamp timestamp
  | BridgingFailed rebalance_direction "'f usdc" "tx_hash option" "b256 option" string timestamp
      timestamp
  | DepositInitiated rebalance_direction "'f usdc" tx_hash tx_hash transfer_ref timestamp timestamp
  | DepositConfirmed rebalance_direction "'f usdc" tx_hash tx_hash timestamp timestamp
  | DepositFailed rebalance_direction "'f usdc" tx_hash tx_hash "transfer_ref option" string timestamp
      timestamp
  | Reconciled rebalance_direction "'f usdc" reconcile_reason "string option" timestamp timestamp

fun usdc_event_type :: "'f usdc_rebalance_event \<Rightarrow> string" where
  "usdc_event_type (ConversionInitiated _ _ _ _) = ''UsdcRebalanceEvent::ConversionInitiated''"
| "usdc_event_type (ConversionConfirmed _ _ _) = ''UsdcRebalanceEvent::ConversionConfirmed''"
| "usdc_event_type (usdc_rebalance_event.ConversionFailed _ _) = ''UsdcRebalanceEvent::ConversionFailed''"
| "usdc_event_type (usdc_rebalance_event.WithdrawalSubmitting _ _ _ _) =
     ''UsdcRebalanceEvent::WithdrawalSubmitting''"
| "usdc_event_type (Initiated _ _ _ _) = ''UsdcRebalanceEvent::Initiated''"
| "usdc_event_type (WithdrawalConfirmed _ _) = ''UsdcRebalanceEvent::WithdrawalConfirmed''"
| "usdc_event_type (usdc_rebalance_event.WithdrawalFailed _ _) = ''UsdcRebalanceEvent::WithdrawalFailed''"
| "usdc_event_type (usdc_rebalance_event.BridgingSubmitting _ _ _) =
     ''UsdcRebalanceEvent::BridgingSubmitting''"
| "usdc_event_type (BridgingInitiated _ _) = ''UsdcRebalanceEvent::BridgingInitiated''"
| "usdc_event_type (PendingBurnRecorded _ _) = ''UsdcRebalanceEvent::PendingBurnRecorded''"
| "usdc_event_type (PendingBurnCleared _) = ''UsdcRebalanceEvent::PendingBurnCleared''"
| "usdc_event_type (BridgeAttestationReceived _ _ _ _ _) =
     ''UsdcRebalanceEvent::BridgeAttestationReceived''"
| "usdc_event_type (AttestationTimedOut _ _ _) = ''UsdcRebalanceEvent::AttestationTimedOut''"
| "usdc_event_type (usdc_rebalance_event.Bridged _ _ _ _) = ''UsdcRebalanceEvent::Bridged''"
| "usdc_event_type (usdc_rebalance_event.BridgingFailed _ _ _ _) = ''UsdcRebalanceEvent::BridgingFailed''"
| "usdc_event_type (BridgingCompletionRecovered _ _ _ _) =
     ''UsdcRebalanceEvent::BridgingCompletionRecovered''"
| "usdc_event_type (usdc_rebalance_event.DepositInitiated _ _) = ''UsdcRebalanceEvent::DepositInitiated''"
| "usdc_event_type (usdc_rebalance_event.DepositConfirmed _ _) = ''UsdcRebalanceEvent::DepositConfirmed''"
| "usdc_event_type (usdc_rebalance_event.DepositFailed _ _ _) = ''UsdcRebalanceEvent::DepositFailed''"
| "usdc_event_type (OperatorReconciled _ _ _ _ _) = ''UsdcRebalanceEvent::OperatorReconciled''"

section \<open>Classification of states\<close>

fun is_post_burn_failure :: "'f usdc_rebalance \<Rightarrow> bool" where
  "is_post_burn_failure (DepositFailed _ _ _ _ _ _ _ _) = True"
| "is_post_burn_failure (ConversionFailed BaseToAlpaca _ _ _ _ _) = True"
| "is_post_burn_failure (BridgingFailed _ _ burn_tx_hash cctp_nonce _ _ _) =
     (burn_tx_hash \<noteq> None \<or> cctp_nonce \<noteq> None)"
| "is_post_burn_failure _ = False"

fun holds_rebalance_guard :: "'f usdc_rebalance \<Rightarrow> bool" where
  "holds_rebalance_guard (ConversionComplete direction _ _ _ _) = (direction = AlpacaToBase)"
| "holds_rebalance_guard (BridgingFailed _ _ burn_tx_hash _ _ _ _) = (burn_tx_hash \<noteq> None)"
| "holds_rebalance_guard (DepositConfirmed direction _ _ _ _ _) = (direction = BaseToAlpaca)"
| "holds_rebalance_guard (ConversionFailed direction _ _ _ _ _) = (direction = BaseToAlpaca)"
| "holds_rebalance_guard (WithdrawalFailed _ _ _ _ _ _) = False"
| "holds_rebalance_guard (Reconciled _ _ _ _ _ _) = False"
| "holds_rebalance_guard _ = True"

fun resumable_post_burn_transfer :: "'f usdc_rebalance \<Rightarrow> (rebalance_direction \<times> 'f usdc) option" where
  "resumable_post_burn_transfer (Bridging d a _ _ _) = Some (d, a)"
| "resumable_post_burn_transfer (AwaitingAttestation d a _ _ _ _) = Some (d, a)"
| "resumable_post_burn_transfer (Attested d a _ _ _ _ _ _ _) = Some (d, a)"
| "resumable_post_burn_transfer (BridgingFailed BaseToAlpaca a (Some _) _ _ _ _) = Some (BaseToAlpaca, a)"
| "resumable_post_burn_transfer _ = None"

fun rebalance_direction_of :: "'f usdc_rebalance \<Rightarrow> rebalance_direction" where
  "rebalance_direction_of (Converting d _ _ _) = d"
| "rebalance_direction_of (ConversionComplete d _ _ _ _) = d"
| "rebalance_direction_of (ConversionFailed d _ _ _ _ _) = d"
| "rebalance_direction_of (WithdrawalSubmitting d _ _ _) = d"
| "rebalance_direction_of (Withdrawing d _ _ _) = d"
| "rebalance_direction_of (WithdrawalComplete d _ _ _ _) = d"
| "rebalance_direction_of (WithdrawalFailed d _ _ _ _ _) = d"
| "rebalance_direction_of (BridgingSubmitting d _ _ _ _ _) = d"
| "rebalance_direction_of (Bridging d _ _ _ _) = d"
| "rebalance_direction_of (AwaitingAttestation d _ _ _ _ _) = d"
| "rebalance_direction_of (Attested d _ _ _ _ _ _ _ _) = d"
| "rebalance_direction_of (Bridged d _ _ _ _ _ _ _) = d"
| "rebalance_direction_of (BridgingFailed d _ _ _ _ _ _) = d"
| "rebalance_direction_of (DepositInitiated d _ _ _ _ _ _) = d"
| "rebalance_direction_of (DepositConfirmed d _ _ _ _ _) = d"
| "rebalance_direction_of (DepositFailed d _ _ _ _ _ _ _) = d"
| "rebalance_direction_of (Reconciled d _ _ _ _ _) = d"

fun guard_recovery_tracking_data ::
  "'f usdc_rebalance \<Rightarrow> (rebalance_direction \<times> 'f usdc \<times> timestamp) option" where
  "guard_recovery_tracking_data (DepositFailed d a _ _ _ _ _ failed_at) = Some (d, a, failed_at)"
| "guard_recovery_tracking_data (ConversionFailed BaseToAlpaca a _ _ _ failed_at) =
     Some (BaseToAlpaca, a, failed_at)"
| "guard_recovery_tracking_data (BridgingFailed AlpacaToBase a (Some _) _ _ _ failed_at) =
     Some (AlpacaToBase, a, failed_at)"
| "guard_recovery_tracking_data _ = None"

fun rebalance_amount :: "'f usdc_rebalance \<Rightarrow> 'f usdc" where
  "rebalance_amount (ConversionComplete _ _ conversion _ _) = received_amount conversion"
| "rebalance_amount (Bridged _ _ amount_received _ _ _ _ _) = amount_received"
| "rebalance_amount (BridgingSubmitting _ a _ _ burn_amount _) =
     (case burn_amount of None \<Rightarrow> a | Some b \<Rightarrow> b)"
| "rebalance_amount (Converting _ a _ _) = a"
| "rebalance_amount (ConversionFailed _ a _ _ _ _) = a"
| "rebalance_amount (WithdrawalSubmitting _ a _ _) = a"
| "rebalance_amount (Withdrawing _ a _ _) = a"
| "rebalance_amount (WithdrawalComplete _ a _ _ _) = a"
| "rebalance_amount (WithdrawalFailed _ a _ _ _ _) = a"
| "rebalance_amount (Bridging _ a _ _ _) = a"
| "rebalance_amount (AwaitingAttestation _ a _ _ _ _) = a"
| "rebalance_amount (Attested _ a _ _ _ _ _ _ _) = a"
| "rebalance_amount (BridgingFailed _ a _ _ _ _ _) = a"
| "rebalance_amount (DepositInitiated _ a _ _ _ _ _) = a"
| "rebalance_amount (DepositConfirmed _ a _ _ _ _) = a"
| "rebalance_amount (DepositFailed _ a _ _ _ _ _ _) = a"
| "rebalance_amount (Reconciled _ a _ _ _ _) = a"

fun is_resumable_mid_flight_data :: "'f usdc_rebalance \<Rightarrow> (rebalance_direction \<times> 'f usdc) option" where
  "is_resumable_mid_flight_data (WithdrawalSubmitting BaseToAlpaca a _ _) = Some (BaseToAlpaca, a)"
| "is_resumable_mid_flight_data (Withdrawing AlpacaToBase a (AlpacaId _) _) = Some (AlpacaToBase, a)"
| "is_resumable_mid_flight_data (WithdrawalComplete AlpacaToBase a _ _ _) = Some (AlpacaToBase, a)"
| "is_resumable_mid_flight_data (BridgingSubmitting d a _ _ _ _) = Some (d, a)"
| "is_resumable_mid_flight_data _ = None"

section \<open>Dashboard view\<close>

datatype usdc_bridge_direction = DtoAlpacaToBase | DtoBaseToAlpaca

fun dto_direction :: "rebalance_direction \<Rightarrow> usdc_bridge_direction" where
  "dto_direction AlpacaToBase = DtoAlpacaToBase"
| "dto_direction BaseToAlpaca = DtoBaseToAlpaca"

datatype usdc_bridge_status =
    BridgeConverting
  | BridgeWithdrawing
  | BridgeBridging
  | BridgeDepositing
  | BridgeCompleted timestamp
  | BridgeFailed timestamp bool
  | BridgeReconciled timestamp "string option" string

record 'f usdc_bridge_operation =
  ubo_id :: string
  ubo_direction :: usdc_bridge_direction
  ubo_amount :: "'f usdc"
  ubo_status :: usdc_bridge_status
  ubo_started_at :: timestamp
  ubo_updated_at :: timestamp

text \<open>\<open>(direction, amount, status, started_at, updated_at)\<close> of a state.\<close>

fun usdc_dto_fields ::
  "'f usdc_rebalance \<Rightarrow> rebalance_direction \<times> 'f usdc \<times> usdc_bridge_status \<times> timestamp \<times> timestamp" where
  "usdc_dto_fields (Converting d a _ i) = (d, a, BridgeConverting, i, i)"
| "usdc_dto_fields (ConversionComplete d _ conversion i converted_at) =
     (d, received_amount conversion,
      (case d of AlpacaToBase \<Rightarrow> BridgeConverting | BaseToAlpaca \<Rightarrow> BridgeCompleted converted_at),
      i, converted_at)"
| "usdc_dto_fields (ConversionFailed d a order_id reason i failed_at) =
     (d, a, BridgeFailed failed_at (is_post_burn_failure (ConversionFailed d a order_id reason i failed_at)),
      i, failed_at)"
| "usdc_dto_fields (WithdrawalFailed d a withdrawal_ref reason i failed_at) =
     (d, a, BridgeFailed failed_at
        (is_post_burn_failure (WithdrawalFailed d a withdrawal_ref reason i failed_at)), i, failed_at)"
| "usdc_dto_fields (BridgingFailed d a burn nonce reason i failed_at) =
     (d, a, BridgeFailed failed_at
        (is_post_burn_failure (BridgingFailed d a burn nonce reason i failed_at)), i, failed_at)"
| "usdc_dto_fields (DepositFailed d a burn mint deposit_ref reason i failed_at) =
     (d, a, BridgeFailed failed_at
        (is_post_burn_failure (DepositFailed d a burn mint deposit_ref reason i failed_at)), i, failed_at)"
| "usdc_dto_fields (WithdrawalSubmitting d a _ i) = (d, a, BridgeWithdrawing, i, i)"
| "usdc_dto_fields (Withdrawing d a _ i) = (d, a, BridgeWithdrawing, i, i)"
| "usdc_dto_fields (WithdrawalComplete d a i confirmed_at _) = (d, a, BridgeWithdrawing, i, confirmed_at)"
| "usdc_dto_fields (BridgingSubmitting d a _ i _ _) = (d, a, BridgeBridging, i, i)"
| "usdc_dto_fields (Bridging d a _ i burned_at) = (d, a, BridgeBridging, i, burned_at)"
| "usdc_dto_fields (AwaitingAttestation d a _ i timed_out_at _) = (d, a, BridgeBridging, i, timed_out_at)"
| "usdc_dto_fields (Attested d a _ _ _ _ _ i attested_at) = (d, a, BridgeBridging, i, attested_at)"
| "usdc_dto_fields (Bridged d _ amount_received _ _ _ i minted_at) =
     (d, amount_received, BridgeBridging, i, minted_at)"
| "usdc_dto_fields (DepositInitiated d a _ _ _ i deposit_initiated_at) =
     (d, a, BridgeDepositing, i, deposit_initiated_at)"
| "usdc_dto_fields (DepositConfirmed d a _ _ i deposit_confirmed_at) =
     (d, a, (case d of AlpacaToBase \<Rightarrow> BridgeCompleted deposit_confirmed_at
       | BaseToAlpaca \<Rightarrow> BridgeConverting), i, deposit_confirmed_at)"
| "usdc_dto_fields (Reconciled d a reason failure_reason i reconciled_at) =
     (d, a, BridgeReconciled reconciled_at failure_reason (reconcile_reason_to_string reason),
      i, reconciled_at)"

definition usdc_to_dto ::
  "(uuid \<Rightarrow> string) \<Rightarrow> 'f usdc_rebalance \<Rightarrow> usdc_rebalance_id \<Rightarrow> 'f usdc_bridge_operation" where
  "usdc_to_dto show_uuid s i = (case i of UsdcRebalanceId u \<Rightarrow>
     (case usdc_dto_fields s of (d, a, status, started_at, updated_at) \<Rightarrow>
        \<lparr>ubo_id = show_uuid u, ubo_direction = dto_direction d, ubo_amount = a, ubo_status = status,
         ubo_started_at = started_at, ubo_updated_at = updated_at\<rparr>))"

fun bridge_status_is_terminal :: "usdc_bridge_status \<Rightarrow> bool" where
  "bridge_status_is_terminal (BridgeCompleted _) = True"
| "bridge_status_is_terminal (BridgeFailed _ _) = True"
| "bridge_status_is_terminal (BridgeReconciled _ _ _) = True"
| "bridge_status_is_terminal _ = False"

section \<open>Events applied to a state\<close>

fun usdc_originate :: "'f usdc_rebalance_event \<Rightarrow> 'f usdc_rebalance option" where
  "usdc_originate (ConversionInitiated direction amount order_id initiated_at) =
     Some (Converting direction amount order_id initiated_at)"
| "usdc_originate (usdc_rebalance_event.WithdrawalSubmitting direction amount from_block submitting_at) =
     Some (WithdrawalSubmitting direction amount from_block submitting_at)"
| "usdc_originate (Initiated direction amount withdrawal_ref initiated_at) =
     Some (Withdrawing direction amount withdrawal_ref initiated_at)"
| "usdc_originate _ = None"

text \<open>
  The source matches on the pair of event and state; here the event selects the equation and the
  state is matched inside it. No pair is an error: every other pair is \<^verbatim>\<open>Ok(None)\<close>.
\<close>

fun usdc_evolve ::
  "'f usdc_rebalance \<Rightarrow> 'f usdc_rebalance_event \<Rightarrow> 'f usdc_rebalance_error + 'f usdc_rebalance option" where
  "usdc_evolve s (ConversionInitiated direction amount order_id _) = Inr (case s of
     DepositConfirmed _ _ _ _ i _ \<Rightarrow> Some (Converting direction amount order_id i)
   | _ \<Rightarrow> None)"
| "usdc_evolve s (ConversionConfirmed _ conversion converted_at) = Inr (case s of
     Converting d a _ i \<Rightarrow> Some (ConversionComplete d a conversion i converted_at)
   | _ \<Rightarrow> None)"
| "usdc_evolve s (usdc_rebalance_event.ConversionFailed reason failed_at) = Inr (case s of
     Converting d a order_id i \<Rightarrow> Some (ConversionFailed d a order_id reason i failed_at)
   | _ \<Rightarrow> None)"
| "usdc_evolve s (usdc_rebalance_event.WithdrawalSubmitting _ _ from_block _) = Inr (case s of
     ConversionComplete d _ conversion i _ \<Rightarrow>
       Some (WithdrawalSubmitting d (received_amount conversion) from_block i)
   | _ \<Rightarrow> None)"
| "usdc_evolve s (Initiated _ _ withdrawal_ref withdrawal_initiated_at) = Inr (case s of
     WithdrawalSubmitting d a _ _ \<Rightarrow> Some (Withdrawing d a withdrawal_ref withdrawal_initiated_at)
   | ConversionComplete d _ conversion _ _ \<Rightarrow>
       Some (Withdrawing d (received_amount conversion) withdrawal_ref withdrawal_initiated_at)
   | _ \<Rightarrow> None)"
| "usdc_evolve s (WithdrawalConfirmed confirmed_at withdrawal_tx) = Inr (case s of
     Withdrawing d a _ i \<Rightarrow> Some (WithdrawalComplete d a i confirmed_at withdrawal_tx)
   | _ \<Rightarrow> None)"
| "usdc_evolve s (usdc_rebalance_event.WithdrawalFailed reason failed_at) = Inr (case s of
     Withdrawing d a withdrawal_ref i \<Rightarrow> Some (WithdrawalFailed d a withdrawal_ref reason i failed_at)
   | _ \<Rightarrow> None)"
| "usdc_evolve s (usdc_rebalance_event.BridgingSubmitting from_block _ burn_amount) = Inr (case s of
     WithdrawalComplete d a i _ _ \<Rightarrow> Some (BridgingSubmitting d a from_block i burn_amount None)
   | _ \<Rightarrow> None)"
| "usdc_evolve s (PendingBurnCleared _) = Inr (case s of
     BridgingSubmitting d a from_block i burn_amount _ \<Rightarrow>
       Some (BridgingSubmitting d a from_block i burn_amount None)
   | _ \<Rightarrow> None)"
| "usdc_evolve s (PendingBurnRecorded burn_tx _) = Inr (case s of
     BridgingSubmitting d a from_block i burn_amount _ \<Rightarrow>
       Some (BridgingSubmitting d a from_block i burn_amount (Some burn_tx))
   | _ \<Rightarrow> None)"
| "usdc_evolve s (BridgingInitiated burn_tx_hash burned_at) = Inr (case s of
     BridgingSubmitting d a _ i burn_amount _ \<Rightarrow>
       Some (Bridging d (case burn_amount of None \<Rightarrow> a | Some b \<Rightarrow> b) burn_tx_hash i burned_at)
   | WithdrawalComplete d a i _ _ \<Rightarrow> Some (Bridging d a burn_tx_hash i burned_at)
   | _ \<Rightarrow> None)"
| "usdc_evolve s (BridgeAttestationReceived attestation cctp_nonce message mint_scan_from_block
       attested_at) = Inr (case s of
     Bridging d a burn_tx_hash i _ \<Rightarrow>
       Some (Attested d a burn_tx_hash cctp_nonce attestation message mint_scan_from_block i attested_at)
   | AwaitingAttestation d a burn_tx_hash i _ _ \<Rightarrow>
       Some (Attested d a burn_tx_hash cctp_nonce attestation message mint_scan_from_block i attested_at)
   | _ \<Rightarrow> None)"
| "usdc_evolve s (AttestationTimedOut burn_tx_hash retry_deadline_at timed_out_at) = Inr (case s of
     Bridging d a state_burn_tx_hash i _ \<Rightarrow>
       (if burn_tx_hash = state_burn_tx_hash
        then Some (AwaitingAttestation d a burn_tx_hash i timed_out_at retry_deadline_at) else None)
   | _ \<Rightarrow> None)"
| "usdc_evolve s (usdc_rebalance_event.Bridged mint_tx_hash amount_received fee_collected minted_at) =
   Inr (case s of
     Attested d a burn_tx_hash _ _ _ _ i _ \<Rightarrow>
       Some (Bridged d a amount_received fee_collected burn_tx_hash mint_tx_hash i minted_at)
   | _ \<Rightarrow> None)"
| "usdc_evolve s (BridgingCompletionRecovered mint_tx_hash amount_received fee_collected recovered_at) =
   Inr (case s of
     BridgingFailed d a (Some burn_tx_hash) _ _ i _ \<Rightarrow>
       Some (Bridged d a amount_received fee_collected burn_tx_hash mint_tx_hash i recovered_at)
   | _ \<Rightarrow> None)"
| "usdc_evolve s (usdc_rebalance_event.BridgingFailed burn_tx_hash cctp_nonce reason failed_at) =
   Inr (case s of
     WithdrawalComplete d a i _ _ \<Rightarrow> Some (BridgingFailed d a burn_tx_hash cctp_nonce reason i failed_at)
   | BridgingSubmitting d a _ i _ _ \<Rightarrow>
       Some (BridgingFailed d a burn_tx_hash cctp_nonce reason i failed_at)
   | Bridging d a _ i _ \<Rightarrow> Some (BridgingFailed d a burn_tx_hash cctp_nonce reason i failed_at)
   | AwaitingAttestation d a _ i _ _ \<Rightarrow>
       Some (BridgingFailed d a burn_tx_hash cctp_nonce reason i failed_at)
   | Attested d a _ _ _ _ _ i _ \<Rightarrow> Some (BridgingFailed d a burn_tx_hash cctp_nonce reason i failed_at)
   | _ \<Rightarrow> None)"
| "usdc_evolve s (usdc_rebalance_event.DepositInitiated deposit_ref deposit_initiated_at) = Inr (case s of
     Bridged d _ amount_received _ burn_tx_hash mint_tx_hash i _ \<Rightarrow>
       Some (DepositInitiated d amount_received burn_tx_hash mint_tx_hash deposit_ref i
         deposit_initiated_at)
   | _ \<Rightarrow> None)"
| "usdc_evolve s (usdc_rebalance_event.DepositConfirmed _ deposit_confirmed_at) = Inr (case s of
     DepositInitiated d a burn_tx_hash mint_tx_hash _ i _ \<Rightarrow>
       Some (DepositConfirmed d a burn_tx_hash mint_tx_hash i deposit_confirmed_at)
   | _ \<Rightarrow> None)"
| "usdc_evolve s (usdc_rebalance_event.DepositFailed deposit_ref reason failed_at) = Inr (case s of
     DepositInitiated d a burn_tx_hash mint_tx_hash _ i _ \<Rightarrow>
       Some (DepositFailed d a burn_tx_hash mint_tx_hash deposit_ref reason i failed_at)
   | _ \<Rightarrow> None)"
| "usdc_evolve s (OperatorReconciled direction amount reason initiated_at reconciled_at) = Inr (case s of
     DepositFailed _ _ _ _ _ failure_reason _ _ \<Rightarrow>
       Some (Reconciled direction amount reason (Some failure_reason) initiated_at reconciled_at)
   | ConversionFailed BaseToAlpaca _ _ failure_reason _ _ \<Rightarrow>
       Some (Reconciled direction amount reason (Some failure_reason) initiated_at reconciled_at)
   | BridgingFailed _ _ burn_tx_hash cctp_nonce failure_reason _ _ \<Rightarrow>
       (if burn_tx_hash \<noteq> None \<or> cctp_nonce \<noteq> None
        then Some (Reconciled direction amount reason (Some failure_reason) initiated_at reconciled_at)
        else None)
   | _ \<Rightarrow> None)"

section \<open>Command handlers\<close>

text \<open>
  The renderings that error messages embed: the derived \<^verbatim>\<open>Debug\<close> of the third-party
  \<^verbatim>\<open>Float\<close> and, through it, of a state.
\<close>

record 'f usdc_debug =
  debug_float :: "'f \<Rightarrow> string"
  debug_rebalance :: "'f usdc_rebalance \<Rightarrow> string"

definition begin_withdrawal_init_events ::
  "rebalance_direction \<Rightarrow> 'f usdc \<Rightarrow> u64 \<Rightarrow> timestamp \<Rightarrow>
   'f usdc_rebalance_error + 'f usdc_rebalance_event list" where
  "begin_withdrawal_init_events direction amount from_block submitting_at =
     (if direction \<noteq> BaseToAlpaca then
        Inl (InvalidCommand ''BeginWithdrawal''
          (''Uninitialized (fresh withdrawal is BaseToAlpaca-only; '' @
           ''AlpacaToBase must convert before withdrawing)''))
      else Inr [usdc_rebalance_event.WithdrawalSubmitting direction amount from_block submitting_at])"

fun usdc_initialize ::
  "timestamp \<Rightarrow> 'f usdc_rebalance_command \<Rightarrow> 'f usdc_rebalance_error + 'f usdc_rebalance_event list" where
  "usdc_initialize now (InitiateConversion direction amount order_id) =
     Inr [ConversionInitiated direction amount order_id now]"
| "usdc_initialize now (BeginWithdrawal direction amount from_block) =
     begin_withdrawal_init_events direction amount from_block now"
| "usdc_initialize now (Initiate direction amount withdrawal) =
     Inr [Initiated direction amount withdrawal now]"
| "usdc_initialize now (ConfirmConversion _) = Inl ConversionNotInitiated"
| "usdc_initialize now (FailConversion _) = Inl ConversionNotInitiated"
| "usdc_initialize now (InitiatePostDepositConversion _ _) = Inl DepositNotConfirmed"
| "usdc_initialize now (ConfirmWithdrawal _) = Inl WithdrawalNotInitiated"
| "usdc_initialize now (FailWithdrawal _) = Inl WithdrawalNotInitiated"
| "usdc_initialize now (BeginBridging _ _) = Inl WithdrawalNotConfirmed"
| "usdc_initialize now (InitiateBridging _) = Inl WithdrawalNotConfirmed"
| "usdc_initialize now (RecordPendingBurn _) = Inl WithdrawalNotConfirmed"
| "usdc_initialize now ClearPendingBurn = Inl WithdrawalNotConfirmed"
| "usdc_initialize now (ReceiveAttestation _ _ _ _) = Inl BridgingNotInitiated"
| "usdc_initialize now (TimeoutAttestation _) = Inl BridgingNotInitiated"
| "usdc_initialize now (FailBridging _) = Inl BridgingNotInitiated"
| "usdc_initialize now (RecoverBridging _ _ _) = Inl BridgingNotInitiated"
| "usdc_initialize now (ConfirmBridging _ _ _) = Inl AttestationNotReceived"
| "usdc_initialize now (InitiateDeposit _) = Inl BridgingNotCompleted"
| "usdc_initialize now ConfirmDeposit = Inl DepositNotInitiated"
| "usdc_initialize now (FailDeposit _) = Inl DepositNotInitiated"
| "usdc_initialize now (ReconcileStuckRebalance _) =
     Inl (InvalidCommand ''ReconcileStuckRebalance'' ''Uninitialized'')"

type_synonym 'f usdc_result = "'f usdc_rebalance_error + 'f usdc_rebalance_event list"

fun transition_confirm_conversion ::
  "'f usdc_rebalance \<Rightarrow> 'f conversion_amounts \<Rightarrow> timestamp \<Rightarrow> 'f usdc_result" where
  "transition_confirm_conversion (Converting d _ _ _) conversion converted_at =
     Inr [ConversionConfirmed d conversion converted_at]"
| "transition_confirm_conversion (ConversionComplete _ _ _ _ _) conversion converted_at =
     Inl ConversionAlreadyCompleted"
| "transition_confirm_conversion (ConversionFailed _ _ _ _ _ _) conversion converted_at =
     Inl ConversionAlreadyCompleted"
| "transition_confirm_conversion _ conversion converted_at = Inl ConversionNotInitiated"

fun transition_fail_conversion :: "'f usdc_rebalance \<Rightarrow> string \<Rightarrow> timestamp \<Rightarrow> 'f usdc_result" where
  "transition_fail_conversion (Converting _ _ _ _) reason now =
     Inr [usdc_rebalance_event.ConversionFailed reason now]"
| "transition_fail_conversion (ConversionComplete _ _ _ _ _) reason now = Inl ConversionAlreadyCompleted"
| "transition_fail_conversion (ConversionFailed _ _ _ _ _ _) reason now = Inl ConversionAlreadyCompleted"
| "transition_fail_conversion _ reason now = Inl ConversionNotInitiated"

fun transition_post_deposit_conversion ::
  "'f float_ops \<Rightarrow> 'f usdc_rebalance \<Rightarrow> client_order_id \<Rightarrow> 'f usdc \<Rightarrow> timestamp \<Rightarrow> 'f usdc_result" where
  "transition_post_deposit_conversion F (DepositConfirmed direction amount _ _ _ _) order_id
       command_amount initiated_at =
     (if direction \<noteq> BaseToAlpaca then Inl WrongDirectionForPostDepositConversion
      else if \<not> usdc_eq F command_amount amount then Inl (ConversionAmountMismatch amount command_amount)
      else Inr [ConversionInitiated direction amount order_id initiated_at])"
| "transition_post_deposit_conversion F _ order_id command_amount initiated_at = Inl DepositNotConfirmed"

fun transition_begin_withdrawal ::
  "'f float_ops \<Rightarrow> 'f usdc_debug \<Rightarrow> 'f usdc_rebalance \<Rightarrow> rebalance_direction \<Rightarrow> 'f usdc \<Rightarrow> u64 \<Rightarrow>
   timestamp \<Rightarrow> 'f usdc_result" where
  "transition_begin_withdrawal F D (ConversionComplete conv_direction _ conversion _ _) direction
       amount from_block submitting_at =
     (if direction \<noteq> conv_direction then
        Inl (InvalidCommand ''BeginWithdrawal'' ''ConversionComplete with different direction'')
      else if \<not> usdc_eq F amount (received_amount conversion) then
        Inl (InvalidCommand ''BeginWithdrawal''
          (''ConversionComplete with amount mismatch: expected '' @
           debug_float D (usdc_inner (received_amount conversion)) @ '', got '' @
           debug_float D (usdc_inner amount)))
      else Inr [usdc_rebalance_event.WithdrawalSubmitting direction (received_amount conversion)
        from_block submitting_at])"
| "transition_begin_withdrawal F D _ direction amount from_block submitting_at = Inl AlreadyInitiated"

definition withdrawal_entry :: "'f usdc_rebalance \<Rightarrow> (rebalance_direction \<times> 'f usdc) option" where
  "withdrawal_entry s = (case s of
     WithdrawalSubmitting d a _ _ \<Rightarrow> Some (d, a)
   | ConversionComplete d _ conversion _ _ \<Rightarrow> Some (d, received_amount conversion)
   | _ \<Rightarrow> None)"

definition transition_initiate_withdrawal ::
  "'f float_ops \<Rightarrow> 'f usdc_debug \<Rightarrow> 'f usdc_rebalance \<Rightarrow> rebalance_direction \<Rightarrow> 'f usdc \<Rightarrow>
   transfer_ref \<Rightarrow> timestamp \<Rightarrow> 'f usdc_result" where
  "transition_initiate_withdrawal F D s direction amount withdrawal initiated_at =
     (case withdrawal_entry s of
        None \<Rightarrow> Inl AlreadyInitiated
      | Some (expected_direction, expected_amount) \<Rightarrow>
          if direction \<noteq> expected_direction then
            Inl (InvalidCommand ''Initiate'' ''withdrawal entry state with different direction'')
          else if \<not> usdc_eq F amount expected_amount then
            Inl (InvalidCommand ''Initiate''
              (''withdrawal entry state with amount mismatch: expected '' @
               debug_float D (usdc_inner expected_amount) @ '', got '' @
               debug_float D (usdc_inner amount)))
          else Inr [Initiated direction expected_amount withdrawal initiated_at])"

text \<open>The states \<^verbatim>\<open>ConfirmWithdrawal\<close> and \<^verbatim>\<open>FailWithdrawal\<close> find past the withdrawal.\<close>

fun withdrawal_completed :: "'f usdc_rebalance \<Rightarrow> bool" where
  "withdrawal_completed (WithdrawalComplete _ _ _ _ _) = True"
| "withdrawal_completed (BridgingSubmitting _ _ _ _ _ _) = True"
| "withdrawal_completed (WithdrawalFailed _ _ _ _ _ _) = True"
| "withdrawal_completed (Bridging _ _ _ _ _) = True"
| "withdrawal_completed (AwaitingAttestation _ _ _ _ _ _) = True"
| "withdrawal_completed (Attested _ _ _ _ _ _ _ _ _) = True"
| "withdrawal_completed (Bridged _ _ _ _ _ _ _ _) = True"
| "withdrawal_completed (BridgingFailed _ _ _ _ _ _ _) = True"
| "withdrawal_completed (DepositInitiated _ _ _ _ _ _ _) = True"
| "withdrawal_completed (DepositConfirmed _ _ _ _ _ _) = True"
| "withdrawal_completed (DepositFailed _ _ _ _ _ _ _ _) = True"
| "withdrawal_completed _ = False"

definition transition_confirm_withdrawal ::
  "'f usdc_rebalance \<Rightarrow> tx_hash option \<Rightarrow> timestamp \<Rightarrow> 'f usdc_result" where
  "transition_confirm_withdrawal s withdrawal_tx confirmed_at = (case s of
     Withdrawing _ _ _ _ \<Rightarrow> Inr [WithdrawalConfirmed confirmed_at withdrawal_tx]
   | _ \<Rightarrow> if withdrawal_completed s then Inl WithdrawalAlreadyCompleted else Inl WithdrawalNotInitiated)"

definition transition_fail_withdrawal :: "'f usdc_rebalance \<Rightarrow> string \<Rightarrow> timestamp \<Rightarrow> 'f usdc_result" where
  "transition_fail_withdrawal s reason now = (case s of
     Withdrawing _ _ _ _ \<Rightarrow> Inr [usdc_rebalance_event.WithdrawalFailed reason now]
   | _ \<Rightarrow> if withdrawal_completed s then Inl WithdrawalAlreadyCompleted else Inl WithdrawalNotInitiated)"

text \<open>The states before the withdrawal is confirmed, the first arm of the bridging handlers.\<close>

fun withdrawal_pending :: "'f usdc_rebalance \<Rightarrow> bool" where
  "withdrawal_pending (Converting _ _ _ _) = True"
| "withdrawal_pending (ConversionComplete _ _ _ _ _) = True"
| "withdrawal_pending (ConversionFailed _ _ _ _ _ _) = True"
| "withdrawal_pending (WithdrawalSubmitting _ _ _ _) = True"
| "withdrawal_pending (Withdrawing _ _ _ _) = True"
| "withdrawal_pending (WithdrawalFailed _ _ _ _ _ _) = True"
| "withdrawal_pending _ = False"

text \<open>
  \<^verbatim>\<open>burn_amount.eq(&Usdc::ZERO).and_then(|is_zero| Ok(is_zero || burn_amount.gt(amount)?))\<close>:
  the second comparison is only made when the first is false.
\<close>

definition burn_amount_out_of_range :: "'f float_ops \<Rightarrow> 'f usdc \<Rightarrow> 'f usdc \<Rightarrow> float_error + bool" where
  "burn_amount_out_of_range F burn_amount amount =
     tryr (fl_eq F (usdc_inner burn_amount) (usdc_inner (usdc_ZERO F))) (\<lambda>zero.
       if zero then Inr True else fl_gt F (usdc_inner burn_amount) (usdc_inner amount))"

definition transition_begin_bridging ::
  "'f float_ops \<Rightarrow> 'f usdc_rebalance \<Rightarrow> u64 \<Rightarrow> 'f usdc option \<Rightarrow> timestamp \<Rightarrow> 'f usdc_result" where
  "transition_begin_bridging F s from_block burn_amount submitting_at =
     (if withdrawal_pending s then Inl WithdrawalNotConfirmed
      else case s of
        WithdrawalComplete _ amount _ _ _ \<Rightarrow>
          (case burn_amount of
             None \<Rightarrow> Inr [usdc_rebalance_event.BridgingSubmitting from_block submitting_at burn_amount]
           | Some burn \<Rightarrow>
               tryr (map_err (\<lambda>_. BurnAmountUncomparable burn amount)
                   (burn_amount_out_of_range F burn amount)) (\<lambda>out_of_range.
                 if out_of_range then Inl (InvalidBurnAmount burn amount)
                 else Inr [usdc_rebalance_event.BridgingSubmitting from_block submitting_at burn_amount]))
      | _ \<Rightarrow> Inl (InvalidCommand ''BeginBridging'' ''bridging already started''))"

definition transition_initiate_bridging ::
  "'f usdc_rebalance \<Rightarrow> tx_hash \<Rightarrow> timestamp \<Rightarrow> 'f usdc_result" where
  "transition_initiate_bridging s burn_tx burned_at =
     (if withdrawal_pending s then Inl WithdrawalNotConfirmed
      else case s of
        WithdrawalComplete _ _ _ _ _ \<Rightarrow> Inr [BridgingInitiated burn_tx burned_at]
      | BridgingSubmitting _ _ _ _ _ _ \<Rightarrow> Inr [BridgingInitiated burn_tx burned_at]
      | _ \<Rightarrow> Inl (InvalidCommand ''InitiateBridging'' ''Bridging''))"

definition transition_record_pending_burn ::
  "'f usdc_rebalance \<Rightarrow> tx_hash \<Rightarrow> timestamp \<Rightarrow> 'f usdc_result" where
  "transition_record_pending_burn s burn_tx now =
     (if withdrawal_pending s then Inl WithdrawalNotConfirmed
      else case s of
        WithdrawalComplete _ _ _ _ _ \<Rightarrow> Inl WithdrawalNotConfirmed
      | BridgingSubmitting _ _ _ _ _ _ \<Rightarrow> Inr [PendingBurnRecorded burn_tx now]
      | _ \<Rightarrow> Inl BridgingAlreadyStarted)"

definition transition_clear_pending_burn :: "'f usdc_rebalance \<Rightarrow> timestamp \<Rightarrow> 'f usdc_result" where
  "transition_clear_pending_burn s now =
     (if withdrawal_pending s then Inl WithdrawalNotConfirmed
      else case s of
        WithdrawalComplete _ _ _ _ _ \<Rightarrow> Inl WithdrawalNotConfirmed
      | BridgingSubmitting _ _ _ _ _ (Some _) \<Rightarrow> Inr [PendingBurnCleared now]
      | BridgingSubmitting _ _ _ _ _ None \<Rightarrow> Inr []
      | _ \<Rightarrow> Inl BridgingAlreadyStarted)"

definition transition_receive_attestation ::
  "'f usdc_rebalance \<Rightarrow> bytes \<Rightarrow> b256 \<Rightarrow> bytes \<Rightarrow> u64 \<Rightarrow> timestamp \<Rightarrow> 'f usdc_result" where
  "transition_receive_attestation s attestation cctp_nonce message mint_scan_from_block attested_at =
     (if withdrawal_pending s then Inl BridgingNotInitiated
      else case s of
        WithdrawalComplete _ _ _ _ _ \<Rightarrow> Inl BridgingNotInitiated
      | BridgingSubmitting _ _ _ _ _ _ \<Rightarrow> Inl BridgingNotInitiated
      | Bridging _ _ _ _ _ \<Rightarrow> Inr [BridgeAttestationReceived attestation cctp_nonce (Some message)
          (Some mint_scan_from_block) attested_at]
      | AwaitingAttestation _ _ _ _ _ _ \<Rightarrow> Inr [BridgeAttestationReceived attestation cctp_nonce
          (Some message) (Some mint_scan_from_block) attested_at]
      | Attested _ _ _ _ _ _ _ _ _ \<Rightarrow> Inl (InvalidCommand ''ReceiveAttestation'' ''Attested'')
      | _ \<Rightarrow> Inl BridgingAlreadyCompleted)"

definition transition_timeout_attestation ::
  "'f usdc_rebalance \<Rightarrow> timestamp \<Rightarrow> timestamp \<Rightarrow> 'f usdc_result" where
  "transition_timeout_attestation s retry_deadline_at now =
     (if withdrawal_pending s then Inl BridgingNotInitiated
      else case s of
        WithdrawalComplete _ _ _ _ _ \<Rightarrow> Inl BridgingNotInitiated
      | BridgingSubmitting _ _ _ _ _ _ \<Rightarrow> Inl BridgingNotInitiated
      | Bridging _ _ burn_tx_hash _ _ \<Rightarrow> Inr [AttestationTimedOut burn_tx_hash retry_deadline_at now]
      | AwaitingAttestation _ _ _ _ _ _ \<Rightarrow>
          Inl (InvalidCommand ''TimeoutAttestation'' ''AwaitingAttestation'')
      | Attested _ _ _ _ _ _ _ _ _ \<Rightarrow> Inl (InvalidCommand ''TimeoutAttestation'' ''Attested'')
      | _ \<Rightarrow> Inl BridgingAlreadyCompleted)"

definition transition_confirm_bridging ::
  "'f usdc_rebalance \<Rightarrow> tx_hash \<Rightarrow> 'f usdc \<Rightarrow> 'f usdc \<Rightarrow> timestamp \<Rightarrow> 'f usdc_result" where
  "transition_confirm_bridging s mint_tx amount_received fee_collected minted_at =
     (if withdrawal_pending s then Inl AttestationNotReceived
      else case s of
        WithdrawalComplete _ _ _ _ _ \<Rightarrow> Inl AttestationNotReceived
      | BridgingSubmitting _ _ _ _ _ _ \<Rightarrow> Inl AttestationNotReceived
      | Bridging _ _ _ _ _ \<Rightarrow> Inl AttestationNotReceived
      | AwaitingAttestation _ _ _ _ _ _ \<Rightarrow> Inl AttestationNotReceived
      | Attested _ _ _ _ _ _ _ _ _ \<Rightarrow>
          Inr [usdc_rebalance_event.Bridged mint_tx amount_received fee_collected minted_at]
      | _ \<Rightarrow> Inl BridgingAlreadyCompleted)"

definition transition_fail_bridging :: "'f usdc_rebalance \<Rightarrow> string \<Rightarrow> timestamp \<Rightarrow> 'f usdc_result" where
  "transition_fail_bridging s reason now =
     (if withdrawal_pending s then Inl BridgingNotInitiated
      else case s of
        BridgingSubmitting _ _ _ _ _ (Some _) \<Rightarrow> Inl BurnAlreadyRecorded
      | WithdrawalComplete _ _ _ _ _ \<Rightarrow> Inr [usdc_rebalance_event.BridgingFailed None None reason now]
      | BridgingSubmitting _ _ _ _ _ None \<Rightarrow>
          Inr [usdc_rebalance_event.BridgingFailed None None reason now]
      | Bridging _ _ burn_tx_hash _ _ \<Rightarrow>
          Inr [usdc_rebalance_event.BridgingFailed (Some burn_tx_hash) None reason now]
      | AwaitingAttestation _ _ burn_tx_hash _ _ _ \<Rightarrow>
          Inr [usdc_rebalance_event.BridgingFailed (Some burn_tx_hash) None reason now]
      | Attested _ _ burn_tx_hash cctp_nonce _ _ _ _ _ \<Rightarrow>
          Inr [usdc_rebalance_event.BridgingFailed (Some burn_tx_hash) (Some cctp_nonce) reason now]
      | _ \<Rightarrow> Inl BridgingAlreadyCompleted)"

definition transition_recover_bridging ::
  "'f usdc_rebalance \<Rightarrow> tx_hash \<Rightarrow> 'f usdc \<Rightarrow> 'f usdc \<Rightarrow> timestamp \<Rightarrow> 'f usdc_result" where
  "transition_recover_bridging s mint_tx amount_received fee_collected now = (case s of
     BridgingFailed _ _ (Some _) _ _ _ _ \<Rightarrow>
       Inr [BridgingCompletionRecovered mint_tx amount_received fee_collected now]
   | BridgingFailed _ _ None _ _ _ _ \<Rightarrow>
       Inl (InvalidCommand ''RecoverBridging'' ''BridgingFailed (pre-burn: no mint to recover)'')
   | _ \<Rightarrow> Inl (InvalidCommand ''RecoverBridging''
       ''non-failed (RecoverBridging is only valid from a post-burn BridgingFailed)''))"

text \<open>The states that have not finished bridging, the first arm of the deposit handlers.\<close>

fun bridging_unfinished :: "'f usdc_rebalance \<Rightarrow> bool" where
  "bridging_unfinished (WithdrawalComplete _ _ _ _ _) = True"
| "bridging_unfinished (BridgingSubmitting _ _ _ _ _ _) = True"
| "bridging_unfinished (Bridging _ _ _ _ _) = True"
| "bridging_unfinished (AwaitingAttestation _ _ _ _ _ _) = True"
| "bridging_unfinished (Attested _ _ _ _ _ _ _ _ _) = True"
| "bridging_unfinished (BridgingFailed _ _ _ _ _ _ _) = True"
| "bridging_unfinished s = withdrawal_pending s"

definition transition_initiate_deposit ::
  "'f usdc_debug \<Rightarrow> 'f usdc_rebalance \<Rightarrow> transfer_ref \<Rightarrow> timestamp \<Rightarrow> 'f usdc_result" where
  "transition_initiate_deposit D s deposit deposit_initiated_at =
     (if bridging_unfinished s then Inl BridgingNotCompleted
      else case s of
        Bridged _ _ _ _ _ _ _ _ \<Rightarrow>
          Inr [usdc_rebalance_event.DepositInitiated deposit deposit_initiated_at]
      | _ \<Rightarrow> Inl (InvalidCommand ''InitiateDeposit'' (debug_rebalance D s)))"

definition transition_confirm_deposit ::
  "'f usdc_debug \<Rightarrow> 'f usdc_rebalance \<Rightarrow> timestamp \<Rightarrow> 'f usdc_result" where
  "transition_confirm_deposit D s deposit_confirmed_at =
     (if bridging_unfinished s then Inl DepositNotInitiated
      else case s of
        Bridged _ _ _ _ _ _ _ _ \<Rightarrow> Inl DepositNotInitiated
      | DepositInitiated direction _ _ _ _ _ _ \<Rightarrow>
          Inr [usdc_rebalance_event.DepositConfirmed direction deposit_confirmed_at]
      | _ \<Rightarrow> Inl (InvalidCommand ''ConfirmDeposit'' (debug_rebalance D s)))"

definition transition_fail_deposit ::
  "'f usdc_debug \<Rightarrow> 'f usdc_rebalance \<Rightarrow> string \<Rightarrow> timestamp \<Rightarrow> 'f usdc_result" where
  "transition_fail_deposit D s reason now =
     (if bridging_unfinished s then Inl DepositNotInitiated
      else case s of
        Bridged _ _ _ _ _ _ _ _ \<Rightarrow> Inl DepositNotInitiated
      | DepositInitiated _ _ _ _ deposit_ref _ _ \<Rightarrow>
          Inr [usdc_rebalance_event.DepositFailed (Some deposit_ref) reason now]
      | _ \<Rightarrow> Inl (InvalidCommand ''FailDeposit'' (debug_rebalance D s)))"

definition transition_reconcile_stuck_rebalance ::
  "'f usdc_debug \<Rightarrow> 'f usdc_rebalance \<Rightarrow> reconcile_reason \<Rightarrow> timestamp \<Rightarrow> 'f usdc_result" where
  "transition_reconcile_stuck_rebalance D s reason now =
     (let reconciled = (\<lambda>d a i. Inr [OperatorReconciled d a reason i now]);
          rejected = Inl (InvalidCommand ''ReconcileStuckRebalance'' (debug_rebalance D s))
      in case s of
        DepositFailed d a _ _ _ _ i _ \<Rightarrow> reconciled d a i
      | ConversionFailed BaseToAlpaca a _ _ i _ \<Rightarrow> reconciled BaseToAlpaca a i
      | BridgingFailed d a burn_tx_hash cctp_nonce _ i _ \<Rightarrow>
          if burn_tx_hash \<noteq> None \<or> cctp_nonce \<noteq> None then reconciled d a i else rejected
      | _ \<Rightarrow> rejected)"

text \<open>\<open>now\<close> is the reading of \<^verbatim>\<open>Utc::now()\<close> in the arm that stamps the event.\<close>

fun usdc_transition ::
  "'f float_ops \<Rightarrow> 'f usdc_debug \<Rightarrow> timestamp \<Rightarrow> 'f usdc_rebalance \<Rightarrow> 'f usdc_rebalance_command \<Rightarrow>
   'f usdc_result" where
  "usdc_transition F D now s (InitiateConversion _ _ _) = Inl AlreadyInitiated"
| "usdc_transition F D now s (ConfirmConversion conversion) = transition_confirm_conversion s conversion now"
| "usdc_transition F D now s (FailConversion reason) = transition_fail_conversion s reason now"
| "usdc_transition F D now s (InitiatePostDepositConversion order_id a) =
     transition_post_deposit_conversion F s order_id a now"
| "usdc_transition F D now s (BeginWithdrawal d a from_block) =
     transition_begin_withdrawal F D s d a from_block now"
| "usdc_transition F D now s (Initiate d a withdrawal) =
     transition_initiate_withdrawal F D s d a withdrawal now"
| "usdc_transition F D now s (ConfirmWithdrawal withdrawal_tx) =
     transition_confirm_withdrawal s withdrawal_tx now"
| "usdc_transition F D now s (FailWithdrawal reason) = transition_fail_withdrawal s reason now"
| "usdc_transition F D now s (BeginBridging from_block burn_amount) =
     transition_begin_bridging F s from_block burn_amount now"
| "usdc_transition F D now s (InitiateBridging burn_tx) = transition_initiate_bridging s burn_tx now"
| "usdc_transition F D now s (RecordPendingBurn burn_tx) = transition_record_pending_burn s burn_tx now"
| "usdc_transition F D now s ClearPendingBurn = transition_clear_pending_burn s now"
| "usdc_transition F D now s (ReceiveAttestation attestation cctp_nonce message mint_scan_from_block) =
     transition_receive_attestation s attestation cctp_nonce message mint_scan_from_block now"
| "usdc_transition F D now s (TimeoutAttestation retry_deadline_at) =
     transition_timeout_attestation s retry_deadline_at now"
| "usdc_transition F D now s (ConfirmBridging mint_tx amount_received fee_collected) =
     transition_confirm_bridging s mint_tx amount_received fee_collected now"
| "usdc_transition F D now s (FailBridging reason) = transition_fail_bridging s reason now"
| "usdc_transition F D now s (RecoverBridging mint_tx amount_received fee_collected) =
     transition_recover_bridging s mint_tx amount_received fee_collected now"
| "usdc_transition F D now s (InitiateDeposit deposit) = transition_initiate_deposit D s deposit now"
| "usdc_transition F D now s ConfirmDeposit = transition_confirm_deposit D s now"
| "usdc_transition F D now s (FailDeposit reason) = transition_fail_deposit D s reason now"
| "usdc_transition F D now s (ReconcileStuckRebalance reason) =
     transition_reconcile_stuck_rebalance D s reason now"

lemmas usdc_handlers = transition_initiate_withdrawal_def withdrawal_entry_def
  transition_confirm_withdrawal_def transition_fail_withdrawal_def transition_begin_bridging_def
  transition_initiate_bridging_def transition_record_pending_burn_def transition_clear_pending_burn_def
  transition_receive_attestation_def transition_timeout_attestation_def transition_confirm_bridging_def
  transition_fail_bridging_def transition_recover_bridging_def transition_initiate_deposit_def
  transition_confirm_deposit_def transition_fail_deposit_def transition_reconcile_stuck_rebalance_def

section \<open>Startup query\<close>

record interrupted_usdc_rebalances =
  iur_ids :: "usdc_rebalance_id list"
  iur_unparseable :: "string list"

definition interrupted_usdc_event_types :: "string list" where
  "interrupted_usdc_event_types = [
     ''UsdcRebalanceEvent::ConversionInitiated'',
     ''UsdcRebalanceEvent::ConversionConfirmed'',
     ''UsdcRebalanceEvent::ConversionFailed'',
     ''UsdcRebalanceEvent::Initiated'',
     ''UsdcRebalanceEvent::WithdrawalSubmitting'',
     ''UsdcRebalanceEvent::WithdrawalConfirmed'',
     ''UsdcRebalanceEvent::BridgingSubmitting'',
     ''UsdcRebalanceEvent::PendingBurnRecorded'',
     ''UsdcRebalanceEvent::PendingBurnCleared'',
     ''UsdcRebalanceEvent::BridgingInitiated'',
     ''UsdcRebalanceEvent::BridgeAttestationReceived'',
     ''UsdcRebalanceEvent::AttestationTimedOut'',
     ''UsdcRebalanceEvent::Bridged'',
     ''UsdcRebalanceEvent::BridgingFailed'',
     ''UsdcRebalanceEvent::BridgingCompletionRecovered'',
     ''UsdcRebalanceEvent::DepositInitiated'',
     ''UsdcRebalanceEvent::DepositConfirmed'',
     ''UsdcRebalanceEvent::DepositFailed'']"

fun split_parsed_ids :: "(string \<Rightarrow> 'e + uuid) \<Rightarrow> string list \<Rightarrow> interrupted_usdc_rebalances" where
  "split_parsed_ids parse [] = \<lparr>iur_ids = [], iur_unparseable = []\<rparr>"
| "split_parsed_ids parse (raw # rows) =
     (let rest = split_parsed_ids parse rows in
      case parse raw of
        Inr u \<Rightarrow> rest\<lparr>iur_ids := UsdcRebalanceId u # iur_ids rest\<rparr>
      | Inl _ \<Rightarrow> rest\<lparr>iur_unparseable := raw # iur_unparseable rest\<rparr>)"

definition interrupted_usdc_rebalance_ids ::
  "(string \<Rightarrow> 'e + uuid) \<Rightarrow> 'p event_row list \<Rightarrow> interrupted_usdc_rebalances" where
  "interrupted_usdc_rebalance_ids parse rows =
     split_parsed_ids parse (ids_with_last_event_in rows ''UsdcRebalance'' interrupted_usdc_event_types)"

section \<open>The state diagram\<close>

text \<open>
  The machine the module documentation draws, as a step relation: one rule per arrow, with the
  event the arrow records. \<open>burn_in_range\<close> is the guard on the recorded burn amount.
\<close>

definition burn_in_range :: "'f float_ops \<Rightarrow> 'f usdc option \<Rightarrow> 'f usdc \<Rightarrow> bool" where
  "burn_in_range F burn a = (case burn of None \<Rightarrow> True | Some b \<Rightarrow> burn_amount_out_of_range F b a = Inr False)"

inductive rebalance_step ::
  "'f float_ops \<Rightarrow> 'f usdc_rebalance \<Rightarrow> 'f usdc_rebalance_event \<Rightarrow> 'f usdc_rebalance \<Rightarrow> bool"
  for F :: "'f float_ops" where
  conversion_confirmed: "rebalance_step F (Converting d a oid i) (ConversionConfirmed d cv t)
    (ConversionComplete d a cv i t)"
| conversion_failed: "rebalance_step F (Converting d a oid i) (usdc_rebalance_event.ConversionFailed r t)
    (ConversionFailed d a oid r i t)"
| post_deposit: "rebalance_step F (DepositConfirmed BaseToAlpaca a b m i t)
    (ConversionInitiated BaseToAlpaca a oid t') (Converting BaseToAlpaca a oid i)"
| begin_withdrawal: "rebalance_step F (ConversionComplete d a cv i t)
    (usdc_rebalance_event.WithdrawalSubmitting d (received_amount cv) fb t')
    (WithdrawalSubmitting d (received_amount cv) fb i)"
| initiate_submitted: "rebalance_step F (WithdrawalSubmitting d a fb i) (Initiated d a w t)
    (Withdrawing d a w t)"
| initiate_converted: "rebalance_step F (ConversionComplete d a cv i t)
    (Initiated d (received_amount cv) w t') (Withdrawing d (received_amount cv) w t')"
| withdrawal_confirmed: "rebalance_step F (Withdrawing d a w i) (WithdrawalConfirmed t tx)
    (WithdrawalComplete d a i t tx)"
| withdrawal_failed: "rebalance_step F (Withdrawing d a w i) (usdc_rebalance_event.WithdrawalFailed r t)
    (WithdrawalFailed d a w r i t)"
| begin_bridging: "burn_in_range F ba a \<Longrightarrow> rebalance_step F (WithdrawalComplete d a i t tx)
    (usdc_rebalance_event.BridgingSubmitting fb t' ba) (BridgingSubmitting d a fb i ba None)"
| burn_recorded: "rebalance_step F (BridgingSubmitting d a fb i ba p) (PendingBurnRecorded b t)
    (BridgingSubmitting d a fb i ba (Some b))"
| burn_cleared: "rebalance_step F (BridgingSubmitting d a fb i ba (Some b)) (PendingBurnCleared t)
    (BridgingSubmitting d a fb i ba None)"
| burned: "rebalance_step F (BridgingSubmitting d a fb i ba p) (BridgingInitiated b t)
    (Bridging d (case ba of None \<Rightarrow> a | Some a' \<Rightarrow> a') b i t)"
| burned_directly: "rebalance_step F (WithdrawalComplete d a i t tx) (BridgingInitiated b t')
    (Bridging d a b i t')"
| attested: "rebalance_step F (Bridging d a b i t) (BridgeAttestationReceived att n (Some msg) (Some sb) t')
    (Attested d a b n att (Some msg) (Some sb) i t')"
| attested_late: "rebalance_step F (AwaitingAttestation d a b i t dl)
    (BridgeAttestationReceived att n (Some msg) (Some sb) t')
    (Attested d a b n att (Some msg) (Some sb) i t')"
| attestation_timed_out: "rebalance_step F (Bridging d a b i t) (AttestationTimedOut b dl t')
    (AwaitingAttestation d a b i t' dl)"
| minted: "rebalance_step F (Attested d a b n att msg sb i t) (usdc_rebalance_event.Bridged m recv fee t')
    (Bridged d a recv fee b m i t')"
| fail_unsubmitted: "rebalance_step F (WithdrawalComplete d a i t tx)
    (usdc_rebalance_event.BridgingFailed None None r t') (BridgingFailed d a None None r i t')"
| fail_unburned: "rebalance_step F (BridgingSubmitting d a fb i ba None)
    (usdc_rebalance_event.BridgingFailed None None r t') (BridgingFailed d a None None r i t')"
| fail_burned: "rebalance_step F (Bridging d a b i t)
    (usdc_rebalance_event.BridgingFailed (Some b) None r t') (BridgingFailed d a (Some b) None r i t')"
| fail_awaiting: "rebalance_step F (AwaitingAttestation d a b i t dl)
    (usdc_rebalance_event.BridgingFailed (Some b) None r t') (BridgingFailed d a (Some b) None r i t')"
| fail_attested: "rebalance_step F (Attested d a b n att msg sb i t)
    (usdc_rebalance_event.BridgingFailed (Some b) (Some n) r t')
    (BridgingFailed d a (Some b) (Some n) r i t')"
| recovered: "rebalance_step F (BridgingFailed d a (Some b) n r i t)
    (BridgingCompletionRecovered m recv fee t') (Bridged d a recv fee b m i t')"
| deposit_initiated: "rebalance_step F (Bridged d a recv fee b m i t)
    (usdc_rebalance_event.DepositInitiated ref t') (DepositInitiated d recv b m ref i t')"
| deposit_confirmed: "rebalance_step F (DepositInitiated d a b m ref i t)
    (usdc_rebalance_event.DepositConfirmed d t') (DepositConfirmed d a b m i t')"
| deposit_failed: "rebalance_step F (DepositInitiated d a b m ref i t)
    (usdc_rebalance_event.DepositFailed (Some ref) r t') (DepositFailed d a b m (Some ref) r i t')"
| reconcile_deposit: "rebalance_step F (DepositFailed d a b m ref r i t)
    (OperatorReconciled d a rr i t') (Reconciled d a rr (Some r) i t')"
| reconcile_conversion: "rebalance_step F (ConversionFailed BaseToAlpaca a oid r i t)
    (OperatorReconciled BaseToAlpaca a rr i t') (Reconciled BaseToAlpaca a rr (Some r) i t')"
| reconcile_bridging: "b \<noteq> None \<or> n \<noteq> None \<Longrightarrow> rebalance_step F (BridgingFailed d a b n r i t)
    (OperatorReconciled d a rr i t') (Reconciled d a rr (Some r) i t')"

lemmas usdc_splits = if_splits option.splits sum.splits rebalance_direction.splits

lemma not_AlpacaToBase [simp]: "d \<noteq> AlpacaToBase \<longleftrightarrow> d = BaseToAlpaca" "d \<noteq> BaseToAlpaca \<longleftrightarrow> d = AlpacaToBase"
  by (cases d; simp)+

lemma rebalance_step_evolve: "rebalance_step F s e s' \<Longrightarrow> usdc_evolve s e = Inr (Some s')"
  by (cases rule: rebalance_step.cases) auto

lemma begin_bridging_Inr:
  "transition_begin_bridging F s fb ba t = Inr evs \<longleftrightarrow>
   (\<exists>d a i t' tx. s = WithdrawalComplete d a i t' tx \<and> burn_in_range F ba a \<and>
     evs = [usdc_rebalance_event.BridgingSubmitting fb t ba])"
  by (cases s) (auto simp: transition_begin_bridging_def burn_in_range_def tryr_def
      split: usdc_splits)

definition next_rebalance :: "'f usdc_rebalance \<Rightarrow> 'f usdc_rebalance_event \<Rightarrow> 'f usdc_rebalance" where
  "next_rebalance s e = (case usdc_evolve s e of Inr (Some s') \<Rightarrow> s' | _ \<Rightarrow> s)"

lemma next_rebalance_Some: "usdc_evolve s e = Inr (Some s') \<Longrightarrow> next_rebalance s e = s'"
  by (simp add: next_rebalance_def)

text \<open>An accepted command records nothing or takes one arrow.\<close>

lemma usdc_transition_arrows:
  assumes "usdc_transition F D now s c = Inr evs"
  shows "length evs \<le> 1 \<and> list_all (\<lambda>e. rebalance_step F s e (next_rebalance s e)) evs"
proof (cases "\<exists>fb ba. c = BeginBridging fb ba")
  case True
  with assms show ?thesis
    by (auto simp: begin_bridging_Inr next_rebalance_Some rebalance_step.begin_bridging)
next
  case False
  with assms show ?thesis
    by (cases c; cases s) (auto simp: usdc_handlers next_rebalance_Some rebalance_step.intros
      split: usdc_splits)
qed

lemma usdc_transition_step:
  assumes "usdc_transition F D now s c = Inr evs"
  obtains "evs = []" | e s' where "evs = [e]" "rebalance_step F s e s'"
proof (cases evs)
  case (Cons e es)
  with usdc_transition_arrows [OF assms] that show ?thesis by auto
qed (use that in blast)

text \<open>The command that records an event on a live rebalance, and the time the event carries.\<close>

fun recording_command :: "'f usdc_rebalance_event \<Rightarrow> timestamp \<times> 'f usdc_rebalance_command" where
  "recording_command (ConversionInitiated _ a oid t) = (t, InitiatePostDepositConversion oid a)"
| "recording_command (ConversionConfirmed _ cv t) = (t, ConfirmConversion cv)"
| "recording_command (usdc_rebalance_event.ConversionFailed r t) = (t, FailConversion r)"
| "recording_command (usdc_rebalance_event.WithdrawalSubmitting d a fb t) = (t, BeginWithdrawal d a fb)"
| "recording_command (Initiated d a w t) = (t, Initiate d a w)"
| "recording_command (WithdrawalConfirmed t tx) = (t, ConfirmWithdrawal tx)"
| "recording_command (usdc_rebalance_event.WithdrawalFailed r t) = (t, FailWithdrawal r)"
| "recording_command (usdc_rebalance_event.BridgingSubmitting fb t ba) = (t, BeginBridging fb ba)"
| "recording_command (BridgingInitiated b t) = (t, InitiateBridging b)"
| "recording_command (PendingBurnRecorded b t) = (t, RecordPendingBurn b)"
| "recording_command (PendingBurnCleared t) = (t, ClearPendingBurn)"
| "recording_command (BridgeAttestationReceived att n msg sb t) =
     (t, ReceiveAttestation att n (the msg) (the sb))"
| "recording_command (AttestationTimedOut b dl t) = (t, TimeoutAttestation dl)"
| "recording_command (usdc_rebalance_event.Bridged m recv fee t) = (t, ConfirmBridging m recv fee)"
| "recording_command (usdc_rebalance_event.BridgingFailed b n r t) = (t, FailBridging r)"
| "recording_command (BridgingCompletionRecovered m recv fee t) = (t, RecoverBridging m recv fee)"
| "recording_command (usdc_rebalance_event.DepositInitiated ref t) = (t, InitiateDeposit ref)"
| "recording_command (usdc_rebalance_event.DepositConfirmed d t) = (t, ConfirmDeposit)"
| "recording_command (usdc_rebalance_event.DepositFailed ref r t) = (t, FailDeposit r)"
| "recording_command (OperatorReconciled d a rr i t) = (t, ReconcileStuckRebalance rr)"

lemma rebalance_step_command:
  assumes "rebalance_step F s e s'" and eq: "\<And>a. usdc_eq F a a"
    and "recording_command e = (now, c)"
  shows "usdc_transition F D now s c = Inr [e]"
  using assms(1,3)
  by (cases rule: rebalance_step.cases) (auto simp: usdc_handlers begin_bridging_Inr eq simp del: transition_begin_bridging_def)


definition demo_debug :: "rat usdc_debug" where
  "demo_debug = \<lparr>debug_float = (\<lambda>_. ''f''), debug_rebalance = (\<lambda>_. ''s'')\<rparr>"

lemma exact_usdc_eq: "usdc_eq exact_rat a a"
  by (simp add: usdc_eq_def exact_rat_ops)


section \<open>Reachable rebalances\<close>

abbreviation usdc_replay ::
  "'f usdc_rebalance lifecycle \<Rightarrow> 'f usdc_rebalance_event list \<Rightarrow> 'f usdc_rebalance lifecycle" where
  "usdc_replay \<equiv> replay usdc_originate usdc_evolve"

abbreviation usdc_log ::
  "'f float_ops \<Rightarrow> 'f usdc_debug \<Rightarrow> 'f usdc_rebalance_event list \<Rightarrow>
   (timestamp \<times> 'f usdc_rebalance_command) list \<Rightarrow> 'f usdc_rebalance_event list" where
  "usdc_log F D \<equiv> command_log usdc_originate usdc_evolve usdc_initialize (usdc_transition F D)"

text \<open>A known nonce comes with a known burn, and the optional fields of older events are set.\<close>

fun usdc_inv :: "'f usdc_rebalance \<Rightarrow> bool" where
  "usdc_inv (BridgingFailed _ _ burn nonce _ _ _) = (nonce \<noteq> None \<longrightarrow> burn \<noteq> None)"
| "usdc_inv (Attested _ _ _ _ _ message scan_from _ _) = (message \<noteq> None \<and> scan_from \<noteq> None)"
| "usdc_inv (DepositFailed _ _ _ _ deposit_ref _ _ _) = (deposit_ref \<noteq> None)"
| "usdc_inv (Reconciled _ _ _ failure_reason _ _) = (failure_reason \<noteq> None)"
| "usdc_inv _ = True"

lemma rebalance_step_inv: "rebalance_step F s e s' \<Longrightarrow> usdc_inv s \<Longrightarrow> usdc_inv s'"
  by (cases rule: rebalance_step.cases) auto

lemma rebalance_step_direction:
  "rebalance_step F s e s' \<Longrightarrow> rebalance_direction_of s' = rebalance_direction_of s"
  by (cases rule: rebalance_step.cases) auto

lemma usdc_initialize_Inr:
  assumes "usdc_initialize now c = Inr evs"
  obtains e s where "evs = [e]" "usdc_originate e = Some s" "usdc_inv s"
  using assms by (cases c) (auto simp: begin_withdrawal_init_events_def split: if_splits)

lemma usdc_transition_replay:
  assumes "usdc_transition F D now s c = Inr evs" and "usdc_inv s"
  obtains s' where "usdc_replay (Live s) evs = Live s'" "usdc_inv s'"
  using assms(1)
proof (cases rule: usdc_transition_step)
  case 1
  with that assms(2) show ?thesis by simp
next
  case (2 e s')
  with that rebalance_step_inv [OF _ assms(2)] show ?thesis
    by (simp add: rebalance_step_evolve del: usdc_evolve.simps)
qed

interpretation uagg: aggregate usdc_originate usdc_evolve usdc_initialize "usdc_transition F D" usdc_inv
proof unfold_locales
  fix sv c and evs :: "'a usdc_rebalance_event list"
  assume "usdc_initialize sv c = Inr evs"
  then show "\<exists>s. usdc_replay Uninitialized evs = Live s \<and> usdc_inv s"
    by (rule usdc_initialize_Inr) simp
next
  fix s sv c and evs :: "'a usdc_rebalance_event list"
  assume "usdc_inv s" "usdc_transition F D sv s c = Inr evs"
  then show "\<exists>s'. usdc_replay (Live s) evs = Live s' \<and> usdc_inv s'"
    by (metis usdc_transition_replay)
qed

fun opening_direction :: "'f usdc_rebalance_event \<Rightarrow> rebalance_direction option" where
  "opening_direction (ConversionInitiated d _ _ _) = Some d"
| "opening_direction (usdc_rebalance_event.WithdrawalSubmitting d _ _ _) = Some d"
| "opening_direction (Initiated d _ _ _) = Some d"
| "opening_direction _ = None"

lemma usdc_originate_direction:
  "usdc_originate e = Some s \<Longrightarrow> opening_direction e = Some (rebalance_direction_of s)"
  by (cases e) auto

text \<open>Induction over the arrows that led to a live rebalance.\<close>

lemma usdc_log_induct [consumes 1, case_names opened arrow]:
  assumes "usdc_replay Uninitialized (usdc_log F D [] cs) = Live s"
    and "\<And>e s. usdc_originate e = Some s \<Longrightarrow> P [e] s"
    and "\<And>l s e s'. P l s \<Longrightarrow> usdc_inv s \<Longrightarrow> rebalance_step F s e s' \<Longrightarrow> P (l @ [e]) s'"
  shows "P (usdc_log F D [] cs) s"
  using assms(1)
proof (induction rule: uagg.commands_induct)
  case (init sv c evs s)
  from init(1) obtain e s0 where "evs = [e]" "usdc_originate e = Some s0"
    by (rule usdc_initialize_Inr)
  with init(2) assms(2) show ?case by simp
next
  case (step l s sv c evs s')
  from step(3) show ?case
  proof (cases rule: usdc_transition_step)
    case 1
    with step(1,4) show ?thesis by simp
  next
    case (2 e s1)
    with step(4) have "s1 = s'" by (simp add: rebalance_step_evolve del: usdc_evolve.simps)
    with 2 assms(3) [OF step(1,2)] show ?thesis by simp
  qed
qed

text \<open>
  C37. Every USDC rebalance that commands can reach is sound: no sequence of commands fails the
  lifecycle; a live rebalance has the direction of the event that opened it through its whole
  life, a failed bridge that knows its nonce knows its burn, an attested one can be minted
  without asking again, and failures and reconciliations carry what they refer to.
\<close>

theorem reachable_rebalances_are_sound:
  "usdc_replay Uninitialized (usdc_log F D [] cs) \<noteq> FailedLifecycle \<and>
   (\<forall>s. usdc_replay Uninitialized (usdc_log F D [] cs) = Live s \<longrightarrow> usdc_inv s \<and>
     opening_direction (hd (usdc_log F D [] cs)) = Some (rebalance_direction_of s))"
proof -
  have "usdc_log F D [] cs \<noteq> [] \<and>
      opening_direction (hd (usdc_log F D [] cs)) = Some (rebalance_direction_of s)"
    if "usdc_replay Uninitialized (usdc_log F D [] cs) = Live s" for s
    using that
    by (induction rule: usdc_log_induct) (auto simp: usdc_originate_direction rebalance_step_direction)
  with uagg.commands_never_fail uagg.commands_invariant show ?thesis by blast
qed

text \<open>A transfer to Alpaca that fails after its burn and is recovered, deposited and converted.\<close>

definition demo_usdc_commands :: "(timestamp \<times> rat usdc_rebalance_command) list" where
  "demo_usdc_commands = [(1, BeginWithdrawal BaseToAlpaca (Usdc 5) 100),
     (2, Initiate BaseToAlpaca (Usdc 5) (OnchainTx 7)), (3, ConfirmWithdrawal (Some 7)),
     (4, BeginBridging 101 (Some (Usdc 4))), (5, RecordPendingBurn 8), (6, InitiateBridging 8),
     (7, FailBridging ''receipt''), (8, RecoverBridging 9 (Usdc 4) (Usdc 0)),
     (9, InitiateDeposit (OnchainTx 9)), (10, ConfirmDeposit),
     (11, InitiatePostDepositConversion (Cli 1) (Usdc 4)),
     (12, ConfirmConversion \<lparr>source_amount = Usdc 4, received_amount = Usdc 4\<rparr>)]"

lemmas usdc_eval = demo_usdc_commands_def begin_withdrawal_init_events_def usdc_handlers usdc_eq_def
  burn_amount_out_of_range_def tryr_def usdc_ZERO_def exact_rat_ops

lemma demo_usdc_burned:
  "usdc_replay Uninitialized (usdc_log exact_rat demo_debug [] (take 7 demo_usdc_commands)) =
   Live (BridgingFailed BaseToAlpaca (Usdc 4) (Some 8) None ''receipt'' 2 7)"
  by (simp add: usdc_eval)

theorem reachable_rebalances_are_sound_witness:
  "opening_direction (hd (usdc_log exact_rat demo_debug [] (take 7 demo_usdc_commands))) =
     Some BaseToAlpaca"
  using reachable_rebalances_are_sound [of exact_rat demo_debug "take 7 demo_usdc_commands"]
  by (simp only: demo_usdc_burned) simp

section \<open>The double-burn guard\<close>

text \<open>
  A burn is on record from the event that names it: the burn itself, or the broadcast hash until
  it is cleared. It is settled by the deposit (towards Base), the final conversion (towards
  Alpaca) or an operator.
\<close>

fun settles_burn :: "'f usdc_rebalance_event \<Rightarrow> bool" where
  "settles_burn (usdc_rebalance_event.DepositConfirmed d _) = (d = AlpacaToBase)"
| "settles_burn (ConversionConfirmed d _ _) = (d = BaseToAlpaca)"
| "settles_burn (OperatorReconciled _ _ _ _ _) = True"
| "settles_burn _ = False"

fun is_burn :: "'f usdc_rebalance_event \<Rightarrow> bool" where
  "is_burn (BridgingInitiated _ _) = True"
| "is_burn _ = False"

fun is_pending_burn :: "'f usdc_rebalance_event \<Rightarrow> bool" where
  "is_pending_burn (PendingBurnRecorded _ _) = True"
| "is_pending_burn _ = False"

fun clears_burn :: "'f usdc_rebalance_event \<Rightarrow> bool" where
  "clears_burn (PendingBurnCleared _) = True"
| "clears_burn _ = False"

fun has_burned :: "'f usdc_rebalance \<Rightarrow> bool" where
  "has_burned (Bridging _ _ _ _ _) = True"
| "has_burned (AwaitingAttestation _ _ _ _ _ _) = True"
| "has_burned (Attested _ _ _ _ _ _ _ _ _) = True"
| "has_burned (Bridged _ _ _ _ _ _ _ _) = True"
| "has_burned (BridgingFailed _ _ burn _ _ _ _) = (burn \<noteq> None)"
| "has_burned (DepositInitiated _ _ _ _ _ _ _) = True"
| "has_burned (DepositFailed _ _ _ _ _ _ _ _) = True"
| "has_burned (DepositConfirmed d _ _ _ _ _) = (d = BaseToAlpaca)"
| "has_burned (Converting d _ _ _) = (d = BaseToAlpaca)"
| "has_burned (ConversionFailed d _ _ _ _ _) = (d = BaseToAlpaca)"
| "has_burned _ = False"

fun may_have_burned :: "'f usdc_rebalance \<Rightarrow> bool" where
  "may_have_burned (BridgingSubmitting _ _ _ _ _ pending) = (pending \<noteq> None)"
| "may_have_burned s = has_burned s"

text \<open>A class of states that an event enters and later events keep.\<close>

lemma usdc_log_since:
  assumes "usdc_replay Uninitialized (usdc_log F D [] cs) = Live s"
    and "usdc_log F D [] cs = before @ e # after" and "enters e" and "\<forall>e'\<in>set after. keeps e'"
    and enter: "\<And>s e s'. rebalance_step F s e s' \<Longrightarrow> enters e \<Longrightarrow> C s'"
    and keep: "\<And>s e s'. rebalance_step F s e s' \<Longrightarrow> keeps e \<Longrightarrow> C s \<Longrightarrow> C s'"
    and late: "\<And>e s. enters e \<Longrightarrow> usdc_originate e \<noteq> Some s"
  shows "C s"
proof -
  have "\<forall>before e after. usdc_log F D [] cs = before @ e # after \<longrightarrow> enters e \<longrightarrow>
      (\<forall>e'\<in>set after. keeps e') \<longrightarrow> C s"
    using assms(1)
  proof (induction rule: usdc_log_induct)
    case (opened e s)
    with late show ?case by (auto simp: Cons_eq_append_conv)
  next
    case (arrow l s e s')
    show ?case
    proof (intro allI impI)
      fix before e0 after
      assume l: "l @ [e] = before @ e0 # after" and e0: "enters e0" and k: "\<forall>e'\<in>set after. keeps e'"
      show "C s'"
      proof (cases after rule: rev_cases)
        case Nil
        with l e0 arrow(3) enter show ?thesis by simp
      next
        case (snoc as e1)
        with l k have "l = before @ e0 # as" "e1 = e" "keeps e" by auto
        with arrow e0 k snoc keep show ?thesis by auto
      qed
    qed
  qed
  with assms(2-4) show ?thesis by blast
qed

lemma has_burned_entered: "rebalance_step F s e s' \<Longrightarrow> is_burn e \<Longrightarrow> has_burned s'"
  by (cases rule: rebalance_step.cases) auto

lemma has_burned_kept:
  "rebalance_step F s e s' \<Longrightarrow> \<not> settles_burn e \<Longrightarrow> has_burned s \<Longrightarrow> has_burned s'"
  by (cases rule: rebalance_step.cases) auto

lemma may_have_burned_entered: "rebalance_step F s e s' \<Longrightarrow> is_pending_burn e \<Longrightarrow> may_have_burned s'"
  by (cases rule: rebalance_step.cases) auto

lemma may_have_burned_kept:
  "rebalance_step F s e s' \<Longrightarrow> \<not> settles_burn e \<and> \<not> clears_burn e \<Longrightarrow> may_have_burned s \<Longrightarrow>
   may_have_burned s'"
  by (cases rule: rebalance_step.cases) auto

lemma burn_is_late: "is_burn e \<or> is_pending_burn e \<Longrightarrow> usdc_originate e \<noteq> Some s"
  by (cases e) auto

lemma may_have_burned_guard: "may_have_burned s \<Longrightarrow> holds_rebalance_guard s"
  by (cases s) auto

lemma has_burned_may: "has_burned s \<Longrightarrow> may_have_burned s"
  by (cases s) auto

lemma may_have_burned_fails_post_burn:
  "may_have_burned s \<Longrightarrow> usdc_transition F D now s (FailBridging r) = Inr evs \<Longrightarrow>
   \<exists>b n. evs = [usdc_rebalance_event.BridgingFailed (Some b) n r now]"
  by (cases s) (auto simp: transition_fail_bridging_def split: usdc_splits)


lemma demo_usdc_log:
  "usdc_log exact_rat demo_debug [] (take 5 demo_usdc_commands) =
   [usdc_rebalance_event.WithdrawalSubmitting BaseToAlpaca (Usdc 5) 100 1,
    Initiated BaseToAlpaca (Usdc 5) (OnchainTx 7) 2, WithdrawalConfirmed 3 (Some 7),
    usdc_rebalance_event.BridgingSubmitting 101 4 (Some (Usdc 4))] @ PendingBurnRecorded 8 5 # []"
  by (simp add: usdc_eval)

lemma demo_usdc_pending:
  "usdc_replay Uninitialized (usdc_log exact_rat demo_debug [] (take 5 demo_usdc_commands)) =
   Live (BridgingSubmitting BaseToAlpaca (Usdc 5) 101 2 (Some (Usdc 4)) (Some 8))"
  by (simp add: usdc_eval)


section \<open>Operator reconciliation\<close>

fun is_failed_rebalance :: "'f usdc_rebalance \<Rightarrow> bool" where
  "is_failed_rebalance (ConversionFailed _ _ _ _ _ _) = True"
| "is_failed_rebalance (WithdrawalFailed _ _ _ _ _ _) = True"
| "is_failed_rebalance (BridgingFailed _ _ _ _ _ _ _) = True"
| "is_failed_rebalance (DepositFailed _ _ _ _ _ _ _ _) = True"
| "is_failed_rebalance _ = False"

fun rebalance_failure_reason :: "'f usdc_rebalance \<Rightarrow> string option" where
  "rebalance_failure_reason (ConversionFailed _ _ _ r _ _) = Some r"
| "rebalance_failure_reason (WithdrawalFailed _ _ _ r _ _) = Some r"
| "rebalance_failure_reason (BridgingFailed _ _ _ _ r _ _) = Some r"
| "rebalance_failure_reason (DepositFailed _ _ _ _ _ r _ _) = Some r"
| "rebalance_failure_reason _ = None"

lemma reconcile_accepted_iff:
  "is_ok (usdc_transition F D now s (ReconcileStuckRebalance reason)) \<longleftrightarrow> is_post_burn_failure s"
  by (cases s) (auto simp: transition_reconcile_stuck_rebalance_def is_ok_iff split: usdc_splits)

lemma reconcile_effect:
  assumes "usdc_transition F D now s (ReconcileStuckRebalance reason) = Inr evs"
  shows "\<exists>i. usdc_replay (Live s) evs = Live (Reconciled (rebalance_direction_of s) (rebalance_amount s)
    reason (rebalance_failure_reason s) i now)"
  using assms by (cases s) (auto simp: transition_reconcile_stuck_rebalance_def split: usdc_splits)

lemma post_burn_failure_iff:
  "usdc_inv s \<Longrightarrow> is_post_burn_failure s \<longleftrightarrow> is_failed_rebalance s \<and> holds_rebalance_guard s"
  by (cases s) (auto split: rebalance_direction.splits elim: is_post_burn_failure.elims)

text \<open>
  The dashboard's offer, the operator's command and the guard agree: for every reachable
  rebalance, the view reports a post-burn failure exactly when \<^verbatim>\<open>ReconcileStuckRebalance\<close> is
  accepted, exactly when the rebalance has failed and still holds the guard; and an accepted
  command ends in the reconciled state, with direction, effective amount and failure reason kept
  and the guard released.
\<close>

theorem reconcile_matches_guard:
  assumes "usdc_replay Uninitialized (usdc_log F D [] cs) = Live s"
  shows "(is_ok (usdc_transition F D now s (ReconcileStuckRebalance reason)) \<longleftrightarrow>
      is_failed_rebalance s \<and> holds_rebalance_guard s) \<and>
    (is_ok (usdc_transition F D now s (ReconcileStuckRebalance reason)) \<longleftrightarrow>
      (\<exists>t. ubo_status (usdc_to_dto shw s i) = BridgeFailed t True)) \<and>
    (\<forall>evs. usdc_transition F D now s (ReconcileStuckRebalance reason) = Inr evs \<longrightarrow>
      (\<exists>t. usdc_replay (Live s) evs = Live (Reconciled (rebalance_direction_of s) (rebalance_amount s)
        reason (rebalance_failure_reason s) t now)))"
proof -
  have "is_post_burn_failure s \<longleftrightarrow> (\<exists>t. ubo_status (usdc_to_dto shw s i) = BridgeFailed t True)"
    by (cases s; cases i) (auto simp: usdc_to_dto_def split: rebalance_direction.splits)
  with uagg.commands_invariant [OF assms] show ?thesis
    by (simp only: reconcile_accepted_iff post_burn_failure_iff) (simp add: reconcile_effect)
qed

theorem reconcile_matches_guard_witness:
  "is_ok (usdc_transition exact_rat demo_debug 20
     (BridgingFailed BaseToAlpaca (Usdc 4) (Some 8) None ''receipt'' 2 7)
     (ReconcileStuckRebalance FundsMovedManually))"
  using reconcile_matches_guard [OF demo_usdc_burned, of 20 FundsMovedManually] by simp

section \<open>Startup recovery\<close>

text \<open>
  The three recovery classes are disjoint and all inside the guard; the guard holders outside
  them are the states whose job or provider call resumes on its own.
\<close>

fun resumes_on_its_own :: "'f usdc_rebalance \<Rightarrow> bool" where
  "resumes_on_its_own (Converting _ _ _ _) = True"
| "resumes_on_its_own (ConversionComplete d _ _ _ _) = (d = AlpacaToBase)"
| "resumes_on_its_own (WithdrawalSubmitting d _ _ _) = (d = AlpacaToBase)"
| "resumes_on_its_own (Withdrawing d _ r _) = (d = BaseToAlpaca \<or> (\<exists>tx. r = OnchainTx tx))"
| "resumes_on_its_own (WithdrawalComplete d _ _ _ _) = (d = BaseToAlpaca)"
| "resumes_on_its_own (Bridged _ _ _ _ _ _ _ _) = True"
| "resumes_on_its_own (DepositInitiated _ _ _ _ _ _ _) = True"
| "resumes_on_its_own (DepositConfirmed d _ _ _ _ _) = (d = BaseToAlpaca)"
| "resumes_on_its_own _ = False"

lemma recovery_classes_partition:
  "holds_rebalance_guard s \<longleftrightarrow> length (filter id [resumable_post_burn_transfer s \<noteq> None,
     is_resumable_mid_flight_data s \<noteq> None, guard_recovery_tracking_data s \<noteq> None,
     resumes_on_its_own s]) = 1"
proof (cases s)
  case (ConversionFailed d a oid r i t)
  then show ?thesis by (cases d) auto
next
  case (WithdrawalSubmitting d a fb i)
  then show ?thesis by (cases d) auto
next
  case (Withdrawing d a r i)
  then show ?thesis by (cases d; cases r) auto
next
  case (WithdrawalComplete d a i t tx)
  then show ?thesis by (cases d) auto
next
  case (BridgingFailed d a b n r i t)
  then show ?thesis by (cases d; cases b) auto
qed auto

lemma guard_tracking_reconcilable:
  "guard_recovery_tracking_data s \<noteq> None \<Longrightarrow> is_post_burn_failure s \<and> resumable_post_burn_transfer s = None"
  by (cases s rule: guard_recovery_tracking_data.cases) auto

fun usdc_candidate :: "'f usdc_rebalance \<Rightarrow> bool" where
  "usdc_candidate (WithdrawalFailed _ _ _ _ _ _) = False"
| "usdc_candidate (Reconciled _ _ _ _ _ _) = False"
| "usdc_candidate _ = True"

lemma guard_is_candidate: "holds_rebalance_guard s \<Longrightarrow> usdc_candidate s"
  by (cases s) auto

interpretation ulast: last_event_class usdc_originate usdc_evolve
  "\<lambda>e. usdc_event_type e \<in> set interrupted_usdc_event_types" usdc_candidate
proof unfold_locales
  fix e :: "'a usdc_rebalance_event" and s
  assume "usdc_originate e = Some s"
  then show "usdc_event_type e \<in> set interrupted_usdc_event_types \<longleftrightarrow> usdc_candidate s"
    by (cases e) (auto simp: interrupted_usdc_event_types_def)
next
  fix s s' :: "'a usdc_rebalance" and e
  assume "usdc_evolve s e = Inr (Some s')"
  then show "usdc_event_type e \<in> set interrupted_usdc_event_types \<longleftrightarrow> usdc_candidate s'"
    by (cases e; cases s) (auto simp: interrupted_usdc_event_types_def split: usdc_splits)
qed

lemma split_parsed_sets:
  "set (iur_ids (split_parsed_ids parse rows)) = {UsdcRebalanceId u | u i. i \<in> set rows \<and> parse i = Inr u}"
  "set (iur_unparseable (split_parsed_ids parse rows)) = {i \<in> set rows. \<exists>x. parse i = Inl x}"
  by (induction rows) (auto simp: Let_def split: sum.splits)

lemma interrupted_rebalances_exact:
  assumes "distinct (map fst streams)"
    and logs: "\<And>i l. (i, l) \<in> set streams \<Longrightarrow> \<exists>cs. l = usdc_log F D [] cs"
    and "interrupted_usdc_rebalance_ids parse (store_rows start ''UsdcRebalance'' usdc_event_type streams) = r"
  shows "set (iur_ids r) = {UsdcRebalanceId u | u i l s. (i, l) \<in> set streams \<and> parse i = Inr u \<and>
      usdc_replay Uninitialized l = Live s \<and> usdc_candidate s}"
    and "set (iur_unparseable r) = {i. \<exists>l s x. (i, l) \<in> set streams \<and> parse i = Inl x \<and>
      usdc_replay Uninitialized l = Live s \<and> usdc_candidate s}"
proof -
  have alive: "usdc_replay Uninitialized l \<noteq> FailedLifecycle" if "(i, l) \<in> set streams" for i l
    using logs [OF that] uagg.commands_never_fail by blast
  have "set (ids_with_last_event_in (store_rows start ''UsdcRebalance'' usdc_event_type streams)
        ''UsdcRebalance'' interrupted_usdc_event_types) =
      {i. \<exists>l s. (i, l) \<in> set streams \<and> usdc_replay Uninitialized l = Live s \<and> usdc_candidate s}"
    by (rule ulast.ids_by_state [OF assms(1) alive refl])
  then show "set (iur_ids r) = {UsdcRebalanceId u | u i l s. (i, l) \<in> set streams \<and> parse i = Inr u \<and>
      usdc_replay Uninitialized l = Live s \<and> usdc_candidate s}"
    and "set (iur_unparseable r) = {i. \<exists>l s x. (i, l) \<in> set streams \<and> parse i = Inl x \<and>
      usdc_replay Uninitialized l = Live s \<and> usdc_candidate s}"
    unfolding assms(3) [symmetric] interrupted_usdc_rebalance_ids_def split_parsed_sets by blast+
qed

section \<open>The burn amount\<close>

lemma burn_in_range_bounds:
  assumes "float_sem F v" and "burn_in_range F (Some b) a"
  shows "v (usdc_inner b) \<noteq> 0 \<and> v (usdc_inner b) \<le> v (usdc_inner a)"
  using assms(2) float_sem_eq [OF assms(1)] float_sem_gt [OF assms(1)] float_sem_ZERO [OF assms(1)]
  by (fastforce simp: burn_in_range_def burn_amount_out_of_range_def tryr_def usdc_ZERO_def
      split: sum.splits if_splits)

text \<open>
  A recorded burn amount is not zero and does not exceed the withdrawn amount: it holds in
  every reachable rebalance about to burn, whatever comparisons the number library refuses, and
  the burned rebalance carries that amount on.
\<close>

theorem burn_amount_within_nominal:
  assumes "float_sem F v"
    and "usdc_replay Uninitialized (usdc_log F D [] cs) = Live (BridgingSubmitting d a fb i (Some b) p)"
  shows "v (usdc_inner b) \<noteq> 0 \<and> v (usdc_inner b) \<le> v (usdc_inner a) \<and>
    (\<forall>now tx. \<exists>evs. usdc_transition F D now (BridgingSubmitting d a fb i (Some b) p) (InitiateBridging tx) =
        Inr evs \<and>
      usdc_replay (Live (BridgingSubmitting d a fb i (Some b) p)) evs = Live (Bridging d b tx i now))"
proof -
  have "\<forall>d a fb i b p. s = BridgingSubmitting d a fb i (Some b) p \<longrightarrow> burn_in_range F (Some b) a"
    if "usdc_replay Uninitialized (usdc_log F D [] cs) = Live s" for s
    using that
  proof (induction rule: usdc_log_induct)
    case (opened e s)
    then show ?case by (cases e) auto
  next
    case (arrow l s e s')
    from arrow(3,1) show ?case by (cases rule: rebalance_step.cases) auto
  qed
  from this [OF assms(2)] burn_in_range_bounds [OF assms(1)] show ?thesis
    by (auto simp: transition_initiate_bridging_def)
qed

theorem burn_amount_within_nominal_witness: "(4::rat) \<noteq> 0 \<and> (4::rat) \<le> 5"
  using burn_amount_within_nominal [OF exact_rat_sem demo_usdc_pending] by simp

text \<open>The lower end of the documented range \<open>(0, nominal]\<close> is not checked.\<close>

lemma begin_bridging_accepts_negative:
  "usdc_transition exact_rat demo_debug 4 (WithdrawalComplete BaseToAlpaca (Usdc 5) 2 3 (Some 7))
     (BeginBridging 101 (Some (Usdc (- 4)))) =
   Inr [usdc_rebalance_event.BridgingSubmitting 101 4 (Some (Usdc (- 4)))]"
  by (simp add: usdc_eval)

text \<open>
  A transfer to Alpaca that has finished is not closed: with its own direction and amount it
  takes a new withdrawal, while the guard it released may already be held by another rebalance.
\<close>

lemma finished_rebalance_reopens:
  assumes "usdc_eq F (received_amount cv) (received_amount cv)"
  shows "\<not> holds_rebalance_guard (ConversionComplete BaseToAlpaca a cv i t) \<and>
    (\<exists>evs. usdc_transition F D now (ConversionComplete BaseToAlpaca a cv i t)
        (Initiate BaseToAlpaca (received_amount cv) w) = Inr evs \<and>
      usdc_replay (Live (ConversionComplete BaseToAlpaca a cv i t)) evs =
        Live (Withdrawing BaseToAlpaca (received_amount cv) w now))"
  using assms by (simp add: transition_initiate_withdrawal_def withdrawal_entry_def)

lemma demo_usdc_finished:
  "usdc_replay Uninitialized (usdc_log exact_rat demo_debug [] demo_usdc_commands) =
   Live (ConversionComplete BaseToAlpaca (Usdc 4) \<lparr>source_amount = Usdc 4, received_amount = Usdc 4\<rparr> 2 12)"
  by (simp add: usdc_eval)

text \<open>A conversion opened towards Alpaca has burned nothing, yet its failure counts as post-burn.\<close>

lemma fresh_conversion_counts_as_burned:
  "usdc_replay Uninitialized (usdc_log F D [] [(1, InitiateConversion BaseToAlpaca a oid),
     (2, FailConversion ''declined'')]) = Live s \<Longrightarrow> is_post_burn_failure s \<and> holds_rebalance_guard s"
  by auto

end
