(* ===== verification/Venue_Balance.thy ===== *)
theory Venue_Balance
  imports Finance
begin

text \<open>
  Per-venue balances (\<^verbatim>\<open>src/inventory/venue_balance.rs\<close>) and the two-venue inventory built on them
  (\<^verbatim>\<open>Inventory<T>\<close> of \<^verbatim>\<open>src/inventory/view.rs\<close>). The code is generic in the amount type, which it
  uses through its arithmetic traits: here a record of those operations, with the instances for
  shares and USDC. The locale \<open>amount\<close> states what the arithmetic promises.
\<close>

section \<open>Amounts\<close>

record ('f, 't) amount_ops =
  am_ZERO :: 't
  am_add :: "'t \<Rightarrow> 't \<Rightarrow> float_error + 't"
  am_sub :: "'t \<Rightarrow> 't \<Rightarrow> float_error + 't"
  am_mul :: "'t \<Rightarrow> 'f \<Rightarrow> float_error + 't"
  am_is_zero :: "'t \<Rightarrow> float_error + bool"
  am_is_negative :: "'t \<Rightarrow> float_error + bool"
  am_into_float :: "'t \<Rightarrow> 'f"

definition shares_amount :: "'f float_ops \<Rightarrow> ('f, 'f fractional_shares) amount_ops" where
  "shares_amount F = \<lparr>am_ZERO = shares_ZERO F, am_add = shares_add F, am_sub = shares_sub F,
     am_mul = shares_mul F, am_is_zero = is_zero (shares_has_zero F),
     am_is_negative = is_negative (shares_has_zero F), am_into_float = shares_inner\<rparr>"

definition usdc_amount :: "'f float_ops \<Rightarrow> ('f, 'f usdc) amount_ops" where
  "usdc_amount F = \<lparr>am_ZERO = usdc_ZERO F, am_add = usdc_add F, am_sub = usdc_sub F,
     am_mul = usdc_mul F, am_is_zero = is_zero (usdc_has_zero F),
     am_is_negative = is_negative (usdc_has_zero F), am_into_float = usdc_inner\<rparr>"

section \<open>Balance at one venue\<close>

datatype 't inventory_error =
    InsufficientAvailable 't 't
  | InsufficientInflight 't 't
  | NegativeInflight 't
  | Arithmetic float_error

record 't venue_balance =
  vb_available :: 't
  vb_inflight :: 't

definition venue_balance_default :: "('f, 't) amount_ops \<Rightarrow> 't venue_balance" where
  "venue_balance_default A = \<lparr>vb_available = am_ZERO A, vb_inflight = am_ZERO A\<rparr>"

definition venue_total :: "('f, 't) amount_ops \<Rightarrow> 't venue_balance \<Rightarrow> float_error + 't" where
  "venue_total A b = am_add A (vb_available b) (vb_inflight b)"

definition venue_has_inflight :: "('f, 't) amount_ops \<Rightarrow> 't venue_balance \<Rightarrow> float_error + bool" where
  "venue_has_inflight A b = map_ok Not (am_is_zero A (vb_inflight b))"

definition move_to_inflight ::
  "('f, 't) amount_ops \<Rightarrow> 't venue_balance \<Rightarrow> 't \<Rightarrow> 't inventory_error + 't venue_balance" where
  "move_to_inflight A b amount =
     tryr (map_err Arithmetic (am_sub A (vb_available b) amount)) (\<lambda>new_available.
     tryr (map_err Arithmetic (am_is_negative A new_available)) (\<lambda>negative.
     if negative then Inl (InsufficientAvailable amount (vb_available b))
     else tryr (map_err Arithmetic (am_add A (vb_inflight b) amount)) (\<lambda>new_inflight.
       Inr \<lparr>vb_available = new_available, vb_inflight = new_inflight\<rparr>)))"

definition confirm_inflight ::
  "('f, 't) amount_ops \<Rightarrow> 't venue_balance \<Rightarrow> 't \<Rightarrow> 't inventory_error + 't venue_balance" where
  "confirm_inflight A b amount =
     tryr (map_err Arithmetic (am_sub A (vb_inflight b) amount)) (\<lambda>new_inflight.
     tryr (map_err Arithmetic (am_is_negative A new_inflight)) (\<lambda>negative.
     if negative then Inl (InsufficientInflight amount (vb_inflight b))
     else Inr \<lparr>vb_available = vb_available b, vb_inflight = new_inflight\<rparr>))"

definition cancel_inflight ::
  "('f, 't) amount_ops \<Rightarrow> 't venue_balance \<Rightarrow> 't \<Rightarrow> 't inventory_error + 't venue_balance" where
  "cancel_inflight A b amount =
     tryr (map_err Arithmetic (am_sub A (vb_inflight b) amount)) (\<lambda>new_inflight.
     tryr (map_err Arithmetic (am_is_negative A new_inflight)) (\<lambda>negative.
     if negative then Inl (InsufficientInflight amount (vb_inflight b))
     else tryr (map_err Arithmetic (am_add A (vb_available b) amount)) (\<lambda>new_available.
       Inr \<lparr>vb_available = new_available, vb_inflight = new_inflight\<rparr>)))"

definition add_available ::
  "('f, 't) amount_ops \<Rightarrow> 't venue_balance \<Rightarrow> 't \<Rightarrow> 't inventory_error + 't venue_balance" where
  "add_available A b amount =
     tryr (map_err Arithmetic (am_add A (vb_available b) amount)) (\<lambda>new_available.
       Inr \<lparr>vb_available = new_available, vb_inflight = vb_inflight b\<rparr>)"

definition remove_available ::
  "('f, 't) amount_ops \<Rightarrow> 't venue_balance \<Rightarrow> 't \<Rightarrow> 't inventory_error + 't venue_balance" where
  "remove_available A b amount =
     tryr (map_err Arithmetic (am_sub A (vb_available b) amount)) (\<lambda>new_available.
     tryr (map_err Arithmetic (am_is_negative A new_available)) (\<lambda>negative.
     if negative then Inl (InsufficientAvailable amount (vb_available b))
     else Inr \<lparr>vb_available = new_available, vb_inflight = vb_inflight b\<rparr>))"

definition venue_set_inflight ::
  "('f, 't) amount_ops \<Rightarrow> 't venue_balance \<Rightarrow> 't \<Rightarrow> 't inventory_error + 't venue_balance" where
  "venue_set_inflight A b inflight =
     tryr (map_err Arithmetic (am_is_negative A inflight)) (\<lambda>negative.
     if negative then Inl (NegativeInflight inflight)
     else Inr \<lparr>vb_available = vb_available b, vb_inflight = inflight\<rparr>)"

definition apply_snapshot ::
  "('f, 't) amount_ops \<Rightarrow> 't venue_balance \<Rightarrow> 't \<Rightarrow> float_error + 't venue_balance" where
  "apply_snapshot A b snapshot_balance =
     tryr (am_is_zero A (vb_inflight b)) (\<lambda>zero.
     if \<not> zero then Inr b
     else Inr \<lparr>vb_available = snapshot_balance, vb_inflight = vb_inflight b\<rparr>)"

definition force_apply_snapshot ::
  "('f, 't) amount_ops \<Rightarrow> 't venue_balance \<Rightarrow> 't \<Rightarrow> 't venue_balance" where
  "force_apply_snapshot A b snapshot_balance =
     \<lparr>vb_available = snapshot_balance, vb_inflight = am_ZERO A\<rparr>"

section \<open>Inventory at a pair of venues\<close>

datatype venue = MarketMaking | Hedging

fun venue_other :: "venue \<Rightarrow> venue" where
  "venue_other MarketMaking = Hedging"
| "venue_other Hedging = MarketMaking"

datatype operator = Add | Remove

fun operator_inverse :: "operator \<Rightarrow> operator" where
  "operator_inverse Add = Remove"
| "operator_inverse Remove = Add"

fun operator_from_direction :: "direction \<Rightarrow> operator" where
  "operator_from_direction Buy = Add"
| "operator_from_direction Sell = Remove"

datatype transfer_op = Start | CompleteTransfer | Cancel

record 't inventory =
  inv_onchain :: "'t venue_balance option"
  inv_offchain :: "'t venue_balance option"
  inv_last_rebalancing :: "timestamp option"

definition inventory_default :: "'t inventory" where
  "inventory_default = \<lparr>inv_onchain = None, inv_offchain = None, inv_last_rebalancing = None\<rparr>"

text \<open>\<^verbatim>\<open>option.map(..).transpose()?.unwrap_or(false)\<close>\<close>

definition option_has_inflight ::
  "('f, 't) amount_ops \<Rightarrow> 't venue_balance option \<Rightarrow> float_error + bool" where
  "option_has_inflight A v = (case v of None \<Rightarrow> Inr False | Some b \<Rightarrow> venue_has_inflight A b)"

definition inventory_has_inflight :: "('f, 't) amount_ops \<Rightarrow> 't inventory \<Rightarrow> float_error + bool" where
  "inventory_has_inflight A iv =
     tryr (option_has_inflight A (inv_onchain iv)) (\<lambda>onchain_inflight.
     tryr (option_has_inflight A (inv_offchain iv)) (\<lambda>offchain_inflight.
       Inr (onchain_inflight \<or> offchain_inflight)))"

fun get_venue :: "'t inventory \<Rightarrow> venue \<Rightarrow> 't venue_balance option" where
  "get_venue iv MarketMaking = inv_onchain iv"
| "get_venue iv Hedging = inv_offchain iv"

fun set_venue :: "'t inventory \<Rightarrow> venue \<Rightarrow> 't venue_balance option \<Rightarrow> 't inventory" where
  "set_venue iv MarketMaking balance = iv\<lparr>inv_onchain := balance\<rparr>"
| "set_venue iv Hedging balance = iv\<lparr>inv_offchain := balance\<rparr>"

definition venue_or_default :: "('f, 't) amount_ops \<Rightarrow> 't inventory \<Rightarrow> venue \<Rightarrow> 't venue_balance" where
  "venue_or_default A iv venue =
     (case get_venue iv venue of None \<Rightarrow> venue_balance_default A | Some b \<Rightarrow> b)"

text \<open>The credit side of a transfer: add to the venue, or open it with the amount.\<close>

definition credit_venue ::
  "('f, 't) amount_ops \<Rightarrow> 't inventory \<Rightarrow> venue \<Rightarrow> 't \<Rightarrow> 't inventory_error + 't venue_balance" where
  "credit_venue A iv venue amount = (case get_venue iv venue of
     Some v \<Rightarrow> add_available A v amount
   | None \<Rightarrow> Inr \<lparr>vb_available = amount, vb_inflight = am_ZERO A\<rparr>)"

definition inventory_available ::
  "('f, 't) amount_ops \<Rightarrow> venue \<Rightarrow> operator \<Rightarrow> 't \<Rightarrow> 't inventory \<Rightarrow> 't inventory_error + 't inventory" where
  "inventory_available A venue opr amount iv =
     tryr (case opr of
         Add \<Rightarrow> credit_venue A iv venue amount
       | Remove \<Rightarrow> remove_available A (venue_or_default A iv venue) amount) (\<lambda>balance.
     Inr (set_venue iv venue (Some balance)))"

definition settle_transfer ::
  "('f, 't) amount_ops \<Rightarrow> venue \<Rightarrow> 't \<Rightarrow> 't \<Rightarrow> 't inventory \<Rightarrow> 't inventory_error + 't inventory" where
  "settle_transfer A source sent_amount received_amount iv =
     tryr (confirm_inflight A (venue_or_default A iv source) sent_amount) (\<lambda>src.
     tryr (credit_venue A iv (venue_other source) received_amount) (\<lambda>dest.
       Inr (set_venue (set_venue iv source (Some src)) (venue_other source) (Some dest))))"

fun transfer ::
  "('f, 't) amount_ops \<Rightarrow> venue \<Rightarrow> transfer_op \<Rightarrow> 't \<Rightarrow> 't inventory \<Rightarrow> 't inventory_error + 't inventory" where
  "transfer A source Start amount iv =
     tryr (move_to_inflight A (venue_or_default A iv source) amount) (\<lambda>balance.
       Inr (set_venue iv source (Some balance)))"
| "transfer A source CompleteTransfer amount iv =
     tryr (confirm_inflight A (venue_or_default A iv source) amount) (\<lambda>src.
     tryr (credit_venue A iv (venue_other source) amount) (\<lambda>dest.
       Inr (set_venue (set_venue iv source (Some src)) (venue_other source) (Some dest))))"
| "transfer A source Cancel amount iv =
     tryr (cancel_inflight A (venue_or_default A iv source) amount) (\<lambda>balance.
       Inr (set_venue iv source (Some balance)))"

definition with_last_rebalancing :: "timestamp \<Rightarrow> 't inventory \<Rightarrow> 't inventory_error + 't inventory" where
  "with_last_rebalancing ts iv = Inr (iv\<lparr>inv_last_rebalancing := Some ts\<rparr>)"

definition set_inflight ::
  "('f, 't) amount_ops \<Rightarrow> venue \<Rightarrow> 't \<Rightarrow> 't inventory \<Rightarrow> 't inventory_error + 't inventory" where
  "set_inflight A venue amount iv =
     tryr (if get_venue iv venue = None then map_err Arithmetic (am_is_zero A amount)
           else Inr False) (\<lambda>skip.
     if skip then Inr iv
     else tryr (venue_set_inflight A (venue_or_default A iv venue) amount) (\<lambda>balance.
       Inr (set_venue iv venue (Some balance))))"

definition on_snapshot ::
  "('f, 't) amount_ops \<Rightarrow> venue \<Rightarrow> 't \<Rightarrow> timestamp \<Rightarrow> 't inventory \<Rightarrow> 't inventory_error + 't inventory" where
  "on_snapshot A venue snapshot_balance fetched_at iv =
     tryr (map_err Arithmetic (inventory_has_inflight A iv)) (\<lambda>inflight.
     if inflight then Inr iv
     else if (case inv_last_rebalancing iv of None \<Rightarrow> False
              | Some last_rebalancing \<Rightarrow> fetched_at < last_rebalancing) then Inr iv
     else tryr (map_err Arithmetic
            (apply_snapshot A (venue_or_default A iv venue) snapshot_balance)) (\<lambda>balance.
       Inr (set_venue iv venue (Some balance))))"

definition force_on_snapshot ::
  "('f, 't) amount_ops \<Rightarrow> venue \<Rightarrow> 't \<Rightarrow> 't inventory \<Rightarrow> 't inventory_error + 't inventory" where
  "force_on_snapshot A venue snapshot_balance iv =
     Inr (set_venue iv venue
       (Some (force_apply_snapshot A (venue_or_default A iv venue) snapshot_balance)))"

section \<open>Imbalance\<close>

datatype 't imbalance = TooMuchOnchain 't | TooMuchOffchain 't

record 'f imbalance_threshold =
  it_target :: 'f
  it_deviation :: 'f

datatype 'f invalid_imbalance_threshold = TargetOutOfRange 'f | NegativeDeviation 'f

definition imbalance_threshold_new ::
  "'f float_ops \<Rightarrow> 'f \<Rightarrow> 'f \<Rightarrow> 'f \<Rightarrow> 'f invalid_imbalance_threshold + 'f imbalance_threshold" where
  "imbalance_threshold_new F exact_one target deviation =
     tryr (map_err (\<lambda>_. TargetOutOfRange target) (fl_zero F)) (\<lambda>zero.
     tryr (map_err (\<lambda>_. TargetOutOfRange target) (fl_lt F target zero)) (\<lambda>below.
     tryr (if below then Inr True
           else map_err (\<lambda>_. TargetOutOfRange target) (fl_gt F target exact_one)) (\<lambda>outside.
     if outside then Inl (TargetOutOfRange target)
     else tryr (map_err (\<lambda>_. NegativeDeviation deviation) (fl_lt F deviation zero)) (\<lambda>negative.
       if negative then Inl (NegativeDeviation deviation)
       else Inr \<lparr>it_target = target, it_deviation = deviation\<rparr>))))"

definition detect_imbalance_normalized ::
  "'f float_ops \<Rightarrow> ('f, 't) amount_ops \<Rightarrow> 't inventory \<Rightarrow> 'f imbalance_threshold \<Rightarrow> 't \<Rightarrow>
   float_error + 't imbalance option" where
  "detect_imbalance_normalized F A iv threshold normalized_onchain =
     tryr (inventory_has_inflight A iv) (\<lambda>inflight.
     if inflight then Inr None
     else (case inv_offchain iv of
         None \<Rightarrow> Inr None
       | Some offchain_venue \<Rightarrow>
           tryr (venue_total A offchain_venue) (\<lambda>offchain.
           tryr (fl_add F (am_into_float A normalized_onchain) (am_into_float A offchain)) (\<lambda>tot.
           tryr (fl_is_zero F tot) (\<lambda>zero.
           if zero then Inr None
           else
             tryr (fl_div F (am_into_float A normalized_onchain) tot) (\<lambda>ratio.
             tryr (fl_sub F (it_target threshold) (it_deviation threshold)) (\<lambda>lower.
             tryr (fl_add F (it_target threshold) (it_deviation threshold)) (\<lambda>upper.
             tryr (fl_lt F ratio lower) (\<lambda>below.
             if below then
               tryr (venue_total A offchain_venue) (\<lambda>offchain_val.
               tryr (am_add A normalized_onchain offchain_val) (\<lambda>total_val.
               tryr (am_mul A total_val (it_target threshold)) (\<lambda>target.
               tryr (am_sub A target normalized_onchain) (\<lambda>excess.
                 Inr (Some (TooMuchOffchain excess))))))
             else tryr (fl_gt F ratio upper) (\<lambda>above.
               if above then
                 tryr (venue_total A offchain_venue) (\<lambda>offchain_val.
                 tryr (am_add A normalized_onchain offchain_val) (\<lambda>total_val.
                 tryr (am_mul A total_val (it_target threshold)) (\<lambda>target.
                 tryr (am_sub A normalized_onchain target) (\<lambda>excess.
                   Inr (Some (TooMuchOnchain excess))))))
               else Inr None))))))))))"

section \<open>What the arithmetic promises\<close>

locale amount_laws =
  fixes A :: "('f, 't) amount_ops" and val :: "'t \<Rightarrow> rat"
  assumes am_ZERO_value: "val (am_ZERO A) = 0"
    and am_add_value: "am_add A a b = Inr c \<Longrightarrow> val c = val a + val b"
    and am_sub_value: "am_sub A a b = Inr c \<Longrightarrow> val c = val a - val b"
    and am_is_zero_value: "am_is_zero A a = Inr z \<Longrightarrow> z = (val a = 0)"
    and am_is_negative_value: "am_is_negative A a = Inr n \<Longrightarrow> n = (val a < 0)"

locale total_amount_laws = amount_laws +
  assumes am_add_ok: "\<exists>c. am_add A a b = Inr c"
    and am_sub_ok: "\<exists>c. am_sub A a b = Inr c"
    and am_is_zero_ok: "\<exists>z. am_is_zero A a = Inr z"
    and am_is_negative_ok: "\<exists>n. am_is_negative A a = Inr n"

definition balance_value :: "('t \<Rightarrow> rat) \<Rightarrow> 't venue_balance \<Rightarrow> rat" where
  "balance_value val b = val (vb_available b) + val (vb_inflight b)"

definition balance_nonneg :: "('t \<Rightarrow> rat) \<Rightarrow> 't venue_balance \<Rightarrow> bool" where
  "balance_nonneg val b \<longleftrightarrow> 0 \<le> val (vb_available b) \<and> 0 \<le> val (vb_inflight b)"

definition option_value :: "('t \<Rightarrow> rat) \<Rightarrow> 't venue_balance option \<Rightarrow> rat" where
  "option_value val v = (case v of None \<Rightarrow> 0 | Some b \<Rightarrow> balance_value val b)"

text \<open>What the inventory holds at both venues, available and in flight.\<close>

definition inventory_value :: "('t \<Rightarrow> rat) \<Rightarrow> 't inventory \<Rightarrow> rat" where
  "inventory_value val iv = option_value val (inv_onchain iv) + option_value val (inv_offchain iv)"

definition inventory_nonneg :: "('t \<Rightarrow> rat) \<Rightarrow> 't inventory \<Rightarrow> bool" where
  "inventory_nonneg val iv \<longleftrightarrow> (\<forall>venue b. get_venue iv venue = Some b \<longrightarrow> balance_nonneg val b)"

text \<open>The relative updates a reactor applies, and what each does to the value of the inventory.\<close>

datatype 't inventory_update =
    UpdateAvailable venue operator 't
  | UpdateTransfer venue transfer_op 't
  | UpdateSettle venue 't 't
  | UpdateRebalanced timestamp

fun apply_update ::
  "('f, 't) amount_ops \<Rightarrow> 't inventory_update \<Rightarrow> 't inventory \<Rightarrow> 't inventory_error + 't inventory" where
  "apply_update A (UpdateAvailable venue opr amount) iv = inventory_available A venue opr amount iv"
| "apply_update A (UpdateTransfer source op amount) iv = transfer A source op amount iv"
| "apply_update A (UpdateSettle source sent received) iv = settle_transfer A source sent received iv"
| "apply_update A (UpdateRebalanced ts) iv = with_last_rebalancing ts iv"

fun apply_updates ::
  "('f, 't) amount_ops \<Rightarrow> 't inventory_update list \<Rightarrow> 't inventory \<Rightarrow> 't inventory_error + 't inventory" where
  "apply_updates A [] iv = Inr iv"
| "apply_updates A (u # us) iv = tryr (apply_update A u iv) (apply_updates A us)"

fun update_delta :: "('t \<Rightarrow> rat) \<Rightarrow> 't inventory_update \<Rightarrow> rat" where
  "update_delta val (UpdateAvailable _ Add amount) = val amount"
| "update_delta val (UpdateAvailable _ Remove amount) = - val amount"
| "update_delta val (UpdateTransfer _ _ amount) = 0"
| "update_delta val (UpdateSettle _ sent received) = val received - val sent"
| "update_delta val (UpdateRebalanced _) = 0"

fun update_amounts :: "'t inventory_update \<Rightarrow> 't list" where
  "update_amounts (UpdateAvailable _ _ amount) = [amount]"
| "update_amounts (UpdateTransfer _ _ amount) = [amount]"
| "update_amounts (UpdateSettle _ sent received) = [sent, received]"
| "update_amounts (UpdateRebalanced _) = []"

named_theorems venue_defs \<open>operations on the balance of one venue\<close>

declare move_to_inflight_def [venue_defs] confirm_inflight_def [venue_defs]
  cancel_inflight_def [venue_defs] add_available_def [venue_defs] remove_available_def [venue_defs]

section \<open>Venues\<close>

lemma get_set_venue [simp]:
  "get_venue (set_venue iv venue b) venue' = (if venue' = venue then b else get_venue iv venue')"
  by (cases venue; cases venue') simp_all

lemma ex_venue_iff: "(\<exists>venue. P venue) \<longleftrightarrow> P MarketMaking \<or> P Hedging"
  by (metis venue.exhaust)

lemma venue_other_simps [simp]: "venue_other v \<noteq> v" "v \<noteq> venue_other v" "venue_other (venue_other v) = v"
  by (cases v; simp)+

lemma not_venue_iff [simp]: "w \<noteq> v \<longleftrightarrow> w = venue_other v"
  by (cases v; cases w) simp_all

lemma set_venue_last_rebalancing [simp]:
  "inv_last_rebalancing (set_venue iv venue b) = inv_last_rebalancing iv"
  by (cases venue) simp_all

lemma get_venue_last_rebalancing [simp]:
  "get_venue (iv\<lparr>inv_last_rebalancing := ts\<rparr>) venue = get_venue iv venue"
  by (cases venue) simp_all

lemma inventory_value_venues:
  "inventory_value val iv =
     option_value val (get_venue iv venue) + option_value val (get_venue iv (venue_other venue))"
  by (cases venue) (simp_all add: inventory_value_def)

lemma option_value_simps [simp]:
  "option_value val None = 0" "option_value val (Some b) = balance_value val b"
  by (simp_all add: option_value_def)

lemma inventory_value_set [simp]:
  "inventory_value val (set_venue iv venue b) =
     option_value val b + option_value val (get_venue iv (venue_other venue))"
  by (simp add: inventory_value_venues [of _ _ venue])

lemma inventory_nonneg_set:
  "inventory_nonneg val iv \<Longrightarrow> balance_nonneg val b \<Longrightarrow>
   inventory_nonneg val (set_venue iv venue (Some b))"
  by (auto simp: inventory_nonneg_def)

section \<open>The ledger of an inventory\<close>

context amount_laws
begin

lemma venue_op_value:
  "move_to_inflight A b a = Inr b' \<Longrightarrow> balance_value val b' = balance_value val b"
  "confirm_inflight A b a = Inr b' \<Longrightarrow> balance_value val b' = balance_value val b - val a"
  "cancel_inflight A b a = Inr b' \<Longrightarrow> balance_value val b' = balance_value val b"
  "add_available A b a = Inr b' \<Longrightarrow> balance_value val b' = balance_value val b + val a"
  "remove_available A b a = Inr b' \<Longrightarrow> balance_value val b' = balance_value val b - val a"
  by (auto simp: venue_defs balance_value_def dest!: am_add_value am_sub_value split: if_splits)

lemma venue_op_nonneg:
  assumes "balance_nonneg val b" and "0 \<le> val a"
  shows "move_to_inflight A b a = Inr b' \<Longrightarrow> balance_nonneg val b'"
    and "confirm_inflight A b a = Inr b' \<Longrightarrow> balance_nonneg val b'"
    and "cancel_inflight A b a = Inr b' \<Longrightarrow> balance_nonneg val b'"
    and "add_available A b a = Inr b' \<Longrightarrow> balance_nonneg val b'"
    and "remove_available A b a = Inr b' \<Longrightarrow> balance_nonneg val b'"
  using assms
  by (auto simp: venue_defs balance_nonneg_def
      dest!: am_add_value am_sub_value am_is_negative_value split: if_splits)

lemma venue_or_default_value:
  "balance_value val (venue_or_default A iv venue) = option_value val (get_venue iv venue)"
  by (simp add: venue_or_default_def venue_balance_default_def balance_value_def am_ZERO_value
      split: option.split)

lemma venue_or_default_nonneg:
  "inventory_nonneg val iv \<Longrightarrow> balance_nonneg val (venue_or_default A iv venue)"
  by (auto simp: venue_or_default_def venue_balance_default_def inventory_nonneg_def
      balance_nonneg_def am_ZERO_value split: option.split)

lemma credit_venue_value:
  "credit_venue A iv venue a = Inr b \<Longrightarrow>
   balance_value val b = option_value val (get_venue iv venue) + val a"
  by (cases "get_venue iv venue")
    (auto simp: credit_venue_def balance_value_def [of val "\<lparr>vb_available = a, vb_inflight = _\<rparr>"]
      am_ZERO_value dest: venue_op_value(4))

lemma credit_venue_nonneg:
  "credit_venue A iv venue a = Inr b \<Longrightarrow> inventory_nonneg val iv \<Longrightarrow> 0 \<le> val a \<Longrightarrow>
   balance_nonneg val b"
  by (cases "get_venue iv venue")
    (auto simp: credit_venue_def inventory_nonneg_def am_ZERO_value
      balance_nonneg_def [of val "\<lparr>vb_available = a, vb_inflight = _\<rparr>"] dest: venue_op_nonneg(4))

lemma settle_value:
  assumes "confirm_inflight A (venue_or_default A iv source) sent = Inr src"
    and "credit_venue A iv (venue_other source) received = Inr dest"
  shows "inventory_value val
      (set_venue (set_venue iv source (Some src)) (venue_other source) (Some dest)) =
    inventory_value val iv + (val received - val sent)"
  using assms
  by (simp add: venue_op_value(2) credit_venue_value venue_or_default_value
      inventory_value_venues [of _ iv source])

lemma apply_update_value:
  "apply_update A u iv = Inr iv' \<Longrightarrow>
   inventory_value val iv' = inventory_value val iv + update_delta val u"
proof (cases u)
  case (UpdateAvailable venue opr amount)
  assume "apply_update A u iv = Inr iv'"
  with UpdateAvailable show ?thesis
    by (cases opr) (auto simp: inventory_available_def credit_venue_value venue_op_value
        venue_or_default_value inventory_value_venues [of _ iv venue])
next
  case (UpdateTransfer source op amount)
  assume "apply_update A u iv = Inr iv'"
  with UpdateTransfer show ?thesis
    by (cases op) (auto simp: settle_value credit_venue_value venue_op_value venue_or_default_value
        inventory_value_venues [of _ iv source])
next
  case (UpdateSettle source sent received)
  assume "apply_update A u iv = Inr iv'"
  with UpdateSettle show ?thesis
    by (auto simp: settle_transfer_def simp del: inventory_value_set dest: settle_value)
next
  case (UpdateRebalanced ts)
  assume "apply_update A u iv = Inr iv'"
  with UpdateRebalanced show ?thesis by (auto simp: with_last_rebalancing_def inventory_value_def)
qed

lemma apply_update_nonneg:
  assumes "apply_update A u iv = Inr iv'" and "inventory_nonneg val iv"
    and "\<forall>a \<in> set (update_amounts u). 0 \<le> val a"
  shows "inventory_nonneg val iv'"
proof -
  note d = venue_or_default_nonneg [OF assms(2)]
  show ?thesis
  proof (cases u)
    case (UpdateAvailable venue opr amount)
    with assms show ?thesis
      by (cases opr) (auto simp: inventory_available_def
          intro!: inventory_nonneg_set intro: credit_venue_nonneg venue_op_nonneg(5) [OF d])
  next
    case (UpdateTransfer source op amount)
    with assms show ?thesis
      by (cases op) (auto intro!: inventory_nonneg_set intro: credit_venue_nonneg
          venue_op_nonneg(1,2,3) [OF d])
  next
    case (UpdateSettle source sent received)
    with assms show ?thesis
      by (auto simp: settle_transfer_def intro!: inventory_nonneg_set
          intro: credit_venue_nonneg venue_op_nonneg(2) [OF d])
  next
    case (UpdateRebalanced ts)
    with assms show ?thesis by (auto simp: with_last_rebalancing_def inventory_nonneg_def)
  qed
qed

lemma apply_updates_ledger:
  assumes "apply_updates A us iv = Inr iv'" and "inventory_nonneg val iv"
    and "\<forall>u \<in> set us. \<forall>a \<in> set (update_amounts u). 0 \<le> val a"
  shows "inventory_nonneg val iv' \<and>
    inventory_value val iv' = inventory_value val iv + (\<Sum>u\<leftarrow>us. update_delta val u)"
  using assms
proof (induction us arbitrary: iv)
  case (Cons u us)
  then obtain mid where mid: "apply_update A u iv = Inr mid" "apply_updates A us mid = Inr iv'"
    by auto
  from Cons.prems(3) have "inventory_nonneg val mid"
    using apply_update_nonneg [OF mid(1) Cons.prems(2)] by simp
  from Cons.IH [OF mid(2) this] Cons.prems(3) apply_update_value [OF mid(1)] show ?case by simp
qed simp

text \<open>The values a venue shows: available and in flight, zero when it was never polled.\<close>

lemma start_complete_moves:
  assumes "transfer A source Start a iv = Inr mid" and "transfer A source CompleteTransfer a mid = Inr iv'"
  shows "\<exists>s d. get_venue iv' source = Some s \<and> get_venue iv' (venue_other source) = Some d \<and>
    val (vb_available s) = val (vb_available (venue_or_default A iv source)) - val a \<and>
    val (vb_inflight s) = val (vb_inflight (venue_or_default A iv source)) \<and>
    val (vb_available d) = val (vb_available (venue_or_default A iv (venue_other source))) + val a \<and>
    val (vb_inflight d) = val (vb_inflight (venue_or_default A iv (venue_other source)))"
  using assms
  by (auto simp: venue_defs venue_or_default_def credit_venue_def venue_balance_default_def
      am_ZERO_value dest!: am_add_value am_sub_value split: if_splits option.splits)

lemma start_cancel_restores:
  assumes "transfer A source Start a iv = Inr mid" and "transfer A source Cancel a mid = Inr iv'"
  shows "\<exists>s. get_venue iv' source = Some s \<and>
    val (vb_available s) = val (vb_available (venue_or_default A iv source)) \<and>
    val (vb_inflight s) = val (vb_inflight (venue_or_default A iv source)) \<and>
    get_venue iv' (venue_other source) = get_venue iv (venue_other source)"
  using assms
  by (auto simp: venue_defs venue_or_default_def venue_balance_default_def
      am_ZERO_value dest!: am_add_value am_sub_value split: if_splits option.splits)

lemma option_has_inflight_value:
  "option_has_inflight A v = Inr x \<Longrightarrow> x = (\<exists>b. v = Some b \<and> val (vb_inflight b) \<noteq> 0)"
  by (auto simp: option_has_inflight_def venue_has_inflight_def split: option.splits
      dest: am_is_zero_value)

lemma inventory_has_inflight_value:
  "inventory_has_inflight A iv = Inr x \<Longrightarrow>
   x = (\<exists>venue b. get_venue iv venue = Some b \<and> val (vb_inflight b) \<noteq> 0)"
  unfolding ex_venue_iff by (auto simp: inventory_has_inflight_def dest!: option_has_inflight_value)

lemma venue_or_default_inflight:
  "\<forall>w b. get_venue iv w = Some b \<longrightarrow> val (vb_inflight b) = 0 \<Longrightarrow>
   val (vb_inflight (venue_or_default A iv venue)) = 0"
  by (auto simp: venue_or_default_def venue_balance_default_def am_ZERO_value split: option.split)

lemma on_snapshot_cases:
  assumes "on_snapshot A venue snapshot fetched_at iv = Inr iv'"
  shows "iv' = iv \<or>
    (\<forall>w b. get_venue iv w = Some b \<longrightarrow> val (vb_inflight b) = 0) \<and>
    (\<forall>ts. inv_last_rebalancing iv = Some ts \<longrightarrow> ts \<le> fetched_at) \<and>
    iv' = set_venue iv venue (Some \<lparr>vb_available = snapshot,
            vb_inflight = vb_inflight (venue_or_default A iv venue)\<rparr>)"
  using assms
  by (auto simp: on_snapshot_def apply_snapshot_def venue_or_default_inflight
      dest!: inventory_has_inflight_value am_is_zero_value split: if_splits option.splits)

end

context total_amount_laws
begin

lemma start_iff_affordable:
  "(\<exists>iv'. transfer A source Start a iv = Inr iv') \<longleftrightarrow>
   val a \<le> val (vb_available (venue_or_default A iv source))"
proof -
  obtain c n where c: "am_sub A (vb_available (venue_or_default A iv source)) a = Inr c"
    and n: "am_is_negative A c = Inr n"
    using am_sub_ok am_is_negative_ok by blast
  show ?thesis
    using am_add_ok [of "vb_inflight (venue_or_default A iv source)" a]
    by (auto simp: move_to_inflight_def c n am_is_negative_value [OF n] am_sub_value [OF c])
qed

end

text \<open>
  Shares and USDC are amounts whenever \<^verbatim>\<open>Float\<close> has its documented semantics: the two
  instances the inventory is used at.
\<close>

locale float_semantics =
  fixes F :: "'f float_ops" and v :: "'f \<Rightarrow> rat"
  assumes sem: "float_sem F v"

lemma usdc_has_zero_simps [simp]:
  "is_zero (usdc_has_zero F) u = fl_is_zero F (usdc_inner u)"
  "is_negative (usdc_has_zero F) u = tryr (fl_zero F) (\<lambda>z. fl_lt F (usdc_inner u) z)"
  by (simp_all add: usdc_has_zero_def)

lemma shares_amount_simps [simp]:
  "am_ZERO (shares_amount F) = shares_ZERO F"
  "am_add (shares_amount F) = shares_add F"
  "am_sub (shares_amount F) = shares_sub F"
  "am_is_zero (shares_amount F) s = fl_is_zero F (shares_inner s)"
  "am_is_negative (shares_amount F) s = fl_lt F (shares_inner s) (fl_ZERO F)"
  by (simp_all add: shares_amount_def)

lemma usdc_amount_simps [simp]:
  "am_ZERO (usdc_amount F) = usdc_ZERO F"
  "am_add (usdc_amount F) = usdc_add F"
  "am_sub (usdc_amount F) = usdc_sub F"
  "am_is_zero (usdc_amount F) u = fl_is_zero F (usdc_inner u)"
  "am_is_negative (usdc_amount F) u = tryr (fl_zero F) (\<lambda>z. fl_lt F (usdc_inner u) z)"
  by (simp_all add: usdc_amount_def)

lemma usdc_add_value: "float_sem F v \<Longrightarrow> usdc_add F a b = Inr c \<Longrightarrow>
    v (usdc_inner c) = v (usdc_inner a) + v (usdc_inner b)"
  and usdc_sub_value: "float_sem F v \<Longrightarrow> usdc_sub F a b = Inr c \<Longrightarrow>
    v (usdc_inner c) = v (usdc_inner a) - v (usdc_inner b)"
  and usdc_ZERO_value: "float_sem F v \<Longrightarrow> v (usdc_inner (usdc_ZERO F)) = 0"
  by (auto simp: usdc_add_def usdc_sub_def usdc_ZERO_def float_laws)

lemma is_negative_value:
  "float_sem F v \<Longrightarrow> fl_lt F (shares_inner s) (fl_ZERO F) = Inr n \<Longrightarrow> n = (v (shares_inner s) < 0)"
  "fl_lt F (usdc_inner u) z = Inr n \<Longrightarrow> fl_zero F = Inr z \<Longrightarrow> float_sem F v \<Longrightarrow>
   n = (v (usdc_inner u) < 0)"
  by (metis float_sem_lt float_sem_ZERO, metis float_sem_lt float_sem_zero)

sublocale float_semantics \<subseteq> shares: amount_laws "shares_amount F" "\<lambda>s. v (shares_inner s)"
  using sem by unfold_locales
    (auto simp: shares_add_value shares_sub_value float_sem_is_zero is_negative_value(1))

sublocale float_semantics \<subseteq> usdc: amount_laws "usdc_amount F" "\<lambda>u. v (usdc_inner u)"
  using sem by unfold_locales
    (auto simp: usdc_add_value usdc_sub_value usdc_ZERO_value float_sem_is_zero
      dest: is_negative_value(2))

locale total_float_semantics = float_semantics +
  assumes no_failure: "float_total F"

sublocale total_float_semantics \<subseteq> shares: total_amount_laws "shares_amount F" "\<lambda>s. v (shares_inner s)"
  using no_failure by unfold_locales
    (auto simp: shares_total_add shares_total_sub float_total_is_zero float_total_lt)

interpretation bounded_rat: float_semantics "bounded_rat b" "\<lambda>x. x" for b
  by unfold_locales (rule bounded_rat_sem)

interpretation exact_rat: total_float_semantics exact_rat "\<lambda>x. x"
  by unfold_locales (rule exact_rat_sem exact_rat_total)+

context float_semantics
begin

lemmas shares_apply_updates_ledger = shares.apply_updates_ledger
lemmas shares_inventory_has_inflight_value = shares.inventory_has_inflight_value
lemmas shares_on_snapshot_cases = shares.on_snapshot_cases
lemmas usdc_start_complete_moves = usdc.start_complete_moves
lemmas usdc_start_cancel_restores = usdc.start_cancel_restores

end

context total_float_semantics
begin

lemmas shares_start_iff_affordable = shares.start_iff_affordable

end

section \<open>Properties\<close>

definition demo_balance :: "(rat \<Rightarrow> 't) \<Rightarrow> rat \<Rightarrow> rat \<Rightarrow> 't venue_balance" where
  "demo_balance c available inflight = \<lparr>vb_available = c available, vb_inflight = c inflight\<rparr>"

definition demo_inventory :: "(rat \<Rightarrow> 't) \<Rightarrow> rat \<Rightarrow> rat \<Rightarrow> 't inventory" where
  "demo_inventory c onchain offchain = \<lparr>inv_onchain = Some (demo_balance c onchain 0),
     inv_offchain = Some (demo_balance c offchain 0), inv_last_rebalancing = Some 10\<rparr>"

definition demo_updates :: "rat fractional_shares inventory_update list" where
  "demo_updates = [UpdateTransfer MarketMaking Start (FractionalShares 5),
     UpdateAvailable Hedging Add (FractionalShares 2),
     UpdateTransfer MarketMaking CompleteTransfer (FractionalShares 5),
     UpdateRebalanced 20]"

lemmas demo_inventory_defs = demo_inventory_def demo_balance_def inventory_nonneg_def
  balance_nonneg_def inventory_value_def balance_value_def

lemmas inventory_ops = inventory_available_def credit_venue_def venue_or_default_def venue_defs
  with_last_rebalancing_def shares_add_def shares_sub_def usdc_add_def usdc_sub_def

lemma all_venue_iff: "(\<forall>venue. P venue) \<longleftrightarrow> P MarketMaking \<and> P Hedging"
  by (metis venue.exhaust)

text \<open>
  C40. Whatever sequence of fills, transfer steps and settlements is applied to an inventory of
  shares, if every step succeeds then no available or in-flight balance is negative afterwards,
  and what the two venues hold together has changed by exactly the fills and the settlement
  differences: starting, completing and cancelling transfers neither create nor lose shares.
\<close>

theorem inventory_updates_conserve_shares:
  assumes "float_sem F v"
    and "apply_updates (shares_amount F) us iv = Inr iv'"
    and "inventory_nonneg (\<lambda>s. v (shares_inner s)) iv"
    and "\<forall>u \<in> set us. \<forall>a \<in> set (update_amounts u). 0 \<le> v (shares_inner a)"
  shows "inventory_nonneg (\<lambda>s. v (shares_inner s)) iv' \<and>
    inventory_value (\<lambda>s. v (shares_inner s)) iv' =
      inventory_value (\<lambda>s. v (shares_inner s)) iv + (\<Sum>u\<leftarrow>us. update_delta (\<lambda>s. v (shares_inner s)) u)"
  by (rule float_semantics.shares_apply_updates_ledger [OF float_semantics.intro [OF assms(1)] assms(2-4)])

theorem inventory_updates_conserve_shares_witness:
  "\<exists>iv'. apply_updates (shares_amount (bounded_rat 1000)) demo_updates
       (demo_inventory FractionalShares 60 40) = Inr iv' \<and>
     inventory_value shares_inner iv' = 102"
proof -
  let ?A = "shares_amount (bounded_rat 1000)" and ?iv = "demo_inventory FractionalShares 60 40"
  have "is_ok (apply_updates ?A demo_updates ?iv)"
    by (simp add: demo_updates_def demo_inventory_defs inventory_ops bounded_rat_def in_bound_def)
  then obtain iv' where run: "apply_updates ?A demo_updates ?iv = Inr iv'" by (auto simp: is_ok_iff)
  have "inventory_nonneg shares_inner ?iv"
    by (simp add: all_venue_iff demo_inventory_defs)
  moreover have "\<forall>u \<in> set demo_updates. \<forall>a \<in> set (update_amounts u). 0 \<le> shares_inner a"
    by (simp add: demo_updates_def)
  ultimately have "inventory_value shares_inner iv' =
      inventory_value shares_inner ?iv + (\<Sum>u\<leftarrow>demo_updates. update_delta shares_inner u)"
    using inventory_updates_conserve_shares [OF bounded_rat_sem run] by blast
  then have "inventory_value shares_inner iv' = 102"
    by (simp add: demo_updates_def demo_inventory_defs)
  with run show ?thesis by blast
qed

text \<open>
  A USDC transfer that is started and then completed moves exactly its amount: the source's
  available balance is lower and the destination's higher by the amount, and both in-flight
  balances are what they were. Started and then cancelled, it leaves both venues as they were.
\<close>

theorem transfer_moves_exact_amount:
  assumes "float_sem F v"
    and "transfer (usdc_amount F) source Start a iv = Inr mid"
    and "transfer (usdc_amount F) source op a mid = Inr iv'"
    and "op \<noteq> Start"
  shows "let val = (\<lambda>u. v (usdc_inner u)); moved = (if op = CompleteTransfer then val a else 0);
      before = venue_or_default (usdc_amount F) iv; after = venue_or_default (usdc_amount F) iv' in
    val (vb_available (after source)) = val (vb_available (before source)) - moved \<and>
    val (vb_available (after (venue_other source))) = val (vb_available (before (venue_other source))) + moved \<and>
    (\<forall>venue. val (vb_inflight (after venue)) = val (vb_inflight (before venue)))"
proof (cases op)
  case CompleteTransfer
  with assms(3) have "transfer (usdc_amount F) source CompleteTransfer a mid = Inr iv'" by simp
  from float_semantics.usdc_start_complete_moves [OF float_semantics.intro [OF assms(1)] assms(2) this]
  show ?thesis using CompleteTransfer
    by (cases source) (auto simp: Let_def all_venue_iff venue_or_default_def [of _ iv'])
next
  case Cancel
  with assms(3) have "transfer (usdc_amount F) source Cancel a mid = Inr iv'" by simp
  from float_semantics.usdc_start_cancel_restores [OF float_semantics.intro [OF assms(1)] assms(2) this]
  show ?thesis using Cancel
    by (cases source) (auto simp: Let_def all_venue_iff venue_or_default_def)
qed (use assms(4) in simp)

theorem transfer_moves_exact_amount_witness:
  "\<exists>mid iv'. transfer (usdc_amount (bounded_rat 1000)) MarketMaking Start (Usdc 5)
       (demo_inventory Usdc 60 40) = Inr mid \<and>
     transfer (usdc_amount (bounded_rat 1000)) MarketMaking CompleteTransfer (Usdc 5) mid = Inr iv' \<and>
     usdc_inner (vb_available (venue_or_default (usdc_amount (bounded_rat 1000)) iv' Hedging)) = 45"
proof -
  let ?A = "usdc_amount (bounded_rat 1000)" and ?iv = "demo_inventory Usdc 60 40"
  have "is_ok (tryr (transfer ?A MarketMaking Start (Usdc 5) ?iv)
      (transfer ?A MarketMaking CompleteTransfer (Usdc 5)))"
    by (simp add: demo_inventory_defs inventory_ops bounded_rat_def in_bound_def)
  then obtain mid iv' where run: "transfer ?A MarketMaking Start (Usdc 5) ?iv = Inr mid"
    "transfer ?A MarketMaking CompleteTransfer (Usdc 5) mid = Inr iv'"
    by (auto simp: is_ok_iff simp del: transfer.simps)
  have "usdc_inner (vb_available (venue_or_default ?A iv' Hedging)) =
      usdc_inner (vb_available (venue_or_default ?A ?iv Hedging)) + 5"
    using transfer_moves_exact_amount [OF bounded_rat_sem run] by (simp add: Let_def)
  moreover have "venue_or_default ?A ?iv Hedging = demo_balance Usdc 40 0"
    by (simp add: venue_or_default_def demo_inventory_def)
  ultimately have "usdc_inner (vb_available (venue_or_default ?A iv' Hedging)) = 45"
    by (simp add: demo_balance_def)
  with run show ?thesis by blast
qed

text \<open>
  When \<^verbatim>\<open>Float\<close> arithmetic does not fail, a transfer of shares starts exactly when the source
  venue's available balance covers it: a transfer that would overdraw the venue is refused, and
  one that would not is never refused.
\<close>

theorem transfer_starts_iff_covered:
  assumes "float_sem F v" and "float_total F"
  shows "(\<exists>iv'. transfer (shares_amount F) source Start a iv = Inr iv') \<longleftrightarrow>
    v (shares_inner a) \<le> v (shares_inner (vb_available (venue_or_default (shares_amount F) iv source)))"
  by (rule total_float_semantics.shares_start_iff_affordable [OF total_float_semantics.intro
        [OF float_semantics.intro [OF assms(1)] total_float_semantics_axioms.intro [OF assms(2)]]])

theorem transfer_starts_iff_covered_witness:
  "\<exists>iv'. transfer (shares_amount exact_rat) Hedging Start (FractionalShares 40)
     (demo_inventory FractionalShares 60 40) = Inr iv'"
  using transfer_starts_iff_covered [OF exact_rat_sem exact_rat_total, of Hedging "FractionalShares 40"
      "demo_inventory FractionalShares 60 40"]
  by (simp add: demo_inventory_defs venue_or_default_def)

text \<open>
  A venue snapshot of shares is either ignored entirely, or it was taken no earlier than the
  last rebalancing while nothing was in flight at either venue, and then it replaces the available
  balance of its own venue only.
\<close>

theorem snapshot_never_clobbers_transfer:
  assumes "float_sem F v"
    and "on_snapshot (shares_amount F) venue snapshot fetched_at iv = Inr iv'"
  shows "iv' = iv \<or>
    (\<forall>w b. get_venue iv w = Some b \<longrightarrow> v (shares_inner (vb_inflight b)) = 0) \<and>
    (\<forall>ts. inv_last_rebalancing iv = Some ts \<longrightarrow> ts \<le> fetched_at) \<and>
    iv' = set_venue iv venue (Some \<lparr>vb_available = snapshot,
      vb_inflight = vb_inflight (venue_or_default (shares_amount F) iv venue)\<rparr>)"
  by (rule float_semantics.shares_on_snapshot_cases [OF float_semantics.intro [OF assms(1)] assms(2)])

theorem snapshot_never_clobbers_transfer_witness:
  "\<exists>iv'. on_snapshot (shares_amount (bounded_rat 1000)) Hedging (FractionalShares 41) 12
       (demo_inventory FractionalShares 60 40) = Inr iv' \<and>
     vb_available (venue_or_default (shares_amount (bounded_rat 1000)) iv' Hedging) = FractionalShares 41"
proof -
  let ?A = "shares_amount (bounded_rat 1000)" and ?iv = "demo_inventory FractionalShares 60 40"
  have run: "on_snapshot ?A Hedging (FractionalShares 41) 12 ?iv =
      Inr (set_venue ?iv Hedging (Some (demo_balance FractionalShares 41 0)))"
    by (simp add: on_snapshot_def apply_snapshot_def inventory_has_inflight_def option_has_inflight_def
        venue_has_inflight_def demo_inventory_defs inventory_ops bounded_rat_def in_bound_def)
  from snapshot_never_clobbers_transfer [OF bounded_rat_sem run] run show ?thesis
    by (auto simp: venue_or_default_def demo_inventory_defs)
qed


text \<open>
  When the equity check reports an imbalance, nothing is in flight at either venue and the
  offchain venue has been polled; the onchain share of the total that was computed lies outside
  the configured band, on the side that is reported, and the excess is the distance of the
  onchain amount from the target amount.
\<close>

theorem imbalance_reported_outside_band:
  assumes "float_sem F v"
    and "detect_imbalance_normalized F (shares_amount F) iv threshold onchain = Inr (Some im)"
  shows "(\<forall>w b. get_venue iv w = Some b \<longrightarrow> v (shares_inner (vb_inflight b)) = 0) \<and>
    (\<exists>b held total_held ratio target.
       inv_offchain iv = Some b \<and> v (shares_inner held) = balance_value (\<lambda>s. v (shares_inner s)) b \<and>
       v total_held = v (shares_inner onchain) + v (shares_inner held) \<and> v total_held \<noteq> 0 \<and>
       fl_div F (shares_inner onchain) total_held = Inr ratio \<and>
       fl_mul F total_held (it_target threshold) = Inr target \<and>
       (case im of
          TooMuchOnchain excess \<Rightarrow> v ratio > v (it_target threshold) + v (it_deviation threshold) \<and>
            v (shares_inner excess) = v (shares_inner onchain) - v target
        | TooMuchOffchain excess \<Rightarrow> v ratio < v (it_target threshold) - v (it_deviation threshold) \<and>
            v (shares_inner excess) = v target - v (shares_inner onchain)))"
proof -
  have flight: "\<forall>w b. get_venue iv w = Some b \<longrightarrow> v (shares_inner (vb_inflight b)) = 0"
    using assms(2) float_semantics.shares_inventory_has_inflight_value [OF float_semantics.intro [OF assms(1)]]
    by (auto simp: detect_imbalance_normalized_def split: if_splits)
  from assms(2) obtain b held tot where b: "inv_offchain iv = Some b"
    and held: "venue_total (shares_amount F) b = Inr held"
    and tot: "fl_add F (shares_inner onchain) (shares_inner held) = Inr tot"
    and nz: "fl_is_zero F tot = Inr False"
    by (auto simp: detect_imbalance_normalized_def shares_amount_def split: if_splits option.splits)
  from held have "v (shares_inner held) = balance_value (\<lambda>s. v (shares_inner s)) b"
    by (auto simp: venue_total_def balance_value_def dest: shares_add_value [OF assms(1)])
  moreover have "v tot = v (shares_inner onchain) + v (shares_inner held)" "v tot \<noteq> 0"
    using float_sem_add [OF assms(1) tot] float_sem_is_zero [OF assms(1) nz] by simp_all
  moreover have "\<exists>ratio target. fl_div F (shares_inner onchain) tot = Inr ratio \<and>
      fl_mul F tot (it_target threshold) = Inr target \<and>
      (case im of
         TooMuchOnchain excess \<Rightarrow> v ratio > v (it_target threshold) + v (it_deviation threshold) \<and>
           v (shares_inner excess) = v (shares_inner onchain) - v target
       | TooMuchOffchain excess \<Rightarrow> v ratio < v (it_target threshold) - v (it_deviation threshold) \<and>
           v (shares_inner excess) = v target - v (shares_inner onchain))"
    using assms(2) b held tot nz
    by (auto simp: detect_imbalance_normalized_def shares_amount_def shares_add_def shares_sub_def
        shares_mul_def split: if_splits
        dest!: float_sem_sub [OF assms(1)] float_sem_add [OF assms(1)]
          float_sem_lt [OF assms(1)] float_sem_gt [OF assms(1)])
  ultimately show ?thesis using flight b by blast
qed

theorem imbalance_reported_outside_band_witness:
  "\<exists>im. detect_imbalance_normalized exact_rat (shares_amount exact_rat)
       (demo_inventory FractionalShares 60 40) \<lparr>it_target = 1 / 2, it_deviation = 1 / 20\<rparr>
       (FractionalShares 60) = Inr (Some im) \<and> im = TooMuchOnchain (FractionalShares 10)"
proof -
  have run: "detect_imbalance_normalized exact_rat (shares_amount exact_rat)
       (demo_inventory FractionalShares 60 40) \<lparr>it_target = 1 / 2, it_deviation = 1 / 20\<rparr>
       (FractionalShares 60) = Inr (Some (TooMuchOnchain (FractionalShares 10)))"
    by (simp add: detect_imbalance_normalized_def inventory_has_inflight_def option_has_inflight_def
        venue_has_inflight_def venue_total_def shares_amount_def shares_add_def shares_sub_def
        shares_mul_def demo_inventory_def demo_balance_def exact_rat_ops)
  from imbalance_reported_outside_band [OF exact_rat_sem run] run show ?thesis by blast
qed

end
