(* ===== verification/Inventory_View.thy ===== *)
theory Inventory_View
  imports Venue_Balance Position "HOL-Library.AList"
begin

text \<open>
  The cross-aggregate inventory view of \<^verbatim>\<open>src/inventory/view.rs\<close>, the wrapped-token ratio of
  \<^verbatim>\<open>crates/wrapper/src/ratio.rs\<close>, the projection that applies snapshots to it
  (\<^verbatim>\<open>src/inventory/projection.rs\<close>) and the snapshot, recovery and position arms of the
  rebalancing reactor (\<^verbatim>\<open>src/rebalancing/trigger/mod.rs\<close>). A hash map or hash set that the code
  iterates is a list here, in the order of the iteration, which the code leaves open; a map it
  only looks up is a function. A \<^verbatim>\<open>BTreeMap\<close> is its list of entries.
\<close>

section \<open>Wrapped-token ratio\<close>

datatype underlying_per_wrapped = UnderlyingPerWrapped (ratio: u256)

datatype 'f ratio_error =
    DivisionByZero
  | RatioOverflow
  | SharesConversion "'f shares_conversion_error"

definition RATIO_ONE :: u256 where
  "RATIO_ONE = 1000000000000000000"

definition underlying_per_wrapped_new :: "u256 \<Rightarrow> 'f ratio_error + underlying_per_wrapped" where
  "underlying_per_wrapped_new r = (if r = 0 then Inl DivisionByZero else Inr (UnderlyingPerWrapped r))"

text \<open>\<^verbatim>\<open>U256::checked_mul\<close>.\<close>

definition u256_checked_mul :: "u256 \<Rightarrow> u256 \<Rightarrow> u256 option" where
  "u256_checked_mul a b = (if uint a * uint b < 2 ^ 256 then Some (a * b) else None)"

definition to_underlying :: "underlying_per_wrapped \<Rightarrow> u256 \<Rightarrow> 'f ratio_error + u256" where
  "to_underlying self wrapped =
     tryr (ok_or RatioOverflow (u256_checked_mul wrapped (ratio self))) (\<lambda>numerator.
       Inr (numerator div RATIO_ONE))"

definition to_underlying_fractional ::
  "'f float_ops \<Rightarrow> underlying_per_wrapped \<Rightarrow> 'f fractional_shares \<Rightarrow> 'f ratio_error + 'f fractional_shares" where
  "to_underlying_fractional F self wrapped =
     tryr (map_err SharesConversion (to_u256_18_decimals F wrapped)) (\<lambda>wrapped_u256.
     tryr (to_underlying self wrapped_u256) (\<lambda>underlying_u256.
       map_err SharesConversion (from_u256_18_decimals F underlying_u256)))"

section \<open>The view\<close>

datatype 'f inventory_view_error =
    ViewEquity "'f fractional_shares inventory_error"
  | ViewUsdc "'f usdc inventory_error"
  | ViewFloat float_error
  | UsdBalanceConversion i64

datatype 'f equity_imbalance_error =
    SymbolNotTracked symbol
  | ImbalanceFloat float_error
  | ImbalanceRatio "'f ratio_error"

datatype inflight_cash_location = EthereumWallet | BaseWallet
datatype inflight_equity_location = BaseWalletUnwrapped | BaseWalletWrapped

record 'f inflight_cash_entry =
  ice_amount :: "'f usdc"
  ice_fetched_at :: timestamp

record 'f inflight_equity_entry =
  iee_amount :: "'f fractional_shares"
  iee_fetched_at :: timestamp

record 'f inventory_view =
  iv_usdc :: "'f usdc inventory"
  equities :: "(symbol \<times> 'f fractional_shares inventory) list"
  iv_last_updated :: timestamp
  buying_power_cents :: "i64 option"
  withdrawable_cash_cents :: "i64 option"
  offchain_gross_usd_cents :: "i64 option"
  alpaca_usdc :: "'f usdc option"
  inflight_cash :: "inflight_cash_location \<rightharpoonup> 'f inflight_cash_entry"
  active_usdc_rebalance :: "uuid option"
  active_mints :: "symbol \<rightharpoonup> uuid"
  active_redemptions :: "symbol \<rightharpoonup> uuid"
  inflight_equity :: "((symbol \<times> inflight_equity_location) \<times> 'f inflight_equity_entry) list"
  previous_inflight_mint_symbols :: "symbol list"
  previous_inflight_redemption_symbols :: "symbol list"
  onchain_equity_snapshot_watermarks :: "symbol \<rightharpoonup> timestamp"
  offchain_equity_snapshot_watermarks :: "symbol \<rightharpoonup> timestamp"
  pending_offchain_order_symbols :: "symbol set"
  last_offchain_fill_applied_at :: "symbol \<rightharpoonup> timestamp"

definition inventory_view_default :: "timestamp \<Rightarrow> 'f inventory_view" where
  "inventory_view_default now = \<lparr>
     iv_usdc = inventory_default,
     equities = [],
     iv_last_updated = now,
     buying_power_cents = None,
     withdrawable_cash_cents = None,
     offchain_gross_usd_cents = None,
     alpaca_usdc = None,
     inflight_cash = Map.empty,
     active_usdc_rebalance = None,
     active_mints = Map.empty,
     active_redemptions = Map.empty,
     inflight_equity = [],
     previous_inflight_mint_symbols = [],
     previous_inflight_redemption_symbols = [],
     onchain_equity_snapshot_watermarks = Map.empty,
     offchain_equity_snapshot_watermarks = Map.empty,
     pending_offchain_order_symbols = {},
     last_offchain_fill_applied_at = Map.empty\<rparr>"

definition equity_of :: "'f inventory_view \<Rightarrow> symbol \<Rightarrow> 'f fractional_shares inventory option" where
  "equity_of view symbol = map_of (equities view) symbol"

section \<open>Imbalance checks\<close>

definition check_equity_imbalance ::
  "'f float_ops \<Rightarrow> 'f inventory_view \<Rightarrow> symbol \<Rightarrow> 'f imbalance_threshold \<Rightarrow> underlying_per_wrapped \<Rightarrow>
   'f equity_imbalance_error + 'f fractional_shares imbalance option" where
  "check_equity_imbalance F view symbol threshold vault_ratio =
     tryr (ok_or (SymbolNotTracked symbol) (equity_of view symbol)) (\<lambda>inventory.
     case inv_onchain inventory of
       None \<Rightarrow> Inr None
     | Some onchain_venue \<Rightarrow>
         tryr (map_err ImbalanceFloat (venue_total (shares_amount F) onchain_venue)) (\<lambda>onchain_wrapped.
         tryr (map_err ImbalanceRatio (to_underlying_fractional F vault_ratio onchain_wrapped))
           (\<lambda>onchain_equivalent.
         map_err ImbalanceFloat
           (detect_imbalance_normalized F (shares_amount F) inventory threshold onchain_equivalent))))"

definition check_usdc_imbalance_with_gross_offchain ::
  "'f float_ops \<Rightarrow> 'f inventory_view \<Rightarrow> 'f imbalance_threshold \<Rightarrow> 'f usd option \<Rightarrow>
   'f inventory_view_error + 'f usdc imbalance option" where
  "check_usdc_imbalance_with_gross_offchain F view threshold reserved =
     (case (inv_onchain (iv_usdc view), inv_offchain (iv_usdc view)) of
        (Some onchain_venue, Some offchain_venue) \<Rightarrow>
          tryr (map_err ViewFloat (venue_has_inflight (usdc_amount F) onchain_venue)) (\<lambda>onchain_inflight.
          tryr (if onchain_inflight then Inr True
                else map_err ViewFloat (venue_has_inflight (usdc_amount F) offchain_venue)) (\<lambda>inflight.
          if inflight then Inr None
          else
            tryr (map_err ViewFloat (venue_total (usdc_amount F) onchain_venue)) (\<lambda>onchain.
            tryr (case (offchain_gross_usd_cents view, reserved) of
                (Some cents, _) \<Rightarrow>
                  map_ok Some (ok_or (UsdBalanceConversion cents) (usdc_from_cents F cents))
              | (None, None) \<Rightarrow> map_ok Some (map_err ViewFloat (venue_total (usdc_amount F) offchain_venue))
              | (None, Some _) \<Rightarrow> Inr None) (\<lambda>gross.
            case gross of
              None \<Rightarrow> Inr None
            | Some offchain \<Rightarrow>
                tryr (map_err ViewFloat (usdc_add F onchain offchain)) (\<lambda>tot.
                tryr (map_err ViewFloat (fl_is_zero F (usdc_inner tot))) (\<lambda>zero.
                if zero then Inr None
                else
                  tryr (map_err ViewFloat (fl_div F (usdc_inner onchain) (usdc_inner tot))) (\<lambda>ratio.
                  tryr (map_err ViewFloat (fl_sub F (it_target threshold) (it_deviation threshold))) (\<lambda>lower.
                  tryr (map_err ViewFloat (fl_add F (it_target threshold) (it_deviation threshold))) (\<lambda>upper.
                  tryr (map_err ViewFloat (fl_lt F ratio lower)) (\<lambda>below.
                  if below then
                    tryr (map_err ViewFloat (usdc_mul F tot (it_target threshold))) (\<lambda>target_onchain.
                    tryr (map_err ViewFloat (usdc_sub F target_onchain onchain)) (\<lambda>excess.
                      Inr (Some (TooMuchOffchain excess))))
                  else tryr (map_err ViewFloat (fl_gt F ratio upper)) (\<lambda>above.
                    if above then
                      tryr (map_err ViewFloat (usdc_mul F tot (it_target threshold))) (\<lambda>target_onchain.
                      tryr (map_err ViewFloat (usdc_sub F onchain target_onchain)) (\<lambda>excess.
                        Inr (Some (TooMuchOnchain excess))))
                    else Inr None)))))))))))
      | _ \<Rightarrow> Inr None)"

definition alpaca_to_base_usdc_capacity ::
  "'f float_ops \<Rightarrow> 'f inventory_view \<Rightarrow> 'f usd option \<Rightarrow> 'f inventory_view_error + 'f usdc option" where
  "alpaca_to_base_usdc_capacity F view reserved = (case withdrawable_cash_cents view of
     None \<Rightarrow> Inr None
   | Some withdrawable_cents \<Rightarrow>
       tryr (ok_or (UsdBalanceConversion withdrawable_cents) (usdc_from_cents F withdrawable_cents))
         (\<lambda>withdrawable.
       let reserved = (case reserved of None \<Rightarrow> usdc_ZERO F | Some amount \<Rightarrow> Usdc (usd_inner amount)) in
       tryr (map_err ViewFloat (fl_gt F (usdc_inner reserved) (usdc_inner withdrawable))) (\<lambda>exceeds.
       if exceeds then Inr (Some (usdc_ZERO F))
       else map_ok Some (map_err ViewFloat (usdc_sub F withdrawable reserved)))))"

section \<open>Updates\<close>

definition equity_or_default :: "'f inventory_view \<Rightarrow> symbol \<Rightarrow> 'f fractional_shares inventory" where
  "equity_or_default view symbol =
     (case equity_of view symbol of None \<Rightarrow> inventory_default | Some inventory \<Rightarrow> inventory)"

definition update_equity ::
  "symbol \<Rightarrow>
   ('f fractional_shares inventory \<Rightarrow> 'f fractional_shares inventory_error + 'f fractional_shares inventory) \<Rightarrow>
   timestamp \<Rightarrow> 'f inventory_view \<Rightarrow> 'f inventory_view_error + 'f inventory_view" where
  "update_equity symbol update now view =
     tryr (map_err ViewEquity (update (equity_or_default view symbol))) (\<lambda>updated.
       Inr (view\<lparr>equities := AList.update symbol updated (equities view), iv_last_updated := now\<rparr>))"

definition update_usdc ::
  "('f usdc inventory \<Rightarrow> 'f usdc inventory_error + 'f usdc inventory) \<Rightarrow>
   timestamp \<Rightarrow> 'f inventory_view \<Rightarrow> 'f inventory_view_error + 'f inventory_view" where
  "update_usdc update now view =
     tryr (map_err ViewUsdc (update (iv_usdc view))) (\<lambda>updated.
       Inr (view\<lparr>iv_usdc := updated, iv_last_updated := now\<rparr>))"

text \<open>\<^verbatim>\<open>entry(symbol).or_insert(fetched_at)\<close>, raised to a later \<^verbatim>\<open>fetched_at\<close>.\<close>

definition raise_watermark ::
  "timestamp \<Rightarrow> symbol \<Rightarrow> (symbol \<rightharpoonup> timestamp) \<Rightarrow> (symbol \<rightharpoonup> timestamp)" where
  "raise_watermark fetched_at symbol watermarks =
     (let watermark = (case watermarks symbol of None \<Rightarrow> fetched_at | Some w \<Rightarrow> w)
      in watermarks(symbol \<mapsto> if fetched_at > watermark then fetched_at else watermark))"

fun record_equity_snapshot_watermarks ::
  "venue \<Rightarrow> symbol list \<Rightarrow> timestamp \<Rightarrow> 'f inventory_view \<Rightarrow> 'f inventory_view" where
  "record_equity_snapshot_watermarks MarketMaking symbols fetched_at view =
     view\<lparr>onchain_equity_snapshot_watermarks :=
       fold (raise_watermark fetched_at) symbols (onchain_equity_snapshot_watermarks view)\<rparr>"
| "record_equity_snapshot_watermarks Hedging symbols fetched_at view =
     view\<lparr>offchain_equity_snapshot_watermarks :=
       fold (raise_watermark fetched_at) symbols (offchain_equity_snapshot_watermarks view)\<rparr>"

definition mark_offchain_order_pending :: "symbol \<Rightarrow> 'f inventory_view \<Rightarrow> 'f inventory_view" where
  "mark_offchain_order_pending symbol view =
     view\<lparr>pending_offchain_order_symbols := insert symbol (pending_offchain_order_symbols view)\<rparr>"

definition has_pending_offchain_order :: "'f inventory_view \<Rightarrow> symbol \<Rightarrow> bool" where
  "has_pending_offchain_order view symbol \<longleftrightarrow> symbol \<in> pending_offchain_order_symbols view"

definition set_pending_offchain_order_symbols ::
  "symbol set \<Rightarrow> 'f inventory_view \<Rightarrow> 'f inventory_view" where
  "set_pending_offchain_order_symbols symbols view =
     view\<lparr>pending_offchain_order_symbols := symbols\<rparr>"

definition clear_offchain_order_pending ::
  "symbol \<Rightarrow> timestamp option \<Rightarrow> 'f inventory_view \<Rightarrow> 'f inventory_view" where
  "clear_offchain_order_pending symbol applied_fill_at view =
     (let cleared = view\<lparr>pending_offchain_order_symbols :=
            pending_offchain_order_symbols view - {symbol}\<rparr>
      in case applied_fill_at of
           None \<Rightarrow> cleared
         | Some applied \<Rightarrow> cleared\<lparr>last_offchain_fill_applied_at :=
             (last_offchain_fill_applied_at cleared)(symbol \<mapsto> applied)\<rparr>)"

text \<open>The delta-owned balance a reset keeps of one tracked symbol.\<close>

definition retained_equity ::
  "'f float_ops \<Rightarrow> symbol set \<Rightarrow> symbol \<times> 'f fractional_shares inventory \<Rightarrow>
   (symbol \<times> 'f fractional_shares inventory) option" where
  "retained_equity F pending entry = (case entry of (symbol, inventory) \<Rightarrow>
     if symbol \<notin> pending then None
     else map_option (\<lambda>balance. (symbol, \<lparr>inv_onchain = None,
         inv_offchain = Some \<lparr>vb_available = vb_available balance, vb_inflight = shares_ZERO F\<rparr>,
         inv_last_rebalancing = None\<rparr>)) (get_venue inventory Hedging))"

definition reset_preserving_offchain_order_state ::
  "'f float_ops \<Rightarrow> timestamp \<Rightarrow> 'f inventory_view \<Rightarrow> 'f inventory_view" where
  "reset_preserving_offchain_order_state F now view = (inventory_view_default now)\<lparr>
     equities := List.map_filter (retained_equity F (pending_offchain_order_symbols view)) (equities view),
     pending_offchain_order_symbols := pending_offchain_order_symbols view,
     last_offchain_fill_applied_at := last_offchain_fill_applied_at view\<rparr>"

section \<open>Equity snapshots\<close>

fun equity_snapshot_watermark :: "'f inventory_view \<Rightarrow> symbol \<Rightarrow> venue \<Rightarrow> timestamp option" where
  "equity_snapshot_watermark view symbol MarketMaking = onchain_equity_snapshot_watermarks view symbol"
| "equity_snapshot_watermark view symbol Hedging = offchain_equity_snapshot_watermarks view symbol"

definition equity_snapshot_would_apply ::
  "'f float_ops \<Rightarrow> 'f inventory_view \<Rightarrow> symbol \<Rightarrow> venue \<Rightarrow> timestamp \<Rightarrow> 'f inventory_view_error + bool" where
  "equity_snapshot_would_apply F view symbol venue fetched_at =
     (if (case equity_snapshot_watermark view symbol venue of
            None \<Rightarrow> False | Some watermark \<Rightarrow> fetched_at \<le> watermark) then Inr False
      else if venue = Hedging \<and> symbol \<in> pending_offchain_order_symbols view then Inr False
      else if venue = Hedging \<and> (case last_offchain_fill_applied_at view symbol of
            None \<Rightarrow> False | Some filled_at \<Rightarrow> fetched_at < filled_at) then Inr False
      else (case equity_of view symbol of
          None \<Rightarrow> Inr True
        | Some inventory \<Rightarrow>
            tryr (map_err ViewFloat (inventory_has_inflight (shares_amount F) inventory)) (\<lambda>inflight.
            if inflight then Inr False
            else if (case inv_last_rebalancing inventory of
                None \<Rightarrow> False | Some last_rebalancing \<Rightarrow> fetched_at < last_rebalancing) then Inr False
            else Inr True)))"

definition apply_symbol_snapshot ::
  "'f float_ops \<Rightarrow> venue \<Rightarrow> timestamp \<Rightarrow> timestamp \<Rightarrow> 'f inventory_view \<times> symbol list \<Rightarrow>
   symbol \<times> 'f fractional_shares \<Rightarrow> 'f inventory_view_error + 'f inventory_view \<times> symbol list" where
  "apply_symbol_snapshot F venue fetched_at now acc entry =
     (case (acc, entry) of ((view, applied_symbols), (symbol, snapshot_balance)) \<Rightarrow>
        tryr (equity_snapshot_would_apply F view symbol venue fetched_at) (\<lambda>should_record_watermark.
        if \<not> should_record_watermark then Inr (view, applied_symbols)
        else tryr (update_equity symbol
               (on_snapshot (shares_amount F) venue snapshot_balance fetched_at) now view) (\<lambda>view'.
          Inr (view', applied_symbols @ [symbol]))))"

text \<open>Symbols tracked at the venue that the snapshot omits have gone to zero.\<close>

definition absent_zeroes ::
  "'f float_ops \<Rightarrow> venue \<Rightarrow> symbol set \<Rightarrow> 'f inventory_view \<Rightarrow> (symbol \<times> 'f fractional_shares) list" where
  "absent_zeroes F venue present view =
     map (\<lambda>(symbol, _). (symbol, shares_ZERO F))
       (filter (\<lambda>(symbol, inventory). get_venue inventory venue \<noteq> None \<and> symbol \<notin> present)
         (equities view))"

definition apply_equity_snapshot ::
  "'f float_ops \<Rightarrow> venue \<Rightarrow> (symbol \<times> 'f fractional_shares) list \<Rightarrow> timestamp \<Rightarrow> timestamp \<Rightarrow>
   'f inventory_view \<Rightarrow> 'f inventory_view_error + 'f inventory_view" where
  "apply_equity_snapshot F venue snapshot fetched_at now view =
     tryr (try_fold (apply_symbol_snapshot F venue fetched_at now) (view, [])
             (snapshot @ absent_zeroes F venue (fst ` set snapshot) view)) (\<lambda>(view', applied_symbols).
       Inr (record_equity_snapshot_watermarks venue applied_symbols fetched_at view'))"

section \<open>Wallet readings, in-flight balances and active transfers\<close>

definition set_inflight_cash ::
  "inflight_cash_location \<Rightarrow> 'f usdc \<Rightarrow> timestamp \<Rightarrow> timestamp \<Rightarrow> 'f inventory_view \<Rightarrow> 'f inventory_view" where
  "set_inflight_cash location amount fetched_at now view =
     (if (case inflight_cash view location of
            None \<Rightarrow> False | Some existing \<Rightarrow> ice_fetched_at existing > fetched_at) then view
      else view\<lparr>inflight_cash := (inflight_cash view)(location \<mapsto>
             \<lparr>ice_amount = amount, ice_fetched_at = fetched_at\<rparr>),
           iv_last_updated := now\<rparr>)"

definition set_inflight_equity_at_location ::
  "inflight_equity_location \<Rightarrow> (symbol \<times> 'f fractional_shares) list \<Rightarrow> timestamp \<Rightarrow> timestamp \<Rightarrow>
   'f inventory_view \<Rightarrow> 'f inventory_view" where
  "set_inflight_equity_at_location location balances fetched_at now view =
     (if \<exists>((_, existing_location), entry) \<in> set (inflight_equity view).
           existing_location = location \<and> iee_fetched_at entry > fetched_at then view
      else view\<lparr>inflight_equity :=
             fold (\<lambda>(symbol, amount). AList.update (symbol, location)
                 \<lparr>iee_amount = amount, iee_fetched_at = fetched_at\<rparr>) balances
               (filter (\<lambda>((_, existing_location), _). existing_location \<noteq> location) (inflight_equity view)),
           iv_last_updated := now\<rparr>)"

definition clear_equity_inflight ::
  "'f float_ops \<Rightarrow> symbol \<Rightarrow> venue \<Rightarrow> timestamp \<Rightarrow> 'f inventory_view \<Rightarrow>
   'f inventory_view_error + 'f inventory_view" where
  "clear_equity_inflight F symbol venue now view = (case equity_of view symbol of
     None \<Rightarrow> Inr view
   | Some inventory \<Rightarrow>
       tryr (map_err ViewEquity (set_inflight (shares_amount F) venue (shares_ZERO F) inventory)) (\<lambda>cleared.
       tryr (map_err ViewEquity (with_last_rebalancing now cleared)) (\<lambda>cleared'.
         Inr (view\<lparr>equities := AList.update symbol cleared' (equities view), iv_last_updated := now\<rparr>))))"

definition clear_usdc_inflight ::
  "'f float_ops \<Rightarrow> venue \<Rightarrow> timestamp \<Rightarrow> 'f inventory_view \<Rightarrow> 'f inventory_view_error + 'f inventory_view" where
  "clear_usdc_inflight F venue now view =
     tryr (map_err ViewUsdc (set_inflight (usdc_amount F) venue (usdc_ZERO F) (iv_usdc view))) (\<lambda>cleared.
     tryr (map_err ViewUsdc (with_last_rebalancing now cleared)) (\<lambda>cleared'.
       Inr (view\<lparr>iv_usdc := cleared', iv_last_updated := now\<rparr>)))"

definition set_active_usdc_rebalance :: "uuid \<Rightarrow> 'f inventory_view \<Rightarrow> 'f inventory_view" where
  "set_active_usdc_rebalance i view = view\<lparr>active_usdc_rebalance := Some i\<rparr>"

definition clear_active_usdc_rebalance :: "'f inventory_view \<Rightarrow> 'f inventory_view" where
  "clear_active_usdc_rebalance view = view\<lparr>active_usdc_rebalance := None\<rparr>"

definition set_active_mint :: "symbol \<Rightarrow> uuid \<Rightarrow> 'f inventory_view \<Rightarrow> 'f inventory_view" where
  "set_active_mint symbol i view = view\<lparr>active_mints := (active_mints view)(symbol \<mapsto> i)\<rparr>"

definition clear_active_mint :: "symbol \<Rightarrow> 'f inventory_view \<Rightarrow> 'f inventory_view" where
  "clear_active_mint symbol view = view\<lparr>active_mints := (active_mints view)(symbol := None)\<rparr>"

definition set_active_redemption :: "symbol \<Rightarrow> uuid \<Rightarrow> 'f inventory_view \<Rightarrow> 'f inventory_view" where
  "set_active_redemption symbol i view =
     view\<lparr>active_redemptions := (active_redemptions view)(symbol \<mapsto> i)\<rparr>"

definition clear_active_redemption :: "symbol \<Rightarrow> 'f inventory_view \<Rightarrow> 'f inventory_view" where
  "clear_active_redemption symbol view =
     view\<lparr>active_redemptions := (active_redemptions view)(symbol := None)\<rparr>"

definition is_stale_for_symbol :: "'f inventory_view \<Rightarrow> symbol \<Rightarrow> timestamp \<Rightarrow> bool" where
  "is_stale_for_symbol view symbol fetched_at =
     (case Option.bind (equity_of view symbol) inv_last_rebalancing of
        None \<Rightarrow> False | Some last_rebalancing \<Rightarrow> fetched_at < last_rebalancing)"

definition set_polled_inflight ::
  "'f float_ops \<Rightarrow> venue \<Rightarrow> timestamp \<Rightarrow> timestamp \<Rightarrow> 'f inventory_view \<Rightarrow> symbol \<times> 'f fractional_shares \<Rightarrow>
   'f inventory_view_error + 'f inventory_view" where
  "set_polled_inflight F venue fetched_at now view entry = (case entry of (symbol, quantity) \<Rightarrow>
     if is_stale_for_symbol view symbol fetched_at then Inr view
     else update_equity symbol (set_inflight (shares_amount F) venue quantity) now view)"

definition zero_vanished_inflight ::
  "'f float_ops \<Rightarrow> venue \<Rightarrow> symbol set \<Rightarrow> timestamp \<Rightarrow> timestamp \<Rightarrow> 'f inventory_view \<Rightarrow> symbol \<Rightarrow>
   'f inventory_view_error + 'f inventory_view" where
  "zero_vanished_inflight F venue present fetched_at now view symbol =
     (if symbol \<notin> present \<and> \<not> is_stale_for_symbol view symbol fetched_at
      then update_equity symbol (set_inflight (shares_amount F) venue (shares_ZERO F)) now view
      else Inr view)"

definition apply_inflight_snapshot ::
  "'f float_ops \<Rightarrow> (symbol \<times> 'f fractional_shares) list \<Rightarrow> (symbol \<times> 'f fractional_shares) list \<Rightarrow>
   timestamp \<Rightarrow> timestamp \<Rightarrow> 'f inventory_view \<Rightarrow> 'f inventory_view_error + 'f inventory_view" where
  "apply_inflight_snapshot F mints redemptions fetched_at now view =
     (let prev_mints = previous_inflight_mint_symbols view;
          prev_redemptions = previous_inflight_redemption_symbols view;
          taken = view\<lparr>previous_inflight_mint_symbols := [], previous_inflight_redemption_symbols := []\<rparr>
      in
        tryr (try_fold (set_polled_inflight F Hedging fetched_at now) taken mints) (\<lambda>view1.
        tryr (try_fold (set_polled_inflight F MarketMaking fetched_at now) view1 redemptions) (\<lambda>view2.
        tryr (try_fold (zero_vanished_inflight F Hedging (fst ` set mints) fetched_at now) view2
               prev_mints) (\<lambda>view3.
        tryr (try_fold (zero_vanished_inflight F MarketMaking (fst ` set redemptions) fetched_at now) view3
               prev_redemptions) (\<lambda>view4.
          Inr (view4\<lparr>previous_inflight_mint_symbols := map fst mints,
                    previous_inflight_redemption_symbols := map fst redemptions\<rparr>))))))"

definition clear_previous_inflight_mint_marker :: "symbol \<Rightarrow> 'f inventory_view \<Rightarrow> 'f inventory_view" where
  "clear_previous_inflight_mint_marker symbol view =
     view\<lparr>previous_inflight_mint_symbols := removeAll symbol (previous_inflight_mint_symbols view)\<rparr>"

definition clear_previous_inflight_redemption_marker ::
  "symbol \<Rightarrow> 'f inventory_view \<Rightarrow> 'f inventory_view" where
  "clear_previous_inflight_redemption_marker symbol view =
     view\<lparr>previous_inflight_redemption_symbols :=
       removeAll symbol (previous_inflight_redemption_symbols view)\<rparr>"

section \<open>Snapshot events\<close>

datatype 'f inventory_snapshot_event =
    OnchainEquity "(symbol \<times> 'f fractional_shares) list" timestamp
  | OnchainUsdc "'f usdc" timestamp
  | OffchainEquity "(symbol \<times> 'f fractional_shares) list" timestamp
  | OffchainUsd i64 "i64 option" timestamp
  | OffchainCashBuyingPower "i64 option" timestamp
  | OffchainCashWithdrawable "i64 option" timestamp
  | AlpacaUsdc "'f usdc" timestamp
  | EthereumUsdc "'f usdc" timestamp
  | BaseWalletUsdc "'f usdc" timestamp
  | InflightEquity "(symbol \<times> 'f fractional_shares) list" "(symbol \<times> 'f fractional_shares) list" timestamp
  | BaseWalletUnwrappedEquity "(symbol \<times> 'f fractional_shares) list" timestamp
  | BaseWalletWrappedEquity "(symbol \<times> 'f fractional_shares) list" timestamp

fun apply_snapshot_event ::
  "'f float_ops \<Rightarrow> 'f inventory_snapshot_event \<Rightarrow> timestamp \<Rightarrow> 'f inventory_view \<Rightarrow>
   'f inventory_view_error + 'f inventory_view" where
  "apply_snapshot_event F (OnchainEquity balances fetched_at) now view =
     apply_equity_snapshot F MarketMaking balances fetched_at now view"
| "apply_snapshot_event F (OnchainUsdc usdc_balance fetched_at) now view =
     update_usdc (on_snapshot (usdc_amount F) MarketMaking usdc_balance fetched_at) now view"
| "apply_snapshot_event F (OffchainEquity positions fetched_at) now view =
     apply_equity_snapshot F Hedging positions fetched_at now view"
| "apply_snapshot_event F (OffchainUsd usd_balance_cents gross_usd_cents fetched_at) now view =
     tryr (ok_or (UsdBalanceConversion usd_balance_cents) (usdc_from_cents F usd_balance_cents)) (\<lambda>usdc.
     tryr (update_usdc (on_snapshot (usdc_amount F) Hedging usdc fetched_at) now view) (\<lambda>updated.
       Inr (updated\<lparr>offchain_gross_usd_cents := gross_usd_cents\<rparr>)))"
| "apply_snapshot_event F (OffchainCashBuyingPower cents _) now view =
     Inr (view\<lparr>buying_power_cents := cents\<rparr>)"
| "apply_snapshot_event F (OffchainCashWithdrawable cents _) now view =
     Inr (view\<lparr>withdrawable_cash_cents := cents\<rparr>)"
| "apply_snapshot_event F (AlpacaUsdc usdc_balance _) now view =
     Inr (view\<lparr>alpaca_usdc := Some usdc_balance\<rparr>)"
| "apply_snapshot_event F (EthereumUsdc usdc_balance fetched_at) now view =
     Inr (set_inflight_cash EthereumWallet usdc_balance fetched_at now view)"
| "apply_snapshot_event F (BaseWalletUsdc usdc_balance fetched_at) now view =
     Inr (set_inflight_cash BaseWallet usdc_balance fetched_at now view)"
| "apply_snapshot_event F (BaseWalletUnwrappedEquity balances fetched_at) now view =
     Inr (set_inflight_equity_at_location BaseWalletUnwrapped balances fetched_at now view)"
| "apply_snapshot_event F (BaseWalletWrappedEquity balances fetched_at) now view =
     Inr (set_inflight_equity_at_location BaseWalletWrapped balances fetched_at now view)"
| "apply_snapshot_event F (InflightEquity mints redemptions fetched_at) now view =
     apply_inflight_snapshot F mints redemptions fetched_at now view"

definition force_symbol ::
  "'f float_ops \<Rightarrow> venue \<Rightarrow> timestamp \<Rightarrow> 'f inventory_view \<Rightarrow> symbol \<times> 'f fractional_shares \<Rightarrow>
   'f inventory_view_error + 'f inventory_view" where
  "force_symbol F venue now view entry = (case entry of (symbol, snapshot_balance) \<Rightarrow>
     if venue = Hedging \<and> has_pending_offchain_order view symbol then Inr view
     else update_equity symbol (force_on_snapshot (shares_amount F) venue snapshot_balance) now view)"

fun force_apply_snapshot_event ::
  "'f float_ops \<Rightarrow> 'f inventory_snapshot_event \<Rightarrow> timestamp \<Rightarrow> 'f inventory_view \<Rightarrow>
   'f inventory_view_error + 'f inventory_view" where
  "force_apply_snapshot_event F (OnchainEquity balances fetched_at) now view =
     map_ok (record_equity_snapshot_watermarks MarketMaking (map fst balances) fetched_at)
       (try_fold (force_symbol F MarketMaking now) view balances)"
| "force_apply_snapshot_event F (OnchainUsdc usdc_balance fetched_at) now view =
     update_usdc (force_on_snapshot (usdc_amount F) MarketMaking usdc_balance) now view"
| "force_apply_snapshot_event F (OffchainEquity positions fetched_at) now view =
     map_ok (\<lambda>view'. record_equity_snapshot_watermarks Hedging
         (filter (\<lambda>symbol. \<not> has_pending_offchain_order view' symbol) (map fst positions)) fetched_at view')
       (try_fold (force_symbol F Hedging now) view positions)"
| "force_apply_snapshot_event F (OffchainUsd usd_balance_cents gross_usd_cents fetched_at) now view =
     tryr (ok_or (UsdBalanceConversion usd_balance_cents) (usdc_from_cents F usd_balance_cents)) (\<lambda>usdc.
     tryr (update_usdc (force_on_snapshot (usdc_amount F) Hedging usdc) now view) (\<lambda>updated.
       Inr (updated\<lparr>offchain_gross_usd_cents := gross_usd_cents\<rparr>)))"
| "force_apply_snapshot_event F (OffchainCashBuyingPower cents _) now view =
     Inr (view\<lparr>buying_power_cents := cents\<rparr>)"
| "force_apply_snapshot_event F (OffchainCashWithdrawable cents _) now view =
     Inr (view\<lparr>withdrawable_cash_cents := cents\<rparr>)"
| "force_apply_snapshot_event F (AlpacaUsdc usdc_balance _) now view =
     Inr (view\<lparr>alpaca_usdc := Some usdc_balance\<rparr>)"
| "force_apply_snapshot_event F (EthereumUsdc usdc_balance fetched_at) now view =
     Inr (set_inflight_cash EthereumWallet usdc_balance fetched_at now view)"
| "force_apply_snapshot_event F (BaseWalletUsdc usdc_balance fetched_at) now view =
     Inr (set_inflight_cash BaseWallet usdc_balance fetched_at now view)"
| "force_apply_snapshot_event F (BaseWalletUnwrappedEquity balances fetched_at) now view =
     Inr (set_inflight_equity_at_location BaseWalletUnwrapped balances fetched_at now view)"
| "force_apply_snapshot_event F (BaseWalletWrappedEquity balances fetched_at) now view =
     Inr (set_inflight_equity_at_location BaseWalletWrapped balances fetched_at now view)"
| "force_apply_snapshot_event F (InflightEquity mints redemptions fetched_at) now view =
     apply_inflight_snapshot F mints redemptions fetched_at now view"

section \<open>Who applies them\<close>

text \<open>
  The projection applies an event and, when that fails, forces it onto the existing view. The
  rebalancing reactor applies it and, when that fails with an inventory error, resets the view
  first. For an in-flight poll the reactor passes the maps that remain after suppression, an
  argument here. Both leave the view as it was when they return an error; the reset is the
  exception.
\<close>

definition projection_apply ::
  "'f float_ops \<Rightarrow> 'f inventory_snapshot_event \<Rightarrow> timestamp \<Rightarrow>
   ('f inventory_view, 'f inventory_view_error, unit) effect" where
  "projection_apply F event now view =
     (case apply_snapshot_event F event now view of
        Inr updated \<Rightarrow> (Inr (), updated)
      | Inl error \<Rightarrow>
          (case force_apply_snapshot_event F event now view of
             Inr forced \<Rightarrow> (Inr (), forced)
           | Inl error' \<Rightarrow> (Inl error', view)))"

fun suppress_inflight ::
  "(symbol \<times> 'f fractional_shares) list \<times> (symbol \<times> 'f fractional_shares) list \<Rightarrow>
   'f inventory_snapshot_event \<Rightarrow> 'f inventory_snapshot_event" where
  "suppress_inflight (mints, redemptions) (InflightEquity _ _ fetched_at) =
     InflightEquity mints redemptions fetched_at"
| "suppress_inflight _ event = event"

definition service_on_snapshot ::
  "'f float_ops \<Rightarrow> 'f inventory_snapshot_event \<Rightarrow>
   (symbol \<times> 'f fractional_shares) list \<times> (symbol \<times> 'f fractional_shares) list \<Rightarrow> timestamp \<Rightarrow>
   ('f inventory_view, 'f inventory_view_error, unit) effect" where
  "service_on_snapshot F event filtered now view =
     (case apply_snapshot_event F (suppress_inflight filtered event) now view of
        Inr updated \<Rightarrow> (Inr (), updated)
      | Inl error \<Rightarrow> (Inl error, view))"

definition service_on_snapshot_recovery ::
  "'f float_ops \<Rightarrow> 'f inventory_snapshot_event \<Rightarrow>
   (symbol \<times> 'f fractional_shares) list \<times> (symbol \<times> 'f fractional_shares) list \<Rightarrow> timestamp \<Rightarrow>
   ('f inventory_view, 'f inventory_view_error, unit) effect" where
  "service_on_snapshot_recovery F event filtered now view =
     (let reset = reset_preserving_offchain_order_state F now view in
      case force_apply_snapshot_event F (suppress_inflight filtered event) now reset of
        Inr updated \<Rightarrow> (Inr (), updated)
      | Inl error \<Rightarrow> (Inl error, reset))"

definition service_react_snapshot ::
  "'f float_ops \<Rightarrow> 'f inventory_snapshot_event \<Rightarrow>
   (symbol \<times> 'f fractional_shares) list \<times> (symbol \<times> 'f fractional_shares) list \<Rightarrow> timestamp \<Rightarrow>
   ('f inventory_view, 'f inventory_view_error, unit) effect" where
  "service_react_snapshot F event filtered now view =
     (case service_on_snapshot F event filtered now view of
        (Inr _, updated) \<Rightarrow> (Inr (), updated)
      | (Inl _, unchanged) \<Rightarrow> service_on_snapshot_recovery F event filtered now unchanged)"

text \<open>The follow-up checks a reaction enqueues.\<close>

datatype imbalance_check = CheckEquity symbol | CheckUsdc

definition apply_fill_to_view ::
  "'f float_ops \<Rightarrow> venue \<Rightarrow> symbol \<Rightarrow> direction \<Rightarrow> 'f fractional_shares \<Rightarrow> 'f \<Rightarrow> timestamp \<Rightarrow>
   'f inventory_view \<Rightarrow> 'f inventory_view_error + 'f inventory_view" where
  "apply_fill_to_view F venue symbol direction amount usdc_value ts view =
     (let equity_op = operator_from_direction direction in
      tryr (update_equity symbol (inventory_available (shares_amount F) venue equity_op amount) ts view)
        (\<lambda>view'. update_usdc (inventory_available (usdc_amount F) venue (operator_inverse equity_op)
                    (Usdc usdc_value)) ts view'))"

fun service_react_position ::
  "'f float_ops \<Rightarrow> symbol \<Rightarrow> 'f position_event \<Rightarrow> timestamp \<Rightarrow>
   ('f inventory_view, 'f inventory_view_error, imbalance_check list) effect" where
  "service_react_position F symbol (OnChainOrderFilled trade amount direction price_usdc block_ts seen_at)
     now view =
     (case fl_mul F price_usdc (shares_inner amount) of
        Inl error \<Rightarrow> (Inl (ViewFloat error), view)
      | Inr usdc_value \<Rightarrow>
          (case apply_fill_to_view F MarketMaking symbol direction amount usdc_value seen_at view of
             Inr updated \<Rightarrow> (Inr [CheckEquity symbol, CheckUsdc], updated)
           | Inl error \<Rightarrow> (Inl error, view)))"
| "service_react_position F symbol
     (OffChainOrderFilled oid shares_filled direction eoid price broker_timestamp) now view =
     (case fl_mul F (usd_inner price) (shares_inner (positive_inner shares_filled)) of
        Inl error \<Rightarrow> (Inl (ViewFloat error), view)
      | Inr usdc_value \<Rightarrow>
          (case apply_fill_to_view F Hedging symbol direction (positive_inner shares_filled) usdc_value
                  broker_timestamp view of
             Inr updated \<Rightarrow>
               (Inr [CheckEquity symbol, CheckUsdc], clear_offchain_order_pending symbol (Some now) updated)
           | Inl error \<Rightarrow>
               (Inr [CheckEquity symbol], clear_offchain_order_pending symbol None view)))"
| "service_react_position F symbol (OffChainOrderPlaced _ _ _ _ _ _) now view =
     (Inr [], mark_offchain_order_pending symbol view)"
| "service_react_position F symbol (OffChainOrderFailed _ _ _) now view =
     (Inr [CheckEquity symbol], clear_offchain_order_pending symbol None view)"
| "service_react_position F symbol (OffChainOrderCancelled _ _ _) now view =
     (Inr [CheckEquity symbol], clear_offchain_order_pending symbol None view)"
| "service_react_position F symbol (Initialized _ _ _) now view = (Inr [], view)"
| "service_react_position F symbol (ThresholdUpdated _ _ _) now view = (Inr [], view)"
| "service_react_position F symbol (OnChainFillApplied _ _) now view = (Inr [], view)"
| "service_react_position F symbol (OnChainFillSettled _ _) now view = (Inr [], view)"
| "service_react_position F symbol (ManualPositionAdjusted _ _ _ _ _) now view =
     (Inr [CheckEquity symbol], view)"

section \<open>What an update leaves alone\<close>

definition hedging_available :: "'f inventory_view \<Rightarrow> symbol \<Rightarrow> 'f fractional_shares option" where
  "hedging_available view symbol =
     Option.bind (equity_of view symbol) (\<lambda>inventory. map_option vb_available (inv_offchain inventory))"

text \<open>The symbol has an open hedge order and its brokerage balance is known.\<close>

definition gated :: "symbol \<Rightarrow> 'f fractional_shares \<Rightarrow> 'f inventory_view \<Rightarrow> bool" where
  "gated symbol a view \<longleftrightarrow>
     symbol \<in> pending_offchain_order_symbols view \<and> hedging_available view symbol = Some a"

datatype 'f view_step =
    ByProjection "'f inventory_snapshot_event" timestamp
  | ByService "'f inventory_snapshot_event"
      "(symbol \<times> 'f fractional_shares) list \<times> (symbol \<times> 'f fractional_shares) list" timestamp
  | ByPosition symbol "'f position_event" timestamp

fun run_view_step :: "'f float_ops \<Rightarrow> 'f view_step \<Rightarrow> 'f inventory_view \<Rightarrow> 'f inventory_view" where
  "run_view_step F (ByProjection event now) view = snd (projection_apply F event now view)"
| "run_view_step F (ByService event filtered now) view = snd (service_react_snapshot F event filtered now view)"
| "run_view_step F (ByPosition symbol event now) view = snd (service_react_position F symbol event now view)"

fun is_terminal_offchain :: "'f position_event \<Rightarrow> bool" where
  "is_terminal_offchain (OffChainOrderFilled _ _ _ _ _ _) = True"
| "is_terminal_offchain (OffChainOrderFailed _ _ _) = True"
| "is_terminal_offchain (OffChainOrderCancelled _ _ _) = True"
| "is_terminal_offchain _ = False"

fun releases :: "symbol \<Rightarrow> 'f view_step \<Rightarrow> bool" where
  "releases symbol (ByPosition symbol' event _) \<longleftrightarrow> symbol' = symbol \<and> is_terminal_offchain event"
| "releases symbol _ \<longleftrightarrow> False"

lemma equity_of_update [simp]:
  "equity_of (view\<lparr>equities := AList.update symbol iv (equities view)\<rparr>) = (equity_of view)(symbol \<mapsto> iv)"
  "equity_of (view\<lparr>iv_last_updated := ts\<rparr>) = equity_of view"
  by (auto simp: equity_of_def update_conv')

lemma update_equityE:
  assumes "update_equity symbol u now view = Inr view'"
  obtains iv where "u (equity_or_default view symbol) = Inr iv"
    and "view' = view\<lparr>equities := AList.update symbol iv (equities view), iv_last_updated := now\<rparr>"
  using assms by (auto simp: update_equity_def)

lemma update_equity_frame:
  assumes "update_equity symbol u now view = Inr view'"
  shows "pending_offchain_order_symbols view' = pending_offchain_order_symbols view"
    and "last_offchain_fill_applied_at view' = last_offchain_fill_applied_at view"
    and "onchain_equity_snapshot_watermarks view' = onchain_equity_snapshot_watermarks view"
    and "offchain_equity_snapshot_watermarks view' = offchain_equity_snapshot_watermarks view"
    and "s \<noteq> symbol \<Longrightarrow> equity_of view' s = equity_of view s"
  using assms by (auto elim!: update_equityE simp: equity_of_def update_conv')

lemma gated_update_equity:
  assumes "update_equity symbol u now view = Inr view'" and "gated s a view"
    and "\<And>iv iv' b. s = symbol \<Longrightarrow> u iv = Inr iv' \<Longrightarrow> inv_offchain iv = Some b \<Longrightarrow>
      \<exists>b'. inv_offchain iv' = Some b' \<and> vb_available b' = vb_available b"
  shows "gated s a view'"
proof (cases "s = symbol")
  case True
  from assms(2) obtain iv b where iv: "equity_of view s = Some iv" and b: "inv_offchain iv = Some b"
    and a: "a = vb_available b"
    by (auto simp: gated_def hedging_available_def bind_eq_Some_conv)
  from assms(1) obtain iv' where iv': "u iv = Inr iv'"
    and view': "view' = view\<lparr>equities := AList.update symbol iv' (equities view), iv_last_updated := now\<rparr>"
    using iv True by (auto elim!: update_equityE simp: equity_or_default_def)
  from assms(3) [OF True iv' b] assms(2) a view' True show ?thesis
    by (auto simp: gated_def hedging_available_def equity_of_def update_conv')
next
  case False
  with assms(2) update_equity_frame [OF assms(1)] show ?thesis
    by (simp add: gated_def hedging_available_def)
qed

lemma gated_usdc:
  "update_usdc u now view = Inr view' \<Longrightarrow> gated s a view' = gated s a view"
  by (auto simp: update_usdc_def gated_def hedging_available_def equity_of_def)

text \<open>What each inventory operation does to the brokerage balance.\<close>

lemma on_snapshot_onchain_offchain:
  "on_snapshot A MarketMaking x ts iv = Inr iv' \<Longrightarrow> inv_offchain iv' = inv_offchain iv"
  by (auto simp: on_snapshot_def split: if_splits option.splits)

lemma force_on_snapshot_onchain_offchain:
  "force_on_snapshot A MarketMaking x iv = Inr iv' \<Longrightarrow> inv_offchain iv' = inv_offchain iv"
  by (auto simp: force_on_snapshot_def)

lemma available_onchain_offchain:
  "inventory_available A MarketMaking opr x iv = Inr iv' \<Longrightarrow> inv_offchain iv' = inv_offchain iv"
  by (auto simp: inventory_available_def split: operator.splits)

lemma set_inflight_keeps_available:
  "set_inflight A venue x iv = Inr iv' \<Longrightarrow> inv_offchain iv = Some b \<Longrightarrow>
   \<exists>b'. inv_offchain iv' = Some b' \<and> vb_available b' = vb_available b"
  by (cases venue) (auto simp: set_inflight_def venue_set_inflight_def venue_or_default_def split: if_splits)

lemma gated_watermarks [simp]:
  "gated s a (record_equity_snapshot_watermarks venue symbols ts view) = gated s a view"
  by (cases venue) (simp_all add: gated_def hedging_available_def equity_of_def)

lemma gated_apply_symbol:
  assumes "apply_symbol_snapshot F venue fetched_at now (view, applied) entry = Inr (view', applied')"
    and "gated s a view"
  shows "gated s a view'"
proof -
  obtain symbol x where entry: "entry = (symbol, x)" by fastforce
  show ?thesis
  proof (cases "equity_snapshot_would_apply F view symbol venue fetched_at = Inr True")
    case False
    with assms entry show ?thesis by (auto simp: apply_symbol_snapshot_def split: if_splits)
  next
    case True
    with assms(1) entry have upd: "update_equity symbol (on_snapshot (shares_amount F) venue x fetched_at) now view
        = Inr view'"
      by (auto simp: apply_symbol_snapshot_def)
    from True have "venue = Hedging \<Longrightarrow> symbol \<notin> pending_offchain_order_symbols view"
      by (auto simp: equity_snapshot_would_apply_def split: if_splits)
    with assms(2) have "s = symbol \<Longrightarrow> venue = MarketMaking"
      by (cases venue) (auto simp: gated_def)
    then show ?thesis
      by (intro gated_update_equity [OF upd assms(2)]) (auto dest!: on_snapshot_onchain_offchain)
  qed
qed

lemma gated_try_fold:
  assumes "try_fold f view xs = Inr view'" and "gated s a view"
    and "\<And>view x view'. f view x = Inr view' \<Longrightarrow> gated s a view \<Longrightarrow> gated s a view'"
  shows "gated s a view'"
  using assms(1,2) by (rule try_fold_invariant) (rule assms(3))

lemma gated_equity_snapshot:
  assumes "apply_equity_snapshot F venue snapshot fetched_at now view = Inr view'" and "gated s a view"
  shows "gated s a view'"
proof -
  from assms(1) obtain mid applied where run:
    "try_fold (apply_symbol_snapshot F venue fetched_at now) (view, [])
       (snapshot @ absent_zeroes F venue (fst ` set snapshot) view) = Inr (mid, applied)"
    and view': "view' = record_equity_snapshot_watermarks venue applied fetched_at mid"
    by (auto simp: apply_equity_snapshot_def)
  from run have "gated s a (fst (mid, applied))"
    by (rule try_fold_invariant [where P = "\<lambda>acc. gated s a (fst acc)"])
      (use assms(2) gated_apply_symbol in \<open>force+\<close>)
  with view' show ?thesis by simp
qed

lemma gated_fields [simp]:
  "gated s a (view\<lparr>previous_inflight_mint_symbols := ms\<rparr>) = gated s a view"
  "gated s a (view\<lparr>previous_inflight_redemption_symbols := ms\<rparr>) = gated s a view"
  "gated s a (view\<lparr>offchain_gross_usd_cents := c\<rparr>) = gated s a view"
  "gated s a (view\<lparr>buying_power_cents := c\<rparr>) = gated s a view"
  "gated s a (view\<lparr>withdrawable_cash_cents := c\<rparr>) = gated s a view"
  "gated s a (view\<lparr>alpaca_usdc := u\<rparr>) = gated s a view"
  "gated s a (view\<lparr>onchain_equity_snapshot_watermarks := w\<rparr>) = gated s a view"
  "gated s a (view\<lparr>offchain_equity_snapshot_watermarks := w\<rparr>) = gated s a view"
  "gated s a (set_inflight_cash location amount fetched_at now view) = gated s a view"
  "gated s a (set_inflight_equity_at_location eloc balances fetched_at now view) = gated s a view"
  by (simp_all add: gated_def hedging_available_def equity_of_def set_inflight_cash_def
      set_inflight_equity_at_location_def)

lemma gated_polled_fold:
  "try_fold (set_polled_inflight F venue fetched_at now) v xs = Inr v' \<Longrightarrow> gated s a v \<Longrightarrow> gated s a v'"
  by (erule gated_try_fold) (auto simp: set_polled_inflight_def split: prod.splits if_splits
      elim!: gated_update_equity dest: set_inflight_keeps_available)

lemma gated_zeroed_fold:
  "try_fold (zero_vanished_inflight F venue p fetched_at now) v xs = Inr v' \<Longrightarrow> gated s a v \<Longrightarrow> gated s a v'"
  by (erule gated_try_fold) (auto simp: zero_vanished_inflight_def split: if_splits
      elim!: gated_update_equity dest: set_inflight_keeps_available)

lemma gated_inflight_snapshot:
  assumes "apply_inflight_snapshot F mints redemptions fetched_at now view = Inr view'" and "gated s a view"
  shows "gated s a view'"
proof -
  from assms(1) obtain v1 v2 v3 v4 where
    "try_fold (set_polled_inflight F Hedging fetched_at now)
       (view\<lparr>previous_inflight_mint_symbols := [], previous_inflight_redemption_symbols := []\<rparr>) mints = Inr v1"
    and "try_fold (set_polled_inflight F MarketMaking fetched_at now) v1 redemptions = Inr v2"
    and "try_fold (zero_vanished_inflight F Hedging (fst ` set mints) fetched_at now) v2
       (previous_inflight_mint_symbols view) = Inr v3"
    and "try_fold (zero_vanished_inflight F MarketMaking (fst ` set redemptions) fetched_at now) v3
       (previous_inflight_redemption_symbols view) = Inr v4"
    and view': "view' = v4\<lparr>previous_inflight_mint_symbols := map fst mints,
       previous_inflight_redemption_symbols := map fst redemptions\<rparr>"
    by (auto simp: apply_inflight_snapshot_def Let_def)
  then have "gated s a v4"
    using assms(2) by (metis gated_polled_fold gated_zeroed_fold gated_fields(1,2))
  with view' show ?thesis by simp
qed

lemma gated_force_fold:
  "try_fold (force_symbol F venue now) v xs = Inr v' \<Longrightarrow> gated s a v \<Longrightarrow> gated s a v'"
proof (erule gated_try_fold)
  fix v x v'
  assume step: "force_symbol F venue now v x = Inr v'" and g: "gated s a v"
  obtain symbol q where x: "x = (symbol, q)" by fastforce
  show "gated s a v'"
  proof (cases "venue = Hedging \<and> has_pending_offchain_order v symbol")
    case True
    with step x g show ?thesis by (simp add: force_symbol_def)
  next
    case False
    with step x have upd: "update_equity symbol (force_on_snapshot (shares_amount F) venue q) now v = Inr v'"
      by (simp add: force_symbol_def)
    from False g have "s = symbol \<Longrightarrow> venue = MarketMaking"
      by (cases venue) (auto simp: gated_def has_pending_offchain_order_def)
    then show ?thesis
      by (intro gated_update_equity [OF upd g]) (auto dest!: force_on_snapshot_onchain_offchain)
  qed
qed

lemma gated_apply_snapshot_event:
  "apply_snapshot_event F event now view = Inr view' \<Longrightarrow> gated s a view \<Longrightarrow> gated s a view'"
  by (cases event) (auto simp: gated_usdc intro: gated_equity_snapshot gated_inflight_snapshot)

lemma gated_force_apply_snapshot_event:
  "force_apply_snapshot_event F event now view = Inr view' \<Longrightarrow> gated s a view \<Longrightarrow> gated s a view'"
  by (cases event) (auto simp: gated_usdc intro: gated_force_fold gated_inflight_snapshot)

lemma map_of_retained:
  assumes "map_of es s = Some iv" and "inv_offchain iv = Some b" and "s \<in> pending"
  shows "map_of (List.map_filter (retained_equity F pending) es) s = Some \<lparr>inv_onchain = None,
    inv_offchain = Some \<lparr>vb_available = vb_available b, vb_inflight = shares_ZERO F\<rparr>,
    inv_last_rebalancing = None\<rparr>"
  using assms(1)
proof (induction es)
  case (Cons e es)
  obtain k iv' where e: "e = (k, iv')" by fastforce
  show ?case
  proof (cases "k = s")
    case True
    with Cons.prems e assms(2,3) show ?thesis by (simp add: retained_equity_def)
  next
    case False
    with Cons e have IH: "map_of (List.map_filter (retained_equity F pending) es) s = Some \<lparr>inv_onchain = None,
        inv_offchain = Some \<lparr>vb_available = vb_available b, vb_inflight = shares_ZERO F\<rparr>,
        inv_last_rebalancing = None\<rparr>"
      by simp
    have "k' = k" if "retained_equity F pending e = Some (k', x)" for k' x
      using that e by (auto simp: retained_equity_def split: if_splits)
    with IH False show ?thesis by (cases "retained_equity F pending e") auto
  qed
qed simp

lemma gated_reset:
  assumes "gated s a view"
  shows "gated s a (reset_preserving_offchain_order_state F now view)"
proof -
  from assms obtain iv b where iv: "map_of (equities view) s = Some iv" "inv_offchain iv = Some b"
    and a: "a = vb_available b" and p: "s \<in> pending_offchain_order_symbols view"
    by (auto simp: gated_def hedging_available_def equity_of_def bind_eq_Some_conv)
  from map_of_retained [OF iv p, of F] a p show ?thesis
    by (simp add: reset_preserving_offchain_order_state_def gated_def hedging_available_def equity_of_def)
qed

lemma gated_fill:
  assumes "apply_fill_to_view F venue symbol direction amount usdc ts view = Inr view'"
    and "gated s a view" and "venue = MarketMaking \<or> symbol \<noteq> s"
  shows "gated s a view'"
proof -
  from assms(1) obtain mid where
    upd: "update_equity symbol (inventory_available (shares_amount F) venue (operator_from_direction direction)
        amount) ts view = Inr mid"
    and u: "update_usdc (inventory_available (usdc_amount F) venue
        (operator_inverse (operator_from_direction direction)) (Usdc usdc)) ts mid = Inr view'"
    by (auto simp: apply_fill_to_view_def Let_def)
  have "gated s a mid"
    using assms(3) by (intro gated_update_equity [OF upd assms(2)]) (auto dest!: available_onchain_offchain)
  with gated_usdc [OF u] show ?thesis by blast
qed

lemma gated_mark_clear:
  "gated s a view \<Longrightarrow> gated s a (mark_offchain_order_pending symbol view)"
  "gated s a view \<Longrightarrow> symbol \<noteq> s \<Longrightarrow> gated s a (clear_offchain_order_pending symbol applied view)"
  by (auto simp: gated_def hedging_available_def equity_of_def mark_offchain_order_pending_def
      clear_offchain_order_pending_def Let_def split: option.splits)

lemma gated_view_step:
  assumes "gated s a view" and "\<not> releases s step"
  shows "gated s a (run_view_step F step view)"
proof (cases step)
  case (ByProjection event now)
  with assms show ?thesis
    by (auto simp: projection_apply_def intro: gated_apply_snapshot_event gated_force_apply_snapshot_event
        split: sum.split)
next
  case (ByService event filtered now)
  with assms(1) show ?thesis
    by (auto simp: service_react_snapshot_def service_on_snapshot_def service_on_snapshot_recovery_def
        Let_def gated_reset
        intro: gated_apply_snapshot_event gated_force_apply_snapshot_event [OF _ gated_reset]
        split: sum.split)
next
  case (ByPosition symbol event now)
  with assms show ?thesis
    by (cases event) (auto intro: gated_fill gated_mark_clear split: sum.split)
qed

section \<open>Replayed snapshots\<close>

definition blocked :: "'f float_ops \<Rightarrow> venue \<Rightarrow> timestamp \<Rightarrow> 'f inventory_view \<Rightarrow> symbol \<Rightarrow> bool" where
  "blocked F venue fetched_at view symbol \<longleftrightarrow>
     equity_snapshot_would_apply F view symbol venue fetched_at = Inr False"

lemma set_update_subset: "set (AList.update k v al) \<subseteq> insert (k, v) (set al)"
  by (induction al) auto

lemma blocked_other_update:
  assumes "update_equity symbol u now view = Inr view'" and "s \<noteq> symbol"
  shows "blocked F venue fetched_at view' s = blocked F venue fetched_at view s"
  using assms update_equity_frame [OF assms(1)]
  by (cases venue) (simp_all add: blocked_def equity_snapshot_would_apply_def)

lemma apply_symbol_step:
  assumes "apply_symbol_snapshot F venue t now (view, ap) (symbol, x) = Inr (view', ap')"
  shows "(ap' = ap \<and> view' = view \<and> blocked F venue t view symbol) \<or>
    (ap' = ap @ [symbol] \<and> (\<forall>s. blocked F venue t view s \<longrightarrow> s \<noteq> symbol \<and> blocked F venue t view' s) \<and>
     set (equities view') \<subseteq> set (equities view) \<union> {symbol} \<times> UNIV)"
proof -
  from assms obtain r where r: "equity_snapshot_would_apply F view symbol venue t = Inr r"
    by (auto simp: apply_symbol_snapshot_def)
  show ?thesis
  proof (cases r)
    case False
    with r assms show ?thesis by (simp add: apply_symbol_snapshot_def blocked_def)
  next
    case True
    with r assms have upd: "update_equity symbol (on_snapshot (shares_amount F) venue x t) now view = Inr view'"
      and ap: "ap' = ap @ [symbol]"
      by (auto simp: apply_symbol_snapshot_def)
    from upd have "set (equities view') \<subseteq> set (equities view) \<union> {symbol} \<times> UNIV"
      using set_update_subset by (fastforce elim!: update_equityE)
    moreover have "s \<noteq> symbol" if "blocked F venue t view s" for s
      using that r True by (auto simp: blocked_def)
    ultimately show ?thesis using ap blocked_other_update [OF upd] by blast
  qed
qed

lemma snapshot_fold:
  assumes "try_fold (apply_symbol_snapshot F venue t now) (view, ap) xs = Inr (view', ap')"
  shows "(\<forall>s. blocked F venue t view s \<or> s \<in> set ap \<or> s \<in> fst ` set xs \<longrightarrow>
      blocked F venue t view' s \<or> s \<in> set ap') \<and>
    set (equities view') \<subseteq> set (equities view) \<union> (fst ` set xs) \<times> UNIV"
  using assms
proof (induction xs arbitrary: view ap)
  case (Cons e xs)
  obtain symbol x where e: "e = (symbol, x)" by fastforce
  with Cons.prems obtain mid apm where
    step: "apply_symbol_snapshot F venue t now (view, ap) (symbol, x) = Inr (mid, apm)"
    and rest: "try_fold (apply_symbol_snapshot F venue t now) (mid, apm) xs = Inr (view', ap')"
    by auto
  from apply_symbol_step [OF step] have
    "\<forall>s. blocked F venue t view s \<or> s \<in> set ap \<or> s = symbol \<longrightarrow> blocked F venue t mid s \<or> s \<in> set apm"
    and "set (equities mid) \<subseteq> set (equities view) \<union> {symbol} \<times> UNIV"
    by auto
  with Cons.IH [OF rest] e show ?case by auto
qed simp

lemma fold_raise_watermark:
  "fold (raise_watermark t) symbols m s =
     (if s \<in> set symbols then Some (case m s of None \<Rightarrow> t | Some w \<Rightarrow> max w t) else m s)"
  by (induction symbols arbitrary: m) (auto simp: raise_watermark_def Let_def max_def split: option.splits)

lemma watermark_record:
  "equity_snapshot_watermark (record_equity_snapshot_watermarks venue symbols t view) s venue =
     (if s \<in> set symbols then Some (case equity_snapshot_watermark view s venue of None \<Rightarrow> t | Some w \<Rightarrow> max w t)
      else equity_snapshot_watermark view s venue)"
  by (cases venue) (simp_all add: fold_raise_watermark)

lemma record_watermarks_frame [simp]:
  "equities (record_equity_snapshot_watermarks venue symbols t view) = equities view"
  "pending_offchain_order_symbols (record_equity_snapshot_watermarks venue symbols t view) =
     pending_offchain_order_symbols view"
  "last_offchain_fill_applied_at (record_equity_snapshot_watermarks venue symbols t view) =
     last_offchain_fill_applied_at view"
  "record_equity_snapshot_watermarks venue [] t view = view"
  by (cases venue; simp)+

lemma blocked_record:
  assumes "blocked F venue t view s \<or> s \<in> set symbols"
  shows "blocked F venue t (record_equity_snapshot_watermarks venue symbols t view) s"
proof (cases "s \<in> set symbols")
  case True
  then have "t \<le> the (equity_snapshot_watermark (record_equity_snapshot_watermarks venue symbols t view) s venue)"
    by (simp add: watermark_record split: option.split)
  with True show ?thesis by (simp add: blocked_def equity_snapshot_would_apply_def watermark_record)
next
  case False
  with assms have "blocked F venue t view s" by simp
  then show ?thesis
    by (simp only: blocked_def equity_snapshot_would_apply_def watermark_record False if_False
        equity_of_def record_watermarks_frame)
qed

lemma fold_all_blocked:
  "\<forall>s \<in> fst ` set xs. blocked F venue t view s \<Longrightarrow>
   try_fold (apply_symbol_snapshot F venue t now) (view, ap) xs = Inr (view, ap)"
  by (induction xs) (auto simp: apply_symbol_snapshot_def blocked_def)

text \<open>After a successful application every symbol the same snapshot touches is settled.\<close>

lemma applied_snapshot_blocks:
  assumes "apply_equity_snapshot F venue snapshot t now view = Inr view'"
    and "s \<in> fst ` set (snapshot @ absent_zeroes F venue (fst ` set snapshot) view')"
  shows "blocked F venue t view' s"
proof -
  let ?xs = "snapshot @ absent_zeroes F venue (fst ` set snapshot) view"
  from assms(1) obtain mid ap where
    run: "try_fold (apply_symbol_snapshot F venue t now) (view, []) ?xs = Inr (mid, ap)"
    and view': "view' = record_equity_snapshot_watermarks venue ap t mid"
    by (auto simp: apply_equity_snapshot_def)
  note fold = snapshot_fold [OF run]
  have "s \<in> fst ` set ?xs"
  proof (cases "s \<in> fst ` set snapshot")
    case False
    with assms(2) obtain iv where iv: "(s, iv) \<in> set (equities mid)" "get_venue iv venue \<noteq> None"
      by (auto simp: absent_zeroes_def view')
    with fold have "(s, iv) \<in> set (equities view) \<or> s \<in> fst ` set ?xs" by blast
    with iv(2) False show ?thesis by (force simp: absent_zeroes_def)
  qed auto
  with fold have "blocked F venue t mid s \<or> s \<in> set ap" by blast
  then show ?thesis unfolding view' by (rule blocked_record)
qed

section \<open>Properties\<close>

definition demo_view :: "rat inventory_view" where
  "demo_view = (inventory_view_default 0)\<lparr>
     equities := [(''AAPL'', demo_inventory FractionalShares 60 40)],
     iv_usdc := demo_inventory Usdc 600 400,
     withdrawable_cash_cents := Some 40000,
     pending_offchain_order_symbols := {''AAPL''}\<rparr>"

definition demo_offchain_fill :: "rat position_event" where
  "demo_offchain_fill = OffChainOrderFilled (OffchainOrderId 7) (Positive (FractionalShares 5)) Sell ''b1''
     (Usd 2) 15"

lemmas demo_view_evals = inventory_view_default_def apply_equity_snapshot_def apply_symbol_snapshot_def
  absent_zeroes_def equity_snapshot_would_apply_def equity_of_def update_equity_def equity_or_default_def
  inventory_default_def demo_inventory_def demo_balance_def on_snapshot_def apply_snapshot_def
  inventory_has_inflight_def option_has_inflight_def venue_has_inflight_def venue_or_default_def
  venue_balance_default_def shares_ZERO_def bounded_rat_def in_bound_def apply_fill_to_view_def
  update_usdc_def inventory_available_def credit_venue_def venue_defs shares_sub_def shares_add_def
  usdc_add_def usdc_sub_def clear_offchain_order_pending_def

lemma demo_view_gated: "gated ''AAPL'' (FractionalShares 40) demo_view"
  by (simp add: gated_def demo_view_def hedging_available_def equity_of_def demo_inventory_def demo_balance_def)

lemma gated_steps:
  "gated symbol a view \<Longrightarrow> \<forall>step \<in> set steps. \<not> releases symbol step \<Longrightarrow>
   gated symbol a (fold (run_view_step F) steps view)"
  by (induction steps arbitrary: view) (auto simp: gated_view_step)

lemma blocked_symbol_kept:
  assumes "apply_equity_snapshot F venue snapshot t now view = Inr view'" and "blocked F venue t view s"
  shows "equity_of view' s = equity_of view s"
proof -
  from assms(1) obtain mid ap where
    run: "try_fold (apply_symbol_snapshot F venue t now) (view, [])
      (snapshot @ absent_zeroes F venue (fst ` set snapshot) view) = Inr (mid, ap)"
    and view': "view' = record_equity_snapshot_watermarks venue ap t mid"
    by (auto simp: apply_equity_snapshot_def)
  let ?P = "\<lambda>acc. equity_of (fst acc) s = equity_of view s \<and> blocked F venue t (fst acc) s"
  from run have "?P (mid, ap)"
  proof (rule try_fold_invariant [where P = ?P])
    fix acc x acc'
    assume P: "?P acc" and step: "apply_symbol_snapshot F venue t now acc x = Inr acc'"
    obtain w l w' l' symbol y where eqs: "acc = (w, l)" "acc' = (w', l')" "x = (symbol, y)"
      by (metis surj_pair)
    show "?P acc'"
    proof (cases "w' = w")
      case False
      with step eqs have "equity_snapshot_would_apply F w symbol venue t = Inr True"
        and upd: "update_equity symbol (on_snapshot (shares_amount F) venue y t) now w = Inr w'"
        by (auto simp: apply_symbol_snapshot_def split: if_splits)
      with P eqs have "s \<noteq> symbol" by (auto simp: blocked_def)
      with P eqs upd update_equity_frame(5) [OF upd] blocked_other_update [OF upd] show ?thesis by simp
    qed (use P eqs in simp)
  qed (use assms(2) in simp)
  with view' show ?thesis by (simp add: equity_of_def)
qed

text \<open>A fill at the brokerage moves a known balance by its signed quantity.\<close>

lemma fill_moves_hedging:
  assumes "float_sem F v"
    and "apply_fill_to_view F Hedging symbol d q usdc ts view = Inr view'"
    and "hedging_available view symbol = Some a"
  shows "\<exists>a'. hedging_available view' symbol = Some a' \<and> sval v a' = sval v a + signed d (sval v q)"
proof -
  from assms(3) obtain iv b where iv: "equity_of view symbol = Some iv" "inv_offchain iv = Some b"
    and a: "a = vb_available b"
    by (auto simp: hedging_available_def bind_eq_Some_conv)
  from assms(2) obtain mid where
    upd: "update_equity symbol (inventory_available (shares_amount F) Hedging (operator_from_direction d) q)
        ts view = Inr mid"
    and "update_usdc (inventory_available (usdc_amount F) Hedging
        (operator_inverse (operator_from_direction d)) (Usdc usdc)) ts mid = Inr view'"
    by (auto simp: apply_fill_to_view_def Let_def)
  then have same: "equity_of view' = equity_of mid" by (auto simp: update_usdc_def equity_of_def)
  from upd obtain iv' where iv': "inventory_available (shares_amount F) Hedging (operator_from_direction d) q iv = Inr iv'"
    and mid: "equity_of mid symbol = Some iv'"
    using iv by (auto elim!: update_equityE simp: equity_or_default_def equity_of_def update_conv')
  from iv' iv(2) obtain b' where "inv_offchain iv' = Some b'"
    and "sval v (vb_available b') = sval v (vb_available b) + signed d (sval v q)"
    by (cases d) (auto simp: inventory_available_def credit_venue_def venue_or_default_def venue_defs
        shares_add_value [OF assms(1)] shares_sub_value [OF assms(1)] split: if_splits)
  with a same mid show ?thesis by (simp add: hedging_available_def)
qed



text \<open>
  The hedge fill that ends the order is counted once: after any such history the reactor
  moves the balance the order found by exactly the executed quantity, in the order's direction,
  and reopens the symbol to snapshots; a brokerage snapshot fetched before the fill was applied
  then still leaves that balance alone.
\<close>

theorem hedge_fill_applied_once:
  assumes "float_sem F v"
    and "gated symbol a view" and "\<forall>step \<in> set steps. \<not> releases symbol step"
    and "service_react_position F symbol (OffChainOrderFilled oid q d eoid price ts) t
      (fold (run_view_step F) steps view) = (Inr [CheckEquity symbol, CheckUsdc], filled)"
    and "apply_snapshot_event F (OffchainEquity positions fetched_at) now filled = Inr polled"
    and "fetched_at < t"
  shows "\<exists>a'. hedging_available filled symbol = Some a' \<and>
    sval v a' = sval v a + signed d (sval v (positive_inner q)) \<and>
    symbol \<notin> pending_offchain_order_symbols filled \<and>
    hedging_available polled symbol = Some a'"
proof -
  let ?view = "fold (run_view_step F) steps view"
  from gated_steps [OF assms(2,3), of F] have a: "hedging_available ?view symbol = Some a"
    by (simp add: gated_def)
  from assms(4) obtain usdc upd where
    fill: "apply_fill_to_view F Hedging symbol d (positive_inner q) usdc ts ?view = Inr upd"
    and filled: "filled = clear_offchain_order_pending symbol (Some t) upd"
    by (auto split: sum.splits)
  from fill_moves_hedging [OF assms(1) fill a] obtain a' where
    a': "hedging_available upd symbol = Some a'" "sval v a' = sval v a + signed d (sval v (positive_inner q))"
    by blast
  from assms(6) filled have "blocked F Hedging fetched_at filled symbol"
    by (simp add: blocked_def equity_snapshot_would_apply_def clear_offchain_order_pending_def Let_def)
  with assms(5) have "equity_of polled symbol = equity_of filled symbol"
    by (auto intro: blocked_symbol_kept)
  with a' filled show ?thesis
    by (simp add: hedging_available_def clear_offchain_order_pending_def Let_def equity_of_def)
qed

theorem hedge_fill_applied_once_witness:
  "\<exists>filled polled.
     service_react_position (bounded_rat 1000) ''AAPL'' demo_offchain_fill 20 demo_view =
       (Inr [CheckEquity ''AAPL'', CheckUsdc], filled) \<and>
     apply_snapshot_event (bounded_rat 1000) (OffchainEquity [(''AAPL'', FractionalShares 35)] 12) 21 filled =
       Inr polled \<and>
     map_option shares_inner (hedging_available polled ''AAPL'') = Some 35"
proof -
  let ?F = "bounded_rat 1000"
  obtain filled where fill: "service_react_position ?F ''AAPL'' demo_offchain_fill 20 demo_view =
      (Inr [CheckEquity ''AAPL'', CheckUsdc], filled)"
    and pol: "is_ok (apply_snapshot_event ?F (OffchainEquity [(''AAPL'', FractionalShares 35)] 12) 21 filled)"
    by (simp add: demo_offchain_fill_def demo_view_def demo_view_evals)
  then obtain polled where run: "apply_snapshot_event ?F (OffchainEquity [(''AAPL'', FractionalShares 35)] 12) 21
      filled = Inr polled"
    by (auto simp: is_ok_iff)
  have none: "\<forall>step \<in> set ([] :: rat view_step list). \<not> releases ''AAPL'' step" by simp
  have fill': "service_react_position ?F ''AAPL'' (OffChainOrderFilled (OffchainOrderId 7)
      (Positive (FractionalShares 5)) Sell ''b1'' (Usd 2) 15) 20 (fold (run_view_step ?F) [] demo_view) =
      (Inr [CheckEquity ''AAPL'', CheckUsdc], filled)"
    using fill unfolding demo_offchain_fill_def fold_simps(1) .
  have "\<exists>a'. hedging_available polled ''AAPL'' = Some a' \<and> shares_inner a' = 35"
    using hedge_fill_applied_once [OF bounded_rat_sem demo_view_gated none fill' run] by auto
  then obtain a' where "hedging_available polled ''AAPL'' = Some a'" "shares_inner a' = 35" by blast
  with fill run show ?thesis by auto
qed

text \<open>
  Delivering the same equity snapshot again, at whatever later time, changes nothing: the
  first application leaves every symbol the snapshot covers, present or vanished, settled for
  that fetch time.
\<close>

theorem replayed_equity_snapshot_is_noop:
  assumes "apply_equity_snapshot F venue snapshot fetched_at now view = Inr view'"
  shows "apply_equity_snapshot F venue snapshot fetched_at now' view' = Inr view'"
proof -
  have "\<forall>s \<in> fst ` set (snapshot @ absent_zeroes F venue (fst ` set snapshot) view').
      blocked F venue fetched_at view' s"
    using applied_snapshot_blocks [OF assms] by blast
  from fold_all_blocked [OF this] show ?thesis by (simp add: apply_equity_snapshot_def)
qed

theorem replayed_equity_snapshot_is_noop_witness:
  "\<exists>view'. apply_equity_snapshot (bounded_rat 1000) Hedging [(''MSFT'', FractionalShares 3)] 12 13 demo_view
       = Inr view' \<and>
     apply_equity_snapshot (bounded_rat 1000) Hedging [(''MSFT'', FractionalShares 3)] 12 20 view' = Inr view'"
proof -
  have "is_ok (apply_equity_snapshot (bounded_rat 1000) Hedging [(''MSFT'', FractionalShares 3)] 12 13 demo_view)"
    by (simp add: demo_view_def demo_view_evals)
  then obtain view' where run: "apply_equity_snapshot (bounded_rat 1000) Hedging
      [(''MSFT'', FractionalShares 3)] 12 13 demo_view = Inr view'"
    by (auto simp: is_ok_iff)
  from replayed_equity_snapshot_is_noop [OF run] run show ?thesis by blast
qed

text \<open>
  The capacity for moving USDC out of the brokerage is what is withdrawable above the
  reserve, and zero when the reserve exceeds it: it never touches the reserve.
\<close>

theorem outbound_capacity_keeps_reserve:
  assumes "float_sem F v"
    and "withdrawable_cash_cents view = Some cents" and "usdc_from_cents F cents = Some withdrawable"
    and "alpaca_to_base_usdc_capacity F view reserved = Inr (Some capacity)"
  shows "v (usdc_inner capacity) = max 0 (v (usdc_inner withdrawable) -
    (case reserved of None \<Rightarrow> 0 | Some amount \<Rightarrow> v (usd_inner amount)))"
proof -
  let ?r = "case reserved of None \<Rightarrow> usdc_ZERO F | Some amount \<Rightarrow> Usdc (usd_inner amount)"
  have r: "v (usdc_inner ?r) = (case reserved of None \<Rightarrow> 0 | Some amount \<Rightarrow> v (usd_inner amount))"
    by (simp add: usdc_ZERO_value [OF assms(1)] split: option.split)
  from assms(2-4) obtain exceeds where
    e: "fl_gt F (usdc_inner ?r) (usdc_inner withdrawable) = Inr exceeds"
    and c: "if exceeds then capacity = usdc_ZERO F else usdc_sub F withdrawable ?r = Inr capacity"
    by (auto simp: alpaca_to_base_usdc_capacity_def Let_def split: if_splits)
  show ?thesis
  proof (cases exceeds)
    case True
    with c float_sem_gt [OF assms(1) e] r usdc_ZERO_value [OF assms(1)] show ?thesis by simp
  next
    case False
    with c float_sem_gt [OF assms(1) e] r usdc_sub_value [OF assms(1), of withdrawable ?r capacity]
    show ?thesis by simp
  qed
qed

theorem outbound_capacity_keeps_reserve_witness:
  "\<exists>capacity. alpaca_to_base_usdc_capacity (bounded_rat 100000) demo_view (Some (Usd 150)) = Inr (Some capacity) \<and>
     usdc_inner capacity = 250"
proof -
  let ?F = "bounded_rat 100000"
  have w: "withdrawable_cash_cents demo_view = Some 40000" by (simp add: demo_view_def)
  have u: "usdc_from_cents ?F 40000 = Some (Usdc 400)"
    by (simp add: usdc_from_cents_def bounded_rat_def in_bound_def)
  have run: "alpaca_to_base_usdc_capacity ?F demo_view (Some (Usd 150)) = Inr (Some (Usdc 250))"
  proof -
    have "fl_gt ?F 150 400 = Inr False" by (simp add: bounded_rat_def)
    moreover have "usdc_sub ?F (Usdc 400) (Usdc 150) = Inr (Usdc 250)"
      by (simp add: usdc_sub_def bounded_rat_def in_bound_def)
    ultimately show ?thesis by (simp add: alpaca_to_base_usdc_capacity_def w u)
  qed
  from outbound_capacity_keeps_reserve [OF bounded_rat_sem w u run] run show ?thesis by simp
qed

text \<open>
  The USDC check reports an imbalance only while both venues are known and nothing is in
  flight at either; with a reserve configured it needs the gross brokerage cash and measures
  against it, never against the balance net of the reserve, and what it reports lies outside
  the band on the reported side.
\<close>

theorem usdc_imbalance_uses_gross_cash:
  assumes "float_sem F v"
    and "check_usdc_imbalance_with_gross_offchain F view threshold (Some reserved) = Inr (Some im)"
  shows "\<exists>cents gross onchain total_held ratio.
    (\<forall>venue. \<exists>b. get_venue (iv_usdc view) venue = Some b \<and> v (usdc_inner (vb_inflight b)) = 0) \<and>
    offchain_gross_usd_cents view = Some cents \<and> usdc_from_cents F cents = Some gross \<and>
    v onchain = option_value (\<lambda>u. v (usdc_inner u)) (inv_onchain (iv_usdc view)) \<and>
    v total_held = v onchain + v (usdc_inner gross) \<and> fl_div F onchain total_held = Inr ratio \<and>
    (case im of
       TooMuchOnchain _ \<Rightarrow> v ratio > v (it_target threshold) + v (it_deviation threshold)
     | TooMuchOffchain _ \<Rightarrow> v ratio < v (it_target threshold) - v (it_deviation threshold))"
proof -
  from assms(2) obtain bo bh where b: "inv_onchain (iv_usdc view) = Some bo" "inv_offchain (iv_usdc view) = Some bh"
    by (auto simp: check_usdc_imbalance_with_gross_offchain_def split: option.splits)
  from assms(2) b obtain cents where cents: "offchain_gross_usd_cents view = Some cents"
    by (auto simp: check_usdc_imbalance_with_gross_offchain_def split: option.splits if_splits)
  from assms(2) b cents obtain gross onchain tot ratio lower upper where
    z: "fl_is_zero F (usdc_inner (vb_inflight bo)) = Inr True" "fl_is_zero F (usdc_inner (vb_inflight bh)) = Inr True"
    and g: "usdc_from_cents F cents = Some gross"
    and o: "venue_total (usdc_amount F) bo = Inr onchain"
    and t: "usdc_add F onchain gross = Inr tot"
    and r: "fl_div F (usdc_inner onchain) (usdc_inner tot) = Inr ratio"
    and l: "fl_sub F (it_target threshold) (it_deviation threshold) = Inr lower"
    and u: "fl_add F (it_target threshold) (it_deviation threshold) = Inr upper"
    and side: "case im of TooMuchOnchain _ \<Rightarrow> fl_gt F ratio upper = Inr True
      | TooMuchOffchain _ \<Rightarrow> fl_lt F ratio lower = Inr True"
    by (auto simp: check_usdc_imbalance_with_gross_offchain_def venue_has_inflight_def split: if_splits) blast+
  have "\<forall>venue. \<exists>b. get_venue (iv_usdc view) venue = Some b \<and> v (usdc_inner (vb_inflight b)) = 0"
    using b z float_sem_is_zero [OF assms(1)] by (auto simp: all_venue_iff)
  moreover have "v (usdc_inner onchain) = option_value (\<lambda>u. v (usdc_inner u)) (inv_onchain (iv_usdc view))"
    using o b by (auto simp: venue_total_def balance_value_def dest: usdc_add_value [OF assms(1)])
  moreover have "case im of
      TooMuchOnchain _ \<Rightarrow> v ratio > v (it_target threshold) + v (it_deviation threshold)
    | TooMuchOffchain _ \<Rightarrow> v ratio < v (it_target threshold) - v (it_deviation threshold)"
    using side float_sem_sub [OF assms(1) l] float_sem_add [OF assms(1) u]
      float_sem_lt [OF assms(1)] float_sem_gt [OF assms(1)]
    by (cases im) fastforce+
  ultimately show ?thesis
    using cents g usdc_add_value [OF assms(1) t] r by blast
qed

text \<open>The demonstration view of the USDC check: 600 onchain, 1000 in gross brokerage cash.\<close>

definition demo_cash_view :: "rat inventory_view" where
  "demo_cash_view = (inventory_view_default 0)\<lparr>iv_usdc := demo_inventory Usdc 600 400,
     offchain_gross_usd_cents := Some 100000\<rparr>"

theorem usdc_imbalance_uses_gross_cash_witness:
  "\<exists>cents. check_usdc_imbalance_with_gross_offchain exact_rat demo_cash_view
      \<lparr>it_target = 1 / 2, it_deviation = 1 / 20\<rparr> (Some (Usd 600)) = Inr (Some (TooMuchOffchain (Usdc 200))) \<and>
    offchain_gross_usd_cents demo_cash_view = Some cents"
proof -
  have u: "usdc_from_cents exact_rat 100000 = Some (Usdc 1000)"
    by (simp add: usdc_from_cents_def exact_rat_ops)
  have run: "check_usdc_imbalance_with_gross_offchain exact_rat demo_cash_view
      \<lparr>it_target = 1 / 2, it_deviation = 1 / 20\<rparr> (Some (Usd 600)) = Inr (Some (TooMuchOffchain (Usdc 200)))"
    using u
    by (simp add: check_usdc_imbalance_with_gross_offchain_def demo_cash_view_def demo_inventory_def
        demo_balance_def inventory_view_default_def venue_has_inflight_def venue_total_def
        usdc_add_def usdc_sub_def usdc_mul_def exact_rat_simps)
  from usdc_imbalance_uses_gross_cash [OF exact_rat_sem run] run show ?thesis by blast
qed

text \<open>
  When the value of a hedge fill cannot be computed, the reactor returns before it releases
  the symbol, although a fill is meant to release it in every case: the gate stays closed, and
  from then on no snapshot, forced or not, can correct the balance.
\<close>

theorem unvalued_fill_keeps_gate_closed:
  "\<exists>F error view'.
     service_react_position F ''AAPL'' demo_offchain_fill 20 demo_view = (Inl (ViewFloat error), view') \<and>
     gated ''AAPL'' (FractionalShares 40) view' \<and>
     (\<forall>steps. gated ''AAPL'' (FractionalShares 40)
       (fold (run_view_step F) (filter (\<lambda>step. \<not> releases ''AAPL'' step) steps) view'))"
proof (intro exI conjI)
  let ?F = "bounded_rat 1"
  show "service_react_position ?F ''AAPL'' demo_offchain_fill 20 demo_view =
      (Inl (ViewFloat (FloatError ''overflow'')), demo_view)"
    by (simp add: demo_offchain_fill_def bounded_rat_def in_bound_def)
  show "gated ''AAPL'' (FractionalShares 40) demo_view" by (rule demo_view_gated)
  then show "\<forall>steps. gated ''AAPL'' (FractionalShares 40)
      (fold (run_view_step ?F) (filter (\<lambda>step. \<not> releases ''AAPL'' step) steps) demo_view)"
    by (simp add: gated_steps)
qed

text \<open>
  Wrapped tokens convert to underlying tokens exactly when the product fits 256 bits, and the
  result is the product over the ratio's unit, rounded down; an amount that does not fit is an
  error, never a wrapped value.
\<close>

theorem to_underlying_is_floor:
  "(to_underlying r w :: 'f ratio_error + u256) = (if uint w * uint (ratio r) < 2 ^ 256
     then Inr (word_of_int (uint w * uint (ratio r) div 10 ^ 18)) else Inl RatioOverflow)"
proof (cases "uint w * uint (ratio r) < 2 ^ 256")
  case True
  then have m: "uint (w * ratio r) = uint w * uint (ratio r)"
    by (simp add: uint_word_ariths mod_pos_pos_trivial)
  have "uint RATIO_ONE = 10 ^ 18" by (simp add: RATIO_ONE_def)
  then have "w * ratio r div RATIO_ONE = word_of_int (uint w * uint (ratio r) div 10 ^ 18)"
    by (simp add: word_div_def m)
  with True show ?thesis by (simp add: to_underlying_def u256_checked_mul_def)
qed (simp add: to_underlying_def u256_checked_mul_def)

end
