(* ===== verification/Usdc_Trigger.thy ===== *)
theory Usdc_Trigger
  imports UsdcRebalance Inventory_View
begin

text \<open>
  The USDC arm of the rebalancing trigger (\<^verbatim>\<open>src/rebalancing/trigger/usdc.rs\<close>): how large a transfer
  may be, and the reactor that follows the events of a rebalance, moves the in-flight balances of the
  inventory and keeps or clears the single-rebalance guard.
\<close>

section \<open>Sizing a transfer\<close>

datatype 'f usdc_rebalance_operation = OpAlpacaToBase "'f usdc" | OpBaseToAlpaca "'f usdc"

datatype 'f usdc_trigger_skip =
    NoImbalance
  | MissingWithdrawableCash
  | ReserveCapacityExhausted
  | WithdrawableBelowMinimum
  | BelowMinimumWithdrawal "'f usdc"
  | ArithmeticError

definition USDC_TRANSFER_MAX_DECIMAL_PLACES :: nat where
  "USDC_TRANSFER_MAX_DECIMAL_PLACES = 6"

text \<open>A comparison that fails leaves the amount uncapped.\<close>

definition cap_usdc :: "'f float_ops \<Rightarrow> 'f usdc \<Rightarrow> 'f usdc option \<Rightarrow> 'f usdc" where
  "cap_usdc F amount usdc_limit = (case usdc_limit of
     None \<Rightarrow> amount
   | Some cap \<Rightarrow> if unwrap_or False (fl_gt F (usdc_inner amount) (usdc_inner cap)) then cap else amount)"

definition cap_usdc_by_alpaca_capacity :: "'f float_ops \<Rightarrow> 'f usdc \<Rightarrow> 'f usdc \<Rightarrow> float_error + 'f usdc" where
  "cap_usdc_by_alpaca_capacity F amount capacity =
     tryr (fl_gt F (usdc_inner amount) (usdc_inner capacity)) (\<lambda>exceeds.
       Inr (if exceeds then capacity else amount))"

definition truncate_for_transfer :: "'f float_ops \<Rightarrow> 'f usdc \<Rightarrow> float_error + 'f usdc" where
  "truncate_for_transfer F amount =
     tryr (fl_to_fixed_decimal_lossy F (usdc_inner amount) USDC_TRANSFER_MAX_DECIMAL_PLACES) (\<lambda>(fixed, _).
     tryr (fl_from_fixed_decimal F fixed USDC_TRANSFER_MAX_DECIMAL_PLACES) (\<lambda>truncated.
       Inr (Usdc truncated)))"

text \<open>
  \<open>minimum\<close> is the literal \<^verbatim>\<open>ALPACA_MINIMUM_WITHDRAWAL\<close>; every arithmetic failure is
  reported as one skip reason.
\<close>

abbreviation arith :: "'e + 'a \<Rightarrow> 'f usdc_trigger_skip + 'a" where
  "arith \<equiv> map_err (\<lambda>_. ArithmeticError)"

definition size_alpaca_to_base ::
  "'f float_ops \<Rightarrow> 'f usdc \<Rightarrow> 'f usdc option \<Rightarrow> 'f usd option \<Rightarrow> 'f usdc \<Rightarrow> 'f usdc option \<Rightarrow>
   'f usdc_trigger_skip + 'f usdc_rebalance_operation" where
  "size_alpaca_to_base F minimum usdc_limit reserved excess withdrawable_capacity =
     (case withdrawable_capacity of
        None \<Rightarrow> Inl MissingWithdrawableCash
      | Some capacity \<Rightarrow>
          tryr (arith (fl_lt F (usdc_inner capacity) (usdc_inner minimum))) (\<lambda>too_small.
          if too_small then
            Inl (case reserved of None \<Rightarrow> WithdrawableBelowMinimum | Some _ \<Rightarrow> ReserveCapacityExhausted)
          else
            tryr (arith (cap_usdc_by_alpaca_capacity F (cap_usdc F excess usdc_limit) capacity)) (\<lambda>bounded.
            tryr (arith (truncate_for_transfer F bounded)) (\<lambda>capped.
            tryr (arith (fl_lt F (usdc_inner capped) (usdc_inner minimum))) (\<lambda>below.
            if below then Inl (BelowMinimumWithdrawal capped) else Inr (OpAlpacaToBase capped))))))"

definition size_base_to_alpaca ::
  "'f float_ops \<Rightarrow> 'f usdc option \<Rightarrow> 'f usdc \<Rightarrow> 'f usdc_trigger_skip + 'f usdc_rebalance_operation" where
  "size_base_to_alpaca F usdc_limit excess =
     tryr (arith (truncate_for_transfer F (cap_usdc F excess usdc_limit))) (\<lambda>amount.
     tryr (arith (fl_is_zero F (usdc_inner amount))) (\<lambda>zero.
     if zero then Inl NoImbalance else Inr (OpBaseToAlpaca amount)))"

definition check_imbalance_and_build_operation ::
  "'f float_ops \<Rightarrow> 'f usdc \<Rightarrow> 'f imbalance_threshold \<Rightarrow> 'f inventory_view \<Rightarrow> 'f usdc option \<Rightarrow>
   'f usd option \<Rightarrow> 'f usdc_trigger_skip + 'f usdc_rebalance_operation" where
  "check_imbalance_and_build_operation F minimum threshold view usdc_limit reserved =
     tryr (arith (check_usdc_imbalance_with_gross_offchain F view threshold reserved)) (\<lambda>imbalance.
     case imbalance of
       None \<Rightarrow> Inl NoImbalance
     | Some (TooMuchOffchain excess) \<Rightarrow>
         tryr (arith (alpaca_to_base_usdc_capacity F view reserved)) (\<lambda>capacity.
           size_alpaca_to_base F minimum usdc_limit reserved excess capacity)
     | Some (TooMuchOnchain excess) \<Rightarrow> size_base_to_alpaca F usdc_limit excess)"

section \<open>Tracking\<close>

datatype usdc_tracking_event = TrackInitiated | TrackDepositConfirmed | TrackConversionConfirmed

datatype usdc_rebalance_stage =
    StageConversionInitiated
  | StageConversionConfirmed
  | StageInitiated
  | StageWithdrawalConfirmed
  | StageBridgingInitiated
  | StageBridgeAttestationReceived
  | StageBridged
  | StageDepositInitiated
  | StageDepositConfirmed

record 'f usdc_rebalance_tracking =
  ut_direction :: rebalance_direction
  ut_initiated_amount :: "'f usdc"
  ut_bridged_amount_received :: "'f usdc option"
  ut_stage :: usdc_rebalance_stage
  ut_last_progress_at :: timestamp

fun source_venue :: "rebalance_direction \<Rightarrow> venue" where
  "source_venue AlpacaToBase = Hedging"
| "source_venue BaseToAlpaca = MarketMaking"

definition source_transfer_started :: "'f usdc_rebalance_tracking \<Rightarrow> bool" where
  "source_transfer_started t = (case ut_direction t of
     AlpacaToBase \<Rightarrow> ut_stage t \<notin> {StageConversionInitiated, StageConversionConfirmed}
   | BaseToAlpaca \<Rightarrow> True)"

definition is_post_burn :: "'f usdc_rebalance_tracking \<Rightarrow> bool" where
  "is_post_burn t = (case ut_direction t of
     AlpacaToBase \<Rightarrow> ut_stage t \<notin> {StageConversionInitiated, StageConversionConfirmed, StageInitiated,
       StageWithdrawalConfirmed}
   | BaseToAlpaca \<Rightarrow> ut_stage t \<notin> {StageInitiated, StageWithdrawalConfirmed})"

fun stage_from_event :: "'f usdc_rebalance_event \<Rightarrow> usdc_rebalance_stage option" where
  "stage_from_event (ConversionInitiated _ _ _ _) = Some StageConversionInitiated"
| "stage_from_event (ConversionConfirmed AlpacaToBase _ _) = Some StageConversionConfirmed"
| "stage_from_event (Initiated _ _ _ _) = Some StageInitiated"
| "stage_from_event (WithdrawalConfirmed _ _) = Some StageWithdrawalConfirmed"
| "stage_from_event (BridgingInitiated _ _) = Some StageBridgingInitiated"
| "stage_from_event (BridgeAttestationReceived _ _ _ _ _) = Some StageBridgeAttestationReceived"
| "stage_from_event (usdc_rebalance_event.Bridged _ _ _ _) = Some StageBridged"
| "stage_from_event (BridgingCompletionRecovered _ _ _ _) = Some StageBridged"
| "stage_from_event (usdc_rebalance_event.DepositInitiated _ _) = Some StageDepositInitiated"
| "stage_from_event (usdc_rebalance_event.DepositConfirmed _ _) = Some StageDepositConfirmed"
| "stage_from_event _ = None"

fun stage_timestamp :: "usdc_rebalance_stage \<Rightarrow> 'f usdc_rebalance_event \<Rightarrow> timestamp option" where
  "stage_timestamp stage (ConversionInitiated _ _ _ initiated_at) =
     (if stage = StageConversionInitiated then Some initiated_at else None)"
| "stage_timestamp stage (ConversionConfirmed _ _ converted_at) =
     (if stage = StageConversionConfirmed then Some converted_at else None)"
| "stage_timestamp stage (Initiated _ _ _ initiated_at) =
     (if stage = StageInitiated then Some initiated_at else None)"
| "stage_timestamp stage (WithdrawalConfirmed confirmed_at _) =
     (if stage = StageWithdrawalConfirmed then Some confirmed_at else None)"
| "stage_timestamp stage (BridgingInitiated _ burned_at) =
     (if stage = StageBridgingInitiated then Some burned_at else None)"
| "stage_timestamp stage (BridgeAttestationReceived _ _ _ _ attested_at) =
     (if stage = StageBridgeAttestationReceived then Some attested_at else None)"
| "stage_timestamp stage (usdc_rebalance_event.Bridged _ _ _ minted_at) =
     (if stage = StageBridged then Some minted_at else None)"
| "stage_timestamp stage (BridgingCompletionRecovered _ _ _ recovered_at) =
     (if stage = StageBridged then Some recovered_at else None)"
| "stage_timestamp stage (usdc_rebalance_event.DepositInitiated _ deposit_initiated_at) =
     (if stage = StageDepositInitiated then Some deposit_initiated_at else None)"
| "stage_timestamp stage (usdc_rebalance_event.DepositConfirmed _ deposit_confirmed_at) =
     (if stage = StageDepositConfirmed then Some deposit_confirmed_at else None)"
| "stage_timestamp stage _ = None"

definition track_progress ::
  "'f usdc_rebalance_event \<Rightarrow> 'f usdc_rebalance_tracking \<Rightarrow> 'f usdc_rebalance_tracking" where
  "track_progress event t = (case stage_from_event event of
     None \<Rightarrow> t
   | Some stage \<Rightarrow> (case stage_timestamp stage event of
       None \<Rightarrow> t
     | Some last_progress_at \<Rightarrow> t\<lparr>ut_stage := stage, ut_last_progress_at := last_progress_at\<rparr>))"

section \<open>The part of the rebalancing service that handles USDC\<close>

text \<open>
  The fields of \<^verbatim>\<open>RebalancingService\<close> the USDC arms use. \<open>us_jobs\<close> is the \<^verbatim>\<open>Jobs\<close> table of
  the queue library; \<open>us_outbox\<close> lists the check-queue calls and the alerts sent, oldest
  first. The tracking map is an association list: its order is the iteration order of the hash
  map. Locks are not modelled: \<^verbatim>\<open>usdc_event_sync\<close> serialises the operations below.
\<close>

datatype usdc_effect =
    CancelPendingEquityChecks
  | CancelPendingUsdcChecks
  | EnqueueUsdcCheck
  | StallAlert usdc_rebalance_id usdc_rebalance_stage int
  | LatchedAlert "usdc_rebalance_id list" "usdc_rebalance_id list" "string list"

datatype job_type = TransferUsdcToHedging | TransferUsdcToMarketMaking | OtherJob string

datatype job_status = JobPending | JobQueued | JobRunning | JobFailed | JobDone | JobKilled

record job_row =
  jr_id :: string
  jr_type :: job_type
  jr_status :: job_status
  jr_attempts :: int
  jr_max_attempts :: int
  jr_run_at :: int
  jr_done_at :: "int option"
  jr_payload :: string

record 'f usdc_service =
  us_inventory :: "'f inventory_view"
  us_in_progress :: bool
  us_tracking :: "(usdc_rebalance_id \<times> 'f usdc_rebalance_tracking) list"
  us_timed_out :: "usdc_rebalance_id \<rightharpoonup> timestamp"
  us_logged :: "usdc_rebalance_id set"
  us_alerted :: "usdc_rebalance_id set"
  us_jobs :: "job_row list"
  us_outbox :: "usdc_effect list"

datatype 'f rebalancing_service_error =
    ServiceInventory "'f inventory_view_error"
  | ServiceFloat float_error
  | MissingUsdcTrackingContext usdc_rebalance_id usdc_tracking_event
  | MissingUsdcBridgedAmount usdc_rebalance_id
  | SettledUsdcExceedsInitiatedAmount usdc_rebalance_id usdc_tracking_event "'f usdc" "'f usdc"
  | ServiceSqlx string
  | ApalisSqlx string
  | RearmEnqueue string
  | EquitySweep string
  | UnreachableReached

type_synonym ('f, 'a) usdc_op = "('f usdc_service, 'f rebalancing_service_error, 'a) effect"

definition get_tracking :: "'f usdc_service \<Rightarrow> usdc_rebalance_id \<Rightarrow> 'f usdc_rebalance_tracking option" where
  "get_tracking S i = map_of (us_tracking S) i"

definition put_tracking ::
  "usdc_rebalance_id \<Rightarrow> 'f usdc_rebalance_tracking \<Rightarrow> 'f usdc_service \<Rightarrow> 'f usdc_service" where
  "put_tracking i t S = S\<lparr>us_tracking := AList.update i t (us_tracking S)\<rparr>"

definition remove_tracking :: "usdc_rebalance_id \<Rightarrow> 'f usdc_service \<Rightarrow> 'f usdc_service" where
  "remove_tracking i S = S\<lparr>us_tracking := AList.delete i (us_tracking S)\<rparr>"

text \<open>\<^verbatim>\<open>*inventory = f(inventory.clone())?\<close>: an error leaves the view alone.\<close>

definition modify_inventory ::
  "('f inventory_view \<Rightarrow> 'f inventory_view_error + 'f inventory_view) \<Rightarrow> ('f, unit) usdc_op" where
  "modify_inventory f S = (case f (us_inventory S) of
     Inl e \<Rightarrow> (Inl (ServiceInventory e), S)
   | Inr view \<Rightarrow> (Inr (), S\<lparr>us_inventory := view\<rparr>))"

section \<open>The reactor\<close>

datatype usdc_terminal_decision = NotTerminal | Clear | PreservePostBurn

datatype usdc_settlement_outcome = SettledReconciled | DeferredToSnapshot

fun is_terminal_usdc_rebalance_event :: "'f usdc_rebalance_event \<Rightarrow> bool" where
  "is_terminal_usdc_rebalance_event (usdc_rebalance_event.WithdrawalFailed _ _) = True"
| "is_terminal_usdc_rebalance_event (usdc_rebalance_event.BridgingFailed _ _ _ _) = True"
| "is_terminal_usdc_rebalance_event (usdc_rebalance_event.DepositFailed _ _ _) = True"
| "is_terminal_usdc_rebalance_event (usdc_rebalance_event.ConversionFailed _ _) = True"
| "is_terminal_usdc_rebalance_event (OperatorReconciled _ _ _ _ _) = True"
| "is_terminal_usdc_rebalance_event (ConversionConfirmed d _ _) = (d = BaseToAlpaca)"
| "is_terminal_usdc_rebalance_event (usdc_rebalance_event.DepositConfirmed d _) = (d = AlpacaToBase)"
| "is_terminal_usdc_rebalance_event _ = False"

fun post_burn_failure :: "'f usdc_rebalance_tracking option \<Rightarrow> 'f usdc_rebalance_event \<Rightarrow> bool" where
  "post_burn_failure tracking (usdc_rebalance_event.BridgingFailed burn_tx_hash cctp_nonce _ _) =
     (if burn_tx_hash \<noteq> None \<or> cctp_nonce \<noteq> None then True
      else case tracking of None \<Rightarrow> False | Some t \<Rightarrow> is_post_burn t)"
| "post_burn_failure tracking (usdc_rebalance_event.DepositFailed _ _ _) = True"
| "post_burn_failure tracking (usdc_rebalance_event.ConversionFailed _ _) =
     (case tracking of None \<Rightarrow> True | Some t \<Rightarrow> is_post_burn t)"
| "post_burn_failure tracking (usdc_rebalance_event.WithdrawalFailed _ _) =
     (case tracking of None \<Rightarrow> False | Some t \<Rightarrow> is_post_burn t)"
| "post_burn_failure tracking _ = False"

definition usdc_terminal_action ::
  "'f usdc_service \<Rightarrow> usdc_rebalance_id \<Rightarrow> 'f usdc_rebalance_event \<Rightarrow> usdc_terminal_decision" where
  "usdc_terminal_action S i event =
     (if \<not> is_terminal_usdc_rebalance_event event then NotTerminal
      else if post_burn_failure (get_tracking S i) event then PreservePostBurn
      else Clear)"

definition upsert_conversion_tracking ::
  "usdc_rebalance_id \<Rightarrow> rebalance_direction \<Rightarrow> 'f usdc \<Rightarrow> 'f usdc_rebalance_event \<Rightarrow> 'f usdc_service \<Rightarrow>
   'f usdc_service" where
  "upsert_conversion_tracking i direction amount event S = (case stage_from_event event of
     None \<Rightarrow> S
   | Some stage \<Rightarrow> (case stage_timestamp stage event of
       None \<Rightarrow> S
     | Some last_progress_at \<Rightarrow>
         put_tracking i (case get_tracking S i of
             Some existing \<Rightarrow>
               let turned = existing\<lparr>ut_direction := direction\<rparr> in
               (if \<not> source_transfer_started turned then turned\<lparr>ut_initiated_amount := amount\<rparr> else turned)
                 \<lparr>ut_stage := stage, ut_last_progress_at := last_progress_at\<rparr>
           | None \<Rightarrow> \<lparr>ut_direction = direction, ut_initiated_amount = amount,
               ut_bridged_amount_received = None, ut_stage = stage,
               ut_last_progress_at = last_progress_at\<rparr>) S))"

definition start_usdc_transfer ::
  "'f float_ops \<Rightarrow> timestamp \<Rightarrow> usdc_rebalance_id \<Rightarrow> 'f usdc_rebalance_tracking \<Rightarrow> ('f, unit) usdc_op" where
  "start_usdc_transfer F now i entry =
     seqw (modify_inventory (update_usdc
         (transfer (usdc_amount F) (source_venue (ut_direction entry)) Start (ut_initiated_amount entry)) now))
       (\<lambda>_ S. (Inr (), put_tracking i entry S))"

definition track_initiated_usdc_rebalance ::
  "'f float_ops \<Rightarrow> timestamp \<Rightarrow> usdc_rebalance_id \<Rightarrow> rebalance_direction \<Rightarrow> 'f usdc \<Rightarrow>
   'f usdc_rebalance_event \<Rightarrow> ('f, unit) usdc_op" where
  "track_initiated_usdc_rebalance F now i direction amount event S =
     (case Option.bind (stage_from_event event) (\<lambda>stage.
             map_option (Pair stage) (stage_timestamp stage event)) of
        None \<Rightarrow> (Inl (MissingUsdcTrackingContext i TrackInitiated), S)
      | Some (stage, last_progress_at) \<Rightarrow>
          let entry = (\<lambda>bridged. \<lparr>ut_direction = direction, ut_initiated_amount = amount,
                ut_bridged_amount_received = bridged, ut_stage = stage,
                ut_last_progress_at = last_progress_at\<rparr>)
          in case get_tracking S i of
               Some existing \<Rightarrow>
                 if source_transfer_started existing
                 then (Inr (), put_tracking i (entry (ut_bridged_amount_received existing)) S)
                 else start_usdc_transfer F now i (entry (ut_bridged_amount_received existing)) S
             | None \<Rightarrow> start_usdc_transfer F now i (entry None) S)"

definition track_usdc_stage_progress ::
  "usdc_rebalance_id \<Rightarrow> 'f usdc_rebalance_event \<Rightarrow> 'f usdc_service \<Rightarrow> 'f usdc_service" where
  "track_usdc_stage_progress i event S = (case get_tracking S i of
     None \<Rightarrow> S
   | Some existing \<Rightarrow> put_tracking i (track_progress event existing) S)"

definition track_bridged_amount ::
  "usdc_rebalance_id \<Rightarrow> 'f usdc \<Rightarrow> 'f usdc_service \<Rightarrow> 'f usdc_service" where
  "track_bridged_amount i amount_received S = (case get_tracking S i of
     None \<Rightarrow> S
   | Some existing \<Rightarrow> put_tracking i (existing\<lparr>ut_bridged_amount_received := Some amount_received\<rparr>) S)"

text \<open>
  The common tail of settling and cancelling: an in-flight underflow is answered by zeroing the
  source in-flight and leaving the balances to the next snapshot.
\<close>

definition settle_or_defer ::
  "'f float_ops \<Rightarrow> timestamp \<Rightarrow> venue \<Rightarrow> ('f usdc inventory \<Rightarrow> 'f usdc inventory_error + 'f usdc inventory) \<Rightarrow>
   ('f, usdc_settlement_outcome) usdc_op" where
  "settle_or_defer F now venue update S =
     (case update_usdc (\<lambda>iv. tryr (update iv) (with_last_rebalancing now)) now (us_inventory S) of
        Inr view \<Rightarrow> (Inr SettledReconciled, S\<lparr>us_inventory := view\<rparr>)
      | Inl (ViewUsdc (InsufficientInflight _ _)) \<Rightarrow>
          seqw (modify_inventory (clear_usdc_inflight F venue now)) (\<lambda>_. retw DeferredToSnapshot) S
      | Inl error \<Rightarrow> (Inl (ServiceInventory error), S))"

definition cancel_tracked_usdc_rebalance ::
  "'f float_ops \<Rightarrow> timestamp \<Rightarrow> usdc_rebalance_id \<Rightarrow> ('f, usdc_settlement_outcome) usdc_op" where
  "cancel_tracked_usdc_rebalance F now i S = (case get_tracking S i of
     None \<Rightarrow> (Inr SettledReconciled, S)
   | Some tracking \<Rightarrow>
       if \<not> source_transfer_started tracking then (Inr SettledReconciled, S)
       else settle_or_defer F now (source_venue (ut_direction tracking))
         (transfer (usdc_amount F) (source_venue (ut_direction tracking)) Cancel
           (ut_initiated_amount tracking)) S)"

definition complete_usdc_rebalance ::
  "'f float_ops \<Rightarrow> timestamp \<Rightarrow> usdc_rebalance_id \<Rightarrow> usdc_tracking_event \<Rightarrow> 'f usdc \<Rightarrow>
   ('f, usdc_settlement_outcome) usdc_op" where
  "complete_usdc_rebalance F now i event settled_amount S = (case get_tracking S i of
     None \<Rightarrow> (Inr DeferredToSnapshot, S)
   | Some tracking \<Rightarrow>
       (case fl_gt F (usdc_inner settled_amount) (usdc_inner (ut_initiated_amount tracking)) of
          Inl error \<Rightarrow> (Inl (ServiceFloat error), S)
        | Inr True \<Rightarrow> (Inl (SettledUsdcExceedsInitiatedAmount i event (ut_initiated_amount tracking)
            settled_amount), S)
        | Inr False \<Rightarrow> settle_or_defer F now (source_venue (ut_direction tracking))
            (settle_transfer (usdc_amount F) (source_venue (ut_direction tracking))
              (ut_initiated_amount tracking) settled_amount) S))"

definition complete_alpaca_to_base_deposit ::
  "'f float_ops \<Rightarrow> timestamp \<Rightarrow> usdc_rebalance_id \<Rightarrow> ('f, usdc_settlement_outcome) usdc_op" where
  "complete_alpaca_to_base_deposit F now i S = (case get_tracking S i of
     None \<Rightarrow> (Inr DeferredToSnapshot, S)
   | Some tracking \<Rightarrow> (case ut_bridged_amount_received tracking of
       None \<Rightarrow> (Inl (MissingUsdcBridgedAmount i), S)
     | Some amount_received \<Rightarrow>
         complete_usdc_rebalance F now i TrackDepositConfirmed amount_received S))"

definition reconcile_operator_resolved ::
  "'f float_ops \<Rightarrow> rebalance_direction \<Rightarrow> timestamp \<Rightarrow> ('f, unit) usdc_op" where
  "reconcile_operator_resolved F direction now =
     modify_inventory (clear_usdc_inflight F (source_venue direction) now)"

definition fail_usdc_rebalance ::
  "'f float_ops \<Rightarrow> timestamp \<Rightarrow> usdc_rebalance_id \<Rightarrow> usdc_terminal_decision \<Rightarrow>
   ('f, usdc_settlement_outcome) usdc_op" where
  "fail_usdc_rebalance F now i terminal_action S =
     (if terminal_action = PreservePostBurn then (Inr SettledReconciled, S)
      else cancel_tracked_usdc_rebalance F now i S)"

fun apply_usdc_rebalance_event ::
  "'f float_ops \<Rightarrow> timestamp \<Rightarrow> usdc_rebalance_id \<Rightarrow> 'f usdc_rebalance_event \<Rightarrow> usdc_terminal_decision \<Rightarrow>
   ('f, usdc_settlement_outcome) usdc_op" where
  "apply_usdc_rebalance_event F now i (ConversionInitiated direction amount oid t) action S =
     (Inr SettledReconciled,
      upsert_conversion_tracking i direction amount (ConversionInitiated direction amount oid t) S)"
| "apply_usdc_rebalance_event F now i (Initiated direction amount w t) action S =
     seqw (track_initiated_usdc_rebalance F now i direction amount (Initiated direction amount w t))
       (\<lambda>_. retw SettledReconciled) S"
| "apply_usdc_rebalance_event F now i (usdc_rebalance_event.Bridged m amount_received fee t) action S =
     (Inr SettledReconciled, track_usdc_stage_progress i
       (usdc_rebalance_event.Bridged m amount_received fee t) (track_bridged_amount i amount_received S))"
| "apply_usdc_rebalance_event F now i (BridgingCompletionRecovered m amount_received fee t) action S =
     (Inr SettledReconciled, track_usdc_stage_progress i
       (BridgingCompletionRecovered m amount_received fee t) (track_bridged_amount i amount_received S))"
| "apply_usdc_rebalance_event F now i (ConversionConfirmed BaseToAlpaca conversion t) action S =
     complete_usdc_rebalance F now i TrackConversionConfirmed (received_amount conversion) S"
| "apply_usdc_rebalance_event F now i (usdc_rebalance_event.DepositConfirmed AlpacaToBase t) action S =
     complete_alpaca_to_base_deposit F now i S"
| "apply_usdc_rebalance_event F now i (usdc_rebalance_event.WithdrawalSubmitting _ _ _ _) action S =
     (Inr SettledReconciled, S)"
| "apply_usdc_rebalance_event F now i (usdc_rebalance_event.BridgingSubmitting _ _ _) action S =
     (Inr SettledReconciled, S)"
| "apply_usdc_rebalance_event F now i (PendingBurnRecorded _ _) action S = (Inr SettledReconciled, S)"
| "apply_usdc_rebalance_event F now i (PendingBurnCleared _) action S = (Inr SettledReconciled, S)"
| "apply_usdc_rebalance_event F now i (AttestationTimedOut _ _ _) action S = (Inr SettledReconciled, S)"
| "apply_usdc_rebalance_event F now i (usdc_rebalance_event.WithdrawalFailed _ _) action S =
     cancel_tracked_usdc_rebalance F now i S"
| "apply_usdc_rebalance_event F now i (usdc_rebalance_event.BridgingFailed _ _ _ _) action S =
     fail_usdc_rebalance F now i action S"
| "apply_usdc_rebalance_event F now i (usdc_rebalance_event.DepositFailed _ _ _) action S =
     fail_usdc_rebalance F now i action S"
| "apply_usdc_rebalance_event F now i (usdc_rebalance_event.ConversionFailed _ _) action S =
     fail_usdc_rebalance F now i action S"
| "apply_usdc_rebalance_event F now i (OperatorReconciled direction _ _ _ _) action S =
     seqw (reconcile_operator_resolved F direction now) (\<lambda>_. retw DeferredToSnapshot) S"
| "apply_usdc_rebalance_event F now i event action S =
     (Inr SettledReconciled, track_usdc_stage_progress i event S)"

fun rebalance_uuid :: "usdc_rebalance_id \<Rightarrow> uuid" where
  "rebalance_uuid (UsdcRebalanceId u) = u"

definition on_usdc_rebalance ::
  "'f float_ops \<Rightarrow> timestamp \<Rightarrow> usdc_rebalance_id \<Rightarrow> 'f usdc_rebalance_event \<Rightarrow> ('f, unit) usdc_op" where
  "on_usdc_rebalance F now i event S =
     (if us_timed_out S i \<noteq> None then (Inr (), S)
      else let action = usdc_terminal_action S i event in
      seqw (apply_usdc_rebalance_event F now i event action) (\<lambda>outcome S1.
        if action = Clear then
          (Inr (), (remove_tracking i S1)\<lparr>
             us_inventory := clear_active_usdc_rebalance (us_inventory S1), us_in_progress := False,
             us_outbox := us_outbox S1 @ [CancelPendingEquityChecks, CancelPendingUsdcChecks] @
               (case outcome of SettledReconciled \<Rightarrow> [EnqueueUsdcCheck] | DeferredToSnapshot \<Rightarrow> [])\<rparr>)
        else
          (Inr (), S1\<lparr>us_inventory := set_active_usdc_rebalance (rebalance_uuid i) (us_inventory S1),
             us_in_progress := (us_in_progress S1 \<or> action = PreservePostBurn)\<rparr>)) S)"

section \<open>What the sizing guarantees\<close>

text \<open>
  The documented behaviour of the fixed-point conversions: the lossy one truncates, the other is
  exact.
\<close>

definition fixed_decimal_sem :: "'f float_ops \<Rightarrow> ('f \<Rightarrow> rat) \<Rightarrow> bool" where
  "fixed_decimal_sem F v \<longleftrightarrow>
     (\<forall>a d n lossless. fl_to_fixed_decimal_lossy F a d = Inr (n, lossless) \<longrightarrow> uint n = \<lfloor>v a * 10 ^ d\<rfloor>) \<and>
     (\<forall>n d c. fl_from_fixed_decimal F n d = Inr c \<longrightarrow> v c = of_int (uint n) / 10 ^ d)"

lemma uint_of_floor: "0 \<le> x \<Longrightarrow> \<lfloor>x\<rfloor> < 2 ^ 256 \<Longrightarrow> uint (of_int \<lfloor>x :: rat\<rfloor> :: u256) = \<lfloor>x\<rfloor>"
  by (simp add: uint_word_of_int)

lemma bounded_rat_fixed: "fixed_decimal_sem (bounded_rat b) (\<lambda>x. x)"
proof -
  have "uint (of_int \<lfloor>a * 10 ^ d\<rfloor> :: u256) = \<lfloor>a * 10 ^ d\<rfloor>"
    if "0 \<le> a" "\<lfloor>a * 10 ^ d\<rfloor> < 2 ^ 256" for a :: rat and d :: nat
    using that by (intro uint_of_floor) simp_all
  then show ?thesis by (auto simp: fixed_decimal_sem_def bounded_rat_def in_bound_def split: if_splits)
qed

text \<open>\<open>micros v a\<close>: the value is a whole number of millionths, and not negative.\<close>

definition micros :: "('f \<Rightarrow> rat) \<Rightarrow> 'f usdc \<Rightarrow> bool" where
  "micros v a \<longleftrightarrow> (\<exists>n::nat. v (usdc_inner a) = of_nat n / 10 ^ 6)"

lemma truncate_for_transfer_value:
  assumes "fixed_decimal_sem F v" and "truncate_for_transfer F a = Inr b"
  shows "micros v b \<and> v (usdc_inner b) \<le> v (usdc_inner a) \<and>
    v (usdc_inner a) < v (usdc_inner b) + 1 / 10 ^ 6"
proof -
  from assms(2) obtain n lossless c where n: "fl_to_fixed_decimal_lossy F (usdc_inner a) 6 = Inr (n, lossless)"
    and c: "fl_from_fixed_decimal F n 6 = Inr c" and b: "b = Usdc c"
    by (auto simp: truncate_for_transfer_def USDC_TRANSFER_MAX_DECIMAL_PLACES_def)
  from n assms(1) have u: "uint n = \<lfloor>v (usdc_inner a) * 10 ^ 6\<rfloor>"
    unfolding fixed_decimal_sem_def by blast
  from c assms(1) have v: "v c = of_int (uint n) / 10 ^ 6"
    unfolding fixed_decimal_sem_def by blast
  have "of_int (uint n) \<le> v (usdc_inner a) * 10 ^ 6" "v (usdc_inner a) * 10 ^ 6 < of_int (uint n) + 1"
    unfolding u by linarith+
  then have "v c \<le> v (usdc_inner a) \<and> v (usdc_inner a) < v c + 1 / 10 ^ 6"
    by (simp add: v field_simps)
  moreover have "\<exists>m::nat. v c = of_nat m / 10 ^ 6"
    by (rule exI [of _ "unat n"]) (simp add: v)
  ultimately show ?thesis by (simp add: b micros_def)
qed

lemma cap_usdc_value:
  assumes "float_sem F v" and "\<And>a b. is_ok (fl_gt F a b)"
  shows "v (usdc_inner (cap_usdc F a usdc_limit)) \<le> v (usdc_inner a) \<and>
    (\<forall>cap. usdc_limit = Some cap \<longrightarrow> v (usdc_inner (cap_usdc F a usdc_limit)) \<le> v (usdc_inner cap))"
proof (cases usdc_limit)
  case (Some cap)
  obtain x where x: "fl_gt F (usdc_inner a) (usdc_inner cap) = Inr x"
    using assms(2) is_ok_iff by metis
  with float_sem_gt [OF assms(1) x] Some show ?thesis by (auto simp: cap_usdc_def)
qed (simp add: cap_usdc_def)

lemma cap_capacity_value:
  assumes "float_sem F v" and "cap_usdc_by_alpaca_capacity F a c = Inr b"
  shows "v (usdc_inner b) \<le> v (usdc_inner a) \<and> v (usdc_inner b) \<le> v (usdc_inner c)"
  using assms float_sem_gt [OF assms(1)] by (fastforce simp: cap_usdc_by_alpaca_capacity_def)

lemma size_alpaca_to_base_Inr:
  assumes "size_alpaca_to_base F minimum usdc_limit reserved excess capacity = Inr op"
  obtains c b a where "capacity = Some c" "op = OpAlpacaToBase a"
    "cap_usdc_by_alpaca_capacity F (cap_usdc F excess usdc_limit) c = Inr b"
    "truncate_for_transfer F b = Inr a" "fl_lt F (usdc_inner a) (usdc_inner minimum) = Inr False"
  using assms by (auto simp: size_alpaca_to_base_def split: option.splits if_splits)

lemma size_base_to_alpaca_Inr:
  assumes "size_base_to_alpaca F usdc_limit excess = Inr op"
  obtains a where "op = OpBaseToAlpaca a" "truncate_for_transfer F (cap_usdc F excess usdc_limit) = Inr a"
    "fl_is_zero F (usdc_inner a) = Inr False"
  using assms by (auto simp: size_base_to_alpaca_def split: if_splits)



text \<open>600 onchain against 1000 in gross cash, of which 400 are withdrawable.\<close>

definition demo_sizing_view :: "rat inventory_view" where
  "demo_sizing_view = demo_cash_view\<lparr>withdrawable_cash_cents := Some 40000\<rparr>"

lemma demo_sizing:
  "check_imbalance_and_build_operation (bounded_rat 1000000) (Usdc 51)
     \<lparr>it_target = 1 / 2, it_deviation = 1 / 20\<rparr> demo_sizing_view (Some (Usdc 120)) (Some (Usd 150)) =
   Inr (OpAlpacaToBase (Usdc 120))"
proof -
  let ?F = "bounded_rat 1000000"
  have "usdc_from_cents ?F 100000 = Some (Usdc 1000)" "usdc_from_cents ?F 40000 = Some (Usdc 400)"
    by (simp_all add: usdc_from_cents_def bounded_rat_def in_bound_def)
  then have "check_usdc_imbalance_with_gross_offchain ?F demo_sizing_view
      \<lparr>it_target = 1 / 2, it_deviation = 1 / 20\<rparr> (Some (Usd 150)) = Inr (Some (TooMuchOffchain (Usdc 200)))"
    and "alpaca_to_base_usdc_capacity ?F demo_sizing_view (Some (Usd 150)) = Inr (Some (Usdc 250))"
    by (simp_all add: check_usdc_imbalance_with_gross_offchain_def alpaca_to_base_usdc_capacity_def
        demo_sizing_view_def demo_cash_view_def demo_inventory_def demo_balance_def inventory_view_default_def
        venue_has_inflight_def venue_total_def usdc_add_def usdc_sub_def usdc_mul_def bounded_rat_def in_bound_def)
  then show ?thesis
    by (simp add: check_imbalance_and_build_operation_def size_alpaca_to_base_def cap_usdc_def
        cap_usdc_by_alpaca_capacity_def truncate_for_transfer_def USDC_TRANSFER_MAX_DECIMAL_PLACES_def
        bounded_rat_def in_bound_def)
qed


end
