(* ===== verification/Usdc_Guard.thy ===== *)
theory Usdc_Guard
  imports Usdc_Trigger
begin

text \<open>
  The single-rebalance guard of \<^verbatim>\<open>src/rebalancing/trigger/mod.rs\<close>: the queries over the jobs table, the
  timeout sweep, the recovery of the guard at startup, and the check that claims the guard and
  enqueues a transfer.
\<close>

section \<open>The jobs table\<close>

text \<open>
  What the operations below ask of code and services outside the module: the timeout of the
  configuration, the decoding of job payloads, the failures of queries and pushes, the attached
  aggregate store, the delivery of alerts, and the row a push inserts. \<open>ue_workers n\<close> is
  what the job workers do to the table before the \<open>n\<close>-th statement of a lookup, and
  \<open>ue_sql n\<close> is the failure of that statement.
\<close>

record 'f usdc_env =
  ue_timeout :: int
  ue_unix_now :: int
  ue_parse_job :: "string \<Rightarrow> string + usdc_rebalance_id"
  ue_row :: "job_type \<Rightarrow> usdc_rebalance_id \<Rightarrow> 'f usdc \<Rightarrow> job_row"
  ue_probe :: "usdc_rebalance_id \<Rightarrow> string option"
  ue_push :: "usdc_rebalance_id \<Rightarrow> string option"
  ue_load :: "(usdc_rebalance_id \<Rightarrow> string + 'f usdc_rebalance option) option"
  ue_notify :: "usdc_effect \<Rightarrow> bool"
  ue_equity_sweeps :: "timestamp \<Rightarrow> string option"
  ue_workers :: "nat \<Rightarrow> job_row list \<Rightarrow> job_row list"
  ue_sql :: "nat \<Rightarrow> string option"

definition is_usdc_transfer :: "job_row \<Rightarrow> bool" where
  "is_usdc_transfer row \<longleftrightarrow> jr_type row \<in> {TransferUsdcToHedging, TransferUsdcToMarketMaking}"

definition is_retryable :: "job_row \<Rightarrow> bool" where
  "is_retryable row \<longleftrightarrow> jr_status row = JobFailed \<and> jr_attempts row < jr_max_attempts row"

definition is_live_row :: "job_row \<Rightarrow> bool" where
  "is_live_row row \<longleftrightarrow> jr_status row \<in> {JobPending, JobQueued, JobRunning} \<or> is_retryable row"

fun job_for_id :: "(string \<Rightarrow> string + usdc_rebalance_id) \<Rightarrow> usdc_rebalance_id \<Rightarrow> job_row list \<Rightarrow> string + bool" where
  "job_for_id parse i [] = Inr False"
| "job_for_id parse i (row # rows) =
     tryr (parse (jr_payload row)) (\<lambda>j. if j = i then Inr True else job_for_id parse i rows)"

definition transfer_has_job_row_for_id ::
  "'f usdc_env \<Rightarrow> 'f usdc_service \<Rightarrow> usdc_rebalance_id \<Rightarrow> string + bool" where
  "transfer_has_job_row_for_id E S i = (case ue_probe E i of
     Some error \<Rightarrow> Inl error
   | None \<Rightarrow> job_for_id (ue_parse_job E) i (filter is_usdc_transfer (us_jobs S)))"

definition transfer_live_job_for_id ::
  "'f usdc_env \<Rightarrow> 'f usdc_service \<Rightarrow> usdc_rebalance_id \<Rightarrow> string + bool" where
  "transfer_live_job_for_id E S i = (case ue_probe E i of
     Some error \<Rightarrow> Inl error
   | None \<Rightarrow> job_for_id (ue_parse_job E) i
       (filter (\<lambda>row. is_usdc_transfer row \<and> is_live_row row) (us_jobs S)))"

definition push_transfer ::
  "'f usdc_env \<Rightarrow> job_type \<Rightarrow> usdc_rebalance_id \<Rightarrow> 'f usdc \<Rightarrow> ('f, unit) usdc_op" where
  "push_transfer E job i amount S = (case ue_push E i of
     Some error \<Rightarrow> (Inl (RearmEnqueue error), S)
   | None \<Rightarrow> (Inr (), S\<lparr>us_jobs := us_jobs S @ [ue_row E job i amount]\<rparr>))"

section \<open>The timeout sweep\<close>

definition elapsed_since_timeout_start :: "timestamp \<Rightarrow> timestamp \<Rightarrow> int option" where
  "elapsed_since_timeout_start last_progress_at now =
     (if last_progress_at \<le> now then Some (now - last_progress_at) else None)"

definition TIMEOUT_TOMBSTONE_RETENTION :: int where
  "TIMEOUT_TOMBSTONE_RETENTION = 24 * 60 * 60"

definition timeout_marker_expired :: "timestamp \<Rightarrow> timestamp \<Rightarrow> bool" where
  "timeout_marker_expired marked_at now = (case elapsed_since_timeout_start marked_at now of
     None \<Rightarrow> False | Some elapsed \<Rightarrow> TIMEOUT_TOMBSTONE_RETENTION < elapsed)"

definition prune_timeout_markers :: "timestamp \<Rightarrow> 'f usdc_service \<Rightarrow> 'f usdc_service" where
  "prune_timeout_markers now S = S\<lparr>us_timed_out := (\<lambda>i. case us_timed_out S i of
     None \<Rightarrow> None | Some marked_at \<Rightarrow> if timeout_marker_expired marked_at now then None else Some marked_at)\<rparr>"

datatype 'f usdc_timeout_cleanup =
    Cleared "'f usdc_rebalance_tracking" int
  | PreservedPostBurn "'f usdc_rebalance_tracking" int
  | ReArmAlpacaToBaseWithdrawal "'f usdc_rebalance_tracking" int "'f usdc"

definition drop_timed_out ::
  "timestamp \<Rightarrow> usdc_rebalance_id \<Rightarrow> 'f inventory_view \<Rightarrow> 'f usdc_service \<Rightarrow> 'f usdc_service" where
  "drop_timed_out now i view S =
     (remove_tracking i S)\<lparr>us_inventory := view, us_timed_out := (us_timed_out S)(i \<mapsto> now)\<rparr>"

definition release_inflight ::
  "'f float_ops \<Rightarrow> timestamp \<Rightarrow> 'f usdc_rebalance_tracking \<Rightarrow> 'f inventory_view \<Rightarrow>
   'f inventory_view_error + 'f inventory_view" where
  "release_inflight F now t view =
     map_ok clear_active_usdc_rebalance (clear_usdc_inflight F (source_venue (ut_direction t)) now view)"

fun is_reconciled :: "'f usdc_rebalance \<Rightarrow> bool" where
  "is_reconciled (Reconciled _ _ _ _ _ _) = True"
| "is_reconciled _ = False"

fun alpaca_withdrawal :: "'f usdc_rebalance \<Rightarrow> 'f usdc option" where
  "alpaca_withdrawal (Withdrawing AlpacaToBase amount _ _) = Some amount"
| "alpaca_withdrawal (WithdrawalComplete AlpacaToBase amount _ _ _) = Some amount"
| "alpaca_withdrawal _ = None"

definition cleanup_post_burn ::
  "'f float_ops \<Rightarrow> 'f usdc_env \<Rightarrow> timestamp \<Rightarrow> usdc_rebalance_id \<Rightarrow> 'f usdc_rebalance_tracking \<Rightarrow> int \<Rightarrow>
   ('f, 'f usdc_timeout_cleanup option) usdc_op" where
  "cleanup_post_burn F E now i t elapsed S =
     (let gate = (Inr (if elapsed < ue_timeout E then None else Some (PreservedPostBurn t elapsed)), S) in
      case ue_load E of
        None \<Rightarrow> gate
      | Some load \<Rightarrow> (case load i of
          Inl _ \<Rightarrow> (Inr (Some (PreservedPostBurn t elapsed)), S)
        | Inr None \<Rightarrow> gate
        | Inr (Some s) \<Rightarrow>
            if \<not> is_reconciled s then gate
            else (case release_inflight F now t (us_inventory S) of
              Inl error \<Rightarrow> (Inl (ServiceInventory error), put_tracking i t (remove_tracking i S))
            | Inr view \<Rightarrow> (Inr (Some (Cleared t elapsed)), drop_timed_out now i view S))))"

definition cleanup_pre_burn ::
  "'f float_ops \<Rightarrow> 'f usdc_env \<Rightarrow> timestamp \<Rightarrow> usdc_rebalance_id \<Rightarrow> 'f usdc_rebalance_tracking \<Rightarrow> int \<Rightarrow>
   ('f, 'f usdc_timeout_cleanup option) usdc_op" where
  "cleanup_pre_burn F E now i t elapsed S =
     (let clear = (case release_inflight F now t (us_inventory S) of
            Inl error \<Rightarrow> (Inl (ServiceInventory error), S)
          | Inr view \<Rightarrow> (Inr (Some (Cleared t elapsed)), drop_timed_out now i view S)) in
      if elapsed < ue_timeout E then (Inr None, S)
      else case ue_load E of
        None \<Rightarrow> clear
      | Some load \<Rightarrow> (case load i of
          Inl _ \<Rightarrow> (Inr None, S)
        | Inr None \<Rightarrow> clear
        | Inr (Some s) \<Rightarrow> (case alpaca_withdrawal s of
            Some amount \<Rightarrow> (Inr (Some (ReArmAlpacaToBaseWithdrawal t elapsed amount)), S)
          | None \<Rightarrow> clear)))"

definition cleanup_timed_out_usdc_rebalance ::
  "'f float_ops \<Rightarrow> 'f usdc_env \<Rightarrow> timestamp \<Rightarrow> usdc_rebalance_id \<Rightarrow>
   ('f, 'f usdc_timeout_cleanup option) usdc_op" where
  "cleanup_timed_out_usdc_rebalance F E now i S = (case get_tracking S i of
     None \<Rightarrow> (Inr None, S)
   | Some t \<Rightarrow> (case elapsed_since_timeout_start (ut_last_progress_at t) now of
       None \<Rightarrow> (Inr None, S)
     | Some elapsed \<Rightarrow>
         if is_post_burn t then cleanup_post_burn F E now i t elapsed S
         else cleanup_pre_burn F E now i t elapsed S))"

definition preserve_post_burn ::
  "'f usdc_env \<Rightarrow> usdc_rebalance_id \<Rightarrow> 'f usdc_rebalance_tracking \<Rightarrow> int \<Rightarrow> 'f usdc_service \<Rightarrow> 'f usdc_service" where
  "preserve_post_burn E i t elapsed S =
     (let S1 = S\<lparr>us_in_progress := True, us_logged := insert i (us_logged S)\<rparr>;
          alert = StallAlert i (ut_stage t) elapsed
      in if i \<notin> us_alerted S1 \<and> ue_notify E alert
         then S1\<lparr>us_alerted := insert i (us_alerted S1), us_outbox := us_outbox S1 @ [alert]\<rparr>
         else S1)"

fun finish_cleanup ::
  "'f usdc_env \<Rightarrow> usdc_rebalance_id \<Rightarrow> 'f usdc_timeout_cleanup option \<Rightarrow> ('f, unit) usdc_op" where
  "finish_cleanup E i None S = (Inr (), S)"
| "finish_cleanup E i (Some (Cleared t elapsed)) S = (Inr (), S\<lparr>us_in_progress := False\<rparr>)"
| "finish_cleanup E i (Some (PreservedPostBurn t elapsed)) S = (Inr (), preserve_post_burn E i t elapsed S)"
| "finish_cleanup E i (Some (ReArmAlpacaToBaseWithdrawal t elapsed amount)) S =
     seqw (push_transfer E TransferUsdcToMarketMaking i amount)
       (\<lambda>_ S1. (Inr (), S1\<lparr>us_in_progress := True\<rparr>)) S"

text \<open>A live row, and a failed lookup of one, leave the rebalance to its job.\<close>

definition expire_one :: "'f float_ops \<Rightarrow> 'f usdc_env \<Rightarrow> timestamp \<Rightarrow> usdc_rebalance_id \<Rightarrow> ('f, unit) usdc_op" where
  "expire_one F E now i S = (case transfer_live_job_for_id E S i of
     Inl _ \<Rightarrow> (Inr (), S)
   | Inr True \<Rightarrow> (Inr (), S)
   | Inr False \<Rightarrow> seqw (cleanup_timed_out_usdc_rebalance F E now i) (finish_cleanup E i) S)"

fun expire_each :: "'f float_ops \<Rightarrow> 'f usdc_env \<Rightarrow> timestamp \<Rightarrow> usdc_rebalance_id list \<Rightarrow> ('f, unit) usdc_op" where
  "expire_each F E now [] S = (Inr (), S)"
| "expire_each F E now (i # is) S = seqw (expire_one F E now i) (\<lambda>_. expire_each F E now is) S"

definition expiry_candidates :: "'f usdc_env \<Rightarrow> timestamp \<Rightarrow> 'f usdc_service \<Rightarrow> usdc_rebalance_id list" where
  "expiry_candidates E now S = map fst (filter (\<lambda>(i, t).
     case elapsed_since_timeout_start (ut_last_progress_at t) now of
       None \<Rightarrow> False | Some elapsed \<Rightarrow> is_post_burn t \<or> ue_timeout E \<le> elapsed) (us_tracking S))"

definition expire_stuck_usdc_rebalances :: "'f float_ops \<Rightarrow> 'f usdc_env \<Rightarrow> timestamp \<Rightarrow> ('f, unit) usdc_op" where
  "expire_stuck_usdc_rebalances F E now S = expire_each F E now (expiry_candidates E now S) S"

text \<open>The equity sweeps run first; they do not touch this state, but their error ends the tick.\<close>

definition expire_stuck_operations :: "'f float_ops \<Rightarrow> 'f usdc_env \<Rightarrow> timestamp \<Rightarrow> ('f, unit) usdc_op" where
  "expire_stuck_operations F E now S =
     (let S1 = prune_timeout_markers now S in
      case ue_equity_sweeps E now of
        Some error \<Rightarrow> (Inl (EquitySweep error), S1)
      | None \<Rightarrow> expire_stuck_usdc_rebalances F E now S1)"

section \<open>Recovery at startup\<close>

datatype rearm_policy = RecoverableFailure | PostBurnResumable | MidFlightPreBurn | AlpacaToBaseIdempotentRedrive

record 'f rearm_candidate =
  rc_id :: usdc_rebalance_id
  rc_direction :: rebalance_direction
  rc_amount :: "'f usdc"
  rc_policy :: rearm_policy

text \<open>\<open>None\<close> is the \<^verbatim>\<open>unreachable!\<close> arm.\<close>

fun post_burn_policy :: "'f usdc_rebalance \<Rightarrow> rearm_policy option" where
  "post_burn_policy (BridgingFailed BaseToAlpaca _ (Some _) _ _ _ _) = Some RecoverableFailure"
| "post_burn_policy (Bridging _ _ _ _ _) = Some PostBurnResumable"
| "post_burn_policy (AwaitingAttestation _ _ _ _ _ _) = Some PostBurnResumable"
| "post_burn_policy (Attested _ _ _ _ _ _ _ _ _) = Some PostBurnResumable"
| "post_burn_policy _ = None"

fun mid_flight_policy :: "'f usdc_rebalance \<Rightarrow> rearm_policy option" where
  "mid_flight_policy (Withdrawing AlpacaToBase _ _ _) = Some AlpacaToBaseIdempotentRedrive"
| "mid_flight_policy (WithdrawalComplete AlpacaToBase _ _ _ _) = Some AlpacaToBaseIdempotentRedrive"
| "mid_flight_policy (WithdrawalSubmitting BaseToAlpaca _ _ _) = Some MidFlightPreBurn"
| "mid_flight_policy (BridgingSubmitting _ _ _ _ _ _) = Some MidFlightPreBurn"
| "mid_flight_policy _ = None"

record 'f guard_recovery =
  gr_held :: "usdc_rebalance_id list"
  gr_tracking :: "(usdc_rebalance_id \<times> 'f usdc_rebalance_tracking) list"
  gr_stranded :: "usdc_rebalance_id list"
  gr_unresolved :: "usdc_rebalance_id list"
  gr_rearm :: "'f rearm_candidate list"

definition note_held ::
  "usdc_rebalance_id \<Rightarrow> 'f usdc_rebalance \<Rightarrow> 'f guard_recovery \<Rightarrow> 'f guard_recovery" where
  "note_held i s acc =
     (if \<not> holds_rebalance_guard s then acc
      else let acc1 = acc\<lparr>gr_held := gr_held acc @ [i]\<rparr> in
        case guard_recovery_tracking_data s of
          None \<Rightarrow> acc1
        | Some (direction, amount, last_progress_at) \<Rightarrow>
            acc1\<lparr>gr_tracking := gr_tracking acc1 @ [(i, \<lparr>ut_direction = direction,
              ut_initiated_amount = amount, ut_bridged_amount_received = None,
              ut_stage = StageBridgingInitiated, ut_last_progress_at = last_progress_at\<rparr>)]\<rparr>)"

definition note_rearm ::
  "usdc_rebalance_id \<Rightarrow> rebalance_direction \<times> 'f usdc \<Rightarrow> rearm_policy option \<Rightarrow> 'f guard_recovery \<Rightarrow>
   'f rebalancing_service_error + 'f guard_recovery" where
  "note_rearm i data policy acc = (case policy of
     None \<Rightarrow> Inl UnreachableReached
   | Some p \<Rightarrow> Inr (acc\<lparr>gr_rearm := gr_rearm acc @
       [\<lparr>rc_id = i, rc_direction = fst data, rc_amount = snd data, rc_policy = p\<rparr>]\<rparr>))"

definition classify_candidate ::
  "'f usdc_env \<Rightarrow> 'f usdc_service \<Rightarrow> usdc_rebalance_id \<Rightarrow> 'f usdc_rebalance \<Rightarrow> 'f guard_recovery \<Rightarrow>
   'f rebalancing_service_error + 'f guard_recovery" where
  "classify_candidate E S i s acc0 =
     (let acc = note_held i s acc0 in
      case resumable_post_burn_transfer s of
        Some data \<Rightarrow> note_rearm i data (post_burn_policy s) acc
      | None \<Rightarrow> (case is_resumable_mid_flight_data s of
          Some data \<Rightarrow> note_rearm i data (mid_flight_policy s) acc
        | None \<Rightarrow>
            if holds_rebalance_guard s \<and> guard_recovery_tracking_data s = None
            then tryr (map_err ApalisSqlx (transfer_live_job_for_id E S i)) (\<lambda>live.
              Inr (if live then acc else acc\<lparr>gr_stranded := gr_stranded acc @ [i]\<rparr>))
            else Inr acc))"

fun classify_candidates ::
  "'f usdc_env \<Rightarrow> 'f usdc_service \<Rightarrow> (usdc_rebalance_id \<Rightarrow> string + 'f usdc_rebalance option) \<Rightarrow>
   usdc_rebalance_id list \<Rightarrow> 'f guard_recovery \<Rightarrow> 'f rebalancing_service_error + 'f guard_recovery" where
  "classify_candidates E S load [] acc = Inr acc"
| "classify_candidates E S load (i # is) acc =
     tryr (case load i of
         Inr (Some s) \<Rightarrow> classify_candidate E S i s acc
       | _ \<Rightarrow> Inr (acc\<lparr>gr_unresolved := gr_unresolved acc @ [i]\<rparr>))
       (classify_candidates E S load is)"

text \<open>Whether a job row blocks the candidate, and whether its redrive budget is exhausted.\<close>

definition rearm_blocked ::
  "'f usdc_env \<Rightarrow> 'f usdc_service \<Rightarrow> 'f rearm_candidate \<Rightarrow> string + bool \<times> bool" where
  "rearm_blocked E S c = (case rc_policy c of
     RecoverableFailure \<Rightarrow> map_ok (\<lambda>live. (live, False)) (transfer_live_job_for_id E S (rc_id c))
   | AlpacaToBaseIdempotentRedrive \<Rightarrow>
       map_ok (\<lambda>live. (live, False)) (transfer_live_job_for_id E S (rc_id c))
   | PostBurnResumable \<Rightarrow> map_ok (\<lambda>row. (row, False)) (transfer_has_job_row_for_id E S (rc_id c))
   | MidFlightPreBurn \<Rightarrow>
       tryr (transfer_live_job_for_id E S (rc_id c)) (\<lambda>live.
       if live then Inr (True, False)
       else map_ok (\<lambda>row. (row, row)) (transfer_has_job_row_for_id E S (rc_id c))))"

fun transfer_job :: "rebalance_direction \<Rightarrow> job_type" where
  "transfer_job BaseToAlpaca = TransferUsdcToHedging"
| "transfer_job AlpacaToBase = TransferUsdcToMarketMaking"

fun rearm_stranded_transfers ::
  "'f usdc_env \<Rightarrow> 'f rearm_candidate list \<Rightarrow> ('f, usdc_rebalance_id list) usdc_op" where
  "rearm_stranded_transfers E [] S = (Inr [], S)"
| "rearm_stranded_transfers E (c # cs) S = (case rearm_blocked E S c of
     Inl error \<Rightarrow> (Inl (ApalisSqlx error), S)
   | Inr (has_row, stranded) \<Rightarrow>
       seqw (if has_row then retw ()
             else push_transfer E (transfer_job (rc_direction c)) (rc_id c) (rc_amount c))
         (\<lambda>_. seqw (rearm_stranded_transfers E cs)
           (\<lambda>rest. retw (if stranded then rc_id c # rest else rest))) S)"

definition empty_recovery :: "'f guard_recovery" where
  "empty_recovery = \<lparr>gr_held = [], gr_tracking = [], gr_stranded = [], gr_unresolved = [], gr_rearm = []\<rparr>"

text \<open>\<open>HashMap::extend\<close>.\<close>

definition extend_tracking ::
  "(usdc_rebalance_id \<times> 'f usdc_rebalance_tracking) list \<Rightarrow> 'f usdc_service \<Rightarrow> 'f usdc_service" where
  "extend_tracking entries S = fold (\<lambda>(i, t). put_tracking i t) entries S"

definition recover_usdc_guard ::
  "'f usdc_env \<Rightarrow> string + interrupted_usdc_rebalances \<Rightarrow>
   (usdc_rebalance_id \<Rightarrow> string + 'f usdc_rebalance option) \<Rightarrow> ('f, unit) usdc_op" where
  "recover_usdc_guard E query load S = (case query of
     Inl error \<Rightarrow> (Inl (ServiceSqlx error), S)
   | Inr interrupted \<Rightarrow> (case classify_candidates E S load (iur_ids interrupted) empty_recovery of
       Inl error \<Rightarrow> (Inl error, S)
     | Inr acc \<Rightarrow>
         seqw (rearm_stranded_transfers E (gr_rearm acc)) (\<lambda>exhausted S1.
           let stranded = gr_stranded acc @ exhausted;
               unparseable = iur_unparseable interrupted;
               alert = LatchedAlert stranded (gr_unresolved acc) unparseable
           in if gr_held acc = [] \<and> gr_unresolved acc = [] \<and> unparseable = [] then (Inr (), S1)
              else let S2 = extend_tracking (gr_tracking acc) (S1\<lparr>us_in_progress := True\<rparr>) in
                (Inr (), if (stranded \<noteq> [] \<or> gr_unresolved acc \<noteq> [] \<or> unparseable \<noteq> []) \<and> ue_notify E alert
                   then S2\<lparr>us_outbox := us_outbox S2 @ [alert]\<rparr> else S2)) S))"


section \<open>Triggering a transfer\<close>

text \<open>\<^verbatim>\<open>ORDER BY run_at ASC LIMIT 1\<close>; rows that ran at the same time are taken in table order.\<close>

fun oldest_row :: "job_row list \<Rightarrow> job_row option" where
  "oldest_row [] = None"
| "oldest_row (row # rows) = (case oldest_row rows of
     None \<Rightarrow> Some row
   | Some other \<Rightarrow> Some (if jr_run_at row \<le> jr_run_at other then row else other))"

definition oldest_live_transfer :: "job_row list \<Rightarrow> job_row option" where
  "oldest_live_transfer rows = oldest_row (filter (\<lambda>row. is_usdc_transfer row \<and> is_live_row row) rows)"

definition is_zombie_target :: "string \<Rightarrow> job_row \<Rightarrow> bool" where
  "is_zombie_target row_id row \<longleftrightarrow> jr_id row = row_id \<and> is_retryable row"

definition kill_zombie_job :: "int \<Rightarrow> string \<Rightarrow> job_row list \<Rightarrow> bool \<times> job_row list" where
  "kill_zombie_job now row_id rows =
     (length (filter (is_zombie_target row_id) rows) = 1,
      map (\<lambda>row. if is_zombie_target row_id row then row\<lparr>jr_status := JobKilled, jr_done_at := Some now\<rparr>
        else row) rows)"

partial_function (option) in_flight_usdc_transfer ::
  "'f usdc_env \<Rightarrow> nat \<Rightarrow> job_row list \<Rightarrow> ((string + (string \<times> int) option) \<times> job_row list) option" where
  "in_flight_usdc_transfer E n rows =
     (let rows1 = ue_workers E n rows in
      case ue_sql E n of Some error \<Rightarrow> Some (Inl error, rows1)
      | None \<Rightarrow> (case oldest_live_transfer rows1 of
          None \<Rightarrow> Some (Inr None, rows1)
        | Some row \<Rightarrow>
            let in_flight = Inr (Some (jr_id row, ue_unix_now E - jr_run_at row)) in
            if jr_status row \<noteq> JobFailed then Some (in_flight, rows1)
            else case ue_load E of None \<Rightarrow> Some (in_flight, rows1)
            | Some load \<Rightarrow>
                let rows2 = ue_workers E (n + 1) rows1 in
                case ue_sql E (n + 1) of Some error \<Rightarrow> Some (Inl error, rows2)
                | None \<Rightarrow> (case find (\<lambda>r. jr_id r = jr_id row) rows2 of
                    None \<Rightarrow> in_flight_usdc_transfer E (n + 2) rows2
                  | Some found \<Rightarrow> (case ue_parse_job E (jr_payload found) of
                      Inl _ \<Rightarrow> Some (in_flight, rows2)
                    | Inr aggregate_id \<Rightarrow> (case load aggregate_id of
                        Inl _ \<Rightarrow> Some (in_flight, rows2)
                      | Inr None \<Rightarrow> Some (in_flight, rows2)
                      | Inr (Some entity) \<Rightarrow>
                          if holds_rebalance_guard entity then Some (in_flight, rows2)
                          else
                            let rows3 = ue_workers E (n + 2) rows2 in
                            case ue_sql E (n + 2) of Some error \<Rightarrow> Some (Inl error, rows3)
                            | None \<Rightarrow>
                                if fst (kill_zombie_job (ue_unix_now E) (jr_id row) rows3)
                                then in_flight_usdc_transfer E (n + 3)
                                  (snd (kill_zombie_job (ue_unix_now E) (jr_id row) rows3))
                                else Some (in_flight,
                                  snd (kill_zombie_job (ue_unix_now E) (jr_id row) rows3)))))))"

text \<open>
  The two enqueue functions differ in the job they push and in a log line. \<open>fresh\<close> is the
  identifier drawn at push time.
\<close>

definition enqueue_transfer_usdc ::
  "'f usdc_env \<Rightarrow> job_type \<Rightarrow> usdc_rebalance_id \<Rightarrow> 'f usdc \<Rightarrow> 'f usdc_service \<Rightarrow>
   (bool \<times> 'f usdc_service) option" where
  "enqueue_transfer_usdc E job fresh amount S =
     (case in_flight_usdc_transfer E 0 (us_jobs S) of
        None \<Rightarrow> None
      | Some (found, rows) \<Rightarrow> (let S1 = S\<lparr>us_jobs := rows\<rparr> in Some (case found of
          Inr None \<Rightarrow> (case push_transfer E job fresh amount S1 of
              (Inr _, S2) \<Rightarrow> (True, S2)
            | (Inl _, S2) \<Rightarrow> (False, S2))
        | _ \<Rightarrow> (False, S1))))"

definition enqueue_transfer_usdc_to_hedging ::
  "'f usdc_env \<Rightarrow> usdc_rebalance_id \<Rightarrow> 'f usdc \<Rightarrow> 'f usdc_service \<Rightarrow> (bool \<times> 'f usdc_service) option" where
  "enqueue_transfer_usdc_to_hedging E = enqueue_transfer_usdc E TransferUsdcToHedging"

definition enqueue_transfer_usdc_to_market_making ::
  "'f usdc_env \<Rightarrow> usdc_rebalance_id \<Rightarrow> 'f usdc \<Rightarrow> 'f usdc_service \<Rightarrow> (bool \<times> 'f usdc_service) option" where
  "enqueue_transfer_usdc_to_market_making E = enqueue_transfer_usdc E TransferUsdcToMarketMaking"

text \<open>The configuration the check reads; \<open>uc_usdc\<close> is \<^verbatim>\<open>None\<close> when USDC rebalancing is off.\<close>

record 'f usdc_config =
  uc_usdc :: "'f imbalance_threshold option"
  uc_cash :: "('f usdc option \<times> 'f usd option) option"

definition usdc_rebalancing_params ::
  "'f usdc_config \<Rightarrow> ('f imbalance_threshold \<times> 'f usdc option \<times> 'f usd option) option" where
  "usdc_rebalancing_params C = map_option (\<lambda>threshold.
     (threshold, Option.bind (uc_cash C) fst, Option.bind (uc_cash C) snd)) (uc_usdc C)"

text \<open>\<^verbatim>\<open>InProgressGuard::try_claim\<close>, and the release when the guard is dropped without \<^verbatim>\<open>defuse\<close>.\<close>

definition try_claim_usdc_guard :: "'f usdc_service \<Rightarrow> 'f usdc_service option" where
  "try_claim_usdc_guard S = (if us_in_progress S then None else Some (S\<lparr>us_in_progress := True\<rparr>))"

definition clear_usdc_in_progress :: "'f usdc_service \<Rightarrow> 'f usdc_service" where
  "clear_usdc_in_progress S = S\<lparr>us_in_progress := False\<rparr>"

definition check_and_trigger_usdc ::
  "'f float_ops \<Rightarrow> 'f usdc \<Rightarrow> 'f usdc_config \<Rightarrow> 'f usdc_env \<Rightarrow> timestamp \<Rightarrow> usdc_rebalance_id \<Rightarrow>
   'f usdc_service \<Rightarrow> 'f usdc_service option" where
  "check_and_trigger_usdc F minimum C E now fresh S =
     (let S1 = snd (expire_stuck_operations F E now S) in
      case usdc_rebalancing_params C of
        None \<Rightarrow> Some S1
      | Some (threshold, usdc_limit, reserved) \<Rightarrow> (case try_claim_usdc_guard S1 of
          None \<Rightarrow> Some S1
        | Some S2 \<Rightarrow>
            (case check_imbalance_and_build_operation F minimum threshold (us_inventory S2) usdc_limit reserved of
               Inl _ \<Rightarrow> Some (clear_usdc_in_progress S2)
             | Inr operation \<Rightarrow>
                 (case (case operation of
                     OpBaseToAlpaca amount \<Rightarrow> enqueue_transfer_usdc_to_hedging E fresh amount S2
                   | OpAlpacaToBase amount \<Rightarrow> enqueue_transfer_usdc_to_market_making E fresh amount S2) of
                    None \<Rightarrow> None
                  | Some (dispatched, S3) \<Rightarrow>
                      Some (if dispatched then S3 else clear_usdc_in_progress S3)))))"

section \<open>The reactor and the guard\<close>

lemma get_put_tracking [simp]:
  "get_tracking (put_tracking i t S) j = (if j = i then Some t else get_tracking S j)"
  by (simp add: get_tracking_def put_tracking_def update_conv')

lemma get_remove_tracking [simp]:
  "get_tracking (remove_tracking i S) j = (if j = i then None else get_tracking S j)"
  by (simp add: get_tracking_def remove_tracking_def delete_conv')

lemma get_tracking_frame [simp]:
  "get_tracking (S\<lparr>us_inventory := x\<rparr>) j = get_tracking S j"
  "get_tracking (S\<lparr>us_in_progress := p\<rparr>) j = get_tracking S j"
  "get_tracking (S\<lparr>us_timed_out := to\<rparr>) j = get_tracking S j"
  "get_tracking (S\<lparr>us_outbox := ob\<rparr>) j = get_tracking S j"
  "get_tracking (S\<lparr>us_jobs := jobs\<rparr>) j = get_tracking S j"
  "get_tracking (S\<lparr>us_logged := lg\<rparr>) j = get_tracking S j"
  "get_tracking (S\<lparr>us_alerted := al\<rparr>) j = get_tracking S j"
  by (simp_all add: get_tracking_def)

lemma tracking_frame [simp]:
  "us_in_progress (put_tracking i t S) = us_in_progress S" "us_timed_out (put_tracking i t S) = us_timed_out S"
  "us_jobs (put_tracking i t S) = us_jobs S" "us_inventory (put_tracking i t S) = us_inventory S"
  "us_in_progress (remove_tracking i S) = us_in_progress S" "us_timed_out (remove_tracking i S) = us_timed_out S"
  "us_jobs (remove_tracking i S) = us_jobs S" "us_inventory (remove_tracking i S) = us_inventory S"
  by (simp_all add: put_tracking_def remove_tracking_def)

lemma tracked_ids [simp]:
  "fst ` set (us_tracking (put_tracking i t S)) = insert i (fst ` set (us_tracking S))"
  "fst ` set (us_tracking (remove_tracking i S)) = fst ` set (us_tracking S) - {i}"
  by (auto simp: put_tracking_def remove_tracking_def dom_update AList.delete_eq image_iff)

text \<open>
  \<open>same_guard\<close>: two states that agree on the flag, the markers and the tracking of every other
  rebalance; what handling an event of \<open>i\<close> does before the terminal action is taken.
\<close>

definition same_guard :: "usdc_rebalance_id \<Rightarrow> 'f usdc_service \<Rightarrow> 'f usdc_service \<Rightarrow> bool" where
  "same_guard i S S' \<longleftrightarrow> us_in_progress S' = us_in_progress S \<and> us_timed_out S' = us_timed_out S \<and>
     fst ` set (us_tracking S') \<subseteq> insert i (fst ` set (us_tracking S))"

lemma same_guard_refl [simp]: "same_guard i S S"
  by (auto simp: same_guard_def)

lemma modify_inventory_guard:
  "modify_inventory f S = (r, S') \<Longrightarrow> same_guard i S S' \<and> us_tracking S' = us_tracking S"
  by (auto simp: modify_inventory_def same_guard_def split: sum.splits)

lemma settle_or_defer_guard:
  "settle_or_defer F now venue u S = (r, S') \<Longrightarrow> same_guard i S S' \<and> us_tracking S' = us_tracking S"
  by (auto simp: settle_or_defer_def seqw_def same_guard_def modify_inventory_def
      split: sum.splits inventory_view_error.splits inventory_error.splits)

lemma complete_guard:
  "complete_usdc_rebalance F now i ev a S = (r, S') \<Longrightarrow> same_guard i S S' \<and> us_tracking S' = us_tracking S"
  by (auto simp: complete_usdc_rebalance_def split: option.splits sum.splits bool.splits
      dest!: settle_or_defer_guard)

lemma cancel_guard:
  "cancel_tracked_usdc_rebalance F now i S = (r, S') \<Longrightarrow> same_guard i S S' \<and> us_tracking S' = us_tracking S"
  by (auto simp: cancel_tracked_usdc_rebalance_def split: option.splits if_splits
      dest!: settle_or_defer_guard)

lemma put_tracking_guard [simp]: "same_guard i S (put_tracking i t S') \<longleftrightarrow> same_guard i S S'"
  by (auto simp: same_guard_def)

lemma start_guard: "start_usdc_transfer F now i entry S = (r, S') \<Longrightarrow> same_guard i S S'"
  by (auto simp: start_usdc_transfer_def seqw_def split: prod.splits sum.splits
      dest!: modify_inventory_guard [where i = i])

lemma apply_event_guard:
  assumes "apply_usdc_rebalance_event F now i e action S = (r, S')"
  shows "same_guard i S S'"
  using assms
  by (elim apply_usdc_rebalance_event.elims) (auto simp: upsert_conversion_tracking_def track_initiated_usdc_rebalance_def Let_def
      track_usdc_stage_progress_def track_bridged_amount_def fail_usdc_rebalance_def
      reconcile_operator_resolved_def complete_alpaca_to_base_deposit_def seqw_def
      split: option.splits sum.splits prod.splits if_splits rebalance_direction.splits
      dest!: modify_inventory_guard [where i = i] complete_guard cancel_guard start_guard
        complete_guard [OF sym] cancel_guard [OF sym])


section \<open>The guard invariant\<close>

text \<open>
  While a conversion runs, the tracked entry, if there is one, is the conversion's own.
\<close>

fun tracks :: "'f usdc_rebalance_tracking option \<Rightarrow> 'f usdc_rebalance \<Rightarrow> bool" where
  "tracks t (Converting d _ _ _) = (case t of None \<Rightarrow> True
     | Some t \<Rightarrow> ut_direction t = d \<and> ut_stage t = StageConversionInitiated)"
| "tracks t _ = True"

definition guarded :: "usdc_rebalance_id \<Rightarrow> 'f usdc_service \<Rightarrow> 'f usdc_rebalance \<Rightarrow> bool" where
  "guarded i S s \<longleftrightarrow> fst ` set (us_tracking S) \<subseteq> {i} \<and> tracks (get_tracking S i) s \<and>
     (us_timed_out S i \<noteq> None \<longrightarrow> get_tracking S i = None) \<and>
     (us_timed_out S i = None \<longrightarrow> holds_rebalance_guard s \<longrightarrow> us_in_progress S)"

lemma conversion_tracked:
  "apply_usdc_rebalance_event F now i (ConversionInitiated d a oid t) action S = (r, S') \<Longrightarrow>
   \<exists>x. get_tracking S' i = Some x \<and> ut_direction x = d \<and> ut_stage x = StageConversionInitiated"
  by (auto simp: upsert_conversion_tracking_def Let_def split: option.splits)

text \<open>An event that clears the guard leads to a state that no longer needs it.\<close>

lemma clear_settles:
  assumes "usdc_terminal_action S i e = Clear" and "rebalance_step F s e s'" and "tracks (get_tracking S i) s"
  shows "\<not> holds_rebalance_guard s'"
  using assms(2,1,3)
  by (cases rule: rebalance_step.cases)
    (auto simp: usdc_terminal_action_def is_post_burn_def split: if_splits option.splits rebalance_direction.splits)

lemma on_usdc_rebalance_cases:
  assumes "on_usdc_rebalance F now i e S = (r, S')" and "us_timed_out S i = None"
  obtains (err) x S1 where "apply_usdc_rebalance_event F now i e (usdc_terminal_action S i e) S = (Inl x, S1)" "S' = S1"
  | (clear) o' S1 where "apply_usdc_rebalance_event F now i e (usdc_terminal_action S i e) S = (Inr o', S1)"
      "usdc_terminal_action S i e = Clear" "us_in_progress S' = False"
      "us_tracking S' = us_tracking (remove_tracking i S1)" "us_timed_out S' = us_timed_out S1"
  | (keep) o' S1 where "apply_usdc_rebalance_event F now i e (usdc_terminal_action S i e) S = (Inr o', S1)"
      "usdc_terminal_action S i e \<noteq> Clear"
      "us_in_progress S' = (us_in_progress S1 \<or> usdc_terminal_action S i e = PreservePostBurn)"
      "us_tracking S' = us_tracking S1" "us_timed_out S' = us_timed_out S1"
  using assms
  by (auto simp: on_usdc_rebalance_def Let_def seqw_def remove_tracking_def split: prod.splits sum.splits if_splits)

lemma removed_empty: "fst ` set (us_tracking S) \<subseteq> {i} \<Longrightarrow> us_tracking (remove_tracking i S) = []"
  by (auto simp: remove_tracking_def AList.delete_eq filter_empty_conv)

lemma tracks_None [simp]: "tracks None s"
  by (cases s) auto

lemma reactor_guarded:
  assumes "on_usdc_rebalance F now i e S = (r, S')" and ids: "fst ` set (us_tracking S) \<subseteq> {i}"
    and tomb: "us_timed_out S i \<noteq> None \<longrightarrow> get_tracking S i = None"
    and flag: "us_timed_out S i = None \<longrightarrow> holds_rebalance_guard s' \<longrightarrow> us_in_progress S"
    and conv: "\<And>d a oid t. s' = Converting d a oid t \<Longrightarrow> \<exists>a' t'. e = ConversionInitiated d a' oid t'"
    and clear: "usdc_terminal_action S i e = Clear \<Longrightarrow> \<not> holds_rebalance_guard s'"
  shows "guarded i S' s'"
proof (cases "us_timed_out S i = None")
  case False
  with assms(1) have "S' = S" by (simp add: on_usdc_rebalance_def)
  with False ids tomb show ?thesis by (auto simp: guarded_def)
next
  case True
  let ?act = "usdc_terminal_action S i e"
  have sub: "fst ` set (us_tracking S1) \<subseteq> {i}" "us_timed_out S1 i = None" "us_in_progress S1 = us_in_progress S"
    if "apply_usdc_rebalance_event F now i e ?act S = (x, S1)" for x S1
    using apply_event_guard [OF that] ids True unfolding same_guard_def by fastforce+
  have tr: "tracks (get_tracking S1 i) s'" if ap: "apply_usdc_rebalance_event F now i e ?act S = (x, S1)" for x S1
  proof (cases s')
    case (Converting d a oid t)
    from conv [OF this] obtain a' t' where "e = ConversionInitiated d a' oid t'" by blast
    with conversion_tracked ap Converting show ?thesis by fastforce
  qed auto
  from assms(1) True show ?thesis
  proof (cases rule: on_usdc_rebalance_cases)
    case (err x S1)
    with sub [OF err(1)] tr [OF err(1)] flag True show ?thesis by (simp add: guarded_def)
  next
    case (clear o' S1)
    with removed_empty [OF sub(1) [OF clear(1)]] have "us_tracking S' = []" by simp
    with clear sub [OF clear(1)] assms(6) show ?thesis
      by (auto simp: guarded_def get_tracking_def)
  next
    case (keep o' S1)
    moreover from keep(4) have "get_tracking S' i = get_tracking S1 i" by (simp add: get_tracking_def)
    ultimately show ?thesis
      using sub [OF keep(1)] tr [OF keep(1)] flag True by (simp add: guarded_def)
  qed
qed

lemma enters_conversion:
  "rebalance_step F s e (Converting d a oid t) \<Longrightarrow> \<exists>a' t'. e = ConversionInitiated d a' oid t'"
  by (cases rule: rebalance_step.cases) auto

lemma opens_conversion:
  "usdc_originate e = Some (Converting d a oid t) \<Longrightarrow> \<exists>a' t'. e = ConversionInitiated d a' oid t'"
  by (cases e) auto

lemma step_guarded:
  assumes "guarded i S s" and step: "rebalance_step F s e s'"
    and "holds_rebalance_guard s \<or> \<not> holds_rebalance_guard s'"
    and "on_usdc_rebalance F now i e S = (r, S')"
  shows "guarded i S' s'"
  using assms(4)
proof (rule reactor_guarded)
  show "\<And>d a oid t. s' = Converting d a oid t \<Longrightarrow> \<exists>a' t'. e = ConversionInitiated d a' oid t'"
    using enters_conversion step by blast
  show "usdc_terminal_action S i e = Clear \<Longrightarrow> \<not> holds_rebalance_guard s'"
    using clear_settles [OF _ step] assms(1) by (simp add: guarded_def)
qed (use assms(1,3) in \<open>auto simp: guarded_def\<close>)

lemma opened_guarded:
  assumes "usdc_originate e = Some s" "us_in_progress S" "us_tracking S = []" "us_timed_out S i = None"
    and "on_usdc_rebalance F now i e S = (r, S')"
  shows "guarded i S' s"
  using assms(5)
proof (rule reactor_guarded)
  show "\<And>d a oid t. s = Converting d a oid t \<Longrightarrow> \<exists>a' t'. e = ConversionInitiated d a' oid t'"
    using opens_conversion assms(1) by blast
  have "\<not> is_terminal_usdc_rebalance_event e" using assms(1) by (cases e) auto
  then show "usdc_terminal_action S i e = Clear \<Longrightarrow> \<not> holds_rebalance_guard s"
    by (simp add: usdc_terminal_action_def)
qed (use assms(2,3,4) in auto)


section \<open>Sweeping and triggering keep the invariant\<close>

lemma preserve_post_burn_guard [simp]:
  "us_in_progress (preserve_post_burn E i t el S)" "us_tracking (preserve_post_burn E i t el S) = us_tracking S"
  "us_timed_out (preserve_post_burn E i t el S) = us_timed_out S"
  by (simp_all add: preserve_post_burn_def Let_def)

lemma guarded_flag: "guarded i S s \<Longrightarrow> us_tracking S' = us_tracking S \<Longrightarrow> us_timed_out S' = us_timed_out S \<Longrightarrow>
   us_in_progress S' \<or> us_in_progress S' = us_in_progress S \<Longrightarrow> guarded i S' s"
  by (auto simp: guarded_def get_tracking_def)

lemma dropped_guarded: "guarded i S s \<Longrightarrow> guarded i ((drop_timed_out now i view S)\<lparr>us_in_progress := p\<rparr>) s"
  "guarded i S s \<Longrightarrow> guarded i (drop_timed_out now i view S) s"
  using removed_empty [of S i] by (auto simp: guarded_def drop_timed_out_def get_tracking_def)

lemma reinserted_guarded: "guarded i S s \<Longrightarrow> get_tracking S i = Some t \<Longrightarrow>
   guarded i (put_tracking i t (remove_tracking i S)) s"
  by (auto simp: guarded_def)

lemma cleanup_cases:
  assumes "cleanup_timed_out_usdc_rebalance F E now i S = (r, S')"
  obtains (same) "S' = S" "\<And>t el. r \<noteq> Inr (Some (Cleared t el))"
  | (restored) t e where "get_tracking S i = Some t" "r = Inl e" "S' = put_tracking i t (remove_tracking i S)"
  | (dropped) t el view where "get_tracking S i = Some t" "r = Inr (Some (Cleared t el))"
      "S' = drop_timed_out now i view S"
      "elapsed_since_timeout_start (ut_last_progress_at t) now = Some el"
      "is_post_burn t \<longrightarrow> (\<exists>load s. ue_load E = Some load \<and> load i = Inr (Some s) \<and> is_reconciled s)"
      "\<not> is_post_burn t \<longrightarrow> ue_timeout E \<le> el \<and> (\<forall>load. ue_load E = Some load \<longrightarrow>
         load i = Inr None \<or> (\<exists>s. load i = Inr (Some s) \<and> alpaca_withdrawal s = None))"
  using assms
  by (auto simp: cleanup_timed_out_usdc_rebalance_def cleanup_post_burn_def cleanup_pre_burn_def Let_def
      split: option.splits sum.splits if_splits)

lemma push_transfer_guard:
  "push_transfer E job i a S = (r, S') \<Longrightarrow> us_tracking S' = us_tracking S \<and> us_timed_out S' = us_timed_out S \<and>
     us_in_progress S' = us_in_progress S"
  by (auto simp: push_transfer_def split: option.splits)

lemma finish_guarded:
  assumes "guarded i S s" "finish_cleanup E j x S = (r, S')" "\<And>t el. x \<noteq> Some (Cleared t el)"
  shows "guarded i S' s"
  using assms(2,3)
  by (elim finish_cleanup.elims)
    (auto simp: seqw_def split: prod.splits sum.splits dest!: push_transfer_guard
      intro: guarded_flag [OF assms(1)] assms(1))

lemma expire_one_guarded:
  assumes "guarded i S s" and "expire_one F E now i S = (r, S')"
  shows "guarded i S' s"
proof (cases "transfer_live_job_for_id E S i = Inr False")
  case False
  then have "S' = S" using assms(2) by (auto simp: expire_one_def split: sum.splits bool.splits)
  with assms(1) show ?thesis by simp
next
  case True
  obtain x S1 where c: "cleanup_timed_out_usdc_rebalance F E now i S = (x, S1)" by fastforce
  from c show ?thesis
  proof (cases rule: cleanup_cases)
    case same
    show ?thesis
    proof (cases x)
      case (Inl e)
      with same True c assms show ?thesis by (auto simp: expire_one_def seqw_def)
    next
      case (Inr cleanup)
      with same True c assms(2) finish_guarded [OF assms(1)] show ?thesis
        by (auto simp: expire_one_def seqw_def)
    qed
  next
    case (restored t e)
    with True c assms(2) reinserted_guarded [OF assms(1)] show ?thesis
      by (auto simp: expire_one_def seqw_def)
  next
    case (dropped t el view)
    with True c assms(2) dropped_guarded [OF assms(1)] show ?thesis
      by (auto simp: expire_one_def seqw_def)
  qed
qed

lemma expire_each_guarded:
  "guarded i S s \<Longrightarrow> set is \<subseteq> {i} \<Longrightarrow> guarded i (snd (expire_each F E now is S)) s"
proof (induction "is" arbitrary: S)
  case (Cons j js)
  obtain r S1 where one: "expire_one F E now i S = (r, S1)" by fastforce
  with Cons expire_one_guarded [OF Cons.prems(1) one] show ?case
    by (cases r) (auto simp: seqw_def)
qed simp

lemma expiry_candidates_tracked: "set (expiry_candidates E now S) \<subseteq> fst ` set (us_tracking S)"
  by (auto simp: expiry_candidates_def)

lemma sweep_guarded:
  assumes "guarded i S s" and "us_timed_out (prune_timeout_markers now S) i = us_timed_out S i"
  shows "guarded i (snd (expire_stuck_operations F E now S)) s"
proof -
  let ?S = "prune_timeout_markers now S"
  from assms have g: "guarded i ?S s"
    by (auto simp: guarded_def prune_timeout_markers_def get_tracking_def)
  moreover have "set (expiry_candidates E now ?S) \<subseteq> {i}"
    using expiry_candidates_tracked [of E now ?S] g by (auto simp: guarded_def)
  ultimately show ?thesis
    using expire_each_guarded [OF g]
    by (auto simp: expire_stuck_operations_def expire_stuck_usdc_rebalances_def Let_def split: option.splits)
qed

lemma enqueue_guard:
  "enqueue_transfer_usdc E job fresh a S = Some (d, S') \<Longrightarrow> us_tracking S' = us_tracking S \<and>
     us_timed_out S' = us_timed_out S \<and> us_in_progress S' = us_in_progress S"
  by (auto simp: enqueue_transfer_usdc_def Let_def split: option.splits prod.splits sum.splits
      dest!: push_transfer_guard)

lemma check_guarded:
  assumes "guarded i S s" and "us_timed_out (prune_timeout_markers now S) i = us_timed_out S i"
    and "check_and_trigger_usdc F minimum C E now fresh S = Some S'"
  shows "guarded i S' s"
proof -
  let ?S1 = "snd (expire_stuck_operations F E now S)"
  note g = sweep_guarded [OF assms(1,2), of F E]
  show ?thesis
  proof (cases "us_in_progress ?S1")
    case True
    with assms(3) have "S' = ?S1"
      by (auto simp: check_and_trigger_usdc_def Let_def try_claim_usdc_guard_def split: option.splits)
    with g show ?thesis by simp
  next
    case False
    from assms(3) have "us_tracking S' = us_tracking ?S1 \<and> us_timed_out S' = us_timed_out ?S1"
      by (auto simp: check_and_trigger_usdc_def Let_def try_claim_usdc_guard_def clear_usdc_in_progress_def
          enqueue_transfer_usdc_to_hedging_def enqueue_transfer_usdc_to_market_making_def
          split: option.splits sum.splits prod.splits if_splits usdc_rebalance_operation.splits dest!: enqueue_guard)
    with g False show ?thesis by (auto simp: guarded_def get_tracking_def)
  qed
qed


section \<open>Recovery restores the invariant\<close>

lemma classify_unguarded:
  "\<not> holds_rebalance_guard s \<Longrightarrow> classify_candidate E S i s acc = Inr acc"
  by (cases s rule: holds_rebalance_guard.cases)
    (auto simp: classify_candidate_def note_held_def split: option.splits rebalance_direction.splits)

lemma note_rearm_Inr:
  "note_rearm i data p acc = Inr acc' \<Longrightarrow> gr_held acc' = gr_held acc \<and> gr_tracking acc' = gr_tracking acc \<and>
     gr_unresolved acc' = gr_unresolved acc"
  by (auto simp: note_rearm_def split: option.splits)

lemma classify_candidate_Inr:
  assumes "classify_candidate E S i s acc = Inr acc'"
  shows "gr_held acc' = gr_held (note_held i s acc) \<and> gr_tracking acc' = gr_tracking (note_held i s acc) \<and>
    gr_unresolved acc' = gr_unresolved acc"
proof -
  have "gr_unresolved (note_held i s acc) = gr_unresolved acc"
    by (auto simp: note_held_def Let_def split: option.splits)
  with assms show ?thesis
    by (auto simp: classify_candidate_def Let_def split: option.splits if_splits dest!: note_rearm_Inr)
qed

text \<open>Of the candidates, only \<open>i\<close> may hold the guard; its load succeeds or fails.\<close>

definition lone_holder ::
  "(usdc_rebalance_id \<Rightarrow> string + 'f usdc_rebalance option) \<Rightarrow> usdc_rebalance_id \<Rightarrow> 'f usdc_rebalance \<Rightarrow>
   usdc_rebalance_id list \<Rightarrow> bool" where
  "lone_holder load i s ids \<longleftrightarrow> (load i = Inr (Some s) \<or> (\<exists>e. load i = Inl e)) \<and>
     (\<forall>j \<in> set ids. j \<noteq> i \<longrightarrow> (\<exists>s'. load j = Inr (Some s') \<and> \<not> holds_rebalance_guard s'))"

lemma classify_candidates_guard:
  assumes "classify_candidates E S load ids acc = Inr acc'" and "lone_holder load i s ids"
  shows "(\<forall>(j, t) \<in> set (gr_tracking acc'). (j, t) \<in> set (gr_tracking acc) \<or>
      j = i \<and> guard_recovery_tracking_data s \<noteq> None) \<and>
    (i \<in> set ids \<and> holds_rebalance_guard s \<or> gr_held acc \<noteq> [] \<or> gr_unresolved acc \<noteq> [] \<longrightarrow>
      gr_held acc' \<noteq> [] \<or> gr_unresolved acc' \<noteq> [])"
  using assms
proof (induction ids arbitrary: acc)
  case (Cons j ids)
  have lone: "lone_holder load i s ids" using Cons.prems(2) by (auto simp: lone_holder_def)
  show ?case
  proof (cases "j = i")
    case False
    with Cons.prems(2) obtain s' where "load j = Inr (Some s')" "\<not> holds_rebalance_guard s'"
      by (auto simp: lone_holder_def)
    with Cons.prems(1) have "classify_candidates E S load ids acc = Inr acc'"
      by (auto simp: classify_unguarded)
    from Cons.IH [OF this lone] False show ?thesis by auto
  next
    case True
    from Cons.prems(2) consider "load i = Inr (Some s)" | e where "load i = Inl e"
      by (auto simp: lone_holder_def)
    then show ?thesis
    proof cases
      case 1
      with Cons.prems(1) True obtain acc1 where a: "classify_candidate E S i s acc = Inr acc1"
        and rest: "classify_candidates E S load ids acc1 = Inr acc'" by auto
      note f = classify_candidate_Inr [OF a]
      have "\<forall>(j, t) \<in> set (gr_tracking acc1). (j, t) \<in> set (gr_tracking acc) \<or>
          j = i \<and> guard_recovery_tracking_data s \<noteq> None"
        using f by (auto simp: note_held_def Let_def split: option.splits if_splits)
      moreover have "gr_held acc1 \<noteq> [] \<or> gr_unresolved acc1 \<noteq> []"
        if "holds_rebalance_guard s \<or> gr_held acc \<noteq> [] \<or> gr_unresolved acc \<noteq> []"
        using f that by (auto simp: note_held_def Let_def split: option.splits if_splits)
      ultimately show ?thesis using Cons.IH [OF rest lone] True by fast
    next
      case 2
      with Cons.prems(1) True have
        rest: "classify_candidates E S load ids (acc\<lparr>gr_unresolved := gr_unresolved acc @ [i]\<rparr>) = Inr acc'"
        by auto
      from Cons.IH [OF rest lone] show ?thesis by auto
    qed
  qed
qed auto

lemma rearm_guard:
  "rearm_stranded_transfers E cs S = (r, S') \<Longrightarrow> us_tracking S' = us_tracking S \<and>
     us_timed_out S' = us_timed_out S \<and> us_in_progress S' = us_in_progress S"
proof (induction cs arbitrary: S r S')
  case (Cons c cs)
  then show ?case
    by (auto simp: seqw_def retw_def split: sum.splits prod.splits if_splits dest!: push_transfer_guard)
qed simp

lemma extend_tracking_simps [simp]:
  "us_in_progress (extend_tracking es S) = us_in_progress S"
  "us_timed_out (extend_tracking es S) = us_timed_out S"
  "fst ` set (us_tracking (extend_tracking es S)) = fst ` set (us_tracking S) \<union> fst ` set es"
  unfolding extend_tracking_def by (induction es arbitrary: S) (simp_all add: split_beta)

lemma recover_guarded:
  assumes "recover_usdc_guard E (Inr interrupted) load S = (Inr (), S')"
    and fresh: "us_tracking S = []" "us_timed_out S i = None"
    and lone: "lone_holder load i s (iur_ids interrupted)"
    and found: "holds_rebalance_guard s \<Longrightarrow> i \<in> set (iur_ids interrupted)"
  shows "guarded i S' s"
proof -
  from assms(1) obtain acc exhausted S1 where
    acc: "classify_candidates E S load (iur_ids interrupted) empty_recovery = Inr acc"
    and S1: "rearm_stranded_transfers E (gr_rearm acc) S = (Inr exhausted, S1)"
    and S': "us_timed_out S' = us_timed_out S1"
      "if gr_held acc = [] \<and> gr_unresolved acc = [] \<and> iur_unparseable interrupted = []
       then us_tracking S' = us_tracking S1
       else us_in_progress S' \<and> us_tracking S' =
         us_tracking (extend_tracking (gr_tracking acc) (S1\<lparr>us_in_progress := True\<rparr>))"
    by (auto simp: recover_usdc_guard_def seqw_def Let_def split: sum.splits prod.splits if_splits)
  note seeds = classify_candidates_guard [OF acc lone]
  note same = rearm_guard [OF S1]
  have held: "gr_held acc \<noteq> [] \<or> gr_unresolved acc \<noteq> []" if "holds_rebalance_guard s"
    using seeds found that by (auto simp: empty_recovery_def)
  have seeded: "j = i \<and> guard_recovery_tracking_data s \<noteq> None" if "(j, t) \<in> set (gr_tracking acc)" for j t
    using seeds that by (auto simp: empty_recovery_def)
  have ids: "fst ` set (us_tracking S') \<subseteq> fst ` set (gr_tracking acc)"
    using S'(2) same fresh(1) by (simp split: if_splits)
  have "tracks (get_tracking S' i) s"
  proof (cases "guard_recovery_tracking_data s = None")
    case True
    have "gr_tracking acc = []"
    proof (cases "gr_tracking acc")
      case (Cons x xs)
      then show ?thesis using seeded [of "fst x" "snd x"] True by simp
    qed
    with ids have "us_tracking S' = []" by simp
    then show ?thesis by (simp add: get_tracking_def)
  qed (cases s, auto)
  moreover have "fst ` set (us_tracking S') \<subseteq> {i}" using ids seeded by fastforce
  ultimately show ?thesis
    using S' same fresh(2) held by (auto simp: guarded_def split: if_splits)
qed


section \<open>Runs\<close>

text \<open>
  The life of rebalance \<open>i\<close> beside the service: it is dispatched with the flag claimed; its
  events reach the reactor in order (an error of the reactor is logged and leaves what it wrote); sweeps
  and imbalance checks come at any time, before the rebalance's timeout marker expires if it got
  one; and the process may restart at any time, with a fresh service whose startup recovery
  completes, reading the events table that holds the rebalance's log. At a restart no other
  rebalance holds the guard, and a settled rebalance is not driven on.
\<close>

inductive usdc_run ::
  "'f float_ops \<Rightarrow> usdc_rebalance_id \<Rightarrow> 'f usdc_service \<Rightarrow> 'f usdc_rebalance_event list \<Rightarrow> 'f usdc_rebalance \<Rightarrow> bool"
  for F :: "'f float_ops" and i :: usdc_rebalance_id where
  opened: "usdc_originate e = Some s \<Longrightarrow> us_in_progress S \<Longrightarrow> us_tracking S = [] \<Longrightarrow> us_timed_out S i = None \<Longrightarrow>
    on_usdc_rebalance F now i e S = (r, S') \<Longrightarrow> usdc_run F i S' [e] s"
| event: "usdc_run F i S l s \<Longrightarrow> rebalance_step F s e s' \<Longrightarrow>
    holds_rebalance_guard s \<or> \<not> holds_rebalance_guard s' \<Longrightarrow>
    on_usdc_rebalance F now i e S = (r, S') \<Longrightarrow> usdc_run F i S' (l @ [e]) s'"
| swept: "usdc_run F i S l s \<Longrightarrow> us_timed_out (prune_timeout_markers now S) i = us_timed_out S i \<Longrightarrow>
    expire_stuck_operations F E now S = (r, S') \<Longrightarrow> usdc_run F i S' l s"
| checked: "usdc_run F i S l s \<Longrightarrow> us_timed_out (prune_timeout_markers now S) i = us_timed_out S i \<Longrightarrow>
    check_and_trigger_usdc F minimum C E now fresh S = Some S' \<Longrightarrow> usdc_run F i S' l s"
| restarted: "usdc_run F i S l s \<Longrightarrow>
    table_holds (table :: string event_row list) start ''UsdcRebalance'' usdc_event_type streams \<Longrightarrow>
    distinct (map fst streams) \<Longrightarrow>
    (\<And>j k. (j, k) \<in> set streams \<Longrightarrow> replay usdc_originate usdc_evolve lifecycle.Uninitialized k \<noteq> FailedLifecycle) \<Longrightarrow>
    (raw, l) \<in> set streams \<Longrightarrow> parse raw = (Inr u :: string + uuid) \<Longrightarrow> i = UsdcRebalanceId u \<Longrightarrow>
    us_tracking S0 = [] \<Longrightarrow> us_timed_out S0 i = None \<Longrightarrow>
    lone_holder load i s (iur_ids (interrupted_usdc_rebalance_ids parse table)) \<Longrightarrow>
    recover_usdc_guard E (Inr (interrupted_usdc_rebalance_ids parse table)) load S0 = (Inr (), S') \<Longrightarrow>
    usdc_run F i S' l s"

lemma usdc_run_replay: "usdc_run F i S l s \<Longrightarrow> usdc_replay lifecycle.Uninitialized l = Live s"
  by (induction rule: usdc_run.induct)
    (simp_all add: replay_append rebalance_step_evolve del: usdc_evolve.simps)

lemma guard_holder_found:
  assumes "table_holds table start ''UsdcRebalance'' usdc_event_type streams" "distinct (map fst streams)"
    and "\<And>j k. (j, k) \<in> set streams \<Longrightarrow> usdc_replay lifecycle.Uninitialized k \<noteq> FailedLifecycle"
    and "(raw, l) \<in> set streams" "parse raw = Inr u" "usdc_replay lifecycle.Uninitialized l = Live s" "holds_rebalance_guard s"
  shows "UsdcRebalanceId u \<in> set (iur_ids (interrupted_usdc_rebalance_ids parse table))"
proof -
  have "set (ids_with_last_event_in (store_rows start ''UsdcRebalance'' usdc_event_type streams) ''UsdcRebalance''
      interrupted_usdc_event_types) =
      {j. \<exists>k t. (j, k) \<in> set streams \<and> usdc_replay lifecycle.Uninitialized k = Live t \<and> usdc_candidate t}"
    using assms(3) by (rule ulast.ids_by_state [OF assms(2) _ refl])
  with assms(4,6) guard_is_candidate [OF assms(7)]
  have "raw \<in> set (ids_with_last_event_in table ''UsdcRebalance'' interrupted_usdc_event_types)"
    unfolding table_holds_ids [OF assms(1)] by blast
  with assms(5) show ?thesis
    by (auto simp: interrupted_usdc_rebalance_ids_def split_parsed_sets)
qed

lemma usdc_run_guarded: "usdc_run F i S l s \<Longrightarrow> guarded i S s"
proof (induction rule: usdc_run.induct)
  case (opened e s S now r S')
  from opened_guarded [OF opened] show ?case .
next
  case (event S l s e s' now r S')
  from step_guarded [OF event(5,2,3,4)] show ?case .
next
  case (swept S l s now E r S')
  from sweep_guarded [OF swept(4,2), of F E] swept(3) show ?case by simp
next
  case (checked S l s now minimum C E fresh S')
  from check_guarded [OF checked(4,2,3)] show ?case .
next
  case (restarted S l s table start streams raw parse u S0 load E S')
  show ?case
  proof (rule recover_guarded [OF restarted(11,8,9,10)])
    assume "holds_rebalance_guard s"
    have "UsdcRebalanceId u \<in> set (iur_ids (interrupted_usdc_rebalance_ids parse table))"
      by (rule guard_holder_found [where raw = raw and l = l and s = s])
        (use restarted usdc_run_replay [OF restarted(1)] \<open>holds_rebalance_guard s\<close> in blast)+
    with restarted(7) show "i \<in> set (iur_ids (interrupted_usdc_rebalance_ids parse table))" by simp
  qed
qed


section \<open>The loop over the jobs table\<close>

definition retryables :: "job_row list \<Rightarrow> nat" where
  "retryables rows = length (filter is_retryable rows)"

lemma kill_keeps: "length (filter is_retryable (snd (kill_zombie_job now row_id rows))) +
   length (filter (is_zombie_target row_id) rows) = length (filter is_retryable rows)"
  by (induction rows) (auto simp: kill_zombie_job_def is_zombie_target_def is_retryable_def)

lemma kill_decreases:
  "fst (kill_zombie_job now row_id rows) \<Longrightarrow> retryables (snd (kill_zombie_job now row_id rows)) < retryables rows"
  using kill_keeps [of now row_id rows] by (simp add: retryables_def kill_zombie_job_def)

lemma oldest_row_None [simp]: "oldest_row rows = None \<longleftrightarrow> rows = []"
  by (cases rows) (auto split: option.splits)

lemma oldest_row_in: "oldest_row rows = Some row \<Longrightarrow> row \<in> set rows"
  by (induction rows arbitrary: row) (auto split: option.splits if_splits)

text \<open>With no other writer on the table, the lookup ends: every turn kills a retryable row.\<close>

lemma in_flight_returns:
  assumes quiet: "\<And>n rows. ue_workers E n rows = rows"
  shows "\<exists>r. in_flight_usdc_transfer E n rows = Some r"
proof (induction "retryables rows" arbitrary: n rows rule: less_induct)
  case less
  show ?case
  proof (cases "oldest_live_transfer rows")
    case None
    then show ?thesis
      by (subst in_flight_usdc_transfer.simps) (auto simp: quiet Let_def split: option.splits)
  next
    case (Some row)
    then have "row \<in> set rows" by (auto simp: oldest_live_transfer_def dest: oldest_row_in)
    then have found: "find (\<lambda>r. jr_id r = jr_id row) rows \<noteq> None" by (auto simp: find_None_iff)
    have "\<exists>r. in_flight_usdc_transfer E (n + 3) (snd (kill_zombie_job (ue_unix_now E) (jr_id row) rows)) = Some r"
      if "fst (kill_zombie_job (ue_unix_now E) (jr_id row) rows)"
      using less kill_decreases [OF that] by blast
    with Some found show ?thesis
      by (subst in_flight_usdc_transfer.simps)
        (auto simp: quiet Let_def split: option.splits sum.splits if_splits)
  qed
qed

definition free_of_transfers :: "job_row list \<Rightarrow> bool" where
  "free_of_transfers rows \<longleftrightarrow> (\<forall>row \<in> set rows. is_usdc_transfer row \<longrightarrow> \<not> is_live_row row)"

lemma oldest_live_none: "oldest_live_transfer rows = None \<longleftrightarrow> free_of_transfers rows"
  by (auto simp: oldest_live_transfer_def free_of_transfers_def filter_empty_conv)

lemma in_flight_none:
  assumes "in_flight_usdc_transfer E n rows = Some (Inr None, rows')"
  shows "free_of_transfers rows'"
proof -
  let ?P = "\<lambda>(E :: 'a usdc_env) (n :: nat) (rows :: job_row list)
    (r :: (string + (string \<times> int) option) \<times> job_row list). fst r = Inr None \<longrightarrow> free_of_transfers (snd r)"
  have "?P E n rows (Inr None, rows')"
  proof (rule in_flight_usdc_transfer.raw_induct [where P = ?P, OF _ assms], goal_cases)
    case (1 f E n rows r)
    from 1(2) show ?case
      by (auto simp: Let_def oldest_live_none split: option.splits sum.splits if_splits dest!: 1(1))
  qed
  then show ?thesis by simp
qed

section \<open>Properties\<close>


text \<open>A fresh service, and a rebalance towards the brokerage that was just opened.\<close>

definition demo_service :: "rat usdc_service" where
  "demo_service = \<lparr>us_inventory = inventory_view_default 0, us_in_progress = False, us_tracking = [],
     us_timed_out = Map.empty, us_logged = {}, us_alerted = {}, us_jobs = [], us_outbox = []\<rparr>"

definition demo_env :: "rat usdc_env" where
  "demo_env = \<lparr>ue_timeout = 100, ue_unix_now = 0, ue_parse_job = (\<lambda>_. Inr (UsdcRebalanceId 7)),
     ue_row = (\<lambda>job i a. \<lparr>jr_id = ''new'', jr_type = job, jr_status = JobPending, jr_attempts = 0,
       jr_max_attempts = 5, jr_run_at = 0, jr_done_at = None, jr_payload = ''''\<rparr>),
     ue_probe = (\<lambda>_. None), ue_push = (\<lambda>_. None), ue_load = None, ue_notify = (\<lambda>_. True),
     ue_equity_sweeps = (\<lambda>_. None), ue_workers = (\<lambda>_ rows. rows), ue_sql = (\<lambda>_. None)\<rparr>"

definition demo_opening :: "rat usdc_rebalance_event" where
  "demo_opening = usdc_rebalance_event.WithdrawalSubmitting BaseToAlpaca (Usdc 5) 100 1"

definition demo_events :: "string event_row list" where
  "demo_events = [\<lparr>er_aggregate_type = ''UsdcRebalance'', er_aggregate_id = ''u'', er_sequence = 1,
      er_event_type = ''UsdcRebalanceEvent::WithdrawalSubmitting'', er_payload = ''''\<rparr>]"

definition demo_parse :: "string \<Rightarrow> string + uuid" where
  "demo_parse raw = Inr 7"

definition demo_restored :: "rat usdc_service" where
  "demo_restored = snd (recover_usdc_guard demo_env
     (Inr (interrupted_usdc_rebalance_ids demo_parse demo_events))
     (\<lambda>_. Inr (Some (usdc_rebalance.WithdrawalSubmitting BaseToAlpaca (Usdc 5) 100 1))) demo_service)"

lemma demo_interrupted:
  "interrupted_usdc_rebalance_ids demo_parse demo_events =
   \<lparr>iur_ids = [UsdcRebalanceId 7], iur_unparseable = []\<rparr>"
  by (simp add: interrupted_usdc_rebalance_ids_def demo_parse_def demo_events_def ids_with_last_event_in_def latest_rows_def
      stream_sequences_def interrupted_usdc_event_types_def)

lemma demo_recovers:
  "recover_usdc_guard demo_env
     (Inr (interrupted_usdc_rebalance_ids demo_parse demo_events))
     (\<lambda>_. Inr (Some (usdc_rebalance.WithdrawalSubmitting BaseToAlpaca (Usdc 5) 100 1))) demo_service =
   (Inr (), demo_service\<lparr>us_in_progress := True,
     us_jobs := [ue_row demo_env TransferUsdcToHedging (UsdcRebalanceId 7) (Usdc 5)]\<rparr>)"
  unfolding demo_interrupted
  by (simp add: recover_usdc_guard_def classify_candidate_def note_held_def note_rearm_def empty_recovery_def
      rearm_blocked_def transfer_live_job_for_id_def transfer_has_job_row_for_id_def push_transfer_def
      demo_env_def demo_service_def seqw_def extend_tracking_def)



lemma job_for_id_prefix: "job_for_id p i (xs @ ys) = Inr False \<Longrightarrow> job_for_id p i xs = Inr False"
  by (induction xs) (auto split: if_splits)

lemma live_job_prefix:
  "us_jobs S' = us_jobs S @ rows \<Longrightarrow> transfer_live_job_for_id E S' i = Inr False \<Longrightarrow>
   transfer_live_job_for_id E S i = Inr False"
  by (auto simp: transfer_live_job_for_id_def split: option.splits dest: job_for_id_prefix)

definition gives_up :: "'f usdc_env \<Rightarrow> timestamp \<Rightarrow> usdc_rebalance_id \<Rightarrow> 'f usdc_service \<Rightarrow> bool" where
  "gives_up E now i S \<longleftrightarrow> (\<exists>t el. get_tracking S i = Some t \<and>
    elapsed_since_timeout_start (ut_last_progress_at t) now = Some el \<and>
    transfer_live_job_for_id E S i = Inr False \<and>
    (if is_post_burn t
     then \<exists>load s. ue_load E = Some load \<and> load i = Inr (Some s) \<and> is_reconciled s
     else ue_timeout E \<le> el \<and> (\<forall>load. ue_load E = Some load \<longrightarrow>
       load i = Inr None \<or> (\<exists>s. load i = Inr (Some s) \<and> alpaca_withdrawal s = None))))"

lemma gives_up_frame:
  assumes "gives_up E now i S'" "get_tracking S' i = get_tracking S i" "us_jobs S' = us_jobs S @ rows"
  shows "gives_up E now i S"
  using assms(1) live_job_prefix [OF assms(3)] unfolding gives_up_def assms(2) by blast

lemma finish_cleanup_frame:
  assumes "finish_cleanup E j x S = (r, S')"
  shows "us_timed_out S' = us_timed_out S \<and> us_tracking S' = us_tracking S \<and> (\<exists>rows. us_jobs S' = us_jobs S @ rows)"
  using assms
  by (elim finish_cleanup.elims)
    (auto simp: seqw_def push_transfer_def preserve_post_burn_def Let_def
      split: prod.splits sum.splits option.splits if_splits)

lemma expire_one_effect:
  assumes "expire_one F E now j S = (r, S')" and "us_timed_out S i = None"
  shows "(us_timed_out S' i \<noteq> None \<longrightarrow> gives_up E now i S) \<and>
    (us_timed_out S' i = None \<longrightarrow> get_tracking S' i = get_tracking S i \<and> (\<exists>rows. us_jobs S' = us_jobs S @ rows))"
proof (cases "transfer_live_job_for_id E S j = Inr False")
  case False
  then have "S' = S" using assms(1) by (auto simp: expire_one_def split: sum.splits bool.splits)
  with assms(2) show ?thesis by simp
next
  case True
  obtain x S1 where c: "cleanup_timed_out_usdc_rebalance F E now j S = (x, S1)" by fastforce
  have S': "us_timed_out S' = us_timed_out S1 \<and> us_tracking S' = us_tracking S1 \<and>
      (\<exists>rows. us_jobs S' = us_jobs S1 @ rows)"
    using assms(1) True c by (cases x) (auto simp: expire_one_def seqw_def dest: finish_cleanup_frame)
  then have g: "get_tracking S' i = get_tracking S1 i" by (simp add: get_tracking_def)
  from c show ?thesis
  proof (cases rule: cleanup_cases)
    case same
    with S' g assms(2) show ?thesis by auto
  next
    case (restored t e)
    with S' g assms(2) show ?thesis by auto
  next
    case (dropped t el view)
    have "gives_up E now i S" if "i = j" unfolding gives_up_def that
      by (rule exI [of _ t], rule exI [of _ el]) (use dropped True in auto)
    with dropped S' g assms(2) show ?thesis by (auto simp: drop_timed_out_def)
  qed
qed

lemma expire_each_gives_up:
  "expire_each F E now is S = (r, S') \<Longrightarrow> us_timed_out S i = None \<Longrightarrow> us_timed_out S' i \<noteq> None \<Longrightarrow>
   gives_up E now i S"
proof (induction "is" arbitrary: S)
  case (Cons j js)
  obtain x S1 where one: "expire_one F E now j S = (x, S1)" by fastforce
  note eff = expire_one_effect [OF one Cons.prems(2)]
  show ?case
  proof (cases "us_timed_out S1 i = None")
    case True
    with Cons.prems(1,3) one have "expire_each F E now js S1 = (r, S')"
      by (cases x) (auto simp: seqw_def)
    from Cons.IH [OF this True Cons.prems(3)] eff True gives_up_frame show ?thesis by metis
  qed (use eff in blast)
qed simp

text \<open>
  The sweep gives a rebalance up only in two cases: it is tracked as burned and its durable
  state is already reconciled, or it is tracked as not burned, no progress was seen for the whole
  timeout, and its durable state, if the store answered, is not an Alpaca withdrawal whose funds may
  have moved. In both cases no job that could still drive it is in the jobs table, and a failed lookup of
  the jobs or of the durable state gives nothing up.
\<close>

theorem sweep_gives_up_only_idle_rebalances:
  assumes "expire_stuck_usdc_rebalances F E now S = (r, S')"
    and "us_timed_out S i = None" "us_timed_out S' i \<noteq> None"
  shows "\<exists>t el. get_tracking S i = Some t \<and> elapsed_since_timeout_start (ut_last_progress_at t) now = Some el \<and>
    transfer_live_job_for_id E S i = Inr False \<and>
    (if is_post_burn t
     then \<exists>load s. ue_load E = Some load \<and> load i = Inr (Some s) \<and> is_reconciled s
     else ue_timeout E \<le> el \<and> (\<forall>load. ue_load E = Some load \<longrightarrow>
       load i = Inr None \<or> (\<exists>s. load i = Inr (Some s) \<and> alpaca_withdrawal s = None)))"
  using expire_each_gives_up [of F E now "expiry_candidates E now S" S r S' i] assms
  unfolding gives_up_def expire_stuck_usdc_rebalances_def by blast


text \<open>A rebalance towards Base that stopped in its conversion, last heard of at time 1.\<close>

definition demo_stuck :: "rat usdc_service" where
  "demo_stuck = demo_service\<lparr>us_in_progress := True, us_tracking := [(UsdcRebalanceId 7,
     \<lparr>ut_direction = AlpacaToBase, ut_initiated_amount = Usdc 5, ut_bridged_amount_received = None,
      ut_stage = StageConversionInitiated, ut_last_progress_at = 1\<rparr>)]\<rparr>"

lemma demo_release: "\<exists>view. release_inflight exact_rat now t (inventory_view_default 0) = Inr view"
  by (cases "ut_direction t") (simp_all add: release_inflight_def clear_usdc_inflight_def inventory_view_default_def
      set_inflight_def inventory_default_def with_last_rebalancing_def venue_or_default_def venue_defs
      venue_balance_default_def usdc_ZERO_def exact_rat_ops)

lemma demo_swept: "us_timed_out (snd (expire_stuck_usdc_rebalances exact_rat demo_env 200 demo_stuck)) (UsdcRebalanceId 7) \<noteq> None"
proof -
  obtain view where v: "release_inflight exact_rat 200 (snd (hd (us_tracking demo_stuck))) (inventory_view_default 0) = Inr view"
    using demo_release by blast
  show ?thesis
    using v by (simp add: expire_stuck_usdc_rebalances_def expiry_candidates_def demo_stuck_def demo_service_def demo_env_def
      elapsed_since_timeout_start_def is_post_burn_def expire_one_def transfer_live_job_for_id_def seqw_def
      cleanup_timed_out_usdc_rebalance_def cleanup_pre_burn_def get_tracking_def drop_timed_out_def)
qed

theorem sweep_gives_up_only_idle_rebalances_witness:
  "\<exists>t el. get_tracking demo_stuck (UsdcRebalanceId 7) = Some t \<and>
     elapsed_since_timeout_start (ut_last_progress_at t) 200 = Some el \<and> ue_timeout demo_env \<le> el"
proof -
  obtain r S' where run: "expire_stuck_usdc_rebalances exact_rat demo_env 200 demo_stuck = (r, S')" by fastforce
  with demo_swept have "us_timed_out S' (UsdcRebalanceId 7) \<noteq> None" by simp
  moreover have "us_timed_out demo_stuck (UsdcRebalanceId 7) = None" by (simp add: demo_stuck_def demo_service_def)
  moreover have "ue_load demo_env = None" by (simp add: demo_env_def)
  ultimately show ?thesis
    using sweep_gives_up_only_idle_rebalances [OF run, of "UsdcRebalanceId 7"] by (auto split: if_splits)
qed

text \<open>
  A rebalance towards the brokerage whose burn was broadcast and recorded, but not yet confirmed,
  is still tracked as not burned, because recording a burn moves no stage. If its job is gone for
  the length of the timeout, the sweep gives it up and frees the guard, although its durable state
  holds the guard and refuses to fail because the burn may have gone through.
\<close>

lemma sweep_drops_recorded_burn:
  assumes "get_tracking S i = Some t" and "\<not> is_post_burn t"
    and "elapsed_since_timeout_start (ut_last_progress_at t) now = Some el" and "ue_timeout E \<le> el"
    and "transfer_live_job_for_id E S i = Inr False"
    and "ue_load E = Some load" and "load i = Inr (Some s)"
    and "s = usdc_rebalance.BridgingSubmitting d a fb i0 ba (Some burn)"
    and "release_inflight F now t (us_inventory S) = Inr view"
  shows "\<not> us_in_progress (snd (expire_one F E now i S)) \<and> holds_rebalance_guard s \<and>
    (\<exists>e. transition_fail_bridging s r now = Inl e)"
  using assms by (auto simp: expire_one_def seqw_def cleanup_timed_out_usdc_rebalance_def cleanup_pre_burn_def
      drop_timed_out_def transition_fail_bridging_def)

lemma recorded_burn_stays_pre_burn:
  "us_timed_out S i = None \<Longrightarrow>
   get_tracking (snd (on_usdc_rebalance F now i (PendingBurnRecorded burn t) S)) i = get_tracking S i"
  by (simp add: on_usdc_rebalance_def seqw_def usdc_terminal_action_def)

text \<open>The flag is one for all: the terminal event of one rebalance frees it for every other.\<close>

lemma terminal_event_frees_shared_flag:
  assumes "us_timed_out S j = None" and "get_tracking S j = None"
  shows "\<not> us_in_progress (snd (on_usdc_rebalance F now j (usdc_rebalance_event.WithdrawalFailed r t) S))"
  using assms by (simp add: on_usdc_rebalance_def seqw_def usdc_terminal_action_def
      cancel_tracked_usdc_rebalance_def)

section \<open>Dispatch\<close>

text \<open>
  C24. The check that dispatches USDC transfers is exclusive: if it leaves the flag set although it
  was free after the sweep, then it enqueued exactly the job for the operation it had sized, under the fresh identifier,
  and the jobs table it added the job to held no transfer, in either direction, that was pending, queued,
  running or due for a retry.
\<close>

theorem dispatched_transfer_is_alone:
  assumes "check_and_trigger_usdc F minimum C E now fresh S = Some S'"
    and "S1 = snd (expire_stuck_operations F E now S)" "\<not> us_in_progress S1" "us_in_progress S'"
  shows "\<exists>threshold usdc_limit reserved op rows. usdc_rebalancing_params C = Some (threshold, usdc_limit, reserved) \<and>
    check_imbalance_and_build_operation F minimum threshold (us_inventory S1) usdc_limit reserved = Inr op \<and>
    free_of_transfers rows \<and>
    us_jobs S' = rows @ [case op of
      OpBaseToAlpaca amount \<Rightarrow> ue_row E TransferUsdcToHedging fresh amount
    | OpAlpacaToBase amount \<Rightarrow> ue_row E TransferUsdcToMarketMaking fresh amount]"
proof -
  have enq: "d \<Longrightarrow> \<exists>rows. free_of_transfers rows \<and> us_jobs S3 = rows @ [ue_row E job fresh a]"
    if "enqueue_transfer_usdc E job fresh a S2 = Some (d, S3)" for job a S2 d S3
    using that by (auto simp: enqueue_transfer_usdc_def Let_def push_transfer_def
        split: option.splits prod.splits sum.splits if_splits dest!: in_flight_none)
  from assms obtain threshold usdc_limit reserved op where
    p: "usdc_rebalancing_params C = Some (threshold, usdc_limit, reserved)"
    and op: "check_imbalance_and_build_operation F minimum threshold (us_inventory S1) usdc_limit reserved = Inr op"
    by (auto simp: check_and_trigger_usdc_def Let_def try_claim_usdc_guard_def clear_usdc_in_progress_def
        split: option.splits sum.splits)
  have "\<exists>rows. free_of_transfers rows \<and> us_jobs S' = rows @ [case op of
      OpBaseToAlpaca amount \<Rightarrow> ue_row E TransferUsdcToHedging fresh amount
    | OpAlpacaToBase amount \<Rightarrow> ue_row E TransferUsdcToMarketMaking fresh amount]"
    using assms p op
    by (cases op) (auto simp: check_and_trigger_usdc_def Let_def try_claim_usdc_guard_def clear_usdc_in_progress_def
        enqueue_transfer_usdc_to_hedging_def enqueue_transfer_usdc_to_market_making_def
        split: option.splits prod.splits if_splits dest!: enq)
  with p op show ?thesis by blast
qed


text \<open>
  The check always returns when no other writer touches the jobs table meanwhile: the lookup of a
  transfer in flight loops over the table, but every further turn kills one retryable row of a
  settled rebalance, so it ends whatever the table holds.
\<close>

theorem imbalance_check_returns:
  assumes "\<And>n rows. ue_workers E n rows = rows"
  shows "\<exists>S'. check_and_trigger_usdc F minimum C E now fresh S = Some S'"
proof -
  have "\<exists>r. enqueue_transfer_usdc E job fresh a S2 = Some r" for job a S2
    using in_flight_returns [OF assms, of 0 "us_jobs S2"] by (auto simp: enqueue_transfer_usdc_def Let_def)
  then have "enqueue_transfer_usdc E job fresh a S2 = None \<Longrightarrow> False" for job a S2 by (metis option.distinct(1))
  then show ?thesis
    by (auto simp: check_and_trigger_usdc_def Let_def enqueue_transfer_usdc_to_hedging_def
        enqueue_transfer_usdc_to_market_making_def split: option.split sum.split usdc_rebalance_operation.split)
qed

definition demo_usdc_config :: "rat usdc_config" where
  "demo_usdc_config = \<lparr>uc_usdc = Some \<lparr>it_target = 1 / 2, it_deviation = 1 / 20\<rparr>,
     uc_cash = Some (Some (Usdc 120), Some (Usd 150))\<rparr>"

definition demo_idle :: "rat usdc_service" where
  "demo_idle = demo_service\<lparr>us_inventory := demo_sizing_view\<rparr>"

theorem imbalance_check_returns_witness:
  "\<exists>S'. check_and_trigger_usdc (bounded_rat 1000000) (Usdc 51) demo_usdc_config demo_env 1 (UsdcRebalanceId 8) demo_idle = Some S'"
  by (rule imbalance_check_returns) (simp add: demo_env_def)

lemma demo_idle_sweep: "snd (expire_stuck_operations F demo_env now demo_idle) = demo_idle"
  by (simp add: expire_stuck_operations_def expire_stuck_usdc_rebalances_def expiry_candidates_def
      prune_timeout_markers_def demo_idle_def demo_service_def demo_env_def)

lemma demo_dispatch:
  "check_and_trigger_usdc (bounded_rat 1000000) (Usdc 51) demo_usdc_config demo_env 1 (UsdcRebalanceId 8) demo_idle =
   Some (demo_idle\<lparr>us_in_progress := True,
     us_jobs := [ue_row demo_env TransferUsdcToMarketMaking (UsdcRebalanceId 8) (Usdc 120)]\<rparr>)"
proof -
  have "in_flight_usdc_transfer demo_env 0 [] = Some (Inr None, [])"
    by (subst in_flight_usdc_transfer.simps) (simp add: oldest_live_transfer_def demo_env_def)
  moreover have "us_jobs demo_idle = []" "us_inventory demo_idle = demo_sizing_view" "\<not> us_in_progress demo_idle"
    by (simp_all add: demo_idle_def demo_service_def)
  moreover have "usdc_rebalancing_params demo_usdc_config =
      Some (\<lparr>it_target = 1 / 2, it_deviation = 1 / 20\<rparr>, Some (Usdc 120), Some (Usd 150))"
    by (simp add: usdc_rebalancing_params_def demo_usdc_config_def)
  moreover have "ue_push demo_env i = None" for i by (simp add: demo_env_def)
  ultimately show ?thesis
    by (simp add: check_and_trigger_usdc_def demo_idle_sweep try_claim_usdc_guard_def demo_sizing
        enqueue_transfer_usdc_to_market_making_def enqueue_transfer_usdc_def push_transfer_def)
qed

theorem dispatched_transfer_is_alone_witness:
  "\<exists>rows. free_of_transfers rows \<and>
     [ue_row demo_env TransferUsdcToMarketMaking (UsdcRebalanceId 8) (Usdc 120)] =
     rows @ [ue_row demo_env TransferUsdcToMarketMaking (UsdcRebalanceId 8) (Usdc 120)]"
proof -
  have "\<not> us_in_progress demo_idle" by (simp add: demo_idle_def demo_service_def)
  from dispatched_transfer_is_alone [OF demo_dispatch demo_idle_sweep [symmetric] this]
  show ?thesis by (auto simp: demo_idle_sweep usdc_rebalancing_params_def demo_usdc_config_def demo_idle_def demo_sizing)
qed

text \<open>No candidate the startup recovery re-arms reaches one of its \<^verbatim>\<open>unreachable!\<close> arms.\<close>

lemma recovery_arms_reachable:
  "resumable_post_burn_transfer s \<noteq> None \<Longrightarrow> post_burn_policy s \<noteq> None"
  "is_resumable_mid_flight_data s \<noteq> None \<Longrightarrow> mid_flight_policy s \<noteq> None"
  by (cases s rule: resumable_post_burn_transfer.cases; simp)
    (cases s rule: is_resumable_mid_flight_data.cases; simp)

lemma rearm_no_panic:
  "rearm_stranded_transfers E cs S = (r, S') \<Longrightarrow> r \<noteq> Inl UnreachableReached"
  by (induction cs arbitrary: S r S')
    (auto simp: seqw_def retw_def push_transfer_def split: sum.splits prod.splits if_splits option.splits)

lemma classify_no_panic: "classify_candidate E S i s acc \<noteq> Inl UnreachableReached"
  using recovery_arms_reachable [of s]
  by (auto simp: classify_candidate_def note_rearm_def Let_def tryr_eq_Inl split: option.splits if_splits)

lemma classify_all_no_panic: "classify_candidates E S load ids acc \<noteq> Inl UnreachableReached"
  by (induction ids arbitrary: acc)
    (auto simp: tryr_eq_Inl classify_no_panic split: sum.splits option.splits)

text \<open>
  Startup recovery never panics: whatever candidates the query reports and whatever the
  store loads, no rebalance reaches the arms of the recovery that the code marks unreachable.
\<close>

theorem recovery_never_panics:
  "fst (recover_usdc_guard E query load S) \<noteq> Inl UnreachableReached"
proof -
  have "rearm_stranded_transfers E cs S = (Inl UnreachableReached, S') \<Longrightarrow> False" for cs S'
    using rearm_no_panic by blast
  then show ?thesis
    by (auto simp: recover_usdc_guard_def seqw_def Let_def classify_all_no_panic
        split: sum.splits prod.splits if_splits dest: classify_all_no_panic [THEN notE])
qed

end
