(* ===== verification/Evm_Nonces.thy ===== *)
theory Evm_Nonces
  imports Node_Sync Decimal_Text "HOL-Library.AList"
begin

text \<open>
  The nonce bookkeeping of a wallet (\<^verbatim>\<open>crates/evm\<close>): what the rejections of a node say about
  nonces, the cache of the next nonce (\<^verbatim>\<open>nonce.rs\<close>), and the record of the transactions the
  wallet has broadcast and not yet seen confirmed or dropped (\<^verbatim>\<open>inflight_nonces.rs\<close>).
  A \<^verbatim>\<open>DashMap\<close> of addresses is a map; the hash maps that are swept by age are association
  lists with distinct keys. The mutexes of the cache serialise its operations, so each is one step.
\<close>

section \<open>Rejections of the node\<close>

fun as_error_resp :: "rpc_error \<Rightarrow> (int \<times> string) option" where
  "as_error_resp (ErrorResp code message) = Some (code, message)"
| "as_error_resp (RpcFailure _) = None"

fun nonce_too_low_payload :: "evm_error \<Rightarrow> string option" where
  "nonce_too_low_payload (Transport rpc_error) =
     (case as_error_resp rpc_error of
        None \<Rightarrow> None
      | Some (_, message) \<Rightarrow> if str_contains ''nonce too low'' message then Some message else None)"
| "nonce_too_low_payload _ = None"

definition is_nonce_too_low :: "evm_error \<Rightarrow> bool" where
  "is_nonce_too_low error \<longleftrightarrow> nonce_too_low_payload error \<noteq> None"

fun is_replacement_underpriced :: "evm_error \<Rightarrow> bool" where
  "is_replacement_underpriced (Transport rpc_error) =
     (case as_error_resp rpc_error of
        None \<Rightarrow> False
      | Some (_, message) \<Rightarrow> str_contains ''replacement transaction underpriced'' message)"
| "is_replacement_underpriced _ = False"

fun is_transaction_dropped :: "evm_error \<Rightarrow> bool" where
  "is_transaction_dropped (TransactionDropped _ _) = True"
| "is_transaction_dropped _ = False"

text \<open>
  \<^verbatim>\<open>str::split_once\<close> cuts at the first occurrence of the pattern; the first piece of
  \<^verbatim>\<open>split([',', ' '])\<close> runs to the first of the two delimiters. \<^verbatim>\<open>u64::from_str\<close> on a
  string of decimal digits fails exactly on overflow.
\<close>

fun split_once :: "string \<Rightarrow> string \<Rightarrow> (string \<times> string) option" where
  "split_once pat s =
     (if take (length pat) s = pat then Some ([], drop (length pat) s)
      else case s of [] \<Rightarrow> None | c # cs \<Rightarrow> map_option (map_prod (Cons c) id) (split_once pat cs))"

declare split_once.simps [simp del]

definition parse_u64 :: "string \<Rightarrow> u64 option" where
  "parse_u64 s = (if decimal_value s < 2 ^ 64 then Some (of_nat (decimal_value s)) else None)"

definition next_nonce_hint :: "evm_error \<Rightarrow> u64 option" where
  "next_nonce_hint error =
     (case nonce_too_low_payload error of None \<Rightarrow> None
      | Some message \<Rightarrow> (case split_once ''next nonce '' message of None \<Rightarrow> None
        | Some (_, tail) \<Rightarrow>
            let token = takeWhile (\<lambda>c. c \<noteq> CHR '','' \<and> c \<noteq> CHR '' '') tail in
            if token = [] \<or> \<not> list_all is_ascii_digit token then None else parse_u64 token))"

section \<open>The nonce cache\<close>

text \<open>
  Each entry is the nonce the next send from the address should use, or \<open>None\<close> when it must be
  fetched. A cache miss reads the \<^verbatim>\<open>latest\<close> transaction count, a parameter here.
\<close>

type_synonym nonce_manager = "address \<rightharpoonup> u64 option"

definition invalidate :: "nonce_manager \<Rightarrow> nonce_manager" where
  "invalidate m = Map.empty"

definition slot :: "nonce_manager \<Rightarrow> address \<Rightarrow> nonce_manager" where
  "slot m a = (case m a of None \<Rightarrow> m(a \<mapsto> None) | Some _ \<Rightarrow> m)"

definition set_next_nonce :: "nonce_manager \<Rightarrow> address \<Rightarrow> u64 \<Rightarrow> nonce_manager" where
  "set_next_nonce m a n = (slot m a)(a \<mapsto> Some n)"

definition peek_next_nonce :: "nonce_manager \<Rightarrow> address \<Rightarrow> u64 option" where
  "peek_next_nonce m a = (case m a of None \<Rightarrow> None | Some cached \<Rightarrow> cached)"

definition get_next_nonce ::
  "(address \<Rightarrow> 'w \<Rightarrow> (rpc_error + u64) \<times> 'w) \<Rightarrow> nonce_manager \<Rightarrow> address \<Rightarrow> 'w \<Rightarrow>
   (rpc_error + u64) \<times> nonce_manager \<times> 'w" where
  "get_next_nonce latest m a w =
     (let m1 = slot m a;
          (fetched, w1) = (case peek_next_nonce m1 a of Some next_nonce \<Rightarrow> (Inr next_nonce, w) | None \<Rightarrow> latest a w)
      in case fetched of
           Inl error \<Rightarrow> (Inl error, m1, w1)
         | Inr next_nonce \<Rightarrow> (Inr next_nonce, m1(a \<mapsto> Some (saturating_add next_nonce 1)), w1))"

section \<open>The record of transactions in flight\<close>

text \<open>Instants are seconds. \<^verbatim>\<open>duration_since\<close> saturates at zero, as subtraction on \<open>nat\<close> does.\<close>

definition MAX_IN_FLIGHT_AGE :: nat where
  "MAX_IN_FLIGHT_AGE = 24 * 60 * 60"

datatype nonce_ownership = Ours | Unknown

type_synonym per_nonce = "(u64 \<times> (tx_hash \<times> nat) list) list"
type_synonym in_flight = "address \<rightharpoonup> per_nonce"

definition retain_hashes :: "(tx_hash \<Rightarrow> nat \<Rightarrow> bool) \<Rightarrow> per_nonce \<Rightarrow> per_nonce" where
  "retain_hashes keep p =
     filter (\<lambda>(_, hs). hs \<noteq> []) (map (\<lambda>(n, hs). (n, filter (\<lambda>(h, t). keep h t) hs)) p)"

definition prune_stale :: "nat \<Rightarrow> per_nonce \<Rightarrow> per_nonce" where
  "prune_stale now p = retain_hashes (\<lambda>_ submitted_at. now - submitted_at < MAX_IN_FLIGHT_AGE) p"

definition record_in_flight :: "nat \<Rightarrow> in_flight \<Rightarrow> address \<Rightarrow> u64 \<Rightarrow> tx_hash \<Rightarrow> in_flight" where
  "record_in_flight now F a n h =
     (let p = prune_stale now (case F a of None \<Rightarrow> [] | Some p \<Rightarrow> p);
          hs = (case map_of p n of None \<Rightarrow> [] | Some hs \<Rightarrow> hs)
      in F(a \<mapsto> AList.update n (AList.update h now hs) p))"

definition release_hash :: "in_flight \<Rightarrow> address \<Rightarrow> tx_hash \<Rightarrow> in_flight" where
  "release_hash F a h =
     (case F a of None \<Rightarrow> F | Some p \<Rightarrow> F(a \<mapsto> retain_hashes (\<lambda>h' _. h' \<noteq> h) p))"

definition release_nonce_for_hash :: "in_flight \<Rightarrow> address \<Rightarrow> tx_hash \<Rightarrow> in_flight" where
  "release_nonce_for_hash F a h =
     (case F a of None \<Rightarrow> F | Some p \<Rightarrow> F(a \<mapsto> filter (\<lambda>(_, hs). map_of hs h = None) p))"

definition ownership :: "nat \<Rightarrow> in_flight \<Rightarrow> address \<Rightarrow> u64 \<Rightarrow> nonce_ownership \<times> in_flight" where
  "ownership now F a n =
     (case F a of
        None \<Rightarrow> (Unknown, F)
      | Some p \<Rightarrow> let p' = prune_stale now p in
          (if map_of p' n \<noteq> None then Ours else Unknown, F(a \<mapsto> p')))"

definition release_in_flight_after_wait ::
  "in_flight \<Rightarrow> address \<Rightarrow> tx_hash \<Rightarrow> evm_error + 'r \<Rightarrow> in_flight" where
  "release_in_flight_after_wait F a h result =
     (case result of
        Inr _ \<Rightarrow> release_nonce_for_hash F a h
      | Inl error \<Rightarrow> if is_transaction_dropped error then release_hash F a h else F)"

section \<open>The parsed hint\<close>

lemma takeWhile_decimal: "takeWhile (\<lambda>c. c \<noteq> CHR '','' \<and> c \<noteq> CHR '' '') (decimal n @ CHR '','' # t) = decimal n"
proof -
  have "\<not> is_ascii_digit CHR '',''" "\<not> is_ascii_digit CHR '' ''" by (simp_all add: is_ascii_digit_def)
  then have "\<forall>c\<in>set (decimal n). c \<noteq> CHR '','' \<and> c \<noteq> CHR '' ''"
    using decimal_digits [of n] by (auto simp: list_all_iff)
  then show ?thesis by (simp add: takeWhile_append)
qed

text \<open>
  go-ethereum's rejection, whose format the source documents:
  \<^verbatim>\<open>nonce too low: next nonce N, tx nonce M\<close>.
\<close>

definition geth_nonce_too_low :: "int \<Rightarrow> u64 \<Rightarrow> u64 \<Rightarrow> evm_error" where
  "geth_nonce_too_low code next_nonce tx_nonce = Transport (ErrorResp code
     (''nonce too low: next nonce '' @ decimal (unat next_nonce) @ '', tx nonce '' @ decimal (unat tx_nonce)))"

lemma str_contains_prefix: "take (length needle) hay = needle \<Longrightarrow> str_contains needle hay"
  unfolding str_contains_def by (rule bexI [of _ 0]) auto

text \<open>
  The hint survives the round trip through the node's message: a rejection in go-ethereum's
  format is recognised as a nonce that is too low, and the parsed hint is the nonce the node
  printed, whatever the two nonces are.
\<close>

theorem next_nonce_hint_of_geth_rejection:
  "is_nonce_too_low (geth_nonce_too_low code next_nonce tx_nonce)
   \<and> next_nonce_hint (geth_nonce_too_low code next_nonce tx_nonce) = Some next_nonce"
proof -
  let ?t = "decimal (unat next_nonce) @ '', tx nonce '' @ decimal (unat tx_nonce)"
  let ?m = "''nonce too low: next nonce '' @ ?t"
  have "str_contains ''nonce too low'' ?m" by (rule str_contains_prefix) simp
  moreover have "split_once ''next nonce '' ?m = Some (''nonce too low: '', ?t)"
    by (simp add: split_once.simps)
  moreover have "takeWhile (\<lambda>c. c \<noteq> CHR '','' \<and> c \<noteq> CHR '' '') ?t = decimal (unat next_nonce)"
    using takeWhile_decimal [of "unat next_nonce"] by simp
  moreover have "parse_u64 (decimal (unat next_nonce)) = Some next_nonce"
    using unat_bound [of next_nonce] by (simp add: parse_u64_def decimal_value_decimal)
  ultimately show ?thesis
    by (simp add: geth_nonce_too_low_def is_nonce_too_low_def next_nonce_hint_def decimal_digits)
qed

section \<open>What the record promises\<close>

definition seen_at :: "in_flight \<Rightarrow> address \<Rightarrow> u64 \<Rightarrow> tx_hash \<Rightarrow> nat option" where
  "seen_at F a n h =
     (case F a of None \<Rightarrow> None | Some p \<Rightarrow> (case map_of p n of None \<Rightarrow> None | Some hs \<Rightarrow> map_of hs h))"

definition wf_per_nonce :: "per_nonce \<Rightarrow> bool" where
  "wf_per_nonce p \<longleftrightarrow> distinct (map fst p) \<and> list_all (\<lambda>(_, hs). hs \<noteq> [] \<and> distinct (map fst hs)) p"

definition wf_in_flight :: "in_flight \<Rightarrow> bool" where
  "wf_in_flight F \<longleftrightarrow> (\<forall>a p. F a = Some p \<longrightarrow> wf_per_nonce p)"

lemma wf_per_nonce_Nil [simp]: "wf_per_nonce []"
  by (simp add: wf_per_nonce_def)

lemma wf_per_nonce_lookup: "wf_per_nonce p \<Longrightarrow> map_of p n = Some hs \<Longrightarrow> hs \<noteq> [] \<and> distinct (map fst hs)"
  by (drule map_of_SomeD) (auto simp: wf_per_nonce_def list_all_iff)

lemma distinct_fst_filter: "distinct (map fst xs) \<Longrightarrow> distinct (map fst (filter P xs))"
  by (induction xs) (auto simp: image_iff)

lemma map_of_filter_pairs:
  "distinct (map fst hs) \<Longrightarrow>
   map_of (filter (\<lambda>(k, v). keep k v) hs) k =
     (case map_of hs k of None \<Rightarrow> None | Some v \<Rightarrow> if keep k v then Some v else None)"
proof (induction hs)
  case (Cons x hs)
  have "map_of hs (fst x) = None" using Cons.prems by (simp add: map_of_eq_None_iff)
  with Cons show ?case by (cases x) auto
qed simp

lemma map_of_retain_hashes:
  "distinct (map fst p) \<Longrightarrow>
   map_of (retain_hashes keep p) n =
     (case map_of p n of None \<Rightarrow> None
      | Some hs \<Rightarrow> let hs' = filter (\<lambda>(h, t). keep h t) hs in if hs' = [] then None else Some hs')"
proof (induction p)
  case Nil
  then show ?case by (simp add: retain_hashes_def)
next
  case (Cons x p)
  have "map_of p (fst x) = None" using Cons.prems by (simp add: map_of_eq_None_iff)
  with Cons show ?case by (cases x) (auto simp: retain_hashes_def Let_def)
qed

lemma wf_retain_hashes: "wf_per_nonce p \<Longrightarrow> wf_per_nonce (retain_hashes keep p)"
  unfolding wf_per_nonce_def retain_hashes_def
  by (induction p) (auto simp: list_all_iff distinct_fst_filter image_iff)

lemma wf_filter: "wf_per_nonce p \<Longrightarrow> wf_per_nonce (filter P p)"
  by (auto simp: wf_per_nonce_def list_all_iff distinct_fst_filter)

lemma lookup_retain_hashes:
  assumes "wf_per_nonce p"
  shows "(case map_of (retain_hashes keep p) n of None \<Rightarrow> None | Some hs \<Rightarrow> map_of hs h) =
         (case map_of p n of None \<Rightarrow> None
          | Some hs \<Rightarrow> (case map_of hs h of None \<Rightarrow> None | Some t \<Rightarrow> if keep h t then Some t else None))"
proof (cases "map_of p n")
  case (Some hs)
  then have "distinct (map fst hs)" using assms wf_per_nonce_lookup by blast
  note look = map_of_filter_pairs [OF this, of keep h]
  have "distinct (map fst p)" using assms by (simp add: wf_per_nonce_def)
  with Some look show ?thesis
    by (cases "filter (\<lambda>(h, t). keep h t) hs = []") (simp_all add: map_of_retain_hashes Let_def)
qed (use assms in \<open>simp add: map_of_retain_hashes wf_per_nonce_def\<close>)

text \<open>The four operations, as updates of the recorded instants.\<close>

definition still_fresh :: "nat \<Rightarrow> nat option \<Rightarrow> nat option" where
  "still_fresh now r = (case r of None \<Rightarrow> None | Some t \<Rightarrow> if now - t < MAX_IN_FLIGHT_AGE then Some t else None)"

lemma still_fresh_Some: "now < t + MAX_IN_FLIGHT_AGE \<Longrightarrow> still_fresh now (Some t) = Some t"
  by (auto simp: still_fresh_def MAX_IN_FLIGHT_AGE_def)

lemma wf_prune_stale: "wf_per_nonce p \<Longrightarrow> wf_per_nonce (prune_stale now p)"
  by (simp add: prune_stale_def wf_retain_hashes)

lemma lookup_prune_stale:
  "wf_per_nonce p \<Longrightarrow>
   (case map_of (prune_stale now p) n of None \<Rightarrow> None | Some hs \<Rightarrow> map_of hs h) =
   still_fresh now (case map_of p n of None \<Rightarrow> None | Some hs \<Rightarrow> map_of hs h)"
  by (simp add: prune_stale_def lookup_retain_hashes still_fresh_def split: option.split)

lemma wf_update:
  assumes "wf_per_nonce p" and "hs \<noteq> []" and "distinct (map fst hs)"
  shows "wf_per_nonce (AList.update n hs p)"
proof -
  have "set (AList.update n hs p) \<subseteq> insert (n, hs) (set p)"
    by (induction p) auto
  with assms show ?thesis
    by (auto simp: wf_per_nonce_def list_all_iff distinct_update)
qed

lemma update_nonempty [simp]: "AList.update k v xs \<noteq> []"
  by (cases xs) auto

lemma record_in_flight_wf: "wf_in_flight F \<Longrightarrow> wf_in_flight (record_in_flight now F a n h)"
proof -
  assume wf: "wf_in_flight F"
  define p where "p = prune_stale now (case F a of None \<Rightarrow> [] | Some p \<Rightarrow> p)"
  have wp: "wf_per_nonce p"
    using wf by (auto simp: p_def wf_in_flight_def wf_prune_stale split: option.split)
  have "distinct (map fst (case map_of p n of None \<Rightarrow> [] | Some hs \<Rightarrow> hs))"
    using wf_per_nonce_lookup [OF wp] by (auto split: option.split)
  then have "wf_per_nonce (AList.update n (AList.update h now (case map_of p n of None \<Rightarrow> [] | Some hs \<Rightarrow> hs)) p)"
    using wp by (intro wf_update distinct_update) simp_all
  with wf show ?thesis by (auto simp: wf_in_flight_def record_in_flight_def p_def [symmetric] Let_def)
qed

lemma record_in_flight_seen:
  assumes wf: "wf_in_flight F"
  shows "seen_at (record_in_flight now F a n h) a' n' h' =
           (if (a', n', h') = (a, n, h) then Some now
            else if a' = a then still_fresh now (seen_at F a n' h') else seen_at F a' n' h')"
proof -
  define p where "p = (case F a of None \<Rightarrow> [] | Some p \<Rightarrow> p)"
  have wp: "wf_per_nonce p" using wf by (auto simp: p_def wf_in_flight_def split: option.split)
  have seen: "seen_at F a n' h' = (case map_of p n' of None \<Rightarrow> None | Some hs \<Rightarrow> map_of hs h')"
    by (simp add: seen_at_def p_def split: option.split)
  note pruned = lookup_prune_stale [OF wp, where now = now and n = n' and h = h', folded seen]
  show ?thesis
  proof (cases "a' = a \<and> n' = n")
    case True
    with pruned show ?thesis
      by (auto simp: record_in_flight_def p_def [symmetric] Let_def seen_at_def [of "F(a \<mapsto> _)"] update_conv'
               split: option.splits)
  next
    case False
    with pruned show ?thesis
      by (auto simp: record_in_flight_def p_def [symmetric] Let_def seen_at_def [of "F(a \<mapsto> _)"] update_conv'
               seen_at_def [of F a'])
  qed
qed

lemma release_hash_seen:
  "wf_in_flight F \<Longrightarrow>
   seen_at (release_hash F a h) a' n' h' = (if a' = a \<and> h' = h then None else seen_at F a' n' h')"
  by (auto simp: release_hash_def seen_at_def wf_in_flight_def lookup_retain_hashes split: option.splits)

lemma release_hash_wf: "wf_in_flight F \<Longrightarrow> wf_in_flight (release_hash F a h)"
  by (auto simp: release_hash_def wf_in_flight_def wf_retain_hashes split: option.splits)

lemma release_nonce_for_hash_seen:
  "wf_in_flight F \<Longrightarrow>
   seen_at (release_nonce_for_hash F a h) a' n' h' =
     (if a' = a \<and> seen_at F a n' h \<noteq> None then None else seen_at F a' n' h')"
  by (auto simp: release_nonce_for_hash_def seen_at_def wf_in_flight_def wf_per_nonce_def
        map_of_filter_pairs [where keep = "\<lambda>_ hs. map_of hs h = None"] split: option.splits)

lemma release_nonce_for_hash_wf: "wf_in_flight F \<Longrightarrow> wf_in_flight (release_nonce_for_hash F a h)"
  by (auto simp: release_nonce_for_hash_def wf_in_flight_def wf_filter split: option.splits)

lemma ownership_wf: "wf_in_flight F \<Longrightarrow> wf_in_flight (snd (ownership now F a n))"
  by (auto simp: ownership_def Let_def wf_in_flight_def wf_prune_stale split: option.splits)

lemma ownership_seen:
  "wf_in_flight F \<Longrightarrow>
   seen_at (snd (ownership now F a n)) a' n' h' =
     (if a' = a then still_fresh now (seen_at F a n' h') else seen_at F a' n' h')"
  by (auto simp: ownership_def Let_def seen_at_def wf_in_flight_def lookup_prune_stale still_fresh_def
        split: option.splits)

lemma ownership_Ours:
  assumes "wf_in_flight F"
  shows "fst (ownership now F a n) = Ours \<longleftrightarrow> (\<exists>h. still_fresh now (seen_at F a n h) \<noteq> None)"
proof (cases "F a")
  case None
  then show ?thesis by (simp add: ownership_def seen_at_def still_fresh_def)
next
  case (Some p)
  then have wp: "wf_per_nonce p" using assms by (simp add: wf_in_flight_def)
  note look = lookup_prune_stale [OF wp, where now = now and n = n]
  have "map_of (prune_stale now p) n = Some hs \<Longrightarrow> \<exists>h t. map_of hs h = Some t" for hs
    using wf_per_nonce_lookup [OF wf_prune_stale [OF wp]] by (cases hs) fastforce+
  with look Some show ?thesis
    by (cases "map_of (prune_stale now p) n") (auto simp: ownership_def Let_def seen_at_def)
qed

section \<open>The record as an interface\<close>

text \<open>
  What the send path and the receipt waits rely on: each operation of the record in terms of the
  instants it shows, whatever the maps are.
\<close>

locale in_flight_ledger =
  fixes wf :: "'s \<Rightarrow> bool"
    and seen :: "'s \<Rightarrow> address \<Rightarrow> u64 \<Rightarrow> tx_hash \<Rightarrow> nat option"
    and note_sent :: "nat \<Rightarrow> 's \<Rightarrow> address \<Rightarrow> u64 \<Rightarrow> tx_hash \<Rightarrow> 's"
    and query :: "nat \<Rightarrow> 's \<Rightarrow> address \<Rightarrow> u64 \<Rightarrow> nonce_ownership \<times> 's"
    and mined :: "'s \<Rightarrow> address \<Rightarrow> tx_hash \<Rightarrow> 's"
    and dropped :: "'s \<Rightarrow> address \<Rightarrow> tx_hash \<Rightarrow> 's"
  assumes wf_note_sent: "wf F \<Longrightarrow> wf (note_sent now F a n h)"
    and wf_query: "wf F \<Longrightarrow> wf (snd (query now F a n))"
    and wf_mined: "wf F \<Longrightarrow> wf (mined F a h)"
    and wf_dropped: "wf F \<Longrightarrow> wf (dropped F a h)"
    and seen_note_sent: "wf F \<Longrightarrow> seen (note_sent now F a n h) a' n' h' =
          (if (a', n', h') = (a, n, h) then Some now
           else if a' = a then still_fresh now (seen F a n' h') else seen F a' n' h')"
    and seen_query: "wf F \<Longrightarrow> seen (snd (query now F a n)) a' n' h' =
          (if a' = a then still_fresh now (seen F a n' h') else seen F a' n' h')"
    and seen_mined: "wf F \<Longrightarrow> seen (mined F a h) a' n' h' =
          (if a' = a \<and> seen F a n' h \<noteq> None then None else seen F a' n' h')"
    and seen_dropped: "wf F \<Longrightarrow> seen (dropped F a h) a' n' h' =
          (if a' = a \<and> h' = h then None else seen F a' n' h')"
    and query_Ours: "wf F \<Longrightarrow> fst (query now F a n) = Ours \<longleftrightarrow> (\<exists>h. still_fresh now (seen F a n h) \<noteq> None)"
begin

text \<open>An entry that is younger than the age limit is owned, and is kept by every sweep.\<close>

lemma owned_while_fresh:
  "wf F \<Longrightarrow> seen F a n h = Some t \<Longrightarrow> now < t + MAX_IN_FLIGHT_AGE \<Longrightarrow> fst (query now F a n) = Ours"
  by (auto simp: query_Ours still_fresh_Some intro!: exI [of _ h])

lemma kept_by_note_sent:
  "wf F \<Longrightarrow> seen F a n h = Some t \<Longrightarrow> t0 \<le> t \<Longrightarrow> t0 \<le> now \<Longrightarrow> now < t0 + MAX_IN_FLIGHT_AGE \<Longrightarrow>
   \<exists>t'. seen (note_sent now F a' n' h') a n h = Some t' \<and> t0 \<le> t'"
  by (auto simp: seen_note_sent still_fresh_Some)

lemma kept_by_query:
  "wf F \<Longrightarrow> seen F a n h = Some t \<Longrightarrow> now < t + MAX_IN_FLIGHT_AGE \<Longrightarrow>
   seen (snd (query now F a' n')) a n h = Some t"
  by (auto simp: seen_query still_fresh_Some)

text \<open>A mined transaction frees its whole nonce, a dropped one only its own entry.\<close>

lemma mined_frees: "wf F \<Longrightarrow> seen F a n h = Some t \<Longrightarrow> fst (query now (mined F a h) a n) = Unknown"
  using query_Ours [OF wf_mined, of F now a h a n]
  by (cases "fst (query now (mined F a h) a n)") (auto simp: seen_mined still_fresh_def)

lemma dropped_keeps_replacement:
  "wf F \<Longrightarrow> seen F a n h = Some t \<Longrightarrow> h' \<noteq> h \<Longrightarrow> now < t + MAX_IN_FLIGHT_AGE \<Longrightarrow>
   fst (query now (dropped F a h') a n) = Ours"
  by (rule owned_while_fresh [OF wf_dropped]) (auto simp: seen_dropped)

end

interpretation ledger: in_flight_ledger wf_in_flight seen_at record_in_flight ownership
  release_nonce_for_hash release_hash
  by unfold_locales
    (simp_all add: record_in_flight_wf ownership_wf release_nonce_for_hash_wf release_hash_wf
       record_in_flight_seen ownership_seen release_nonce_for_hash_seen release_hash_seen ownership_Ours)

text \<open>The operations of the record in the order a process performs them, each at an instant.\<close>

datatype ledger_op =
    Recorded address u64 tx_hash
  | Queried address u64
  | Waited address tx_hash "evm_error + unit"

fun ledger_step :: "in_flight \<Rightarrow> nat \<times> ledger_op \<Rightarrow> in_flight" where
  "ledger_step F (now, Recorded a n h) = record_in_flight now F a n h"
| "ledger_step F (now, Queried a n) = snd (ownership now F a n)"
| "ledger_step F (now, Waited a h result) = release_in_flight_after_wait F a h result"

definition run_ledger :: "(nat \<times> ledger_op) list \<Rightarrow> in_flight \<Rightarrow> in_flight" where
  "run_ledger ops F = foldl ledger_step F ops"

text \<open>
  An operation leaves the fate of hash \<open>h\<close> at a nonce open when it is no wait that found \<open>h\<close>
  dropped and none that found one of the nonce's hashes \<open>H\<close> mined.
\<close>

fun undecided :: "address \<Rightarrow> tx_hash \<Rightarrow> tx_hash set \<Rightarrow> ledger_op \<Rightarrow> bool" where
  "undecided a h H (Waited a' h' result) \<longleftrightarrow>
     a' = a \<longrightarrow> (case result of Inr _ \<Rightarrow> h' \<notin> H | Inl error \<Rightarrow> is_transaction_dropped error \<longrightarrow> h' \<noteq> h)"
| "undecided a h H _ \<longleftrightarrow> True"

definition nonce_hashes :: "in_flight \<Rightarrow> (nat \<times> ledger_op) list \<Rightarrow> address \<Rightarrow> u64 \<Rightarrow> tx_hash set" where
  "nonce_hashes F ops a n = {h. seen_at F a n h \<noteq> None} \<union> {h. \<exists>now. (now, Recorded a n h) \<in> set ops}"

lemma ledger_step_wf: "wf_in_flight F \<Longrightarrow> wf_in_flight (ledger_step F op)"
  by (cases "(F, op)" rule: ledger_step.cases)
     (auto simp: release_in_flight_after_wait_def ledger.wf_note_sent ledger.wf_query ledger.wf_mined
        ledger.wf_dropped split: sum.split)

lemma ledger_step_hashes:
  assumes "wf_in_flight F" and "seen_at (ledger_step F (now, op)) a n h \<noteq> None"
  shows "seen_at F a n h \<noteq> None \<or> op = Recorded a n h"
  using assms
  by (cases op) (auto simp: release_in_flight_after_wait_def ledger.seen_note_sent ledger.seen_query
      ledger.seen_mined ledger.seen_dropped still_fresh_def split: sum.splits if_splits option.splits)

lemma ledger_step_keeps:
  assumes "wf_in_flight F" and "seen_at F a n h = Some t" and "t0 \<le> t"
    and "t0 \<le> now" and "now < t0 + MAX_IN_FLIGHT_AGE"
    and "undecided a h H op" and "{h. seen_at F a n h \<noteq> None} \<subseteq> H"
  shows "\<exists>t'. seen_at (ledger_step F (now, op)) a n h = Some t' \<and> t0 \<le> t'"
proof (cases op)
  case (Recorded a' n' h')
  with assms show ?thesis using ledger.kept_by_note_sent by simp
next
  case (Queried a' n')
  with assms show ?thesis by (simp add: ledger.kept_by_query)
next
  case (Waited a' h' result)
  with assms show ?thesis
    by (cases result) (auto simp: release_in_flight_after_wait_def ledger.seen_mined ledger.seen_dropped)
qed

lemma run_ledger_keeps:
  assumes "wf_in_flight F" and "seen_at F a n h = Some t" and "t0 \<le> t"
    and "\<forall>(now, op)\<in>set ops. t0 \<le> now \<and> now < t0 + MAX_IN_FLIGHT_AGE \<and> undecided a h H op"
    and "{h. seen_at F a n h \<noteq> None} \<subseteq> H" and "{h. \<exists>now. (now, Recorded a n h) \<in> set ops} \<subseteq> H"
  shows "wf_in_flight (run_ledger ops F) \<and> (\<exists>t'. seen_at (run_ledger ops F) a n h = Some t' \<and> t0 \<le> t')"
  using assms
proof (induction ops arbitrary: F t)
  case (Cons x ops)
  obtain now op where x: "x = (now, op)" by force
  obtain t' where t': "seen_at (ledger_step F x) a n h = Some t'" "t0 \<le> t'"
    using ledger_step_keeps [of F a n h t t0 now H op] Cons.prems x by auto
  have "{h. seen_at (ledger_step F x) a n h \<noteq> None} \<subseteq> H"
  proof
    fix h' assume "h' \<in> {h. seen_at (ledger_step F x) a n h \<noteq> None}"
    then have "seen_at F a n h' \<noteq> None \<or> op = Recorded a n h'"
      using ledger_step_hashes [OF Cons.prems(1)] x by simp
    then show "h' \<in> H" using Cons.prems(5,6) x by auto
  qed
  with Cons.IH [OF ledger_step_wf t'] Cons.prems show ?case by (auto simp: run_ledger_def)
qed (auto simp: run_ledger_def)

text \<open>
  C28. A transaction the wallet has broadcast stays its own: through any sequence of further sends,
  ownership queries and receipt waits within the age limit, the nonce is answered as the wallet's
  own, unless a wait found this transaction dropped or one of the transactions recorded at the
  nonce mined. A wait that timed out, in particular, releases nothing.
\<close>

theorem broadcast_nonce_owned_until_decided:
  assumes "wf_in_flight F"
    and "seen_at F a n h = Some t"
    and "\<forall>(now, op)\<in>set ops. t \<le> now \<and> now < t + MAX_IN_FLIGHT_AGE
           \<and> undecided a h (nonce_hashes F ops a n) op"
    and "now < t + MAX_IN_FLIGHT_AGE"
  shows "fst (ownership now (run_ledger ops F) a n) = Ours"
proof -
  obtain t' where "wf_in_flight (run_ledger ops F)" "seen_at (run_ledger ops F) a n h = Some t'" "t \<le> t'"
    using run_ledger_keeps [OF assms(1,2) order_refl assms(3)] by (auto simp: nonce_hashes_def)
  with assms(4) show ?thesis using ledger.owned_while_fresh by simp
qed

definition demo_ledger_ops :: "(nat \<times> ledger_op) list" where
  "demo_ledger_ops = [(10, Recorded 1 7 200), (20, Waited 1 100 (Inl (ReceiptTimeout 100 300))),
     (400, Queried 1 7), (500, Waited 1 200 (Inl (TransactionDropped 200 30)))]"

theorem broadcast_nonce_owned_until_decided_witness:
  "fst (ownership 600 (run_ledger demo_ledger_ops (record_in_flight 0 Map.empty 1 7 100)) 1 7) = Ours"
proof (rule broadcast_nonce_owned_until_decided [where h = 100 and t = 0])
  let ?F = "record_in_flight 0 Map.empty 1 7 100"
  have wf: "wf_in_flight Map.empty" by (simp add: wf_in_flight_def)
  show "wf_in_flight ?F" using wf by (rule record_in_flight_wf)
  show "seen_at ?F 1 7 100 = Some 0" using wf by (simp add: record_in_flight_seen)
  show "\<forall>(now, op)\<in>set demo_ledger_ops. 0 \<le> now \<and> now < 0 + MAX_IN_FLIGHT_AGE
           \<and> undecided 1 100 (nonce_hashes ?F demo_ledger_ops 1 7) op"
    by (simp add: demo_ledger_ops_def MAX_IN_FLIGHT_AGE_def)
  show "600 < 0 + MAX_IN_FLIGHT_AGE" by (simp add: MAX_IN_FLIGHT_AGE_def)
qed

end
