(* ===== verification/Evm_Submit.thy ===== *)
theory Evm_Submit
  imports Evm_Nonces
begin

text \<open>
  Submission of a wallet's transactions with recovery from nonce races and stuck transactions
  (\<^verbatim>\<open>crates/evm/src/submit.rs\<close>). The signing provider is a parameter: sending a request through
  its fillers, the \<^verbatim>\<open>latest\<close> and \<^verbatim>\<open>pending\<close> transaction counts, the fee estimate and the
  clock. A send holds the wallet's lock from beginning to end, so it is one function of the
  wallet's state; an entry of the in-flight record that a concurrent receipt wait releases
  during a send is released before or after it here.
\<close>

section \<open>Fees\<close>

definition u128_checked_mul :: "u128 \<Rightarrow> u128 \<Rightarrow> u128 option" where
  "u128_checked_mul a b = (if unat a * unat b < 2 ^ 128 then Some (a * b) else None)"

definition u128_div_ceil :: "u128 \<Rightarrow> u128 \<Rightarrow> u128" where
  "u128_div_ceil a b = (if a mod b = 0 then a div b else a div b + 1)"

definition MAX_REPLACEMENT_RESUBMITS :: u32 where
  "MAX_REPLACEMENT_RESUBMITS = 4"

definition MAX_NONCE_TOO_LOW_RETRIES :: u32 where
  "MAX_NONCE_TOO_LOW_RETRIES = 3"

definition NONCE_RETRY_BACKOFF :: nat where
  "NONCE_RETRY_BACKOFF = 500"

definition FEE_BUMP_PCT_PER_ATTEMPT :: u64 where
  "FEE_BUMP_PCT_PER_ATTEMPT = 15"

definition bump_fee :: "u128 \<Rightarrow> u64 \<Rightarrow> evm_error + u128" where
  "bump_fee value pct =
     ok_or ReplacementFeeOverflow
       (map_option (\<lambda>scaled. u128_div_ceil scaled 100) (u128_checked_mul value (ucast (100 + pct))))"

record fee_estimate =
  max_fee_per_gas :: u128
  max_priority_fee_per_gas :: u128

section \<open>The provider and the wallet\<close>

record tx_request =
  tx_to :: address
  tx_input :: "nat list"
  tx_nonce :: "u64 option"
  tx_fees :: "fee_estimate option"

record 'w submitter =
  sb_send :: "tx_request \<Rightarrow> nonce_manager \<Rightarrow> 'w \<Rightarrow> (rpc_error + tx_hash) \<times> nonce_manager \<times> 'w"
  sb_latest :: "address \<Rightarrow> 'w \<Rightarrow> (rpc_error + u64) \<times> 'w"
  sb_pending :: "address \<Rightarrow> 'w \<Rightarrow> (rpc_error + u64) \<times> 'w"
  sb_estimate :: "'w \<Rightarrow> (rpc_error + fee_estimate) \<times> 'w"
  sb_sleep :: "nat \<Rightarrow> 'w \<Rightarrow> 'w"
  sb_now :: "'w \<Rightarrow> nat"

text \<open>
  The state a send works on. \<open>wl_sent\<close> is a history of the submissions: the nonce a request
  was pinned to or, for a request without one, the nonce the cache held for the filler to
  draw, and the node's answer.
\<close>

record 'w wallet =
  wl_world :: 'w
  wl_nonces :: nonce_manager
  wl_in_flight :: in_flight
  wl_sent :: "(u64 option \<times> (evm_error + tx_hash)) list"

definition submit :: "'w submitter \<Rightarrow> address \<Rightarrow> tx_request \<Rightarrow> 'w wallet \<Rightarrow> (evm_error + tx_hash) \<times> 'w wallet" where
  "submit S a tx W =
     (let (sent, m, w) = sb_send S tx (wl_nonces W) (wl_world W);
          result = map_err Transport sent;
          target = option_or (tx_nonce tx) (peek_next_nonce (wl_nonces W) a)
      in (result, W\<lparr>wl_world := w, wl_nonces := m, wl_sent := wl_sent W @ [(target, result)]\<rparr>))"

definition assign_nonce :: "'w submitter \<Rightarrow> address \<Rightarrow> 'w wallet \<Rightarrow> (evm_error + u64) \<times> 'w wallet" where
  "assign_nonce S a W =
     (let (r, m, w) = get_next_nonce (sb_latest S) (wl_nonces W) a (wl_world W)
      in (map_err Transport r, W\<lparr>wl_world := w, wl_nonces := m\<rparr>))"

definition latest_nonce :: "'w submitter \<Rightarrow> address \<Rightarrow> 'w wallet \<Rightarrow> (evm_error + u64) \<times> 'w wallet" where
  "latest_nonce S a W = (let (r, w) = sb_latest S a (wl_world W) in (map_err Transport r, W\<lparr>wl_world := w\<rparr>))"

definition pending_nonce :: "'w submitter \<Rightarrow> address \<Rightarrow> 'w wallet \<Rightarrow> (evm_error + u64) \<times> 'w wallet" where
  "pending_nonce S a W = (let (r, w) = sb_pending S a (wl_world W) in (map_err Transport r, W\<lparr>wl_world := w\<rparr>))"

definition estimate_fees :: "'w submitter \<Rightarrow> 'w wallet \<Rightarrow> (evm_error + fee_estimate) \<times> 'w wallet" where
  "estimate_fees S W = (let (r, w) = sb_estimate S (wl_world W) in (map_err Transport r, W\<lparr>wl_world := w\<rparr>))"

definition invalidate_cache :: "'w wallet \<Rightarrow> 'w wallet" where
  "invalidate_cache W = W\<lparr>wl_nonces := invalidate (wl_nonces W)\<rparr>"

definition record_sent :: "'w submitter \<Rightarrow> address \<Rightarrow> u64 \<Rightarrow> tx_hash \<Rightarrow> 'w wallet \<Rightarrow> 'w wallet" where
  "record_sent S a n h W =
     W\<lparr>wl_in_flight := record_in_flight (sb_now S (wl_world W)) (wl_in_flight W) a n h\<rparr>"

section \<open>Recovery from a nonce that is too low\<close>

definition raise_nonce_floor :: "u64 option \<Rightarrow> u64 \<Rightarrow> u64" where
  "raise_nonce_floor current_floor candidate_floor =
     (case current_floor of None \<Rightarrow> candidate_floor | Some floor_nonce \<Rightarrow> max floor_nonce candidate_floor)"

datatype latest_nonce_fallback = Stop | RaiseFloorTo u64

definition resolve_underpriced_via_latest_nonce ::
  "'w submitter \<Rightarrow> address \<Rightarrow> u64 \<Rightarrow> 'w wallet \<Rightarrow> latest_nonce_fallback \<times> 'w wallet" where
  "resolve_underpriced_via_latest_nonce S a next_nonce W =
     (case latest_nonce S a W of
        (Inl _, W1) \<Rightarrow> (Stop, W1)
      | (Inr latest_nonce_value, W1) \<Rightarrow>
          (if next_nonce = latest_nonce_value then Stop
           else if next_nonce < latest_nonce_value then RaiseFloorTo latest_nonce_value
           else RaiseFloorTo (saturating_add next_nonce 1), W1))"

datatype nonce_source =
    HintAndPending u64 u64
  | HintOnly u64 evm_error
  | PendingOnly u64
  | FloorFallback u64 evm_error
  | NoSource evm_error

definition resolve_source :: "u64 option \<Rightarrow> evm_error + u64 \<Rightarrow> u64 option \<Rightarrow> nonce_source" where
  "resolve_source hint pending nonce_floor =
     (case (hint, pending) of
        (Some hint, Inr pending_count) \<Rightarrow> HintAndPending hint pending_count
      | (Some hint, Inl pending_error) \<Rightarrow> HintOnly hint pending_error
      | (None, Inr pending_count) \<Rightarrow> PendingOnly pending_count
      | (None, Inl pending_error) \<Rightarrow>
          (case nonce_floor of
             Some floor_nonce \<Rightarrow> FloorFallback floor_nonce pending_error
           | None \<Rightarrow> NoSource pending_error))"

fun sourced_nonce :: "nonce_source \<Rightarrow> u64 option" where
  "sourced_nonce (HintAndPending hint pending) = Some (max hint pending)"
| "sourced_nonce (HintOnly hint _) = Some hint"
| "sourced_nonce (PendingOnly pending) = Some pending"
| "sourced_nonce (FloorFallback floor_nonce _) = Some floor_nonce"
| "sourced_nonce (NoSource _) = None"

definition initial_nonce_floor :: "evm_error \<Rightarrow> u64 option \<Rightarrow> u64 option" where
  "initial_nonce_floor error cached =
     (case (next_nonce_hint error, cached) of
        (Some hint, Some cached) \<Rightarrow> Some (max hint cached)
      | (Some hint, None) \<Rightarrow> Some hint
      | (None, Some cached) \<Rightarrow> Some cached
      | (None, None) \<Rightarrow> None)"

text \<open>
  One attempt either ends the recovery or goes on with the last rejection and the floor. The
  parameter \<open>attempt\<close> counts from 1; the loop runs while attempts are left.
\<close>

datatype retry_outcome =
    Finished "evm_error + tx_hash"
  | TryAgain evm_error "u64 option"

definition retry_rejected ::
  "'w submitter \<Rightarrow> address \<Rightarrow> u64 \<Rightarrow> u64 option \<Rightarrow> evm_error \<Rightarrow> 'w wallet \<Rightarrow> retry_outcome \<times> 'w wallet" where
  "retry_rejected S a next_nonce nonce_floor retry_error W =
     (if is_nonce_too_low retry_error then
        (TryAgain retry_error (Some (raise_nonce_floor nonce_floor (saturating_add next_nonce 1))), W)
      else if is_replacement_underpriced retry_error then
        (case ownership (sb_now S (wl_world W)) (wl_in_flight W) a next_nonce of
           (Ours, F) \<Rightarrow> (Finished (Inl retry_error), invalidate_cache (W\<lparr>wl_in_flight := F\<rparr>))
         | (Unknown, F) \<Rightarrow>
             (case resolve_underpriced_via_latest_nonce S a next_nonce (W\<lparr>wl_in_flight := F\<rparr>) of
                (Stop, W1) \<Rightarrow> (Finished (Inl retry_error), invalidate_cache W1)
              | (RaiseFloorTo floor_candidate, W1) \<Rightarrow>
                  (TryAgain retry_error (Some (raise_nonce_floor nonce_floor floor_candidate)), W1)))
      else (Finished (Inl retry_error), invalidate_cache W))"

definition back_off :: "'w submitter \<Rightarrow> nat \<Rightarrow> u64 option \<Rightarrow> 'w wallet \<Rightarrow> 'w wallet" where
  "back_off S attempt hint W =
     (if 1 < attempt \<or> hint = None
      then W\<lparr>wl_world := sb_sleep S (NONCE_RETRY_BACKOFF * attempt) (wl_world W)\<rparr> else W)"

definition at_least_floor :: "u64 option \<Rightarrow> u64 \<Rightarrow> u64" where
  "at_least_floor nonce_floor sourced =
     (case nonce_floor of
        Some floor_nonce \<Rightarrow> if sourced < floor_nonce then floor_nonce else sourced
      | None \<Rightarrow> sourced)"

definition retry_attempt ::
  "'w submitter \<Rightarrow> address \<Rightarrow> address \<Rightarrow> nat list \<Rightarrow> nat \<Rightarrow> evm_error \<Rightarrow> u64 option \<Rightarrow> 'w wallet \<Rightarrow>
   retry_outcome \<times> 'w wallet" where
  "retry_attempt S a contract calldata attempt error nonce_floor W =
     (let hint = next_nonce_hint error;
          (pending, W2) = pending_nonce S a (back_off S attempt hint W)
      in case sourced_nonce (resolve_source hint pending nonce_floor) of
           None \<Rightarrow> (TryAgain error nonce_floor, invalidate_cache W2)
         | Some sourced \<Rightarrow>
             (let next_nonce = at_least_floor nonce_floor sourced;
                  W3 = W2\<lparr>wl_nonces := set_next_nonce (wl_nonces W2) a next_nonce\<rparr>;
                  retry_tx = \<lparr>tx_to = contract, tx_input = calldata, tx_nonce = None, tx_fees = None\<rparr>
              in case submit S a retry_tx W3 of
                   (Inr tx_hash, W4) \<Rightarrow> (Finished (Inr tx_hash), record_sent S a next_nonce tx_hash W4)
                 | (Inl retry_error, W4) \<Rightarrow> retry_rejected S a next_nonce nonce_floor retry_error W4))"

fun retry_loop ::
  "'w submitter \<Rightarrow> address \<Rightarrow> address \<Rightarrow> nat list \<Rightarrow> nat \<Rightarrow> nat \<Rightarrow> evm_error \<Rightarrow> u64 option \<Rightarrow> 'w wallet \<Rightarrow>
   (evm_error + tx_hash) \<times> 'w wallet" where
  "retry_loop S a contract calldata 0 attempt error nonce_floor W = (Inl error, invalidate_cache W)"
| "retry_loop S a contract calldata (Suc left) attempt error nonce_floor W =
     (case retry_attempt S a contract calldata attempt error nonce_floor W of
        (Finished result, W1) \<Rightarrow> (result, W1)
      | (TryAgain error1 floor1, W1) \<Rightarrow> retry_loop S a contract calldata left (Suc attempt) error1 floor1 W1)"

definition retry_after_nonce_too_low ::
  "'w submitter \<Rightarrow> address \<Rightarrow> address \<Rightarrow> nat list \<Rightarrow> evm_error \<Rightarrow> 'w wallet \<Rightarrow> (evm_error + tx_hash) \<times> 'w wallet" where
  "retry_after_nonce_too_low S a contract calldata error W =
     retry_loop S a contract calldata (unat MAX_NONCE_TOO_LOW_RETRIES) 1 error
       (initial_nonce_floor error (peek_next_nonce (wl_nonces W) a)) W"

section \<open>Replacement of a stuck transaction\<close>

definition bumped_fees :: "nat \<Rightarrow> fee_estimate \<Rightarrow> evm_error + fee_estimate" where
  "bumped_fees attempt estimate =
     (let pct = FEE_BUMP_PCT_PER_ATTEMPT * of_nat attempt in
      tryr (bump_fee (max_fee_per_gas estimate) pct) (\<lambda>max_fee.
      tryr (bump_fee (max_priority_fee_per_gas estimate) pct) (\<lambda>priority_fee.
      Inr \<lparr>max_fee_per_gas = max_fee, max_priority_fee_per_gas = priority_fee\<rparr>)))"

fun resubmit_loop ::
  "'w submitter \<Rightarrow> address \<Rightarrow> address \<Rightarrow> nat list \<Rightarrow> u64 \<Rightarrow> nat \<Rightarrow> nat \<Rightarrow> 'w wallet \<Rightarrow>
   (evm_error + tx_hash) \<times> 'w wallet" where
  "resubmit_loop S a contract calldata nonce 0 attempt W =
     (Inl (ReplacementUnderpriced MAX_REPLACEMENT_RESUBMITS), invalidate_cache W)"
| "resubmit_loop S a contract calldata nonce (Suc left) attempt W =
     (case estimate_fees S W of
        (Inl error, W1) \<Rightarrow> (Inl error, invalidate_cache W1)
      | (Inr estimate, W1) \<Rightarrow>
          (case bumped_fees attempt estimate of
             Inl error \<Rightarrow> (Inl error, W1)
           | Inr fees \<Rightarrow>
               (let tx = \<lparr>tx_to = contract, tx_input = calldata, tx_nonce = Some nonce, tx_fees = Some fees\<rparr> in
                case submit S a tx W1 of
                  (Inr tx_hash, W2) \<Rightarrow> (Inr tx_hash, record_sent S a nonce tx_hash W2)
                | (Inl error, W2) \<Rightarrow>
                    if is_replacement_underpriced error
                    then resubmit_loop S a contract calldata nonce left (Suc attempt) W2
                    else if is_nonce_too_low error then (Inl error, invalidate_cache W2)
                    else (Inl error, invalidate_cache W2))))"

definition resubmit_with_bumped_fee ::
  "'w submitter \<Rightarrow> address \<Rightarrow> address \<Rightarrow> nat list \<Rightarrow> u64 \<Rightarrow> 'w wallet \<Rightarrow> (evm_error + tx_hash) \<times> 'w wallet" where
  "resubmit_with_bumped_fee S a contract calldata nonce W =
     resubmit_loop S a contract calldata nonce (unat MAX_REPLACEMENT_RESUBMITS) 1 W"

section \<open>Sending\<close>

definition send_with_recovery ::
  "'w submitter \<Rightarrow> address \<Rightarrow> address \<Rightarrow> nat list \<Rightarrow> 'w wallet \<Rightarrow> (evm_error + tx_hash) \<times> 'w wallet" where
  "send_with_recovery S a contract calldata W =
     (case assign_nonce S a W of
        (Inl error, W1) \<Rightarrow> (Inl error, W1)
      | (Inr nonce, W1) \<Rightarrow>
          (let tx = \<lparr>tx_to = contract, tx_input = calldata, tx_nonce = Some nonce, tx_fees = None\<rparr> in
           case submit S a tx W1 of
             (Inr tx_hash, W2) \<Rightarrow> (Inr tx_hash, record_sent S a nonce tx_hash W2)
           | (Inl error, W2) \<Rightarrow>
               if is_nonce_too_low error then retry_after_nonce_too_low S a contract calldata error W2
               else if is_replacement_underpriced error
               then resubmit_with_bumped_fee S a contract calldata nonce W2
               else (Inl error, invalidate_cache W2)))"

section \<open>The nonces a send tries\<close>

text \<open>
  The submissions of one send, and the order of their nonces: each later one is above every
  earlier one, except that the last representable nonce cannot be passed.
\<close>

definition submissions :: "'w wallet \<Rightarrow> 'w wallet \<Rightarrow> (u64 option \<times> (evm_error + tx_hash)) list" where
  "submissions W W' = drop (length (wl_sent W)) (wl_sent W')"

definition targets :: "(u64 option \<times> (evm_error + tx_hash)) list \<Rightarrow> u64 list" where
  "targets new = map (the \<circ> fst) new"

definition nonce_before :: "u64 \<Rightarrow> u64 \<Rightarrow> bool" where
  "nonce_before x y \<longleftrightarrow> x < y \<or> x = - 1 \<and> y = - 1"

text \<open>Every submission but the last was rejected, and the last one is the outcome when it was accepted.\<close>

definition one_acceptance :: "(u64 option \<times> (evm_error + tx_hash)) list \<Rightarrow> evm_error + tx_hash \<Rightarrow> bool" where
  "one_acceptance new r \<longleftrightarrow>
     list_all (\<lambda>x. isl (snd x)) (butlast new) \<and> (\<forall>h. r = Inr h \<longleftrightarrow> new \<noteq> [] \<and> snd (last new) = Inr h)"

lemma one_acceptance_Nil [simp]: "one_acceptance [] r \<longleftrightarrow> isl r"
  by (cases r) (auto simp: one_acceptance_def)

lemma one_acceptance_single [simp]: "one_acceptance [(n, r)] r"
  by (simp add: one_acceptance_def)

lemma one_acceptance_rejected_single [simp]: "one_acceptance [(n, Inl e)] (Inl e')"
  by (simp add: one_acceptance_def)

lemma one_acceptance_Cons: "one_acceptance new r \<Longrightarrow> one_acceptance ((n, Inl e) # new) r"
  by (cases "new = []"; cases r) (auto simp: one_acceptance_def)

lemma nonce_before_le: "nonce_before x y \<Longrightarrow> x \<le> y"
  by (auto simp: nonce_before_def)

lemma nonce_before_trans: "nonce_before x y \<Longrightarrow> y \<le> z \<Longrightarrow> nonce_before x z"
  by (auto simp: nonce_before_def word_order.extremum_unique)

lemma sent_simps [simp]:
  "wl_sent (invalidate_cache W) = wl_sent W" "wl_sent (record_sent S a n h W) = wl_sent W"
  by (simp_all add: invalidate_cache_def record_sent_def)

lemma sent_submit:
  "submit S a tx W = (r, W') \<Longrightarrow>
   wl_sent W' = wl_sent W @ [(option_or (tx_nonce tx) (peek_next_nonce (wl_nonces W) a), r)]"
  by (auto simp: submit_def Let_def split: prod.splits)

lemma sent_reads:
  "latest_nonce S a W = (r, W') \<Longrightarrow> wl_sent W' = wl_sent W"
  "pending_nonce S a W = (r, W') \<Longrightarrow> wl_sent W' = wl_sent W"
  "estimate_fees S W = (f, W') \<Longrightarrow> wl_sent W' = wl_sent W"
  "assign_nonce S a W = (r, W') \<Longrightarrow> wl_sent W' = wl_sent W"
  by (auto simp: latest_nonce_def pending_nonce_def estimate_fees_def assign_nonce_def Let_def split: prod.splits)

lemma peek_set_next_nonce [simp]: "peek_next_nonce (set_next_nonce m a n) a = Some n"
  by (simp add: peek_next_nonce_def set_next_nonce_def)

lemma peek_invalidate [simp]: "peek_next_nonce (invalidate m) a = None"
  by (simp add: peek_next_nonce_def invalidate_def)

lemma resolve_underpriced_sent:
  "resolve_underpriced_via_latest_nonce S a n W = (f, W') \<Longrightarrow> wl_sent W' = wl_sent W"
  by (auto simp: resolve_underpriced_via_latest_nonce_def sent_reads split: prod.splits sum.splits)

lemma raise_nonce_floor_before: "nonce_before n f \<Longrightarrow> nonce_before n (raise_nonce_floor g f)"
  by (auto simp: nonce_before_def raise_nonce_floor_def max_def word_order.extremum_unique split: option.splits)

lemma nonce_before_Suc: "nonce_before n (saturating_add n 1)"
  using saturating_Suc_gt [of n]
  by (cases "n = - 1")
     (simp_all add: nonce_before_def saturating_add_def unsigned_minus_1_eq_mask mask_eq_exp_minus_1)

lemma resolve_underpriced_raises:
  "resolve_underpriced_via_latest_nonce S a n W = (RaiseFloorTo f, W') \<Longrightarrow> nonce_before n f"
  using nonce_before_Suc [of n]
  by (auto simp: resolve_underpriced_via_latest_nonce_def nonce_before_def split: prod.splits sum.splits if_splits)

lemma retry_rejected_sent:
  assumes "retry_rejected S a n f e W = (out, W')"
  shows "wl_sent W' = wl_sent W \<and> (\<forall>res. out = Finished res \<longrightarrow> res = Inl e)
    \<and> (\<forall>e' g. out = TryAgain e' g \<longrightarrow> (\<exists>g'. g = Some g' \<and> nonce_before n g'))"
  using assms nonce_before_Suc [of n]
  by (auto simp: retry_rejected_def resolve_underpriced_raises raise_nonce_floor_before
        dest: resolve_underpriced_sent
        split: if_splits prod.splits nonce_ownership.splits latest_nonce_fallback.splits)

text \<open>The two shapes of an attempt: no source for a nonce, or one submission at a seeded nonce.\<close>

lemma retry_attempt_cases:
  assumes "retry_attempt S a c d k e f W = (out, W')"
  obtains (skipped) pending W2 where "pending_nonce S a (back_off S k (next_nonce_hint e) W) = (pending, W2)"
      "out = TryAgain e f" "W' = invalidate_cache W2"
  | (submitted) pending W2 sourced r W4
      where "pending_nonce S a (back_off S k (next_nonce_hint e) W) = (pending, W2)"
      "submit S a \<lparr>tx_to = c, tx_input = d, tx_nonce = None, tx_fees = None\<rparr>
         (W2\<lparr>wl_nonces := set_next_nonce (wl_nonces W2) a (at_least_floor f sourced)\<rparr>) = (r, W4)"
      "(case r of Inr h \<Rightarrow> (Finished (Inr h), record_sent S a (at_least_floor f sourced) h W4)
        | Inl e' \<Rightarrow> retry_rejected S a (at_least_floor f sourced) f e' W4) = (out, W')"
  using assms by (auto simp: retry_attempt_def Let_def split: prod.splits option.splits sum.splits)

lemma sent_back_off [simp]: "wl_sent (back_off S k hint W) = wl_sent W"
  by (simp add: back_off_def)

lemma at_least_floor_ge: "at_least_floor (Some f) n \<ge> f"
  by (auto simp: at_least_floor_def)

text \<open>
  An attempt that submits does so at or above the floor it was given, and leaves a floor above
  the nonce it tried; an attempt without a source submits nothing.
\<close>

lemma retry_attempt_sent:
  assumes "retry_attempt S a c d k e f W = (out, W')"
  shows "(wl_sent W' = wl_sent W \<and> out = TryAgain e f)
    \<or> (\<exists>n r. wl_sent W' = wl_sent W @ [(Some n, r)] \<and> (\<forall>f'. f = Some f' \<longrightarrow> f' \<le> n)
         \<and> (\<forall>res. out = Finished res \<longrightarrow> res = r)
         \<and> (\<forall>e' g. out = TryAgain e' g \<longrightarrow> isl r \<and> (\<exists>g'. g = Some g' \<and> nonce_before n g')))"
  using assms
proof (cases rule: retry_attempt_cases)
  case (skipped pending W2)
  then show ?thesis by (simp add: sent_reads(2))
next
  case (submitted pending W2 sourced r W4)
  let ?n = "at_least_floor f sourced"
  have "wl_sent W4 = wl_sent W @ [(Some ?n, r)]"
    using sent_submit [OF submitted(2)] sent_reads(2) [OF submitted(1)] by (simp add: option_or_def)
  moreover have "wl_sent W' = wl_sent W4 \<and> (\<forall>res. out = Finished res \<longrightarrow> res = r)
      \<and> (\<forall>e' g. out = TryAgain e' g \<longrightarrow> isl r \<and> (\<exists>g'. g = Some g' \<and> nonce_before ?n g'))"
    using submitted(3) by (cases r) (auto dest: retry_rejected_sent)
  ultimately show ?thesis
    using at_least_floor_ge [of _ sourced] by (intro disjI2 exI [of _ ?n] exI [of _ r]) auto
qed

lemma retry_loop_sent:
  assumes "retry_loop S a c d left k e f W = (r, W')"
  shows "\<exists>new. wl_sent W' = wl_sent W @ new \<and> length new \<le> left \<and> (\<forall>x\<in>set new. fst x \<noteq> None)
    \<and> one_acceptance new r \<and> sorted_wrt nonce_before (targets new) \<and> (\<forall>f' n. f = Some f' \<longrightarrow> n \<in> set (targets new) \<longrightarrow> f' \<le> n)"
  using assms
proof (induction left arbitrary: k e f W)
  case 0
  then show ?case by (auto simp: targets_def)
next
  case (Suc left)
  obtain out W1 where at: "retry_attempt S a c d k e f W = (out, W1)" by force
  from retry_attempt_sent [OF at] show ?case
  proof (elim disjE conjE exE)
    assume "wl_sent W1 = wl_sent W" "out = TryAgain e f"
    with Suc.prems at have "retry_loop S a c d left (Suc k) e f W1 = (r, W')" by simp
    from Suc.IH [OF this] \<open>wl_sent W1 = wl_sent W\<close> show ?thesis by (auto intro: le_SucI)
  next
    fix n r1
    assume one: "wl_sent W1 = wl_sent W @ [(Some n, r1)]" "\<forall>f'. f = Some f' \<longrightarrow> f' \<le> n"
      and fin: "\<forall>res. out = Finished res \<longrightarrow> res = r1"
      and again: "\<forall>e' g. out = TryAgain e' g \<longrightarrow> isl r1 \<and> (\<exists>g'. g = Some g' \<and> nonce_before n g')"
    show ?thesis
    proof (cases out)
      case (Finished res)
      with Suc.prems at one fin show ?thesis by (auto simp: targets_def)
    next
      case (TryAgain e' g)
      with again obtain g' e1 where g: "g = Some g'" "nonce_before n g'" and r1: "r1 = Inl e1" by (auto simp: isl_def)
      from Suc.prems at TryAgain have "retry_loop S a c d left (Suc k) e' g W1 = (r, W')" by simp
      from Suc.IH [OF this] obtain new where new: "wl_sent W' = wl_sent W1 @ new" "length new \<le> left"
        "\<forall>x\<in>set new. fst x \<noteq> None" "sorted_wrt nonce_before (targets new)" "\<forall>m\<in>set (targets new). g' \<le> m"
        "one_acceptance new r"
        using g by auto
      have after: "\<forall>m\<in>set (targets new). nonce_before n m" using new(5) g(2) nonce_before_trans by blast
      have low: "f = Some f' \<Longrightarrow> m \<in> set (targets new) \<Longrightarrow> f' \<le> m" for f' m
        using after one(2) nonce_before_le order_trans by blast
      show ?thesis
        using one new after low r1
        by (intro exI [of _ "(Some n, r1) # new"]) (auto simp: targets_def intro: one_acceptance_Cons)
    qed
  qed
qed

lemma bumped_fees_error: "bumped_fees k estimate = Inl error \<Longrightarrow> error = ReplacementFeeOverflow"
  by (auto simp: bumped_fees_def bump_fee_def ok_or_def tryr_def Let_def split: sum.splits option.splits)

text \<open>The two ends of an escalation attempt, and the one way it goes on.\<close>

lemma resubmit_loop_cases:
  assumes "resubmit_loop S a c d n (Suc left) k W = (r, W')"
  obtains (estimate_failed) error W1 where "estimate_fees S W = (Inl error, W1)" "r = Inl error" "W' = invalidate_cache W1"
  | (overflow) estimate where "estimate_fees S W = (Inr estimate, W')" "r = Inl ReplacementFeeOverflow"
  | (accepted) estimate W1 tx h W2 where "estimate_fees S W = (Inr estimate, W1)" "tx_nonce tx = Some n"
      "submit S a tx W1 = (Inr h, W2)" "r = Inr h" "W' = record_sent S a n h W2"
  | (escalate) estimate W1 tx error W2 where "estimate_fees S W = (Inr estimate, W1)" "tx_nonce tx = Some n"
      "submit S a tx W1 = (Inl error, W2)" "resubmit_loop S a c d n left (Suc k) W2 = (r, W')"
  | (rejected) estimate W1 tx error W2 where "estimate_fees S W = (Inr estimate, W1)" "tx_nonce tx = Some n"
      "submit S a tx W1 = (Inl error, W2)" "r = Inl error" "W' = invalidate_cache W2"
proof -
  obtain re W1 where e: "estimate_fees S W = (re, W1)" by force
  show thesis
  proof (cases re)
    case (Inl error)
    with e assms show thesis by (intro estimate_failed) auto
  next
    case (Inr estimate)
    show thesis
    proof (cases "bumped_fees k estimate")
      case (Inl error)
      with e assms Inr show thesis by (intro overflow) (auto dest: bumped_fees_error)
    next
      case (Inr fees)
      let ?tx = "\<lparr>tx_to = c, tx_input = d, tx_nonce = Some n, tx_fees = Some fees\<rparr>"
      obtain rs W2 where s: "submit S a ?tx W1 = (rs, W2)" by force
      show thesis
        using e assms Inr s \<open>re = Inr estimate\<close> accepted [of estimate W1 ?tx _ W2]
          escalate [of estimate W1 ?tx _ W2] rejected [of estimate W1 ?tx _ W2]
        by (cases rs) (auto split: if_splits)
    qed
  qed
qed

lemma resubmit_loop_sent:
  assumes "resubmit_loop S a c d n left k W = (r, W')"
  shows "\<exists>new. wl_sent W' = wl_sent W @ new \<and> length new \<le> left \<and> (\<forall>x\<in>set new. fst x = Some n)
    \<and> one_acceptance new r"
  using assms
proof (induction left arbitrary: k W)
  case 0
  then show ?case by auto
next
  case (Suc left)
  note [simp] = option_or_def
  from Suc.prems show ?case
  proof (cases rule: resubmit_loop_cases)
    case (escalate estimate W1 tx error W2)
    from Suc.IH [OF escalate(4)] obtain new where
      new: "wl_sent W' = wl_sent W2 @ new" "length new \<le> left" "\<forall>x\<in>set new. fst x = Some n"
      "one_acceptance new r" by blast
    with sent_submit [OF escalate(3)] sent_reads(3) [OF escalate(1)] escalate(2) show ?thesis
      by (intro exI [of _ "(Some n, Inl error) # new"]) (auto intro: one_acceptance_Cons)
  next
    case (accepted estimate W1 tx h W2)
    with sent_submit [OF accepted(3)] sent_reads(3) [OF accepted(1)] show ?thesis by auto
  next
    case (rejected estimate W1 tx error W2)
    with sent_submit [OF rejected(3)] sent_reads(3) [OF rejected(1)] show ?thesis by auto
  qed (auto dest: sent_reads(3))
qed

text \<open>
  What the source documents of the signing provider: a request that carries a nonce does not make
  the nonce filler draw from the cache.
\<close>

definition pinned_leaves_cache :: "'w submitter \<Rightarrow> bool" where
  "pinned_leaves_cache S \<longleftrightarrow> (\<forall>tx m w. tx_nonce tx \<noteq> None \<longrightarrow> fst (snd (sb_send S tx m w)) = m)"

lemma submit_pinned_nonces:
  "pinned_leaves_cache S \<Longrightarrow> submit S a tx W = (r, W') \<Longrightarrow> tx_nonce tx \<noteq> None \<Longrightarrow> wl_nonces W' = wl_nonces W"
  by (auto simp: submit_def pinned_leaves_cache_def Let_def split: prod.splits) (metis fst_conv snd_conv)

lemma assign_nonce_peek:
  "assign_nonce S a W = (Inr n, W') \<Longrightarrow> peek_next_nonce (wl_nonces W') a = Some (saturating_add n 1)"
  by (auto simp: assign_nonce_def get_next_nonce_def peek_next_nonce_def Let_def split: prod.splits sum.splits option.splits)

lemma initial_floor_past_rejected:
  "\<exists>f. initial_nonce_floor e (Some cached) = Some f \<and> cached \<le> f"
  by (auto simp: initial_nonce_floor_def split: option.splits)

lemma send_cases:
  assumes "send_with_recovery S a c d W = (r, W')"
  obtains (unassigned) e where "assign_nonce S a W = (Inl e, W')" "r = Inl e"
  | (accepted) n W1 tx h W2 where "assign_nonce S a W = (Inr n, W1)" "tx_nonce tx = Some n"
      "submit S a tx W1 = (Inr h, W2)" "r = Inr h" "W' = record_sent S a n h W2"
  | (too_low) n W1 tx e W2 where "assign_nonce S a W = (Inr n, W1)" "tx_nonce tx = Some n"
      "submit S a tx W1 = (Inl e, W2)" "is_nonce_too_low e" "retry_after_nonce_too_low S a c d e W2 = (r, W')"
  | (underpriced) n W1 tx e W2 where "assign_nonce S a W = (Inr n, W1)" "tx_nonce tx = Some n"
      "submit S a tx W1 = (Inl e, W2)" "is_replacement_underpriced e"
      "resubmit_with_bumped_fee S a c d n W2 = (r, W')"
  | (rejected) n W1 tx e W2 where "assign_nonce S a W = (Inr n, W1)" "tx_nonce tx = Some n"
      "submit S a tx W1 = (Inl e, W2)" "r = Inl e" "W' = invalidate_cache W2"
proof -
  obtain ra W1 where ra: "assign_nonce S a W = (ra, W1)" by force
  show thesis
  proof (cases ra)
    case (Inl e)
    with ra assms show thesis by (intro unassigned) (auto simp: send_with_recovery_def)
  next
    case (Inr n)
    let ?tx = "\<lparr>tx_to = c, tx_input = d, tx_nonce = Some n, tx_fees = None\<rparr>"
    obtain rs W2 where s: "submit S a ?tx W1 = (rs, W2)" by force
    show thesis
      using ra assms Inr s accepted [of n W1 ?tx _ W2] too_low [of n W1 ?tx _ W2]
        underpriced [of n W1 ?tx _ W2] rejected [of n W1 ?tx _ W2]
      by (cases rs) (auto simp: send_with_recovery_def Let_def split: if_splits)
  qed
qed

text \<open>
  C26. A send submits at most five times, every submission but the last was rejected by the node,
  and the send succeeds exactly when the last one was accepted: one operation is never accepted
  twice. Its submissions are either all pinned to one nonce, so that at most one of them can be
  mined, or at most four at nonces that ascend, the retries above the nonce the node rejected.
\<close>

theorem send_accepts_once_at_ascending_nonces:
  assumes pinned: "pinned_leaves_cache S"
    and send: "send_with_recovery S a c d W = (r, W')"
  shows "one_acceptance (submissions W W') r
    \<and> (\<forall>x\<in>set (submissions W W'). fst x \<noteq> None)
    \<and> (length (submissions W W') \<le> 5 \<and> (\<exists>n. set (targets (submissions W W')) \<subseteq> {n})
       \<or> length (submissions W W') \<le> 4 \<and> sorted_wrt nonce_before (targets (submissions W W')))"
  using send
proof (cases rule: send_cases)
  case (unassigned e)
  then have "submissions W W' = []" by (simp add: submissions_def sent_reads(4))
  with unassigned show ?thesis by (simp add: targets_def)
next
  case (accepted n W1 tx h W2)
  then have "submissions W W' = [(Some n, Inr h)]"
    using sent_submit [OF accepted(3)] sent_reads(4) [OF accepted(1)] by (simp add: submissions_def option_or_def)
  with accepted show ?thesis by (simp add: targets_def)
next
  case (rejected n W1 tx e W2)
  then have "submissions W W' = [(Some n, Inl e)]"
    using sent_submit [OF rejected(3)] sent_reads(4) [OF rejected(1)] by (simp add: submissions_def option_or_def)
  with rejected show ?thesis by (simp add: targets_def)
next
  case (underpriced n W1 tx e W2)
  obtain new where new: "wl_sent W' = wl_sent W2 @ new" "length new \<le> 4" "\<forall>x\<in>set new. fst x = Some n" "one_acceptance new r"
    using resubmit_loop_sent underpriced(5) by (fastforce simp: resubmit_with_bumped_fee_def MAX_REPLACEMENT_RESUBMITS_def)
  have "submissions W W' = (Some n, Inl e) # new"
    using new(1) sent_submit [OF underpriced(3)] sent_reads(4) [OF underpriced(1)] underpriced(2)
    by (simp add: submissions_def option_or_def)
  with new show ?thesis by (auto simp: targets_def intro!: one_acceptance_Cons)
next
  case (too_low n W1 tx e W2)
  have "peek_next_nonce (wl_nonces W2) a = Some (saturating_add n 1)"
    using submit_pinned_nonces [OF pinned too_low(3)] assign_nonce_peek [OF too_low(1)] too_low(2) by simp
  then obtain f where f: "initial_nonce_floor e (peek_next_nonce (wl_nonces W2) a) = Some f" "saturating_add n 1 \<le> f"
    using initial_floor_past_rejected by metis
  have "retry_loop S a c d (unat MAX_NONCE_TOO_LOW_RETRIES) 1 e (Some f) W2 = (r, W')"
    using too_low(5) f(1) by (simp add: retry_after_nonce_too_low_def)
  from retry_loop_sent [OF this] obtain new where new: "wl_sent W' = wl_sent W2 @ new" "length new \<le> 3"
    "\<forall>x\<in>set new. fst x \<noteq> None" "one_acceptance new r" "sorted_wrt nonce_before (targets new)"
    "\<forall>m\<in>set (targets new). f \<le> m" by (auto simp: MAX_NONCE_TOO_LOW_RETRIES_def)
  have "submissions W W' = (Some n, Inl e) # new"
    using new(1) sent_submit [OF too_low(3)] sent_reads(4) [OF too_low(1)] too_low(2)
    by (simp add: submissions_def option_or_def)
  moreover have "\<forall>m\<in>set (targets new). nonce_before n m"
    using new(6) f(2) nonce_before_trans [OF nonce_before_Suc] order_trans by blast
  ultimately show ?thesis using new by (auto simp: targets_def intro!: one_acceptance_Cons)
qed

section \<open>What a send leaves behind\<close>

text \<open>
  A failed send leaves the in-flight record with at most the entries it had (the queries of the
  recovery prune stale ones); a successful one has recorded its hash at the nonce it was sent at.
\<close>

definition shows_no_more :: "in_flight \<Rightarrow> in_flight \<Rightarrow> bool" where
  "shows_no_more F F' \<longleftrightarrow> (\<forall>a n h t. seen_at F' a n h = Some t \<longrightarrow> seen_at F a n h = Some t)"

definition booked :: "'w submitter \<Rightarrow> address \<Rightarrow> in_flight \<Rightarrow> evm_error + tx_hash \<Rightarrow> 'w wallet \<Rightarrow> bool" where
  "booked S a F r W' \<longleftrightarrow> wf_in_flight (wl_in_flight W') \<and>
     (case r of
        Inl _ \<Rightarrow> shows_no_more F (wl_in_flight W')
      | Inr h \<Rightarrow> \<exists>n. last (wl_sent W') = (Some n, Inr h)
          \<and> seen_at (wl_in_flight W') a n h = Some (sb_now S (wl_world W')))"

lemma shows_no_more_refl [simp]: "shows_no_more F F"
  by (simp add: shows_no_more_def)

lemma shows_no_more_trans: "shows_no_more F G \<Longrightarrow> shows_no_more G H \<Longrightarrow> shows_no_more F H"
  by (simp add: shows_no_more_def)

lemma ownership_shows_no_more: "wf_in_flight F \<Longrightarrow> shows_no_more F (snd (ownership now F a n))"
  by (auto simp: shows_no_more_def ownership_seen still_fresh_def split: option.splits if_splits)

lemma in_flight_simps [simp]:
  "wl_in_flight (invalidate_cache W) = wl_in_flight W" "wl_in_flight (back_off S k hint W) = wl_in_flight W"
  by (simp_all add: invalidate_cache_def back_off_def)

lemma in_flight_steps:
  "submit S a tx W = (r, W') \<Longrightarrow> wl_in_flight W' = wl_in_flight W"
  "latest_nonce S a W = (n, W') \<Longrightarrow> wl_in_flight W' = wl_in_flight W"
  "pending_nonce S a W = (n, W') \<Longrightarrow> wl_in_flight W' = wl_in_flight W"
  "estimate_fees S W = (f, W') \<Longrightarrow> wl_in_flight W' = wl_in_flight W"
  "assign_nonce S a W = (n, W') \<Longrightarrow> wl_in_flight W' = wl_in_flight W"
  by (auto simp: submit_def latest_nonce_def pending_nonce_def estimate_fees_def assign_nonce_def Let_def
      split: prod.splits)

lemma booked_record_sent:
  assumes "wf_in_flight (wl_in_flight W)" and "last (wl_sent W) = (Some n, Inr h)"
  shows "booked S a F (Inr h) (record_sent S a n h W)"
  using assms by (auto simp: booked_def record_sent_def ledger.wf_note_sent ledger.seen_note_sent)

lemma booked_unchanged: "wf_in_flight (wl_in_flight W) \<Longrightarrow> booked S a (wl_in_flight W) (Inl e) W"
  by (simp add: booked_def)

lemma booked_later: "booked S a G r W' \<Longrightarrow> shows_no_more F G \<Longrightarrow> booked S a F r W'"
  by (auto simp: booked_def intro: shows_no_more_trans split: sum.splits)

lemma resolve_underpriced_in_flight:
  "resolve_underpriced_via_latest_nonce S a n W = (f, W') \<Longrightarrow> wl_in_flight W' = wl_in_flight W"
  by (auto simp: resolve_underpriced_via_latest_nonce_def dest: in_flight_steps(2) split: prod.splits sum.splits)

lemma retry_rejected_in_flight:
  assumes "wf_in_flight (wl_in_flight W)" and "retry_rejected S a n f e W = (out, W')"
  shows "wf_in_flight (wl_in_flight W') \<and> shows_no_more (wl_in_flight W) (wl_in_flight W')"
proof -
  let ?q = "ownership (sb_now S (wl_world W)) (wl_in_flight W) a n"
  have "wl_in_flight W' = wl_in_flight W \<or> wl_in_flight W' = snd ?q"
    using assms(2)
    by (auto simp: retry_rejected_def dest!: resolve_underpriced_in_flight
        split: if_splits prod.splits nonce_ownership.splits latest_nonce_fallback.splits)
  with assms(1) show ?thesis using ledger.wf_query ownership_shows_no_more by fastforce
qed

lemma retry_attempt_booked:
  assumes wf: "wf_in_flight (wl_in_flight W)" and "retry_attempt S a c d k e f W = (out, W')"
  shows "case out of Finished r \<Rightarrow> booked S a (wl_in_flight W) r W'
         | TryAgain _ _ \<Rightarrow> wf_in_flight (wl_in_flight W') \<and> shows_no_more (wl_in_flight W) (wl_in_flight W')"
  using assms(2)
proof (cases rule: retry_attempt_cases)
  case (skipped pending W2)
  with wf show ?thesis by (simp add: in_flight_steps(3) [OF skipped(1)])
next
  case (submitted pending W2 sourced r W4)
  let ?n = "at_least_floor f sourced"
  have F: "wl_in_flight W4 = wl_in_flight W"
    using in_flight_steps(1) [OF submitted(2)] in_flight_steps(3) [OF submitted(1)] by simp
  show ?thesis
  proof (cases r)
    case (Inl e')
    then have "retry_rejected S a ?n f e' W4 = (out, W')" using submitted(3) by simp
    from retry_rejected_in_flight [OF _ this] retry_rejected_sent [OF this] wf F show ?thesis
      by (auto simp: booked_def split: retry_outcome.split)
  next
    case (Inr h)
    have "last (wl_sent W4) = (Some ?n, Inr h)"
      using sent_submit [OF submitted(2)] Inr by (simp add: option_or_def)
    then have "booked S a (wl_in_flight W) (Inr h) (record_sent S a ?n h W4)"
      using booked_record_sent [of W4] wf F by simp
    with Inr submitted(3) show ?thesis by auto
  qed
qed

lemma retry_loop_booked:
  assumes "wf_in_flight (wl_in_flight W)" and "retry_loop S a c d left k e f W = (r, W')"
  shows "booked S a (wl_in_flight W) r W'"
  using assms
proof (induction left arbitrary: k e f W)
  case 0
  then show ?case by (auto simp: booked_def)
next
  case (Suc left)
  obtain out W1 where at: "retry_attempt S a c d k e f W = (out, W1)" by force
  note b = retry_attempt_booked [OF Suc.prems(1) at]
  show ?case
  proof (cases out)
    case (TryAgain e' g)
    with b have "wf_in_flight (wl_in_flight W1)" "shows_no_more (wl_in_flight W) (wl_in_flight W1)" by simp_all
    moreover have "retry_loop S a c d left (Suc k) e' g W1 = (r, W')" using Suc.prems(2) at TryAgain by simp
    ultimately show ?thesis using Suc.IH booked_later by blast
  qed (use b Suc.prems(2) at in auto)
qed

lemma resubmit_loop_booked:
  assumes "wf_in_flight (wl_in_flight W)" and "resubmit_loop S a c d n left k W = (r, W')"
  shows "booked S a (wl_in_flight W) r W'"
  using assms
proof (induction left arbitrary: k W)
  case 0
  then show ?case by (auto simp: booked_def)
next
  case (Suc left)
  note wf = Suc.prems(1)
  from Suc.prems(2) show ?case
  proof (cases rule: resubmit_loop_cases)
    case (escalate estimate W1 tx error W2)
    with Suc.IH [OF _ escalate(4)] wf in_flight_steps(1) [OF escalate(3)] in_flight_steps(4) [OF escalate(1)]
    show ?thesis by simp
  next
    case (accepted estimate W1 tx h W2)
    have "wf_in_flight (wl_in_flight W2)"
      using wf in_flight_steps(1) [OF accepted(3)] in_flight_steps(4) [OF accepted(1)] by simp
    moreover have "last (wl_sent W2) = (Some n, Inr h)"
      using sent_submit [OF accepted(3)] accepted(2) by (simp add: option_or_def)
    ultimately show ?thesis using accepted(4,5) booked_record_sent by simp
  next
    case (rejected estimate W1 tx error W2)
    with wf in_flight_steps(1) [OF rejected(3)] in_flight_steps(4) [OF rejected(1)] show ?thesis
      by (simp add: booked_def)
  next
    case (overflow estimate)
    with wf in_flight_steps(4) [OF overflow(1)] show ?thesis by (simp add: booked_def)
  next
    case (estimate_failed error W1)
    with wf in_flight_steps(4) [OF estimate_failed(1)] show ?thesis by (simp add: booked_def)
  qed
qed

lemma send_booked:
  assumes wf: "wf_in_flight (wl_in_flight W)"
    and send: "send_with_recovery S a c d W = (r, W')"
  shows "booked S a (wl_in_flight W) r W'"
  using send
proof (cases rule: send_cases)
  case (unassigned e)
  with wf in_flight_steps(5) [OF unassigned(1)] show ?thesis by (simp add: booked_def)
next
  case (rejected n W1 tx e W2)
  with wf in_flight_steps(1) [OF rejected(3)] in_flight_steps(5) [OF rejected(1)] show ?thesis
    by (simp add: booked_def)
next
  case (accepted n W1 tx h W2)
  have "wf_in_flight (wl_in_flight W2)"
    using wf in_flight_steps(1) [OF accepted(3)] in_flight_steps(5) [OF accepted(1)] by simp
  moreover have "last (wl_sent W2) = (Some n, Inr h)"
    using sent_submit [OF accepted(3)] accepted(2) by (simp add: option_or_def)
  ultimately show ?thesis using accepted(4,5) booked_record_sent by simp
next
  case (too_low n W1 tx e W2)
  with retry_loop_booked [of W2] wf in_flight_steps(1) [OF too_low(3)] in_flight_steps(5) [OF too_low(1)]
  show ?thesis by (simp add: retry_after_nonce_too_low_def)
next
  case (underpriced n W1 tx e W2)
  with resubmit_loop_booked [of W2] wf in_flight_steps(1) [OF underpriced(3)] in_flight_steps(5) [OF underpriced(1)]
  show ?thesis by (simp add: resubmit_with_bumped_fee_def)
qed

text \<open>
  The in-flight record keeps exactly the books of the sends: after an accepted send the hash
  is recorded at the nonce of the accepted submission, at the current instant, so that the nonce
  is answered as the wallet's own; a failed send adds no entry, whatever was rejected on the way.
\<close>

theorem send_is_booked:
  assumes wf: "wf_in_flight (wl_in_flight W)"
    and send: "send_with_recovery S a c d W = (r, W')"
  shows "wf_in_flight (wl_in_flight W') \<and>
    (case r of
       Inl _ \<Rightarrow> shows_no_more (wl_in_flight W) (wl_in_flight W')
     | Inr h \<Rightarrow> \<exists>n. last (wl_sent W') = (Some n, Inr h)
         \<and> seen_at (wl_in_flight W') a n h = Some (sb_now S (wl_world W'))
         \<and> fst (ownership (sb_now S (wl_world W')) (wl_in_flight W') a n) = Ours)"
  using send_booked [OF assms]
  by (cases r) (auto simp: booked_def MAX_IN_FLIGHT_AGE_def intro!: ledger.owned_while_fresh)

section \<open>The cache after a failed send\<close>

lemma peek_invalidate_cache [simp]: "peek_next_nonce (wl_nonces (invalidate_cache W)) a = None"
  by (simp add: invalidate_cache_def)

lemma retry_rejected_uncached:
  "retry_rejected S a n f e W = (Finished r, W') \<Longrightarrow> peek_next_nonce (wl_nonces W') a = None"
  by (auto simp: retry_rejected_def split: if_splits prod.splits nonce_ownership.splits latest_nonce_fallback.splits)

lemma retry_loop_uncached:
  "retry_loop S a c d left k e f W = (Inl e', W') \<Longrightarrow> peek_next_nonce (wl_nonces W') a = None"
proof (induction left arbitrary: k e f W)
  case (Suc left)
  obtain out W1 where at: "retry_attempt S a c d k e f W = (out, W1)" by force
  show ?case
  proof (cases out)
    case (Finished r)
    with Suc.prems at have "r = Inl e'" "W1 = W'" by simp_all
    from at Finished show ?thesis
    proof (cases rule: retry_attempt_cases)
      case (submitted pending W2 sourced r1 W4)
      with \<open>r = Inl e'\<close> \<open>W1 = W'\<close> Finished show ?thesis
        by (cases r1) (auto dest: retry_rejected_uncached)
    qed auto
  qed (use Suc at in auto)
qed auto

lemma resubmit_loop_uncached:
  "resubmit_loop S a c d n left k W = (Inl e', W') \<Longrightarrow>
   peek_next_nonce (wl_nonces W') a = None \<or> e' = ReplacementFeeOverflow"
proof (induction left arbitrary: k W)
  case (Suc left)
  from Suc.prems show ?case
    by (cases rule: resubmit_loop_cases) (auto dest: Suc.IH)
qed auto

lemma assign_nonce_uncached:
  "assign_nonce S a W = (Inl e, W') \<Longrightarrow> peek_next_nonce (wl_nonces W') a = None"
  by (auto simp: assign_nonce_def get_next_nonce_def peek_next_nonce_def slot_def Let_def
      split: prod.splits sum.splits option.splits)

text \<open>
  A send that fails never leaves a nonce of the wallet in the cache, so that the next send
  reads the chain's own count and no gap opens behind a nonce that was never used; the only
  failure that keeps the cached nonce is the overflow of a replacement fee, where the nonce is
  occupied by the transaction that was to be replaced.
\<close>

theorem failed_send_forgets_cached_nonce:
  assumes "send_with_recovery S a c d W = (Inl e, W')" and "e \<noteq> ReplacementFeeOverflow"
  shows "peek_next_nonce (wl_nonces W') a = None"
  using assms(1)
proof (cases rule: send_cases)
  case (too_low n W1 tx e1 W2)
  then show ?thesis by (auto simp: retry_after_nonce_too_low_def dest: retry_loop_uncached)
next
  case (underpriced n W1 tx e1 W2)
  then show ?thesis using assms(2) by (auto simp: resubmit_with_bumped_fee_def dest: resubmit_loop_uncached)
qed (auto dest: assign_nonce_uncached)

section \<open>Fee bumps\<close>

lemma div_ceil_nat: "(if x mod 100 = 0 then x div 100 else x div 100 + 1) = (x + 99) div (100 :: nat)"
proof -
  have "x = 100 * (x div 100) + x mod 100" by simp
  moreover have "(100 * q + r + 99) div 100 = (if r = 0 then q else q + 1)" if "r < 100" for q r :: nat
    using that by (auto simp: div_nat_eqI)
  ultimately show ?thesis by (metis mod_less_divisor zero_less_numeral)
qed

lemma unat_div_ceil_100: "unat (u128_div_ceil a 100) = (unat a + 99) div 100"
proof -
  have d: "unat (a div 100) = unat a div 100" and m: "unat (a mod 100) = unat a mod 100"
    by (simp_all add: unat_div unat_mod)
  have b: "unat a div 100 + 1 < 2 ^ 128" using unat_bound [of a] by simp
  have c: "unat (a div 100 + 1) = unat a div 100 + 1"
    using b by (simp add: unat_word_ariths d)
  have "(a mod 100 = 0) = (unat a mod 100 = 0)" using m by (metis unat_eq_zero)
  then show ?thesis using c d by (simp add: u128_div_ceil_def div_ceil_nat [symmetric])
qed

text \<open>
  A fee bump is exact: it is the scaled fee rounded up to the next integer, and it fails with
  the overflow error exactly when the scaled product does not fit 128 bits, so it never wraps.
  The bumps of the escalation, at most sixty percent, therefore raise the fee by at least the
  percentage asked for.
\<close>

theorem bump_fee_exact:
  assumes "unat pct \<le> 60"
  shows "bump_fee value pct =
     (if unat value * (100 + unat pct) < 2 ^ 128
      then Inr (of_nat ((unat value * (100 + unat pct) + 99) div 100)) else Inl ReplacementFeeOverflow)
   \<and> (\<forall>bumped. bump_fee value pct = Inr bumped \<longrightarrow>
        unat value * (100 + unat pct) \<le> 100 * unat bumped \<and> value \<le> bumped)"
proof -
  have p: "unat (ucast (100 + pct) :: u128) = 100 + unat pct"
    using assms by (simp add: unsigned_ucast_eq take_bit_nat_def unat_word_ariths)
  let ?x = "value * ucast (100 + pct)"
  have eq: "bump_fee value pct =
     (if unat value * (100 + unat pct) < 2 ^ 128
      then Inr (of_nat ((unat value * (100 + unat pct) + 99) div 100)) else Inl ReplacementFeeOverflow)"
  proof (cases "unat value * (100 + unat pct) < 2 ^ 128")
    case True
    then have "unat ?x = unat value * (100 + unat pct)" by (simp add: unat_word_ariths p)
    then have "unat (u128_div_ceil ?x 100) = (unat value * (100 + unat pct) + 99) div 100"
      by (simp only: unat_div_ceil_100)
    then have "u128_div_ceil ?x 100 = of_nat ((unat value * (100 + unat pct) + 99) div 100)"
      by (metis of_nat_unat ucast_id)
    with True show ?thesis by (simp add: bump_fee_def u128_checked_mul_def p)
  qed (simp add: bump_fee_def u128_checked_mul_def p)
  have "unat value * (100 + unat pct) \<le> 100 * unat bumped \<and> value \<le> bumped" if "bump_fee value pct = Inr bumped" for bumped
  proof -
    define y where "y = unat value * (100 + unat pct)"
    from that eq have fits: "y < 2 ^ 128" and b: "bumped = of_nat ((y + 99) div 100)"
      by (auto simp: y_def split: if_splits)
    have "unat bumped = (y + 99) div 100" using fits by (simp add: b unat_of_nat)
    moreover have "y \<le> 100 * ((y + 99) div 100)" by presburger
    moreover have "100 * unat value \<le> y" by (simp add: y_def)
    ultimately show ?thesis by (simp add: y_def [symmetric] word_le_nat_alt)
  qed
  with eq show ?thesis by blast
qed

theorem bump_fee_exact_witness:
  "unat (15 :: u64) \<le> 60 \<and> bump_fee 101 15 = Inr 117 \<and> bump_fee (2 ^ 127) 15 = Inl ReplacementFeeOverflow"
  using bump_fee_exact [of 15 101] bump_fee_exact [of 15 "2 ^ 127"] by simp

section \<open>A scripted node\<close>

text \<open>
  A node that answers the submissions from a script, with a wallet at nonce 7 whose co-signer has
  used nonces 7 and 8. Its world is the clock and the script; an unpinned request draws its nonce
  from the cache of address 1.
\<close>

type_synonym demo_world = "nat \<times> (rpc_error + tx_hash) list"

definition demo_node :: "demo_world submitter" where
  "demo_node = \<lparr>
     sb_send = (\<lambda>tx m (t, script).
       (case script of [] \<Rightarrow> Inl (RpcFailure ''closed'') | r # _ \<Rightarrow> r,
        case tx_nonce tx of Some _ \<Rightarrow> m
        | None \<Rightarrow> m(1 \<mapsto> map_option (\<lambda>n. saturating_add n 1) (peek_next_nonce m 1)),
        (t, List.tl script))),
     sb_latest = (\<lambda>_ w. (Inr 7, w)), sb_pending = (\<lambda>_ w. (Inl (RpcFailure ''pending''), w)),
     sb_estimate = (\<lambda>w. (Inr \<lparr>max_fee_per_gas = 100, max_priority_fee_per_gas = 3\<rparr>, w)),
     sb_sleep = (\<lambda>d (t, script). (t + d, script)), sb_now = fst\<rparr>"

definition too_low_with_hint :: rpc_error where
  "too_low_with_hint = ErrorResp (- 32000) ''nonce too low: next nonce 9, tx nonce 7''"

definition too_low_bare :: rpc_error where
  "too_low_bare = ErrorResp (- 32000) ''nonce too low''"

definition wallet_before :: "(rpc_error + tx_hash) list \<Rightarrow> demo_world wallet" where
  "wallet_before script = \<lparr>wl_world = (0, script), wl_nonces = Map.empty, wl_in_flight = Map.empty, wl_sent = []\<rparr>"

definition demo_wallet :: "demo_world wallet" where
  "demo_wallet = wallet_before [Inl too_low_with_hint, Inl too_low_bare, Inr 42]"

lemma demo_pinned: "pinned_leaves_cache demo_node"
  by (simp add: pinned_leaves_cache_def demo_node_def split: prod.splits) (auto split: option.splits)

lemma demo_hint [simp]:
  "is_nonce_too_low (Transport too_low_with_hint)" "next_nonce_hint (Transport too_low_with_hint) = Some 9"
proof -
  have "str_contains ''nonce too low'' ''nonce too low: next nonce 9, tx nonce 7''"
    by (rule str_contains_prefix) simp
  then show "is_nonce_too_low (Transport too_low_with_hint)" "next_nonce_hint (Transport too_low_with_hint) = Some 9"
    by (simp_all add: is_nonce_too_low_def next_nonce_hint_def too_low_with_hint_def split_once.simps
          is_ascii_digit_def parse_u64_def decimal_value_def)
qed

lemma demo_bare [simp]:
  "is_nonce_too_low (Transport too_low_bare)" "next_nonce_hint (Transport too_low_bare) = None"
proof -
  have "str_contains ''nonce too low'' ''nonce too low''" by (rule str_contains_prefix) simp
  then show "is_nonce_too_low (Transport too_low_bare)" "next_nonce_hint (Transport too_low_bare) = None"
    by (simp_all add: is_nonce_too_low_def next_nonce_hint_def too_low_bare_def split_once.simps)
qed

lemmas demo_evaluation = wallet_before_def demo_node_def send_with_recovery_def assign_nonce_def get_next_nonce_def
  slot_def peek_next_nonce_def submit_def Let_def saturating_add_def option_or_def invalidate_cache_def invalidate_def

lemma three_retries: "unat MAX_NONCE_TOO_LOW_RETRIES = Suc (Suc (Suc 0))"
  by (simp add: MAX_NONCE_TOO_LOW_RETRIES_def)

text \<open>The retries of the script: at the hinted nonce 9, then past it.\<close>

lemma demo_send:
  "\<exists>W. send_with_recovery demo_node 1 2 [] demo_wallet = (Inr 42, W)
     \<and> targets (submissions demo_wallet W) = [7, 9, 10] \<and> sb_now demo_node (wl_world W) = 1000"
  by (simp add: demo_wallet_def demo_evaluation retry_after_nonce_too_low_def three_retries retry_attempt_def initial_nonce_floor_def back_off_def pending_nonce_def resolve_source_def
      at_least_floor_def set_next_nonce_def retry_rejected_def raise_nonce_floor_def record_sent_def
      NONCE_RETRY_BACKOFF_def targets_def submissions_def)

theorem send_accepts_once_at_ascending_nonces_witness:
  "\<exists>W. send_with_recovery demo_node 1 2 [] demo_wallet = (Inr 42, W)
     \<and> targets (submissions demo_wallet W) = [7, 9, 10] \<and> one_acceptance (submissions demo_wallet W) (Inr 42)"
  using demo_send send_accepts_once_at_ascending_nonces [OF demo_pinned] by blast

theorem send_is_booked_witness:
  "\<exists>W n. send_with_recovery demo_node 1 2 [] demo_wallet = (Inr 42, W)
     \<and> fst (ownership 1000 (wl_in_flight W) 1 n) = Ours"
proof -
  obtain W where W: "send_with_recovery demo_node 1 2 [] demo_wallet = (Inr 42, W)"
    "sb_now demo_node (wl_world W) = 1000" using demo_send by blast
  have "wf_in_flight (wl_in_flight demo_wallet)"
    by (simp add: demo_wallet_def wallet_before_def wf_in_flight_def)
  from send_is_booked [OF this W(1)] W show ?thesis by auto
qed

theorem failed_send_forgets_cached_nonce_witness:
  "\<exists>W. send_with_recovery demo_node 1 2 [] (wallet_before []) = (Inl (Transport (RpcFailure ''closed'')), W)
     \<and> peek_next_nonce (wl_nonces W) 1 = None"
proof -
  obtain W where W: "send_with_recovery demo_node 1 2 [] (wallet_before []) = (Inl (Transport (RpcFailure ''closed'')), W)"
    by (simp add: demo_evaluation is_nonce_too_low_def)
  with failed_send_forgets_cached_nonce [OF W] show ?thesis by simp
qed

end
