(* ===== verification/Evm_Receipt.thy ===== *)
theory Evm_Receipt
  imports Evm_Submit
begin

text \<open>
  Waiting for the receipt of a submitted transaction (\<^verbatim>\<open>wait_for_receipt\<close> of
  \<^verbatim>\<open>crates/evm/src/lib.rs\<close>), and the wallet's \<^verbatim>\<open>await_receipt\<close> and \<^verbatim>\<open>send\<close>, which release
  the in-flight entry by its outcome. The node's answers and the clock are parameters. Instants
  and durations are milliseconds. A call that completes after the deadline of the surrounding
  \<^verbatim>\<open>timeout\<close> is cut off there; a \<^verbatim>\<open>tokio\<close> interval with delayed missed ticks makes its first
  tick at once and every later one a period after the tick before it completed.
\<close>

section \<open>Configuration\<close>

definition RECEIPT_POLL_INTERVAL :: nat where
  "RECEIPT_POLL_INTERVAL = 2 * 1000"

definition RECEIPT_TIMEOUT :: nat where
  "RECEIPT_TIMEOUT = 300 * 1000"

definition CONFIRMATION_TIMEOUT :: nat where
  "CONFIRMATION_TIMEOUT = 30 * 60 * 1000"

definition DROPPED_TX_GRACE :: nat where
  "DROPPED_TX_GRACE = 30 * 1000"

definition DROPPED_TX_CONSECUTIVE_MISSES :: nat where
  "DROPPED_TX_CONSECUTIVE_MISSES = 3"

definition MAX_CONSECUTIVE_TRANSPORT_ERRORS :: nat where
  "MAX_CONSECUTIVE_TRANSPORT_ERRORS = 5"

record receipt_wait_config =
  rw_poll_interval :: nat
  rw_inclusion_timeout :: nat
  rw_confirmation_timeout :: nat
  rw_dropped_grace :: nat
  rw_dropped_consecutive_misses :: nat

definition mainnet_defaults :: receipt_wait_config where
  "mainnet_defaults = \<lparr>rw_poll_interval = RECEIPT_POLL_INTERVAL, rw_inclusion_timeout = RECEIPT_TIMEOUT,
     rw_confirmation_timeout = CONFIRMATION_TIMEOUT, rw_dropped_grace = DROPPED_TX_GRACE,
     rw_dropped_consecutive_misses = DROPPED_TX_CONSECUTIVE_MISSES\<rparr>"

record receipt =
  rc_transaction_hash :: tx_hash
  rc_block_number :: "u64 option"
  rc_status :: bool

record 'w receipt_node =
  rn_get_receipt :: "tx_hash \<Rightarrow> 'w \<Rightarrow> (rpc_error + receipt option) \<times> 'w"
  rn_in_mempool :: "tx_hash \<Rightarrow> 'w \<Rightarrow> (rpc_error + bool) \<times> 'w"
  rn_block_number :: "'w \<Rightarrow> (rpc_error + u64) \<times> 'w"
  rn_now :: "'w \<Rightarrow> nat"
  rn_sleep_until :: "nat \<Rightarrow> 'w \<Rightarrow> 'w"

section \<open>One poll\<close>

text \<open>
  The local variables of a wait: the instant of the next tick, the two runs of consecutive
  misses and transport errors, the world, and as a history what the polls observed, with the
  instant of each.
\<close>

datatype observation =
    ReceiptUnavailable
  | ReceiptSeen receipt
  | TooEarly
  | MempoolUnavailable
  | InMempool
  | Absent
  | BlockUnavailable
  | BlockSeen u64

record 'w wait_state =
  ws_due :: nat
  ws_misses :: nat
  ws_errors :: nat
  ws_world :: 'w
  ws_seen :: "(nat \<times> observation) list"

definition observe :: "'w receipt_node \<Rightarrow> observation \<Rightarrow> 'w wait_state \<Rightarrow> 'w wait_state" where
  "observe N ob s = s\<lparr>ws_seen := ws_seen s @ [(rn_now N (ws_world s), ob)]\<rparr>"

definition tick :: "'w receipt_node \<Rightarrow> nat \<Rightarrow> 'w wait_state \<Rightarrow> 'w wait_state" where
  "tick N period s =
     (let w = rn_sleep_until N (ws_due s) (ws_world s) in s\<lparr>ws_world := w, ws_due := rn_now N w + period\<rparr>)"

definition note_receipt_poll_transport_error ::
  "rpc_error \<Rightarrow> 'w wait_state \<Rightarrow> (evm_error + unit) \<times> 'w wait_state" where
  "note_receipt_poll_transport_error transport_error s =
     (let n = ws_errors s + 1 in
      (if MAX_CONSECUTIVE_TRANSPORT_ERRORS \<le> n then Inl (Transport transport_error) else Inr (),
       s\<lparr>ws_errors := n\<rparr>))"

definition timed_out :: "tx_hash \<Rightarrow> nat \<Rightarrow> evm_error" where
  "timed_out h d = ReceiptTimeout h (of_nat (d div 1000))"

definition classify_pending_receipt ::
  "'w receipt_node \<Rightarrow> tx_hash \<Rightarrow> receipt_wait_config \<Rightarrow> nat \<Rightarrow> 'w wait_state \<Rightarrow>
   (evm_error + unit) \<times> 'w wait_state" where
  "classify_pending_receipt N h config start s =
     (if rn_now N (ws_world s) - start < rw_dropped_grace config
      then (Inr (), (observe N TooEarly s)\<lparr>ws_errors := 0\<rparr>)
      else case rn_in_mempool N h (ws_world s) of
        (r, w) \<Rightarrow>
          (if start + rw_inclusion_timeout config < rn_now N w
           then (Inl (timed_out h (rw_inclusion_timeout config)), s\<lparr>ws_world := w\<rparr>)
           else case r of
             Inl transport_error \<Rightarrow>
               note_receipt_poll_transport_error transport_error
                 ((observe N MempoolUnavailable (s\<lparr>ws_world := w\<rparr>))\<lparr>ws_misses := 0\<rparr>)
           | Inr True \<Rightarrow>
               (Inr (), (observe N InMempool (s\<lparr>ws_world := w\<rparr>))\<lparr>ws_errors := 0, ws_misses := 0\<rparr>)
           | Inr False \<Rightarrow>
               (let n = ws_misses s + 1 in
                (if rw_dropped_consecutive_misses config \<le> n
                 then Inl (TransactionDropped h (of_nat ((rn_now N w - start) div 1000))) else Inr (),
                 (observe N Absent (s\<lparr>ws_world := w\<rparr>))\<lparr>ws_errors := 0, ws_misses := n\<rparr>))))"

text \<open>A step of a polling loop goes on with a new state or ends with a result and the state.\<close>

fun carry_on :: "(evm_error + unit) \<times> 'w wait_state \<Rightarrow> 'w wait_state + (evm_error + 'a) \<times> 'w wait_state" where
  "carry_on (Inl error, s) = Inr (Inl error, s)"
| "carry_on (Inr (), s) = Inl s"

definition inclusion_step ::
  "'w receipt_node \<Rightarrow> tx_hash \<Rightarrow> receipt_wait_config \<Rightarrow> nat \<Rightarrow> 'w wait_state \<Rightarrow>
   'w wait_state + (evm_error + receipt \<times> u64) \<times> 'w wait_state" where
  "inclusion_step N h config start s =
     (let s1 = tick N (rw_poll_interval config) s;
          deadline = start + rw_inclusion_timeout config;
          expired = Inl (timed_out h (rw_inclusion_timeout config))
      in if deadline < rn_now N (ws_world s1) then Inr (expired, s1)
         else case rn_get_receipt N h (ws_world s1) of
           (r, w) \<Rightarrow>
             (let s2 = s1\<lparr>ws_world := w\<rparr> in
              if deadline < rn_now N w then Inr (expired, s2)
              else case r of
                Inl transport_error \<Rightarrow>
                  carry_on (note_receipt_poll_transport_error transport_error (observe N ReceiptUnavailable s2))
              | Inr None \<Rightarrow> carry_on (classify_pending_receipt N h config start s2)
              | Inr (Some receipt) \<Rightarrow>
                  (let s3 = (observe N (ReceiptSeen receipt) s2)\<lparr>ws_errors := 0\<rparr> in
                   case rc_block_number receipt of
                     None \<Rightarrow> Inl s3
                   | Some block \<Rightarrow> Inr (Inr (receipt, block), s3))))"

definition confirmations :: "u64 \<Rightarrow> u64 \<Rightarrow> u64" where
  "confirmations current_block receipt_block =
     (if receipt_block \<le> current_block then current_block - receipt_block else 0) + 1"

text \<open>The tick of the confirmation phase comes after its poll.\<close>

definition tick_then ::
  "'w receipt_node \<Rightarrow> tx_hash \<Rightarrow> receipt_wait_config \<Rightarrow> nat \<Rightarrow> 'w wait_state \<Rightarrow>
   'w wait_state + (evm_error + receipt) \<times> 'w wait_state" where
  "tick_then N h config start s =
     (let s1 = tick N (rw_poll_interval config) s in
      if start + rw_confirmation_timeout config < rn_now N (ws_world s1)
      then Inr (Inl (timed_out h (rw_confirmation_timeout config)), s1) else Inl s1)"

definition confirmation_step ::
  "'w receipt_node \<Rightarrow> tx_hash \<Rightarrow> receipt_wait_config \<Rightarrow> nat \<Rightarrow> u64 \<Rightarrow> receipt \<Rightarrow> u64 \<Rightarrow> 'w wait_state \<Rightarrow>
   'w wait_state + (evm_error + receipt) \<times> 'w wait_state" where
  "confirmation_step N h config start required receipt receipt_block s =
     (case rn_block_number N (ws_world s) of
        (r, w) \<Rightarrow>
          (let s1 = s\<lparr>ws_world := w\<rparr> in
           if start + rw_confirmation_timeout config < rn_now N w
           then Inr (Inl (timed_out h (rw_confirmation_timeout config)), s1)
           else case r of
             Inl transport_error \<Rightarrow>
               (case note_receipt_poll_transport_error transport_error (observe N BlockUnavailable s1) of
                  (Inl error, s2) \<Rightarrow> Inr (Inl error, s2)
                | (Inr (), s2) \<Rightarrow> tick_then N h config start s2)
           | Inr current_block \<Rightarrow>
               (let s2 = (observe N (BlockSeen current_block) s1)\<lparr>ws_errors := 0\<rparr> in
                if required \<le> confirmations current_block receipt_block then Inr (Inr receipt, s2)
                else tick_then N h config start s2)))"

section \<open>The wait\<close>

partial_function (option) poll_until :: "('s \<Rightarrow> 's + 'r) \<Rightarrow> 's \<Rightarrow> 'r option" where
  "poll_until step s = (case step s of Inl s' \<Rightarrow> poll_until step s' | Inr r \<Rightarrow> Some r)"

definition initial_wait :: "'w receipt_node \<Rightarrow> 'w \<Rightarrow> 'w wait_state" where
  "initial_wait N w = \<lparr>ws_due = rn_now N w, ws_misses = 0, ws_errors = 0, ws_world = w, ws_seen = []\<rparr>"

definition wait_for_receipt_with_config ::
  "'w receipt_node \<Rightarrow> tx_hash \<Rightarrow> u64 \<Rightarrow> receipt_wait_config \<Rightarrow> 'w \<Rightarrow>
   ((evm_error + receipt) \<times> 'w wait_state) option" where
  "wait_for_receipt_with_config N h required config w =
     (case poll_until (inclusion_step N h config (rn_now N w)) (initial_wait N w) of
        None \<Rightarrow> None
      | Some (Inl error, s) \<Rightarrow> Some (Inl error, s)
      | Some (Inr (receipt, block), s) \<Rightarrow>
          poll_until (confirmation_step N h config (rn_now N (ws_world s)) required receipt block)
            (s\<lparr>ws_errors := 0\<rparr>))"

definition wait_for_receipt ::
  "'w receipt_node \<Rightarrow> tx_hash \<Rightarrow> u64 \<Rightarrow> 'w \<Rightarrow> ((evm_error + receipt) \<times> 'w wait_state) option" where
  "wait_for_receipt N h required w = wait_for_receipt_with_config N h required mainnet_defaults w"

section \<open>The wallet\<close>

definition send_pending ::
  "'w submitter \<Rightarrow> address \<Rightarrow> address \<Rightarrow> nat list \<Rightarrow> 'w wallet \<Rightarrow> (evm_error + tx_hash) \<times> 'w wallet" where
  "send_pending S a contract calldata W = send_with_recovery S a contract calldata W"

definition await_receipt ::
  "'w receipt_node \<Rightarrow> address \<Rightarrow> u64 \<Rightarrow> tx_hash \<Rightarrow> 'w wallet \<Rightarrow> ((evm_error + receipt) \<times> 'w wallet) option" where
  "await_receipt N a required h W =
     (case wait_for_receipt N h required (wl_world W) of
        None \<Rightarrow> None
      | Some (result, s) \<Rightarrow> Some (result, W\<lparr>wl_world := ws_world s,
          wl_in_flight := release_in_flight_after_wait (wl_in_flight W) a h result\<rparr>))"

definition send ::
  "'w submitter \<Rightarrow> 'w receipt_node \<Rightarrow> address \<Rightarrow> u64 \<Rightarrow> address \<Rightarrow> nat list \<Rightarrow> 'w wallet \<Rightarrow>
   ((evm_error + receipt) \<times> 'w wallet) option" where
  "send S N a required contract calldata W =
     (case send_pending S a contract calldata W of
        (Inl error, W1) \<Rightarrow> Some (Inl error, W1)
      | (Inr tx_hash, W1) \<Rightarrow> await_receipt N a required tx_hash W1)"

section \<open>Polling loops\<close>

lemma poll_until_returns:
  assumes "\<And>s s'. step s = Inl s' \<Longrightarrow> \<mu> s' < (\<mu> s :: nat)"
  shows "\<exists>r. poll_until step s = Some r"
proof (induction "\<mu> s" arbitrary: s rule: less_induct)
  case less
  then show ?case
    using assms by (subst poll_until.simps) (auto split: sum.split)
qed

lemma poll_until_invariant:
  assumes "poll_until step s = Some r" and "I s" and "\<And>s s'. I s \<Longrightarrow> step s = Inl s' \<Longrightarrow> I s'"
  shows "\<exists>s'. I s' \<and> step s' = Inr r"
proof -
  have "step = step \<longrightarrow> I s \<longrightarrow> (\<exists>s'. I s' \<and> step s' = Inr r)"
  proof (rule poll_until.raw_induct [where P = "\<lambda>st s r. st = step \<longrightarrow> I s \<longrightarrow> (\<exists>s'. I s' \<and> step s' = Inr r)", OF _ assms(1)])
    fix pu st s r
    assume IH: "\<And>st s r. pu st s = Some r \<Longrightarrow> st = step \<longrightarrow> I s \<longrightarrow> (\<exists>s'. I s' \<and> step s' = Inr r)"
      and eq: "(case st s of Inl s' \<Rightarrow> pu st s' | Inr r \<Rightarrow> Some r) = Some r"
    show "st = step \<longrightarrow> I s \<longrightarrow> (\<exists>s'. I s' \<and> step s' = Inr r)"
      using IH eq assms(3) by (cases "st s") auto
  qed
  with assms(2) show ?thesis by blast
qed

text \<open>
  What the runtime promises of time: it does not run backwards, and a sleep until an instant ends
  no earlier.
\<close>

definition clock_laws :: "'w receipt_node \<Rightarrow> bool" where
  "clock_laws N \<longleftrightarrow>
     (\<forall>d w. d \<le> rn_now N (rn_sleep_until N d w) \<and> rn_now N w \<le> rn_now N (rn_sleep_until N d w))
     \<and> (\<forall>h w. rn_now N w \<le> rn_now N (snd (rn_get_receipt N h w)))
     \<and> (\<forall>h w. rn_now N w \<le> rn_now N (snd (rn_in_mempool N h w)))
     \<and> (\<forall>w. rn_now N w \<le> rn_now N (snd (rn_block_number N w)))"

lemma tick_due:
  "clock_laws N \<Longrightarrow> ws_due s + period \<le> ws_due (tick N period s)
     \<and> ws_due (tick N period s) = rn_now N (ws_world (tick N period s)) + period"
  by (simp add: tick_def clock_laws_def Let_def)

lemma due_simps [simp]: "ws_due (observe N ob s) = ws_due s"
  by (simp add: observe_def)

lemma note_due: "note_receipt_poll_transport_error e s = (r, s') \<Longrightarrow> ws_due s' = ws_due s"
  by (auto simp: note_receipt_poll_transport_error_def Let_def)

lemma classify_due: "classify_pending_receipt N h config start s = (r, s') \<Longrightarrow> ws_due s' = ws_due s"
  by (auto simp: classify_pending_receipt_def Let_def dest!: note_due split: if_splits prod.splits sum.splits bool.splits)

lemma carry_on_Inl: "carry_on x = Inl s' \<longleftrightarrow> x = (Inr (), s')"
  by (cases x rule: carry_on.cases) auto

lemma carry_on_Inr: "carry_on x = Inr r \<longleftrightarrow> (\<exists>e s. x = (Inl e, s) \<and> r = (Inl e, s))"
  by (cases x rule: carry_on.cases) auto

text \<open>A step that goes on has moved the next tick by a period, and within a period of the deadline.\<close>

lemma inclusion_step_due:
  assumes "clock_laws N" and "inclusion_step N h config start s = Inl s'"
  shows "ws_due s + rw_poll_interval config \<le> ws_due s'
    \<and> ws_due s' \<le> start + rw_inclusion_timeout config + rw_poll_interval config"
proof -
  let ?s1 = "tick N (rw_poll_interval config) s"
  have "ws_due s' = ws_due ?s1 \<and> \<not> start + rw_inclusion_timeout config < rn_now N (ws_world ?s1)"
    using assms(2)
    by (auto simp: inclusion_step_def Let_def carry_on_Inl dest!: note_due classify_due
        split: if_splits prod.splits sum.splits option.splits)
  with tick_due [OF assms(1), of s "rw_poll_interval config"] show ?thesis by simp
qed

lemma tick_then_due:
  "clock_laws N \<Longrightarrow> tick_then N h config start s = Inl s' \<Longrightarrow>
   ws_due s + rw_poll_interval config \<le> ws_due s'
   \<and> ws_due s' \<le> start + rw_confirmation_timeout config + rw_poll_interval config"
  using tick_due [of N s "rw_poll_interval config"] by (auto simp: tick_then_def Let_def split: if_splits)

lemma confirmation_step_due:
  assumes "clock_laws N" and "confirmation_step N h config start required receipt block s = Inl s'"
  shows "ws_due s + rw_poll_interval config \<le> ws_due s'
    \<and> ws_due s' \<le> start + rw_confirmation_timeout config + rw_poll_interval config"
  using assms(2)
  by (auto simp: confirmation_step_def Let_def dest!: note_due tick_then_due [OF assms(1)]
      split: if_splits prod.splits sum.splits unit.splits)

text \<open>
  C30. The wait for a receipt always returns: whatever the node answers and however long its
  answers take, both phases end by their deadlines, since every further poll moves the next tick
  by the poll interval.
\<close>

theorem wait_for_receipt_returns:
  assumes "clock_laws N"
  shows "\<exists>result. wait_for_receipt N h required w = Some result"
proof -
  let ?c = mainnet_defaults
  have "0 < rw_poll_interval ?c" by (simp add: mainnet_defaults_def RECEIPT_POLL_INTERVAL_def)
  then have inclusion: "\<exists>r. poll_until (inclusion_step N h ?c start) s = Some r" for start s
    using inclusion_step_due [OF assms]
    by (intro poll_until_returns [where \<mu> = "\<lambda>s. start + rw_inclusion_timeout ?c + rw_poll_interval ?c + 1 - ws_due s"])
       fastforce
  from \<open>0 < rw_poll_interval ?c\<close>
  have confirmation: "\<exists>r. poll_until (confirmation_step N h ?c start required receipt block) s = Some r"
    for start receipt block s
    using confirmation_step_due [OF assms]
    by (intro poll_until_returns [where \<mu> = "\<lambda>s. start + rw_confirmation_timeout ?c + rw_poll_interval ?c + 1 - ws_due s"])
       fastforce
  from inclusion [of "rn_now N w" "initial_wait N w"] confirmation show ?thesis
    by (fastforce simp: wait_for_receipt_def wait_for_receipt_with_config_def split: sum.splits)
qed

section \<open>What an outcome rests on\<close>

text \<open>The lookups of the mempool, latest first, and the run of absences the miss count stands for.\<close>

definition mempool_lookups :: "(nat \<times> observation) list \<Rightarrow> (nat \<times> observation) list" where
  "mempool_lookups seen = rev (filter (\<lambda>x. snd x \<in> {MempoolUnavailable, InMempool, Absent}) seen)"

definition absence_run :: "nat \<Rightarrow> nat \<Rightarrow> (nat \<times> observation) list \<Rightarrow> bool" where
  "absence_run since n seen \<longleftrightarrow>
     n \<le> length (mempool_lookups seen)
     \<and> list_all (\<lambda>x. snd x = Absent \<and> since \<le> fst x) (take n (mempool_lookups seen))"

lemma absence_run_0 [simp]: "absence_run since 0 seen"
  by (simp add: absence_run_def)

lemma absence_run_other [simp]:
  "ob \<notin> {MempoolUnavailable, InMempool, Absent} \<Longrightarrow> absence_run since n (seen @ [(t, ob)]) = absence_run since n seen"
  by (simp add: absence_run_def mempool_lookups_def)

lemma absence_run_Absent:
  "absence_run since n seen \<Longrightarrow> since \<le> t \<Longrightarrow> absence_run since (Suc n) (seen @ [(t, Absent)])"
  by (simp add: absence_run_def mempool_lookups_def)

lemma absence_run_mono: "absence_run since n seen \<Longrightarrow> m \<le> n \<Longrightarrow> absence_run since m seen"
  using set_take_subset_set_take [of m n "mempool_lookups seen"] by (auto simp: absence_run_def list_all_iff)

lemma note_fields:
  "note_receipt_poll_transport_error e s = (r, s') \<Longrightarrow>
   ws_misses s' = ws_misses s \<and> ws_seen s' = ws_seen s \<and> (\<forall>x. r = Inl x \<longrightarrow> x = Transport e)"
  by (auto simp: note_receipt_poll_transport_error_def Let_def split: if_splits)

lemma classify_absence_run:
  assumes laws: "clock_laws N" and grace: "0 < rw_dropped_grace config"
    and run: "absence_run (start + rw_dropped_grace config) (ws_misses s) (ws_seen s)"
    and cl: "classify_pending_receipt N h config start s = (r, s')"
  shows "absence_run (start + rw_dropped_grace config) (ws_misses s') (ws_seen s')
    \<and> (\<forall>h' t. r = Inl (TransactionDropped h' t) \<longrightarrow> h' = h \<and> rw_dropped_consecutive_misses config \<le> ws_misses s')"
proof (cases "rn_now N (ws_world s) - start < rw_dropped_grace config")
  case True
  with run cl show ?thesis by (auto simp: classify_pending_receipt_def observe_def)
next
  case False
  obtain m w where m: "rn_in_mempool N h (ws_world s) = (m, w)" by force
  have "rn_now N (ws_world s) \<le> rn_now N w" using laws m by (metis clock_laws_def snd_conv)
  then have "start + rw_dropped_grace config \<le> rn_now N w" using False grace by linarith
  with False run cl m show ?thesis
    by (auto simp: classify_pending_receipt_def observe_def timed_out_def Let_def absence_run_Absent
        dest!: note_fields split: if_splits sum.splits bool.splits)
qed

definition inclusion_invariant :: "nat \<Rightarrow> receipt_wait_config \<Rightarrow> 'w wait_state \<Rightarrow> bool" where
  "inclusion_invariant start config s \<longleftrightarrow>
     absence_run (start + rw_dropped_grace config) (ws_misses s) (ws_seen s)"

text \<open>
  A step keeps the run of absences; when it ends the phase, a drop rests on a full run and a
  receipt is the one just seen, with its block.
\<close>

lemma inclusion_step_justified:
  assumes laws: "clock_laws N" and grace: "0 < rw_dropped_grace config"
    and inv: "inclusion_invariant start config s"
  shows "inclusion_step N h config start s = Inl s' \<Longrightarrow> inclusion_invariant start config s'"
    and "inclusion_step N h config start s = Inr (Inl (TransactionDropped h' t), s') \<Longrightarrow>
         h' = h \<and> inclusion_invariant start config s' \<and> rw_dropped_consecutive_misses config \<le> ws_misses s'"
    and "inclusion_step N h config start s = Inr (Inr (receipt, block), s') \<Longrightarrow>
         rc_block_number receipt = Some block \<and> ReceiptSeen receipt \<in> snd ` set (ws_seen s')"
proof -
  let ?s1 = "tick N (rw_poll_interval config) s"
  obtain r w where r: "rn_get_receipt N h (ws_world ?s1) = (r, w)" by force
  have inv1: "absence_run (start + rw_dropped_grace config) (ws_misses ?s1) (ws_seen ?s1)"
    using inv by (simp add: inclusion_invariant_def tick_def Let_def)
  note cls = classify_absence_run [OF laws grace, of start "?s1\<lparr>ws_world := w\<rparr>", simplified, OF inv1]
  show "inclusion_step N h config start s = Inl s' \<Longrightarrow> inclusion_invariant start config s'"
    using inv1 r cls [where s' = s']
    by (auto simp: inclusion_step_def inclusion_invariant_def Let_def carry_on_Inl observe_def dest!: note_fields
        split: if_splits prod.splits sum.splits option.splits)
  show "inclusion_step N h config start s = Inr (Inl (TransactionDropped h' t), s') \<Longrightarrow>
         h' = h \<and> inclusion_invariant start config s' \<and> rw_dropped_consecutive_misses config \<le> ws_misses s'"
    using r cls [where s' = s']
    by (auto simp: inclusion_step_def inclusion_invariant_def Let_def carry_on_Inr timed_out_def dest!: note_fields
        split: if_splits prod.splits sum.splits option.splits)
  show "inclusion_step N h config start s = Inr (Inr (receipt, block), s') \<Longrightarrow>
         rc_block_number receipt = Some block \<and> ReceiptSeen receipt \<in> snd ` set (ws_seen s')"
    using r
    by (auto simp: inclusion_step_def Let_def carry_on_Inr observe_def
        split: if_splits prod.splits sum.splits option.splits)
qed

lemma confirmation_step_seen:
  assumes "confirmation_step N h config start required receipt block s = Inl s'"
  shows "set (ws_seen s) \<subseteq> set (ws_seen s')"
  using assms
  by (auto simp: confirmation_step_def tick_then_def tick_def observe_def Let_def dest!: note_fields
      split: if_splits prod.splits sum.splits unit.splits)

lemma confirmation_step_ends:
  assumes "confirmation_step N h config start required receipt block s = Inr (r, s')"
  shows "set (ws_seen s) \<subseteq> set (ws_seen s') \<and>
    (case r of
       Inr receipt' \<Rightarrow> receipt' = receipt
         \<and> (\<exists>c. BlockSeen c \<in> snd ` set (ws_seen s') \<and> required \<le> confirmations c block)
     | Inl error \<Rightarrow> \<not> is_transaction_dropped error)"
  using assms
  by (auto simp: confirmation_step_def tick_then_def tick_def observe_def timed_out_def Let_def dest!: note_fields
      split: if_splits prod.splits sum.splits unit.splits)

text \<open>
  C29. What a finished wait rests on. A receipt is returned only when the node reported it with a
  block and a later poll of the chain's height showed the required number of confirmations on top
  of it. A transaction is declared dropped only when the last three lookups of the mempool all
  found it absent, each at least the grace period after the wait began; a lookup that failed or
  found it pending starts the count again.
\<close>

theorem wait_outcome_is_justified:
  assumes laws: "clock_laws N"
    and returned: "wait_for_receipt N h required w = Some (result, s)"
  shows "case result of
     Inr receipt \<Rightarrow> \<exists>block c. rc_block_number receipt = Some block
       \<and> {ReceiptSeen receipt, BlockSeen c} \<subseteq> snd ` set (ws_seen s) \<and> required \<le> confirmations c block
   | Inl error \<Rightarrow> is_transaction_dropped error \<longrightarrow>
       (\<exists>t. error = TransactionDropped h t) \<and> absence_run (rn_now N w + DROPPED_TX_GRACE) 3 (ws_seen s)"
proof -
  let ?c = mainnet_defaults and ?t = "rn_now N w"
  have grace: "0 < rw_dropped_grace ?c" and misses: "rw_dropped_consecutive_misses ?c = 3"
    and g: "rw_dropped_grace ?c = DROPPED_TX_GRACE"
    by (simp_all add: mainnet_defaults_def DROPPED_TX_GRACE_def DROPPED_TX_CONSECUTIVE_MISSES_def)
  obtain r1 s1 where p1: "poll_until (inclusion_step N h ?c ?t) (initial_wait N w) = Some (r1, s1)"
    using returned by (auto simp: wait_for_receipt_def wait_for_receipt_with_config_def split: option.splits)
  obtain s0 where s0: "inclusion_invariant ?t ?c s0" "inclusion_step N h ?c ?t s0 = Inr (r1, s1)"
    using poll_until_invariant [OF p1, of "inclusion_invariant ?t ?c"] inclusion_step_justified(1) [OF laws grace]
    by (auto simp: inclusion_invariant_def initial_wait_def)
  show ?thesis
  proof (cases r1)
    case (Inl error)
    then have "result = Inl error" "s = s1"
      using returned p1 by (simp_all add: wait_for_receipt_def wait_for_receipt_with_config_def)
    moreover have "(\<exists>t. error = TransactionDropped h t) \<and> absence_run (?t + DROPPED_TX_GRACE) 3 (ws_seen s1)"
      if dropped: "is_transaction_dropped error"
    proof -
      obtain h' t where e: "error = TransactionDropped h' t" using dropped by (cases error) auto
      have "h' = h \<and> inclusion_invariant ?t ?c s1 \<and> 3 \<le> ws_misses s1"
        using inclusion_step_justified(2) [OF laws grace s0(1)] s0(2) Inl e misses by metis
      with e g absence_run_mono show ?thesis by (auto simp: inclusion_invariant_def)
    qed
    ultimately show ?thesis by simp
  next
    case (Inr x)
    obtain receipt block where x: "x = (receipt, block)" by force
    have block: "rc_block_number receipt = Some block" "ReceiptSeen receipt \<in> snd ` set (ws_seen s1)"
      using inclusion_step_justified(3) [OF laws grace s0(1)] s0(2) Inr x by metis+
    have p2: "poll_until (confirmation_step N h ?c (rn_now N (ws_world s1)) required receipt block) (s1\<lparr>ws_errors := 0\<rparr>)
        = Some (result, s)"
      using returned p1 Inr x by (simp add: wait_for_receipt_def wait_for_receipt_with_config_def)
    obtain s2 where s2: "ReceiptSeen receipt \<in> snd ` set (ws_seen s2)"
      "confirmation_step N h ?c (rn_now N (ws_world s1)) required receipt block s2 = Inr (result, s)"
      using poll_until_invariant [OF p2, of "\<lambda>s. ReceiptSeen receipt \<in> snd ` set (ws_seen s)"] confirmation_step_seen block(2)
      by (metis (no_types, lifting) image_mono subsetD wait_state.ext_inject wait_state.surjective wait_state.update_convs(3))
    note ends = confirmation_step_ends [OF s2(2)]
    have "ReceiptSeen receipt \<in> snd ` set (ws_seen s)" using s2(1) ends by blast
    with ends block(1) show ?thesis by (cases result) auto
  qed
qed

section \<open>Sending and awaiting\<close>

text \<open>
  C27. A transaction sent and awaited leaves the books as its outcome demands: a receipt frees the
  nonce it was sent at, with every hash recorded there; a drop removes this hash; after any other
  failure, a timeout in particular, the hash is still recorded at its nonce with the instant of
  the send, so the nonce stays the wallet's own.
\<close>

theorem await_settles_the_sent_nonce:
  assumes wf: "wf_in_flight (wl_in_flight W)"
    and sent: "send_pending S a c d W = (Inr h, W1)"
    and awaited: "await_receipt N a required h W1 = Some (result, W')"
  shows "\<exists>n. last (wl_sent W1) = (Some n, Inr h) \<and>
    (case result of
       Inr _ \<Rightarrow> fst (ownership now (wl_in_flight W') a n) = Unknown
     | Inl error \<Rightarrow>
         seen_at (wl_in_flight W') a n h =
           (if is_transaction_dropped error then None else Some (sb_now S (wl_world W1))))"
proof -
  from send_booked [OF wf sent [unfolded send_pending_def]] obtain n where
    n: "wf_in_flight (wl_in_flight W1)" "last (wl_sent W1) = (Some n, Inr h)"
       "seen_at (wl_in_flight W1) a n h = Some (sb_now S (wl_world W1))" by (auto simp: booked_def)
  have "wl_in_flight W' = release_in_flight_after_wait (wl_in_flight W1) a h result"
    using awaited by (auto simp: await_receipt_def split: option.splits)
  with n show ?thesis
    by (intro exI [of _ n], cases result)
       (simp_all add: release_in_flight_after_wait_def ledger.mined_frees ledger.seen_dropped)
qed

section \<open>A node in three scripts\<close>

text \<open>
  The world is the clock and the number of receipt polls made. A receipt poll takes thirty
  seconds, and the answers of the polls are given by their number.
\<close>

definition demo_chain :: "(nat \<Rightarrow> receipt option) \<Rightarrow> (nat \<times> nat) receipt_node" where
  "demo_chain answers = \<lparr>
     rn_get_receipt = (\<lambda>_ (t, k). (Inr (answers k), (t + 30000, k + 1))),
     rn_in_mempool = (\<lambda>_ w. (Inr False, w)), rn_block_number = (\<lambda>w. (Inr 7, w)),
     rn_now = fst, rn_sleep_until = (\<lambda>d (t, k). (max d t, k))\<rparr>"

definition mined_receipt :: receipt where
  "mined_receipt = \<lparr>rc_transaction_hash = 42, rc_block_number = Some 5, rc_status = True\<rparr>"

definition pending_receipt :: receipt where
  "pending_receipt = \<lparr>rc_transaction_hash = 42, rc_block_number = None, rc_status = True\<rparr>"

lemma demo_chain_laws: "clock_laws (demo_chain answers)"
  by (simp add: clock_laws_def demo_chain_def split: prod.splits)

lemmas wait_evaluation = wait_for_receipt_def wait_for_receipt_with_config_def inclusion_step_def confirmation_step_def
  tick_def tick_then_def classify_pending_receipt_def observe_def initial_wait_def mainnet_defaults_def
  RECEIPT_POLL_INTERVAL_def RECEIPT_TIMEOUT_def CONFIRMATION_TIMEOUT_def DROPPED_TX_GRACE_def
  DROPPED_TX_CONSECUTIVE_MISSES_def demo_chain_def Let_def confirmations_def

theorem wait_for_receipt_returns_witness:
  "\<exists>result. wait_for_receipt (demo_chain (\<lambda>_. None)) 42 3 (0, 0) = Some result"
  by (rule wait_for_receipt_returns [OF demo_chain_laws])

lemma demo_mined: "\<exists>s. wait_for_receipt (demo_chain (\<lambda>_. Some mined_receipt)) 42 3 (0, 0) = Some (Inr mined_receipt, s)"
  by (simp add: wait_evaluation poll_until.simps mined_receipt_def)

lemma demo_dropped:
  "\<exists>s. wait_for_receipt (demo_chain (\<lambda>_. None)) 42 3 (0, 0) = Some (Inl (TransactionDropped 42 90), s)"
  by (simp add: wait_evaluation poll_until.simps)

text \<open>
  A sighting by a receipt that carries no block does not start the count again: absent, seen,
  absent, absent is declared dropped.
\<close>

lemma blockless_receipt_does_not_reset_misses:
  "\<exists>s. wait_for_receipt (demo_chain (\<lambda>k. if k = 1 then Some pending_receipt else None)) 42 3 (0, 0)
     = Some (Inl (TransactionDropped 42 120), s)"
  by (simp add: wait_evaluation poll_until.simps pending_receipt_def)

theorem wait_outcome_is_justified_witness:
  "(\<exists>s. wait_for_receipt (demo_chain (\<lambda>_. Some mined_receipt)) 42 3 (0, 0) = Some (Inr mined_receipt, s)
      \<and> ReceiptSeen mined_receipt \<in> snd ` set (ws_seen s))
   \<and> (\<exists>s. wait_for_receipt (demo_chain (\<lambda>_. None)) 42 3 (0, 0) = Some (Inl (TransactionDropped 42 90), s)
      \<and> absence_run 30000 3 (ws_seen s))"
proof (intro conjI)
  obtain s where s: "wait_for_receipt (demo_chain (\<lambda>_. Some mined_receipt)) 42 3 (0, 0) = Some (Inr mined_receipt, s)"
    using demo_mined by blast
  from wait_outcome_is_justified [OF demo_chain_laws s] s
  show "\<exists>s. wait_for_receipt (demo_chain (\<lambda>_. Some mined_receipt)) 42 3 (0, 0) = Some (Inr mined_receipt, s)
      \<and> ReceiptSeen mined_receipt \<in> snd ` set (ws_seen s)" by auto
next
  obtain s where s: "wait_for_receipt (demo_chain (\<lambda>_. None)) 42 3 (0, 0) = Some (Inl (TransactionDropped 42 90), s)"
    using demo_dropped by blast
  from wait_outcome_is_justified [OF demo_chain_laws s] s
  show "\<exists>s. wait_for_receipt (demo_chain (\<lambda>_. None)) 42 3 (0, 0) = Some (Inl (TransactionDropped 42 90), s)
      \<and> absence_run 30000 3 (ws_seen s)" by (auto simp: demo_chain_def DROPPED_TX_GRACE_def)
qed

text \<open>A node that answers nothing, for the wallet of the scripted send.\<close>

definition offline :: "demo_world receipt_node" where
  "offline = \<lparr>rn_get_receipt = (\<lambda>_ w. (Inl (RpcFailure ''down''), w)), rn_in_mempool = (\<lambda>_ w. (Inl (RpcFailure ''down''), w)),
     rn_block_number = (\<lambda>w. (Inl (RpcFailure ''down''), w)), rn_now = fst,
     rn_sleep_until = (\<lambda>d (t, script). (max d t, script))\<rparr>"

lemma offline_wait: "\<exists>s. wait_for_receipt offline h required (t, script) = Some (Inl (Transport (RpcFailure ''down'')), s)"
  by (simp add: wait_evaluation offline_def poll_until.simps note_receipt_poll_transport_error_def
      MAX_CONSECUTIVE_TRANSPORT_ERRORS_def)

theorem await_settles_the_sent_nonce_witness:
  "\<exists>W1 W' n. send_pending demo_node 1 2 [] demo_wallet = (Inr 42, W1)
     \<and> await_receipt offline 1 3 42 W1 = Some (Inl (Transport (RpcFailure ''down'')), W')
     \<and> seen_at (wl_in_flight W') 1 n 42 = Some 1000"
proof -
  obtain W1 where W1: "send_pending demo_node 1 2 [] demo_wallet = (Inr 42, W1)" "sb_now demo_node (wl_world W1) = 1000"
    using demo_send by (auto simp: send_pending_def)
  obtain W' where W': "await_receipt offline 1 3 42 W1 = Some (Inl (Transport (RpcFailure ''down'')), W')"
    using offline_wait [of 42 3 "fst (wl_world W1)" "snd (wl_world W1)"] by (auto simp: await_receipt_def)
  have "wf_in_flight (wl_in_flight demo_wallet)"
    by (simp add: demo_wallet_def wallet_before_def wf_in_flight_def)
  from await_settles_the_sent_nonce [OF this W1(1) W'] W1 W' show ?thesis by auto
qed

end
