(* ===== verification/Cash_Services.thy ===== *)
theory Cash_Services
  imports UsdcRebalance Evm_Nonces
begin

text \<open>
  What the USDC transfer orchestrator (\<^verbatim>\<open>rebalancing/usdc/manager.rs\<close>) is made of: its errors
  and those of the clients it calls, the services it calls as records of operations over a world
  \<open>'w\<close> (bridge, Raindex, Alpaca wallet and broker, event store, clock), and sending a command to
  the \<^verbatim>\<open>UsdcRebalance\<close> aggregate. The services are parameters: a call may fail, and may have
  had its effect although it failed.
\<close>

section \<open>Errors of the clients\<close>

datatype bridge_direction = EthereumToBase | BaseToEthereum

text \<open>Payloads of third-party error types are their text.\<close>

datatype attestation_error =
    AttestationHttp string
  | AttestationHexDecode string
  | AttestationJsonParse string
  | AttestationPending string
  | AttestationNoMessages
  | AttestationMissingField string
  | AttestationNotYetAvailable "16 word"

datatype cctp_error =
    CctpEvm evm_error
  | CctpContract contract_error
  | CctpRpcTransport rpc_error
  | CctpSolType string
  | CctpScanInconclusive u64
  | BurnTxPending tx_hash
  | CctpHttp string
  | AttestationTimeout u64 attestation_error
  | MalformedAttestation attestation_error
  | MessageSentEventNotFound tx_hash
  | MintAndWithdrawEventNotFound
  | TxReceiptMissingBlock tx_hash
  | MessageTooShort u64
  | MessageTooShortForRecovery u64
  | MessageDestinationDomainMismatch u32 u32
  | AlreadyMintedMessageNotFound b256
  | RecoveredMintMessageMismatch b256
  | RecoveredMintLogMissingTxHash b256
  | RecoveredMintReceiptReverted tx_hash
  | RecoveredMintAndWithdrawEventNotFound tx_hash
  | PlaceholderNonce
  | CctpMintRecoveryInconclusive cctp_error
  | FeeCalculationOverflow
  | CctpFloat float_error
  | AmountConversion string
  | FastTransferFeeNotAvailable bridge_direction
  | CctpHexDecode string
  | FeeValueParse string

fun evm_is_revert :: "evm_error \<Rightarrow> bool" where
  "evm_is_revert (Reverted _) = True"
| "evm_is_revert (DecodedRevert _) = True"
| "evm_is_revert (ContractCall error) = (as_revert_data error \<noteq> None)"
| "evm_is_revert (Transport rpc_error) =
     (case as_error_resp rpc_error of
        None \<Rightarrow> False
      | Some (code, message) \<Rightarrow> code = 3 \<or> str_contains ''execution reverted'' message)"
| "evm_is_revert _ = False"

fun cctp_is_revert :: "cctp_error \<Rightarrow> bool" where
  "cctp_is_revert (CctpEvm error) = evm_is_revert error"
| "cctp_is_revert (CctpContract error) = (as_revert_data error \<noteq> None)"
| "cctp_is_revert _ = False"

datatype scan_anomaly =
    MissingTransactionHash
  | MissingTopics
  | UnrecognizedTopic0 b256
  | UndecodableOperatorWithdraw string

datatype raindex_error =
    RaindexEvm evm_error
  | RaindexContract contract_error
  | RaindexFloat float_error
  | RaindexZeroAmount
  | RaindexRpcTransport rpc_error
  | RaindexSolType string
  | RaindexScanInconclusive u64
  | RaindexScanAnomalousLog scan_anomaly
  | VaultUnderFunded address u256 u256
  | MissingOperatorRole address address

fun raindex_tx_dropped :: "raindex_error \<Rightarrow> bool" where
  "raindex_tx_dropped (RaindexEvm error) = is_transaction_dropped error"
| "raindex_tx_dropped _ = False"

datatype transfer_status = TransferPending | TransferProcessing | TransferComplete | TransferFailed

fun debug_transfer_status :: "transfer_status \<Rightarrow> string" where
  "debug_transfer_status TransferPending = ''Pending''"
| "debug_transfer_status TransferProcessing = ''Processing''"
| "debug_transfer_status TransferComplete = ''Complete''"
| "debug_transfer_status TransferFailed = ''Failed''"

datatype alpaca_wallet_error =
    WalletReqwest string
  | WalletApiError "16 word" string
  | WalletParseError string
  | WalletUtf8 string
  | WalletFromHex string
  | TransferNotFound alpaca_transfer_id
  | FailedTransferHasTx alpaca_transfer_id tx_hash
  | TransferTimeout alpaca_transfer_id int
  | InvalidStatusTransition alpaca_transfer_id transfer_status transfer_status
  | AddressNotWhitelisted address string string
  | NoWhitelistEntries address
  | DepositTimeout tx_hash int
  | InvalidDepositTransition tx_hash transfer_status transfer_status

text \<open>The orchestrator passes broker errors on and renders them; they are their text.\<close>

datatype alpaca_broker_api_error = BrokerApiError string

section \<open>Conversion orders\<close>

datatype broker_order_status =
    StatusNew | StatusPendingNew | StatusPartiallyFilled | StatusFilled | StatusDoneForDay
  | StatusCanceled | StatusExpired | StatusReplaced | StatusPendingCancel | StatusPendingReplace
  | StatusRejected | StatusSuspended | StatusCalculated | StatusStopped | StatusAcceptedForBidding
  | StatusAccepted

datatype crypto_order_failure_reason =
    OrderCanceled | OrderExpired | OrderRejected | OrderDoneForDay | OrderReplaced | OrderSuspended
  | OrderCalculated

fun debug_failure_reason :: "crypto_order_failure_reason \<Rightarrow> string" where
  "debug_failure_reason OrderCanceled = ''Canceled''"
| "debug_failure_reason OrderExpired = ''Expired''"
| "debug_failure_reason OrderRejected = ''Rejected''"
| "debug_failure_reason OrderDoneForDay = ''DoneForDay''"
| "debug_failure_reason OrderReplaced = ''Replaced''"
| "debug_failure_reason OrderSuspended = ''Suspended''"
| "debug_failure_reason OrderCalculated = ''Calculated''"

datatype crypto_order_outcome =
    OutcomeFilled
  | OutcomePending
  | OutcomeFailed crypto_order_failure_reason

text \<open>The fields the orchestrator reads.\<close>

record 'f crypto_order_response =
  co_id :: uuid
  co_status :: broker_order_status
  co_filled_average_price :: "'f option"
  co_filled_quantity :: "'f option"

fun classify_order_status :: "broker_order_status \<Rightarrow> crypto_order_outcome" where
  "classify_order_status StatusFilled = OutcomeFilled"
| "classify_order_status StatusCanceled = OutcomeFailed OrderCanceled"
| "classify_order_status StatusExpired = OutcomeFailed OrderExpired"
| "classify_order_status StatusRejected = OutcomeFailed OrderRejected"
| "classify_order_status StatusDoneForDay = OutcomeFailed OrderDoneForDay"
| "classify_order_status StatusReplaced = OutcomeFailed OrderReplaced"
| "classify_order_status StatusSuspended = OutcomeFailed OrderSuspended"
| "classify_order_status StatusCalculated = OutcomeFailed OrderCalculated"
| "classify_order_status StatusNew = OutcomePending"
| "classify_order_status StatusPendingNew = OutcomePending"
| "classify_order_status StatusPartiallyFilled = OutcomePending"
| "classify_order_status StatusAccepted = OutcomePending"
| "classify_order_status StatusAcceptedForBidding = OutcomePending"
| "classify_order_status StatusPendingCancel = OutcomePending"
| "classify_order_status StatusPendingReplace = OutcomePending"
| "classify_order_status StatusStopped = OutcomePending"

definition classify :: "'f crypto_order_response \<Rightarrow> crypto_order_outcome" where
  "classify order = classify_order_status (co_status order)"

datatype conversion_direction = UsdcToUsd | UsdToUsdc

section \<open>Errors of the orchestrator\<close>

type_synonym duration = nat

datatype 'f usdc_transfer_error =
    AlpacaWallet alpaca_wallet_error
  | AlpacaBroker alpaca_broker_api_error
  | Cctp cctp_error
  | BurnRevert cctp_error
  | Vault raindex_error
  | InsufficientVaultLiquidity address u256 u256
  | AggregateError "'f usdc_rebalance_error send_error"
  | WithdrawalFailedStatus string
  | DepositFailedStatus string
  | UsdcConversion "'f usdc_conversion_error"
  | TransferFloat float_error
  | TransferNotPositive "'f usdc not_positive"
  | MissingFilledQuantity client_order_id
  | MissingFilledAveragePrice client_order_id
  | ResumeIndeterminateConversion usdc_rebalance_id
  | ResumeWithoutMintScanBound usdc_rebalance_id
  | AttestationTimedOutError usdc_rebalance_id
  | AttestationRetryDeadlineElapsed usdc_rebalance_id
  | WithdrawalPollInconclusive usdc_rebalance_id timestamp alpaca_wallet_error
  | AttestationRetryDeadlineOverflow usdc_rebalance_id duration
  | AttestationNonceMismatch usdc_rebalance_id b256 b256
  | PreviouslyFailedAggregate usdc_rebalance_id
  | DepositRefMustBeOnchain usdc_rebalance_id
  | ResumeDirectionMismatch usdc_rebalance_id rebalance_direction
  | AdoptedWithdrawalAmountMismatch usdc_rebalance_id u256 u256
  | WithdrawalRefMustBeAlpacaId usdc_rebalance_id
  | WalletUsdcInsufficient usdc_rebalance_id "'f usdc"
  | WalletUsdcAmbientBalance usdc_rebalance_id "'f usdc" "'f usdc"
  | WithdrawalTxUnderconfirmed usdc_rebalance_id tx_hash u64 u64
  | SettlementCheckTransient usdc_rebalance_id cctp_error
  | MintRecoveryInconclusive usdc_rebalance_id timestamp cctp_error
  | BurnRecordTaskFailed usdc_rebalance_id
  | BurnRecordFailed usdc_rebalance_id tx_hash
  | BurnSubmitInconclusive usdc_rebalance_id
  | BurnTxDropped usdc_rebalance_id tx_hash

section \<open>Services\<close>

record burn_receipt =
  burn_tx :: tx_hash
  burn_amount :: u256

record mint_receipt =
  mint_tx :: tx_hash
  mint_amount :: u256
  mint_fee :: u256

datatype burn_tx_status = MinedSuccess | MinedReverted | BurnPending | BurnDropped

record attestation_response =
  ar_as_bytes :: bytes
  ar_nonce :: b256
  ar_message_bytes :: bytes

text \<open>
  How the bounded submission of a burn ends: its result, the \<^verbatim>\<open>BURN_BROADCAST_TIMEOUT\<close>
  elapsing first, or a panic of the detached task.
\<close>

datatype burn_submission =
    BurnSubmitted tx_hash
  | BurnSubmitError cctp_error
  | BurnSubmitElapsed
  | BurnTaskPanicked

record 'w bridge =
  submit_burn :: "bridge_direction \<Rightarrow> u256 \<Rightarrow> address \<Rightarrow> 'w \<Rightarrow> burn_submission \<times> 'w"
  confirm_burn :: "bridge_direction \<Rightarrow> tx_hash \<Rightarrow> u256 \<Rightarrow> ('w, cctp_error, burn_receipt) effect"
  burn_status :: "bridge_direction \<Rightarrow> tx_hash \<Rightarrow> ('w, cctp_error, burn_tx_status) effect"
  poll_attestation ::
    "bridge_direction \<Rightarrow> tx_hash \<Rightarrow> ('w, cctp_error, attestation_response) effect"
  mint :: "bridge_direction \<Rightarrow> attestation_response \<Rightarrow> ('w, cctp_error, mint_receipt) effect"
  reconstruct_attestation :: "bytes \<Rightarrow> bytes \<Rightarrow> cctp_error + attestation_response"
  find_recent_burn ::
    "bridge_direction \<Rightarrow> u256 \<Rightarrow> address \<Rightarrow> u64 \<Rightarrow> ('w, cctp_error, tx_hash option) effect"
  find_recent_mint ::
    "bridge_direction \<Rightarrow> address \<Rightarrow> u64 \<Rightarrow> ('w, cctp_error, mint_receipt option) effect"
  destination_block :: "bridge_direction \<Rightarrow> ('w, cctp_error, u64) effect"
  source_block :: "bridge_direction \<Rightarrow> ('w, cctp_error, u64) effect"
  ethereum_tx_confirmations :: "tx_hash \<Rightarrow> ('w, cctp_error, u64 option) effect"
  ethereum_tx_block :: "tx_hash \<Rightarrow> ('w, cctp_error, u64) effect"
  ethereum_usdc_balance :: "address \<Rightarrow> ('w, cctp_error, u256) effect"
  send_usdc_on_ethereum :: "address \<Rightarrow> u256 \<Rightarrow> ('w, cctp_error, tx_hash) effect"
  find_recent_usdc_transfer ::
    "address \<Rightarrow> address \<Rightarrow> u256 \<Rightarrow> u64 \<Rightarrow> ('w, cctp_error, tx_hash option) effect"

record 'w raindex_service =
  current_block :: "('w, raindex_error, u64) effect"
  withdraw_usdc :: "b256 \<Rightarrow> u256 \<Rightarrow> ('w, raindex_error, tx_hash) effect"
  find_recent_withdrawal ::
    "address \<Rightarrow> b256 \<Rightarrow> u64 \<Rightarrow> ('w, raindex_error, (tx_hash \<times> u256) option) effect"
  submit_deposit_usdc :: "b256 \<Rightarrow> u256 \<Rightarrow> ('w, raindex_error, tx_hash) effect"
  confirm_tx :: "tx_hash \<Rightarrow> ('w, raindex_error, unit) effect"

text \<open>The fields of a \<^verbatim>\<open>Transfer\<close> the orchestrator reads.\<close>

record alpaca_transfer =
  at_id :: alpaca_transfer_id
  at_tx :: "tx_hash option"
  at_status :: transfer_status

record ('f, 'w) alpaca_wallet_service =
  initiate_withdrawal ::
    "'f usdc positive \<Rightarrow> string \<Rightarrow> address \<Rightarrow> ('w, alpaca_wallet_error, alpaca_transfer) effect"
  poll_transfer_until_complete ::
    "alpaca_transfer_id \<Rightarrow> ('w, alpaca_wallet_error, alpaca_transfer) effect"
  get_wallet_address :: "string \<Rightarrow> string \<Rightarrow> ('w, alpaca_wallet_error, address) effect"
  poll_deposit_by_tx_hash :: "tx_hash \<Rightarrow> ('w, alpaca_wallet_error, alpaca_transfer) effect"

record ('f, 'w) alpaca_broker_service =
  convert_usdc_usd :: "'f \<Rightarrow> conversion_direction \<Rightarrow> client_order_id \<Rightarrow>
    ('w, alpaca_broker_api_error, 'f crypto_order_response) effect"
  find_conversion_order :: "client_order_id \<Rightarrow>
    ('w, alpaca_broker_api_error, 'f crypto_order_response option) effect"
  poll_conversion_to_terminal ::
    "uuid \<Rightarrow> ('w, alpaca_broker_api_error, 'f crypto_order_response) effect"

text \<open>
  The event store: whether an append commits, is lost, or commits while its caller is told it
  failed (or never learns), and whether a load fails.
\<close>

datatype commit_outcome = Committed | NotCommitted string | CommittedUnacknowledged string

record 'w event_store =
  store_commit :: "'w \<Rightarrow> commit_outcome \<times> 'w"
  store_load :: "('w, string, unit) effect"

text \<open>
  The runtime: \<^verbatim>\<open>Utc::now\<close>, \<^verbatim>\<open>Uuid::new_v4\<close>, the pause before a retry, and
  \<^verbatim>\<open>chrono\<close>'s checked conversion and addition.
\<close>

record 'w runtime =
  utc_now :: "'w \<Rightarrow> timestamp \<times> 'w"
  uuid_new_v4 :: "'w \<Rightarrow> uuid \<times> 'w"
  rt_sleep :: "'w \<Rightarrow> 'w"
  duration_from_std :: "duration \<Rightarrow> duration option"
  checked_add_signed :: "timestamp \<Rightarrow> duration \<Rightarrow> timestamp option"

text \<open>The renderings that reasons embed.\<close>

record 'f transfer_text =
  show_cctp :: "cctp_error \<Rightarrow> string"
  show_wallet :: "alpaca_wallet_error \<Rightarrow> string"
  show_broker :: "alpaca_broker_api_error \<Rightarrow> string"
  show_transfer_error :: "'f usdc_transfer_error \<Rightarrow> string"
  show_usdc :: "'f usdc \<Rightarrow> string"
  show_word256 :: "256 word \<Rightarrow> string"
  show_client_order_id :: "client_order_id \<Rightarrow> string"

section \<open>The orchestrator\<close>

record ('f, 'w) cash_transfer =
  alpaca_broker :: "('f, 'w) alpaca_broker_service"
  alpaca_wallet :: "('f, 'w) alpaca_wallet_service"
  cctp_bridge :: "'w bridge"
  raindex :: "'w raindex_service"
  cqrs :: "'w event_store"
  market_maker_wallet :: address
  vault_id :: b256
  attestation_retry_deadline :: duration
  required_confirmations :: u64
  rt :: "'w runtime"
  txt_of :: "'f transfer_text"
  fl :: "'f float_ops"
  dbg :: "'f usdc_debug"

text \<open>The aggregate the calls are about and the world of the services.\<close>

record ('f, 'w) transfer_state =
  rebalance :: "'f usdc_rebalance lifecycle"
  world :: 'w

type_synonym ('f, 'w, 'a) run = "(('f, 'w) transfer_state, 'f usdc_transfer_error, 'a) effect"

definition on_world ::
  "('w, 'e, 'a) effect \<Rightarrow> (('f, 'w) transfer_state, 'e, 'a) effect" where
  "on_world m st = (case m (world st) of (r, w) \<Rightarrow> (r, st\<lparr>world := w\<rparr>))"

text \<open>A call that cannot fail.\<close>

definition infallible :: "('w \<Rightarrow> 'a \<times> 'w) \<Rightarrow> ('w, 'e, 'a) effect" where
  "infallible m w = (case m w of (x, w') \<Rightarrow> (Inr x, w'))"

definition resultw :: "'e + 'a \<Rightarrow> ('w, 'e, 'a) effect" where
  "resultw r w = (r, w)"

text \<open>\<^verbatim>\<open>self.cqrs.load(id).await?\<close>: an aggregate that failed to replay does not load.\<close>

definition cqrs_load :: "('f, 'w) cash_transfer \<Rightarrow> ('f, 'w, 'f usdc_rebalance option) run" where
  "cqrs_load M = seqw (map_errw (\<lambda>e. AggregateError (InfrastructureError e))
       (on_world (store_load (cqrs M)))) (\<lambda>_ st.
     (case rebalance st of
        Uninitialized \<Rightarrow> (Inr None, st)
      | Live s \<Rightarrow> (Inr (Some s), st)
      | FailedLifecycle \<Rightarrow> (Inl (AggregateError (UserError (OtherLifecycleError ''failed''))), st)))"

text \<open>\<^verbatim>\<open>self.cqrs.send(id, command).await?\<close>\<close>

definition cqrs_send ::
  "('f, 'w) cash_transfer \<Rightarrow> 'f usdc_rebalance_command \<Rightarrow> ('f, 'w, unit) run" where
  "cqrs_send M c st =
     (case utc_now (rt M) (world st) of (now, w1) \<Rightarrow>
        (case handle usdc_initialize (usdc_transition (fl M) (dbg M)) (rebalance st) now c of
           Inl e \<Rightarrow> (Inl (AggregateError (UserError e)), st\<lparr>world := w1\<rparr>)
         | Inr evs \<Rightarrow>
             let after = usdc_replay (rebalance st) evs in
             (case store_commit (cqrs M) w1 of
                (Committed, w2) \<Rightarrow> (Inr (), \<lparr>rebalance = after, world = w2\<rparr>)
              | (NotCommitted e, w2) \<Rightarrow>
                  (Inl (AggregateError (InfrastructureError e)), st\<lparr>world := w2\<rparr>)
              | (CommittedUnacknowledged e, w2) \<Rightarrow>
                  (Inl (AggregateError (InfrastructureError e)), \<lparr>rebalance = after, world = w2\<rparr>))))"

definition now_run :: "('f, 'w) cash_transfer \<Rightarrow> ('f, 'w, timestamp) run" where
  "now_run M = on_world (infallible (utc_now (rt M)))"

text \<open>\<^verbatim>\<open>ClientOrderId::from_uuid(Uuid::new_v4())\<close>\<close>

definition new_correlation_id :: "('f, 'w) cash_transfer \<Rightarrow> ('f, 'w, client_order_id) run" where
  "new_correlation_id M =
     seqw (on_world (infallible (uuid_new_v4 (rt M)))) (\<lambda>u. retw (Automated u))"

section \<open>Amounts\<close>

definition usdc_to_u256 :: "('f, 'w) cash_transfer \<Rightarrow> 'f usdc \<Rightarrow> 'f usdc_transfer_error + u256" where
  "usdc_to_u256 M usdc = map_err UsdcConversion (to_u256_6_decimals (fl M) usdc)"

definition u256_to_usdc :: "('f, 'w) cash_transfer \<Rightarrow> u256 \<Rightarrow> 'f usdc_transfer_error + 'f usdc" where
  "u256_to_usdc M a = map_err TransferFloat (map_ok Usdc (fl_from_fixed_decimal (fl M) a 6))"

definition conversion_amounts_from_order ::
  "('f, 'w) cash_transfer \<Rightarrow> 'f crypto_order_response \<Rightarrow> client_order_id \<Rightarrow> conversion_direction \<Rightarrow>
   'f usdc_transfer_error + 'f conversion_amounts" where
  "conversion_amounts_from_order M order correlation_id direction =
     tryr (ok_or (MissingFilledQuantity correlation_id) (co_filled_quantity order)) (\<lambda>quantity.
     tryr (ok_or (MissingFilledAveragePrice correlation_id) (co_filled_average_price order)) (\<lambda>price.
     tryr (map_err TransferFloat (usdc_mul (fl M) (Usdc quantity) price)) (\<lambda>cash_proceeds.
       Inr (case direction of
          UsdToUsdc \<Rightarrow> \<lparr>source_amount = cash_proceeds, received_amount = Usdc quantity\<rparr>
        | UsdcToUsd \<Rightarrow> \<lparr>source_amount = Usdc quantity, received_amount = cash_proceeds\<rparr>))))"

end
