(* ===== verification/Cash_Burn.thy ===== *)
theory Cash_Burn
  imports Cash_Services
begin

text \<open>
  The parts of the USDC transfer orchestrator (\<^verbatim>\<open>rebalancing/usdc/manager.rs\<close>) both
  directions share: attestations, conversions at Alpaca, and the CCTP burn with its crash-safe
  record of the broadcast transaction. Log lines are left out.
\<close>

section \<open>Attestations\<close>

datatype attestation_poll_outcome = Received attestation_response | TimedOut

definition attestation_retry_deadline_at ::
  "('f, 'w) cash_transfer \<Rightarrow> usdc_rebalance_id \<Rightarrow> ('f, 'w, timestamp) run" where
  "attestation_retry_deadline_at M i =
     (let deadline = attestation_retry_deadline M in
      case duration_from_std (rt M) deadline of
        None \<Rightarrow> failw (AttestationRetryDeadlineOverflow i deadline)
      | Some duration \<Rightarrow> seqw (now_run M) (\<lambda>now.
          resultw (ok_or (AttestationRetryDeadlineOverflow i deadline)
            (checked_add_signed (rt M) now duration))))"

definition record_attestation_timeout ::
  "('f, 'w) cash_transfer \<Rightarrow> usdc_rebalance_id \<Rightarrow> ('f, 'w, unit) run" where
  "record_attestation_timeout M i =
     seqw (attestation_retry_deadline_at M i) (\<lambda>retry_deadline_at.
       cqrs_send M (TimeoutAttestation retry_deadline_at))"

definition poll_cctp_attestation ::
  "('f, 'w) cash_transfer \<Rightarrow> bridge_direction \<Rightarrow> tx_hash \<Rightarrow> ('f, 'w, attestation_poll_outcome) run" where
  "poll_cctp_attestation M direction burn =
     seqw (outcomew (on_world (poll_attestation (cctp_bridge M) direction burn))) (\<lambda>r. case r of
       Inr response \<Rightarrow> retw (Received response)
     | Inl (AttestationTimeout attempts source) \<Rightarrow> retw TimedOut
     | Inl error \<Rightarrow>
         seqw (cqrs_send M (FailBridging (''attestation polling failed: '' @ show_cctp (txt_of M) error)))
           (\<lambda>_. failw (Cctp error)))"

definition poll_cctp_attestation_until_deadline ::
  "('f, 'w) cash_transfer \<Rightarrow> usdc_rebalance_id \<Rightarrow> bridge_direction \<Rightarrow> tx_hash \<Rightarrow> timestamp \<Rightarrow>
   ('f, 'w, attestation_poll_outcome) run" where
  "poll_cctp_attestation_until_deadline M i direction burn retry_deadline_at =
     seqw (now_run M) (\<lambda>now.
       if retry_deadline_at \<le> now then
         seqw (cqrs_send M (FailBridging ''attestation retry deadline elapsed''))
           (\<lambda>_. failw (AttestationRetryDeadlineElapsed i))
       else poll_cctp_attestation M direction burn)"

definition record_attestation ::
  "('f, 'w) cash_transfer \<Rightarrow> bridge_direction \<Rightarrow> attestation_response \<Rightarrow> ('f, 'w, unit) run" where
  "record_attestation M direction response =
     seqw (map_errw Cctp (on_world (destination_block (cctp_bridge M) direction)))
       (\<lambda>mint_scan_from_block.
         cqrs_send M (ReceiveAttestation (ar_as_bytes response) (ar_nonce response)
           (ar_message_bytes response) mint_scan_from_block))"

definition attested_attestation_response ::
  "('f, 'w) cash_transfer \<Rightarrow> usdc_rebalance_id \<Rightarrow> bridge_direction \<Rightarrow> tx_hash \<Rightarrow> bytes \<Rightarrow> b256 \<Rightarrow>
   bytes option \<Rightarrow> ('f, 'w, attestation_response) run" where
  "attested_attestation_response M i mint_direction burn attestation cctp_nonce message =
     (case message of
        None \<Rightarrow> seqw (poll_cctp_attestation M mint_direction burn) (\<lambda>outcome. case outcome of
            Received response \<Rightarrow> retw response
          | TimedOut \<Rightarrow> failw (AttestationTimedOutError i))
      | Some message \<Rightarrow>
          (case reconstruct_attestation (cctp_bridge M) message attestation of
             Inl error \<Rightarrow>
               seqw (cqrs_send M (FailBridging
                   (''attestation reconstruction failed: '' @ show_cctp (txt_of M) error)))
                 (\<lambda>_. failw (Cctp error))
           | Inr response \<Rightarrow>
               if ar_nonce response \<noteq> cctp_nonce then
                 seqw (cqrs_send M (FailBridging
                     (''attestation nonce mismatch: reconstructed '' @
                      show_word256 (txt_of M) (ar_nonce response) @ '', recorded '' @
                      show_word256 (txt_of M) cctp_nonce)))
                   (\<lambda>_. failw (AttestationNonceMismatch i cctp_nonce (ar_nonce response)))
               else retw response))"

section \<open>Conversions\<close>

definition record_conversion_or_fail ::
  "('f, 'w) cash_transfer \<Rightarrow> client_order_id \<Rightarrow> 'f crypto_order_response \<Rightarrow> conversion_direction \<Rightarrow>
   ('f, 'w, 'f conversion_amounts) run" where
  "record_conversion_or_fail M correlation_id order direction =
     (case conversion_amounts_from_order M order correlation_id direction of
        Inr conversion \<Rightarrow> retw conversion
      | Inl error \<Rightarrow> seqw (cqrs_send M (FailConversion (show_transfer_error (txt_of M) error)))
          (\<lambda>_. failw error))"

text \<open>What the two conversions share once their intent is recorded.\<close>

definition place_and_confirm_conversion ::
  "('f, 'w) cash_transfer \<Rightarrow> 'f usdc \<Rightarrow> conversion_direction \<Rightarrow> client_order_id \<Rightarrow>
   ('f, 'w, 'f usdc) run" where
  "place_and_confirm_conversion M a direction correlation_id =
     seqw (outcomew (on_world (convert_usdc_usd (alpaca_broker M) (usdc_inner a) direction
         correlation_id))) (\<lambda>r. case r of
       Inl error \<Rightarrow> seqw (cqrs_send M (FailConversion (show_broker (txt_of M) error)))
         (\<lambda>_. failw (AlpacaBroker error))
     | Inr order \<Rightarrow>
         seqw (record_conversion_or_fail M correlation_id order direction) (\<lambda>conversion.
         seqw (cqrs_send M (ConfirmConversion conversion)) (\<lambda>_.
           retw (received_amount conversion))))"

definition execute_usd_to_usdc_conversion ::
  "('f, 'w) cash_transfer \<Rightarrow> 'f usdc \<Rightarrow> ('f, 'w, 'f usdc) run" where
  "execute_usd_to_usdc_conversion M a =
     seqw (new_correlation_id M) (\<lambda>correlation_id.
     seqw (cqrs_send M (InitiateConversion AlpacaToBase a correlation_id)) (\<lambda>_.
       place_and_confirm_conversion M a UsdToUsdc correlation_id))"

definition execute_usdc_to_usd_conversion ::
  "('f, 'w) cash_transfer \<Rightarrow> 'f usdc \<Rightarrow> ('f, 'w, 'f usdc) run" where
  "execute_usdc_to_usd_conversion M a =
     seqw (new_correlation_id M) (\<lambda>correlation_id.
     seqw (cqrs_send M (InitiatePostDepositConversion correlation_id a)) (\<lambda>_.
       place_and_confirm_conversion M a UsdcToUsd correlation_id))"

section \<open>The burn\<close>

definition BURN_RECORD_ATTEMPTS :: nat where
  "BURN_RECORD_ATTEMPTS = 3"

text \<open>
  The loop \<^verbatim>\<open>for attempt in 1..=BURN_RECORD_ATTEMPTS\<close> with \<open>left\<close> attempts to go; the task
  sleeps between two attempts.
\<close>

fun record_burn_attempts ::
  "('f, 'w) cash_transfer \<Rightarrow> usdc_rebalance_id \<Rightarrow> tx_hash \<Rightarrow> nat \<Rightarrow> ('f, 'w, tx_hash) run" where
  "record_burn_attempts M i burn 0 = failw (BurnRecordFailed i burn)"
| "record_burn_attempts M i burn (Suc left) =
     seqw (outcomew (cqrs_send M (RecordPendingBurn burn))) (\<lambda>r. case r of
       Inr _ \<Rightarrow> retw burn
     | Inl (_ :: 'f usdc_transfer_error) \<Rightarrow>
         if 0 < left then
           seqw (on_world (infallible (\<lambda>w. ((), rt_sleep (rt M) w)))) (\<lambda>_.
             record_burn_attempts M i burn left)
         else record_burn_attempts M i burn left)"

text \<open>
  The detached task runs to its end whatever becomes of its caller, so it is a sequential part of
  the run.
\<close>

definition submit_and_record_burn ::
  "('f, 'w) cash_transfer \<Rightarrow> usdc_rebalance_id \<Rightarrow> bridge_direction \<Rightarrow> u256 \<Rightarrow> address \<Rightarrow>
   ('f, 'w, tx_hash) run" where
  "submit_and_record_burn M i direction a recipient =
     seqw (cqrs_send M ClearPendingBurn) (\<lambda>_.
     seqw (on_world (infallible (submit_burn (cctp_bridge M) direction a recipient)))
       (\<lambda>submission. case submission of
         BurnSubmitted burn \<Rightarrow> record_burn_attempts M i burn BURN_RECORD_ATTEMPTS
       | BurnSubmitError error \<Rightarrow>
           if cctp_is_revert error then failw (BurnRevert error) else failw (BurnSubmitInconclusive i)
       | BurnSubmitElapsed \<Rightarrow> failw (BurnSubmitInconclusive i)
       | BurnTaskPanicked \<Rightarrow> failw (BurnRecordTaskFailed i)))"

definition burn_recording_pending ::
  "('f, 'w) cash_transfer \<Rightarrow> usdc_rebalance_id \<Rightarrow> bridge_direction \<Rightarrow> u256 \<Rightarrow> address \<Rightarrow>
   ('f, 'w, burn_receipt) run" where
  "burn_recording_pending M i direction a recipient =
     seqw (submit_and_record_burn M i direction a recipient) (\<lambda>burn.
     seqw (outcomew (on_world (confirm_burn (cctp_bridge M) direction burn a))) (\<lambda>r. case r of
       Inr receipt \<Rightarrow> retw receipt
     | Inl error \<Rightarrow>
         if \<not> cctp_is_revert error then failw (Cctp error)
         else
           seqw (submit_and_record_burn M i direction a recipient) (\<lambda>burn.
           seqw (outcomew (on_world (confirm_burn (cctp_bridge M) direction burn a))) (\<lambda>r. case r of
             Inr receipt \<Rightarrow> retw receipt
           | Inl error \<Rightarrow> if cctp_is_revert error then failw (BurnRevert error) else failw (Cctp error)))))"

definition check_pending_burn ::
  "('f, 'w) cash_transfer \<Rightarrow> usdc_rebalance_id \<Rightarrow> bridge_direction \<Rightarrow> u256 \<Rightarrow> tx_hash option \<Rightarrow>
   ('f, 'w, burn_receipt option) run" where
  "check_pending_burn M i direction a pending_burn_tx =
     (case pending_burn_tx of
        None \<Rightarrow> retw None
      | Some burn \<Rightarrow>
          seqw (map_errw (SettlementCheckTransient i)
              (on_world (burn_status (cctp_bridge M) direction burn))) (\<lambda>status. case status of
            MinedSuccess \<Rightarrow>
              seqw (map_errw Cctp (on_world (confirm_burn (cctp_bridge M) direction burn a)))
                (\<lambda>receipt. retw (Some receipt))
          | BurnPending \<Rightarrow> failw (SettlementCheckTransient i (BurnTxPending burn))
          | MinedReverted \<Rightarrow> retw None
          | BurnDropped \<Rightarrow> failw (BurnTxDropped i burn)))"

definition record_cctp_burn ::
  "('f, 'w) cash_transfer \<Rightarrow> burn_receipt \<Rightarrow> ('f, 'w, burn_receipt) run" where
  "record_cctp_burn M receipt =
     seqw (cqrs_send M (InitiateBridging (burn_tx receipt))) (\<lambda>_. retw receipt)"

text \<open>
  \<^verbatim>\<open>resume_bridging_submitting\<close> (Base) and \<^verbatim>\<open>resume_bridging_submitting_ethereum\<close> are the
  same code at the two burn directions.
\<close>

definition resume_burn ::
  "('f, 'w) cash_transfer \<Rightarrow> usdc_rebalance_id \<Rightarrow> bridge_direction \<Rightarrow> u256 \<Rightarrow> u64 \<Rightarrow> tx_hash option \<Rightarrow>
   ('f, 'w, burn_receipt) run" where
  "resume_burn M i direction a from_block pending_burn_tx =
     seqw (check_pending_burn M i direction a pending_burn_tx) (\<lambda>adopted. case adopted of
       Some receipt \<Rightarrow> record_cctp_burn M receipt
     | None \<Rightarrow>
         seqw (outcomew (on_world (find_recent_burn (cctp_bridge M) direction a
             (market_maker_wallet M) from_block))) (\<lambda>r. case r of
           Inr (Some existing_tx) \<Rightarrow> record_cctp_burn M \<lparr>burn_tx = existing_tx, burn_amount = a\<rparr>
         | Inr None \<Rightarrow>
             if pending_burn_tx \<noteq> None then
               seqw (burn_recording_pending M i direction a (market_maker_wallet M))
                 (record_cctp_burn M)
             else failw (BurnSubmitInconclusive i)
         | Inl (CctpScanInconclusive block) \<Rightarrow>
             failw (SettlementCheckTransient i (CctpScanInconclusive block))
         | Inl error \<Rightarrow> failw (Cctp error)))"

definition resume_bridging_submitting ::
  "('f, 'w) cash_transfer \<Rightarrow> usdc_rebalance_id \<Rightarrow> u256 \<Rightarrow> u64 \<Rightarrow> tx_hash option \<Rightarrow>
   ('f, 'w, burn_receipt) run" where
  "resume_bridging_submitting M i = resume_burn M i BaseToEthereum"

definition resume_bridging_submitting_ethereum ::
  "('f, 'w) cash_transfer \<Rightarrow> usdc_rebalance_id \<Rightarrow> u256 \<Rightarrow> u64 \<Rightarrow> tx_hash option \<Rightarrow>
   ('f, 'w, burn_receipt) run" where
  "resume_bridging_submitting_ethereum M i = resume_burn M i EthereumToBase"

text \<open>Intent and scan bound are recorded, then the burn is issued and recorded.\<close>

definition begin_and_burn ::
  "('f, 'w) cash_transfer \<Rightarrow> usdc_rebalance_id \<Rightarrow> bridge_direction \<Rightarrow> u256 \<Rightarrow> u64 \<Rightarrow>
   ('f, 'w, burn_receipt) run" where
  "begin_and_burn M i direction a from_block =
     seqw (resultw (u256_to_usdc M a)) (\<lambda>usdc.
     seqw (cqrs_send M (BeginBridging from_block (Some usdc))) (\<lambda>_.
     seqw (burn_recording_pending M i direction a (market_maker_wallet M)) (record_cctp_burn M)))"

definition execute_cctp_burn_on_base ::
  "('f, 'w) cash_transfer \<Rightarrow> usdc_rebalance_id \<Rightarrow> u256 \<Rightarrow> ('f, 'w, burn_receipt) run" where
  "execute_cctp_burn_on_base M i a =
     seqw (map_errw Vault (on_world (current_block (raindex M)))) (\<lambda>from_block.
       begin_and_burn M i BaseToEthereum a from_block)"

definition execute_cctp_burn_on_ethereum ::
  "('f, 'w) cash_transfer \<Rightarrow> usdc_rebalance_id \<Rightarrow> u256 \<Rightarrow> u64 option \<Rightarrow> ('f, 'w, burn_receipt) run" where
  "execute_cctp_burn_on_ethereum M i a burn_from_block =
     seqw (case burn_from_block of
         Some block \<Rightarrow> retw block
       | None \<Rightarrow> map_errw (SettlementCheckTransient i)
           (on_world (source_block (cctp_bridge M) EthereumToBase)))
       (\<lambda>from_block. begin_and_burn M i EthereumToBase a from_block)"

section \<open>The mint\<close>

definition redrive_on_mint_scan_failure ::
  "usdc_rebalance_id \<Rightarrow> cctp_error \<Rightarrow> timestamp \<Rightarrow> 'f usdc_transfer_error" where
  "redrive_on_mint_scan_failure i error initiated_at =
     (if cctp_is_revert error then Cctp error else MintRecoveryInconclusive i initiated_at error)"

text \<open>
  \<^verbatim>\<open>execute_cctp_mint\<close> (on Base) and \<^verbatim>\<open>execute_cctp_mint_on_ethereum\<close> differ in the
  direction and the text of the reason.
\<close>

definition mint_and_confirm ::
  "('f, 'w) cash_transfer \<Rightarrow> usdc_rebalance_id \<Rightarrow> bridge_direction \<Rightarrow> string \<Rightarrow> attestation_response \<Rightarrow>
   timestamp \<Rightarrow> ('f, 'w, mint_receipt) run" where
  "mint_and_confirm M i direction reason response initiated_at =
     seqw (outcomew (on_world (mint (cctp_bridge M) direction response))) (\<lambda>r. case r of
       Inl (CctpMintRecoveryInconclusive e) \<Rightarrow>
         failw (MintRecoveryInconclusive i initiated_at (CctpMintRecoveryInconclusive e))
     | Inl error \<Rightarrow> seqw (cqrs_send M (FailBridging (reason @ show_cctp (txt_of M) error)))
         (\<lambda>_. failw (Cctp error))
     | Inr receipt \<Rightarrow>
         seqw (resultw (u256_to_usdc M (mint_amount receipt))) (\<lambda>amount_received.
         seqw (resultw (u256_to_usdc M (mint_fee receipt))) (\<lambda>fee_collected.
         seqw (cqrs_send M (ConfirmBridging (mint_tx receipt) amount_received fee_collected)) (\<lambda>_.
           retw receipt))))"

definition execute_cctp_mint ::
  "('f, 'w) cash_transfer \<Rightarrow> usdc_rebalance_id \<Rightarrow> attestation_response \<Rightarrow> timestamp \<Rightarrow>
   ('f, 'w, mint_receipt) run" where
  "execute_cctp_mint M i = mint_and_confirm M i EthereumToBase ''Mint failed: ''"

definition execute_cctp_mint_on_ethereum ::
  "('f, 'w) cash_transfer \<Rightarrow> usdc_rebalance_id \<Rightarrow> attestation_response \<Rightarrow> timestamp \<Rightarrow>
   ('f, 'w, mint_receipt) run" where
  "execute_cctp_mint_on_ethereum M i = mint_and_confirm M i BaseToEthereum ''Mint on Ethereum failed: ''"

end
