(* ===== verification/Cash_Transfer.thy ===== *)
theory Cash_Transfer
  imports Cash_Burn
begin

text \<open>
  The two flows of the USDC transfer orchestrator (\<^verbatim>\<open>rebalancing/usdc/manager.rs\<close>): from
  Alpaca to Base and back, each from a fresh start and from every state a redrive can find the
  aggregate in.
\<close>

section \<open>Alpaca to Base\<close>

definition initiate_alpaca_withdrawal ::
  "('f, 'w) cash_transfer \<Rightarrow> 'f usdc \<Rightarrow> ('f, 'w, alpaca_transfer) run" where
  "initiate_alpaca_withdrawal M a =
     seqw (resultw (map_err TransferNotPositive (positive_new (usdc_has_zero (fl M)) a)))
       (\<lambda>positive_amount.
     seqw (map_errw AlpacaWallet (on_world (initiate_withdrawal (alpaca_wallet M) positive_amount
         ''USDC'' (market_maker_wallet M)))) (\<lambda>transfer.
     seqw (cqrs_send M (Initiate AlpacaToBase a (AlpacaId (at_id transfer)))) (\<lambda>_.
       retw transfer)))"

text \<open>The confirmation gate on the withdrawal transaction, made twice in the flow.\<close>

definition require_withdrawal_confirmed ::
  "('f, 'w) cash_transfer \<Rightarrow> usdc_rebalance_id \<Rightarrow> tx_hash option \<Rightarrow> ('f, 'w, unit) run" where
  "require_withdrawal_confirmed M i withdrawal_tx =
     (case withdrawal_tx of
        None \<Rightarrow> retw ()
      | Some tx \<Rightarrow>
          seqw (map_errw (SettlementCheckTransient i)
              (on_world (ethereum_tx_confirmations (cctp_bridge M) tx))) (\<lambda>confirmations.
            case confirmations of
              None \<Rightarrow> failw (WithdrawalTxUnderconfirmed i tx (required_confirmations M) 0)
            | Some n \<Rightarrow>
                if n < required_confirmations M
                then failw (WithdrawalTxUnderconfirmed i tx (required_confirmations M) n)
                else retw ()))"

definition poll_and_confirm_withdrawal ::
  "('f, 'w) cash_transfer \<Rightarrow> usdc_rebalance_id \<Rightarrow> alpaca_transfer_id \<Rightarrow> timestamp \<Rightarrow>
   ('f, 'w, tx_hash option) run" where
  "poll_and_confirm_withdrawal M i transfer_id initiated_at =
     seqw (map_errw (WithdrawalPollInconclusive i initiated_at)
         (on_world (poll_transfer_until_complete (alpaca_wallet M) transfer_id))) (\<lambda>transfer.
       case (at_status transfer, at_tx transfer) of
         (TransferFailed, Some tx) \<Rightarrow>
           failw (WithdrawalPollInconclusive i initiated_at (FailedTransferHasTx transfer_id tx))
       | _ \<Rightarrow>
           if at_status transfer \<noteq> TransferComplete then
             let status = debug_transfer_status (at_status transfer) in
             seqw (cqrs_send M (FailWithdrawal (''Transfer ended in status: '' @ status)))
               (\<lambda>_. failw (WithdrawalFailedStatus status))
           else
             let withdrawal_tx = at_tx transfer in
             seqw (cqrs_send M (ConfirmWithdrawal withdrawal_tx)) (\<lambda>_.
             seqw (require_withdrawal_confirmed M i withdrawal_tx) (\<lambda>_. retw withdrawal_tx)))"

definition confirm_deposit :: "('f, 'w) cash_transfer \<Rightarrow> ('f, 'w, unit) run" where
  "confirm_deposit M = cqrs_send M ConfirmDeposit"

definition deposit_to_vault :: "('f, 'w) cash_transfer \<Rightarrow> u256 \<Rightarrow> ('f, 'w, unit) run" where
  "deposit_to_vault M a =
     seqw (map_errw Vault (on_world (submit_deposit_usdc (raindex M) (vault_id M) a))) (\<lambda>deposit_tx.
     seqw (cqrs_send M (InitiateDeposit (OnchainTx deposit_tx))) (\<lambda>_.
       map_errw Vault (on_world (confirm_tx (raindex M) deposit_tx))))"

definition continue_alpaca_to_base_from_bridged ::
  "('f, 'w) cash_transfer \<Rightarrow> 'f usdc \<Rightarrow> ('f, 'w, unit) run" where
  "continue_alpaca_to_base_from_bridged M amount_received =
     seqw (resultw (usdc_to_u256 M amount_received)) (\<lambda>a.
     seqw (deposit_to_vault M a) (\<lambda>_. confirm_deposit M))"

definition mint_and_deposit ::
  "('f, 'w) cash_transfer \<Rightarrow> usdc_rebalance_id \<Rightarrow> attestation_response \<Rightarrow> timestamp \<Rightarrow>
   ('f, 'w, unit) run" where
  "mint_and_deposit M i response initiated_at =
     seqw (execute_cctp_mint M i response initiated_at) (\<lambda>receipt.
     seqw (resultw (u256_to_usdc M (mint_amount receipt))) (\<lambda>amount_received.
       continue_alpaca_to_base_from_bridged M amount_received))"

definition continue_alpaca_to_base_from_bridging ::
  "('f, 'w) cash_transfer \<Rightarrow> usdc_rebalance_id \<Rightarrow> tx_hash \<Rightarrow> timestamp \<Rightarrow> ('f, 'w, unit) run" where
  "continue_alpaca_to_base_from_bridging M i burn initiated_at =
     seqw (poll_cctp_attestation M EthereumToBase burn) (\<lambda>outcome. case outcome of
       Received response \<Rightarrow>
         seqw (record_attestation M EthereumToBase response) (\<lambda>_.
           mint_and_deposit M i response initiated_at)
     | TimedOut \<Rightarrow>
         seqw (record_attestation_timeout M i) (\<lambda>_. failw (AttestationTimedOutError i)))"

definition continue_alpaca_to_base_from_awaiting_attestation ::
  "('f, 'w) cash_transfer \<Rightarrow> usdc_rebalance_id \<Rightarrow> 'f usdc \<Rightarrow> tx_hash \<Rightarrow> timestamp \<Rightarrow> timestamp \<Rightarrow>
   ('f, 'w, unit) run" where
  "continue_alpaca_to_base_from_awaiting_attestation M i a burn retry_deadline_at initiated_at =
     seqw (resultw (usdc_to_u256 M a)) (\<lambda>_.
     seqw (poll_cctp_attestation_until_deadline M i EthereumToBase burn retry_deadline_at)
       (\<lambda>outcome. case outcome of
         Received response \<Rightarrow>
           seqw (record_attestation M EthereumToBase response) (\<lambda>_.
             mint_and_deposit M i response initiated_at)
       | TimedOut \<Rightarrow> failw (AttestationTimedOutError i)))"

definition continue_alpaca_to_base_from_attested ::
  "('f, 'w) cash_transfer \<Rightarrow> usdc_rebalance_id \<Rightarrow> tx_hash \<Rightarrow> bytes \<Rightarrow> b256 \<Rightarrow> bytes option \<Rightarrow>
   u64 option \<Rightarrow> timestamp \<Rightarrow> ('f, 'w, unit) run" where
  "continue_alpaca_to_base_from_attested M i burn attestation cctp_nonce message mint_scan_from_block
       initiated_at =
     (case mint_scan_from_block of
        None \<Rightarrow> failw (ResumeWithoutMintScanBound i)
      | Some from_block \<Rightarrow>
          seqw (map_errw (\<lambda>error. redrive_on_mint_scan_failure i error initiated_at)
              (on_world (find_recent_mint (cctp_bridge M) EthereumToBase (market_maker_wallet M)
                from_block))) (\<lambda>found. case found of
            Some receipt \<Rightarrow>
              seqw (resultw (u256_to_usdc M (mint_amount receipt))) (\<lambda>amount_received.
              seqw (resultw (u256_to_usdc M (mint_fee receipt))) (\<lambda>fee_collected.
              seqw (cqrs_send M (ConfirmBridging (mint_tx receipt) amount_received fee_collected)) (\<lambda>_.
                continue_alpaca_to_base_from_bridged M amount_received)))
          | None \<Rightarrow>
              seqw (attested_attestation_response M i EthereumToBase burn attestation cctp_nonce message)
                (\<lambda>response. mint_and_deposit M i response initiated_at)))"

text \<open>
  \<^verbatim>\<open>read_ethereum_usdc_balance\<close> and the three cases on the balance: nothing arrived yet, more
  than was withdrawn (the wallet held other funds), or the amount to burn.
\<close>

definition received_burn_amount ::
  "('f, 'w) cash_transfer \<Rightarrow> usdc_rebalance_id \<Rightarrow> 'f usdc \<Rightarrow> ('f, 'w, u256) run" where
  "received_burn_amount M i a =
     seqw (resultw (usdc_to_u256 M a)) (\<lambda>nominal.
     seqw (map_errw (SettlementCheckTransient i)
         (on_world (ethereum_usdc_balance (cctp_bridge M) (market_maker_wallet M)))) (\<lambda>actual_balance.
       if actual_balance = 0 then failw (WalletUsdcInsufficient i a)
       else if nominal < actual_balance then
         seqw (resultw (u256_to_usdc M actual_balance)) (\<lambda>balance.
         seqw (cqrs_send M (FailBridging
             (''wallet holds '' @ show_usdc (txt_of M) balance @ '' USDC > nominal '' @
              show_usdc (txt_of M) a @
              ''; wallet-empty invariant broken; operator reconciliation required'')))
           (\<lambda>_. failw (WalletUsdcAmbientBalance i balance a)))
       else retw actual_balance))"

definition continue_alpaca_to_base_from_withdrawal_complete ::
  "('f, 'w) cash_transfer \<Rightarrow> usdc_rebalance_id \<Rightarrow> 'f usdc \<Rightarrow> tx_hash option \<Rightarrow> timestamp \<Rightarrow>
   ('f, 'w, unit) run" where
  "continue_alpaca_to_base_from_withdrawal_complete M i a withdrawal_tx initiated_at =
     seqw (require_withdrawal_confirmed M i withdrawal_tx) (\<lambda>_.
     seqw (received_burn_amount M i a) (\<lambda>amount.
     seqw (case withdrawal_tx of
         None \<Rightarrow> retw None
       | Some tx \<Rightarrow>
           seqw (map_errw (SettlementCheckTransient i)
             (on_world (ethereum_tx_block (cctp_bridge M) tx))) (\<lambda>block. retw (Some block)))
       (\<lambda>burn_from_block.
     seqw (execute_cctp_burn_on_ethereum M i amount burn_from_block) (\<lambda>receipt.
       continue_alpaca_to_base_from_bridging M i (burn_tx receipt) initiated_at))))"

text \<open>
  Withdraw the converted amount and continue. A fresh transfer reads the clock once and passes the
  reading on as the time the transfer started; a resumed one passes the recorded time.
\<close>

definition execute_alpaca_to_base ::
  "('f, 'w) cash_transfer \<Rightarrow> usdc_rebalance_id \<Rightarrow> 'f usdc \<Rightarrow> ('f, 'w, unit) run" where
  "execute_alpaca_to_base M i a =
     seqw (execute_usd_to_usdc_conversion M a) (\<lambda>usdc_amount.
     seqw (initiate_alpaca_withdrawal M usdc_amount) (\<lambda>transfer.
     seqw (now_run M) (\<lambda>initiated_at.
     seqw (poll_and_confirm_withdrawal M i (at_id transfer) initiated_at) (\<lambda>withdrawal_tx.
       continue_alpaca_to_base_from_withdrawal_complete M i usdc_amount withdrawal_tx
         initiated_at))))"

definition continue_alpaca_to_base_from_conversion_complete ::
  "('f, 'w) cash_transfer \<Rightarrow> usdc_rebalance_id \<Rightarrow> 'f usdc \<Rightarrow> timestamp \<Rightarrow> ('f, 'w, unit) run" where
  "continue_alpaca_to_base_from_conversion_complete M i filled_amount initiated_at =
     seqw (initiate_alpaca_withdrawal M filled_amount) (\<lambda>transfer.
     seqw (now_run M) (\<lambda>now.
     seqw (poll_and_confirm_withdrawal M i (at_id transfer) now) (\<lambda>withdrawal_tx.
       continue_alpaca_to_base_from_withdrawal_complete M i filled_amount withdrawal_tx
         initiated_at)))"

definition reverify_vault_deposit ::
  "('f, 'w) cash_transfer \<Rightarrow> tx_hash \<Rightarrow> ('f, 'w, unit) run" where
  "reverify_vault_deposit M deposit_tx =
     seqw (outcomew (on_world (confirm_tx (raindex M) deposit_tx))) (\<lambda>r. case r of
       Inr _ \<Rightarrow> confirm_deposit M
     | Inl error \<Rightarrow>
         if raindex_tx_dropped error then
           seqw (cqrs_send M (FailDeposit (''Deposit tx '' @ show_word256 (txt_of M) deposit_tx @
               '' dropped from the mempool and will not mine'')))
             (\<lambda>_. failw (Vault error))
         else failw (Vault error))"

text \<open>One equation per arm of the dispatch on the loaded state.\<close>

fun drive_alpaca_to_base ::
  "('f, 'w) cash_transfer \<Rightarrow> usdc_rebalance_id \<Rightarrow> 'f usdc_rebalance \<Rightarrow> ('f, 'w, unit) run" where
  "drive_alpaca_to_base M i (Converting AlpacaToBase _ _ _) =
     seqw (cqrs_send M (FailConversion (''resume from Converting state requires manual '' @
         ''reconciliation: broker order ID not persisted'')))
       (\<lambda>_. failw (ResumeIndeterminateConversion i))"
| "drive_alpaca_to_base M i (ConversionComplete AlpacaToBase _ conversion initiated_at _) =
     continue_alpaca_to_base_from_conversion_complete M i (received_amount conversion) initiated_at"
| "drive_alpaca_to_base M i (Withdrawing AlpacaToBase a withdrawal_ref initiated_at) =
     (case withdrawal_ref of
        OnchainTx _ \<Rightarrow> failw (WithdrawalRefMustBeAlpacaId i)
      | AlpacaId transfer_id \<Rightarrow>
          seqw (poll_and_confirm_withdrawal M i transfer_id initiated_at) (\<lambda>withdrawal_tx.
            continue_alpaca_to_base_from_withdrawal_complete M i a withdrawal_tx initiated_at))"
| "drive_alpaca_to_base M i (WithdrawalComplete AlpacaToBase a initiated_at _ withdrawal_tx) =
     continue_alpaca_to_base_from_withdrawal_complete M i a withdrawal_tx initiated_at"
| "drive_alpaca_to_base M i (Bridging AlpacaToBase a burn initiated_at _) =
     seqw (resultw (usdc_to_u256 M a)) (\<lambda>_.
       continue_alpaca_to_base_from_bridging M i burn initiated_at)"
| "drive_alpaca_to_base M i
       (AwaitingAttestation AlpacaToBase a burn initiated_at _ retry_deadline_at) =
     continue_alpaca_to_base_from_awaiting_attestation M i a burn retry_deadline_at initiated_at"
| "drive_alpaca_to_base M i (Attested AlpacaToBase _ burn cctp_nonce attestation message
       mint_scan_from_block initiated_at _) =
     continue_alpaca_to_base_from_attested M i burn attestation cctp_nonce message
       mint_scan_from_block initiated_at"
| "drive_alpaca_to_base M i (Bridged AlpacaToBase _ amount_received _ _ _ _ _) =
     continue_alpaca_to_base_from_bridged M amount_received"
| "drive_alpaca_to_base M i (DepositInitiated AlpacaToBase _ _ _ deposit_ref _ _) =
     (case deposit_ref of
        AlpacaId _ \<Rightarrow> failw (DepositRefMustBeOnchain i)
      | OnchainTx deposit_tx \<Rightarrow> reverify_vault_deposit M deposit_tx)"
| "drive_alpaca_to_base M i (DepositConfirmed AlpacaToBase _ _ _ _ _) = retw ()"
| "drive_alpaca_to_base M i (Reconciled _ _ _ _ _ _) = retw ()"
| "drive_alpaca_to_base M i (BridgingSubmitting AlpacaToBase a from_block initiated_at amount
       pending_burn_tx) =
     seqw (resultw (usdc_to_u256 M a)) (\<lambda>nominal.
     seqw (resultw (case amount of None \<Rightarrow> Inr nominal | Some b \<Rightarrow> usdc_to_u256 M b)) (\<lambda>scan_amount.
     seqw (resume_bridging_submitting_ethereum M i scan_amount from_block pending_burn_tx) (\<lambda>receipt.
       continue_alpaca_to_base_from_bridging M i (burn_tx receipt) initiated_at)))"
| "drive_alpaca_to_base M i (WithdrawalSubmitting direction _ _ _) =
     failw (ResumeDirectionMismatch i direction)"
| "drive_alpaca_to_base M i (WithdrawalFailed _ _ _ _ _ _) = failw (PreviouslyFailedAggregate i)"
| "drive_alpaca_to_base M i (BridgingFailed _ _ _ _ _ _ _) = failw (PreviouslyFailedAggregate i)"
| "drive_alpaca_to_base M i (DepositFailed _ _ _ _ _ _ _ _) = failw (PreviouslyFailedAggregate i)"
| "drive_alpaca_to_base M i (ConversionFailed _ _ _ _ _ _) = failw (PreviouslyFailedAggregate i)"
| "drive_alpaca_to_base M i _ = failw (ResumeDirectionMismatch i BaseToAlpaca)"

definition resume_alpaca_to_base ::
  "('f, 'w) cash_transfer \<Rightarrow> usdc_rebalance_id \<Rightarrow> 'f usdc \<Rightarrow> ('f, 'w, unit) run" where
  "resume_alpaca_to_base M i a = seqw (cqrs_load M) (\<lambda>state. case state of
     None \<Rightarrow> execute_alpaca_to_base M i a
   | Some s \<Rightarrow> drive_alpaca_to_base M i s)"

section \<open>Base to Alpaca\<close>

fun classify_vault_withdrawal_error :: "raindex_error \<Rightarrow> 'f usdc_transfer_error" where
  "classify_vault_withdrawal_error (VaultUnderFunded token requested received) =
     InsufficientVaultLiquidity token requested received"
| "classify_vault_withdrawal_error other = Vault other"

definition record_vault_withdrawal ::
  "('f, 'w) cash_transfer \<Rightarrow> 'f usdc \<Rightarrow> tx_hash \<Rightarrow> ('f, 'w, unit) run" where
  "record_vault_withdrawal M a withdraw_tx =
     seqw (cqrs_send M (Initiate BaseToAlpaca a (OnchainTx withdraw_tx))) (\<lambda>_.
       cqrs_send M (ConfirmWithdrawal None))"

text \<open>The withdrawal itself, issued by the fresh path and by a resume that found none.\<close>

definition issue_vault_withdrawal ::
  "('f, 'w) cash_transfer \<Rightarrow> 'f usdc \<Rightarrow> u256 \<Rightarrow> ('f, 'w, unit) run" where
  "issue_vault_withdrawal M a raw =
     seqw (map_errw classify_vault_withdrawal_error
         (on_world (withdraw_usdc (raindex M) (vault_id M) raw))) (record_vault_withdrawal M a)"

definition withdraw_from_vault ::
  "('f, 'w) cash_transfer \<Rightarrow> 'f usdc \<Rightarrow> u256 \<Rightarrow> ('f, 'w, unit) run" where
  "withdraw_from_vault M a raw =
     seqw (map_errw Vault (on_world (current_block (raindex M)))) (\<lambda>from_block.
     seqw (cqrs_send M (BeginWithdrawal BaseToAlpaca a from_block)) (\<lambda>_.
       issue_vault_withdrawal M a raw))"

definition USDC_BASE :: address where
  "USDC_BASE = 0x833589fCD6eDb6E08f4c7C32D4f71b54bdA02913"

definition resume_withdrawal_submitting ::
  "('f, 'w) cash_transfer \<Rightarrow> usdc_rebalance_id \<Rightarrow> 'f usdc \<Rightarrow> u256 \<Rightarrow> u64 \<Rightarrow> ('f, 'w, unit) run" where
  "resume_withdrawal_submitting M i a raw from_block =
     seqw (map_errw Vault (on_world (find_recent_withdrawal (raindex M) USDC_BASE (vault_id M)
         from_block))) (\<lambda>found. case found of
       Some (existing_tx, withdrawn) \<Rightarrow>
         if withdrawn \<noteq> raw then
           seqw (cqrs_send M (Initiate BaseToAlpaca a (OnchainTx existing_tx))) (\<lambda>_.
           seqw (cqrs_send M (FailWithdrawal (''adopted withdrawal '' @
               show_word256 (txt_of M) existing_tx @ '' realized '' @
               show_word256 (txt_of M) withdrawn @ '', requested '' @ show_word256 (txt_of M) raw))) (\<lambda>_.
             failw (AdoptedWithdrawalAmountMismatch i withdrawn raw)))
         else record_vault_withdrawal M a existing_tx
     | None \<Rightarrow> issue_vault_withdrawal M a raw)"

definition poll_alpaca_deposit_and_confirm ::
  "('f, 'w) cash_transfer \<Rightarrow> tx_hash \<Rightarrow> ('f, 'w, unit) run" where
  "poll_alpaca_deposit_and_confirm M send_tx =
     seqw (outcomew (on_world (poll_deposit_by_tx_hash (alpaca_wallet M) send_tx))) (\<lambda>r. case r of
       Inl error \<Rightarrow>
         seqw (cqrs_send M (FailDeposit (''Deposit polling failed: '' @ show_wallet (txt_of M) error)))
           (\<lambda>_. failw (AlpacaWallet error))
     | Inr transfer \<Rightarrow>
         if at_status transfer \<noteq> TransferComplete then
           let status = debug_transfer_status (at_status transfer) in
           seqw (cqrs_send M (FailDeposit (''Deposit ended in status: '' @ status)))
             (\<lambda>_. failw (DepositFailedStatus status))
         else cqrs_send M ConfirmDeposit)"

definition fetch_alpaca_deposit_address :: "('f, 'w) cash_transfer \<Rightarrow> ('f, 'w, address) run" where
  "fetch_alpaca_deposit_address M =
     map_errw AlpacaWallet (on_world (get_wallet_address (alpaca_wallet M) ''USDC'' ''ethereum''))"

definition send_alpaca_deposit ::
  "('f, 'w) cash_transfer \<Rightarrow> 'f usdc \<Rightarrow> ('f, 'w, tx_hash) run" where
  "send_alpaca_deposit M amount_received =
     seqw (fetch_alpaca_deposit_address M) (\<lambda>deposit_address.
     seqw (resultw (usdc_to_u256 M amount_received)) (\<lambda>a.
       map_errw Cctp (on_world (send_usdc_on_ethereum (cctp_bridge M) deposit_address a))))"

definition send_or_adopt_alpaca_deposit ::
  "('f, 'w) cash_transfer \<Rightarrow> 'f usdc \<Rightarrow> tx_hash \<Rightarrow> ('f, 'w, tx_hash) run" where
  "send_or_adopt_alpaca_deposit M amount_received minted =
     seqw (fetch_alpaca_deposit_address M) (\<lambda>deposit_address.
     seqw (resultw (usdc_to_u256 M amount_received)) (\<lambda>a.
     seqw (map_errw Cctp (on_world (ethereum_tx_block (cctp_bridge M) minted))) (\<lambda>from_block.
     seqw (map_errw Cctp (on_world (find_recent_usdc_transfer (cctp_bridge M)
         (market_maker_wallet M) deposit_address a from_block))) (\<lambda>found. case found of
       Some existing_tx \<Rightarrow> retw existing_tx
     | None \<Rightarrow>
         map_errw Cctp (on_world (send_usdc_on_ethereum (cctp_bridge M) deposit_address a))))))"

definition finish_deposit ::
  "('f, 'w) cash_transfer \<Rightarrow> 'f usdc \<Rightarrow> tx_hash \<Rightarrow> ('f, 'w, unit) run" where
  "finish_deposit M amount_received send_tx =
     seqw (cqrs_send M (InitiateDeposit (OnchainTx send_tx))) (\<lambda>_.
     seqw (poll_alpaca_deposit_and_confirm M send_tx) (\<lambda>_.
     seqw (execute_usdc_to_usd_conversion M amount_received) (\<lambda>_. retw ())))"

definition continue_from_bridged_fresh ::
  "('f, 'w) cash_transfer \<Rightarrow> 'f usdc \<Rightarrow> ('f, 'w, unit) run" where
  "continue_from_bridged_fresh M amount_received =
     seqw (send_alpaca_deposit M amount_received) (finish_deposit M amount_received)"

definition continue_from_bridged_resume ::
  "('f, 'w) cash_transfer \<Rightarrow> 'f usdc \<Rightarrow> tx_hash \<Rightarrow> ('f, 'w, unit) run" where
  "continue_from_bridged_resume M amount_received minted =
     seqw (send_or_adopt_alpaca_deposit M amount_received minted) (finish_deposit M amount_received)"

definition mint_and_continue ::
  "('f, 'w) cash_transfer \<Rightarrow> usdc_rebalance_id \<Rightarrow> attestation_response \<Rightarrow> timestamp \<Rightarrow>
   ('f, 'w, unit) run" where
  "mint_and_continue M i response initiated_at =
     seqw (execute_cctp_mint_on_ethereum M i response initiated_at) (\<lambda>receipt.
     seqw (resultw (u256_to_usdc M (mint_amount receipt))) (\<lambda>amount_received.
       continue_from_bridged_fresh M amount_received))"

definition continue_from_attested ::
  "('f, 'w) cash_transfer \<Rightarrow> usdc_rebalance_id \<Rightarrow> tx_hash \<Rightarrow> bytes \<Rightarrow> b256 \<Rightarrow> bytes option \<Rightarrow>
   u64 option \<Rightarrow> timestamp \<Rightarrow> ('f, 'w, unit) run" where
  "continue_from_attested M i burn attestation cctp_nonce message mint_scan_from_block initiated_at =
     (case mint_scan_from_block of
        None \<Rightarrow> failw (ResumeWithoutMintScanBound i)
      | Some from_block \<Rightarrow>
          seqw (map_errw (\<lambda>error. redrive_on_mint_scan_failure i error initiated_at)
              (on_world (find_recent_mint (cctp_bridge M) BaseToEthereum (market_maker_wallet M)
                from_block))) (\<lambda>found. case found of
            Some receipt \<Rightarrow>
              seqw (resultw (u256_to_usdc M (mint_amount receipt))) (\<lambda>amount_received.
              seqw (resultw (u256_to_usdc M (mint_fee receipt))) (\<lambda>fee_collected.
              seqw (cqrs_send M (ConfirmBridging (mint_tx receipt) amount_received fee_collected)) (\<lambda>_.
                continue_from_bridged_resume M amount_received (mint_tx receipt))))
          | None \<Rightarrow>
              seqw (attested_attestation_response M i BaseToEthereum burn attestation cctp_nonce message)
                (\<lambda>response. mint_and_continue M i response initiated_at)))"

definition continue_from_bridging ::
  "('f, 'w) cash_transfer \<Rightarrow> usdc_rebalance_id \<Rightarrow> 'f usdc \<Rightarrow> tx_hash \<Rightarrow> timestamp \<Rightarrow>
   ('f, 'w, unit) run" where
  "continue_from_bridging M i a burn initiated_at =
     seqw (resultw (usdc_to_u256 M a)) (\<lambda>_.
     seqw (poll_cctp_attestation M BaseToEthereum burn) (\<lambda>outcome. case outcome of
       Received response \<Rightarrow>
         seqw (record_attestation M BaseToEthereum response) (\<lambda>_.
           mint_and_continue M i response initiated_at)
     | TimedOut \<Rightarrow>
         seqw (record_attestation_timeout M i) (\<lambda>_. failw (AttestationTimedOutError i))))"

definition continue_from_awaiting_attestation ::
  "('f, 'w) cash_transfer \<Rightarrow> usdc_rebalance_id \<Rightarrow> 'f usdc \<Rightarrow> tx_hash \<Rightarrow> timestamp \<Rightarrow> timestamp \<Rightarrow>
   ('f, 'w, unit) run" where
  "continue_from_awaiting_attestation M i a burn retry_deadline_at initiated_at =
     seqw (resultw (usdc_to_u256 M a)) (\<lambda>_.
     seqw (poll_cctp_attestation_until_deadline M i BaseToEthereum burn retry_deadline_at)
       (\<lambda>outcome. case outcome of
         Received response \<Rightarrow>
           seqw (record_attestation M BaseToEthereum response) (\<lambda>_.
             mint_and_continue M i response initiated_at)
       | TimedOut \<Rightarrow> failw (AttestationTimedOutError i)))"

definition continue_from_withdrawal_complete ::
  "('f, 'w) cash_transfer \<Rightarrow> usdc_rebalance_id \<Rightarrow> 'f usdc \<Rightarrow> timestamp \<Rightarrow> ('f, 'w, unit) run" where
  "continue_from_withdrawal_complete M i a initiated_at =
     seqw (resultw (usdc_to_u256 M a)) (\<lambda>raw.
     seqw (execute_cctp_burn_on_base M i raw) (\<lambda>receipt.
       continue_from_bridging M i a (burn_tx receipt) initiated_at))"

definition execute_base_to_alpaca ::
  "('f, 'w) cash_transfer \<Rightarrow> usdc_rebalance_id \<Rightarrow> 'f usdc \<Rightarrow> ('f, 'w, unit) run" where
  "execute_base_to_alpaca M i a =
     seqw (resultw (usdc_to_u256 M a)) (\<lambda>raw.
     seqw (now_run M) (\<lambda>initiated_at.
     seqw (withdraw_from_vault M a raw) (\<lambda>_.
     seqw (execute_cctp_burn_on_base M i raw) (\<lambda>receipt.
       continue_from_bridging M i a (burn_tx receipt) initiated_at))))"

definition recover_from_bridging_failed ::
  "('f, 'w) cash_transfer \<Rightarrow> usdc_rebalance_id \<Rightarrow> tx_hash option \<Rightarrow> timestamp \<Rightarrow> ('f, 'w, unit) run" where
  "recover_from_bridging_failed M i burn_tx_hash initiated_at =
     (case burn_tx_hash of
        None \<Rightarrow> failw (PreviouslyFailedAggregate i)
      | Some burn \<Rightarrow>
          seqw (map_errw (\<lambda>error. case error of
                AttestationTimeout attempts source \<Rightarrow> AttestationTimedOutError i
              | _ \<Rightarrow> Cctp error)
              (on_world (poll_attestation (cctp_bridge M) BaseToEthereum burn))) (\<lambda>attestation.
          seqw (map_errw (\<lambda>error. case error of
                CctpMintRecoveryInconclusive e \<Rightarrow> MintRecoveryInconclusive i initiated_at error
              | _ \<Rightarrow> Cctp error)
              (on_world (mint (cctp_bridge M) BaseToEthereum attestation))) (\<lambda>receipt.
          seqw (resultw (u256_to_usdc M (mint_amount receipt))) (\<lambda>amount_received.
          seqw (resultw (u256_to_usdc M (mint_fee receipt))) (\<lambda>fee_collected.
          seqw (cqrs_send M (RecoverBridging (mint_tx receipt) amount_received fee_collected)) (\<lambda>_.
            continue_from_bridged_resume M amount_received (mint_tx receipt)))))))"

definition require_base_to_alpaca ::
  "usdc_rebalance_id \<Rightarrow> rebalance_direction \<Rightarrow> 'f usdc_transfer_error + unit" where
  "require_base_to_alpaca i direction =
     (if direction = BaseToAlpaca then Inr () else Inl (ResumeDirectionMismatch i direction))"

text \<open>
  The reason of a terminally failed conversion order names a fill that is not known to be zero.
\<close>

definition partial_fill_suffix :: "('f, 'w) cash_transfer \<Rightarrow> 'f crypto_order_response \<Rightarrow> string" where
  "partial_fill_suffix M order = (case co_filled_quantity order of
     None \<Rightarrow> []
   | Some filled \<Rightarrow>
       if unwrap_or True (map_ok Not (fl_is_zero (fl M) filled))
       then '' (partial fill '' @ show_usdc (txt_of M) (Usdc filled) @ '' needs reconciliation)''
       else [])"

definition resume_converting ::
  "('f, 'w) cash_transfer \<Rightarrow> usdc_rebalance_id \<Rightarrow> client_order_id \<Rightarrow> ('f, 'w, unit) run" where
  "resume_converting M i correlation_id =
     seqw (map_errw AlpacaBroker (on_world (find_conversion_order (alpaca_broker M) correlation_id)))
       (\<lambda>found. case found of
         None \<Rightarrow>
           seqw (cqrs_send M (FailConversion (''conversion order '' @
               show_client_order_id (txt_of M) correlation_id @ '' never reached Alpaca'')))
             (\<lambda>_. failw (ResumeIndeterminateConversion i))
       | Some order \<Rightarrow>
           seqw (if classify order = OutcomePending
               then map_errw AlpacaBroker
                 (on_world (poll_conversion_to_terminal (alpaca_broker M) (co_id order)))
               else retw order) (\<lambda>order. case classify order of
             OutcomeFilled \<Rightarrow>
               seqw (resultw (conversion_amounts_from_order M order correlation_id UsdcToUsd))
                 (\<lambda>conversion. cqrs_send M (ConfirmConversion conversion))
           | OutcomePending \<Rightarrow> failw (ResumeIndeterminateConversion i)
           | OutcomeFailed reason \<Rightarrow>
               seqw (cqrs_send M (FailConversion (''conversion order failed: '' @
                   debug_failure_reason reason @ partial_fill_suffix M order)))
                 (\<lambda>_. failw (ResumeIndeterminateConversion i))))"

fun drive_base_to_alpaca ::
  "('f, 'w) cash_transfer \<Rightarrow> usdc_rebalance_id \<Rightarrow> 'f usdc_rebalance \<Rightarrow> ('f, 'w, unit) run" where
  "drive_base_to_alpaca M i (WithdrawalSubmitting direction a from_block initiated_at) =
     seqw (resultw (require_base_to_alpaca i direction)) (\<lambda>_.
     seqw (resultw (usdc_to_u256 M a)) (\<lambda>raw.
     seqw (resume_withdrawal_submitting M i a raw from_block) (\<lambda>_.
       continue_from_withdrawal_complete M i a initiated_at)))"
| "drive_base_to_alpaca M i (Withdrawing direction a _ initiated_at) =
     seqw (resultw (require_base_to_alpaca i direction)) (\<lambda>_.
     seqw (cqrs_send M (ConfirmWithdrawal None)) (\<lambda>_.
       continue_from_withdrawal_complete M i a initiated_at))"
| "drive_base_to_alpaca M i (WithdrawalComplete direction a initiated_at _ _) =
     seqw (resultw (require_base_to_alpaca i direction)) (\<lambda>_.
       continue_from_withdrawal_complete M i a initiated_at)"
| "drive_base_to_alpaca M i (BridgingSubmitting direction a from_block initiated_at _
       pending_burn_tx) =
     seqw (resultw (require_base_to_alpaca i direction)) (\<lambda>_.
     seqw (resultw (usdc_to_u256 M a)) (\<lambda>raw.
     seqw (resume_bridging_submitting M i raw from_block pending_burn_tx) (\<lambda>receipt.
       continue_from_bridging M i a (burn_tx receipt) initiated_at)))"
| "drive_base_to_alpaca M i (Bridging direction a burn initiated_at _) =
     seqw (resultw (require_base_to_alpaca i direction)) (\<lambda>_.
       continue_from_bridging M i a burn initiated_at)"
| "drive_base_to_alpaca M i (AwaitingAttestation direction a burn initiated_at _ retry_deadline_at) =
     seqw (resultw (require_base_to_alpaca i direction)) (\<lambda>_.
       continue_from_awaiting_attestation M i a burn retry_deadline_at initiated_at)"
| "drive_base_to_alpaca M i (Attested direction _ burn cctp_nonce attestation message
       mint_scan_from_block initiated_at _) =
     seqw (resultw (require_base_to_alpaca i direction)) (\<lambda>_.
       continue_from_attested M i burn attestation cctp_nonce message mint_scan_from_block
         initiated_at)"
| "drive_base_to_alpaca M i (Bridged direction _ amount_received _ _ mint_tx_hash _ _) =
     seqw (resultw (require_base_to_alpaca i direction)) (\<lambda>_.
       continue_from_bridged_resume M amount_received mint_tx_hash)"
| "drive_base_to_alpaca M i (DepositInitiated direction a _ _ deposit_ref _ _) =
     seqw (resultw (require_base_to_alpaca i direction)) (\<lambda>_.
       case deposit_ref of
         AlpacaId _ \<Rightarrow> failw (DepositRefMustBeOnchain i)
       | OnchainTx send_tx \<Rightarrow>
           seqw (poll_alpaca_deposit_and_confirm M send_tx) (\<lambda>_.
           seqw (execute_usdc_to_usd_conversion M a) (\<lambda>_. retw ())))"
| "drive_base_to_alpaca M i (DepositConfirmed BaseToAlpaca a _ _ _ _) =
     seqw (execute_usdc_to_usd_conversion M a) (\<lambda>_. retw ())"
| "drive_base_to_alpaca M i (DepositConfirmed AlpacaToBase _ _ _ _ _) = retw ()"
| "drive_base_to_alpaca M i (Converting direction _ order_id _) =
     seqw (resultw (require_base_to_alpaca i direction)) (\<lambda>_. resume_converting M i order_id)"
| "drive_base_to_alpaca M i (ConversionComplete direction _ _ _ _) =
     resultw (require_base_to_alpaca i direction)"
| "drive_base_to_alpaca M i (BridgingFailed direction _ burn_tx_hash _ _ initiated_at _) =
     seqw (resultw (require_base_to_alpaca i direction)) (\<lambda>_.
       recover_from_bridging_failed M i burn_tx_hash initiated_at)"
| "drive_base_to_alpaca M i (WithdrawalFailed _ _ _ _ _ _) = failw (PreviouslyFailedAggregate i)"
| "drive_base_to_alpaca M i (DepositFailed _ _ _ _ _ _ _ _) = failw (PreviouslyFailedAggregate i)"
| "drive_base_to_alpaca M i (ConversionFailed _ _ _ _ _ _) = failw (PreviouslyFailedAggregate i)"
| "drive_base_to_alpaca M i (Reconciled _ _ _ _ _ _) = retw ()"

definition resume_base_to_alpaca ::
  "('f, 'w) cash_transfer \<Rightarrow> usdc_rebalance_id \<Rightarrow> 'f usdc \<Rightarrow> ('f, 'w, unit) run" where
  "resume_base_to_alpaca M i a = seqw (cqrs_load M) (\<lambda>state. case state of
     None \<Rightarrow> execute_base_to_alpaca M i a
   | Some s \<Rightarrow> drive_base_to_alpaca M i s)"

section \<open>Redrives\<close>

text \<open>The job runs the direction it was enqueued for, with the amount of its payload, again and again.\<close>

fun run_transfer ::
  "('f, 'w) cash_transfer \<Rightarrow> usdc_rebalance_id \<Rightarrow> rebalance_direction \<Rightarrow> 'f usdc \<Rightarrow>
   ('f, 'w, unit) run" where
  "run_transfer M i AlpacaToBase a = resume_alpaca_to_base M i a"
| "run_transfer M i BaseToAlpaca a = resume_base_to_alpaca M i a"

definition redrives ::
  "('f, 'w) cash_transfer \<Rightarrow> usdc_rebalance_id \<Rightarrow> (rebalance_direction \<times> 'f usdc) list \<Rightarrow>
   ('f, 'w) transfer_state \<Rightarrow> ('f, 'w) transfer_state" where
  "redrives M i runs st = foldl (\<lambda>st (d, a). snd (run_transfer M i d a st)) st runs"

end
