(* ===== verification/Cash_Frame.thy ===== *)
theory Cash_Frame
  imports Cash_Transfer
begin

text \<open>
  The frame of the orchestrator's proofs: which calls and commands keep an invariant. The locale
  \<open>kept_transfer\<close> takes an invariant with the calls that keep it and shows, once for all
  invariants, that every part of the two flows built from such calls keeps it.
\<close>

section \<open>Kept predicates\<close>

named_theorems keeps_rules \<open>rules that take a kept predicate through a run\<close>

definition keeps :: "('s \<Rightarrow> bool) \<Rightarrow> ('s, 'e, 'a) effect \<Rightarrow> bool" where
  "keeps I m \<longleftrightarrow> triple I m (\<lambda>_. I) (\<lambda>_. I)"

lemma keepsI: "(\<And>st. I st \<Longrightarrow> I (snd (m st))) \<Longrightarrow> keeps I m"
  by (simp add: keeps_def triple_def split: prod.split sum.split) (metis snd_conv)

lemma keepsD: "keeps I m \<Longrightarrow> I st \<Longrightarrow> I (snd (m st))"
  by (cases "m st") (auto simp: keeps_def triple_def split: sum.splits dest!: spec [of _ st])

lemma keeps_retw [keeps_rules]: "keeps I (retw x)"
  and keeps_failw [keeps_rules]: "keeps I (failw e)"
  and keeps_resultw [keeps_rules]: "keeps I (resultw r)"
  by (rule keepsI, simp add: resultw_def)+

lemma keeps_seqw [keeps_rules]: "keeps I m \<Longrightarrow> (\<And>x. keeps I (k x)) \<Longrightarrow> keeps I (seqw m k)"
  unfolding keeps_def by (rule triple_seqw)

lemma keeps_map_errw [keeps_rules]: "keeps I m \<Longrightarrow> keeps I (map_errw f m)"
  unfolding keeps_def by (rule triple_map_err)

lemma keeps_outcomew [keeps_rules]: "keeps I m \<Longrightarrow> keeps I (outcomew m)"
  unfolding keeps_def by (rule triple_outcomew)

lemma keeps_Let [keeps_rules]: "(\<And>x. keeps I (k x)) \<Longrightarrow> keeps I (Let v k)"
  by (simp add: Let_def)

lemma keeps_if [keeps_rules]: "keeps I m \<Longrightarrow> keeps I n \<Longrightarrow> keeps I (if b then m else n)"
  by simp

lemma keeps_case_option [keeps_rules]:
  "keeps I m \<Longrightarrow> (\<And>x. keeps I (k x)) \<Longrightarrow> keeps I (case v of None \<Rightarrow> m | Some x \<Rightarrow> k x)"
  by (simp split: option.split)

lemma keeps_case_sum [keeps_rules]:
  "(\<And>e. keeps I (f e)) \<Longrightarrow> (\<And>x. keeps I (k x)) \<Longrightarrow> keeps I (case r of Inl e \<Rightarrow> f e | Inr x \<Rightarrow> k x)"
  by (simp split: sum.split)

lemma keeps_case_prod [keeps_rules]:
  "(\<And>x y. keeps I (k x y)) \<Longrightarrow> keeps I (case p of (x, y) \<Rightarrow> k x y)"
  by (simp split: prod.split)

lemma keeps_case_poll [keeps_rules]:
  "(\<And>x. keeps I (k x)) \<Longrightarrow> keeps I m \<Longrightarrow>
   keeps I (case v of Received x \<Rightarrow> k x | TimedOut \<Rightarrow> m)"
  by (simp split: attestation_poll_outcome.split)

lemma keeps_case_status [keeps_rules]:
  "keeps I a \<Longrightarrow> keeps I b \<Longrightarrow> keeps I c \<Longrightarrow> keeps I d \<Longrightarrow>
   keeps I (case v of MinedSuccess \<Rightarrow> a | MinedReverted \<Rightarrow> b | BurnPending \<Rightarrow> c | BurnDropped \<Rightarrow> d)"
  by (simp split: burn_tx_status.split)

lemma keeps_case_transfer_status [keeps_rules]:
  "keeps I a \<Longrightarrow> keeps I b \<Longrightarrow> keeps I c \<Longrightarrow> keeps I d \<Longrightarrow>
   keeps I (case v of TransferPending \<Rightarrow> a | TransferProcessing \<Rightarrow> b | TransferComplete \<Rightarrow> c
     | TransferFailed \<Rightarrow> d)"
  by (simp split: transfer_status.split)

lemma keeps_case_outcome [keeps_rules]:
  "keeps I a \<Longrightarrow> keeps I b \<Longrightarrow> (\<And>r. keeps I (c r)) \<Longrightarrow>
   keeps I (case v of OutcomeFilled \<Rightarrow> a | OutcomePending \<Rightarrow> b | OutcomeFailed r \<Rightarrow> c r)"
  by (simp split: crypto_order_outcome.split)

lemma keeps_case_ref [keeps_rules]:
  "(\<And>x. keeps I (a x)) \<Longrightarrow> (\<And>x. keeps I (b x)) \<Longrightarrow>
   keeps I (case v of AlpacaId x \<Rightarrow> a x | OnchainTx x \<Rightarrow> b x)"
  by (simp split: transfer_ref.split)

lemma keeps_case_submission [keeps_rules]:
  "(\<And>h. keeps I (a h)) \<Longrightarrow> (\<And>e. keeps I (b e)) \<Longrightarrow> keeps I c \<Longrightarrow> keeps I d \<Longrightarrow>
   keeps I (case v of BurnSubmitted h \<Rightarrow> a h | BurnSubmitError e \<Rightarrow> b e | BurnSubmitElapsed \<Rightarrow> c
     | BurnTaskPanicked \<Rightarrow> d)"
  by (simp split: burn_submission.split)

lemma keeps_on_world:
  assumes "\<And>l w. I \<lparr>rebalance = l, world = w\<rparr> \<Longrightarrow> I \<lparr>rebalance = l, world = snd (m w)\<rparr>"
  shows "keeps I (on_world m)"
proof (rule keepsI)
  fix st :: "('a, 'b) transfer_state" assume "I st"
  with assms [of "rebalance st" "world st"] show "I (snd (on_world m st))"
    by (cases st) (simp add: on_world_def case_prod_beta)
qed

text \<open>A run that starts in a phase \<open>U\<close> of the invariant \<open>I\<close> and may leave it.\<close>

definition advances :: "('s \<Rightarrow> bool) \<Rightarrow> ('s \<Rightarrow> bool) \<Rightarrow> ('s, 'e, 'a) effect \<Rightarrow> bool" where
  "advances U I m \<longleftrightarrow> triple U m (\<lambda>_. I) (\<lambda>_. I)"

lemma advances_seqw:
  assumes "\<And>st. U st \<Longrightarrow> I st" and "keeps U m" and "\<And>x. advances U I (k x)"
  shows "advances U I (seqw m k)"
  using assms unfolding advances_def keeps_def
  by (intro triple_seqw [where R = "\<lambda>_. U"]) (auto elim: triple_weaken)

lemma advances_first: "advances U I m \<Longrightarrow> (\<And>x. keeps I (k x)) \<Longrightarrow> advances U I (seqw m k)"
  unfolding advances_def keeps_def by (rule triple_seqw)

lemma advances_keeps: "keeps J m \<Longrightarrow> (\<And>st. U st \<Longrightarrow> J st) \<Longrightarrow> (\<And>st. J st \<Longrightarrow> I st) \<Longrightarrow> advances U I m"
  unfolding advances_def keeps_def by (erule triple_weaken)

lemma advances_failw: "(\<And>st. U st \<Longrightarrow> I st) \<Longrightarrow> advances U I (failw e)"
  unfolding advances_def by simp

lemma advances_case_ref:
  "(\<And>x. advances U I (a x)) \<Longrightarrow> (\<And>x. advances U I (b x)) \<Longrightarrow>
   advances U I (case v of AlpacaId x \<Rightarrow> a x | OnchainTx x \<Rightarrow> b x)"
  by (simp split: transfer_ref.split)

lemma advances_case_option:
  "advances U I m \<Longrightarrow> (\<And>x. advances U I (k x)) \<Longrightarrow> advances U I (case v of None \<Rightarrow> m | Some x \<Rightarrow> k x)"
  by (simp split: option.split)

lemma advances_case_poll:
  "(\<And>x. advances U I (k x)) \<Longrightarrow> advances U I m \<Longrightarrow>
   advances U I (case v of Received x \<Rightarrow> k x | TimedOut \<Rightarrow> m)"
  by (simp split: attestation_poll_outcome.split)

section \<open>Calls that keep a predicate of the world\<close>

definition still :: "('w \<Rightarrow> bool) \<Rightarrow> ('w \<Rightarrow> 'a \<times> 'w) \<Rightarrow> bool" where
  "still J f \<longleftrightarrow> (\<forall>w. J w \<longrightarrow> J (snd (f w)))"

text \<open>The calls that move funds on a chain and have a ledger below.\<close>

datatype mover = SubmitBurn | WithdrawUsdc | SendUsdc

definition bridge_still :: "mover set \<Rightarrow> 'w bridge \<Rightarrow> ('w \<Rightarrow> bool) \<Rightarrow> bool" where
  "bridge_still X B J \<longleftrightarrow>
     (SubmitBurn \<notin> X \<longrightarrow> (\<forall>d a r. still J (submit_burn B d a r))) \<and>
     (SendUsdc \<notin> X \<longrightarrow> (\<forall>r a. still J (send_usdc_on_ethereum B r a))) \<and>
     (\<forall>d h a. still J (confirm_burn B d h a)) \<and>
     (\<forall>d h. still J (burn_status B d h)) \<and>
     (\<forall>d h. still J (poll_attestation B d h)) \<and>
     (\<forall>d r. still J (mint B d r)) \<and>
     (\<forall>d a r b. still J (find_recent_burn B d a r b)) \<and>
     (\<forall>d r b. still J (find_recent_mint B d r b)) \<and>
     (\<forall>d. still J (destination_block B d)) \<and>
     (\<forall>d. still J (source_block B d)) \<and>
     (\<forall>h. still J (ethereum_tx_confirmations B h)) \<and>
     (\<forall>h. still J (ethereum_tx_block B h)) \<and>
     (\<forall>h. still J (ethereum_usdc_balance B h)) \<and>
     (\<forall>a b c d. still J (find_recent_usdc_transfer B a b c d))"

definition services_still :: "mover set \<Rightarrow> ('f, 'w) cash_transfer \<Rightarrow> ('w \<Rightarrow> bool) \<Rightarrow> bool" where
  "services_still X M J \<longleftrightarrow>
     (WithdrawUsdc \<notin> X \<longrightarrow> (\<forall>v a. still J (withdraw_usdc (raindex M) v a))) \<and>
     still J (current_block (raindex M)) \<and>
     (\<forall>t v b. still J (find_recent_withdrawal (raindex M) t v b)) \<and>
     (\<forall>v a. still J (submit_deposit_usdc (raindex M) v a)) \<and>
     (\<forall>h. still J (confirm_tx (raindex M) h)) \<and>
     (\<forall>a s r. still J (initiate_withdrawal (alpaca_wallet M) a s r)) \<and>
     (\<forall>t. still J (poll_transfer_until_complete (alpaca_wallet M) t)) \<and>
     (\<forall>s n. still J (get_wallet_address (alpaca_wallet M) s n)) \<and>
     (\<forall>h. still J (poll_deposit_by_tx_hash (alpaca_wallet M) h)) \<and>
     (\<forall>a d c. still J (convert_usdc_usd (alpaca_broker M) a d c)) \<and>
     (\<forall>c. still J (find_conversion_order (alpaca_broker M) c)) \<and>
     (\<forall>c. still J (poll_conversion_to_terminal (alpaca_broker M) c)) \<and>
     still J (store_commit (cqrs M)) \<and>
     still J (store_load (cqrs M)) \<and>
     still J (utc_now (rt M)) \<and>
     still J (uuid_new_v4 (rt M)) \<and>
     (\<forall>w. J w \<longrightarrow> J (rt_sleep (rt M) w))"

definition calls_still :: "mover set \<Rightarrow> ('f, 'w) cash_transfer \<Rightarrow> ('w \<Rightarrow> bool) \<Rightarrow> bool" where
  "calls_still X M J \<longleftrightarrow> bridge_still X (cctp_bridge M) J \<and> services_still X M J"

section \<open>The frame\<close>

text \<open>
  \<open>I\<close> is kept by every call but those in \<open>X\<close> and by every command in \<open>K\<close>, which has all
  commands but those that open a withdrawal or record a pending burn.
\<close>

fun ordinary :: "'f usdc_rebalance_command \<Rightarrow> bool" where
  "ordinary (Initiate _ _ _) = False"
| "ordinary (BeginWithdrawal _ _ _) = False"
| "ordinary (InitiateConversion _ _ _) = False"
| "ordinary (RecordPendingBurn _) = False"
| "ordinary _ = True"

locale kept_transfer =
  fixes M :: "('f, 'w) cash_transfer"
    and I :: "('f, 'w) transfer_state \<Rightarrow> bool"
    and X :: "mover set"
    and K :: "'f usdc_rebalance_command \<Rightarrow> bool"
  assumes calls: "calls_still X M (\<lambda>w. I \<lparr>rebalance = l, world = w\<rparr>)"
    and commands: "K c \<Longrightarrow> I st \<Longrightarrow> I (snd (cqrs_send M c st))"
    and ordinary_kept: "ordinary c \<Longrightarrow> K c"
begin

lemma send_keeps: "K c \<Longrightarrow> keeps I (cqrs_send M c)"
  by (rule keepsI) (rule commands)

lemma ordinary_keeps [keeps_rules]: "ordinary c \<Longrightarrow> keeps I (cqrs_send M c)"
  by (rule send_keeps) (rule ordinary_kept)

lemma world_keeps:
  assumes "\<And>l. still (\<lambda>w. I \<lparr>rebalance = l, world = w\<rparr>) m"
  shows "keeps I (on_world m)"
  using assms by (intro keeps_on_world) (simp add: still_def)

lemma infallible_keeps:
  assumes "\<And>l. still (\<lambda>w. I \<lparr>rebalance = l, world = w\<rparr>) m"
  shows "keeps I (on_world (infallible m))"
  using assms by (intro world_keeps) (simp add: still_def infallible_def case_prod_beta)

lemma bridge_keeps [keeps_rules]:
  "SubmitBurn \<notin> X \<Longrightarrow> keeps I (on_world (infallible (submit_burn (cctp_bridge M) d a r)))"
  "SendUsdc \<notin> X \<Longrightarrow> keeps I (on_world (send_usdc_on_ethereum (cctp_bridge M) r a))"
  "keeps I (on_world (confirm_burn (cctp_bridge M) d h a))"
  "keeps I (on_world (burn_status (cctp_bridge M) d h))"
  "keeps I (on_world (poll_attestation (cctp_bridge M) d h))"
  "keeps I (on_world (mint (cctp_bridge M) d response))"
  "keeps I (on_world (find_recent_burn (cctp_bridge M) d a r b))"
  "keeps I (on_world (find_recent_mint (cctp_bridge M) d r b))"
  "keeps I (on_world (destination_block (cctp_bridge M) d))"
  "keeps I (on_world (source_block (cctp_bridge M) d))"
  "keeps I (on_world (ethereum_tx_confirmations (cctp_bridge M) h))"
  "keeps I (on_world (ethereum_tx_block (cctp_bridge M) h))"
  "keeps I (on_world (ethereum_usdc_balance (cctp_bridge M) r))"
  "keeps I (on_world (find_recent_usdc_transfer (cctp_bridge M) r r' a b))"
  using calls by (auto simp: calls_still_def bridge_still_def intro!: world_keeps infallible_keeps)

lemma services_keep [keeps_rules]:
  "WithdrawUsdc \<notin> X \<Longrightarrow> keeps I (on_world (withdraw_usdc (raindex M) v a))"
  "keeps I (on_world (current_block (raindex M)))"
  "keeps I (on_world (find_recent_withdrawal (raindex M) r v b))"
  "keeps I (on_world (submit_deposit_usdc (raindex M) v a))"
  "keeps I (on_world (confirm_tx (raindex M) h))"
  "keeps I (on_world (initiate_withdrawal (alpaca_wallet M) p s r))"
  "keeps I (on_world (poll_transfer_until_complete (alpaca_wallet M) t))"
  "keeps I (on_world (get_wallet_address (alpaca_wallet M) s n))"
  "keeps I (on_world (poll_deposit_by_tx_hash (alpaca_wallet M) h))"
  "keeps I (on_world (convert_usdc_usd (alpaca_broker M) x cd c))"
  "keeps I (on_world (find_conversion_order (alpaca_broker M) c))"
  "keeps I (on_world (poll_conversion_to_terminal (alpaca_broker M) u))"
  "keeps I (on_world (store_load (cqrs M)))"
  "keeps I (on_world (infallible (utc_now (rt M))))"
  "keeps I (on_world (infallible (uuid_new_v4 (rt M))))"
  "keeps I (on_world (infallible (\<lambda>w. ((), rt_sleep (rt M) w))))"
  using calls
  by (auto simp: calls_still_def services_still_def intro!: world_keeps infallible_keeps)
    (simp add: still_def)

lemma every_keeps: "All K \<Longrightarrow> keeps I (cqrs_send M c)"
  by (simp add: send_keeps)

subsection \<open>Shared parts\<close>

lemma load_keeps [keeps_rules]: "keeps I (cqrs_load M)"
proof -
  have "keeps I (\<lambda>st. case rebalance st of Uninitialized \<Rightarrow> (Inr None, st)
      | Live s \<Rightarrow> (Inr (Some s), st) | FailedLifecycle \<Rightarrow> (Inl e, st))" for e
    by (rule keepsI) (simp split: lifecycle.split)
  then show ?thesis unfolding cqrs_load_def by (intro keeps_rules)
qed

lemma now_keeps [keeps_rules]: "keeps I (now_run M)"
  unfolding now_run_def by (intro keeps_rules)

lemma correlation_id_keeps [keeps_rules]: "keeps I (new_correlation_id M)"
  unfolding new_correlation_id_def by (intro keeps_rules)

lemma attestation_keeps [keeps_rules]:
  "keeps I (record_attestation_timeout M i)"
  "keeps I (poll_cctp_attestation M d h)"
  "keeps I (poll_cctp_attestation_until_deadline M i d h t)"
  "keeps I (record_attestation M d response)"
  "keeps I (attested_attestation_response M i d h att n message)"
proof -
  show 1: "keeps I (poll_cctp_attestation M d h)" for d h
    unfolding poll_cctp_attestation_def
    by (intro keeps_rules) (simp_all split: cctp_error.split add: keeps_rules)
  show "keeps I (record_attestation_timeout M i)"
    unfolding record_attestation_timeout_def attestation_retry_deadline_at_def
    by (intro keeps_rules) simp
  show "keeps I (poll_cctp_attestation_until_deadline M i d h t)"
    unfolding poll_cctp_attestation_until_deadline_def by (intro keeps_rules 1) simp
  show "keeps I (record_attestation M d response)"
    unfolding record_attestation_def by (intro keeps_rules) simp
  show "keeps I (attested_attestation_response M i d h att n message)"
    unfolding attested_attestation_response_def by (intro keeps_rules 1) simp_all
qed

lemma conversion_keeps [keeps_rules]:
  "keeps I (place_and_confirm_conversion M a d c)"
  "keeps I (execute_usdc_to_usd_conversion M a)"
  "All K \<Longrightarrow> keeps I (execute_usd_to_usdc_conversion M a)"
proof -
  show 1: "keeps I (place_and_confirm_conversion M a d c)" for a d c
    unfolding place_and_confirm_conversion_def record_conversion_or_fail_def
    by (intro keeps_rules) simp_all
  show "keeps I (execute_usdc_to_usd_conversion M a)"
    unfolding execute_usdc_to_usd_conversion_def by (intro keeps_rules 1) simp
  show "All K \<Longrightarrow> keeps I (execute_usd_to_usdc_conversion M a)"
    unfolding execute_usd_to_usdc_conversion_def by (intro keeps_seqw keeps_rules every_keeps 1)
qed

lemma mint_keeps [keeps_rules]:
  "keeps I (execute_cctp_mint M i response t)"
  "keeps I (execute_cctp_mint_on_ethereum M i response t)"
proof -
  have "keeps I (mint_and_confirm M i d reason response t)" for d reason
    unfolding mint_and_confirm_def
    by (intro keeps_rules) (simp_all split: cctp_error.split add: keeps_rules)
  then show "keeps I (execute_cctp_mint M i response t)"
    "keeps I (execute_cctp_mint_on_ethereum M i response t)"
    by (simp_all add: execute_cctp_mint_def execute_cctp_mint_on_ethereum_def)
qed

lemma record_cctp_burn_keeps [keeps_rules]: "keeps I (record_cctp_burn M receipt)"
  unfolding record_cctp_burn_def by (intro keeps_rules) simp

lemma check_pending_burn_keeps [keeps_rules]: "keeps I (check_pending_burn M i d a p)"
  unfolding check_pending_burn_def by (intro keeps_rules)

text \<open>The burn, for invariants no burn and no command can break.\<close>

lemma burn_keeps:
  assumes "SubmitBurn \<notin> X" and "All K"
  shows "keeps I (burn_recording_pending M i d a r)"
proof -
  have recorded: "keeps I (record_burn_attempts M i h n)" for h n
  proof (induction n)
    case (Suc n)
    show ?case unfolding record_burn_attempts.simps by (intro keeps_rules every_keeps assms Suc)
  qed (unfold record_burn_attempts.simps, intro keeps_rules)
  have "keeps I (submit_and_record_burn M i d a r)"
    unfolding submit_and_record_burn_def by (intro keeps_rules assms recorded) simp
  then show ?thesis
    unfolding burn_recording_pending_def by (intro keeps_rules)
qed

lemma begin_and_burn_keeps:
  assumes "SubmitBurn \<notin> X" and "All K"
  shows "keeps I (execute_cctp_burn_on_base M i a)"
    "keeps I (execute_cctp_burn_on_ethereum M i a b)"
    "keeps I (resume_burn M i d a fb p)"
  unfolding execute_cctp_burn_on_base_def execute_cctp_burn_on_ethereum_def begin_and_burn_def
    resume_burn_def
  by (intro keeps_rules burn_keeps [OF assms]; simp split: cctp_error.split add: keeps_rules)+

subsection \<open>The flows\<close>

text \<open>From the recorded burn on, Alpaca to Base.\<close>

lemma deposit_keeps [keeps_rules]:
  "keeps I (confirm_deposit M)"
  "keeps I (deposit_to_vault M a)"
  "keeps I (continue_alpaca_to_base_from_bridged M b)"
  "keeps I (reverify_vault_deposit M h)"
  unfolding confirm_deposit_def deposit_to_vault_def continue_alpaca_to_base_from_bridged_def
    reverify_vault_deposit_def
  by (intro keeps_rules; simp)+

lemma mint_and_deposit_keeps [keeps_rules]: "keeps I (mint_and_deposit M i response t)"
  unfolding mint_and_deposit_def by (intro keeps_rules)

lemma alpaca_to_base_tail_keeps [keeps_rules]:
  "keeps I (continue_alpaca_to_base_from_bridging M i h t)"
  "keeps I (continue_alpaca_to_base_from_awaiting_attestation M i a h t t')"
  "keeps I (continue_alpaca_to_base_from_attested M i h att n message sb t)"
  unfolding continue_alpaca_to_base_from_bridging_def
    continue_alpaca_to_base_from_awaiting_attestation_def continue_alpaca_to_base_from_attested_def
  by (intro keeps_rules; simp)+

text \<open>Up to the burn, Alpaca to Base.\<close>

lemma initiate_alpaca_withdrawal_keeps: "All K \<Longrightarrow> keeps I (initiate_alpaca_withdrawal M a)"
  unfolding initiate_alpaca_withdrawal_def by (intro keeps_seqw keeps_rules every_keeps)

lemma withdrawal_confirmation_keeps [keeps_rules]:
  "keeps I (require_withdrawal_confirmed M i h)"
  "keeps I (poll_and_confirm_withdrawal M i tid t)"
  "keeps I (received_burn_amount M i a)"
  unfolding poll_and_confirm_withdrawal_def require_withdrawal_confirmed_def received_burn_amount_def
  by (intro keeps_rules; simp)+

text \<open>Base to Alpaca.\<close>

lemma record_vault_withdrawal_keeps: "All K \<Longrightarrow> keeps I (record_vault_withdrawal M a h)"
  unfolding record_vault_withdrawal_def by (intro keeps_seqw every_keeps)

lemma vault_withdrawal_keeps:
  assumes "WithdrawUsdc \<notin> X" and "All K"
  shows "keeps I (withdraw_from_vault M a raw)" "keeps I (resume_withdrawal_submitting M i a raw fb)"
proof -
  have 1: "keeps I (issue_vault_withdrawal M a raw)"
    unfolding issue_vault_withdrawal_def
    by (intro keeps_rules record_vault_withdrawal_keeps assms)
  show "keeps I (withdraw_from_vault M a raw)"
    unfolding withdraw_from_vault_def by (intro keeps_rules every_keeps assms 1)
  show "keeps I (resume_withdrawal_submitting M i a raw fb)"
    unfolding resume_withdrawal_submitting_def
    by (intro keeps_rules every_keeps record_vault_withdrawal_keeps assms 1)
qed

lemma deposit_address_keeps [keeps_rules]: "keeps I (fetch_alpaca_deposit_address M)"
  unfolding fetch_alpaca_deposit_address_def by (intro keeps_rules)

lemma poll_deposit_keeps [keeps_rules]: "keeps I (poll_alpaca_deposit_and_confirm M h)"
  unfolding poll_alpaca_deposit_and_confirm_def by (intro keeps_rules) simp_all

lemma finish_deposit_keeps [keeps_rules]: "keeps I (finish_deposit M a h)"
  unfolding finish_deposit_def by (intro keeps_rules) simp

lemma converting_keeps [keeps_rules]: "keeps I (resume_converting M i c)"
  unfolding resume_converting_def by (intro keeps_rules) simp_all

lemma bridged_keeps:
  assumes "SendUsdc \<notin> X"
  shows "keeps I (continue_from_bridged_fresh M a)" "keeps I (continue_from_bridged_resume M a h)"
  unfolding continue_from_bridged_fresh_def continue_from_bridged_resume_def send_alpaca_deposit_def
    send_or_adopt_alpaca_deposit_def
  by (intro keeps_rules assms)+

lemma base_to_alpaca_tail_keeps:
  assumes "SendUsdc \<notin> X"
  shows "keeps I (continue_from_bridging M i a h t)"
    "keeps I (continue_from_awaiting_attestation M i a h t t')"
    "keeps I (continue_from_attested M i h att n message sb t)"
    "keeps I (recover_from_bridging_failed M i h' t)"
  unfolding continue_from_bridging_def continue_from_awaiting_attestation_def
    continue_from_attested_def recover_from_bridging_failed_def mint_and_continue_def
  by (intro keeps_rules bridged_keeps assms; simp)+

text \<open>The whole flows, for invariants no call and no command can break.\<close>

lemma drive_alpaca_to_base_keeps:
  assumes "SubmitBurn \<notin> X" and "All K"
  shows "keeps I (drive_alpaca_to_base M i s)" "keeps I (execute_alpaca_to_base M i a)"
proof -
  have withdrawn: "keeps I (continue_alpaca_to_base_from_withdrawal_complete M i a h t)" for i a h t
    unfolding continue_alpaca_to_base_from_withdrawal_complete_def
    by (intro keeps_rules begin_and_burn_keeps [OF assms])
  have converted: "keeps I (continue_alpaca_to_base_from_conversion_complete M i a t)" for i a t
    unfolding continue_alpaca_to_base_from_conversion_complete_def
    by (intro keeps_rules initiate_alpaca_withdrawal_keeps assms withdrawn)
  show "keeps I (execute_alpaca_to_base M i a)"
    unfolding execute_alpaca_to_base_def
    by (intro keeps_rules initiate_alpaca_withdrawal_keeps assms withdrawn)
  have "M' = M \<Longrightarrow> keeps I (drive_alpaca_to_base M' i s)" for M'
    by (induction M' i s rule: drive_alpaca_to_base.induct; unfold drive_alpaca_to_base.simps resume_bridging_submitting_ethereum_def; hypsubst)
      (intro keeps_rules begin_and_burn_keeps [OF assms] converted withdrawn; simp)+
  then show "keeps I (drive_alpaca_to_base M i s)" by simp
qed

lemma alpaca_to_base_keeps:
  assumes "SubmitBurn \<notin> X" and "All K"
  shows "keeps I (resume_alpaca_to_base M i a)"
  unfolding resume_alpaca_to_base_def by (intro keeps_rules drive_alpaca_to_base_keeps assms)

lemma drive_base_to_alpaca_keeps:
  assumes none: "SubmitBurn \<notin> X" "SendUsdc \<notin> X" and "All K"
    and withdrawal: "\<And>i a raw fb. keeps I (resume_withdrawal_submitting M i a raw fb)"
  shows "keeps I (drive_base_to_alpaca M i s)"
proof -
  note flow = begin_and_burn_keeps [OF none(1) assms(3)] withdrawal bridged_keeps [OF none(2)]
    base_to_alpaca_tail_keeps [OF none(2)]
  have withdrawn: "keeps I (continue_from_withdrawal_complete M i a t)" for i a t
    unfolding continue_from_withdrawal_complete_def by (intro keeps_rules flow)
  have "M' = M \<Longrightarrow> keeps I (drive_base_to_alpaca M' i s)" for M'
    by (induction M' i s rule: drive_base_to_alpaca.induct;
        unfold drive_base_to_alpaca.simps resume_bridging_submitting_def; hypsubst)
      (intro keeps_rules flow withdrawn; simp)+
  then show ?thesis by simp
qed

lemma after_withdrawal_keeps:
  assumes "SubmitBurn \<notin> X" "SendUsdc \<notin> X" and "All K"
  shows "keeps I (seqw (execute_cctp_burn_on_base M i raw) (\<lambda>receipt.
    continue_from_bridging M i a (burn_tx receipt) t))"
  by (intro keeps_rules begin_and_burn_keeps base_to_alpaca_tail_keeps assms)

end

end
