(* ===== verification/Cash_Outcome.thy ===== *)
theory Cash_Outcome
  imports Cash_Frame
begin

text \<open>
  What a successful run of the USDC transfer orchestrator means: the aggregate is finished, in the
  direction it was opened with.
\<close>

section \<open>Sending a command\<close>

lemma cqrs_send_cases:
  obtains (rejected) e w where "cqrs_send M c st = (Inl e, st\<lparr>world := w\<rparr>)"
    "w = snd (utc_now (rt M) (world st)) \<or> w = snd (store_commit (cqrs M) (snd (utc_now (rt M) (world st))))"
  | (recorded) r evs now where
    "cqrs_send M c st = (r, \<lparr>rebalance = usdc_replay (rebalance st) evs,
       world = snd (store_commit (cqrs M) (snd (utc_now (rt M) (world st))))\<rparr>)"
    "handle usdc_initialize (usdc_transition (fl M) (dbg M)) (rebalance st) now c = Inr evs"
proof -
  obtain now w1 where now: "utc_now (rt M) (world st) = (now, w1)" by fastforce
  obtain o' w2 where commit: "store_commit (cqrs M) w1 = (o', w2)" by fastforce
  show thesis
  proof (cases "handle usdc_initialize (usdc_transition (fl M) (dbg M)) (rebalance st) now c")
    case (Inl e)
    with now show thesis by (intro rejected) (auto simp: cqrs_send_def)
  next
    case (Inr evs)
    with now commit show thesis
      by (cases o') (auto simp: cqrs_send_def Let_def intro: rejected recorded)
  qed
qed

lemma cqrs_send_ok:
  assumes "cqrs_send M c st = (Inr u, st')"
  obtains evs now where "rebalance st' = usdc_replay (rebalance st) evs"
    "handle usdc_initialize (usdc_transition (fl M) (dbg M)) (rebalance st) now c = Inr evs"
  using assms by (cases rule: cqrs_send_cases [of M c st]) auto

text \<open>The state an accepted command leaves.\<close>

lemma handle_Live:
  assumes "handle usdc_initialize (usdc_transition F D) (Live s) now c = Inr evs"
  obtains "evs = []" | e s' where "evs = [e]" "rebalance_step F s e s'"
    "usdc_transition F D now s c = Inr [e]"
  using assms by (auto elim!: usdc_transition_step)

lemma handle_Uninitialized:
  assumes "handle usdc_initialize (usdc_transition F D) Uninitialized now c = Inr evs"
  obtains e s where "evs = [e]" "usdc_originate e = Some s"
  using assms by (auto elim!: usdc_initialize_Inr)

section \<open>The direction of a transfer\<close>

definition directed :: "rebalance_direction \<Rightarrow> ('f, 'w) transfer_state \<Rightarrow> bool" where
  "directed d st \<longleftrightarrow> (\<exists>s. rebalance st = Live s \<and> rebalance_direction_of s = d)"

lemma directed_send:
  assumes "directed d st"
  shows "directed d (snd (cqrs_send M c st))"
proof (cases rule: cqrs_send_cases [of M c st])
  case (recorded r evs now)
  from assms obtain s where s: "rebalance st = Live s" "rebalance_direction_of s = d"
    by (auto simp: directed_def)
  from recorded(2) [unfolded s(1)] show ?thesis
  proof (cases rule: handle_Live)
    case 1
    with recorded(1) s show ?thesis by (simp add: directed_def)
  next
    case (2 e s')
    with recorded(1) s rebalance_step_direction [OF 2(2)] show ?thesis
      by (simp add: directed_def rebalance_step_evolve del: usdc_evolve.simps)
  qed
qed (use assms in \<open>simp add: directed_def\<close>)

lemma still_const [simp]: "still (\<lambda>_. P) f"
  by (simp add: still_def)

lemma calls_still_const: "calls_still X M (\<lambda>_. P)"
  by (simp add: calls_still_def bridge_still_def services_still_def)

interpretation directed: kept_transfer M "directed d" "{}" "\<lambda>_. True"
proof unfold_locales
  show "calls_still {} M (\<lambda>w. directed d \<lparr>rebalance = l, world = w\<rparr>)" for l
    by (simp add: directed_def calls_still_const)
qed (simp_all add: directed_send)

section \<open>Where a success ends\<close>

fun finished :: "'f usdc_rebalance \<Rightarrow> bool" where
  "finished (DepositConfirmed AlpacaToBase _ _ _ _ _) = True"
| "finished (ConversionComplete BaseToAlpaca _ _ _ _) = True"
| "finished (Reconciled _ _ _ _ _ _) = True"
| "finished _ = False"

definition ends :: "('s \<Rightarrow> bool) \<Rightarrow> ('s, 'e, 'a) effect \<Rightarrow> ('s \<Rightarrow> bool) \<Rightarrow> bool" where
  "ends I m Q \<longleftrightarrow> triple I m (\<lambda>_. Q) (\<lambda>_ _. True)"

named_theorems ends_rules \<open>rules that take a postcondition of success through a run\<close>

lemma endsI: "(\<And>st x st'. I st \<Longrightarrow> m st = (Inr x, st') \<Longrightarrow> Q st') \<Longrightarrow> ends I m Q"
  unfolding ends_def by (rule tripleI) auto

lemma endsD: "ends I m Q \<Longrightarrow> I st \<Longrightarrow> m st = (Inr x, st') \<Longrightarrow> Q st'"
  unfolding ends_def by (rule triple_Inr)

lemma ends_failw [ends_rules]: "ends I (failw e) Q"
  by (rule endsI) simp

lemma ends_seqw [ends_rules]: "keeps I m \<Longrightarrow> (\<And>x. ends I (k x) Q) \<Longrightarrow> ends I (seqw m k) Q"
  unfolding ends_def keeps_def by (rule triple_seqw [where R = "\<lambda>_. I"]) (auto intro: triple_weaken)

lemma ends_first: "ends I m R \<Longrightarrow> (\<And>x. ends R (k x) Q) \<Longrightarrow> ends I (seqw m k) Q"
  unfolding ends_def by (rule triple_seqw)

lemma ends_last: "ends I m Q \<Longrightarrow> ends I (seqw m (\<lambda>x. retw (f x))) Q"
  by (rule ends_first [of I m Q]) (auto intro: endsI)

lemma ends_if [ends_rules]: "ends I m Q \<Longrightarrow> ends I n Q \<Longrightarrow> ends I (if b then m else n) Q"
  by simp

lemma ends_Let [ends_rules]: "(\<And>x. ends I (k x) Q) \<Longrightarrow> ends I (Let v k) Q"
  by (simp add: Let_def)

lemma ends_case_option [ends_rules]:
  "ends I m Q \<Longrightarrow> (\<And>x. ends I (k x) Q) \<Longrightarrow> ends I (case v of None \<Rightarrow> m | Some x \<Rightarrow> k x) Q"
  by (simp split: option.split)

lemma ends_case_sum [ends_rules]:
  "(\<And>e. ends I (f e) Q) \<Longrightarrow> (\<And>x. ends I (k x) Q) \<Longrightarrow> ends I (case r of Inl e \<Rightarrow> f e | Inr x \<Rightarrow> k x) Q"
  by (simp split: sum.split)

lemma ends_case_poll [ends_rules]:
  "(\<And>x. ends I (k x) Q) \<Longrightarrow> ends I m Q \<Longrightarrow> ends I (case v of Received x \<Rightarrow> k x | TimedOut \<Rightarrow> m) Q"
  by (simp split: attestation_poll_outcome.split)

lemma ends_case_outcome [ends_rules]:
  "ends I a Q \<Longrightarrow> ends I b Q \<Longrightarrow> (\<And>r. ends I (c r) Q) \<Longrightarrow>
   ends I (case v of OutcomeFilled \<Rightarrow> a | OutcomePending \<Rightarrow> b | OutcomeFailed r \<Rightarrow> c r) Q"
  by (simp split: crypto_order_outcome.split)

lemma ends_case_ref [ends_rules]:
  "(\<And>x. ends I (a x) Q) \<Longrightarrow> (\<And>x. ends I (b x) Q) \<Longrightarrow>
   ends I (case v of AlpacaId x \<Rightarrow> a x | OnchainTx x \<Rightarrow> b x) Q"
  by (simp split: transfer_ref.split)

definition finished_state :: "('f, 'w) transfer_state \<Rightarrow> bool" where
  "finished_state st \<longleftrightarrow> (\<exists>s. rebalance st = Live s \<and> finished s)"

lemma send_ends:
  assumes "\<And>s now evs. rebalance_direction_of s = d \<Longrightarrow> usdc_transition (fl M) (dbg M) now s c = Inr evs \<Longrightarrow>
    \<exists>s'. usdc_replay (Live s) evs = Live s' \<and> finished s'"
  shows "ends (directed d) (cqrs_send M c) finished_state"
proof (rule endsI)
  fix st x st' assume "directed d st" and ok: "cqrs_send M c st = (Inr x, st')"
  then obtain s where s: "rebalance st = Live s" "rebalance_direction_of s = d"
    by (auto simp: directed_def)
  from ok obtain evs now where "rebalance st' = usdc_replay (rebalance st) evs"
    "handle usdc_initialize (usdc_transition (fl M) (dbg M)) (rebalance st) now c = Inr evs"
    by (rule cqrs_send_ok)
  with s assms show "finished_state st'" by (auto simp: finished_state_def)
qed

lemma confirm_deposit_ends [ends_rules]: "ends (directed AlpacaToBase) (confirm_deposit M) finished_state"
  unfolding confirm_deposit_def
proof (rule send_ends)
  fix s now evs
  assume "rebalance_direction_of s = AlpacaToBase" "usdc_transition (fl M) (dbg M) now s ConfirmDeposit = Inr evs"
  then show "\<exists>s'. usdc_replay (Live s) evs = Live s' \<and> finished s'"
    by (cases s) (auto simp: transition_confirm_deposit_def split: if_splits)
qed

lemma confirm_conversion_ends [ends_rules]:
  "ends (directed BaseToAlpaca) (cqrs_send M (ConfirmConversion cv)) finished_state"
proof (rule send_ends)
  fix s now evs
  assume "rebalance_direction_of s = BaseToAlpaca"
    "usdc_transition (fl M) (dbg M) now s (ConfirmConversion cv) = Inr evs"
  then show "\<exists>s'. usdc_replay (Live s) evs = Live s' \<and> finished s'"
    by (cases s) auto
qed

section \<open>Alpaca to Base\<close>

lemma deposit_ends [ends_rules]:
  "ends (directed AlpacaToBase) (continue_alpaca_to_base_from_bridged M a) finished_state"
  "ends (directed AlpacaToBase) (reverify_vault_deposit M h) finished_state"
  unfolding continue_alpaca_to_base_from_bridged_def reverify_vault_deposit_def
  by (intro ends_rules keeps_rules; simp)+

lemma mint_and_deposit_ends [ends_rules]:
  "ends (directed AlpacaToBase) (mint_and_deposit M i response t) finished_state"
  unfolding mint_and_deposit_def by (intro ends_rules keeps_rules)

lemma alpaca_to_base_tail_ends [ends_rules]:
  "ends (directed AlpacaToBase) (continue_alpaca_to_base_from_bridging M i h t) finished_state"
  "ends (directed AlpacaToBase) (continue_alpaca_to_base_from_awaiting_attestation M i a h t t') finished_state"
  "ends (directed AlpacaToBase) (continue_alpaca_to_base_from_attested M i h att n message sb t) finished_state"
  unfolding continue_alpaca_to_base_from_bridging_def
    continue_alpaca_to_base_from_awaiting_attestation_def continue_alpaca_to_base_from_attested_def
  by (intro ends_rules keeps_rules; simp)+

lemma directed_burn_keeps [keeps_rules]:
  "keeps (directed d) (execute_cctp_burn_on_base M i a)"
  "keeps (directed d) (execute_cctp_burn_on_ethereum M i a b)"
  "keeps (directed d) (resume_bridging_submitting M i a fb p)"
  "keeps (directed d) (resume_bridging_submitting_ethereum M i a fb p)"
  unfolding resume_bridging_submitting_def resume_bridging_submitting_ethereum_def
  by (simp_all add: directed.begin_and_burn_keeps)

lemma alpaca_to_base_withdrawn_ends [ends_rules]:
  "ends (directed AlpacaToBase) (continue_alpaca_to_base_from_withdrawal_complete M i a h t) finished_state"
  "ends (directed AlpacaToBase) (continue_alpaca_to_base_from_conversion_complete M i a t) finished_state"
proof -
  show 1: "ends (directed AlpacaToBase) (continue_alpaca_to_base_from_withdrawal_complete M i a h t)
      finished_state" for h
    unfolding continue_alpaca_to_base_from_withdrawal_complete_def by (intro ends_rules keeps_rules)
  show "ends (directed AlpacaToBase) (continue_alpaca_to_base_from_conversion_complete M i a t)
      finished_state"
    unfolding continue_alpaca_to_base_from_conversion_complete_def
    by (intro ends_rules keeps_rules directed.initiate_alpaca_withdrawal_keeps 1) simp
qed

text \<open>A fresh transfer gets its direction from the command that opens it.\<close>

definition unopened :: "('f, 'w) transfer_state \<Rightarrow> bool" where
  "unopened st \<longleftrightarrow> rebalance st = Uninitialized"

lemma unopened_world: "keeps unopened (on_world m)"
  by (rule keeps_on_world) (simp add: unopened_def)

lemma unopened_send:
  assumes "\<And>now evs. usdc_initialize now c = Inr evs \<Longrightarrow>
    \<exists>s. usdc_replay Uninitialized evs = Live s \<and> rebalance_direction_of s = d"
  shows "ends unopened (cqrs_send M c) (directed d)"
proof (rule endsI)
  fix st x st' assume "unopened st" and "cqrs_send M c st = (Inr x, st')"
  with assms show "directed d st'"
    by (auto simp: unopened_def directed_def elim!: cqrs_send_ok)
qed

lemma keeps_ends: "keeps I m \<Longrightarrow> ends I m I"
  unfolding keeps_def ends_def by (erule triple_weaken) auto

lemma execute_alpaca_to_base_ends: "ends unopened (execute_alpaca_to_base M i a) finished_state"
proof -
  have "ends unopened (execute_usd_to_usdc_conversion M a) (directed AlpacaToBase)"
    unfolding execute_usd_to_usdc_conversion_def new_correlation_id_def
    by (intro ends_rules ends_first [OF unopened_send [where d = AlpacaToBase]] keeps_rules
        unopened_world keeps_ends) auto
  then show ?thesis
    unfolding execute_alpaca_to_base_def
    by (rule ends_first)
      (intro ends_rules keeps_rules directed.initiate_alpaca_withdrawal_keeps, simp)
qed

lemma directed_ends:
  "rebalance_direction_of s = d \<Longrightarrow> ends (directed d) m Q \<Longrightarrow> ends (\<lambda>st. rebalance st = Live s) m Q"
  unfolding ends_def by (erule triple_pre) (simp add: directed_def)

lemma drive_alpaca_to_base_ends:
  "ends (\<lambda>st. rebalance st = Live s) (drive_alpaca_to_base M i s) finished_state"
proof (cases "rebalance_direction_of s")
  case AlpacaToBase
  then show ?thesis
    by (cases s; simp only: rebalance_direction_of.simps; hypsubst; unfold drive_alpaca_to_base.simps)
      ((rule directed_ends [where d = AlpacaToBase], simp, (intro ends_rules keeps_rules; simp)) |
       (rule endsI, simp add: finished_state_def))+
next
  case BaseToAlpaca
  then show ?thesis
    by (cases s) (auto intro!: endsI simp: finished_state_def)
qed

section \<open>Base to Alpaca\<close>

lemma usdc_to_usd_conversion_ends:
  "ends (directed BaseToAlpaca) (execute_usdc_to_usd_conversion M a) finished_state"
  unfolding execute_usdc_to_usd_conversion_def place_and_confirm_conversion_def
    record_conversion_or_fail_def
  by (intro ends_rules ends_last keeps_rules; simp)

lemma converted_ends:
  "ends (directed BaseToAlpaca) (seqw (execute_usdc_to_usd_conversion M a) (\<lambda>_. retw ())) finished_state"
  by (rule ends_last) (rule usdc_to_usd_conversion_ends)

lemma finish_deposit_ends [ends_rules]:
  "ends (directed BaseToAlpaca) (finish_deposit M a h) finished_state"
  unfolding finish_deposit_def
  by (intro ends_seqw [OF _ ends_seqw] ends_last usdc_to_usd_conversion_ends keeps_rules) simp

lemma bridged_ends [ends_rules]:
  "ends (directed BaseToAlpaca) (continue_from_bridged_fresh M a) finished_state"
  "ends (directed BaseToAlpaca) (continue_from_bridged_resume M a h) finished_state"
  unfolding continue_from_bridged_fresh_def continue_from_bridged_resume_def send_alpaca_deposit_def
    send_or_adopt_alpaca_deposit_def
  by (intro ends_rules keeps_rules; simp)+

lemma mint_and_continue_ends [ends_rules]:
  "ends (directed BaseToAlpaca) (mint_and_continue M i response t) finished_state"
  unfolding mint_and_continue_def by (intro ends_rules keeps_rules)

lemma base_to_alpaca_tail_ends [ends_rules]:
  "ends (directed BaseToAlpaca) (continue_from_bridging M i a h t) finished_state"
  "ends (directed BaseToAlpaca) (continue_from_awaiting_attestation M i a h t t') finished_state"
  "ends (directed BaseToAlpaca) (continue_from_attested M i h att n message sb t) finished_state"
  "ends (directed BaseToAlpaca) (recover_from_bridging_failed M i h' t) finished_state"
  unfolding continue_from_bridging_def continue_from_awaiting_attestation_def
    continue_from_attested_def recover_from_bridging_failed_def
  by (intro ends_rules keeps_rules; simp)+

lemma withdrawn_ends [ends_rules]:
  "ends (directed BaseToAlpaca) (continue_from_withdrawal_complete M i a t) finished_state"
  unfolding continue_from_withdrawal_complete_def by (intro ends_rules keeps_rules)

lemma resume_converting_ends [ends_rules]:
  "ends (directed BaseToAlpaca) (resume_converting M i c) finished_state"
  unfolding resume_converting_def by (intro ends_rules keeps_rules; simp)

lemma execute_base_to_alpaca_ends: "ends unopened (execute_base_to_alpaca M i a) finished_state"
proof -
  have "ends unopened (withdraw_from_vault M a raw) (directed BaseToAlpaca)" for raw
    unfolding withdraw_from_vault_def issue_vault_withdrawal_def
    by (intro ends_rules ends_first [OF unopened_send [where d = BaseToAlpaca]] keeps_rules
        unopened_world keeps_ends directed.record_vault_withdrawal_keeps)
      (auto simp: begin_withdrawal_init_events_def)
  then show ?thesis
    unfolding execute_base_to_alpaca_def now_run_def
    by (rule ends_seqw [OF keeps_resultw ends_seqw [OF unopened_world ends_first]])
      (intro ends_rules keeps_rules)
qed

lemma drive_base_to_alpaca_ends:
  "ends (\<lambda>st. rebalance st = Live s) (drive_base_to_alpaca M i s) finished_state"
proof (cases "rebalance_direction_of s")
  case BaseToAlpaca
  then show ?thesis
    by (cases s; simp only: rebalance_direction_of.simps; hypsubst; unfold drive_base_to_alpaca.simps)
      ((rule directed_ends [where d = BaseToAlpaca], simp,
        (intro converted_ends ends_rules directed.vault_withdrawal_keeps keeps_rules; simp)) |
       (rule endsI, simp add: finished_state_def resultw_def))+
next
  case AlpacaToBase
  then show ?thesis
    by (cases s) (auto intro!: endsI simp: finished_state_def resultw_def seqw_def
        require_base_to_alpaca_def)
qed

text \<open>A load reads the aggregate.\<close>

definition loaded :: "'f usdc_rebalance option \<Rightarrow> ('f, 'w) transfer_state \<Rightarrow> bool" where
  "loaded x st \<longleftrightarrow> rebalance st = (case x of None \<Rightarrow> Uninitialized | Some s \<Rightarrow> Live s)"

lemma load_triple:
  assumes "keeps I (cqrs_load M)"
  shows "triple I (cqrs_load M) (\<lambda>x st. I st \<and> loaded x st) (\<lambda>_. I)"
proof (rule tripleI)
  fix st x st' assume I: "I st" and ok: "cqrs_load M st = (Inr x, st')"
  then have "loaded x st'"
    unfolding cqrs_load_def
    by (auto simp: loaded_def elim!: seqw_cases split: lifecycle.splits)
  with I ok keepsD [OF assms] show "I st' \<and> loaded x st'" by fastforce
next
  fix st e st' assume "I st" and "cqrs_load M st = (Inl e, st')"
  with keepsD [OF assms, of st] show "I st'" by simp
qed

lemma run_ends: "ends (\<lambda>_. True) (run_transfer M i d a) finished_state"
proof -
  have load: "triple (\<lambda>_. True) (cqrs_load M) (\<lambda>x st. True \<and> loaded x st) (\<lambda>_ _. True)"
    by (rule load_triple) (simp add: keepsI)
  have fresh: "(\<lambda>st. True \<and> loaded None st) = unopened"
    and live: "(\<lambda>st. True \<and> loaded (Some s) st) = (\<lambda>st. rebalance st = Live s)" for s
    by (simp_all add: loaded_def unopened_def fun_eq_iff)
  note parts = execute_alpaca_to_base_ends execute_base_to_alpaca_ends drive_alpaca_to_base_ends
    drive_base_to_alpaca_ends
  show ?thesis
  proof (cases d)
    case AlpacaToBase
    have "ends (\<lambda>st. True \<and> loaded x st) (case x of None \<Rightarrow> execute_alpaca_to_base M i a
        | Some s \<Rightarrow> drive_alpaca_to_base M i s) finished_state" for x
      by (cases x) (simp_all only: fresh live option.case parts)
    then show ?thesis
      unfolding AlpacaToBase run_transfer.simps resume_alpaca_to_base_def ends_def
      by (rule triple_seqw [OF load])
  next
    case BaseToAlpaca
    have "ends (\<lambda>st. True \<and> loaded x st) (case x of None \<Rightarrow> execute_base_to_alpaca M i a
        | Some s \<Rightarrow> drive_base_to_alpaca M i s) finished_state" for x
      by (cases x) (simp_all only: fresh live option.case parts)
    then show ?thesis
      unfolding BaseToAlpaca run_transfer.simps resume_base_to_alpaca_def ends_def
      by (rule triple_seqw [OF load])
  qed
qed

text \<open>
  C6. A run of the orchestrator that returns \<^verbatim>\<open>Ok\<close>, fresh or resumed from whatever state an
  earlier run left, has finished the transfer: the aggregate is a confirmed vault deposit from
  Alpaca to Base, a completed conversion from Base to Alpaca, or was reconciled by an operator.
\<close>

theorem run_ok_finishes:
  assumes "run_transfer M i d a st = (Inr (), st')"
  shows "\<exists>s. rebalance st' = Live s \<and> finished s"
  using endsD [OF run_ends _ assms] by (simp add: finished_state_def)

section \<open>A run\<close>

text \<open>
  Services in which every call succeeds. The world records the burns, vault withdrawals and
  deposit transfers that were made, each under the next free hash.
\<close>

record demo_world =
  burns :: "tx_hash list"
  withdrawals :: "tx_hash list"
  sends :: "tx_hash list"

definition next_hash :: "tx_hash list \<Rightarrow> tx_hash" where
  "next_hash hs = of_nat (length hs) + 1"

definition demo_response :: attestation_response where
  "demo_response = \<lparr>ar_as_bytes = [1], ar_nonce = 9, ar_message_bytes = [2]\<rparr>"

definition demo_bridge :: "demo_world bridge" where
  "demo_bridge = \<lparr>
     submit_burn = (\<lambda>d a r w. (BurnSubmitted (next_hash (burns w)), w\<lparr>burns := next_hash (burns w) # burns w\<rparr>)),
     confirm_burn = (\<lambda>d h a. retw \<lparr>burn_tx = h, burn_amount = a\<rparr>),
     burn_status = (\<lambda>d h. retw MinedSuccess),
     poll_attestation = (\<lambda>d h. retw demo_response),
     mint = (\<lambda>d r. retw \<lparr>mint_tx = 70, mint_amount = 5000000, mint_fee = 0\<rparr>),
     reconstruct_attestation = (\<lambda>m a. Inr demo_response),
     find_recent_burn = (\<lambda>d a r b. retw None),
     find_recent_mint = (\<lambda>d r b. retw None),
     destination_block = (\<lambda>d. retw 100),
     source_block = (\<lambda>d. retw 100),
     ethereum_tx_confirmations = (\<lambda>h. retw (Some 12)),
     ethereum_tx_block = (\<lambda>h. retw 100),
     ethereum_usdc_balance = (\<lambda>h. retw 5000000),
     send_usdc_on_ethereum = (\<lambda>r a w. (Inr (next_hash (sends w)), w\<lparr>sends := next_hash (sends w) # sends w\<rparr>)),
     find_recent_usdc_transfer = (\<lambda>r r' a b. (\<lambda>w. (Inr (case sends w of [] \<Rightarrow> None | h # _ \<Rightarrow> Some h), w)))\<rparr>"

definition demo_raindex :: "demo_world raindex_service" where
  "demo_raindex = \<lparr>
     current_block = retw 100,
     withdraw_usdc = (\<lambda>v a w. (Inr (next_hash (withdrawals w)),
       w\<lparr>withdrawals := next_hash (withdrawals w) # withdrawals w\<rparr>)),
     find_recent_withdrawal = (\<lambda>t v b w. (Inr (case withdrawals w of [] \<Rightarrow> None | h # _ \<Rightarrow> Some (h, 5000000)), w)),
     submit_deposit_usdc = (\<lambda>v a. retw 80),
     confirm_tx = (\<lambda>h. retw ())\<rparr>"

definition demo_wallet :: "(rat, demo_world) alpaca_wallet_service" where
  "demo_wallet = \<lparr>
     initiate_withdrawal = (\<lambda>a s r. retw \<lparr>at_id = 3, at_tx = None, at_status = TransferPending\<rparr>),
     poll_transfer_until_complete = (\<lambda>t. retw \<lparr>at_id = t, at_tx = Some 60, at_status = TransferComplete\<rparr>),
     get_wallet_address = (\<lambda>s n. retw 50),
     poll_deposit_by_tx_hash = (\<lambda>h. retw \<lparr>at_id = 4, at_tx = Some h, at_status = TransferComplete\<rparr>)\<rparr>"

definition demo_broker :: "(rat, demo_world) alpaca_broker_service" where
  "demo_broker = \<lparr>
     convert_usdc_usd = (\<lambda>a d c. retw \<lparr>co_id = 5, co_status = StatusFilled,
       co_filled_average_price = Some 1, co_filled_quantity = Some a\<rparr>),
     find_conversion_order = (\<lambda>c. retw None),
     poll_conversion_to_terminal = (\<lambda>u. failw (BrokerApiError [])) \<rparr>"

definition demo_text :: "rat transfer_text" where
  "demo_text = \<lparr>show_cctp = (\<lambda>_. []), show_wallet = (\<lambda>_. []), show_broker = (\<lambda>_. []),
     show_transfer_error = (\<lambda>_. []), show_usdc = (\<lambda>_. []), show_word256 = (\<lambda>_. []),
     show_client_order_id = (\<lambda>_. [])\<rparr>"

definition demo_cash :: "(rat, demo_world) cash_transfer" where
  "demo_cash = \<lparr>alpaca_broker = demo_broker, alpaca_wallet = demo_wallet, cctp_bridge = demo_bridge,
     raindex = demo_raindex,
     cqrs = \<lparr>store_commit = Pair Committed, store_load = retw ()\<rparr>,
     market_maker_wallet = 1, vault_id = 2, attestation_retry_deadline = 3600,
     required_confirmations = 3,
     rt = \<lparr>utc_now = Pair 1000, uuid_new_v4 = Pair 6, rt_sleep = (\<lambda>w. w),
       duration_from_std = Some, checked_add_signed = (\<lambda>t d. Some (t + int d))\<rparr>,
     txt_of = demo_text, fl = bounded_rat 1000, dbg = demo_debug\<rparr>"

definition demo_start :: "(rat, demo_world) transfer_state" where
  "demo_start = \<lparr>rebalance = Uninitialized, world = \<lparr>burns = [], withdrawals = [], sends = []\<rparr>\<rparr>"

lemmas demo_cash_defs = demo_cash_def demo_broker_def demo_wallet_def demo_bridge_def demo_raindex_def
  demo_text_def demo_response_def

lemma demo_cash_sel [simp]:
  "alpaca_broker demo_cash = demo_broker" "alpaca_wallet demo_cash = demo_wallet"
  "cctp_bridge demo_cash = demo_bridge" "raindex demo_cash = demo_raindex"
  "cqrs demo_cash = \<lparr>store_commit = Pair Committed, store_load = retw ()\<rparr>"
  "market_maker_wallet demo_cash = 1" "vault_id demo_cash = 2" "required_confirmations demo_cash = 3"
  "rt demo_cash = \<lparr>utc_now = Pair 1000, uuid_new_v4 = Pair 6, rt_sleep = (\<lambda>w. w),
    duration_from_std = Some, checked_add_signed = (\<lambda>t d. Some (t + int d))\<rparr>"
  "fl demo_cash = bounded_rat 1000" "dbg demo_cash = demo_debug"
  by (simp_all add: demo_cash_def)

lemma demo_amounts:
  "usdc_to_u256 demo_cash (Usdc 5) = Inr 5000000"
  "u256_to_usdc demo_cash 5000000 = Inr (Usdc 5)"
  "u256_to_usdc demo_cash 0 = Inr (Usdc 0)"
  by (simp_all add: usdc_to_u256_def u256_to_usdc_def to_u256_6_decimals_def bounded_rat_def in_bound_def frac_def)

lemma demo_cqrs_send:
  "cqrs_send demo_cash c st =
     (case handle usdc_initialize (usdc_transition (bounded_rat 1000) demo_debug) (rebalance st) 1000 c of
        Inl e \<Rightarrow> (Inl (AggregateError (UserError e)), st)
      | Inr evs \<Rightarrow> (Inr (), st\<lparr>rebalance := usdc_replay (rebalance st) evs\<rparr>))"
  by (simp add: cqrs_send_def Let_def split: sum.split)

lemma demo_burn_range: "burn_amount_out_of_range (bounded_rat 1000) (Usdc 5) (Usdc 5) = Inr False"
  "usdc_eq (bounded_rat 1000) (Usdc 5) (Usdc 5)" "usdc_mul (bounded_rat 1000) (Usdc 5) 1 = Inr (Usdc 5)"
  by (simp_all add: burn_amount_out_of_range_def usdc_eq_def usdc_mul_def bounded_rat_def usdc_ZERO_def in_bound_def)

lemmas demo_run_simps = demo_amounts demo_cqrs_send demo_burn_range demo_cash_sel seqw_def on_world_def infallible_def
  resultw_def map_errw_def now_run_def

lemma demo_base_to_alpaca:
  "execute_base_to_alpaca demo_cash i (Usdc 5) demo_start =
    (Inr (), \<lparr>rebalance = Live (ConversionComplete BaseToAlpaca (Usdc 5)
        \<lparr>source_amount = Usdc 5, received_amount = Usdc 5\<rparr> 1000 1000),
      world = \<lparr>burns = [1], withdrawals = [1], sends = [1]\<rparr>\<rparr>)"
  by (simp add: demo_run_simps execute_base_to_alpaca_def withdraw_from_vault_def
      issue_vault_withdrawal_def record_vault_withdrawal_def demo_start_def demo_raindex_def
      begin_withdrawal_init_events_def usdc_handlers next_hash_def
      execute_cctp_burn_on_base_def begin_and_burn_def burn_recording_pending_def submit_and_record_burn_def
      BURN_RECORD_ATTEMPTS_def eval_nat_numeral demo_bridge_def record_cctp_burn_def continue_from_bridging_def
      poll_cctp_attestation_def record_attestation_def mint_and_continue_def execute_cctp_mint_on_ethereum_def
      mint_and_confirm_def continue_from_bridged_fresh_def send_alpaca_deposit_def fetch_alpaca_deposit_address_def
      demo_wallet_def finish_deposit_def poll_alpaca_deposit_and_confirm_def execute_usdc_to_usd_conversion_def
      new_correlation_id_def place_and_confirm_conversion_def demo_broker_def record_conversion_or_fail_def
      conversion_amounts_from_order_def demo_response_def)

lemma demo_run:
  "run_transfer demo_cash i BaseToAlpaca (Usdc 5) demo_start =
    (Inr (), \<lparr>rebalance = Live (ConversionComplete BaseToAlpaca (Usdc 5)
        \<lparr>source_amount = Usdc 5, received_amount = Usdc 5\<rparr> 1000 1000),
      world = \<lparr>burns = [1], withdrawals = [1], sends = [1]\<rparr>\<rparr>)"
  using demo_base_to_alpaca
  by (simp add: resume_base_to_alpaca_def cqrs_load_def demo_start_def seqw_def map_errw_def on_world_def)

theorem run_ok_finishes_witness:
  "\<exists>s. rebalance (snd (run_transfer demo_cash (UsdcRebalanceId 1) BaseToAlpaca (Usdc 5) demo_start)) = Live s \<and>
    finished s"
  using run_ok_finishes [OF demo_run [of "UsdcRebalanceId 1"]] by (simp only: demo_run snd_conv)

end
