(* ===== verification/Cash_Safety.thy ===== *)
theory Cash_Safety
  imports Cash_Outcome
begin

text \<open>
  Across any number of redrives, whatever fails and whenever, a USDC transfer has at most one burn
  that can take effect.
\<close>

section \<open>The ledger of burns\<close>

text \<open>
  \<open>live w\<close> are the burns of this transfer that were broadcast and can still take effect or have
  taken it. What is relied on of the bridge: only a submission adds to them, and at most one; a
  submission that answers with a hash adds no other; one that reverts adds none; a burn whose
  confirmation reverts, or whose status is mined and reverted, is no longer live.
\<close>

definition submission_adds :: "burn_submission \<Rightarrow> tx_hash set \<Rightarrow> tx_hash set \<Rightarrow> bool" where
  "submission_adds r L L' \<longleftrightarrow> (case r of
     BurnSubmitted h \<Rightarrow> L' \<subseteq> insert h L
   | BurnSubmitError e \<Rightarrow> if cctp_is_revert e then L' \<subseteq> L else \<exists>h. L' \<subseteq> insert h L
   | BurnSubmitElapsed \<Rightarrow> \<exists>h. L' \<subseteq> insert h L
   | BurnTaskPanicked \<Rightarrow> \<exists>h. L' \<subseteq> insert h L)"

definition burn_laws :: "('f, 'w) cash_transfer \<Rightarrow> ('w \<Rightarrow> tx_hash set) \<Rightarrow> bool" where
  "burn_laws M live \<longleftrightarrow>
     (\<forall>L. calls_still {SubmitBurn} M (\<lambda>w. live w \<subseteq> L)) \<and>
     (\<forall>d a r w. submission_adds (fst (submit_burn (cctp_bridge M) d a r w)) (live w)
        (live (snd (submit_burn (cctp_bridge M) d a r w)))) \<and>
     (\<forall>d h a w e w'. confirm_burn (cctp_bridge M) d h a w = (Inl e, w') \<longrightarrow> cctp_is_revert e \<longrightarrow>
        h \<notin> live w') \<and>
     (\<forall>d h w w'. burn_status (cctp_bridge M) d h w = (Inr MinedReverted, w') \<longrightarrow> h \<notin> live w')"

text \<open>The states in which nothing was burned, and the burn a state has on record as pending.\<close>

fun pre_burn :: "'f usdc_rebalance \<Rightarrow> bool" where
  "pre_burn (Converting d _ _ _) \<longleftrightarrow> d = AlpacaToBase"
| "pre_burn (ConversionComplete d _ _ _ _) \<longleftrightarrow> d = AlpacaToBase"
| "pre_burn (WithdrawalSubmitting _ _ _ _) \<longleftrightarrow> True"
| "pre_burn (Withdrawing _ _ _ _) \<longleftrightarrow> True"
| "pre_burn (WithdrawalComplete _ _ _ _ _) \<longleftrightarrow> True"
| "pre_burn _ \<longleftrightarrow> False"

fun pending_burn :: "'f usdc_rebalance \<Rightarrow> tx_hash option" where
  "pending_burn (BridgingSubmitting _ _ _ _ _ pending_burn_tx) = pending_burn_tx"
| "pending_burn _ = None"

definition burn_inv :: "tx_hash set \<Rightarrow> 'f usdc_rebalance lifecycle \<Rightarrow> bool" where
  "burn_inv L l \<longleftrightarrow> (\<exists>h. L \<subseteq> {h}) \<and> (case l of
     Uninitialized \<Rightarrow> L = {}
   | Live s \<Rightarrow> (pre_burn s \<longrightarrow> L = {}) \<and> (\<forall>h. pending_burn s = Some h \<longrightarrow> L \<subseteq> {h})
   | FailedLifecycle \<Rightarrow> True)"

lemma burn_inv_empty: "burn_inv {} l"
  by (simp add: burn_inv_def split: lifecycle.split)

lemma burn_inv_down: "burn_inv L l \<Longrightarrow> L' \<subseteq> L \<Longrightarrow> burn_inv L' l"
  by (auto simp: burn_inv_def split: lifecycle.splits)

lemma ordinary_event:
  assumes "usdc_transition F D now s c = Inr [e]" and "ordinary c" and "rebalance_step F s e s'"
    and "burn_inv L (Live s)"
  shows "burn_inv L (Live s')"
  using assms(3,1,2,4)
  by (cases rule: rebalance_step.cases)
    (cases c; auto simp: burn_inv_def usdc_handlers begin_bridging_Inr simp del: transition_begin_bridging_def
      split: usdc_splits)+

lemma ordinary_unopened: "ordinary c \<Longrightarrow> usdc_initialize now c \<noteq> Inr evs"
  by (cases c) simp_all

lemma burn_inv_replay:
  assumes "handle usdc_initialize (usdc_transition F D) l now c = Inr evs" and "ordinary c"
    and "burn_inv L l"
  shows "burn_inv L (usdc_replay l evs)"
proof (cases l)
  case (Live s)
  from assms(1) [unfolded Live] show ?thesis
  proof (cases rule: handle_Live)
    case 1
    with assms(3) Live show ?thesis by simp
  next
    case (2 e s')
    with ordinary_event [OF 2(3) assms(2) 2(2)] assms(3) Live show ?thesis
      by (simp add: rebalance_step_evolve del: usdc_evolve.simps)
  qed
qed (use assms ordinary_unopened in auto)

section \<open>Calls that add nothing\<close>

lemma still_down:
  assumes "\<And>L. still (\<lambda>w. live w \<subseteq> L) f" and "\<And>L L'. Q L \<Longrightarrow> L' \<subseteq> L \<Longrightarrow> Q L'"
  shows "still (\<lambda>w. Q (live w)) f"
  using assms unfolding still_def by (metis subset_refl)

lemma calls_still_down:
  assumes "\<forall>L. calls_still X M (\<lambda>w. live w \<subseteq> L)" and down: "\<And>L L'. Q L \<Longrightarrow> L' \<subseteq> L \<Longrightarrow> Q L'"
  shows "calls_still X M (\<lambda>w. Q (live w))"
proof -
  have unslept: "live (rt_sleep (rt M) w) \<subseteq> live w" for w
    using assms(1) by (auto simp: calls_still_def services_still_def)
  show ?thesis
    unfolding calls_still_def bridge_still_def services_still_def
    by (intro conjI allI impI still_down [OF _ down] down [OF _ unslept])
      (use assms(1) in \<open>simp add: calls_still_def bridge_still_def services_still_def\<close>)+
qed

lemma send_adds_nothing:
  assumes "\<forall>L. calls_still X M (\<lambda>w. live w \<subseteq> L)"
  shows "live (world (snd (cqrs_send M c st))) \<subseteq> live (world st)"
proof -
  have "live (snd (utc_now (rt M) w)) \<subseteq> live w" "live (snd (store_commit (cqrs M) w)) \<subseteq> live w" for w
    using assms by (auto simp: calls_still_def services_still_def still_def)
  then show ?thesis
    by (cases rule: cqrs_send_cases [of M c st]) (auto; blast)+
qed

section \<open>Phases of a transfer\<close>

text \<open>Nothing is burned; at most one burn is live, and the state accounts for it.\<close>

definition unburned ::
  "('f, 'w) cash_transfer \<Rightarrow> ('w \<Rightarrow> tx_hash set) \<Rightarrow> ('f, 'w) transfer_state \<Rightarrow> bool" where
  "unburned M live st \<longleftrightarrow> (burn_laws M live \<longrightarrow> live (world st) = {})"

definition accounted ::
  "('f, 'w) cash_transfer \<Rightarrow> ('w \<Rightarrow> tx_hash set) \<Rightarrow> ('f, 'w) transfer_state \<Rightarrow> bool" where
  "accounted M live st \<longleftrightarrow> (burn_laws M live \<longrightarrow> burn_inv (live (world st)) (rebalance st))"

lemma unburned_accounted: "unburned M live st \<Longrightarrow> accounted M live st"
  by (simp add: unburned_def accounted_def burn_inv_empty)

lemma burn_laws_still: "burn_laws M live \<Longrightarrow> \<forall>L. calls_still {SubmitBurn} M (\<lambda>w. live w \<subseteq> L)"
  by (simp add: burn_laws_def)

lemma burn_calls_still:
  assumes "\<And>L L'. Q L \<Longrightarrow> L' \<subseteq> L \<Longrightarrow> Q L'"
  shows "calls_still {SubmitBurn} M (\<lambda>w. burn_laws M live \<longrightarrow> Q (live w))"
proof (cases "burn_laws M live")
  case True
  with calls_still_down [OF burn_laws_still [OF True], of Q] assms show ?thesis by simp
qed (simp add: calls_still_const)

interpretation unburned: kept_transfer M "unburned M live" "{SubmitBurn}" "\<lambda>_. True"
proof unfold_locales
  show "calls_still {SubmitBurn} M (\<lambda>w. unburned M live \<lparr>rebalance = l, world = w\<rparr>)" for l
    unfolding unburned_def by (simp, rule burn_calls_still) auto
  show "unburned M live (snd (cqrs_send M c st))" if "unburned M live st" for c st
    using that send_adds_nothing [OF burn_laws_still, of M live c st] by (auto simp: unburned_def)
qed simp

interpretation accounted: kept_transfer M "accounted M live" "{SubmitBurn}" ordinary
proof unfold_locales
  show "calls_still {SubmitBurn} M (\<lambda>w. accounted M live \<lparr>rebalance = l, world = w\<rparr>)" for l
    unfolding accounted_def by (simp, rule burn_calls_still) (rule burn_inv_down)
next
  fix c :: "'a usdc_rebalance_command" and st
  assume c: "ordinary c" and st: "accounted M live st"
  show "accounted M live (snd (cqrs_send M c st))"
    unfolding accounted_def
  proof
    assume laws: "burn_laws M live"
    with st have inv: "burn_inv (live (world st)) (rebalance st)" by (simp add: accounted_def)
    have "burn_inv (live (world st)) (rebalance (snd (cqrs_send M c st)))"
      using inv c by (cases rule: cqrs_send_cases [of M c st]) (auto dest: burn_inv_replay)
    then show "burn_inv (live (world (snd (cqrs_send M c st)))) (rebalance (snd (cqrs_send M c st)))"
      by (rule burn_inv_down) (rule send_adds_nothing [OF burn_laws_still [OF laws]])
  qed
qed

section \<open>The burn\<close>

text \<open>After a broadcast of \<open>h\<close>: the state is still submitting and has no other burn on record.\<close>

definition broadcast ::
  "('f, 'w) cash_transfer \<Rightarrow> ('w \<Rightarrow> tx_hash set) \<Rightarrow> tx_hash \<Rightarrow> ('f, 'w) transfer_state \<Rightarrow> bool" where
  "broadcast M live h st \<longleftrightarrow> (burn_laws M live \<longrightarrow> live (world st) \<subseteq> {h} \<and>
     (\<exists>d a fb t b p. rebalance st = Live (BridgingSubmitting d a fb t b p) \<and> (p = None \<or> p = Some h)))"

definition sole :: "('f, 'w) cash_transfer \<Rightarrow> ('w \<Rightarrow> tx_hash set) \<Rightarrow> tx_hash \<Rightarrow> ('f, 'w) transfer_state \<Rightarrow> bool" where
  "sole M live h st \<longleftrightarrow> accounted M live st \<and> (burn_laws M live \<longrightarrow> live (world st) \<subseteq> {h})"

lemma broadcast_sole: "broadcast M live h st \<Longrightarrow> sole M live h st"
  by (auto simp: broadcast_def sole_def accounted_def burn_inv_def)

lemma keeps_broadcast_send: "keeps (broadcast M live h) (cqrs_send M (RecordPendingBurn h))"
proof (rule keepsI)
  fix st assume st: "broadcast M live h st"
  show "broadcast M live h (snd (cqrs_send M (RecordPendingBurn h) st))"
    unfolding broadcast_def
  proof
    assume laws: "burn_laws M live"
    with st obtain d a fb t b p where s: "live (world st) \<subseteq> {h}"
        "rebalance st = Live (BridgingSubmitting d a fb t b p)" "p = None \<or> p = Some h"
      by (auto simp: broadcast_def)
    moreover from send_adds_nothing [OF burn_laws_still [OF laws]]
    have "live (world (snd (cqrs_send M (RecordPendingBurn h) st))) \<subseteq> live (world st)" .
    moreover have "\<exists>d a fb t b p. rebalance (snd (cqrs_send M (RecordPendingBurn h) st)) =
        Live (BridgingSubmitting d a fb t b p) \<and> (p = None \<or> p = Some h)"
      using s by (cases rule: cqrs_send_cases [of M "RecordPendingBurn h" st])
        (auto simp: transition_record_pending_burn_def)
    ultimately show "live (world (snd (cqrs_send M (RecordPendingBurn h) st))) \<subseteq> {h} \<and>
      (\<exists>d a fb t b p. rebalance (snd (cqrs_send M (RecordPendingBurn h) st)) =
        Live (BridgingSubmitting d a fb t b p) \<and> (p = None \<or> p = Some h))" by blast
  qed
qed

lemma keeps_broadcast_sleep:
  "keeps (broadcast M live h) (on_world (infallible (\<lambda>w. ((), rt_sleep (rt M) w))))"
proof (rule keeps_on_world)
  fix l w assume st: "broadcast M live h \<lparr>rebalance = l, world = w\<rparr>"
  have "burn_laws M live \<Longrightarrow> live (rt_sleep (rt M) w) \<subseteq> live w"
    by (auto simp: burn_laws_def calls_still_def services_still_def)
  with st show "broadcast M live h
      \<lparr>rebalance = l, world = snd (infallible (\<lambda>w. ((), rt_sleep (rt M) w)) w)\<rparr>"
    by (fastforce simp: broadcast_def infallible_def)
qed

lemma record_burn_attempts_keeps: "keeps (broadcast M live h) (record_burn_attempts M i h n)"
proof (induction n)
  case (Suc n)
  show ?case unfolding record_burn_attempts.simps
    by (intro keeps_rules keeps_broadcast_send keeps_broadcast_sleep Suc)
qed (unfold record_burn_attempts.simps, intro keeps_rules)

lemma record_burn_attempts_returns:
  "record_burn_attempts M i h n st = (Inr h', st') \<Longrightarrow> h' = h"
proof (induction n arbitrary: st)
  case (Suc n)
  from Suc.prems [unfolded record_burn_attempts.simps] Suc.IH show ?case
    by (auto elim!: seqw_cases split: sum.splits if_splits)
qed simp

text \<open>
  The pending burn is cleared before the broadcast: whatever becomes of it, the state does not name
  another burn.
\<close>

definition cleared :: "('f, 'w) cash_transfer \<Rightarrow> ('w \<Rightarrow> tx_hash set) \<Rightarrow> ('f, 'w) transfer_state \<Rightarrow> bool" where
  "cleared M live st \<longleftrightarrow> unburned M live st \<and>
     (\<exists>d a fb t b. rebalance st = Live (BridgingSubmitting d a fb t b None))"

lemma clear_triple:
  "triple (unburned M live) (cqrs_send M ClearPendingBurn) (\<lambda>_. cleared M live) (\<lambda>_. accounted M live)"
proof (rule tripleI)
  fix st x st' assume st: "unburned M live st" and ok: "cqrs_send M ClearPendingBurn st = (Inr x, st')"
  from keepsD [OF unburned.send_keeps st, of ClearPendingBurn] ok have "unburned M live st'" by simp
  moreover from ok have "\<exists>d a fb t b. rebalance st' = Live (BridgingSubmitting d a fb t b None)"
  proof (rule cqrs_send_ok)
    fix evs now
    assume st': "rebalance st' = usdc_replay (rebalance st) evs"
      and ok: "handle usdc_initialize (usdc_transition (fl M) (dbg M)) (rebalance st) now ClearPendingBurn
        = Inr evs"
    then obtain s where s: "rebalance st = Live s" by (cases "rebalance st") auto
    with st' ok show ?thesis
      by (cases s) (auto simp: transition_clear_pending_burn_def split: option.splits)
  qed
  ultimately show "cleared M live st'" by (simp add: cleared_def)
next
  fix st e st' assume "unburned M live st" and "cqrs_send M ClearPendingBurn st = (Inl e, st')"
  with keepsD [OF unburned.send_keeps [where c = ClearPendingBurn and M = M and live = live], of st]
  show "accounted M live st'" by (auto intro: unburned_accounted)
qed

lemma submit_triple:
  "triple (cleared M live) (on_world (infallible (submit_burn (cctp_bridge M) d a r)))
     (\<lambda>sub st. case sub of BurnSubmitted h \<Rightarrow> broadcast M live h st | _ \<Rightarrow> accounted M live st)
     (\<lambda>_. accounted M live)"
proof (rule tripleI)
  fix st sub st'
  assume st: "cleared M live st"
    and ok: "on_world (infallible (submit_burn (cctp_bridge M) d a r)) st = (Inr sub, st')"
  then have st': "st' = st\<lparr>world := snd (submit_burn (cctp_bridge M) d a r (world st))\<rparr>"
    and sub: "sub = fst (submit_burn (cctp_bridge M) d a r (world st))"
    by (auto simp: on_world_def infallible_def split: prod.splits)
  have "submission_adds sub (live (world st)) (live (world st'))" if "burn_laws M live"
    using that st' sub by (simp add: burn_laws_def)
  with st st' show "case sub of BurnSubmitted h \<Rightarrow> broadcast M live h st' | _ \<Rightarrow> accounted M live st'"
    by (cases sub) (auto simp: submission_adds_def cleared_def unburned_def broadcast_def accounted_def
        burn_inv_def split: if_splits)
qed (auto simp: on_world_def infallible_def split: prod.splits)

lemma submit_and_record_triple:
  "triple (unburned M live) (submit_and_record_burn M i d a r) (sole M live) (\<lambda>_. accounted M live)"
  unfolding submit_and_record_burn_def
proof (rule triple_seqw [OF clear_triple], rule triple_seqw [OF submit_triple])
  show "triple (\<lambda>st. case sub of BurnSubmitted h \<Rightarrow> broadcast M live h st | _ \<Rightarrow> accounted M live st)
    (case sub of BurnSubmitted h \<Rightarrow> record_burn_attempts M i h BURN_RECORD_ATTEMPTS
     | BurnSubmitError e \<Rightarrow> if cctp_is_revert e then failw (BurnRevert e) else failw (BurnSubmitInconclusive i)
     | BurnSubmitElapsed \<Rightarrow> failw (BurnSubmitInconclusive i)
     | BurnTaskPanicked \<Rightarrow> failw (BurnRecordTaskFailed i)) (sole M live) (\<lambda>_. accounted M live)" for sub
  proof (cases sub)
    case (BurnSubmitted h)
    have "triple (broadcast M live h) (record_burn_attempts M i h BURN_RECORD_ATTEMPTS) (sole M live)
        (\<lambda>_. accounted M live)"
    proof (rule tripleI)
      fix st h' st'
      assume st: "broadcast M live h st" and ok: "record_burn_attempts M i h BURN_RECORD_ATTEMPTS st = (Inr h', st')"
      with record_burn_attempts_returns [OF ok] keepsD [OF record_burn_attempts_keeps st, of i]
      show "sole M live h' st'" by (metis broadcast_sole snd_conv)
    next
      fix st e st'
      assume st: "broadcast M live h st" and err: "record_burn_attempts M i h BURN_RECORD_ATTEMPTS st = (Inl e, st')"
      with keepsD [OF record_burn_attempts_keeps st, of i] show "accounted M live st'"
        by (metis broadcast_sole sole_def snd_conv)
    qed
    with BurnSubmitted show ?thesis by simp
  qed auto
qed

text \<open>A reverted confirmation leaves nothing live.\<close>

lemma confirm_triple:
  "triple (sole M live h) (on_world (confirm_burn (cctp_bridge M) d h a)) (\<lambda>_. accounted M live)
     (\<lambda>e st. accounted M live st \<and> (cctp_is_revert e \<longrightarrow> unburned M live st))"
proof (rule tripleI)
  fix st x st' assume "sole M live h st" "on_world (confirm_burn (cctp_bridge M) d h a) st = (Inr x, st')"
  with keepsD [OF accounted.bridge_keeps(3), of M live st d h a] show "accounted M live st'"
    by (simp add: sole_def)
next
  fix st e st'
  assume st: "sole M live h st" and err: "on_world (confirm_burn (cctp_bridge M) d h a) st = (Inl e, st')"
  have "accounted M live st'"
    using keepsD [OF accounted.bridge_keeps(3), of M live st d h a] st err by (simp add: sole_def)
  moreover have "unburned M live st'" if revert: "cctp_is_revert e"
    unfolding unburned_def
  proof
    assume laws: "burn_laws M live"
    from err have c: "confirm_burn (cctp_bridge M) d h a (world st) = (Inl e, world st')"
      by (auto simp: on_world_def split: prod.splits)
    with laws revert have "h \<notin> live (world st')" by (auto simp: burn_laws_def)
    moreover from laws c have "live (world st') \<subseteq> live (world st)"
      by (simp add: burn_laws_def calls_still_def bridge_still_def still_def) (metis snd_conv subset_refl)
    ultimately show "live (world st') = {}" using st laws by (auto simp: sole_def)
  qed
  ultimately show "accounted M live st' \<and> (cctp_is_revert e \<longrightarrow> unburned M live st')" by blast
qed

lemma burn_triple:
  "triple (unburned M live) (burn_recording_pending M i d a r) (\<lambda>_. accounted M live) (\<lambda>_. accounted M live)"
proof -
  have retry: "triple (sole M live h) (seqw (outcomew (on_world (confirm_burn (cctp_bridge M) d h a))) (\<lambda>x. case x of
        Inr receipt \<Rightarrow> retw receipt
      | Inl error \<Rightarrow> if cctp_is_revert error then failw (BurnRevert error) else failw (Cctp error)))
      (\<lambda>_. accounted M live) (\<lambda>_. accounted M live)" for h
    by (rule triple_match [OF confirm_triple]) (auto intro: unburned_accounted)
  show ?thesis
    unfolding burn_recording_pending_def
  proof (rule triple_seqw [OF submit_and_record_triple], rule triple_match [OF confirm_triple], goal_cases)
    case (2 h e)
    show ?case
    proof (cases "cctp_is_revert e")
      case True
      have "triple (unburned M live) (seqw (submit_and_record_burn M i d a r) (\<lambda>h.
          seqw (outcomew (on_world (confirm_burn (cctp_bridge M) d h a))) (\<lambda>x. case x of
            Inr receipt \<Rightarrow> retw receipt
          | Inl error \<Rightarrow> if cctp_is_revert error then failw (BurnRevert error) else failw (Cctp error))))
          (\<lambda>_. accounted M live) (\<lambda>_. accounted M live)"
        by (rule triple_seqw [OF submit_and_record_triple retry])
      then show ?thesis using True by (auto elim: triple_pre)
    qed auto
  qed simp
qed

text \<open>From a state with nothing burned, and through the burn.\<close>

abbreviation burn_safe :: "('f, 'w) cash_transfer \<Rightarrow> ('w \<Rightarrow> tx_hash set) \<Rightarrow> ('f, 'w, 'a) run \<Rightarrow> bool" where
  "burn_safe M live \<equiv> advances (unburned M live) (accounted M live)"

lemma burn_safe_seqw:
  "keeps (unburned M live) m \<Longrightarrow> (\<And>x. burn_safe M live (k x)) \<Longrightarrow> burn_safe M live (seqw m k)"
  by (rule advances_seqw) (auto intro: unburned_accounted)

lemma burn_safe_failw: "burn_safe M live (failw e)"
  by (rule advances_failw) (rule unburned_accounted)

lemmas burn_safe_first = advances_first [of "unburned M live" "accounted M live" for M live]

lemmas burn_safe_rules = burn_safe_seqw burn_safe_failw advances_case_ref

lemma burn_safe_burn: "burn_safe M live (burn_recording_pending M i d a r)"
  unfolding advances_def by (rule burn_triple)

lemma burn_safe_execute:
  "burn_safe M live (execute_cctp_burn_on_base M i a)"
  "burn_safe M live (execute_cctp_burn_on_ethereum M i a b)"
proof -
  have "burn_safe M live (begin_and_burn M i d a fb)" for d fb
    unfolding begin_and_burn_def
    by (intro burn_safe_first [OF burn_safe_burn] burn_safe_seqw keeps_rules) simp_all
  then show "burn_safe M live (execute_cctp_burn_on_base M i a)"
    "burn_safe M live (execute_cctp_burn_on_ethereum M i a b)"
    unfolding execute_cctp_burn_on_base_def execute_cctp_burn_on_ethereum_def
    by (intro burn_safe_seqw keeps_rules; simp)+
qed

lemma check_pending_triple:
  "triple (\<lambda>st. accounted M live st \<and> (\<forall>h. p = Some h \<longrightarrow> sole M live h st)) (check_pending_burn M i d a p)
     (\<lambda>x st. accounted M live st \<and> (x = None \<and> p \<noteq> None \<longrightarrow> unburned M live st)) (\<lambda>_. accounted M live)"
proof (cases p)
  case (Some h)
  have status: "triple (sole M live h) (on_world (burn_status (cctp_bridge M) d h))
      (\<lambda>x st. sole M live h st \<and> (x = MinedReverted \<longrightarrow> unburned M live st)) (\<lambda>_. accounted M live)"
  proof (rule tripleI)
    fix st x st' assume st: "sole M live h st" and ok: "on_world (burn_status (cctp_bridge M) d h) st = (Inr x, st')"
    from ok have c: "burn_status (cctp_bridge M) d h (world st) = (Inr x, world st')"
      by (auto simp: on_world_def split: prod.splits)
    then have "live (world st') \<subseteq> live (world st)" if "burn_laws M live"
      using that by (simp add: burn_laws_def calls_still_def bridge_still_def still_def)
        (metis snd_conv subset_refl)
    moreover have "h \<notin> live (world st')" if "burn_laws M live" "x = MinedReverted"
      using that c by (auto simp: burn_laws_def)
    moreover have "accounted M live st'"
      using keepsD [OF accounted.bridge_keeps(4), of M live st d h] st ok by (simp add: sole_def)
    ultimately show "sole M live h st' \<and> (x = MinedReverted \<longrightarrow> unburned M live st')"
      using st by (auto simp: sole_def unburned_def)
  next
    fix st e st' assume "sole M live h st" "on_world (burn_status (cctp_bridge M) d h) st = (Inl e, st')"
    with keepsD [OF accounted.bridge_keeps(4), of M live st d h] show "accounted M live st'"
      by (simp add: sole_def)
  qed
  have adopt: "triple (sole M live h) (seqw (map_errw Cctp (on_world (confirm_burn (cctp_bridge M) d h a)))
      (\<lambda>receipt. retw (Some receipt)))
      (\<lambda>x st. accounted M live st \<and> (x = None \<longrightarrow> unburned M live st)) (\<lambda>_. accounted M live)"
  proof (rule triple_seqw [OF triple_map_err])
    show "triple (sole M live h) (on_world (confirm_burn (cctp_bridge M) d h a)) (\<lambda>_. accounted M live)
        (\<lambda>_. accounted M live)"
      by (rule triple_weaken [OF confirm_triple]) auto
  qed simp
  have "triple (sole M live h) (check_pending_burn M i d a p)
      (\<lambda>x st. accounted M live st \<and> (x = None \<longrightarrow> unburned M live st)) (\<lambda>_. accounted M live)"
    unfolding check_pending_burn_def Some option.case
  proof (rule triple_seqw [OF triple_map_err [OF status]])
    fix x
    show "triple (\<lambda>st. sole M live h st \<and> (x = MinedReverted \<longrightarrow> unburned M live st))
        (case x of MinedSuccess \<Rightarrow> seqw (map_errw Cctp (on_world (confirm_burn (cctp_bridge M) d h a)))
            (\<lambda>receipt. retw (Some receipt))
          | MinedReverted \<Rightarrow> retw None
          | BurnPending \<Rightarrow> failw (SettlementCheckTransient i (BurnTxPending h))
          | BurnDropped \<Rightarrow> failw (BurnTxDropped i h))
        (\<lambda>x st. accounted M live st \<and> (x = None \<longrightarrow> unburned M live st)) (\<lambda>_. accounted M live)"
      using adopt by (cases x) (auto simp: sole_def elim: triple_pre)
  qed
  then show ?thesis by (rule triple_weaken) (use Some in auto)
qed (simp add: check_pending_burn_def)

lemma resume_burn_triple:
  "triple (\<lambda>st. accounted M live st \<and> (\<forall>h. p = Some h \<longrightarrow> sole M live h st)) (resume_burn M i d a fb p)
     (\<lambda>_. accounted M live) (\<lambda>_. accounted M live)"
  unfolding resume_burn_def
proof (rule triple_seqw [OF check_pending_triple])
  fix x
  let ?scan = "find_recent_burn (cctp_bridge M) d a (market_maker_wallet M) fb"
  let ?k = "\<lambda>r. case r of
      Inr (Some existing_tx) \<Rightarrow> record_cctp_burn M \<lparr>burn_tx = existing_tx, burn_amount = a\<rparr>
    | Inr None \<Rightarrow> if p \<noteq> None
        then seqw (burn_recording_pending M i d a (market_maker_wallet M)) (record_cctp_burn M)
        else failw (BurnSubmitInconclusive i)
    | Inl (CctpScanInconclusive block) \<Rightarrow> failw (SettlementCheckTransient i (CctpScanInconclusive block))
    | Inl error \<Rightarrow> failw (Cctp error)"
  have reburn: "triple (unburned M live) (seqw (burn_recording_pending M i d a (market_maker_wallet M))
      (record_cctp_burn M)) (\<lambda>_. accounted M live) (\<lambda>_. accounted M live)"
    by (rule burn_safe_first [OF burn_safe_burn, unfolded advances_def]) (intro keeps_rules)
  have scanned: "triple (accounted M live) (?k r) (\<lambda>_. accounted M live) (\<lambda>_. accounted M live)"
    if "p = None \<or> r \<noteq> Inr None" for r
    using that accounted.record_cctp_burn_keeps [unfolded keeps_def]
    by (auto split: sum.split option.split cctp_error.split)
  show "triple (\<lambda>st. accounted M live st \<and> (x = None \<and> p \<noteq> None \<longrightarrow> unburned M live st))
    (case x of None \<Rightarrow> seqw (outcomew (on_world ?scan)) ?k | Some receipt \<Rightarrow> record_cctp_burn M receipt)
    (\<lambda>_. accounted M live) (\<lambda>_. accounted M live)"
  proof (cases x)
    case None
    have keep: "keeps (\<lambda>st. accounted M live st \<and> (p \<noteq> None \<longrightarrow> unburned M live st)) (on_world ?scan)"
      using keepsD [OF accounted.bridge_keeps(7)] keepsD [OF unburned.bridge_keeps(7)]
      by (intro keepsI) blast
    have "triple (\<lambda>st. accounted M live st \<and> (p \<noteq> None \<longrightarrow> unburned M live st)) (?k r)
        (\<lambda>_. accounted M live) (\<lambda>_. accounted M live)" for r
    proof (cases "p = None \<or> r \<noteq> Inr None")
      case True
      then show ?thesis by (rule triple_pre [OF scanned]) simp
    next
      case False
      then show ?thesis by (auto intro: triple_pre [OF reburn])
    qed
    with keep None show ?thesis
      by (simp only: option.case simp_thms) (rule triple_match [OF keep [unfolded keeps_def]])
  next
    case (Some receipt)
    then show ?thesis
      using accounted.record_cctp_burn_keeps [unfolded keeps_def] by (auto elim: triple_pre)
  qed
qed

section \<open>Whole runs\<close>

lemma burn_safe_alpaca_to_base:
  "burn_safe M live (continue_alpaca_to_base_from_withdrawal_complete M i a h t)"
  "burn_safe M live (continue_alpaca_to_base_from_conversion_complete M i a t)"
  "burn_safe M live (execute_alpaca_to_base M i a)"
proof -
  show 1: "burn_safe M live (continue_alpaca_to_base_from_withdrawal_complete M i a h t)" for a h t
    unfolding continue_alpaca_to_base_from_withdrawal_complete_def
    by (intro burn_safe_first [OF burn_safe_execute(2)] burn_safe_seqw keeps_rules)
  show "burn_safe M live (continue_alpaca_to_base_from_conversion_complete M i a t)"
    unfolding continue_alpaca_to_base_from_conversion_complete_def
    by (intro burn_safe_seqw 1 keeps_rules unburned.initiate_alpaca_withdrawal_keeps) simp_all
  show "burn_safe M live (execute_alpaca_to_base M i a)"
    unfolding execute_alpaca_to_base_def
    by (intro burn_safe_seqw 1 keeps_rules unburned.initiate_alpaca_withdrawal_keeps) simp_all
qed

lemma burn_safe_base_to_alpaca:
  "burn_safe M live (continue_from_withdrawal_complete M i a t)"
  "burn_safe M live (execute_base_to_alpaca M i a)"
  unfolding continue_from_withdrawal_complete_def execute_base_to_alpaca_def
  by (intro burn_safe_first [OF burn_safe_execute(1)] burn_safe_seqw keeps_rules
      unburned.vault_withdrawal_keeps accounted.base_to_alpaca_tail_keeps; simp)+

definition safe_from :: "('f, 'w) cash_transfer \<Rightarrow> ('w \<Rightarrow> tx_hash set) \<Rightarrow> 'f usdc_rebalance option \<Rightarrow>
  ('f, 'w, 'a) run \<Rightarrow> bool" where
  "safe_from M live x m \<longleftrightarrow> triple (\<lambda>st. accounted M live st \<and> loaded x st) m (\<lambda>_. accounted M live)
     (\<lambda>_. accounted M live)"

lemma safe_from_pre_burn:
  assumes "burn_safe M live m" and "case x of None \<Rightarrow> True | Some s \<Rightarrow> pre_burn s"
  shows "safe_from M live x m"
  using assms unfolding advances_def safe_from_def
  by (elim triple_pre) (auto simp: accounted_def unburned_def burn_inv_def loaded_def split: option.splits)

lemma safe_from_keeps: "keeps (accounted M live) m \<Longrightarrow> safe_from M live x m"
  unfolding keeps_def safe_from_def by (elim triple_pre) simp

lemma safe_from_submitting:
  assumes "\<And>receipt. keeps (accounted M live) (k receipt)"
  shows "safe_from M live (Some (BridgingSubmitting d0 a0 fb t b p))
    (seqw (resume_burn M i d a fb p) k)"
  unfolding safe_from_def
  by (rule triple_seqw [OF triple_pre [OF resume_burn_triple]])
    (use assms in \<open>auto simp: keeps_def accounted_def sole_def burn_inv_def loaded_def\<close>)

lemma safe_from_resultw: "(\<And>x. safe_from M live s (k x)) \<Longrightarrow> safe_from M live s (seqw (resultw r) k)"
  unfolding safe_from_def
  by (rule triple_seqw [where R = "\<lambda>_ st. accounted M live st \<and> loaded s st"]) (auto simp: triple_def resultw_def split: sum.split)

lemma safe_from_case_option:
  "safe_from M live s m \<Longrightarrow> (\<And>x. safe_from M live s (k x)) \<Longrightarrow>
   safe_from M live s (case v of None \<Rightarrow> m | Some x \<Rightarrow> k x)"
  by (simp split: option.split)

lemma drive_alpaca_to_base_safe: "safe_from M live (Some s) (drive_alpaca_to_base M i s)"
proof (cases "\<exists>d a fb t b p. s = BridgingSubmitting d a fb t b p")
  case True
  then obtain d a fb t b p where s: "s = BridgingSubmitting d a fb t b p" by blast
  show ?thesis
  proof (cases d)
    case AlpacaToBase
    show ?thesis
      unfolding s AlpacaToBase drive_alpaca_to_base.simps resume_bridging_submitting_ethereum_def
      by (intro safe_from_resultw safe_from_submitting keeps_rules)
  next
    case BaseToAlpaca
    then show ?thesis unfolding s by (simp only: drive_alpaca_to_base.simps) (intro safe_from_keeps keeps_rules)
  qed
next
  case False
  then show ?thesis
    by (cases s; cases "rebalance_direction_of s"; simp only: rebalance_direction_of.simps simp_thms;
        (hypsubst | simp only: usdc_rebalance.inject)?; unfold drive_alpaca_to_base.simps)
      ((rule safe_from_keeps, (intro keeps_rules; (simp; fail))) |
       (rule safe_from_pre_burn, (intro burn_safe_alpaca_to_base burn_safe_rules keeps_rules; (simp; fail))) |
       (simp; fail))+
qed

lemma drive_base_to_alpaca_safe: "safe_from M live (Some s) (drive_base_to_alpaca M i s)"
proof (cases "\<exists>d a fb t b p. s = BridgingSubmitting d a fb t b p")
  case True
  then obtain d a fb t b p where s: "s = BridgingSubmitting d a fb t b p" by blast
  show ?thesis
    unfolding s drive_base_to_alpaca.simps resume_bridging_submitting_def
    by (intro safe_from_resultw safe_from_submitting accounted.base_to_alpaca_tail_keeps) simp
next
  case False
  then show ?thesis
    by (cases s; cases "rebalance_direction_of s"; simp only: rebalance_direction_of.simps simp_thms;
        (hypsubst | simp only: usdc_rebalance.inject)?; unfold drive_base_to_alpaca.simps)
      ((rule safe_from_keeps, (intro keeps_rules accounted.base_to_alpaca_tail_keeps
          accounted.bridged_keeps; (simp; fail))) |
       (rule safe_from_pre_burn, (intro burn_safe_base_to_alpaca burn_safe_seqw keeps_rules
          unburned.vault_withdrawal_keeps; (simp; fail))) |
       (simp; fail))+
qed

lemma run_accounted: "keeps (accounted M live) (run_transfer M i d a)"
proof -
  note load = load_triple [OF accounted.load_keeps]
  have "safe_from M live x (case x of None \<Rightarrow> execute_alpaca_to_base M i a
      | Some s \<Rightarrow> drive_alpaca_to_base M i s)" for x
    by (cases x) (simp_all add: safe_from_pre_burn burn_safe_alpaca_to_base drive_alpaca_to_base_safe)
  then have 1: "keeps (accounted M live) (resume_alpaca_to_base M i a)"
    unfolding resume_alpaca_to_base_def keeps_def safe_from_def by (rule triple_seqw [OF load])
  have "safe_from M live x (case x of None \<Rightarrow> execute_base_to_alpaca M i a
      | Some s \<Rightarrow> drive_base_to_alpaca M i s)" for x
    by (cases x) (simp_all add: safe_from_pre_burn burn_safe_base_to_alpaca drive_base_to_alpaca_safe)
  then have 2: "keeps (accounted M live) (resume_base_to_alpaca M i a)"
    unfolding resume_base_to_alpaca_def keeps_def safe_from_def by (rule triple_seqw [OF load])
  from 1 2 show ?thesis by (cases d) simp_all
qed

lemma redrives_keep:
  assumes "\<And>d a. keeps I (run_transfer M i d a)"
  shows "I st \<Longrightarrow> I (redrives M i runs st)"
  by (induction runs arbitrary: st) (auto simp: redrives_def keepsD [OF assms])

text \<open>
  C3. A USDC transfer burns at most once. Start from a transfer that was never opened and burned
  nothing, and run it any number of times in either direction, with calls, commits and loads
  failing at any point (also after they took effect): at most one broadcast burn can take effect.
  Of the bridge this needs only \<open>burn_laws\<close>.
\<close>

theorem burned_at_most_once:
  assumes "burn_laws M live" and "rebalance st = Uninitialized" and "live (world st) = {}"
  shows "\<exists>h. live (world (redrives M i runs st)) \<subseteq> {h}"
proof -
  have "accounted M live st" using assms by (simp add: accounted_def burn_inv_empty)
  with redrives_keep [OF run_accounted] have "accounted M live (redrives M i runs st)" by blast
  with assms(1) show ?thesis by (simp add: accounted_def burn_inv_def)
qed

lemma demo_still:
  "calls_still {SubmitBurn} demo_cash (\<lambda>w. set (burns w) \<subseteq> L)"
  "calls_still {WithdrawUsdc} demo_cash (\<lambda>w. set (withdrawals w) \<subseteq> L)"
  "calls_still {SendUsdc} demo_cash (\<lambda>w. set (sends w) \<subseteq> L)"
  by (simp_all add: calls_still_def bridge_still_def services_still_def still_def demo_bridge_def
      demo_raindex_def demo_wallet_def demo_broker_def)

lemma demo_burn_laws: "burn_laws demo_cash (\<lambda>w. set (burns w))"
  by (simp add: burn_laws_def demo_still) (auto simp: demo_bridge_def submission_adds_def)

theorem burned_at_most_once_witness:
  "\<exists>h. set (burns (world (redrives demo_cash (UsdcRebalanceId 1)
      [(BaseToAlpaca, Usdc 5), (BaseToAlpaca, Usdc 5)] demo_start))) \<subseteq> {h}"
  by (rule burned_at_most_once [OF demo_burn_laws]) (simp_all add: demo_start_def)

end
