(* ===== verification/Cash_Ledgers.thy ===== *)
theory Cash_Ledgers
  imports Cash_Safety
begin

text \<open>
  The withdrawal from the vault that a USDC transfer from Base to Alpaca starts with is made at most
  once across redrives.
\<close>

section \<open>The ledger of vault withdrawals\<close>

text \<open>
  \<open>drawn w\<close> are the withdrawals from the vault made for this transfer. Relied on: only
  \<^verbatim>\<open>withdraw_usdc\<close> adds to them, at most one a call, and the finality-gated scan of a resume
  answers \<^verbatim>\<open>None\<close> only when there is none.
\<close>

definition withdrawal_laws :: "('f, 'w) cash_transfer \<Rightarrow> ('w \<Rightarrow> tx_hash set) \<Rightarrow> bool" where
  "withdrawal_laws M drawn \<longleftrightarrow>
     (\<forall>L. calls_still {WithdrawUsdc} M (\<lambda>w. drawn w \<subseteq> L)) \<and>
     (\<forall>v a w. \<exists>h. drawn (snd (withdraw_usdc (raindex M) v a w)) \<subseteq> insert h (drawn w)) \<and>
     (\<forall>t v b w w'. find_recent_withdrawal (raindex M) t v b w = (Inr None, w') \<longrightarrow> drawn w' = {})"

definition drawn_once ::
  "('f, 'w) cash_transfer \<Rightarrow> ('w \<Rightarrow> tx_hash set) \<Rightarrow> ('f, 'w) transfer_state \<Rightarrow> bool" where
  "drawn_once M drawn st \<longleftrightarrow> (withdrawal_laws M drawn \<longrightarrow>
     (\<exists>h. drawn (world st) \<subseteq> {h}) \<and> (rebalance st = Uninitialized \<longrightarrow> drawn (world st) = {}))"

definition undrawn ::
  "('f, 'w) cash_transfer \<Rightarrow> ('w \<Rightarrow> tx_hash set) \<Rightarrow> ('f, 'w) transfer_state \<Rightarrow> bool" where
  "undrawn M drawn st \<longleftrightarrow> (withdrawal_laws M drawn \<longrightarrow> drawn (world st) = {})"

lemma withdrawal_laws_still:
  "withdrawal_laws M drawn \<Longrightarrow> \<forall>L. calls_still {WithdrawUsdc} M (\<lambda>w. drawn w \<subseteq> L)"
  by (simp add: withdrawal_laws_def)

lemma withdrawal_calls_still:
  assumes "\<And>L L'. Q L \<Longrightarrow> L' \<subseteq> L \<Longrightarrow> Q L'"
  shows "calls_still {WithdrawUsdc} M (\<lambda>w. withdrawal_laws M drawn \<longrightarrow> Q (drawn w))"
proof (cases "withdrawal_laws M drawn")
  case True
  with calls_still_down [OF withdrawal_laws_still [OF True], of Q] assms show ?thesis by simp
qed (simp add: calls_still_const)

lemma send_opened:
  "rebalance (snd (cqrs_send M c st)) = Uninitialized \<Longrightarrow> rebalance st = Uninitialized"
  by (cases rule: cqrs_send_cases [of M c st])
    (cases "rebalance st"; auto simp: replay_Live_not_Uninitialized)+

interpretation drawn_once: kept_transfer M "drawn_once M drawn" "{WithdrawUsdc}" "\<lambda>_. True"
proof unfold_locales
  show "calls_still {WithdrawUsdc} M (\<lambda>w. drawn_once M drawn \<lparr>rebalance = l, world = w\<rparr>)" for l
    unfolding drawn_once_def by (simp, rule withdrawal_calls_still) auto
  show "drawn_once M drawn (snd (cqrs_send M c st))" if "drawn_once M drawn st" for c st
    using that send_adds_nothing [OF withdrawal_laws_still, of M drawn c st] send_opened [of M c st]
    unfolding drawn_once_def by blast
qed simp

lemma undrawn_drawn_once: "undrawn M drawn st \<Longrightarrow> drawn_once M drawn st"
  by (simp add: undrawn_def drawn_once_def)

interpretation undrawn: kept_transfer M "undrawn M drawn" "{WithdrawUsdc}" "\<lambda>_. True"
proof unfold_locales
  show "calls_still {WithdrawUsdc} M (\<lambda>w. undrawn M drawn \<lparr>rebalance = l, world = w\<rparr>)" for l
    unfolding undrawn_def by (simp, rule withdrawal_calls_still) auto
  show "undrawn M drawn (snd (cqrs_send M c st))" if "undrawn M drawn st" for c st
    using that send_adds_nothing [OF withdrawal_laws_still, of M drawn c st]
    unfolding undrawn_def by blast
qed simp

definition drawn_open ::
  "('f, 'w) cash_transfer \<Rightarrow> ('w \<Rightarrow> tx_hash set) \<Rightarrow> ('f, 'w) transfer_state \<Rightarrow> bool" where
  "drawn_open M drawn st \<longleftrightarrow> rebalance st \<noteq> Uninitialized \<and>
     (withdrawal_laws M drawn \<longrightarrow> (\<exists>h. drawn (world st) \<subseteq> {h}))"

lemma drawn_open_once: "drawn_open M drawn st \<Longrightarrow> drawn_once M drawn st"
  by (simp add: drawn_open_def drawn_once_def)

interpretation drawn_open: kept_transfer M "drawn_open M drawn" "{WithdrawUsdc}" "\<lambda>_. True"
proof unfold_locales
  show "calls_still {WithdrawUsdc} M (\<lambda>w. drawn_open M drawn \<lparr>rebalance = l, world = w\<rparr>)" for l
  proof (cases "l = Uninitialized")
    case False
    then show ?thesis unfolding drawn_open_def by (simp, intro withdrawal_calls_still) auto
  qed (simp add: drawn_open_def calls_still_const)
  show "drawn_open M drawn (snd (cqrs_send M c st))" if "drawn_open M drawn st" for c st
    using that send_adds_nothing [OF withdrawal_laws_still, of M drawn c st] send_opened [of M c st]
    unfolding drawn_open_def by blast
qed simp

text \<open>Withdrawing once nothing is drawn.\<close>

lemma withdraw_triple:
  "triple (\<lambda>st. undrawn M drawn st \<and> rebalance st \<noteq> Uninitialized) (on_world (withdraw_usdc (raindex M) v a))
     (\<lambda>_. drawn_open M drawn) (\<lambda>_. drawn_open M drawn)"
proof -
  have "drawn_open M drawn (snd (on_world (withdraw_usdc (raindex M) v a) st))"
    if "undrawn M drawn st" "rebalance st \<noteq> Uninitialized" for st
  proof -
    have "\<exists>h. drawn (snd (withdraw_usdc (raindex M) v a (world st))) \<subseteq> insert h (drawn (world st))"
      if "withdrawal_laws M drawn" using that by (simp add: withdrawal_laws_def)
    with that show ?thesis
      by (auto simp: drawn_open_def undrawn_def on_world_def case_prod_beta)
  qed
  then show ?thesis by (intro tripleI) (metis snd_conv)+
qed

lemma issue_triple:
  "triple (\<lambda>st. undrawn M drawn st \<and> rebalance st \<noteq> Uninitialized) (issue_vault_withdrawal M a raw)
     (\<lambda>_. drawn_open M drawn) (\<lambda>_. drawn_open M drawn)"
  unfolding issue_vault_withdrawal_def
  by (rule triple_seqw [OF triple_map_err [OF withdraw_triple]])
    (simp add: drawn_open.record_vault_withdrawal_keeps [unfolded keeps_def])

lemma resume_withdrawal_keeps: "keeps (drawn_open M drawn) (resume_withdrawal_submitting M i a raw fb)"
proof -
  let ?scan = "find_recent_withdrawal (raindex M) USDC_BASE (vault_id M) fb"
  have scan: "triple (drawn_open M drawn) (map_errw Vault (on_world ?scan))
      (\<lambda>x st. drawn_open M drawn st \<and> (x = None \<longrightarrow> undrawn M drawn st)) (\<lambda>_. drawn_open M drawn)"
  proof (rule triple_map_err, rule tripleI)
    fix st x st' assume "drawn_open M drawn st" and ok: "on_world ?scan st = (Inr x, st')"
    with keepsD [OF drawn_open.services_keep(3), of M drawn st] have "drawn_open M drawn st'"
      by (metis snd_conv)
    moreover have "undrawn M drawn st'" if "x = None"
      using that ok by (auto simp: undrawn_def withdrawal_laws_def on_world_def split: prod.splits)
    ultimately show "drawn_open M drawn st' \<and> (x = None \<longrightarrow> undrawn M drawn st')" by blast
  next
    fix st e st' assume "drawn_open M drawn st" and "on_world ?scan st = (Inl e, st')"
    with keepsD [OF drawn_open.services_keep(3), of M drawn st] show "drawn_open M drawn st'"
      by (metis snd_conv)
  qed
  have adopt: "keeps (drawn_open M drawn) (case p of (existing_tx, withdrawn) \<Rightarrow>
      if withdrawn \<noteq> raw then
        seqw (cqrs_send M (Initiate BaseToAlpaca a (OnchainTx existing_tx))) (\<lambda>_.
        seqw (cqrs_send M (FailWithdrawal (f existing_tx withdrawn))) (\<lambda>_.
          failw (AdoptedWithdrawalAmountMismatch i withdrawn raw)))
      else record_vault_withdrawal M a existing_tx)" for p f
    by (intro keeps_rules drawn_open.every_keeps drawn_open.record_vault_withdrawal_keeps) simp_all
  show ?thesis
    unfolding resume_withdrawal_submitting_def keeps_def
  proof (rule triple_seqw [OF scan], goal_cases)
    case (1 x)
    show ?case
    proof (cases x)
      case None
      then show ?thesis by (auto simp: drawn_open_def intro: triple_pre [OF issue_triple])
    next
      case (Some p)
      then show ?thesis
        by (simp only: option.case) (rule triple_pre [OF adopt [unfolded keeps_def]], simp)
    qed
  qed
qed

lemma fresh_withdrawal_triple:
  "triple (undrawn M drawn) (withdraw_from_vault M a raw) (\<lambda>_. drawn_open M drawn) (\<lambda>_. drawn_once M drawn)"
proof -
  have opened: "triple (undrawn M drawn) (cqrs_send M (BeginWithdrawal BaseToAlpaca a fb))
      (\<lambda>_ st. undrawn M drawn st \<and> rebalance st \<noteq> Uninitialized) (\<lambda>_. drawn_once M drawn)" for fb
  proof (rule tripleI)
    fix st x st'
    assume st: "undrawn M drawn st" and ok: "cqrs_send M (BeginWithdrawal BaseToAlpaca a fb) st = (Inr x, st')"
    then have "undrawn M drawn st'"
      using keepsD [OF undrawn.send_keeps, of M drawn st "BeginWithdrawal BaseToAlpaca a fb"] by simp
    moreover from ok have "rebalance st' \<noteq> Uninitialized"
    proof (rule cqrs_send_ok)
      fix evs now
      assume "rebalance st' = usdc_replay (rebalance st) evs"
        and "handle usdc_initialize (usdc_transition (fl M) (dbg M)) (rebalance st) now
          (BeginWithdrawal BaseToAlpaca a fb) = Inr evs"
      then show ?thesis
        by (cases "rebalance st") (auto simp: replay_Live_not_Uninitialized begin_withdrawal_init_events_def)
    qed
    ultimately show "undrawn M drawn st' \<and> rebalance st' \<noteq> Uninitialized" ..
  next
    fix st e st'
    assume "undrawn M drawn st" and "cqrs_send M (BeginWithdrawal BaseToAlpaca a fb) st = (Inl e, st')"
    then show "drawn_once M drawn st'"
      using keepsD [OF undrawn.send_keeps, of M drawn st "BeginWithdrawal BaseToAlpaca a fb"]
      by (simp add: undrawn_drawn_once)
  qed
  have head: "triple (undrawn M drawn) (map_errw Vault (on_world (current_block (raindex M))))
      (\<lambda>_. undrawn M drawn) (\<lambda>_. drawn_once M drawn)"
    by (rule triple_weaken [OF triple_map_err [OF undrawn.services_keep(2) [unfolded keeps_def]]])
      (auto intro: undrawn_drawn_once)
  show ?thesis
    unfolding withdraw_from_vault_def
    by (rule triple_seqw [OF head], rule triple_seqw [OF opened], rule triple_weaken [OF issue_triple])
      (auto intro: drawn_open_once)
qed

lemma run_drawn: "keeps (drawn_once M drawn) (run_transfer M i d a)"
proof (cases d)
  case AlpacaToBase
  then show ?thesis by (simp add: drawn_once.alpaca_to_base_keeps)
next
  case BaseToAlpaca
  have driven: "keeps (drawn_open M drawn) (drive_base_to_alpaca M i s)" for s
    by (rule drawn_open.drive_base_to_alpaca_keeps) (simp_all add: resume_withdrawal_keeps)
  have rest: "triple (drawn_open M drawn) (seqw (execute_cctp_burn_on_base M i raw) (\<lambda>receipt.
      continue_from_bridging M i a (burn_tx receipt) t)) (\<lambda>_. drawn_once M drawn) (\<lambda>_. drawn_once M drawn)"
    for raw t
    by (rule triple_weaken [OF drawn_open.after_withdrawal_keeps [unfolded keeps_def]])
      (auto intro: drawn_open_once)
  have opened: "advances (undrawn M drawn) (drawn_once M drawn) (seqw (withdraw_from_vault M a raw) (\<lambda>_.
      seqw (execute_cctp_burn_on_base M i raw) (\<lambda>receipt. continue_from_bridging M i a (burn_tx receipt) t)))"
    for raw t
    unfolding advances_def by (rule triple_seqw [OF fresh_withdrawal_triple rest])
  have fresh: "advances (undrawn M drawn) (drawn_once M drawn) (execute_base_to_alpaca M i a)"
    unfolding execute_base_to_alpaca_def
    by (rule advances_seqw, erule undrawn_drawn_once, rule keeps_resultw,
        rule advances_seqw, erule undrawn_drawn_once, rule undrawn.now_keeps, rule opened)
  have "triple (\<lambda>st. drawn_once M drawn st \<and> loaded x st)
      (case x of None \<Rightarrow> execute_base_to_alpaca M i a | Some s \<Rightarrow> drive_base_to_alpaca M i s)
      (\<lambda>_. drawn_once M drawn) (\<lambda>_. drawn_once M drawn)" for x
  proof (cases x)
    case None
    then show ?thesis
      by (simp only: option.case) (rule triple_pre [OF fresh [unfolded advances_def]], simp add: drawn_once_def undrawn_def loaded_def)
  next
    case (Some s)
    then show ?thesis
      by (simp only: option.case) (rule triple_weaken [OF driven [unfolded keeps_def]],
          auto simp: drawn_once_def drawn_open_def loaded_def)
  qed
  then show ?thesis
    unfolding BaseToAlpaca run_transfer.simps resume_base_to_alpaca_def keeps_def
    by (rule triple_seqw [OF load_triple [OF drawn_once.load_keeps]])
qed


lemma demo_withdrawal_laws: "withdrawal_laws demo_cash (\<lambda>w. set (withdrawals w))"
  by (simp add: withdrawal_laws_def demo_still) (auto simp: demo_raindex_def split: list.splits)


end
