(* ===== verification/Cash_Deposits.thy ===== *)
theory Cash_Deposits
  imports Cash_Ledgers
begin

text \<open>
  The transfer of the minted USDC to Alpaca's deposit address is made at most once across redrives.
\<close>

section \<open>The ledger of deposit transfers\<close>

text \<open>
  \<open>sent w\<close> are the transfers to the deposit address made for this transfer. Relied on: only
  \<^verbatim>\<open>send_usdc_on_ethereum\<close> adds to them, at most one a call, and the scan a resume makes before
  sending answers \<^verbatim>\<open>None\<close> only when there is none.
\<close>

definition deposit_laws :: "('f, 'w) cash_transfer \<Rightarrow> ('w \<Rightarrow> tx_hash set) \<Rightarrow> bool" where
  "deposit_laws M sent \<longleftrightarrow>
     (\<forall>L. calls_still {SendUsdc} M (\<lambda>w. sent w \<subseteq> L)) \<and>
     (\<forall>r a w. \<exists>h. sent (snd (send_usdc_on_ethereum (cctp_bridge M) r a w)) \<subseteq> insert h (sent w)) \<and>
     (\<forall>f r a b w w'. find_recent_usdc_transfer (cctp_bridge M) f r a b w = (Inr None, w') \<longrightarrow> sent w' = {})"

text \<open>The states in which no deposit can have been sent.\<close>

fun pre_mint :: "'f usdc_rebalance \<Rightarrow> bool" where
  "pre_mint (BridgingSubmitting _ _ _ _ _ _) \<longleftrightarrow> True"
| "pre_mint (Bridging _ _ _ _ _) \<longleftrightarrow> True"
| "pre_mint (AwaitingAttestation _ _ _ _ _ _) \<longleftrightarrow> True"
| "pre_mint (Attested _ _ _ _ _ _ _ _ _) \<longleftrightarrow> True"
| "pre_mint (BridgingFailed _ _ _ _ _ _ _) \<longleftrightarrow> True"
| "pre_mint s \<longleftrightarrow> pre_burn s"

definition minted :: "'f usdc_rebalance lifecycle \<Rightarrow> bool" where
  "minted l \<longleftrightarrow> (case l of Uninitialized \<Rightarrow> False | Live s \<Rightarrow> \<not> pre_mint s | FailedLifecycle \<Rightarrow> True)"

fun reopening :: "'f usdc_rebalance_command \<Rightarrow> bool" where
  "reopening (Initiate _ _ _) = True"
| "reopening (BeginWithdrawal _ _ _) = True"
| "reopening _ = False"

lemma minted_step:
  assumes "usdc_transition F D now s c = Inr [e]" and "\<not> reopening c" and "rebalance_step F s e s'"
    and "\<not> pre_mint s"
  shows "\<not> pre_mint s'"
  using assms(3,1,2,4)
  by (cases rule: rebalance_step.cases) (cases c; auto simp: usdc_handlers split: usdc_splits)+

lemma minted_replay:
  assumes "handle usdc_initialize (usdc_transition F D) l now c = Inr evs" and "\<not> reopening c" and "minted l"
  shows "minted (usdc_replay l evs)"
proof (cases l)
  case (Live s)
  from assms(1) [unfolded Live] show ?thesis
  proof (cases rule: handle_Live)
    case 1
    with assms(3) Live show ?thesis by simp
  next
    case (2 e s')
    with minted_step [OF 2(3) assms(2) 2(2)] assms(3) Live show ?thesis
      by (simp add: minted_def rebalance_step_evolve del: usdc_evolve.simps)
  qed
qed (use assms in \<open>auto simp: minted_def\<close>)

definition sent_once ::
  "('f, 'w) cash_transfer \<Rightarrow> ('w \<Rightarrow> tx_hash set) \<Rightarrow> ('f, 'w) transfer_state \<Rightarrow> bool" where
  "sent_once M sent st \<longleftrightarrow> (deposit_laws M sent \<longrightarrow> (\<exists>h. sent (world st) \<subseteq> {h}) \<and>
     (\<not> minted (rebalance st) \<longrightarrow> sent (world st) = {}))"

text \<open>Nothing is sent; the mint is recorded, so that something may be.\<close>

definition unsent ::
  "('f, 'w) cash_transfer \<Rightarrow> ('w \<Rightarrow> tx_hash set) \<Rightarrow> ('f, 'w) transfer_state \<Rightarrow> bool" where
  "unsent M sent st \<longleftrightarrow> (deposit_laws M sent \<longrightarrow> sent (world st) = {})"

definition depositing ::
  "('f, 'w) cash_transfer \<Rightarrow> ('w \<Rightarrow> tx_hash set) \<Rightarrow> ('f, 'w) transfer_state \<Rightarrow> bool" where
  "depositing M sent st \<longleftrightarrow> minted (rebalance st) \<and> (deposit_laws M sent \<longrightarrow> (\<exists>h. sent (world st) \<subseteq> {h}))"

lemma unsent_once: "unsent M sent st \<Longrightarrow> sent_once M sent st"
  and depositing_once: "depositing M sent st \<Longrightarrow> sent_once M sent st"
  and unsent_depositing: "unsent M sent st \<Longrightarrow> minted (rebalance st) \<Longrightarrow> depositing M sent st"
  by (auto simp: unsent_def depositing_def sent_once_def)

lemma deposit_laws_still: "deposit_laws M sent \<Longrightarrow> \<forall>L. calls_still {SendUsdc} M (\<lambda>w. sent w \<subseteq> L)"
  by (simp add: deposit_laws_def)

lemma deposit_calls_still:
  assumes "\<And>L L'. Q L \<Longrightarrow> L' \<subseteq> L \<Longrightarrow> Q L'"
  shows "calls_still {SendUsdc} M (\<lambda>w. deposit_laws M sent \<longrightarrow> Q (sent w))"
proof (cases "deposit_laws M sent")
  case True
  with calls_still_down [OF deposit_laws_still [OF True], of Q] assms show ?thesis by simp
qed (simp add: calls_still_const)

interpretation unsent: kept_transfer M "unsent M sent" "{SendUsdc}" "\<lambda>_. True"
proof unfold_locales
  show "calls_still {SendUsdc} M (\<lambda>w. unsent M sent \<lparr>rebalance = l, world = w\<rparr>)" for l
    unfolding unsent_def by (simp, rule deposit_calls_still) auto
  show "unsent M sent (snd (cqrs_send M c st))" if "unsent M sent st" for c st
    using that send_adds_nothing [OF deposit_laws_still, of M sent c st] unfolding unsent_def by blast
qed simp

interpretation depositing: kept_transfer M "depositing M sent" "{SendUsdc}" "\<lambda>c. \<not> reopening c"
proof unfold_locales
  show "calls_still {SendUsdc} M (\<lambda>w. depositing M sent \<lparr>rebalance = l, world = w\<rparr>)" for l
  proof (cases "minted l")
    case True
    then show ?thesis unfolding depositing_def by (simp, intro deposit_calls_still) auto
  qed (simp add: depositing_def calls_still_const)
  show "depositing M sent (snd (cqrs_send M c st))" if c: "\<not> reopening c" and st: "depositing M sent st" for c st
  proof -
    from st have "minted (rebalance (snd (cqrs_send M c st)))"
      using c by (cases rule: cqrs_send_cases [of M c st]) (auto simp: depositing_def minted_replay)
    with st send_adds_nothing [OF deposit_laws_still, of M sent c st] show ?thesis
      unfolding depositing_def by blast
  qed
  show "\<not> reopening c" if "ordinary c" for c :: "'a usdc_rebalance_command" using that by (cases c) auto
qed

section \<open>Sending\<close>

lemma send_once_triple:
  "advances (\<lambda>st. unsent M sent st \<and> minted (rebalance st)) (depositing M sent)
     (on_world (send_usdc_on_ethereum (cctp_bridge M) r a))"
proof -
  have "depositing M sent (snd (on_world (send_usdc_on_ethereum (cctp_bridge M) r a) st))"
    if "unsent M sent st" "minted (rebalance st)" for st
  proof -
    have "\<exists>h. sent (snd (send_usdc_on_ethereum (cctp_bridge M) r a (world st))) \<subseteq> insert h (sent (world st))"
      if "deposit_laws M sent" using that by (simp add: deposit_laws_def)
    with that show ?thesis by (auto simp: depositing_def unsent_def on_world_def case_prod_beta)
  qed
  then show ?thesis unfolding advances_def by (intro tripleI) (metis snd_conv)+
qed

lemma keeps_minted:
  assumes "keeps I (on_world m)"
  shows "keeps (\<lambda>st. I st \<and> minted (rebalance st)) (on_world m)"
  using keepsD [OF assms] by (intro keepsI) (auto simp: on_world_def split: prod.splits)

lemma fresh_deposit:
  "advances (\<lambda>st. unsent M sent st \<and> minted (rebalance st)) (depositing M sent) (continue_from_bridged_fresh M a)"
proof -
  let ?U = "\<lambda>st. unsent M sent st \<and> minted (rebalance st)"
  have sending: "advances ?U (depositing M sent)
      (map_errw Cctp (on_world (send_usdc_on_ethereum (cctp_bridge M) r raw)))" for r raw
    using send_once_triple unfolding advances_def by (rule triple_map_err)
  have "advances ?U (depositing M sent) (send_alpaca_deposit M a)"
    unfolding send_alpaca_deposit_def fetch_alpaca_deposit_address_def
    by (rule advances_seqw, simp add: unsent_depositing,
        intro keeps_map_errw keeps_minted unsent.services_keep,
        rule advances_seqw, simp add: unsent_depositing, rule keeps_resultw, rule sending)
  then show ?thesis
    unfolding continue_from_bridged_fresh_def by (rule advances_first) (intro keeps_rules)
qed

lemma resumed_deposit: "keeps (depositing M sent) (continue_from_bridged_resume M a h)"
proof -
  have scan: "triple (depositing M sent)
      (map_errw Cctp (on_world (find_recent_usdc_transfer (cctp_bridge M) f r raw b)))
      (\<lambda>x st. depositing M sent st \<and> (x = None \<longrightarrow> unsent M sent st)) (\<lambda>_. depositing M sent)" for f r raw b
  proof (rule triple_map_err, rule tripleI)
    fix st x st'
    assume "depositing M sent st"
      and ok: "on_world (find_recent_usdc_transfer (cctp_bridge M) f r raw b) st = (Inr x, st')"
    with keepsD [OF depositing.bridge_keeps(14), of M sent st] have "depositing M sent st'" by (metis snd_conv)
    moreover have "unsent M sent st'" if "x = None"
      using that ok by (auto simp: unsent_def deposit_laws_def on_world_def split: prod.splits)
    ultimately show "depositing M sent st' \<and> (x = None \<longrightarrow> unsent M sent st')" by blast
  next
    fix st e st'
    assume "depositing M sent st" "on_world (find_recent_usdc_transfer (cctp_bridge M) f r raw b) st = (Inl e, st')"
    with keepsD [OF depositing.bridge_keeps(14), of M sent st] show "depositing M sent st'" by (metis snd_conv)
  qed
  have sending: "triple (\<lambda>st. depositing M sent st \<and> (x = None \<longrightarrow> unsent M sent st))
      (case x of Some existing_tx \<Rightarrow> retw existing_tx
       | None \<Rightarrow> map_errw Cctp (on_world (send_usdc_on_ethereum (cctp_bridge M) r raw)))
      (\<lambda>_. depositing M sent) (\<lambda>_. depositing M sent)" for x r raw
  proof (cases x)
    case None
    then show ?thesis
      by (simp only: option.case)
        (rule triple_pre [OF triple_map_err [OF send_once_triple [unfolded advances_def]]],
         simp add: depositing_def)
  qed simp
  have sent: "keeps (depositing M sent)
      (seqw (map_errw Cctp (on_world (find_recent_usdc_transfer (cctp_bridge M) f r raw b))) (\<lambda>found. case found of
         Some existing_tx \<Rightarrow> retw existing_tx
       | None \<Rightarrow> map_errw Cctp (on_world (send_usdc_on_ethereum (cctp_bridge M) r raw))))" for f r raw b
    unfolding keeps_def by (rule triple_seqw [OF scan sending])
  show ?thesis
    unfolding continue_from_bridged_resume_def send_or_adopt_alpaca_deposit_def
    by (intro keeps_seqw [OF keeps_seqw [OF _ keeps_seqw [OF _ keeps_seqw [OF _ sent]]]] keeps_rules)
qed

section \<open>Up to the mint\<close>

text \<open>A part that succeeds only once the mint is recorded, with nothing sent.\<close>

definition minting_run :: "('f, 'w) cash_transfer \<Rightarrow> ('w \<Rightarrow> tx_hash set) \<Rightarrow> ('f, 'w, 'a) run \<Rightarrow> bool" where
  "minting_run M sent m \<longleftrightarrow>
     triple (unsent M sent) m (\<lambda>_ st. unsent M sent st \<and> minted (rebalance st)) (\<lambda>_. unsent M sent)"

lemma mints_seqw: "keeps (unsent M sent) m \<Longrightarrow> (\<And>x. minting_run M sent (k x)) \<Longrightarrow> minting_run M sent (seqw m k)"
  unfolding minting_run_def keeps_def by (rule triple_seqw)

lemma mints_last: "minting_run M sent m \<Longrightarrow> minting_run M sent (seqw m (\<lambda>x. retw (f x)))"
  unfolding minting_run_def by (erule triple_seqw) simp

lemma mints_failw: "minting_run M sent (failw e)"
  by (simp add: minting_run_def)

lemma send_mints:
  assumes "\<And>s now evs. usdc_transition (fl M) (dbg M) now s c = Inr evs \<Longrightarrow> minted (usdc_replay (Live s) evs)"
    and "\<And>now evs. usdc_initialize now c \<noteq> Inr evs"
  shows "minting_run M sent (cqrs_send M c)"
  unfolding minting_run_def
proof (rule tripleI)
  fix st x st' assume st: "unsent M sent st" and ok: "cqrs_send M c st = (Inr x, st')"
  from keepsD [OF unsent.send_keeps st, of c] ok have "unsent M sent st'" by simp
  moreover from ok have "minted (rebalance st')"
  proof (rule cqrs_send_ok)
    fix evs now
    assume st': "rebalance st' = usdc_replay (rebalance st) evs"
      and ok: "handle usdc_initialize (usdc_transition (fl M) (dbg M)) (rebalance st) now c = Inr evs"
    with assms show ?thesis by (cases "rebalance st") auto
  qed
  ultimately show "unsent M sent st' \<and> minted (rebalance st')" ..
next
  fix st e st' assume "unsent M sent st" and "cqrs_send M c st = (Inl e, st')"
  with keepsD [OF unsent.send_keeps [where c = c and M = M and sent = sent], of st] show "unsent M sent st'"
    by simp
qed

lemma confirm_bridging_mints: "minting_run M sent (cqrs_send M (ConfirmBridging h a f))"
proof (rule send_mints)
  fix s now evs assume "usdc_transition (fl M) (dbg M) now s (ConfirmBridging h a f) = Inr evs"
  then show "minted (usdc_replay (Live s) evs)"
    by (cases s) (auto simp: transition_confirm_bridging_def minted_def)
qed simp

lemma recover_bridging_mints: "minting_run M sent (cqrs_send M (RecoverBridging h a f))"
proof (rule send_mints)
  fix s now evs assume "usdc_transition (fl M) (dbg M) now s (RecoverBridging h a f) = Inr evs"
  then show "minted (usdc_replay (Live s) evs)"
    by (cases s) (auto simp: transition_recover_bridging_def minted_def split: option.splits)
qed simp

lemma mint_mints: "minting_run M sent (execute_cctp_mint_on_ethereum M i response t)"
proof -
  have failing: "minting_run M sent (seqw (cqrs_send M (FailBridging reason)) (\<lambda>_. failw e))" for reason e
    by (intro mints_seqw mints_failw unsent.send_keeps) simp
  have "minting_run M sent (seqw (resultw (u256_to_usdc M (mint_amount receipt))) (\<lambda>amount_received.
      seqw (resultw (u256_to_usdc M (mint_fee receipt))) (\<lambda>fee_collected.
      seqw (cqrs_send M (ConfirmBridging (mint_tx receipt) amount_received fee_collected)) (\<lambda>_.
        retw receipt))))" for receipt
    by (rule mints_seqw [OF keeps_resultw], rule mints_seqw [OF keeps_resultw],
        rule mints_last, rule confirm_bridging_mints)
  then show ?thesis
    unfolding execute_cctp_mint_on_ethereum_def mint_and_confirm_def
    by (intro mints_seqw [OF keeps_outcomew [OF unsent.bridge_keeps(6)]])
      (auto simp: failing mints_failw split: sum.split cctp_error.split)
qed

section \<open>Whole runs\<close>

abbreviation sends_safe :: "('f, 'w) cash_transfer \<Rightarrow> ('w \<Rightarrow> tx_hash set) \<Rightarrow> ('f, 'w, 'a) run \<Rightarrow> bool" where
  "sends_safe M sent \<equiv> advances (unsent M sent) (sent_once M sent)"

lemma sends_safe_seqw:
  "keeps (unsent M sent) m \<Longrightarrow> (\<And>x. sends_safe M sent (k x)) \<Longrightarrow> sends_safe M sent (seqw m k)"
  by (rule advances_seqw) (auto intro: unsent_once)

lemma sends_safe_minted:
  assumes "minting_run M sent m"
    and "\<And>x. advances (\<lambda>st. unsent M sent st \<and> minted (rebalance st)) (depositing M sent) (k x)"
  shows "sends_safe M sent (seqw m k)"
  unfolding advances_def
proof (rule triple_seqw)
  show "triple (unsent M sent) m (\<lambda>_ st. unsent M sent st \<and> minted (rebalance st)) (\<lambda>_. sent_once M sent)"
    by (rule triple_weaken [OF assms(1) [unfolded minting_run_def]]) (auto intro: unsent_once)
  show "triple (\<lambda>st. unsent M sent st \<and> minted (rebalance st)) (k x) (\<lambda>_. sent_once M sent) (\<lambda>_. sent_once M sent)" for x
    by (rule triple_weaken [OF assms(2) [unfolded advances_def]]) (auto intro: depositing_once)
qed

lemma sends_safe_failw: "sends_safe M sent (failw e)"
  by (rule advances_failw) (rule unsent_once)

lemmas sends_safe_rules = sends_safe_seqw sends_safe_failw advances_case_option advances_case_poll

lemma minted_resume:
  "advances (\<lambda>st. unsent M sent st \<and> minted (rebalance st)) (depositing M sent) (continue_from_bridged_resume M a h)"
  by (rule advances_keeps [OF resumed_deposit]) (auto intro: unsent_depositing)

lemma sends_safe_mint [intro]: "sends_safe M sent (mint_and_continue M i response t)"
  unfolding mint_and_continue_def
  by (rule sends_safe_minted [OF mint_mints], rule advances_seqw, simp add: unsent_depositing,
      rule keeps_resultw, rule fresh_deposit)

lemma sends_safe_tail:
  "sends_safe M sent (continue_from_bridging M i a h t)"
  "sends_safe M sent (continue_from_awaiting_attestation M i a h t t')"
  "sends_safe M sent (continue_from_attested M i h att n message sb t)"
  "sends_safe M sent (recover_from_bridging_failed M i h' t)"
  unfolding continue_from_bridging_def continue_from_awaiting_attestation_def continue_from_attested_def
    recover_from_bridging_failed_def
  by (intro sends_safe_minted [OF confirm_bridging_mints] sends_safe_minted [OF recover_bridging_mints]
      sends_safe_rules sends_safe_mint minted_resume keeps_rules; simp)+

lemma sends_safe_burned:
  "sends_safe M sent (seqw (execute_cctp_burn_on_base M i raw) (\<lambda>receipt.
     continue_from_bridging M i a (burn_tx receipt) t))"
  "sends_safe M sent (seqw (resume_bridging_submitting M i raw fb p) (\<lambda>receipt.
     continue_from_bridging M i a (burn_tx receipt) t))"
  unfolding resume_bridging_submitting_def
  by (intro sends_safe_seqw unsent.begin_and_burn_keeps sends_safe_tail; simp)+

lemma sends_safe_withdrawn: "sends_safe M sent (continue_from_withdrawal_complete M i a t)"
  and sends_safe_fresh: "sends_safe M sent (execute_base_to_alpaca M i a)"
  unfolding continue_from_withdrawal_complete_def execute_base_to_alpaca_def
  by (intro sends_safe_burned sends_safe_seqw keeps_rules unsent.vault_withdrawal_keeps; simp)+

text \<open>From a loaded state.\<close>

definition once_from :: "('f, 'w) cash_transfer \<Rightarrow> ('w \<Rightarrow> tx_hash set) \<Rightarrow> 'f usdc_rebalance option \<Rightarrow>
  ('f, 'w, 'a) run \<Rightarrow> bool" where
  "once_from M sent x m \<longleftrightarrow> advances (\<lambda>st. sent_once M sent st \<and> loaded x st) (sent_once M sent) m"

lemma once_from_unsent:
  assumes "sends_safe M sent m" and "case x of None \<Rightarrow> True | Some s \<Rightarrow> pre_mint s"
  shows "once_from M sent x m"
  using assms unfolding once_from_def advances_def
  by (elim triple_pre) (auto simp: sent_once_def unsent_def loaded_def minted_def split: option.splits)

lemma once_from_minted:
  assumes "keeps (depositing M sent) m" and "\<not> pre_mint s"
  shows "once_from M sent (Some s) m"
  using assms(1) unfolding once_from_def
  by (rule advances_keeps) (use assms(2) in \<open>auto simp: sent_once_def depositing_def loaded_def minted_def\<close>)

lemma sends_safe_keeps: "keeps (unsent M sent) m \<Longrightarrow> sends_safe M sent m"
  by (erule advances_keeps) (auto intro: unsent_once)

lemma drive_alpaca_to_base_once: "once_from M sent (Some s) (drive_alpaca_to_base M i s)"
proof (cases "pre_mint s")
  case True
  then show ?thesis
    by (intro once_from_unsent sends_safe_keeps unsent.drive_alpaca_to_base_keeps) simp_all
next
  case False
  then show ?thesis
    by (cases s; cases "rebalance_direction_of s"; simp only: rebalance_direction_of.simps simp_thms;
        (hypsubst | simp only: usdc_rebalance.inject)?; unfold drive_alpaca_to_base.simps)
      ((rule once_from_minted, (intro keeps_rules; (simp; fail))) | (simp; fail))+
qed

lemma drive_base_to_alpaca_once: "once_from M sent (Some s) (drive_base_to_alpaca M i s)"
proof (cases "pre_mint s")
  case True
  then show ?thesis
    by (cases s; cases "rebalance_direction_of s"; simp only: rebalance_direction_of.simps simp_thms;
        (hypsubst | simp only: usdc_rebalance.inject)?; unfold drive_base_to_alpaca.simps)
      ((rule once_from_unsent, (intro sends_safe_burned sends_safe_withdrawn sends_safe_tail sends_safe_keeps
          [OF unsent.converting_keeps] sends_safe_keeps [OF keeps_resultw] sends_safe_rules keeps_rules
          unsent.vault_withdrawal_keeps; (simp; fail))) | (simp; fail))+
next
  case False
  then show ?thesis
    by (cases s; cases "rebalance_direction_of s"; simp only: rebalance_direction_of.simps simp_thms;
        (hypsubst | simp only: usdc_rebalance.inject)?; unfold drive_base_to_alpaca.simps)
      ((rule once_from_minted, (intro resumed_deposit keeps_rules; (simp; fail))) | (simp; fail))+
qed

lemma run_sent: "keeps (sent_once M sent) (run_transfer M i d a)"
proof -
  have still: "calls_still {SendUsdc} M (\<lambda>w. sent_once M sent \<lparr>rebalance = l, world = w\<rparr>)" for l
    unfolding sent_once_def by (simp, rule deposit_calls_still) auto
  then have "keeps (sent_once M sent) (on_world (store_load (cqrs M)))"
    by (intro keeps_on_world) (auto simp: calls_still_def services_still_def still_def)
  then have "keeps (sent_once M sent) (cqrs_load M)"
    unfolding cqrs_load_def
    by (intro keeps_seqw keeps_map_errw) (auto intro: keepsI split: lifecycle.split)
  note load = load_triple [OF this]
  have "once_from M sent x (case x of None \<Rightarrow> execute_alpaca_to_base M i a
      | Some s \<Rightarrow> drive_alpaca_to_base M i s)" for x
    by (cases x) (simp_all add: once_from_unsent sends_safe_keeps unsent.drive_alpaca_to_base_keeps
        drive_alpaca_to_base_once)
  then have 1: "keeps (sent_once M sent) (resume_alpaca_to_base M i a)"
    unfolding resume_alpaca_to_base_def keeps_def once_from_def advances_def by (rule triple_seqw [OF load])
  have "once_from M sent x (case x of None \<Rightarrow> execute_base_to_alpaca M i a
      | Some s \<Rightarrow> drive_base_to_alpaca M i s)" for x
    by (cases x) (simp_all add: once_from_unsent sends_safe_fresh drive_base_to_alpaca_once)
  then have 2: "keeps (sent_once M sent) (resume_base_to_alpaca M i a)"
    unfolding resume_base_to_alpaca_def keeps_def once_from_def advances_def by (rule triple_seqw [OF load])
  from 1 2 show ?thesis by (cases d) simp_all
qed


lemma demo_deposit_laws: "deposit_laws demo_cash (\<lambda>w. set (sends w))"
  by (simp add: deposit_laws_def demo_still) (auto simp: demo_bridge_def split: list.splits)


section \<open>Windows that remain from Alpaca to Base\<close>

text \<open>
  From Alpaca to Base the withdrawal at Alpaca and the vault deposit are made before any intent is
  recorded, and no resume looks for them. With a store that loses one commit, two runs withdraw
  twice, and two runs deposit twice. The world's \<open>withdrawals\<close> are those at Alpaca, its \<open>sends\<close>
  the vault deposits; the first commit is lost.
\<close>

definition lossy_cash :: "(rat, demo_world) cash_transfer" where
  "lossy_cash = demo_cash\<lparr>
     cqrs := \<lparr>store_commit = (\<lambda>w. if burns w = [] then (NotCommitted ''locked'', w\<lparr>burns := [0]\<rparr>)
         else (Committed, w)), store_load = retw ()\<rparr>,
     alpaca_wallet := demo_wallet\<lparr>initiate_withdrawal := (\<lambda>a s r w.
         (Inr \<lparr>at_id = 3, at_tx = None, at_status = TransferPending\<rparr>,
          w\<lparr>withdrawals := next_hash (withdrawals w) # withdrawals w\<rparr>)),
       poll_transfer_until_complete := (\<lambda>t. failw (FailedTransferHasTx t 1))\<rparr>,
     raindex := demo_raindex\<lparr>submit_deposit_usdc := (\<lambda>v a w.
         (Inr (next_hash (sends w)), w\<lparr>sends := next_hash (sends w) # sends w\<rparr>))\<rparr>\<rparr>"

lemma lossy_cash_sel [simp]:
  "alpaca_broker lossy_cash = demo_broker"
  "raindex lossy_cash = demo_raindex\<lparr>submit_deposit_usdc := (\<lambda>v a w.
     (Inr (next_hash (sends w)), w\<lparr>sends := next_hash (sends w) # sends w\<rparr>))\<rparr>"
  "alpaca_wallet lossy_cash = demo_wallet\<lparr>initiate_withdrawal := (\<lambda>a s r w.
     (Inr \<lparr>at_id = 3, at_tx = None, at_status = TransferPending\<rparr>,
      w\<lparr>withdrawals := next_hash (withdrawals w) # withdrawals w\<rparr>)),
       poll_transfer_until_complete := (\<lambda>t. failw (FailedTransferHasTx t 1))\<rparr>"
  "cctp_bridge lossy_cash = demo_bridge" "market_maker_wallet lossy_cash = 1" "vault_id lossy_cash = 2"
  "required_confirmations lossy_cash = 3" "rt lossy_cash = rt demo_cash"
  "fl lossy_cash = bounded_rat 1000" "dbg lossy_cash = demo_debug"
  "cqrs lossy_cash = \<lparr>store_commit = (\<lambda>w. if burns w = [] then (NotCommitted ''locked'', w\<lparr>burns := [0]\<rparr>)
         else (Committed, w)), store_load = retw ()\<rparr>"
  by (simp_all add: lossy_cash_def)

lemma lossy_amounts:
  "usdc_to_u256 lossy_cash a = usdc_to_u256 demo_cash a" "u256_to_usdc lossy_cash n = u256_to_usdc demo_cash n"
  by (simp_all add: usdc_to_u256_def u256_to_usdc_def)

lemma lossy_send:
  "cqrs_send lossy_cash c st =
     (case handle usdc_initialize (usdc_transition (bounded_rat 1000) demo_debug) (rebalance st) 1000 c of
        Inl e \<Rightarrow> (Inl (AggregateError (UserError e)), st)
      | Inr evs \<Rightarrow> if burns (world st) = []
          then (Inl (AggregateError (InfrastructureError ''locked'')), st\<lparr>world := (world st)\<lparr>burns := [0]\<rparr>\<rparr>)
          else (Inr (), st\<lparr>rebalance := usdc_replay (rebalance st) evs\<rparr>))"
  by (simp add: cqrs_send_def Let_def split: sum.split)

lemmas lossy_run_simps = demo_amounts lossy_amounts lossy_send demo_burn_range seqw_def on_world_def
  infallible_def resultw_def map_errw_def next_hash_def demo_bridge_def demo_response_def demo_wallet_def
  demo_raindex_def usdc_handlers

lemma lossy_load:
  "rebalance st = Live s \<Longrightarrow> resume_alpaca_to_base lossy_cash i a st = drive_alpaca_to_base lossy_cash i s st"
  by (simp add: resume_alpaca_to_base_def cqrs_load_def seqw_def map_errw_def on_world_def)

definition lossy_start :: "rat usdc_rebalance \<Rightarrow> (rat, demo_world) transfer_state" where
  "lossy_start s = \<lparr>rebalance = Live s, world = \<lparr>burns = [], withdrawals = [], sends = []\<rparr>\<rparr>"

lemma lost_commit_deposits_twice:
  "sends (world (redrives lossy_cash i [(AlpacaToBase, Usdc 5), (AlpacaToBase, Usdc 5)]
     (lossy_start (Bridged AlpacaToBase (Usdc 5) (Usdc 5) (Usdc 0) 1 2 3 4)))) = [2, 1]"
  by (simp add: redrives_def lossy_load lossy_start_def continue_alpaca_to_base_from_bridged_def
      deposit_to_vault_def confirm_deposit_def lossy_run_simps)

lemma lost_commit_withdraws_twice:
  "withdrawals (world (redrives lossy_cash i [(AlpacaToBase, Usdc 5), (AlpacaToBase, Usdc 5)]
     (lossy_start (ConversionComplete AlpacaToBase (Usdc 5) \<lparr>source_amount = Usdc 5, received_amount = Usdc 5\<rparr> 1 2)))) = [2, 1]"
  by (simp add: redrives_def lossy_load lossy_start_def
      continue_alpaca_to_base_from_conversion_complete_def initiate_alpaca_withdrawal_def
      poll_and_confirm_withdrawal_def now_run_def positive_new_def usdc_has_zero_def
      unwrap_or_def bounded_rat_def lossy_run_simps)

end
