(* ===== verification/Cash_Errors.thy ===== *)
theory Cash_Errors
  imports Cash_Outcome
begin

text \<open>
  The errors of the USDC transfer orchestrator tell where a run left the aggregate. For every step of
  both flows: an error after which the jobs do not redrive is raised only with the aggregate at the
  state the jobs take it to be in.
\<close>

section \<open>What the errors of a run tell\<close>

text \<open>
  The errors on which a job ends without a redrive tell where the run left the aggregate: at the
  intent to burn or to withdraw, or failed.
\<close>

fun burn_latched :: "'f usdc_rebalance lifecycle \<Rightarrow> bool" where
  "burn_latched (Live (BridgingSubmitting _ _ _ _ _ _)) = True"
| "burn_latched _ = False"

fun withdrawal_latched :: "'f usdc_rebalance lifecycle \<Rightarrow> bool" where
  "withdrawal_latched (Live (WithdrawalSubmitting _ _ _ _)) = True"
| "withdrawal_latched _ = False"

fun rebalance_failed :: "'f usdc_rebalance lifecycle \<Rightarrow> bool" where
  "rebalance_failed (Live s) = is_failed_rebalance s"
| "rebalance_failed _ = False"

fun told :: "'f usdc_transfer_error \<Rightarrow> 'f usdc_rebalance lifecycle \<Rightarrow> bool" where
  "told (BurnTxDropped _ _) l = burn_latched l"
| "told (BurnRecordFailed _ _) l = burn_latched l"
| "told (BurnSubmitInconclusive _) l = burn_latched l"
| "told (BurnRecordTaskFailed _) l = burn_latched l"
| "told (InsufficientVaultLiquidity _ _ _) l = withdrawal_latched l"
| "told (AttestationRetryDeadlineElapsed _) l = rebalance_failed l"
| "told (WalletUsdcAmbientBalance _ _ _) l = rebalance_failed l"
| "told (PreviouslyFailedAggregate _) l = rebalance_failed l"
| "told _ l = True"

definition honest ::
  "('f usdc_rebalance lifecycle \<Rightarrow> bool) \<Rightarrow> ('f, 'w, 'a) run \<Rightarrow> bool" where
  "honest P m \<longleftrightarrow> triple (\<lambda>st. P (rebalance st)) m (\<lambda>_ _. True) (\<lambda>e st. told e (rebalance st))"

abbreviation anywhere :: "'f usdc_rebalance lifecycle \<Rightarrow> bool" where
  "anywhere \<equiv> \<lambda>_. True"

named_theorems honest_rules \<open>rules that take the meaning of errors through a run\<close>

lemma honestI: "(\<And>st e st'. P (rebalance st) \<Longrightarrow> m st = (Inl e, st') \<Longrightarrow> told e (rebalance st')) \<Longrightarrow> honest P m"
  unfolding honest_def by (rule tripleI) auto

lemma honestD: "honest P m \<Longrightarrow> P (rebalance st) \<Longrightarrow> m st = (Inl e, st') \<Longrightarrow> told e (rebalance st')"
  unfolding honest_def by (rule triple_Inl)

lemma honest_anywhere: "honest anywhere m \<Longrightarrow> honest P m"
  unfolding honest_def by (erule triple_pre) simp

lemma honest_retw [honest_rules]: "honest P (retw x)"
  by (rule honestI) simp

lemma honest_failw [honest_rules]: "(\<And>l. P l \<Longrightarrow> told e l) \<Longrightarrow> honest P (failw e)"
  by (rule honestI) auto

lemma honest_resultw [honest_rules]: "(\<And>e l. r = Inl e \<Longrightarrow> told e l) \<Longrightarrow> honest P (resultw r)"
  by (rule honestI) (auto simp: resultw_def)

lemma honest_map_errw [honest_rules]: "(\<And>e l. told (f e) l) \<Longrightarrow> honest P (map_errw f m)"
  by (rule honestI) (auto simp: map_errw_def map_prod_def split: prod.splits sum.splits)

lemma honest_map_errw_at: "(\<And>e l. P l \<Longrightarrow> told (f e) l) \<Longrightarrow> honest P (map_errw f (on_world m))"
  by (rule honestI) (auto simp: map_errw_def map_prod_def on_world_def split: prod.splits sum.splits)

lemma honest_outcomew [honest_rules]: "honest P (outcomew m)"
  by (rule honestI) (auto simp: outcomew_def split: prod.splits)

lemma honest_seqw [honest_rules]:
  "honest P m \<Longrightarrow> (\<And>x. honest anywhere (k x)) \<Longrightarrow> honest P (seqw m k)"
  unfolding honest_def by (rule triple_seqw [where R = "\<lambda>_ _. True"]) auto

lemma honest_after:
  "triple (\<lambda>st. P (rebalance st)) m (\<lambda>_ st. R (rebalance st)) (\<lambda>e st. told e (rebalance st)) \<Longrightarrow>
   (\<And>x. honest R (k x)) \<Longrightarrow> honest P (seqw m k)"
  unfolding honest_def by (rule triple_seqw)

lemma honest_if [honest_rules]: "honest P m \<Longrightarrow> honest P n \<Longrightarrow> honest P (if b then m else n)"
  by simp

lemma honest_Let [honest_rules]: "(\<And>x. honest P (k x)) \<Longrightarrow> honest P (Let v k)"
  by (simp add: Let_def)

lemma honest_case_option [honest_rules]:
  "honest P m \<Longrightarrow> (\<And>x. honest P (k x)) \<Longrightarrow> honest P (case v of None \<Rightarrow> m | Some x \<Rightarrow> k x)"
  by (simp split: option.split)

lemma honest_case_sum [honest_rules]:
  "(\<And>e. honest P (f e)) \<Longrightarrow> (\<And>x. honest P (k x)) \<Longrightarrow> honest P (case r of Inl e \<Rightarrow> f e | Inr x \<Rightarrow> k x)"
  by (simp split: sum.split)

lemma honest_case_prod [honest_rules]:
  "(\<And>x y. honest P (k x y)) \<Longrightarrow> honest P (case p of (x, y) \<Rightarrow> k x y)"
  by (simp split: prod.split)

lemma honest_case_poll [honest_rules]:
  "(\<And>x. honest P (k x)) \<Longrightarrow> honest P m \<Longrightarrow> honest P (case v of Received x \<Rightarrow> k x | TimedOut \<Rightarrow> m)"
  by (simp split: attestation_poll_outcome.split)

lemma honest_case_transfer_status [honest_rules]:
  "honest P a \<Longrightarrow> honest P b \<Longrightarrow> honest P c \<Longrightarrow> honest P d \<Longrightarrow>
   honest P (case v of TransferPending \<Rightarrow> a | TransferProcessing \<Rightarrow> b | TransferComplete \<Rightarrow> c
     | TransferFailed \<Rightarrow> d)"
  by (simp split: transfer_status.split)

lemma honest_case_outcome [honest_rules]:
  "honest P a \<Longrightarrow> honest P b \<Longrightarrow> (\<And>r. honest P (c r)) \<Longrightarrow>
   honest P (case v of OutcomeFilled \<Rightarrow> a | OutcomePending \<Rightarrow> b | OutcomeFailed r \<Rightarrow> c r)"
  by (simp split: crypto_order_outcome.split)

lemma honest_case_ref [honest_rules]:
  "(\<And>x. honest P (a x)) \<Longrightarrow> (\<And>x. honest P (b x)) \<Longrightarrow>
   honest P (case v of AlpacaId x \<Rightarrow> a x | OnchainTx x \<Rightarrow> b x)"
  by (simp split: transfer_ref.split)

text \<open>Calls, commands, loads and amounts fail with errors of their own.\<close>

lemma honest_send [honest_rules]: "honest P (cqrs_send M c)"
  by (rule honestI) (auto simp: cqrs_send_def Let_def split: prod.splits sum.splits commit_outcome.splits)

lemma honest_load [honest_rules]: "honest P (cqrs_load M)"
  unfolding cqrs_load_def
  by (rule honestI) (auto elim!: seqw_cases simp: map_errw_def map_prod_def
      split: prod.splits sum.splits lifecycle.splits)

lemma honest_infallible [honest_rules]: "honest P (on_world (infallible m))"
  by (rule honestI) (auto simp: on_world_def infallible_def split: prod.splits)

lemma honest_now [honest_rules]: "honest P (now_run M)"
  unfolding now_run_def by (rule honest_infallible)

lemma honest_correlation_id [honest_rules]: "honest P (new_correlation_id M)"
  unfolding new_correlation_id_def by (intro honest_rules)

lemma amount_errors [simp]:
  "usdc_to_u256 M a = Inl e \<Longrightarrow> told e l" "u256_to_usdc M n = Inl e \<Longrightarrow> told e l"
  by (auto simp: usdc_to_u256_def u256_to_usdc_def map_err_def split: sum.splits)

lemma conversion_errors [simp]: "conversion_amounts_from_order M order c d = Inl e \<Longrightarrow> told e l"
  by (auto simp: conversion_amounts_from_order_def map_err_def tryr_def ok_or_def
      split: sum.splits option.splits)

subsection \<open>Attestations, conversions and mints\<close>

lemma honest_attestation [honest_rules]:
  "honest P (record_attestation_timeout M i)"
  "honest P (record_attestation M d response)"
  "honest P (poll_cctp_attestation M d h)"
  "honest P (attested_attestation_response M i d h att n message)"
proof -
  show "honest P (record_attestation_timeout M i)"
    unfolding record_attestation_timeout_def attestation_retry_deadline_at_def
    by (intro honest_rules) (auto simp: ok_or_def split: option.splits)
  show "honest P (record_attestation M d response)"
    unfolding record_attestation_def by (intro honest_rules) simp
  show 1: "honest P (poll_cctp_attestation M d h)" for P
    unfolding poll_cctp_attestation_def
    by (intro honest_rules) (simp split: cctp_error.split add: honest_rules)
  show "honest P (attested_attestation_response M i d h att n message)"
    unfolding attested_attestation_response_def by (intro honest_rules 1) simp_all
qed

lemma honest_conversion [honest_rules]:
  "honest P (execute_usd_to_usdc_conversion M a)"
  "honest P (execute_usdc_to_usd_conversion M a)"
proof -
  have recorded: "honest P (record_conversion_or_fail M c order d)" for P c order d
    unfolding record_conversion_or_fail_def
    by (cases "conversion_amounts_from_order M order c d") (auto intro!: honest_rules)
  have placed: "honest P (place_and_confirm_conversion M a d c)" for P a d c
    unfolding place_and_confirm_conversion_def by (intro honest_rules recorded) simp
  show "honest P (execute_usd_to_usdc_conversion M a)"
    "honest P (execute_usdc_to_usd_conversion M a)"
    unfolding execute_usd_to_usdc_conversion_def execute_usdc_to_usd_conversion_def
    by (intro honest_rules placed)+
qed

lemma honest_mint [honest_rules]:
  "honest P (execute_cctp_mint M i response t)"
  "honest P (execute_cctp_mint_on_ethereum M i response t)"
proof -
  have "honest P (mint_and_confirm M i d reason response t)" for d reason
    unfolding mint_and_confirm_def
    by (intro honest_rules) (simp_all split: cctp_error.split add: honest_rules)
  then show "honest P (execute_cctp_mint M i response t)"
    "honest P (execute_cctp_mint_on_ethereum M i response t)"
    by (simp_all add: execute_cctp_mint_def execute_cctp_mint_on_ethereum_def)
qed

subsection \<open>Latches\<close>

abbreviation at_lifecycle :: "('f usdc_rebalance lifecycle \<Rightarrow> bool) \<Rightarrow> ('f, 'w) transfer_state \<Rightarrow> bool" where
  "at_lifecycle P \<equiv> \<lambda>st. P (rebalance st)"

lemma world_keeps_lifecycle [keeps_rules]: "keeps (at_lifecycle P) (on_world m)"
  by (rule keeps_on_world) simp

lemma honest_reads:
  assumes "keeps (at_lifecycle P) m" and "honest P m" and "\<And>x. honest P (k x)"
  shows "honest P (seqw m k)"
proof (rule honest_after [where R = P])
  show "triple (at_lifecycle P) m (\<lambda>_. at_lifecycle P) (\<lambda>e st. told e (rebalance st))"
    using assms(1,2) unfolding keeps_def honest_def triple_def
    by (auto split: prod.splits sum.splits dest!: spec)
qed (rule assms(3))

lemma send_reaches:
  assumes "\<And>now evs s. usdc_transition (fl M) (dbg M) now s c = Inr evs \<Longrightarrow> R (usdc_replay (Live s) evs)"
    and "\<And>now evs. usdc_initialize now c = Inr evs \<Longrightarrow> R (usdc_replay Uninitialized evs)"
  shows "triple (at_lifecycle P) (cqrs_send M c) (\<lambda>_. at_lifecycle R) (\<lambda>e st. told e (rebalance st))"
proof (rule tripleI)
  fix st x st' assume "cqrs_send M c st = (Inr x, st')"
  then obtain evs now where "rebalance st' = usdc_replay (rebalance st) evs"
    "handle usdc_initialize (usdc_transition (fl M) (dbg M)) (rebalance st) now c = Inr evs"
    by (rule cqrs_send_ok)
  with assms show "R (rebalance st')" by (cases "rebalance st") auto
qed (rule honestD [OF honest_send], simp_all)

lemma clear_reaches_latch:
  "triple (at_lifecycle P) (cqrs_send M ClearPendingBurn) (\<lambda>_. at_lifecycle burn_latched)
     (\<lambda>e st. told e (rebalance st))"
  by (rule send_reaches)
    (auto simp: transition_clear_pending_burn_def split: if_splits usdc_rebalance.splits option.splits)

lemma fail_reaches_failed:
  "triple (at_lifecycle P) (cqrs_send M (FailBridging reason)) (\<lambda>_. at_lifecycle rebalance_failed)
     (\<lambda>e st. told e (rebalance st))"
  by (rule send_reaches)
    (auto simp: transition_fail_bridging_def split: if_splits usdc_rebalance.splits option.splits)

lemma begin_withdrawal_reaches_latch:
  "triple (at_lifecycle P) (cqrs_send M (BeginWithdrawal d a b)) (\<lambda>_. at_lifecycle withdrawal_latched)
     (\<lambda>e st. told e (rebalance st))"
proof (rule send_reaches)
  fix now evs s assume "usdc_transition (fl M) (dbg M) now s (BeginWithdrawal d a b) = Inr evs"
  then show "withdrawal_latched (usdc_replay (Live s) evs)" by (cases s) (auto split: if_splits)
qed (auto simp: begin_withdrawal_init_events_def split: if_splits)

lemma record_keeps_latch: "keeps (at_lifecycle burn_latched) (cqrs_send M (RecordPendingBurn h))"
proof (rule keepsI)
  fix st :: "('a, 'b) transfer_state" assume latched: "burn_latched (rebalance st)"
  show "burn_latched (rebalance (snd (cqrs_send M (RecordPendingBurn h) st)))"
  proof (cases rule: cqrs_send_cases [of M "RecordPendingBurn h" st])
    case (recorded r evs now)
    with latched show ?thesis
      by (cases "rebalance st" rule: burn_latched.cases) (auto simp: transition_record_pending_burn_def)
  qed (use latched in simp)
qed

subsection \<open>The burn and the withdrawal\<close>

lemma honest_recording: "honest burn_latched (record_burn_attempts M i h n)"
proof (induction n)
  case 0
  show ?case unfolding record_burn_attempts.simps by (rule honest_failw) simp
next
  case (Suc n)
  have sleep: "honest burn_latched (seqw (on_world (infallible m)) (\<lambda>_. record_burn_attempts M i h n))" for m
    by (rule honest_reads) (intro keeps_rules honest_rules Suc)+
  show ?case
    unfolding record_burn_attempts.simps
    by (intro honest_reads [OF keeps_outcomew [OF record_keeps_latch] honest_outcomew] honest_case_sum
        honest_if honest_retw sleep Suc)
qed

lemma honest_submission [honest_rules]: "honest P (submit_and_record_burn M i d a r)"
proof -
  have "honest burn_latched (case v of BurnSubmitted h \<Rightarrow> record_burn_attempts M i h n
      | BurnSubmitError e \<Rightarrow> if cctp_is_revert e then failw (BurnRevert e) else failw (BurnSubmitInconclusive i)
      | BurnSubmitElapsed \<Rightarrow> failw (BurnSubmitInconclusive i)
      | BurnTaskPanicked \<Rightarrow> failw (BurnRecordTaskFailed i))" for v n
    by (cases v) (auto simp only: burn_submission.case burn_latched.simps told.simps
        intro!: honest_recording honest_if honest_failw)
  then show ?thesis
    unfolding submit_and_record_burn_def
    by (intro honest_after [OF clear_reaches_latch] honest_reads keeps_rules honest_rules)
qed

lemma honest_burn [honest_rules]: "honest P (burn_recording_pending M i d a r)"
  unfolding burn_recording_pending_def by (intro honest_rules) simp_all

lemma honest_record_cctp_burn [honest_rules]: "honest P (record_cctp_burn M receipt)"
  unfolding record_cctp_burn_def by (intro honest_rules)

lemma honest_begin_and_burn [honest_rules]:
  "honest P (execute_cctp_burn_on_base M i a)" "honest P (execute_cctp_burn_on_ethereum M i a b)"
  unfolding execute_cctp_burn_on_base_def execute_cctp_burn_on_ethereum_def begin_and_burn_def
  by (intro honest_rules; simp)+

lemma honest_check_pending: "honest burn_latched (check_pending_burn M i d a p)"
proof -
  have "honest burn_latched (case v of
      MinedSuccess \<Rightarrow> seqw (map_errw Cctp (on_world m)) (\<lambda>receipt. retw (Some receipt))
    | BurnPending \<Rightarrow> failw (SettlementCheckTransient i e) | MinedReverted \<Rightarrow> retw None
    | BurnDropped \<Rightarrow> failw (BurnTxDropped i h))" for v m e h
    by (cases v) (auto simp only: burn_tx_status.case told.simps intro!: honest_rules)
  then show ?thesis
    unfolding check_pending_burn_def
    by (intro honest_case_option honest_retw honest_reads keeps_rules honest_map_errw) simp_all
qed

lemma check_pending_reads: "keeps (at_lifecycle P) (check_pending_burn M i d a p)"
  unfolding check_pending_burn_def by (intro keeps_rules)

lemma honest_resume_burn: "honest burn_latched (resume_burn M i d a fb p)"
proof -
  have "honest burn_latched (case r of
      Inr (Some h) \<Rightarrow> record_cctp_burn M (f h)
    | Inr None \<Rightarrow> if b then seqw (burn_recording_pending M i d a rc) (record_cctp_burn M)
        else failw (BurnSubmitInconclusive i)
    | Inl (CctpScanInconclusive n) \<Rightarrow> failw (SettlementCheckTransient i (CctpScanInconclusive n))
    | Inl error \<Rightarrow> failw (Cctp error))" for r f b rc
    by (auto split: sum.split option.split cctp_error.split intro!: honest_rules)
  then have scanned: "honest burn_latched (seqw (outcomew (on_world m)) (\<lambda>r. case r of
      Inr (Some h) \<Rightarrow> record_cctp_burn M (f h)
    | Inr None \<Rightarrow> if b then seqw (burn_recording_pending M i d a rc) (record_cctp_burn M)
        else failw (BurnSubmitInconclusive i)
    | Inl (CctpScanInconclusive n) \<Rightarrow> failw (SettlementCheckTransient i (CctpScanInconclusive n))
    | Inl error \<Rightarrow> failw (Cctp error)))" for m f b rc
    by (rule honest_reads [rotated 2]) (intro keeps_rules honest_outcomew)+
  show ?thesis
    unfolding resume_burn_def
    by (intro honest_reads [OF check_pending_reads honest_check_pending] honest_case_option scanned
        honest_record_cctp_burn)
qed

lemma honest_record_vault_withdrawal [honest_rules]: "honest P (record_vault_withdrawal M a h)"
  unfolding record_vault_withdrawal_def by (intro honest_rules)

lemma honest_issue_vault_withdrawal: "honest withdrawal_latched (issue_vault_withdrawal M a raw)"
  unfolding issue_vault_withdrawal_def
proof (intro honest_seqw honest_map_errw_at honest_record_vault_withdrawal)
  show "withdrawal_latched l \<Longrightarrow> told (classify_vault_withdrawal_error e) l" for e and l :: "'a usdc_rebalance lifecycle"
    by (cases e) simp_all
qed

lemma honest_withdraw_from_vault [honest_rules]: "honest P (withdraw_from_vault M a raw)"
  unfolding withdraw_from_vault_def
  by (intro honest_seqw honest_after [OF begin_withdrawal_reaches_latch] honest_issue_vault_withdrawal)
    (intro honest_rules, simp)

lemma honest_resume_withdrawal:
  "honest withdrawal_latched (resume_withdrawal_submitting M i a raw fb)"
  unfolding resume_withdrawal_submitting_def
  by (rule honest_reads)
    (intro keeps_rules honest_rules honest_issue_vault_withdrawal; simp)+

subsection \<open>The flows\<close>

lemma honest_deadline [honest_rules]: "honest P (poll_cctp_attestation_until_deadline M i d h t)"
  unfolding poll_cctp_attestation_until_deadline_def
  by (intro honest_seqw honest_now honest_if honest_after [OF fail_reaches_failed] honest_failw
      honest_attestation) simp

lemma honest_received_amount [honest_rules]: "honest P (received_burn_amount M i a)"
  unfolding received_burn_amount_def
  by (intro honest_seqw honest_if honest_after [OF fail_reaches_failed] honest_failw honest_resultw
      honest_map_errw honest_retw) simp_all

lemma honest_withdrawal [honest_rules]:
  "honest P (initiate_alpaca_withdrawal M a)"
  "honest P (require_withdrawal_confirmed M i h)"
  "honest P (poll_and_confirm_withdrawal M i tid t)"
  unfolding initiate_alpaca_withdrawal_def poll_and_confirm_withdrawal_def
    require_withdrawal_confirmed_def
  by (intro honest_rules; auto simp: map_err_def split: sum.splits)+

lemma honest_deposit [honest_rules]:
  "honest P (continue_alpaca_to_base_from_bridged M b)"
  "honest P (reverify_vault_deposit M h)"
  unfolding continue_alpaca_to_base_from_bridged_def deposit_to_vault_def confirm_deposit_def
    reverify_vault_deposit_def
  by (intro honest_rules; simp)+

lemma mint_scan_told: "told (redrive_on_mint_scan_failure i e t) l"
  by (simp add: redrive_on_mint_scan_failure_def)

lemma honest_alpaca_to_base_tail [honest_rules]:
  "honest P (continue_alpaca_to_base_from_bridging M i h t)"
  "honest P (continue_alpaca_to_base_from_awaiting_attestation M i a h t t')"
  "honest P (continue_alpaca_to_base_from_attested M i h att n message sb t)"
  unfolding continue_alpaca_to_base_from_bridging_def mint_and_deposit_def
    continue_alpaca_to_base_from_awaiting_attestation_def continue_alpaca_to_base_from_attested_def
  by (intro honest_rules mint_scan_told; simp)+

lemma honest_alpaca_to_base_withdrawn [honest_rules]:
  "honest P (continue_alpaca_to_base_from_withdrawal_complete M i a h t)"
  unfolding continue_alpaca_to_base_from_withdrawal_complete_def by (intro honest_rules; simp)

lemma honest_alpaca_to_base [honest_rules]:
  "honest P (continue_alpaca_to_base_from_conversion_complete M i a t)"
  "honest P (execute_alpaca_to_base M i a)"
  unfolding continue_alpaca_to_base_from_conversion_complete_def execute_alpaca_to_base_def
  by (intro honest_rules)+

lemma honest_alpaca_deposit [honest_rules]:
  "honest P (poll_alpaca_deposit_and_confirm M h)"
  "honest P (continue_from_bridged_fresh M a)"
  "honest P (continue_from_bridged_resume M a h)"
proof -
  show polled: "honest P (poll_alpaca_deposit_and_confirm M h)" for P h
    unfolding poll_alpaca_deposit_and_confirm_def by (intro honest_rules; simp)
  have finished: "honest P (finish_deposit M a h)" for P a h
    unfolding finish_deposit_def by (intro honest_rules polled)
  show "honest P (continue_from_bridged_fresh M a)" "honest P (continue_from_bridged_resume M a h)"
    unfolding continue_from_bridged_fresh_def continue_from_bridged_resume_def
      send_alpaca_deposit_def send_or_adopt_alpaca_deposit_def fetch_alpaca_deposit_address_def
    by (intro honest_rules finished; simp)+
qed

lemma honest_base_to_alpaca_tail [honest_rules]:
  "honest P (continue_from_bridging M i a h t)"
  "honest P (continue_from_awaiting_attestation M i a h t t')"
  "honest P (continue_from_attested M i h att n message sb t)"
  "honest P (resume_converting M i c)"
  unfolding continue_from_bridging_def continue_from_awaiting_attestation_def
    continue_from_attested_def resume_converting_def mint_and_continue_def
  by (intro honest_rules mint_scan_told; simp)+

lemma honest_base_to_alpaca_withdrawn [honest_rules]:
  "honest P (continue_from_withdrawal_complete M i a t)"
  "honest P (execute_base_to_alpaca M i a)"
  unfolding continue_from_withdrawal_complete_def execute_base_to_alpaca_def
  by (intro honest_rules; simp)+

lemma honest_recovery: "honest rebalance_failed (recover_from_bridging_failed M i h t)"
  unfolding recover_from_bridging_failed_def
  by (intro honest_rules; simp split: cctp_error.split)

lemma honest_pre: "honest Q m \<Longrightarrow> (\<And>l. P l \<Longrightarrow> Q l) \<Longrightarrow> honest P m"
  unfolding honest_def by (erule triple_pre) blast

lemma honest_resultw_seqw:
  "(\<And>e l. r = Inl e \<Longrightarrow> told e l) \<Longrightarrow> (\<And>x. honest P (k x)) \<Longrightarrow> honest P (seqw (resultw r) k)"
  by (rule honest_reads) (auto intro: keeps_rules honest_rules)

lemma require_told [simp]: "require_base_to_alpaca i d = Inl e \<Longrightarrow> told e l"
  by (auto simp: require_base_to_alpaca_def split: if_splits)

lemma honest_resume_bridging:
  "honest (\<lambda>l. l = Live (BridgingSubmitting d' a' b' t' ba p')) (resume_bridging_submitting M i a fb p)"
  "honest (\<lambda>l. l = Live (BridgingSubmitting d' a' b' t' ba p')) (resume_bridging_submitting_ethereum M i a fb p)"
  unfolding resume_bridging_submitting_def resume_bridging_submitting_ethereum_def
  by (rule honest_pre [OF honest_resume_burn], simp)+

lemma honest_resume_withdrawal_at:
  "honest (\<lambda>l. l = Live (WithdrawalSubmitting d' a' b' t')) (resume_withdrawal_submitting M i a raw fb)"
  by (rule honest_pre [OF honest_resume_withdrawal]) simp

lemma honest_recovery_at:
  "honest (\<lambda>l. l = Live (BridgingFailed d' a' b' c' r' t' f')) (recover_from_bridging_failed M i h t)"
  by (rule honest_pre [OF honest_recovery]) simp

lemma honest_drive_base_to_alpaca: "honest (\<lambda>l. l = Live s) (drive_base_to_alpaca M i s)"
  by (induction M i s rule: drive_base_to_alpaca.induct; unfold drive_base_to_alpaca.simps)
    ((intro honest_resultw_seqw honest_seqw [OF honest_resume_bridging(1)]
        honest_seqw [OF honest_resume_withdrawal_at] honest_recovery_at honest_rules; simp)+)

lemma honest_drive_alpaca_to_base: "honest (\<lambda>l. l = Live s) (drive_alpaca_to_base M i s)"
  by (induction M i s rule: drive_alpaca_to_base.induct; unfold drive_alpaca_to_base.simps)
    ((intro honest_resultw_seqw honest_seqw [OF honest_resume_bridging(2)] honest_rules;
      simp split: option.splits)+)

lemma run_honest: "honest anywhere (run_transfer M i d a)"
proof -
  have load: "triple (at_lifecycle anywhere) (cqrs_load M) (\<lambda>x st. loaded x st)
      (\<lambda>e st. told e (rebalance st))"
    unfolding triple_def using load_triple [of "\<lambda>_. True" M] honestD [OF honest_load, of anywhere _ M]
    by (auto simp: keepsI triple_def split: prod.splits sum.splits dest!: spec)
  have live: "honest (\<lambda>l. l = Live s) m \<Longrightarrow> triple (\<lambda>st. loaded (Some s) st) m (\<lambda>_ _. True)
      (\<lambda>e st. told e (rebalance st))" for s m
    by (simp add: honest_def loaded_def)
  have fresh: "honest anywhere m \<Longrightarrow> triple (\<lambda>st. loaded None st) m (\<lambda>_ _. True)
      (\<lambda>e st. told e (rebalance st))" for m
    unfolding honest_def by (erule triple_pre) simp
  show ?thesis
  proof (cases d)
    case AlpacaToBase
    show ?thesis
      unfolding AlpacaToBase run_transfer.simps resume_alpaca_to_base_def honest_def
      by (rule triple_seqw [OF load], rename_tac x, case_tac x)
        (simp_all only: option.case live fresh honest_drive_alpaca_to_base honest_alpaca_to_base)
  next
    case BaseToAlpaca
    show ?thesis
      unfolding BaseToAlpaca run_transfer.simps resume_base_to_alpaca_def honest_def
      by (rule triple_seqw [OF load], rename_tac x, case_tac x)
        (simp_all only: option.case live fresh honest_drive_base_to_alpaca honest_base_to_alpaca_withdrawn)
  qed
qed

end
