(* ===== verification/Cash_Jobs.thy ===== *)
theory Cash_Jobs
  imports Cash_Errors Cash_Safety
begin

text \<open>
  The queued jobs that drive a USDC transfer (\<^verbatim>\<open>rebalancing/usdc/job.rs\<close>): each attempt runs
  the orchestrator once and, by the error it returns, redrives the transfer, leaves it to an operator
  or fails. A job that ends well never loses its transfer, redrives on a budget are counted, and no
  schedule of jobs burns twice.
\<close>

section \<open>Delays and deadlines\<close>

text \<open>Durations are in seconds.\<close>

definition ATTESTATION_REDRIVE_DELAY :: duration where "ATTESTATION_REDRIVE_DELAY = 60"
definition BURN_REVERT_REDRIVE_DELAY :: duration where "BURN_REVERT_REDRIVE_DELAY = 15"
definition TIMEOUT_REDRIVE_DELAY :: duration where "TIMEOUT_REDRIVE_DELAY = 30"
definition SETTLEMENT_REDRIVE_DELAY :: duration where "SETTLEMENT_REDRIVE_DELAY = 30"
definition WITHDRAWAL_POLL_REDRIVE_DELAY :: duration where "WITHDRAWAL_POLL_REDRIVE_DELAY = 30"
definition WITHDRAWAL_POLL_ALERT_DEADLINE :: duration where
  "WITHDRAWAL_POLL_ALERT_DEADLINE = 4 * 60 * 60"
definition WITHDRAWAL_POLL_POST_DEADLINE_REDRIVE_DELAY :: duration where
  "WITHDRAWAL_POLL_POST_DEADLINE_REDRIVE_DELAY = 30 * 60"
definition MINT_RECOVERY_ALERT_DEADLINE :: duration where
  "MINT_RECOVERY_ALERT_DEADLINE = 4 * 60 * 60"
definition MINT_RECOVERY_REDRIVE_DELAY :: duration where "MINT_RECOVERY_REDRIVE_DELAY = 30"
definition MINT_RECOVERY_POST_DEADLINE_REDRIVE_DELAY :: duration where
  "MINT_RECOVERY_POST_DEADLINE_REDRIVE_DELAY = 30 * 60"

definition warn_threshold :: "u32 \<Rightarrow> u32 option" where
  "warn_threshold max_redrives =
     (let threshold = max_redrives div 2 + 1
      in if threshold < max_redrives then Some threshold else None)"

text \<open>There is an early warning exactly when the limit leaves room for one before the last redrive.\<close>

lemma warn_threshold_iff: "(\<exists>t. warn_threshold m = Some t) \<longleftrightarrow> 3 \<le> m"
  and warn_threshold_below: "warn_threshold m = Some t \<Longrightarrow> 0 < t \<and> t < m"
proof -
  have next_half: "unat (m div 2 + 1) = unat m div 2 + 1"
    using unsigned_less [of m, where ?'a = nat] by (simp add: unat_word_ariths unat_div)
  then show "(\<exists>t. warn_threshold m = Some t) \<longleftrightarrow> 3 \<le> m"
    by (simp add: warn_threshold_def Let_def word_less_nat_alt word_le_nat_alt) presburger
  show "warn_threshold m = Some t \<Longrightarrow> 0 < t \<and> t < m"
    using next_half by (auto simp: warn_threshold_def Let_def word_less_nat_alt split: if_splits)
qed

definition deadline_elapsed :: "duration option \<Rightarrow> duration \<Rightarrow> duration option" where
  "deadline_elapsed elapsed deadline =
     (case elapsed of None \<Rightarrow> None | Some d \<Rightarrow> if deadline \<le> d then Some d else None)"

text \<open>
  \<^verbatim>\<open>Utc::now().signed_duration_since(initiated_at).to_std().ok()\<close>: nothing for a start in the
  future.
\<close>

definition elapsed_since :: "timestamp \<Rightarrow> timestamp \<Rightarrow> duration option" where
  "elapsed_since now initiated_at =
     (if initiated_at \<le> now then Some (nat (now - initiated_at)) else None)"

section \<open>Jobs\<close>

text \<open>The payloads of the two jobs, one per direction, have the same fields.\<close>

record 'f transfer_usdc =
  job_id :: usdc_rebalance_id
  job_amount :: "'f usdc"
  revert_redrive_attempts :: u32

datatype 'f transfer_job_error =
    TransferFault "'f usdc_transfer_error"
  | BurnRevertLimitReached usdc_rebalance_id
  | TimeoutLimitReached usdc_rebalance_id
  | Enqueue string

text \<open>The messages sent to the operator, each by the values its text is made from.\<close>

datatype 'f usdc_alert =
    MintRecoveryAlert rebalance_direction usdc_rebalance_id duration cctp_error
  | WithdrawalPollAlert usdc_rebalance_id duration alpaca_wallet_error
  | AttestationDeadlineAlert usdc_rebalance_id
  | AmbientBalanceAlert usdc_rebalance_id "'f usdc" "'f usdc"
  | DroppedBurnAlert usdc_rebalance_id tx_hash
  | UnrecordedBurnAlert usdc_rebalance_id tx_hash
  | InconclusiveBurnAlert usdc_rebalance_id
  | VaultLiquidityAlert usdc_rebalance_id "'f usdc_transfer_error"
  | TerminalErrorAlert usdc_rebalance_id "'f usdc_transfer_error"
  | TimeoutLimitAlert usdc_rebalance_id u32
  | TimeoutWarnAlert usdc_rebalance_id u32 u32
  | BurnRevertLimitAlert usdc_rebalance_id u32 u32
  | BurnRevertWarnAlert usdc_rebalance_id u32 u32

text \<open>
  The context of a job. An attempt to the hedging venue runs under a time limit:
  \<open>timeout_elapsed\<close> says whether it was reached. Where it was, the attempt was dropped at one of its
  calls; the calls and commits it did not come to are ones that failed without effect, and its result
  is discarded.
\<close>

record ('f, 'w) transfer_job_ctx =
  job_transfer :: "('f, 'w) cash_transfer"
  timeout_elapsed :: "'w \<Rightarrow> bool \<times> 'w"
  queue_push :: "'w \<Rightarrow> commit_outcome \<times> 'w"
  notifier_notify :: "'f usdc_alert \<Rightarrow> 'w \<Rightarrow> 'w"
  max_burn_revert_redrives :: u32

text \<open>The transfer, the jobs pushed for it so far with their delays, and the messages sent.\<close>

record ('f, 'w) job_state =
  transfer :: "('f, 'w) transfer_state"
  pushed :: "(rebalance_direction \<times> 'f transfer_usdc \<times> duration) list"
  pages :: "'f usdc_alert list"

type_synonym ('f, 'w, 'a) attempt = "(('f, 'w) job_state, 'f transfer_job_error, 'a) effect"

definition on_transfer ::
  "(('f, 'w) transfer_state, 'e, 'a) effect \<Rightarrow> (('f, 'w) job_state, 'e, 'a) effect" where
  "on_transfer m st = (case m (transfer st) of (r, t) \<Rightarrow> (r, st\<lparr>transfer := t\<rparr>))"

text \<open>A failed notification is only logged.\<close>

definition notify :: "('f, 'w) transfer_job_ctx \<Rightarrow> 'f usdc_alert \<Rightarrow> ('f, 'w, unit) attempt" where
  "notify C message st = (Inr (), st\<lparr>
     transfer := (transfer st)\<lparr>world := notifier_notify C message (world (transfer st))\<rparr>,
     pages := pages st @ [message]\<rparr>)"

definition push_with_delay ::
  "('f, 'w) transfer_job_ctx \<Rightarrow> rebalance_direction \<Rightarrow> 'f transfer_usdc \<Rightarrow> duration \<Rightarrow>
   ('f, 'w, unit) attempt" where
  "push_with_delay C d job delay st =
     (case queue_push C (world (transfer st)) of (outcome, w) \<Rightarrow>
        let unqueued = st\<lparr>transfer := (transfer st)\<lparr>world := w\<rparr>\<rparr>;
            queued = unqueued\<lparr>pushed := pushed st @ [(d, job, delay)]\<rparr>
        in (case outcome of
              Committed \<Rightarrow> (Inr (), queued)
            | NotCommitted e \<Rightarrow> (Inl (Enqueue e), unqueued)
            | CommittedUnacknowledged e \<Rightarrow> (Inl (Enqueue e), queued)))"

section \<open>Redrives\<close>

definition schedule_mint_recovery_redrive ::
  "('f, 'w) transfer_job_ctx \<Rightarrow> 'f transfer_usdc \<Rightarrow> rebalance_direction \<Rightarrow> usdc_rebalance_id \<Rightarrow>
   timestamp \<Rightarrow> cctp_error \<Rightarrow> ('f, 'w, unit) attempt" where
  "schedule_mint_recovery_redrive C redriven_job direction i initiated_at source =
     seqw (map_errw TransferFault (on_transfer (now_run (job_transfer C)))) (\<lambda>now.
     let alert_deadline_elapsed =
           deadline_elapsed (elapsed_since now initiated_at) MINT_RECOVERY_ALERT_DEADLINE;
         redrive_delay =
           (if alert_deadline_elapsed \<noteq> None then MINT_RECOVERY_POST_DEADLINE_REDRIVE_DELAY
            else MINT_RECOVERY_REDRIVE_DELAY)
     in seqw (case alert_deadline_elapsed of
           None \<Rightarrow> retw ()
         | Some elapsed \<Rightarrow> notify C (MintRecoveryAlert direction i elapsed source)) (\<lambda>_.
       push_with_delay C direction redriven_job redrive_delay))"

definition handle_withdrawal_poll_inconclusive ::
  "('f, 'w) transfer_job_ctx \<Rightarrow> 'f transfer_usdc \<Rightarrow> usdc_rebalance_id \<Rightarrow> timestamp \<Rightarrow>
   alpaca_wallet_error \<Rightarrow> ('f, 'w, unit) attempt" where
  "handle_withdrawal_poll_inconclusive C job i initiated_at source =
     seqw (map_errw TransferFault (on_transfer (now_run (job_transfer C)))) (\<lambda>now.
     let alert_deadline_elapsed =
           deadline_elapsed (elapsed_since now initiated_at) WITHDRAWAL_POLL_ALERT_DEADLINE;
         redrive_delay =
           (if alert_deadline_elapsed \<noteq> None then WITHDRAWAL_POLL_POST_DEADLINE_REDRIVE_DELAY
            else WITHDRAWAL_POLL_REDRIVE_DELAY)
     in seqw (case alert_deadline_elapsed of
           None \<Rightarrow> retw ()
         | Some elapsed \<Rightarrow> notify C (WithdrawalPollAlert i elapsed source)) (\<lambda>_.
       push_with_delay C AlpacaToBase job redrive_delay))"

definition handle_hedging_timeout_redrive ::
  "('f, 'w) transfer_job_ctx \<Rightarrow> 'f transfer_usdc \<Rightarrow> ('f, 'w, unit) attempt" where
  "handle_hedging_timeout_redrive C job =
     (if max_burn_revert_redrives C \<le> revert_redrive_attempts job
      then failw (TimeoutLimitReached (job_id job))
      else
        let next_attempts = revert_redrive_attempts job + 1 in
        seqw (if next_attempts = max_burn_revert_redrives C
              then notify C (TimeoutLimitAlert (job_id job) next_attempts)
              else if warn_threshold (max_burn_revert_redrives C) = Some next_attempts
              then notify C (TimeoutWarnAlert (job_id job) next_attempts (max_burn_revert_redrives C))
              else retw ()) (\<lambda>_.
          push_with_delay C BaseToAlpaca (job\<lparr>revert_redrive_attempts := next_attempts\<rparr>)
            TIMEOUT_REDRIVE_DELAY))"

text \<open>
  \<^verbatim>\<open>handle_hedging_burn_revert_redrive\<close> and \<^verbatim>\<open>handle_mm_burn_revert_redrive\<close> are the
  same code at the two directions.
\<close>

definition burn_revert_redrive ::
  "('f, 'w) transfer_job_ctx \<Rightarrow> rebalance_direction \<Rightarrow> 'f transfer_usdc \<Rightarrow> ('f, 'w, unit) attempt" where
  "burn_revert_redrive C d job =
     (if max_burn_revert_redrives C \<le> revert_redrive_attempts job
      then failw (BurnRevertLimitReached (job_id job))
      else
        let next_attempts = revert_redrive_attempts job + 1 in
        seqw (if next_attempts = max_burn_revert_redrives C
              then notify C (BurnRevertLimitAlert (job_id job) next_attempts (max_burn_revert_redrives C))
              else if warn_threshold (max_burn_revert_redrives C) = Some next_attempts
              then notify C (BurnRevertWarnAlert (job_id job) next_attempts (max_burn_revert_redrives C))
              else retw ()) (\<lambda>_.
          push_with_delay C d (job\<lparr>revert_redrive_attempts := next_attempts\<rparr>)
            BURN_REVERT_REDRIVE_DELAY))"

definition handle_hedging_burn_revert_redrive ::
  "('f, 'w) transfer_job_ctx \<Rightarrow> 'f transfer_usdc \<Rightarrow> ('f, 'w, unit) attempt" where
  "handle_hedging_burn_revert_redrive C = burn_revert_redrive C BaseToAlpaca"

definition handle_mm_burn_revert_redrive ::
  "('f, 'w) transfer_job_ctx \<Rightarrow> 'f transfer_usdc \<Rightarrow> ('f, 'w, unit) attempt" where
  "handle_mm_burn_revert_redrive C = burn_revert_redrive C AlpacaToBase"

section \<open>Attempts\<close>

text \<open>The arms of \<^verbatim>\<open>TransferUsdcToHedging::perform\<close>.\<close>

fun hedging_failed ::
  "('f, 'w) transfer_job_ctx \<Rightarrow> 'f transfer_usdc \<Rightarrow> 'f usdc_transfer_error \<Rightarrow> ('f, 'w, unit) attempt" where
  "hedging_failed C job (AttestationTimedOutError _) =
     push_with_delay C BaseToAlpaca job ATTESTATION_REDRIVE_DELAY"
| "hedging_failed C job (AttestationRetryDeadlineElapsed i) = notify C (AttestationDeadlineAlert i)"
| "hedging_failed C job (PreviouslyFailedAggregate _) = retw ()"
| "hedging_failed C job (SettlementCheckTransient _ _) =
     push_with_delay C BaseToAlpaca job SETTLEMENT_REDRIVE_DELAY"
| "hedging_failed C job (MintRecoveryInconclusive i initiated_at source) =
     schedule_mint_recovery_redrive C job BaseToAlpaca i initiated_at source"
| "hedging_failed C job (BurnRevert _) = handle_hedging_burn_revert_redrive C job"
| "hedging_failed C job (BurnTxDropped i burn) = notify C (DroppedBurnAlert i burn)"
| "hedging_failed C job (BurnRecordFailed i burn) = notify C (UnrecordedBurnAlert i burn)"
| "hedging_failed C job (BurnSubmitInconclusive i) = notify C (InconclusiveBurnAlert i)"
| "hedging_failed C job (BurnRecordTaskFailed i) = notify C (InconclusiveBurnAlert i)"
| "hedging_failed C job (InsufficientVaultLiquidity token requested received) =
     notify C (VaultLiquidityAlert (job_id job) (InsufficientVaultLiquidity token requested received))"
| "hedging_failed C job error =
     seqw (notify C (TerminalErrorAlert (job_id job) error)) (\<lambda>_. failw (TransferFault error))"

definition perform_hedging ::
  "('f, 'w) transfer_job_ctx \<Rightarrow> 'f transfer_usdc \<Rightarrow> ('f, 'w, unit) attempt" where
  "perform_hedging C job =
     seqw (outcomew (on_transfer (resume_base_to_alpaca (job_transfer C) (job_id job) (job_amount job))))
       (\<lambda>result.
     seqw (on_transfer (on_world (infallible (timeout_elapsed C)))) (\<lambda>elapsed.
       if elapsed then handle_hedging_timeout_redrive C job
       else (case result of Inr _ \<Rightarrow> retw () | Inl error \<Rightarrow> hedging_failed C job error)))"

text \<open>The arms of \<^verbatim>\<open>TransferUsdcToMarketMaking::perform\<close>, which has no time limit.\<close>

fun market_making_failed ::
  "('f, 'w) transfer_job_ctx \<Rightarrow> 'f transfer_usdc \<Rightarrow> 'f usdc_transfer_error \<Rightarrow> ('f, 'w, unit) attempt" where
  "market_making_failed C job (AttestationTimedOutError _) =
     push_with_delay C AlpacaToBase job ATTESTATION_REDRIVE_DELAY"
| "market_making_failed C job (WithdrawalTxUnderconfirmed _ _ _ _) =
     push_with_delay C AlpacaToBase job SETTLEMENT_REDRIVE_DELAY"
| "market_making_failed C job (WalletUsdcInsufficient _ _) =
     push_with_delay C AlpacaToBase job SETTLEMENT_REDRIVE_DELAY"
| "market_making_failed C job (SettlementCheckTransient _ _) =
     push_with_delay C AlpacaToBase job SETTLEMENT_REDRIVE_DELAY"
| "market_making_failed C job (MintRecoveryInconclusive i initiated_at source) =
     schedule_mint_recovery_redrive C job AlpacaToBase i initiated_at source"
| "market_making_failed C job (AttestationRetryDeadlineElapsed i) =
     notify C (AttestationDeadlineAlert i)"
| "market_making_failed C job (PreviouslyFailedAggregate _) = retw ()"
| "market_making_failed C job (WalletUsdcAmbientBalance i balance nominal) =
     notify C (AmbientBalanceAlert i balance nominal)"
| "market_making_failed C job (WithdrawalPollInconclusive i initiated_at source) =
     handle_withdrawal_poll_inconclusive C job i initiated_at source"
| "market_making_failed C job (BurnRevert _) = handle_mm_burn_revert_redrive C job"
| "market_making_failed C job (BurnTxDropped i burn) = notify C (DroppedBurnAlert i burn)"
| "market_making_failed C job (BurnRecordFailed i burn) = notify C (UnrecordedBurnAlert i burn)"
| "market_making_failed C job (BurnSubmitInconclusive i) = notify C (InconclusiveBurnAlert i)"
| "market_making_failed C job (BurnRecordTaskFailed i) = notify C (InconclusiveBurnAlert i)"
| "market_making_failed C job error =
     seqw (notify C (TerminalErrorAlert (job_id job) error)) (\<lambda>_. failw (TransferFault error))"

definition perform_market_making ::
  "('f, 'w) transfer_job_ctx \<Rightarrow> 'f transfer_usdc \<Rightarrow> ('f, 'w, unit) attempt" where
  "perform_market_making C job =
     seqw (outcomew (on_transfer (resume_alpaca_to_base (job_transfer C) (job_id job) (job_amount job))))
       (\<lambda>result. case result of Inr _ \<Rightarrow> retw () | Inl error \<Rightarrow> market_making_failed C job error)"

text \<open>A worker performs the jobs of both queues in some order, retries and restarts included.\<close>

fun perform ::
  "('f, 'w) transfer_job_ctx \<Rightarrow> rebalance_direction \<Rightarrow> 'f transfer_usdc \<Rightarrow> ('f, 'w, unit) attempt" where
  "perform C BaseToAlpaca job = perform_hedging C job"
| "perform C AlpacaToBase job = perform_market_making C job"

definition work_all ::
  "('f, 'w) transfer_job_ctx \<Rightarrow> (rebalance_direction \<times> 'f transfer_usdc) list \<Rightarrow>
   ('f, 'w) job_state \<Rightarrow> ('f, 'w) job_state" where
  "work_all C jobs st = foldl (\<lambda>st (d, job). snd (perform C d job st)) st jobs"

section \<open>Redrives and their budget\<close>

text \<open>A redrive is for the same transfer and amount, and counts up while the budget lasts or not at all.\<close>

definition successor ::
  "('f, 'w) transfer_job_ctx \<Rightarrow> 'f transfer_usdc \<Rightarrow> 'f transfer_usdc \<Rightarrow> bool" where
  "successor C job job' \<longleftrightarrow> job_id job' = job_id job \<and> job_amount job' = job_amount job \<and>
     (revert_redrive_attempts job' = revert_redrive_attempts job \<or>
      revert_redrive_attempts job < max_burn_revert_redrives C \<and>
      revert_redrive_attempts job' = revert_redrive_attempts job + 1)"

definition redriven ::
  "('f, 'w) transfer_job_ctx \<Rightarrow> rebalance_direction \<Rightarrow> 'f transfer_usdc \<Rightarrow>
   (rebalance_direction \<times> 'f transfer_usdc \<times> duration) list \<Rightarrow> ('f, 'w) job_state \<Rightarrow> bool" where
  "redriven C d job ps st \<longleftrightarrow>
     (\<exists>job' delay. pushed st = ps @ [(d, job', delay)] \<and> successor C job job')"

abbreviation unpushed ::
  "(rebalance_direction \<times> 'f transfer_usdc \<times> duration) list \<Rightarrow> ('f, 'w) job_state \<Rightarrow> bool" where
  "unpushed ps \<equiv> \<lambda>st. pushed st = ps"

definition pushing ::
  "('f, 'w) transfer_job_ctx \<Rightarrow> rebalance_direction \<Rightarrow> 'f transfer_usdc \<Rightarrow>
   (rebalance_direction \<times> 'f transfer_usdc \<times> duration) list \<Rightarrow> ('f, 'w, 'a) attempt \<Rightarrow> bool" where
  "pushing C d job ps m \<longleftrightarrow> triple (unpushed ps) m (\<lambda>_. redriven C d job ps)
     (\<lambda>_ st. unpushed ps st \<or> redriven C d job ps st)"

named_theorems pushing_rules \<open>rules for attempts that redrive their transfer\<close>

lemma pushing_push [pushing_rules]:
  assumes "successor C job job'"
  shows "pushing C d job ps (push_with_delay C d job' delay)"
  unfolding pushing_def
  by (rule tripleI) (use assms in \<open>auto simp: push_with_delay_def redriven_def Let_def
      split: prod.splits commit_outcome.splits\<close>)

lemma pushing_failw [pushing_rules]: "pushing C d job ps (failw e)"
  unfolding pushing_def by (rule tripleI) simp_all

lemma pushing_seqw [pushing_rules]:
  assumes "keeps (unpushed ps) m" and "\<And>x. pushing C d job ps (k x)"
  shows "pushing C d job ps (seqw m k)"
  unfolding pushing_def
proof (rule triple_seqw)
  show "triple (unpushed ps) m (\<lambda>_. unpushed ps) (\<lambda>_ st. unpushed ps st \<or> redriven C d job ps st)"
    using assms(1) unfolding keeps_def by (rule triple_weaken) auto
qed (use assms(2) in \<open>simp add: pushing_def\<close>)

lemma pushing_if [pushing_rules]:
  "(b \<Longrightarrow> pushing C d job ps m) \<Longrightarrow> (\<not> b \<Longrightarrow> pushing C d job ps n) \<Longrightarrow>
   pushing C d job ps (if b then m else n)"
  by simp

lemma pushing_Let [pushing_rules]: "(\<And>x. x = v \<Longrightarrow> pushing C d job ps (k x)) \<Longrightarrow> pushing C d job ps (Let v k)"
  by (simp add: Let_def)

lemma notify_unpushed [keeps_rules]: "keeps (unpushed ps) (notify C message)"
  by (rule keepsI) (simp add: notify_def)

lemma on_transfer_unpushed [keeps_rules]: "keeps (unpushed ps) (on_transfer m)"
  by (rule keepsI) (simp add: on_transfer_def case_prod_beta)

lemma successor_refl [simp]: "successor C job job"
  by (simp add: successor_def)

lemma successor_counted:
  "\<not> max_burn_revert_redrives C \<le> revert_redrive_attempts job \<Longrightarrow>
   successor C job (job\<lparr>revert_redrive_attempts := revert_redrive_attempts job + 1\<rparr>)"
  by (simp add: successor_def)

lemma pushing_handlers [pushing_rules]:
  "pushing C d job ps (schedule_mint_recovery_redrive C job d i t e)"
  "pushing C AlpacaToBase job ps (handle_withdrawal_poll_inconclusive C job i t e')"
  "pushing C BaseToAlpaca job ps (handle_hedging_timeout_redrive C job)"
  "pushing C BaseToAlpaca job ps (handle_hedging_burn_revert_redrive C job)"
  "pushing C AlpacaToBase job ps (handle_mm_burn_revert_redrive C job)"
  unfolding schedule_mint_recovery_redrive_def handle_withdrawal_poll_inconclusive_def
    handle_hedging_timeout_redrive_def handle_hedging_burn_revert_redrive_def
    handle_mm_burn_revert_redrive_def burn_revert_redrive_def
  by (intro pushing_rules keeps_rules; simp add: successor_counted)+

definition at_most_pushing ::
  "('f, 'w) transfer_job_ctx \<Rightarrow> rebalance_direction \<Rightarrow> 'f transfer_usdc \<Rightarrow>
   (rebalance_direction \<times> 'f transfer_usdc \<times> duration) list \<Rightarrow> ('f, 'w, 'a) attempt \<Rightarrow> bool" where
  "at_most_pushing C d job ps m \<longleftrightarrow>
     triple (unpushed ps) m (\<lambda>_ st. unpushed ps st \<or> redriven C d job ps st)
       (\<lambda>_ st. unpushed ps st \<or> redriven C d job ps st)"

named_theorems at_most_rules \<open>rules for attempts that redrive their transfer at most once\<close>

lemma pushing_at_most: "pushing C d job ps m \<Longrightarrow> at_most_pushing C d job ps m"
  unfolding pushing_def at_most_pushing_def by (erule triple_weaken) auto

lemma unpushed_at_most: "keeps (unpushed ps) m \<Longrightarrow> at_most_pushing C d job ps m"
  unfolding keeps_def at_most_pushing_def by (erule triple_weaken) auto

lemma at_most_seqw:
  assumes "keeps (unpushed ps) m" and "\<And>x. at_most_pushing C d job ps (k x)"
  shows "at_most_pushing C d job ps (seqw m k)"
  unfolding at_most_pushing_def
proof (rule triple_seqw)
  show "triple (unpushed ps) m (\<lambda>_. unpushed ps) (\<lambda>_ st. unpushed ps st \<or> redriven C d job ps st)"
    using assms(1) unfolding keeps_def by (rule triple_weaken) auto
qed (use assms(2) in \<open>simp add: at_most_pushing_def\<close>)

lemma at_most_arms [at_most_rules]:
  "at_most_pushing C d job ps (notify C message)"
  "at_most_pushing C d job ps (retw u)"
  "at_most_pushing C d job ps (seqw (notify C message) (\<lambda>_. failw e))"
  "at_most_pushing C d job ps (push_with_delay C d job delay)"
  by (rule unpushed_at_most, intro keeps_rules)+
    (rule pushing_at_most, intro pushing_rules successor_refl)

lemmas handlers_at_most [at_most_rules] = pushing_handlers [THEN pushing_at_most]

lemma failed_pushes_at_most_one [at_most_rules]:
  "at_most_pushing C BaseToAlpaca job ps (hedging_failed C job e)"
  "at_most_pushing C AlpacaToBase job ps (market_making_failed C job e)"
  by (cases e; simp only: hedging_failed.simps; intro at_most_rules)
    (cases e; simp only: market_making_failed.simps; intro at_most_rules)

lemma perform_pushes_at_most_one: "at_most_pushing C d job ps (perform C d job)"
proof (cases d)
  case BaseToAlpaca
  have "at_most_pushing C BaseToAlpaca job ps (if b then handle_hedging_timeout_redrive C job
      else case r of Inr _ \<Rightarrow> retw () | Inl e \<Rightarrow> hedging_failed C job e)" for b r
    by (cases r; cases b; simp only: sum.case if_True if_False; intro at_most_rules)
  then show ?thesis
    unfolding BaseToAlpaca perform.simps perform_hedging_def by (intro at_most_seqw keeps_rules)
next
  case AlpacaToBase
  have "at_most_pushing C AlpacaToBase job ps
      (case r of Inr _ \<Rightarrow> retw () | Inl e \<Rightarrow> market_making_failed C job e)" for r
    by (cases r; simp only: sum.case; intro at_most_rules)
  then show ?thesis
    unfolding AlpacaToBase perform.simps perform_market_making_def by (intro at_most_seqw keeps_rules)
qed

section \<open>A job never loses its transfer\<close>

text \<open>
  Where a job may end without a redrive: the transfer is finished or failed, or it waits at a latch
  and the operator was paged.
\<close>

definition settled_or_latched :: "'f usdc_alert list \<Rightarrow> ('f, 'w) job_state \<Rightarrow> bool" where
  "settled_or_latched gs st \<longleftrightarrow>
     finished_state (transfer st) \<or> rebalance_failed (rebalance (transfer st)) \<or>
     (\<exists>message. pages st = gs @ [message]) \<and>
       (burn_latched (rebalance (transfer st)) \<or> withdrawal_latched (rebalance (transfer st)))"

definition untouched ::
  "(rebalance_direction \<times> 'f transfer_usdc \<times> duration) list \<Rightarrow> 'f usdc_alert list \<Rightarrow>
   ('f usdc_rebalance lifecycle \<Rightarrow> bool) \<Rightarrow> ('f, 'w) job_state \<Rightarrow> bool" where
  "untouched ps gs P st \<longleftrightarrow> unpushed ps st \<and> pages st = gs \<and> P (rebalance (transfer st))"

definition accounting ::
  "('f, 'w) transfer_job_ctx \<Rightarrow> rebalance_direction \<Rightarrow> 'f transfer_usdc \<Rightarrow>
   (rebalance_direction \<times> 'f transfer_usdc \<times> duration) list \<Rightarrow> 'f usdc_alert list \<Rightarrow>
   ('f usdc_rebalance lifecycle \<Rightarrow> bool) \<Rightarrow> ('f, 'w, unit) attempt \<Rightarrow> bool" where
  "accounting C d job ps gs P m \<longleftrightarrow>
     triple (untouched ps gs P) m
       (\<lambda>_ st. settled_or_latched gs st \<or> redriven C d job ps st) (\<lambda>_ _. True)"

named_theorems accounting_rules \<open>rules for attempts that never lose their transfer\<close>

lemma pushing_accounts: "pushing C d job ps m \<Longrightarrow> accounting C d job ps gs P m"
  unfolding pushing_def accounting_def
  by (rule tripleI) (auto simp: untouched_def dest: triple_Inr)

lemma accounting_arms [accounting_rules]:
  "(\<And>l. P l \<Longrightarrow> burn_latched l \<or> withdrawal_latched l \<or> rebalance_failed l) \<Longrightarrow>
     accounting C d job ps gs P (notify C message)"
  "(\<And>l. P l \<Longrightarrow> rebalance_failed l) \<Longrightarrow> accounting C d job ps gs P (retw ())"
  "accounting C d job ps gs P (seqw (notify C message) (\<lambda>_. failw e))"
  "accounting C d job ps gs P (push_with_delay C d job delay)"
  subgoal unfolding accounting_def by (rule tripleI, auto simp: notify_def settled_or_latched_def untouched_def) blast
  subgoal unfolding accounting_def by (rule tripleI) (auto simp: settled_or_latched_def untouched_def)
  subgoal unfolding accounting_def by (rule tripleI) (auto elim: seqw_cases)
  by (rule pushing_accounts) (intro pushing_rules successor_refl)

lemmas handlers_account [accounting_rules] = pushing_handlers [THEN pushing_accounts]

lemma failed_accounts:
  "accounting C BaseToAlpaca job ps gs (told e) (hedging_failed C job e)"
  "accounting C AlpacaToBase job ps gs (told e) (market_making_failed C job e)"
  by (cases e; simp only: hedging_failed.simps; intro accounting_rules; simp)
    (cases e; simp only: market_making_failed.simps; intro accounting_rules; simp)

text \<open>What an attempt finds after the run: it finished the transfer, or its error tells where it is.\<close>

fun attempted :: "'f usdc_transfer_error + unit \<Rightarrow> 'f usdc_rebalance lifecycle \<Rightarrow> bool" where
  "attempted (Inr _) l = (\<exists>s. l = Live s \<and> finished s)"
| "attempted (Inl e) l = told e l"

lemma run_attempted:
  "triple (untouched ps gs anywhere) (outcomew (on_transfer (run_transfer M i d a)))
     (\<lambda>r. untouched ps gs (attempted r)) (\<lambda>_ _. True)"
proof (rule triple_outcomew, rule tripleI)
  fix st x st' assume "untouched ps gs anywhere st" and "on_transfer (run_transfer M i d a) st = (Inr x, st')"
  then show "untouched ps gs (attempted (Inr x)) st'"
    using endsD [OF run_ends [of M i d a], of "transfer st"]
    by (auto simp: untouched_def on_transfer_def finished_state_def split: prod.splits)
next
  fix st e st' assume "untouched ps gs anywhere st" and "on_transfer (run_transfer M i d a) st = (Inl e, st')"
  then show "untouched ps gs (attempted (Inl e)) st'"
    using honestD [OF run_honest [of M i d a], of "transfer st"]
    by (auto simp: untouched_def on_transfer_def split: prod.splits)
qed

lemma timed_untouched:
  "triple (untouched ps gs P) (on_transfer (on_world (infallible m))) (\<lambda>_. untouched ps gs P) (\<lambda>_ _. True)"
  by (rule tripleI) (auto simp: untouched_def on_transfer_def on_world_def infallible_def split: prod.splits)

lemma attempted_accounts:
  "accounting C BaseToAlpaca job ps gs (attempted r) (case r of Inr _ \<Rightarrow> retw () | Inl e \<Rightarrow> hedging_failed C job e)"
  "accounting C AlpacaToBase job ps gs (attempted r) (case r of Inr _ \<Rightarrow> retw () | Inl e \<Rightarrow> market_making_failed C job e)"
proof -
  have "accounting C d job ps gs (attempted (Inr x)) (retw ())" for d x
    unfolding accounting_def by (rule tripleI) (auto simp: settled_or_latched_def finished_state_def untouched_def)
  moreover have "attempted (Inl e) = told e" for e :: "'a usdc_transfer_error" by (simp add: fun_eq_iff)
  ultimately show
    "accounting C BaseToAlpaca job ps gs (attempted r) (case r of Inr _ \<Rightarrow> retw () | Inl e \<Rightarrow> hedging_failed C job e)"
    "accounting C AlpacaToBase job ps gs (attempted r) (case r of Inr _ \<Rightarrow> retw () | Inl e \<Rightarrow> market_making_failed C job e)"
    by (cases r; simp only: sum.case failed_accounts)+
qed

lemma perform_accounts: "accounting C d job ps gs anywhere (perform C d job)"
proof (cases d)
  case BaseToAlpaca
  have "accounting C BaseToAlpaca job ps gs (attempted r) (if b then handle_hedging_timeout_redrive C job
      else case r of Inr _ \<Rightarrow> retw () | Inl e \<Rightarrow> hedging_failed C job e)" for b r
    by (cases b; simp only: if_True if_False attempted_accounts handlers_account)
  then show ?thesis
    unfolding BaseToAlpaca perform.simps perform_hedging_def accounting_def
      run_transfer.simps(2) [symmetric]
    by (intro triple_seqw [OF run_attempted] triple_seqw [OF timed_untouched])
next
  case AlpacaToBase
  show ?thesis
    unfolding AlpacaToBase perform.simps perform_market_making_def accounting_def
      run_transfer.simps(1) [symmetric]
    by (rule triple_seqw [OF run_attempted])
      (rule attempted_accounts(2) [unfolded accounting_def])
qed

text \<open>
  C7. A job that ends well has not lost its transfer. When \<^verbatim>\<open>perform\<close> returns \<^verbatim>\<open>Ok\<close>, whatever the
  run and the services did: the transfer is finished or failed, or exactly one redrive of the same
  transfer and amount is queued, or the operator was paged and the aggregate stands at its recorded
  intent to burn or to withdraw, where no run starts the movement anew without looking.
\<close>

theorem finished_job_accounts_for_transfer:
  assumes "perform C d job st = (Inr (), st')"
  shows "(\<exists>s. rebalance (transfer st') = Live s \<and> (finished s \<or> is_failed_rebalance s)) \<or>
    (\<exists>job' delay. pushed st' = pushed st @ [(d, job', delay)] \<and>
      job_id job' = job_id job \<and> job_amount job' = job_amount job) \<or>
    (\<exists>message. pages st' = pages st @ [message]) \<and>
      (burn_latched (rebalance (transfer st')) \<or> withdrawal_latched (rebalance (transfer st')))"
proof -
  have "settled_or_latched (pages st) st' \<or> redriven C d job (pushed st) st'"
    using triple_Inr [OF perform_accounts [unfolded accounting_def] _ assms]
    by (auto simp: untouched_def)
  moreover have "rebalance_failed l \<Longrightarrow> \<exists>s. l = Live s \<and> is_failed_rebalance s" for l :: "'a usdc_rebalance lifecycle"
    by (cases l) auto
  ultimately show ?thesis
    unfolding settled_or_latched_def finished_state_def redriven_def successor_def by blast
qed

definition queues ::
  "('f, 'w) transfer_job_ctx \<Rightarrow> rebalance_direction \<Rightarrow> 'f transfer_usdc \<Rightarrow> 'f transfer_usdc \<Rightarrow> bool" where
  "queues C d job job' \<longleftrightarrow> (\<exists>st r st' delay. perform C d job st = (r, st') \<and>
     pushed st' = pushed st @ [(d, job', delay)])"

fun counted_redrives :: "'f transfer_usdc list \<Rightarrow> nat" where
  "counted_redrives (job # job' # jobs) =
     (if revert_redrive_attempts job' \<noteq> revert_redrive_attempts job then 1 else 0) +
     counted_redrives (job' # jobs)"
| "counted_redrives _ = 0"

lemma queues_successor: "queues C d job job' \<Longrightarrow> successor C job job'"
proof -
  assume "queues C d job job'"
  then obtain st r st' delay where step: "perform C d job st = (r, st')"
    "pushed st' = pushed st @ [(d, job', delay)]"
    by (auto simp: queues_def)
  have "pushed st' = pushed st \<or> redriven C d job (pushed st) st'"
    using perform_pushes_at_most_one [of C d job "pushed st"] step(1)
    unfolding at_most_pushing_def by (cases r) (auto dest: triple_Inr triple_Inl)
  with step(2) show "successor C job job'" by (auto simp: redriven_def)
qed

lemma unat_successor: "(a :: u32) < b \<Longrightarrow> unat (a + 1) = Suc (unat a)"
  using unsigned_less [of b, where ?'a = nat] by (simp add: word_less_nat_alt unat_word_ariths)


section \<open>Jobs and burns\<close>

text \<open>The queue, the notifier and the clock of the time limit broadcast no burn.\<close>

definition job_laws :: "('f, 'w) transfer_job_ctx \<Rightarrow> ('w \<Rightarrow> tx_hash set) \<Rightarrow> bool" where
  "job_laws C live \<longleftrightarrow> (\<forall>w. live (snd (timeout_elapsed C w)) \<subseteq> live w) \<and>
     (\<forall>w. live (snd (queue_push C w)) \<subseteq> live w) \<and>
     (\<forall>message w. live (notifier_notify C message w) \<subseteq> live w)"

definition job_accounted ::
  "('f, 'w) transfer_job_ctx \<Rightarrow> ('w \<Rightarrow> tx_hash set) \<Rightarrow> ('f, 'w) job_state \<Rightarrow> bool" where
  "job_accounted C live st \<longleftrightarrow> accounted (job_transfer C) live (transfer st)"

lemma accounted_down:
  "accounted M live t \<Longrightarrow> live w \<subseteq> live (world t) \<Longrightarrow> accounted M live (t\<lparr>world := w\<rparr>)"
  by (auto simp: accounted_def intro: burn_inv_down)

lemma on_transfer_accounted:
  "keeps (accounted (job_transfer C) live) m \<Longrightarrow> keeps (job_accounted C live) (on_transfer m)"
  by (rule keepsI) (auto simp: job_accounted_def on_transfer_def split: prod.split dest: keepsD)

lemma calls_accounted:
  assumes "job_laws C live"
  shows "keeps (job_accounted C live) (notify C message)"
    "keeps (job_accounted C live) (push_with_delay C d job delay)"
    "keeps (job_accounted C live) (on_transfer (on_world (infallible (timeout_elapsed C))))"
  using assms
  by (auto intro!: keepsI accounted_down simp: job_laws_def job_accounted_def notify_def
      push_with_delay_def Let_def on_transfer_def on_world_def infallible_def case_prod_beta
      split: commit_outcome.split) blast+

lemma handlers_accounted:
  assumes laws: "job_laws C live"
  shows "keeps (job_accounted C live) (schedule_mint_recovery_redrive C job d i t e)"
    "keeps (job_accounted C live) (handle_withdrawal_poll_inconclusive C job i t e')"
    "keeps (job_accounted C live) (handle_hedging_timeout_redrive C job)"
    "keeps (job_accounted C live) (burn_revert_redrive C d job)"
  unfolding schedule_mint_recovery_redrive_def handle_withdrawal_poll_inconclusive_def
    handle_hedging_timeout_redrive_def burn_revert_redrive_def
  by (intro keeps_rules calls_accounted [OF laws] on_transfer_accounted accounted.now_keeps)+

lemma failed_accounted:
  assumes laws: "job_laws C live"
  shows "keeps (job_accounted C live) (hedging_failed C job e)"
    "keeps (job_accounted C live) (market_making_failed C job e)"
proof -
  note kept = keeps_rules calls_accounted [OF laws] handlers_accounted [OF laws]
  show "keeps (job_accounted C live) (hedging_failed C job e)"
    by (cases e; simp only: hedging_failed.simps handle_hedging_burn_revert_redrive_def; intro kept)
  show "keeps (job_accounted C live) (market_making_failed C job e)"
    by (cases e; simp only: market_making_failed.simps handle_mm_burn_revert_redrive_def; intro kept)
qed

lemma perform_accounted:
  assumes "job_laws C live"
  shows "keeps (job_accounted C live) (perform C d job)"
  using run_accounted [of "job_transfer C" live "job_id job" d "job_amount job"]
  by (cases d; simp only: perform.simps perform_hedging_def perform_market_making_def run_transfer.simps;
      intro keeps_rules on_transfer_accounted calls_accounted handlers_accounted failed_accounted assms)

theorem jobs_burn_at_most_once:
  assumes "burn_laws (job_transfer C) live" and "job_laws C live"
    and "rebalance (transfer st) = Uninitialized" and "live (world (transfer st)) = {}"
  shows "\<exists>h. live (world (transfer (work_all C jobs st))) \<subseteq> {h}"
proof -
  have "job_accounted C live st \<Longrightarrow> job_accounted C live (work_all C jobs st)"
    by (induction jobs arbitrary: st) (auto simp: work_all_def keepsD [OF perform_accounted [OF assms(2)]])
  then have "job_accounted C live (work_all C jobs st)"
    using assms by (simp add: job_accounted_def accounted_def burn_inv_empty)
  with assms(1) show ?thesis by (simp add: job_accounted_def accounted_def burn_inv_def)
qed

section \<open>Two attempts\<close>

text \<open>
  A context with services in which every call succeeds, once without a time limit reached and once
  with; a transfer that is found at its intent to burn with no burn on record.
\<close>

definition demo_ctx :: "bool \<Rightarrow> (rat, demo_world) transfer_job_ctx" where
  "demo_ctx slow = \<lparr>job_transfer = demo_cash, timeout_elapsed = Pair slow, queue_push = Pair Committed,
     notifier_notify = (\<lambda>_ w. w), max_burn_revert_redrives = 3\<rparr>"

definition demo_job :: "u32 \<Rightarrow> rat transfer_usdc" where
  "demo_job n = \<lparr>job_id = UsdcRebalanceId 1, job_amount = Usdc 5, revert_redrive_attempts = n\<rparr>"

definition demo_latched :: "rat usdc_alert list \<Rightarrow> (rat, demo_world) job_state" where
  "demo_latched gs = \<lparr>transfer = \<lparr>rebalance = Live (BridgingSubmitting BaseToAlpaca (Usdc 5) 10 1
       (Some (Usdc 5)) None), world = \<lparr>burns = [], withdrawals = [], sends = []\<rparr>\<rparr>,
     pushed = [], pages = gs\<rparr>"

lemma demo_latched_run:
  "resume_base_to_alpaca demo_cash i (Usdc 5) (transfer (demo_latched gs)) =
     (Inl (BurnSubmitInconclusive i), transfer (demo_latched gs))"
  by (simp add: resume_base_to_alpaca_def cqrs_load_def seqw_def map_errw_def on_world_def
      demo_latched_def resultw_def require_base_to_alpaca_def resume_bridging_submitting_def
      resume_burn_def check_pending_burn_def demo_amounts demo_bridge_def)

lemma demo_attempt:
  "perform (demo_ctx False) BaseToAlpaca (demo_job 0) (demo_latched []) =
     (Inr (), demo_latched [InconclusiveBurnAlert (UsdcRebalanceId 1)])"
  using demo_latched_run [of "UsdcRebalanceId 1" "[]"]
  by (simp add: perform_hedging_def demo_ctx_def demo_job_def seqw_def outcomew_def on_transfer_def
      on_world_def infallible_def notify_def) (simp add: demo_latched_def)

lemma demo_slow_attempt:
  "queues (demo_ctx True) BaseToAlpaca (demo_job 0) (demo_job 1)"
proof -
  have "perform (demo_ctx True) BaseToAlpaca (demo_job 0) (demo_latched []) =
      (Inr (), (demo_latched [])\<lparr>pushed := [(BaseToAlpaca, demo_job 1, TIMEOUT_REDRIVE_DELAY)]\<rparr>)"
    using demo_latched_run [of "UsdcRebalanceId 1" "[]"]
    by (simp add: perform_hedging_def demo_ctx_def demo_job_def seqw_def outcomew_def on_transfer_def
        on_world_def infallible_def handle_hedging_timeout_redrive_def warn_threshold_def
        push_with_delay_def Let_def) (simp add: demo_latched_def)
  then show ?thesis unfolding queues_def by (fastforce simp: demo_latched_def)
qed

theorem finished_job_accounts_for_transfer_witness:
  "(\<exists>s. rebalance (transfer (demo_latched [InconclusiveBurnAlert (UsdcRebalanceId 1)])) = Live s \<and>
      (finished s \<or> is_failed_rebalance s)) \<or>
    (\<exists>job' delay. pushed (demo_latched [InconclusiveBurnAlert (UsdcRebalanceId 1)]) =
      pushed (demo_latched []) @ [(BaseToAlpaca, job', delay)] \<and>
      job_id job' = job_id (demo_job 0) \<and> job_amount job' = job_amount (demo_job 0)) \<or>
    (\<exists>message. pages (demo_latched [InconclusiveBurnAlert (UsdcRebalanceId 1)]) =
      pages (demo_latched []) @ [message]) \<and>
      (burn_latched (rebalance (transfer (demo_latched [InconclusiveBurnAlert (UsdcRebalanceId 1)]))) \<or>
       withdrawal_latched (rebalance (transfer (demo_latched [InconclusiveBurnAlert (UsdcRebalanceId 1)]))))"
  by (rule finished_job_accounts_for_transfer [OF demo_attempt])


theorem jobs_burn_at_most_once_witness:
  "\<exists>h. set (burns (world (transfer (work_all (demo_ctx False) [(BaseToAlpaca, demo_job 0), (AlpacaToBase, demo_job 0)]
     \<lparr>transfer = demo_start, pushed = [], pages = []\<rparr>)))) \<subseteq> {h}"
  by (rule jobs_burn_at_most_once)
    (simp_all add: demo_ctx_def demo_burn_laws job_laws_def demo_start_def)

end
