(* ===== verification/Pnl_Decimal.thy ===== *)
theory Pnl_Decimal
  imports Decimal_Text
begin

text \<open>
  The decimals of the profit-and-loss report (\<^verbatim>\<open>dashboard/pnl/parsing.rs\<close>). Numbers are those of
  the package \<^verbatim>\<open>num_decimal\<close>: a type of the class \<open>linordered_field\<close>, whose operations are exact,
  with its conversion to a fraction and its parser as parameters. Shown: \<^verbatim>\<open>fmt_decimal\<close> prints a
  finite decimal exactly and never panics on one, and sums and products of finite decimals are
  finite decimals.
\<close>

section \<open>The number package\<close>

record 'n num_package =
  num_fraction :: "'n \<Rightarrow> int \<times> int"
  num_from_str :: "string \<Rightarrow> string + 'n"

text \<open>The fraction of a number is in lowest terms over a positive denominator.\<close>

definition num_sem :: "('n :: linordered_field) num_package \<Rightarrow> bool" where
  "num_sem N \<longleftrightarrow> (\<forall>v. case num_fraction N v of (p, q) \<Rightarrow> 0 < q \<and> coprime p q \<and> v * of_int q = of_int p)"

section \<open>Printing\<close>

datatype decimal_fault = NotFiniteDecimal | DoesNotReturn

text \<open>
  The loop divides out a factor while it divides the value, and counts; it would not return on a
  value of zero.
\<close>

partial_function (option) factor_count :: "int \<Rightarrow> int \<Rightarrow> (nat \<times> int) option" where
  "factor_count factor value =
     (if value mod factor = 0
      then Option.bind (factor_count factor (value div factor)) (\<lambda>(count, rest). Some (Suc count, rest))
      else Some (0, value))"

declare factor_count.simps [code]

fun multiply_factor :: "int \<Rightarrow> int \<Rightarrow> nat \<Rightarrow> int" where
  "multiply_factor value factor 0 = value"
| "multiply_factor value factor (Suc count) = multiply_factor (value * factor) factor count"

text \<open>Placing the point \<open>scale\<close> digits from the right and dropping trailing zeros and a bare point.\<close>

definition place_point :: "nat \<Rightarrow> string \<Rightarrow> string" where
  "place_point scale digits =
     (let padded = (if length digits \<le> scale
            then replicate (scale + 1 - length digits) CHR ''0'' @ digits else digits);
          dot_index = length padded - scale;
          dotted = take dot_index padded @ CHR ''.'' # drop dot_index padded;
          trimmed = rev (dropWhile (\<lambda>c. c = CHR ''0'') (rev dotted))
      in if trimmed \<noteq> [] \<and> last trimmed = CHR ''.'' then butlast trimmed else trimmed)"

definition fmt_decimal :: "'n num_package \<Rightarrow> 'n \<Rightarrow> decimal_fault + string" where
  "fmt_decimal N value =
     (case num_fraction N value of (numerator, denominator) \<Rightarrow>
        if numerator = 0 then Inr ''0''
        else
          (case factor_count 2 denominator of
             None \<Rightarrow> Inl DoesNotReturn
           | Some (twos, denominator) \<Rightarrow>
               (case factor_count 5 denominator of
                  None \<Rightarrow> Inl DoesNotReturn
                | Some (fives, denominator) \<Rightarrow>
                    if denominator \<noteq> 1 then Inl NotFiniteDecimal
                    else
                      let scale = max twos fives;
                          scaled = multiply_factor (multiply_factor \<bar>numerator\<bar> 2 (scale - twos)) 5
                            (scale - fives);
                          digits = decimal (nat scaled);
                          digits = (if 0 < scale then place_point scale digits else digits)
                      in Inr (if numerator < 0 then CHR ''-'' # digits else digits))))"

definition abs_decimal :: "'n :: linordered_field \<Rightarrow> 'n" where
  "abs_decimal value = (if value < 0 then - value else value)"

definition min_decimal :: "'n :: linordered_field \<Rightarrow> 'n \<Rightarrow> 'n" where
  "min_decimal left right = (if left \<le> right then left else right)"

lemma abs_decimal_abs [simp]: "abs_decimal v = \<bar>v\<bar>"
  by (simp add: abs_decimal_def)

lemma min_decimal_min [simp]: "min_decimal a b = min a b"
  by (simp add: min_decimal_def min_def)

section \<open>Finite decimals\<close>

definition finite_decimal :: "'n :: linordered_field \<Rightarrow> bool" where
  "finite_decimal v \<longleftrightarrow> (\<exists>k i. v * 10 ^ k = of_int i)"

lemma finite_decimal_0 [simp]: "finite_decimal 0"
  unfolding finite_decimal_def by (rule exI [of _ 0], rule exI [of _ 0]) simp

lemma finite_decimal_of_int [simp]: "finite_decimal (of_int i)"
  unfolding finite_decimal_def by (rule exI [of _ 0], rule exI [of _ i]) simp

lemma finite_decimal_add:
  assumes "finite_decimal a" and "finite_decimal b"
  shows "finite_decimal (a + b)"
proof -
  from assms obtain k i l j where "a * 10 ^ k = of_int i" "b * 10 ^ l = of_int j"
    by (auto simp: finite_decimal_def)
  moreover have "(a + b) * 10 ^ (k + l) = a * 10 ^ k * 10 ^ l + b * 10 ^ l * 10 ^ k"
    by (simp add: power_add algebra_simps)
  ultimately have "(a + b) * 10 ^ (k + l) = of_int (i * 10 ^ l + j * 10 ^ k)" by simp
  then show ?thesis unfolding finite_decimal_def by blast
qed

lemma finite_decimal_mult:
  assumes "finite_decimal a" and "finite_decimal b"
  shows "finite_decimal (a * b)"
proof -
  from assms obtain k i l j where "a * 10 ^ k = of_int i" "b * 10 ^ l = of_int j"
    by (auto simp: finite_decimal_def)
  moreover have "(a * b) * 10 ^ (k + l) = (a * 10 ^ k) * (b * 10 ^ l)"
    by (simp add: power_add mult_ac)
  ultimately have "(a * b) * 10 ^ (k + l) = of_int (i * j)" by simp
  then show ?thesis unfolding finite_decimal_def by blast
qed

lemma finite_decimal_minus [simp]: "finite_decimal (- a) \<longleftrightarrow> finite_decimal a"
proof -
  have "finite_decimal (- b)" if "finite_decimal b" for b :: 'a
  proof -
    from that obtain k i where "b * 10 ^ k = of_int i" by (auto simp: finite_decimal_def)
    then have "- b * 10 ^ k = of_int (- i)" by simp
    then show ?thesis unfolding finite_decimal_def by blast
  qed
  from this [of a] this [of "- a"] show ?thesis by auto
qed

lemma finite_decimal_diff: "finite_decimal a \<Longrightarrow> finite_decimal b \<Longrightarrow> finite_decimal (a - b)"
  using finite_decimal_add [of a "- b"] by simp

lemma finite_decimal_min: "finite_decimal a \<Longrightarrow> finite_decimal b \<Longrightarrow> finite_decimal (min a b)"
  by (simp add: min_def)

lemmas finite_decimal_ops = finite_decimal_add finite_decimal_mult finite_decimal_diff finite_decimal_min

section \<open>Reading\<close>

text \<open>What a printed decimal denotes.\<close>

definition read_unsigned :: "string \<Rightarrow> 'n :: linordered_field" where
  "read_unsigned s =
     (let whole = takeWhile (\<lambda>c. c \<noteq> CHR ''.'') s; fraction = drop (Suc (length whole)) s
      in of_nat (decimal_value whole) + of_nat (decimal_value fraction) / 10 ^ length fraction)"

definition read_decimal :: "string \<Rightarrow> 'n :: linordered_field" where
  "read_decimal s = (case s of
     [] \<Rightarrow> 0
   | c # t \<Rightarrow> if c = CHR ''-'' then - read_unsigned t else read_unsigned s)"

lemma decimal_value_Nil [simp]: "decimal_value [] = 0"
  by (simp add: decimal_value_def)

lemma foldl_digits: "foldl (\<lambda>acc c. 10 * acc + f c) (a :: nat) s = a * 10 ^ length s + foldl (\<lambda>acc c. 10 * acc + f c) 0 s"
proof (induction s arbitrary: a)
  case (Cons c s)
  show ?case by (simp add: Cons.IH [of "10 * a + f c"] Cons.IH [of "f c"] add_mult_distrib)
qed simp

lemma decimal_value_append: "decimal_value (s @ t) = decimal_value s * 10 ^ length t + decimal_value t"
  by (simp add: decimal_value_def foldl_digits [of _ "foldl _ _ s"])

lemma decimal_value_zeros [simp]: "decimal_value (replicate n CHR ''0'') = 0"
  by (induction n) (simp_all add: decimal_value_def)

lemma decimal_value_pad [simp]: "decimal_value (replicate n CHR ''0'' @ s) = decimal_value s"
  by (simp add: decimal_value_append)

lemma read_pointed:
  assumes "CHR ''.'' \<notin> set whole"
  shows "read_unsigned (whole @ CHR ''.'' # fraction) =
    of_nat (decimal_value whole) + of_nat (decimal_value fraction) / 10 ^ length fraction"
  using assms by (simp add: read_unsigned_def takeWhile_append)

lemma read_whole:
  assumes "CHR ''.'' \<notin> set whole"
  shows "read_unsigned whole = of_nat (decimal_value whole)"
proof -
  have all: "takeWhile (\<lambda>c. c \<noteq> CHR ''.'') whole = whole" using assms by (auto simp: takeWhile_eq_all_conv)
  show ?thesis unfolding read_unsigned_def Let_def all by simp
qed

lemma read_trailing_zeros:
  assumes "CHR ''.'' \<notin> set whole"
  shows "read_unsigned (whole @ CHR ''.'' # fraction @ replicate n CHR ''0'') =
    (read_unsigned (whole @ CHR ''.'' # fraction) :: 'n :: linordered_field)"
  by (simp add: read_pointed [OF assms] decimal_value_append power_add)

section \<open>Counting factors\<close>

lemma factor_count_returns:
  assumes "v \<noteq> 0" and "1 < factor"
  obtains count rest where "factor_count factor v = Some (count, rest)"
    "v = rest * factor ^ count" "\<not> factor dvd rest"
proof -
  have "\<exists>count rest. factor_count factor v = Some (count, rest) \<and> v = rest * factor ^ count \<and>
      \<not> factor dvd rest"
    using assms
  proof (induction "nat \<bar>v\<bar>" arbitrary: v rule: less_induct)
    case less
    show ?case
    proof (cases "factor dvd v")
      case True
      then obtain u where u: "v = factor * u" by blast
      with less.prems have "u \<noteq> 0" "nat \<bar>u\<bar> < nat \<bar>v\<bar>" by (auto simp: abs_mult)
      from less.hyps [OF this(2,1) less.prems(2)] obtain count rest where
        "factor_count factor u = Some (count, rest)" "u = rest * factor ^ count" "\<not> factor dvd rest"
        by blast
      moreover have "factor_count factor v =
          Option.bind (factor_count factor u) (\<lambda>(count, rest). Some (Suc count, rest))"
        using u less.prems(2) by (subst factor_count.simps) simp
      ultimately have "factor_count factor v = Some (Suc count, rest)" "v = rest * factor ^ Suc count"
        using u by simp_all
      with \<open>\<not> factor dvd rest\<close> show ?thesis by blast
    next
      case False
      then show ?thesis by (simp add: factor_count.simps [of factor v] dvd_eq_mod_eq_0)
    qed
  qed
  with that show thesis by blast
qed

lemma multiply_factor_power: "multiply_factor v factor count = v * factor ^ count"
  by (induction count arbitrary: v) simp_all

text \<open>The fraction of a finite decimal has no prime factors but two and five.\<close>

lemma finite_decimal_denominator:
  assumes "num_sem N" and "finite_decimal v" and "num_fraction N v = (p, q)"
  shows "\<exists>k. q dvd 10 ^ k"
proof -
  from assms(1,3) have q: "0 < q" "coprime p q" "v * of_int q = of_int p"
    unfolding num_sem_def by (metis (mono_tags, lifting) case_prod_conv)+
  from assms(2) obtain k i where "v * 10 ^ k = of_int i" by (auto simp: finite_decimal_def)
  then have "of_int (p * 10 ^ k) = (of_int (i * q) :: 'a)"
    by (simp flip: q(3))
  then have "p * 10 ^ k = i * q" by (simp only: of_int_eq_iff)
  then have "q dvd p * 10 ^ k" by simp
  with q(2) have "q dvd 10 ^ k" by (simp add: coprime_dvd_mult_right_iff coprime_commute)
  then show ?thesis ..
qed

lemma only_twos_and_fives:
  assumes "(r :: int) dvd 10 ^ k" and "\<not> 2 dvd r" and "\<not> 5 dvd r" and "0 < r"
  shows "r = 1"
proof -
  have "r mod 5 = 1 \<or> r mod 5 = 2 \<or> r mod 5 = 3 \<or> r mod 5 = 4" using assms(3) by presburger
  moreover have "gcd (5 :: int) 2 = 1" "gcd (5 :: int) 3 = 1" "gcd (5 :: int) 4 = 1" by code_simp+
  ultimately have "coprime r 5" by (auto simp: coprime_iff_gcd_eq_1 gcd_red_int [of r 5])
  moreover have "coprime r 2" using assms(2) by simp
  ultimately have "coprime r (2 * 5)" by (simp only: coprime_mult_right_iff)
  then have "coprime r 10" by (simp only: mult_numeral_1 semiring_norm arith_simps)
  then have "coprime r (10 ^ k)" by (rule coprime_power_right_iff [THEN iffD2, OF disjI1])
  then have "is_unit r" by (rule coprime_common_divisor [OF _ dvd_refl assms(1)])
  then have "r dvd 1" by (simp only:)
  then have "\<bar>r\<bar> = 1" by (rule zdvd1_eq [THEN iffD1])
  with assms(4) show ?thesis by arith
qed

section \<open>Placing the point\<close>

lemma trailing_zeros: "\<exists>n t. s = t @ replicate n CHR ''0'' \<and> (t = [] \<or> last t \<noteq> CHR ''0'')"
proof (induction s rule: rev_induct)
  case (snoc c s)
  show ?case
  proof (cases "c = CHR ''0''")
    case True
    from snoc obtain n t where "s = t @ replicate n CHR ''0''" "t = [] \<or> last t \<noteq> CHR ''0''" by blast
    with True have "s @ [c] = t @ replicate (Suc n) CHR ''0'' \<and> (t = [] \<or> last t \<noteq> CHR ''0'')"
      by (simp add: replicate_append_same)
    then show ?thesis by blast
  next
    case False
    then have "s @ [c] = (s @ [c]) @ replicate 0 CHR ''0'' \<and> (s @ [c] = [] \<or> last (s @ [c]) \<noteq> CHR ''0'')" by simp
    then show ?thesis by blast
  qed
qed simp

lemma decimal_no_point: "CHR ''.'' \<notin> set (decimal n)"
  using decimal_digits [of n] by (auto simp: list_all_iff is_ascii_digit_def)

lemma place_point_parts:
  assumes "CHR ''.'' \<notin> set digits"
  obtains whole t n where "place_point scale digits = (if t = [] then whole else whole @ CHR ''.'' # t)"
    "whole \<noteq> []" "set whole \<union> set t \<subseteq> insert CHR ''0'' (set digits)" "length (t @ replicate n CHR ''0'') = scale"
    "decimal_value (whole @ t @ replicate n CHR ''0'') = decimal_value digits"
proof -
  define padded where "padded = (if length digits \<le> scale
    then replicate (scale + 1 - length digits) CHR ''0'' @ digits else digits)"
  define whole where "whole = take (length padded - scale) padded"
  define fraction where "fraction = drop (length padded - scale) padded"
  have padded: "decimal_value padded = decimal_value digits" "CHR ''.'' \<notin> set padded" "scale < length padded"
    "set padded \<subseteq> insert CHR ''0'' (set digits)"
    using assms by (auto simp: padded_def)
  then have parts: "padded = whole @ fraction" "length fraction = scale" "whole \<noteq> []"
    by (auto simp: whole_def fraction_def)
  obtain n t where t: "fraction = t @ replicate n CHR ''0''" "t = [] \<or> last t \<noteq> CHR ''0''"
    using trailing_zeros by blast
  let ?trimmed = "rev (dropWhile (\<lambda>c. c = CHR ''0'') (rev (whole @ CHR ''.'' # fraction)))"
  have trimmed: "?trimmed = whole @ CHR ''.'' # t"
    using t by (cases t rule: rev_cases) (auto simp: dropWhile_append)
  have "CHR ''.'' \<notin> set t" using padded(2) parts(1) t(1) by simp
  then have "place_point scale digits = (if t = [] then whole else whole @ CHR ''.'' # t)"
    unfolding place_point_def Let_def padded_def [symmetric] whole_def [symmetric] fraction_def [symmetric]
      trimmed by (cases t rule: rev_cases) auto
  moreover have "set whole \<union> set t \<subseteq> insert CHR ''0'' (set digits)" using padded(4) parts(1) t(1) by auto
  ultimately show thesis
    using that [of t whole n] parts padded(1) t(1) by simp
qed

lemma place_point_value:
  assumes "CHR ''.'' \<notin> set digits"
  shows "read_unsigned (place_point scale digits) = (of_nat (decimal_value digits) / 10 ^ scale :: 'n :: linordered_field)"
proof -
  obtain whole t n where p: "place_point scale digits = (if t = [] then whole else whole @ CHR ''.'' # t)"
    "set whole \<union> set t \<subseteq> insert CHR ''0'' (set digits)" "length (t @ replicate n CHR ''0'') = scale"
    "decimal_value (whole @ t @ replicate n CHR ''0'') = decimal_value digits"
    using place_point_parts [OF assms] by metis
  have whole: "CHR ''.'' \<notin> set whole" using p(2) assms by auto
  have "read_unsigned (whole @ CHR ''.'' # t) = (read_unsigned (whole @ CHR ''.'' # t @ replicate n CHR ''0'') :: 'n)"
    by (simp add: read_trailing_zeros [OF whole])
  also have "\<dots> = of_nat (decimal_value (whole @ t @ replicate n CHR ''0'')) / 10 ^ length (t @ replicate n CHR ''0'')"
    unfolding read_pointed [OF whole] decimal_value_append [of whole] by (simp add: add_divide_distrib)
  also have "\<dots> = of_nat (decimal_value digits) / 10 ^ scale" by (simp only: p(3,4))
  finally have amount: "read_unsigned (whole @ CHR ''.'' # t) = (of_nat (decimal_value digits) / 10 ^ scale :: 'n)" .
  moreover have "read_unsigned whole = (read_unsigned (whole @ CHR ''.'' # []) :: 'n)"
    by (simp add: read_whole [OF whole] read_pointed [OF whole])
  ultimately show ?thesis using p(1) by (cases "t = []") simp_all
qed

section \<open>Printing is exact\<close>

text \<open>Decimal notation: digits, and digits after a point if there is one, with a sign.\<close>

definition unsigned_text :: "string \<Rightarrow> bool" where
  "unsigned_text s \<longleftrightarrow> (let whole = takeWhile (\<lambda>c. c \<noteq> CHR ''.'') s; rest = drop (length whole) s in
     whole \<noteq> [] \<and> list_all is_ascii_digit whole \<and> (rest = [] \<or> (length rest \<noteq> 1 \<and> list_all is_ascii_digit (drop 1 rest))))"

definition decimal_text :: "string \<Rightarrow> bool" where
  "decimal_text s \<longleftrightarrow> (case s of [] \<Rightarrow> False | c # t \<Rightarrow> if c = CHR ''-'' then unsigned_text t else unsigned_text s)"

lemma no_point_digits: "list_all is_ascii_digit s \<Longrightarrow> CHR ''.'' \<notin> set s" "list_all is_ascii_digit s \<Longrightarrow> CHR ''-'' \<notin> set s"
  by (auto simp: list_all_iff is_ascii_digit_def)

lemma unsigned_text_whole: "whole \<noteq> [] \<Longrightarrow> list_all is_ascii_digit whole \<Longrightarrow> unsigned_text whole"
proof -
  assume w: "whole \<noteq> []" "list_all is_ascii_digit whole"
  have all: "takeWhile (\<lambda>c. c \<noteq> CHR ''.'') whole = whole"
    using no_point_digits(1) [OF w(2)] by (auto simp: takeWhile_eq_all_conv)
  show ?thesis unfolding unsigned_text_def Let_def all using w by simp
qed

lemma unsigned_text_pointed:
  "whole \<noteq> [] \<Longrightarrow> list_all is_ascii_digit whole \<Longrightarrow> t \<noteq> [] \<Longrightarrow> list_all is_ascii_digit t \<Longrightarrow> unsigned_text (whole @ CHR ''.'' # t)"
  using no_point_digits(1) [of whole] by (simp add: unsigned_text_def takeWhile_append)

lemma place_point_text:
  assumes "digits \<noteq> []" and "list_all is_ascii_digit digits"
  shows "unsigned_text (place_point scale digits)"
proof -
  obtain whole t where p: "place_point scale digits = (if t = [] then whole else whole @ CHR ''.'' # t)" "whole \<noteq> []"
    "set whole \<union> set t \<subseteq> insert CHR ''0'' (set digits)"
    using place_point_parts [OF no_point_digits(1) [OF assms(2)]] by metis
  have "is_ascii_digit CHR ''0''" by code_simp
  with p(3) assms(2) have "list_all is_ascii_digit whole" "list_all is_ascii_digit t"
    by (auto simp: list_all_iff)
  with p(1,2) show ?thesis by (simp add: unsigned_text_whole unsigned_text_pointed)
qed

lemma unsigned_text_sign: "unsigned_text s \<Longrightarrow> s \<noteq> [] \<and> hd s \<noteq> CHR ''-''"
  by (cases s) (auto simp: unsigned_text_def Let_def is_ascii_digit_def split: if_splits)

lemma read_signed:
  assumes "unsigned_text digits"
  shows "read_decimal (if neg then CHR ''-'' # digits else digits) =
    (if neg then - read_unsigned digits else read_unsigned digits)"
    "decimal_text (if neg then CHR ''-'' # digits else digits)"
  using unsigned_text_sign [OF assms] assms by (cases digits; auto simp: read_decimal_def decimal_text_def)+

lemma fmt_decimal_prints:
  assumes "num_sem N" and "finite_decimal v"
  shows "\<exists>text. fmt_decimal N v = Inr text \<and> read_decimal text = v \<and> decimal_text text"
proof -
  obtain p q where pq: "num_fraction N v = (p, q)" by fastforce
  with assms(1) have q: "0 < q" "v * of_int q = of_int p"
    unfolding num_sem_def by (metis (mono_tags, lifting) case_prod_conv)+
  show ?thesis
  proof (cases "p = 0")
    case True
    with q have "v = 0" by simp
    with pq True show ?thesis 
      by (simp add: fmt_decimal_def read_decimal_def read_unsigned_def decimal_value_def decimal_text_def unsigned_text_def
        is_ascii_digit_def)
  next
    case False
    obtain twos d1 where twos: "factor_count 2 q = Some (twos, d1)" "q = d1 * 2 ^ twos" "\<not> 2 dvd d1"
      using q(1) by (auto intro: factor_count_returns [of q 2])
    then have d1: "0 < d1" using q(1) by (simp add: zero_less_mult_iff)
    obtain fives d2 where fives: "factor_count 5 d1 = Some (fives, d2)" "d1 = d2 * 5 ^ fives" "\<not> 5 dvd d2"
      using d1 by (auto intro: factor_count_returns [of d1 5])
    then have "0 < d2" using d1 by (simp add: zero_less_mult_iff)
    obtain k where "q dvd 10 ^ k" using finite_decimal_denominator [OF assms pq] ..
    then have "d2 dvd 10 ^ k" unfolding twos(2) fives(2) by (metis dvd_mult_left)
    moreover have "\<not> 2 dvd d2" using twos(3) fives(2) by auto
    ultimately have "d2 = 1" using only_twos_and_fives fives(3) \<open>0 < d2\<close> by blast
    define scale where "scale = max twos fives"
    define scaled where "scaled = \<bar>p\<bar> * 2 ^ (scale - twos) * 5 ^ (scale - fives)"
    have exact: "of_int scaled = \<bar>v\<bar> * 10 ^ scale"
    proof -
      have "(2 :: int) ^ scale = 2 ^ (scale - twos) * 2 ^ twos" "(5 :: int) ^ scale = 5 ^ (scale - fives) * 5 ^ fives"
        by (simp_all add: scale_def flip: power_add)
      then have "(10 :: int) ^ scale = 2 ^ (scale - twos) * 2 ^ twos * (5 ^ (scale - fives) * 5 ^ fives)"
        using power_mult_distrib [of "2 :: int" 5 scale] by simp
      then have "scaled * q = \<bar>p\<bar> * 10 ^ scale"
        by (simp add: scaled_def twos(2) fives(2) \<open>d2 = 1\<close> mult_ac)
      then have "of_int scaled * of_int q = (\<bar>of_int p\<bar> * 10 ^ scale :: 'a)"
        by (metis of_int_abs of_int_mult of_int_numeral of_int_power)
      also have "\<bar>of_int p\<bar> = \<bar>v\<bar> * (of_int q :: 'a)" using q by (simp add: abs_mult flip: q(2))
      finally show ?thesis using q(1) by (simp add: mult_ac)
    qed
    define digits where "digits = (if 0 < scale then place_point scale (decimal (nat scaled)) else decimal (nat scaled))"
    have "0 \<le> scaled" by (simp add: scaled_def)
    then have "read_unsigned digits = (of_int scaled / 10 ^ scale :: 'a)"
      using decimal_no_point by (simp add: digits_def place_point_value read_whole decimal_value_decimal)
    then have "read_unsigned digits = \<bar>v\<bar>" by (simp add: exact)
    moreover have "unsigned_text digits"
      using decimal_digits by (simp add: digits_def place_point_text unsigned_text_whole)
    moreover have "fmt_decimal N v = Inr (if p < 0 then CHR ''-'' # digits else digits)"
      using False twos(1) fives(1) \<open>d2 = 1\<close>
      by (simp add: fmt_decimal_def pq multiply_factor_power digits_def scaled_def scale_def Let_def)
    moreover have "v < 0 \<longleftrightarrow> p < 0"
      by (metis q of_int_0_less_iff of_int_less_0_iff mult_less_0_iff not_less_iff_gr_or_eq)
    ultimately show ?thesis by (auto simp: read_signed)
  qed
qed

lemma fmt_decimal_reads_back:
  "num_sem N \<Longrightarrow> finite_decimal v \<Longrightarrow> \<exists>text. fmt_decimal N v = Inr text \<and> read_decimal text = v"
  using fmt_decimal_prints by blast

text \<open>The parser of the package reads decimal notation as what it denotes.\<close>

definition reads_notation :: "('n :: linordered_field) num_package \<Rightarrow> bool" where
  "reads_notation N \<longleftrightarrow> (\<forall>text. decimal_text text \<longrightarrow> num_from_str N text = Inr (read_decimal text))"

lemma fmt_decimal_parses:
  assumes "num_sem N" and "reads_notation N" and "finite_decimal v"
  shows "\<exists>text. fmt_decimal N v = Inr text \<and> num_from_str N text = Inr v"
  using fmt_decimal_prints [OF assms(1,3)] assms(2) by (auto simp: reads_notation_def)

text \<open>
  A finite decimal is printed, without a panic, as a text that denotes it exactly.
\<close>

theorem fmt_decimal_exact:
  assumes "num_sem N" and "finite_decimal v"
  shows "\<exists>text. fmt_decimal N v = Inr text \<and> decimal_text text \<and> read_decimal text = v"
  using fmt_decimal_prints [OF assms] by blast

definition demo_num :: "rat num_package" where
  "demo_num = \<lparr>num_fraction = quotient_of, num_from_str = (\<lambda>text. Inr (read_decimal text))\<rparr>"

lemma demo_num_sem [simp]: "num_sem demo_num"
proof -
  have "case quotient_of v of (p, q) \<Rightarrow> 0 < q \<and> coprime p q \<and> v * of_int q = of_int p" for v
  proof (cases "quotient_of v")
    case (Pair p q)
    then have "0 < q" "coprime p q" "v = of_int p / of_int q"
      by (simp_all add: quotient_of_denom_pos quotient_of_coprime quotient_of_div)
    with Pair show ?thesis by simp
  qed
  then show ?thesis by (simp add: num_sem_def demo_num_def)
qed

lemma finite_read_unsigned: "finite_decimal (read_unsigned text :: 'n :: linordered_field)"
proof -
  define whole where "whole = takeWhile (\<lambda>c. c \<noteq> CHR ''.'') text"
  define fraction where "fraction = drop (Suc (length whole)) text"
  have "(read_unsigned text :: 'n) * 10 ^ length fraction =
      of_int (int (decimal_value whole) * 10 ^ length fraction + int (decimal_value fraction))"
    by (simp add: read_unsigned_def Let_def whole_def fraction_def distrib_right)
  then show ?thesis unfolding finite_decimal_def by blast
qed

lemma finite_read_decimal: "finite_decimal (read_decimal text :: 'n :: linordered_field)"
  using finite_read_unsigned by (auto simp: read_decimal_def split: list.splits)

theorem fmt_decimal_exact_witness:
  "\<exists>text. fmt_decimal demo_num (- 5 / 4) = Inr text \<and> decimal_text text \<and> read_decimal text = (- 5 / 4 :: rat)"
proof -
  have "finite_decimal (- 5 / 4 :: rat)"
    unfolding finite_decimal_def by (rule exI [of _ 2], rule exI [of _ "- 125"]) simp
  from fmt_decimal_exact [OF demo_num_sem this] show ?thesis .
qed

end
