(* ===== verification/Pnl_Replay.thy ===== *)
theory Pnl_Replay
  imports Pnl_Decimal "HOL-Library.AList"
begin

text \<open>
  The replay ledger of the profit-and-loss report (\<^verbatim>\<open>dashboard/pnl/state.rs\<close> and the replaying half
  of \<^verbatim>\<open>dashboard/pnl/replay.rs\<close>): fills are matched first in, first out against the lots of the
  other side, what is left opens a lot, and every match adds to the summary and leaves an entry.
  Hash sets are sets and hash maps association lists, whose order stands for the unspecified
  order of iteration. A log line or a warning is a value of \<open>pnl_warning\<close> with the arguments of its
  text. \<^verbatim>\<open>chrono\<close> is the parameter \<open>calendar\<close>: what it parses, in nanoseconds, and what it says of an
  instant in New York.
\<close>

section \<open>State\<close>

datatype pnl_direction = PnlBuy | PnlSell

fun pnl_direction_as_str :: "pnl_direction \<Rightarrow> string" where
  "pnl_direction_as_str PnlBuy = ''buy''"
| "pnl_direction_as_str PnlSell = ''sell''"

datatype lot_side = LongLot | ShortLot

datatype pnl_bucket = CounterTrade | OnchainNetting | DirectionalExposure

datatype pnl_venue = OnchainVenue | OffchainVenue | ManualVenue

record 'n fill =
  fill_rowid :: int
  fill_id :: string
  fill_symbol :: symbol
  fill_shares :: 'n
  fill_direction :: pnl_direction
  fill_price :: 'n
  fill_executed_at :: string
  fill_venue :: pnl_venue

record 'n lot =
  lot_trade_id :: string
  lot_side_of :: lot_side
  lot_remaining :: 'n
  lot_price :: 'n
  lot_opened_at :: string
  lot_opened_rowid :: int
  lot_opened_venue :: pnl_venue

record 'n summary_acc =
  acc_counter_trade_pnl :: 'n
  acc_onchain_netting_pnl :: 'n
  acc_inventory_baseline_pnl :: 'n
  acc_imbalance_excess_pnl :: 'n
  acc_directional_exposure_pnl :: 'n
  acc_realized_pnl :: 'n
  acc_matched_shares :: 'n
  acc_onchain_notional :: 'n
  acc_offchain_notional :: 'n
  acc_open_long_shares :: 'n
  acc_open_short_shares :: 'n
  acc_open_long_notional :: 'n
  acc_open_short_notional :: 'n
  acc_unmatched_buy_shares :: 'n
  acc_unmatched_sell_shares :: 'n
  acc_unmatched_buy_notional :: 'n
  acc_unmatched_sell_notional :: 'n
  acc_onchain_fill_count :: nat
  acc_offchain_fill_count :: nat
  acc_matched_lot_count :: nat
  acc_open_lot_count :: nat
  acc_unmatched_fill_count :: nat

definition summary_default :: "('n :: zero) summary_acc" where
  "summary_default = \<lparr>acc_counter_trade_pnl = 0, acc_onchain_netting_pnl = 0, acc_inventory_baseline_pnl = 0,
     acc_imbalance_excess_pnl = 0, acc_directional_exposure_pnl = 0, acc_realized_pnl = 0,
     acc_matched_shares = 0, acc_onchain_notional = 0, acc_offchain_notional = 0,
     acc_open_long_shares = 0, acc_open_short_shares = 0, acc_open_long_notional = 0,
     acc_open_short_notional = 0, acc_unmatched_buy_shares = 0, acc_unmatched_sell_shares = 0,
     acc_unmatched_buy_notional = 0, acc_unmatched_sell_notional = 0, acc_onchain_fill_count = 0,
     acc_offchain_fill_count = 0, acc_matched_lot_count = 0, acc_open_lot_count = 0,
     acc_unmatched_fill_count = 0\<rparr>"

record 'n symbol_book =
  book_long_lots :: "'n lot list"
  book_short_lots :: "'n lot list"
  book_seen_onchain :: "string set"
  book_seen_placements :: "string set"
  book_seen_offchain :: "string set"
  book_original_shares :: "(string \<times> 'n) list"
  book_matched_shares :: "(string \<times> 'n) list"
  book_last_price :: "'n option"
  book_summary :: "'n summary_acc"

definition book_default :: "('n :: zero) symbol_book" where
  "book_default = \<lparr>book_long_lots = [], book_short_lots = [], book_seen_onchain = {},
     book_seen_placements = {}, book_seen_offchain = {}, book_original_shares = [],
     book_matched_shares = [], book_last_price = None, book_summary = summary_default\<rparr>"

record 'n pnl_entry =
  entry_symbol :: symbol
  entry_bucket :: pnl_bucket
  entry_matched_at :: string
  entry_opened_at :: string
  entry_closed_at :: string
  entry_opening_fill_id :: string
  entry_closing_fill_id :: string
  entry_opening_rowid :: int
  entry_closing_rowid :: int
  entry_opening_venue :: pnl_venue
  entry_closing_venue :: pnl_venue
  entry_opening_direction :: pnl_direction
  entry_closing_direction :: pnl_direction
  entry_opening_price :: 'n
  entry_closing_price :: 'n
  entry_onchain_trade_id :: string
  entry_offchain_order_id :: string
  entry_onchain_direction :: string
  entry_offchain_direction :: string
  entry_shares :: 'n
  entry_onchain_price :: string
  entry_offchain_price :: string
  entry_spread :: 'n
  entry_realized_pnl :: 'n
  entry_elapsed_seconds :: int
  entry_threshold_seconds :: int
  entry_delayed :: bool
  entry_attribution_method :: string

record 'n unmatched_allocation =
  alloc_symbol :: symbol
  alloc_fill_id :: string
  alloc_shares :: 'n

record 'n replay_delta =
  delta_symbol :: symbol
  delta_replay_net :: 'n
  delta_position_net :: 'n

datatype pnl_warning =
    DuplicateOnchainFill string symbol
  | DuplicateOffchainFill string symbol
  | DuplicatePlacement string symbol
  | MatchedAboveOriginal string symbol string string
  | MalformedAdjustment string symbol
  | MalformedPlacement symbol
  | UnsafeEventSymbol string
  | InvalidEventSymbol string
  | UnsafeViewSymbol string
  | UnsafeSampleSymbol string
  | MissingSampleTimestamp int string
  | UnsafeRangeSymbol string
  | MissingRangeTimestamp int string
  | InvalidSymbolFilters nat "string list"
  | UnsafeCostSymbol string
  | MalformedCostRow int
  | DuplicateTokenizationFee string
  | UnsupportedCostRow int string
  | CanceledActivity string
  | OverlappingFee string symbol string string
  | BrokerCoverageNote nat
  | AllocationNote nat "(symbol \<times> string \<times> nat) list"
  | ReconciliationNote nat "(symbol \<times> string \<times> string) list"

record calendar =
  cal_parse_rfc3339 :: "string \<Rightarrow> int option"
  cal_ny_date :: "int \<Rightarrow> string"
  cal_ny_weekend :: "int \<Rightarrow> bool"
  cal_ny_hour :: "int \<Rightarrow> nat"
  cal_ny_minute :: "int \<Rightarrow> nat"
  cal_to_rfc3339 :: "int \<Rightarrow> string"
  cal_date_text :: "int \<Rightarrow> string"
  cal_et_boundary :: "string \<Rightarrow> bool \<Rightarrow> string option"

definition COUNTER_TRADE_THRESHOLD_SECONDS :: int where
  "COUNTER_TRADE_THRESHOLD_SECONDS = 300"

definition ATTRIBUTION_METHOD :: string where
  "ATTRIBUTION_METHOD = ''backend_position_fill_replay_fifo''"

definition EPSILON :: string where
  "EPSILON = ''0.000001''"

text \<open>Whole seconds from one instant to another, none when the second is earlier or either is no instant.\<close>

definition seconds_between :: "calendar \<Rightarrow> string \<Rightarrow> string \<Rightarrow> int" where
  "seconds_between C start_iso end_iso =
     (case (cal_parse_rfc3339 C start_iso, cal_parse_rfc3339 C end_iso) of
        (Some start, Some stop) \<Rightarrow> max 0 ((stop - start) div 1000000000)
      | _ \<Rightarrow> 0)"

section \<open>Accumulating\<close>

fun lot_side_to_direction :: "lot_side \<Rightarrow> pnl_direction" where
  "lot_side_to_direction LongLot = PnlBuy"
| "lot_side_to_direction ShortLot = PnlSell"

fun add_venue_notional :: "('n :: linordered_field) summary_acc \<Rightarrow> pnl_venue \<Rightarrow> 'n \<Rightarrow> 'n summary_acc" where
  "add_venue_notional s OnchainVenue notional = s\<lparr>acc_onchain_notional := acc_onchain_notional s + notional\<rparr>"
| "add_venue_notional s OffchainVenue notional = s\<lparr>acc_offchain_notional := acc_offchain_notional s + notional\<rparr>"
| "add_venue_notional s ManualVenue notional = s"

fun add_realized_pnl :: "('n :: linordered_field) summary_acc \<Rightarrow> pnl_bucket \<Rightarrow> 'n \<Rightarrow> 'n summary_acc" where
  "add_realized_pnl s CounterTrade v = s\<lparr>acc_counter_trade_pnl := acc_counter_trade_pnl s + v,
     acc_realized_pnl := acc_realized_pnl s + v\<rparr>"
| "add_realized_pnl s OnchainNetting v = s\<lparr>acc_onchain_netting_pnl := acc_onchain_netting_pnl s + v,
     acc_realized_pnl := acc_realized_pnl s + v\<rparr>"
| "add_realized_pnl s DirectionalExposure v = s\<lparr>acc_imbalance_excess_pnl := acc_imbalance_excess_pnl s + v,
     acc_directional_exposure_pnl := acc_directional_exposure_pnl s + v,
     acc_realized_pnl := acc_realized_pnl s + v\<rparr>"

definition map_add_share :: "string \<Rightarrow> 'n \<Rightarrow> (string \<times> 'n :: linordered_field) list \<Rightarrow> (string \<times> 'n) list" where
  "map_add_share k v m = AList.update k ((case map_of m k of None \<Rightarrow> 0 | Some old \<Rightarrow> old) + v) m"

definition text_for_venue :: "pnl_venue \<Rightarrow> 'n lot \<Rightarrow> 'n fill \<Rightarrow> string \<Rightarrow> string \<Rightarrow> string" where
  "text_for_venue venue front_lot fl opening_value closing_value =
     (if lot_opened_venue front_lot = venue then opening_value
      else if fill_venue fl = venue then closing_value
      else [])"

section \<open>Matching\<close>

record 'n match_log =
  ml_summary :: "'n summary_acc"
  ml_matched :: "(string \<times> 'n) list"
  ml_entries :: "'n pnl_entry list"

definition effective_bucket :: "calendar \<Rightarrow> 'n fill \<Rightarrow> pnl_bucket \<Rightarrow> 'n lot \<Rightarrow> bool \<times> pnl_bucket" where
  "effective_bucket C fl bucket front_lot =
     (let delayed = bucket = CounterTrade \<and> lot_opened_venue front_lot \<noteq> OffchainVenue \<and>
            seconds_between C (lot_opened_at front_lot) (fill_executed_at fl) > COUNTER_TRADE_THRESHOLD_SECONDS
      in (delayed, if lot_opened_venue front_lot = OffchainVenue \<or> lot_opened_venue front_lot = ManualVenue \<or> delayed
                   then DirectionalExposure else bucket))"

definition lot_spread :: "('n :: linordered_field) fill \<Rightarrow> 'n lot \<Rightarrow> 'n" where
  "lot_spread fl front_lot =
     (if lot_side_of front_lot = LongLot then fill_price fl - lot_price front_lot
      else lot_price front_lot - fill_price fl)"

text \<open>What one match adds to the summary, to the shares matched per onchain fill and to the entries.\<close>

definition add_match :: "('n :: linordered_field) summary_acc \<Rightarrow> pnl_bucket \<Rightarrow> 'n fill \<Rightarrow> 'n lot \<Rightarrow> 'n \<Rightarrow> 'n summary_acc" where
  "add_match s bucket fl front_lot matched =
     (let s = add_realized_pnl s bucket (matched * lot_spread fl front_lot);
          s = s\<lparr>acc_matched_shares := acc_matched_shares s + matched\<rparr>;
          s = add_venue_notional s (lot_opened_venue front_lot) (matched * lot_price front_lot);
          s = add_venue_notional s (fill_venue fl) (matched * fill_price fl)
      in s\<lparr>acc_matched_lot_count := acc_matched_lot_count s + 1\<rparr>)"

definition match_entry ::
  "('n :: linordered_field) num_package \<Rightarrow> calendar \<Rightarrow> 'n fill \<Rightarrow> pnl_bucket \<Rightarrow> 'n lot \<Rightarrow> 'n \<Rightarrow> decimal_fault + 'n pnl_entry" where
  "match_entry N C fl bucket front_lot matched =
     (case effective_bucket C fl bucket front_lot of (delayed, bucket) \<Rightarrow>
      tryr (fmt_decimal N (lot_price front_lot)) (\<lambda>opening_price_text.
      tryr (fmt_decimal N (fill_price fl)) (\<lambda>closing_price_text.
      let opening_direction = lot_side_to_direction (lot_side_of front_lot);
          by_venue = (\<lambda>venue. text_for_venue venue front_lot fl) in
      Inr \<lparr>entry_symbol = fill_symbol fl, entry_bucket = bucket, entry_matched_at = fill_executed_at fl,
        entry_opened_at = lot_opened_at front_lot, entry_closed_at = fill_executed_at fl,
        entry_opening_fill_id = lot_trade_id front_lot, entry_closing_fill_id = fill_id fl,
        entry_opening_rowid = lot_opened_rowid front_lot, entry_closing_rowid = fill_rowid fl,
        entry_opening_venue = lot_opened_venue front_lot, entry_closing_venue = fill_venue fl,
        entry_opening_direction = opening_direction, entry_closing_direction = fill_direction fl,
        entry_opening_price = lot_price front_lot, entry_closing_price = fill_price fl,
        entry_onchain_trade_id = by_venue OnchainVenue (lot_trade_id front_lot) (fill_id fl),
        entry_offchain_order_id = by_venue OffchainVenue (lot_trade_id front_lot) (fill_id fl),
        entry_onchain_direction = by_venue OnchainVenue
          (pnl_direction_as_str opening_direction) (pnl_direction_as_str (fill_direction fl)),
        entry_offchain_direction = by_venue OffchainVenue
          (pnl_direction_as_str opening_direction) (pnl_direction_as_str (fill_direction fl)),
        entry_shares = matched,
        entry_onchain_price = by_venue OnchainVenue opening_price_text closing_price_text,
        entry_offchain_price = by_venue OffchainVenue opening_price_text closing_price_text,
        entry_spread = lot_spread fl front_lot,
        entry_realized_pnl = matched * lot_spread fl front_lot,
        entry_elapsed_seconds = seconds_between C (lot_opened_at front_lot) (fill_executed_at fl),
        entry_threshold_seconds = COUNTER_TRADE_THRESHOLD_SECONDS,
        entry_delayed = delayed,
        entry_attribution_method = ATTRIBUTION_METHOD\<rparr>)))"

definition log_match ::
  "('n :: linordered_field) num_package \<Rightarrow> calendar \<Rightarrow> 'n fill \<Rightarrow> pnl_bucket \<Rightarrow> 'n lot \<Rightarrow> 'n \<Rightarrow> 'n match_log \<Rightarrow>
   decimal_fault + 'n match_log" where
  "log_match N C fl bucket front_lot matched l =
     tryr (match_entry N C fl bucket front_lot matched) (\<lambda>entry.
       Inr \<lparr>ml_summary = add_match (ml_summary l) (snd (effective_bucket C fl bucket front_lot)) fl front_lot matched,
         ml_matched = (if lot_opened_venue front_lot = OnchainVenue
            then map_add_share (lot_trade_id front_lot) matched (ml_matched l) else ml_matched l),
         ml_entries = ml_entries l @ [entry]\<rparr>)"

function match_loop ::
  "('n :: linordered_field) num_package \<Rightarrow> calendar \<Rightarrow> 'n fill \<Rightarrow> pnl_bucket \<Rightarrow> 'n \<Rightarrow> 'n lot list \<Rightarrow> 'n match_log \<Rightarrow>
   decimal_fault + 'n \<times> 'n lot list \<times> 'n match_log" where
  "match_loop N C fl bucket remaining [] l = Inr (remaining, [], l)"
| "match_loop N C fl bucket remaining (front_lot # rest) l =
     (if remaining = 0 then Inr (remaining, front_lot # rest, l)
      else
        let matched = min_decimal remaining (lot_remaining front_lot) in
        if matched = 0 then match_loop N C fl bucket remaining rest l
        else
          let front_lot = front_lot\<lparr>lot_remaining := lot_remaining front_lot - matched\<rparr>;
              lots = (if lot_remaining front_lot \<noteq> 0 then front_lot # rest else rest) in
          tryr (log_match N C fl bucket front_lot matched l) (\<lambda>l.
            match_loop N C fl bucket (remaining - matched) lots l))"
  by pat_completeness auto
termination
  by (relation "measure (\<lambda>(N, C, fl, bucket, remaining, lots, l). 2 * length lots + (if remaining = 0 then 0 else 1))")
    (auto simp: min_def)

definition match_fill_against_lots ::
  "('n :: linordered_field) num_package \<Rightarrow> calendar \<Rightarrow> 'n fill \<Rightarrow> 'n lot list \<Rightarrow> 'n match_log \<Rightarrow> pnl_bucket \<Rightarrow>
   decimal_fault + 'n \<times> 'n lot list \<times> 'n match_log" where
  "match_fill_against_lots N C fl source_lots l bucket = match_loop N C fl bucket (fill_shares fl) source_lots l"

section \<open>Applying fills\<close>

text \<open>What the replay writes beside the books.\<close>

record 'n replay_log =
  rl_entries :: "'n pnl_entry list"
  rl_warnings :: "pnl_warning list"
  rl_allocations :: "'n unmatched_allocation list"

definition warn_replay :: "pnl_warning \<Rightarrow> 'n replay_log \<Rightarrow> 'n replay_log" where
  "warn_replay w r = r\<lparr>rl_warnings := rl_warnings r @ [w]\<rparr>"

definition push_lot :: "'n lot \<Rightarrow> 'n symbol_book \<Rightarrow> 'n symbol_book" where
  "push_lot lot b = (case lot_side_of lot of
     LongLot \<Rightarrow> b\<lparr>book_long_lots := book_long_lots b @ [lot]\<rparr>
   | ShortLot \<Rightarrow> b\<lparr>book_short_lots := book_short_lots b @ [lot]\<rparr>)"

definition open_residual_lot :: "'n symbol_book \<Rightarrow> 'n fill \<Rightarrow> 'n \<Rightarrow> 'n symbol_book" where
  "open_residual_lot b fl remaining =
     push_lot \<lparr>lot_trade_id = fill_id fl,
       lot_side_of = (if fill_direction fl = PnlBuy then LongLot else ShortLot),
       lot_remaining = remaining, lot_price = fill_price fl, lot_opened_at = fill_executed_at fl,
       lot_opened_rowid = fill_rowid fl, lot_opened_venue = fill_venue fl\<rparr> b"

text \<open>Matching a fill against the lots of the other side of the book.\<close>

definition match_book ::
  "('n :: linordered_field) num_package \<Rightarrow> calendar \<Rightarrow> 'n fill \<Rightarrow> pnl_bucket \<Rightarrow> 'n symbol_book \<Rightarrow> 'n replay_log \<Rightarrow>
   decimal_fault + 'n \<times> 'n symbol_book \<times> 'n replay_log" where
  "match_book N C fl bucket b r =
     (let source_lots = (if fill_direction fl = PnlBuy then book_short_lots b else book_long_lots b) in
      tryr (match_fill_against_lots N C fl source_lots
          \<lparr>ml_summary = book_summary b, ml_matched = book_matched_shares b, ml_entries = rl_entries r\<rparr> bucket)
        (\<lambda>(remaining, lots, l).
          let b = b\<lparr>book_summary := ml_summary l, book_matched_shares := ml_matched l\<rparr>;
              b = (if fill_direction fl = PnlBuy then b\<lparr>book_short_lots := lots\<rparr> else b\<lparr>book_long_lots := lots\<rparr>)
          in Inr (remaining, b, r\<lparr>rl_entries := ml_entries l\<rparr>)))"

definition apply_onchain_fill ::
  "('n :: linordered_field) num_package \<Rightarrow> calendar \<Rightarrow> 'n symbol_book \<Rightarrow> 'n fill \<Rightarrow> 'n replay_log \<Rightarrow>
   decimal_fault + 'n symbol_book \<times> 'n replay_log" where
  "apply_onchain_fill N C b fl r =
     (if fill_id fl \<in> book_seen_onchain b
      then Inr (b, warn_replay (DuplicateOnchainFill (fill_id fl) (fill_symbol fl)) r)
      else
        let s = book_summary b;
            b = b\<lparr>book_seen_onchain := insert (fill_id fl) (book_seen_onchain b),
                  book_last_price := Some (fill_price fl),
                  book_summary := s\<lparr>acc_onchain_fill_count := acc_onchain_fill_count s + 1\<rparr>\<rparr> in
        tryr (match_book N C fl OnchainNetting b r) (\<lambda>(remaining, b, r).
          if remaining = 0 then Inr (b, r)
          else Inr (open_residual_lot
            (b\<lparr>book_original_shares := map_add_share (fill_id fl) remaining (book_original_shares b)\<rparr>) fl remaining, r)))"

definition apply_offchain_fill ::
  "('n :: linordered_field) num_package \<Rightarrow> calendar \<Rightarrow> 'n symbol_book \<Rightarrow> 'n fill \<Rightarrow> 'n replay_log \<Rightarrow>
   decimal_fault + 'n symbol_book \<times> 'n replay_log" where
  "apply_offchain_fill N C b fl r =
     (if fill_id fl \<in> book_seen_offchain b
      then Inr (b, warn_replay (DuplicateOffchainFill (fill_id fl) (fill_symbol fl)) r)
      else
        let s = book_summary b;
            b = b\<lparr>book_seen_offchain := insert (fill_id fl) (book_seen_offchain b),
                  book_summary := s\<lparr>acc_offchain_fill_count := acc_offchain_fill_count s + 1\<rparr>\<rparr> in
        tryr (match_book N C fl CounterTrade b r) (\<lambda>(remaining, b, r).
          if remaining \<noteq> 0
          then Inr (open_residual_lot b fl remaining,
            r\<lparr>rl_allocations := rl_allocations r @
              [\<lparr>alloc_symbol = fill_symbol fl, alloc_fill_id = fill_id fl, alloc_shares = remaining\<rparr>]\<rparr>)
          else Inr (b, r)))"

section \<open>Closing a book\<close>

definition finalize_lot :: "('n :: linordered_field) summary_acc \<Rightarrow> 'n lot \<Rightarrow> 'n summary_acc" where
  "finalize_lot s lot =
     (let notional = lot_remaining lot * lot_price lot; offchain = (lot_opened_venue lot = OffchainVenue);
          s = (case lot_side_of lot of
             LongLot \<Rightarrow>
               let s = s\<lparr>acc_open_long_shares := acc_open_long_shares s + lot_remaining lot,
                         acc_open_long_notional := acc_open_long_notional s + notional\<rparr>
               in if offchain then s\<lparr>acc_unmatched_buy_shares := acc_unmatched_buy_shares s + lot_remaining lot,
                    acc_unmatched_buy_notional := acc_unmatched_buy_notional s + notional,
                    acc_unmatched_fill_count := acc_unmatched_fill_count s + 1\<rparr> else s
           | ShortLot \<Rightarrow>
               let s = s\<lparr>acc_open_short_shares := acc_open_short_shares s + lot_remaining lot,
                         acc_open_short_notional := acc_open_short_notional s + notional\<rparr>
               in if offchain then s\<lparr>acc_unmatched_sell_shares := acc_unmatched_sell_shares s + lot_remaining lot,
                    acc_unmatched_sell_notional := acc_unmatched_sell_notional s + notional,
                    acc_unmatched_fill_count := acc_unmatched_fill_count s + 1\<rparr> else s)
      in s\<lparr>acc_open_lot_count := acc_open_lot_count s + 1\<rparr>)"

definition finalize_lots :: "('n :: linordered_field) summary_acc \<Rightarrow> 'n lot list \<Rightarrow> 'n summary_acc" where
  "finalize_lots s lots = foldl finalize_lot s lots"

end
