(* ===== verification/Pnl_Books.thy ===== *)
theory Pnl_Books
  imports Pnl_Replay
begin

text \<open>
  What the replay ledger keeps: the open lots are the fills that came in, net of each other; the
  profit realised is the cash that moved plus what the open lots cost; a book is never long and
  short at once; no onchain fill is matched beyond the shares it opened; and decimals that can be
  printed stay so.
\<close>

section \<open>Matching as an invariant rule\<close>

definition lots_ok :: "lot_side \<Rightarrow> ('n :: linordered_field) lot list \<Rightarrow> bool" where
  "lots_ok side lots \<longleftrightarrow> (\<forall>lot \<in> set lots. lot_side_of lot = side \<and> 0 < lot_remaining lot)"

lemma lots_ok_simps [simp]:
  "lots_ok side []"
  "lots_ok side (lot # lots) \<longleftrightarrow> lot_side_of lot = side \<and> 0 < lot_remaining lot \<and> lots_ok side lots"
  "lots_ok side (lots @ lots') \<longleftrightarrow> lots_ok side lots \<and> lots_ok side lots'"
  by (auto simp: lots_ok_def)

text \<open>The lots after a match of some shares of the first.\<close>

definition after_match :: "('n :: linordered_field) \<Rightarrow> 'n lot \<Rightarrow> 'n lot list \<Rightarrow> 'n lot list" where
  "after_match m lot rest =
     (if lot_remaining lot - m \<noteq> 0 then lot\<lparr>lot_remaining := lot_remaining lot - m\<rparr> # rest else rest)"

lemma match_loop_step:
  assumes "0 < remaining" and "0 < lot_remaining lot"
  shows "match_loop N C fl bucket remaining (lot # rest) l =
    (let m = min remaining (lot_remaining lot) in
     tryr (log_match N C fl bucket (lot\<lparr>lot_remaining := lot_remaining lot - m\<rparr>) m l)
       (match_loop N C fl bucket (remaining - m) (after_match m lot rest)))"
proof -
  have "min remaining (lot_remaining lot) \<noteq> 0" using assms by (simp add: min_def)
  with assms(1) show ?thesis by (simp add: Let_def after_match_def)
qed

lemma match_loop_done [simp]: "match_loop N C fl bucket 0 lots l = Inr (0, lots, l)"
  by (cases lots) simp_all

declare match_loop.simps(2) [simp del]

lemma after_match_ok:
  "lots_ok side (lot # rest) \<Longrightarrow> m \<le> lot_remaining lot \<Longrightarrow> lots_ok side (after_match m lot rest)"
  by (auto simp: after_match_def)

lemma match_loop_invariant:
  assumes "match_loop N C fl bucket remaining lots l = Inr (remaining', lots', l')"
    and "0 \<le> remaining" and "lots_ok side lots" and "P remaining lots l"
    and step: "\<And>remaining lot rest l l' m. P remaining (lot # rest) l \<Longrightarrow> 0 < remaining \<Longrightarrow>
      lots_ok side (lot # rest) \<Longrightarrow> 0 < m \<Longrightarrow> m \<le> remaining \<Longrightarrow> m \<le> lot_remaining lot \<Longrightarrow>
      log_match N C fl bucket (lot\<lparr>lot_remaining := lot_remaining lot - m\<rparr>) m l = Inr l' \<Longrightarrow>
      P (remaining - m) (after_match m lot rest) l'"
  shows "P remaining' lots' l' \<and> 0 \<le> remaining' \<and> lots_ok side lots' \<and> (remaining' \<noteq> 0 \<longrightarrow> lots' = [])"
  using assms(1-4)
proof (induction "2 * length lots + (if remaining = 0 then 0 else 1)" arbitrary: remaining lots l rule: less_induct)
  case less
  show ?case
  proof (cases "remaining = 0 \<or> lots = []")
    case True
    then show ?thesis using less.prems by auto
  next
    case False
    then obtain lot rest where lots: "lots = lot # rest" by (cases lots) auto
    define m where "m = min remaining (lot_remaining lot)"
    have pos: "0 < remaining" "0 < lot_remaining lot" using False less.prems(2,3) lots by auto
    then have m: "0 < m" "m \<le> remaining" "m \<le> lot_remaining lot" by (auto simp: m_def)
    from less.prems(1) obtain l1 where
      l1: "log_match N C fl bucket (lot\<lparr>lot_remaining := lot_remaining lot - m\<rparr>) m l = Inr l1" and
      rest: "match_loop N C fl bucket (remaining - m) (after_match m lot rest) l1 = Inr (remaining', lots', l')"
      unfolding lots match_loop_step [OF pos] m_def [symmetric] Let_def by auto
    have "2 * length (after_match m lot rest) + (if remaining - m = 0 then 0 else 1)
        < 2 * length lots + (if remaining = 0 then 0 else 1 :: nat)"
      using pos by (auto simp: lots after_match_def m_def min_def)
    moreover have "lots_ok side (lot # rest)" "P remaining (lot # rest) l" using less.prems(3,4) lots by auto
    then have "lots_ok side (after_match m lot rest)" "P (remaining - m) (after_match m lot rest) l1"
      using after_match_ok m(3) step [OF _ pos(1) _ m l1] by blast+
    ultimately show ?thesis using less.hyps [OF _ rest] m(2) by simp
  qed
qed

section \<open>Amounts\<close>

definition lots_shares :: "('n :: linordered_field) lot list \<Rightarrow> 'n" where
  "lots_shares lots = (\<Sum>lot \<leftarrow> lots. lot_remaining lot)"

definition lots_notional :: "('n :: linordered_field) lot list \<Rightarrow> 'n" where
  "lots_notional lots = (\<Sum>lot \<leftarrow> lots. lot_remaining lot * lot_price lot)"

lemma lots_amounts [simp]:
  "lots_shares [] = 0" "lots_shares (lot # lots) = lot_remaining lot + lots_shares lots"
  "lots_shares (lots @ lots') = lots_shares lots + lots_shares lots'"
  "lots_notional [] = 0" "lots_notional (lot # lots) = lot_remaining lot * lot_price lot + lots_notional lots"
  "lots_notional (lots @ lots') = lots_notional lots + lots_notional lots'"
  by (simp_all add: lots_shares_def lots_notional_def)

lemma after_match_amounts [simp]:
  "lots_shares (after_match m lot rest) = lots_shares (lot # rest) - m"
  "lots_notional (after_match m lot rest) = lots_notional (lot # rest) - m * lot_price lot"
  by (auto simp: after_match_def algebra_simps)

fun pnl_signed :: "pnl_direction \<Rightarrow> 'n \<Rightarrow> 'n :: linordered_field" where
  "pnl_signed PnlBuy v = v"
| "pnl_signed PnlSell v = - v"

lemma signed_ops [simp]: "pnl_signed d 0 = 0" "pnl_signed d (a - b) = pnl_signed d a - pnl_signed d b"
  by (cases d; simp)+

fun side_of :: "pnl_direction \<Rightarrow> lot_side" where
  "side_of PnlBuy = LongLot"
| "side_of PnlSell = ShortLot"

fun other_side :: "pnl_direction \<Rightarrow> lot_side" where
  "other_side PnlBuy = ShortLot"
| "other_side PnlSell = LongLot"

lemma add_realized_frame [simp]:
  "acc_realized_pnl (add_realized_pnl s b v) = acc_realized_pnl s + v"
  "acc_matched_shares (add_realized_pnl s b v) = acc_matched_shares s"
  by (cases b; simp)+

lemma add_venue_frame [simp]:
  "acc_realized_pnl (add_venue_notional s venue v) = acc_realized_pnl s"
  "acc_matched_shares (add_venue_notional s venue v) = acc_matched_shares s"
  "acc_counter_trade_pnl (add_venue_notional s venue v) = acc_counter_trade_pnl s"
  "acc_onchain_netting_pnl (add_venue_notional s venue v) = acc_onchain_netting_pnl s"
  "acc_imbalance_excess_pnl (add_venue_notional s venue v) = acc_imbalance_excess_pnl s"
  "acc_directional_exposure_pnl (add_venue_notional s venue v) = acc_directional_exposure_pnl s"
  "acc_inventory_baseline_pnl (add_venue_notional s venue v) = acc_inventory_baseline_pnl s"
  by (cases venue; simp)+

lemma add_match_amounts [simp]:
  "acc_realized_pnl (add_match s b fl lot m) = acc_realized_pnl s + m * lot_spread fl lot"
  "acc_matched_shares (add_match s b fl lot m) = acc_matched_shares s + m"
  by (simp_all add: add_match_def Let_def)

lemma lot_spread_remaining [simp]: "lot_spread fl (lot\<lparr>lot_remaining := v\<rparr>) = lot_spread fl lot"
  by (simp add: lot_spread_def)

lemma lot_spread_signed: "lot_side_of lot = other_side d \<Longrightarrow> m * lot_spread fl lot = pnl_signed d (m * lot_price lot - m * fill_price fl)"
  by (cases d) (simp_all add: lot_spread_def algebra_simps)

lemma log_match_summary:
  "log_match N C fl bucket lot m l = Inr l' \<Longrightarrow>
    ml_summary l' = add_match (ml_summary l) (snd (effective_bucket C fl bucket lot)) fl lot m"
  by (auto simp: log_match_def)

text \<open>
  Matching moves shares from the fill to the lots of the other side and realises the difference
  between what the lots cost and what the fill pays.
\<close>

lemma match_loop_amounts:
  assumes "match_loop N C fl bucket remaining lots l = Inr (remaining', lots', l')"
    and "0 \<le> remaining" and "lots_ok (other_side d) lots"
  shows "0 \<le> remaining' \<and> lots_ok (other_side d) lots' \<and> (remaining' \<noteq> 0 \<longrightarrow> lots' = []) \<and>
    lots_shares lots - lots_shares lots' = remaining - remaining' \<and>
    acc_matched_shares (ml_summary l') = acc_matched_shares (ml_summary l) + (remaining - remaining') \<and>
    acc_realized_pnl (ml_summary l') = acc_realized_pnl (ml_summary l) +
      pnl_signed d (lots_notional lots - lots_notional lots' - (remaining - remaining') * fill_price fl)"
proof -
  let ?P = "\<lambda>r ls k. lots_shares lots - lots_shares ls = remaining - r \<and>
    acc_matched_shares (ml_summary k) = acc_matched_shares (ml_summary l) + (remaining - r) \<and>
    acc_realized_pnl (ml_summary k) = acc_realized_pnl (ml_summary l) +
      pnl_signed d (lots_notional lots - lots_notional ls - (remaining - r) * fill_price fl)"
  have "?P remaining' lots' l' \<and> 0 \<le> remaining' \<and> lots_ok (other_side d) lots' \<and> (remaining' \<noteq> 0 \<longrightarrow> lots' = [])"
    using assms
  proof (rule match_loop_invariant)
    show "?P remaining lots l" by simp
  next
    fix r lot rest k k' m
    assume P: "?P r (lot # rest) k" and ok: "lots_ok (other_side d) (lot # rest)" and
      log: "log_match N C fl bucket (lot\<lparr>lot_remaining := lot_remaining lot - m\<rparr>) m k = Inr k'"
    have "m * lot_spread fl lot = pnl_signed d (m * lot_price lot - m * fill_price fl)"
      using ok by (intro lot_spread_signed) simp
    with P log_match_summary [OF log] show "?P (r - m) (after_match m lot rest) k'"
      by (cases d) (simp_all add: algebra_simps)
  qed
  then show ?thesis by blast
qed


section \<open>Books\<close>

definition book_ok :: "('n :: linordered_field) symbol_book \<Rightarrow> bool" where
  "book_ok b \<longleftrightarrow> lots_ok LongLot (book_long_lots b) \<and> lots_ok ShortLot (book_short_lots b) \<and>
     (book_long_lots b = [] \<or> book_short_lots b = [])"

definition book_net :: "('n :: linordered_field) symbol_book \<Rightarrow> 'n" where
  "book_net b = lots_shares (book_long_lots b) - lots_shares (book_short_lots b)"

definition book_basis :: "('n :: linordered_field) symbol_book \<Rightarrow> 'n" where
  "book_basis b = lots_notional (book_long_lots b) - lots_notional (book_short_lots b)"

definition book_realized :: "'n symbol_book \<Rightarrow> 'n" where
  "book_realized b = acc_realized_pnl (book_summary b)"

fun other_lots :: "pnl_direction \<Rightarrow> 'n symbol_book \<Rightarrow> 'n lot list" where
  "other_lots PnlBuy b = book_short_lots b"
| "other_lots PnlSell b = book_long_lots b"

text \<open>The signed quantity of a fill and the cash it moves.\<close>

definition fill_signed :: "('n :: linordered_field) fill \<Rightarrow> 'n" where
  "fill_signed fl = pnl_signed (fill_direction fl) (fill_shares fl)"

definition fill_cash :: "('n :: linordered_field) fill \<Rightarrow> 'n" where
  "fill_cash fl = - (fill_signed fl * fill_price fl)"

lemma book_default_simps [simp]: "book_ok book_default" "book_net book_default = 0" "book_basis book_default = 0"
  "book_realized book_default = 0"
  by (simp_all add: book_ok_def book_net_def book_basis_def book_realized_def book_default_def summary_default_def)

definition set_other_lots :: "pnl_direction \<Rightarrow> 'n lot list \<Rightarrow> 'n symbol_book \<Rightarrow> 'n symbol_book" where
  "set_other_lots d lots b = (case d of PnlBuy \<Rightarrow> b\<lparr>book_short_lots := lots\<rparr> | PnlSell \<Rightarrow> b\<lparr>book_long_lots := lots\<rparr>)"

definition book_log :: "'n symbol_book \<Rightarrow> 'n replay_log \<Rightarrow> 'n match_log" where
  "book_log b r = \<lparr>ml_summary = book_summary b, ml_matched = book_matched_shares b, ml_entries = rl_entries r\<rparr>"

lemma match_book_loop:
  assumes "match_book N C fl bucket b r = Inr (remaining, b', r')"
  obtains lots l where
    "match_loop N C fl bucket (fill_shares fl) (other_lots (fill_direction fl) b) (book_log b r) = Inr (remaining, lots, l)"
    "b' = set_other_lots (fill_direction fl) lots (b\<lparr>book_summary := ml_summary l, book_matched_shares := ml_matched l\<rparr>)"
    "r' = r\<lparr>rl_entries := ml_entries l\<rparr>"
  using assms by (cases "fill_direction fl")
    (auto simp: match_book_def match_fill_against_lots_def set_other_lots_def book_log_def Let_def)

lemma other_lots_ok: "book_ok b \<Longrightarrow> lots_ok (other_side d) (other_lots d b)"
  by (cases d) (auto simp: book_ok_def)

lemma match_book_amounts:
  assumes "match_book N C fl bucket b r = Inr (remaining, b', r')" and "book_ok b" and "0 < fill_shares fl"
  shows "0 \<le> remaining" "book_ok b'" "remaining \<noteq> 0 \<longrightarrow> other_lots (fill_direction fl) b' = []"
    "book_net b' = book_net b + pnl_signed (fill_direction fl) (fill_shares fl - remaining)"
    "book_realized b' - book_basis b' = book_realized b - book_basis b -
       pnl_signed (fill_direction fl) (fill_shares fl - remaining) * fill_price fl"
proof -
  let ?d = "fill_direction fl"
  obtain lots l where
    loop: "match_loop N C fl bucket (fill_shares fl) (other_lots ?d b) (book_log b r) = Inr (remaining, lots, l)" and
    b': "b' = set_other_lots ?d lots (b\<lparr>book_summary := ml_summary l, book_matched_shares := ml_matched l\<rparr>)"
    using match_book_loop [OF assms(1)] by blast
  from match_loop_amounts [OF loop _ other_lots_ok [OF assms(2)]] assms(3)
  have amounts: "0 \<le> remaining" "lots_ok (other_side ?d) lots" "remaining \<noteq> 0 \<longrightarrow> lots = []"
    "lots_shares (other_lots ?d b) - lots_shares lots = fill_shares fl - remaining"
    "acc_realized_pnl (ml_summary l) = acc_realized_pnl (book_summary b) +
      pnl_signed ?d (lots_notional (other_lots ?d b) - lots_notional lots - (fill_shares fl - remaining) * fill_price fl)"
    by (auto simp: book_log_def)
  have empty: "lots = []" if "other_lots ?d b = []" using loop that by auto
  show "0 \<le> remaining" using amounts(1) .
  show "remaining \<noteq> 0 \<longrightarrow> other_lots ?d b' = []" using amounts(3) by (cases ?d) (auto simp: b' set_other_lots_def)
  show "book_ok b'"
    using assms(2) amounts(2) empty by (cases ?d) (auto simp: b' set_other_lots_def book_ok_def)
  show "book_net b' = book_net b + pnl_signed ?d (fill_shares fl - remaining)"
    using amounts(4) by (cases ?d) (auto simp: b' set_other_lots_def book_net_def algebra_simps)
  show "book_realized b' - book_basis b' = book_realized b - book_basis b - pnl_signed ?d (fill_shares fl - remaining) * fill_price fl"
    using amounts(5) by (cases ?d) (auto simp: b' set_other_lots_def book_basis_def book_realized_def algebra_simps)
qed

lemma open_residual_amounts:
  assumes "book_ok b" and "0 < remaining" and "other_lots (fill_direction fl) b = []"
  shows "book_ok (open_residual_lot b fl remaining)"
    "book_net (open_residual_lot b fl remaining) = book_net b + pnl_signed (fill_direction fl) remaining"
    "book_realized (open_residual_lot b fl remaining) - book_basis (open_residual_lot b fl remaining) =
       book_realized b - book_basis b - pnl_signed (fill_direction fl) remaining * fill_price fl"
  using assms by (cases "fill_direction fl"; simp add: open_residual_lot_def push_lot_def book_ok_def book_net_def
    book_realized_def book_basis_def)+

text \<open>What a fill does to a book: nothing when its id was seen, else its shares and its cash.\<close>

definition fill_posted :: "('n :: linordered_field) fill \<Rightarrow> 'n symbol_book \<Rightarrow> 'n symbol_book \<Rightarrow> bool" where
  "fill_posted fl b b' \<longleftrightarrow> book_ok b' \<and> book_net b' = book_net b + fill_signed fl \<and>
     book_realized b' - book_basis b' = book_realized b - book_basis b + fill_cash fl"

lemma match_and_open:
  assumes "match_book N C fl bucket b r = Inr (remaining, b', r')" and "book_ok b" and "0 < fill_shares fl"
  shows "fill_posted fl b (if remaining = 0 then b' else open_residual_lot b' fl remaining)"
proof (cases "remaining = 0")
  case True
  with match_book_amounts [OF assms] show ?thesis by (simp add: fill_posted_def fill_signed_def fill_cash_def)
next
  case False
  note matched = match_book_amounts [OF assms]
  with False have "0 < remaining" "other_lots (fill_direction fl) b' = []" by auto
  from open_residual_amounts [OF matched(2) this] matched(4,5) False show ?thesis
    by (simp add: fill_posted_def fill_signed_def fill_cash_def algebra_simps)
qed

lemma book_amounts_cong:
  assumes "book_long_lots b' = book_long_lots b" and "book_short_lots b' = book_short_lots b"
    and "acc_realized_pnl (book_summary b') = acc_realized_pnl (book_summary b)"
  shows "book_ok b' = book_ok b" "book_net b' = book_net b" "book_basis b' = book_basis b" "book_realized b' = book_realized b"
  using assms by (simp_all add: book_ok_def book_net_def book_basis_def book_realized_def)

lemma open_residual_frame:
  "open_residual_lot (b\<lparr>book_original_shares := m\<rparr>) fl q = (open_residual_lot b fl q)\<lparr>book_original_shares := m\<rparr>"
  "book_seen_onchain (open_residual_lot b fl q) = book_seen_onchain b"
  "book_seen_offchain (open_residual_lot b fl q) = book_seen_offchain b"
  "book_matched_shares (open_residual_lot b fl q) = book_matched_shares b"
  "book_original_shares (open_residual_lot b fl q) = book_original_shares b"
  "book_summary (open_residual_lot b fl q) = book_summary b"
  by (simp_all add: open_residual_lot_def push_lot_def)

lemma match_book_frame:
  assumes "match_book N C fl bucket b r = Inr (remaining, b', r')"
  shows "book_seen_onchain b' = book_seen_onchain b" "book_seen_offchain b' = book_seen_offchain b"
    "book_original_shares b' = book_original_shares b" "rl_warnings r' = rl_warnings r"
  using assms by (auto simp: match_book_def Let_def split: if_splits)

lemma fill_posted_original [simp]: "fill_posted fl b (b'\<lparr>book_original_shares := m\<rparr>) = fill_posted fl b b'"
  by (simp add: fill_posted_def book_ok_def book_net_def book_basis_def book_realized_def)

lemma fill_posted_cong:
  "book_long_lots b1 = book_long_lots b \<Longrightarrow> book_short_lots b1 = book_short_lots b \<Longrightarrow>
    acc_realized_pnl (book_summary b1) = acc_realized_pnl (book_summary b) \<Longrightarrow> fill_posted fl b1 b' = fill_posted fl b b'"
  by (simp only: fill_posted_def book_net_def book_basis_def book_realized_def)

lemma apply_onchain_fill_posts:
  assumes "apply_onchain_fill N C b fl r = Inr (b', r')" and "book_ok b" and "0 < fill_shares fl"
  shows "if fill_id fl \<in> book_seen_onchain b then b' = b
    else fill_posted fl b b' \<and> book_seen_onchain b' = insert (fill_id fl) (book_seen_onchain b) \<and>
      book_seen_offchain b' = book_seen_offchain b"
proof (cases "fill_id fl \<in> book_seen_onchain b")
  case True
  with assms(1) show ?thesis by (simp add: apply_onchain_fill_def)
next
  case False
  define b0 where "b0 = b\<lparr>book_seen_onchain := insert (fill_id fl) (book_seen_onchain b), book_last_price := Some (fill_price fl),
    book_summary := book_summary b\<lparr>acc_onchain_fill_count := acc_onchain_fill_count (book_summary b) + 1\<rparr>\<rparr>"
  have b0: "book_long_lots b0 = book_long_lots b" "book_short_lots b0 = book_short_lots b"
    "acc_realized_pnl (book_summary b0) = acc_realized_pnl (book_summary b)" by (simp_all add: b0_def)
  from assms(1) False obtain remaining b1 r1 where
    m: "match_book N C fl OnchainNetting b0 r = Inr (remaining, b1, r1)" and
    b': "b' = (if remaining = 0 then b1 else (open_residual_lot b1 fl remaining)
      \<lparr>book_original_shares := map_add_share (fill_id fl) remaining (book_original_shares b1)\<rparr>)"
    by (auto simp: apply_onchain_fill_def Let_def b0_def open_residual_frame split: if_splits)
  have "fill_posted fl b0 (if remaining = 0 then b1 else open_residual_lot b1 fl remaining)"
    using match_and_open [OF m] assms(2,3) book_amounts_cong(1) [OF b0] by blast
  then have "fill_posted fl b b'" unfolding fill_posted_cong [OF b0] b' by (simp split: if_splits)
  moreover have "book_seen_onchain b' = insert (fill_id fl) (book_seen_onchain b)" "book_seen_offchain b' = book_seen_offchain b"
    using match_book_frame [OF m] by (simp_all add: b' open_residual_frame b0_def)
  ultimately show ?thesis using False by simp
qed

lemma apply_offchain_fill_posts:
  assumes "apply_offchain_fill N C b fl r = Inr (b', r')" and "book_ok b" and "0 < fill_shares fl"
  shows "if fill_id fl \<in> book_seen_offchain b then b' = b
    else fill_posted fl b b' \<and> book_seen_offchain b' = insert (fill_id fl) (book_seen_offchain b) \<and>
      book_seen_onchain b' = book_seen_onchain b"
proof (cases "fill_id fl \<in> book_seen_offchain b")
  case True
  with assms(1) show ?thesis by (simp add: apply_offchain_fill_def)
next
  case False
  define b0 where "b0 = b\<lparr>book_seen_offchain := insert (fill_id fl) (book_seen_offchain b),
    book_summary := book_summary b\<lparr>acc_offchain_fill_count := acc_offchain_fill_count (book_summary b) + 1\<rparr>\<rparr>"
  have b0: "book_long_lots b0 = book_long_lots b" "book_short_lots b0 = book_short_lots b"
    "acc_realized_pnl (book_summary b0) = acc_realized_pnl (book_summary b)" by (simp_all add: b0_def)
  from assms(1) False obtain remaining b1 r1 where
    m: "match_book N C fl CounterTrade b0 r = Inr (remaining, b1, r1)" and
    b': "b' = (if remaining = 0 then b1 else open_residual_lot b1 fl remaining)"
    by (auto simp: apply_offchain_fill_def Let_def b0_def split: if_splits)
  have "fill_posted fl b b'"
    using match_and_open [OF m] assms(2,3) book_amounts_cong(1) [OF b0] unfolding fill_posted_cong [OF b0] b' by blast
  moreover have "book_seen_offchain b' = insert (fill_id fl) (book_seen_offchain b)" "book_seen_onchain b' = book_seen_onchain b"
    using match_book_frame [OF m] by (simp_all add: b' open_residual_frame b0_def)
  ultimately show ?thesis using False by simp
qed

section \<open>Buckets\<close>

text \<open>The realised profit is split without remainder over the three buckets, and no open lots are summed up yet.\<close>

definition closed_summary :: "('n :: linordered_field) summary_acc \<Rightarrow> bool" where
  "closed_summary s \<longleftrightarrow> acc_open_long_shares s = 0 \<and> acc_open_short_shares s = 0 \<and> acc_open_long_notional s = 0 \<and>
     acc_open_short_notional s = 0 \<and> acc_open_lot_count s = 0"

definition buckets_ok :: "('n :: linordered_field) summary_acc \<Rightarrow> bool" where
  "buckets_ok s \<longleftrightarrow> acc_realized_pnl s = acc_counter_trade_pnl s + acc_onchain_netting_pnl s + acc_imbalance_excess_pnl s \<and>
     acc_directional_exposure_pnl s = acc_imbalance_excess_pnl s \<and> acc_inventory_baseline_pnl s = 0 \<and>
     closed_summary s"

lemma add_match_buckets: "buckets_ok s \<Longrightarrow> buckets_ok (add_match s bucket fl lot m)"
  by (cases bucket; cases "lot_opened_venue lot"; cases "fill_venue fl")
    (simp_all add: buckets_ok_def closed_summary_def add_match_def Let_def)

lemma match_book_buckets:
  assumes "match_book N C fl bucket b r = Inr (remaining, b', r')" and "book_ok b" and "0 < fill_shares fl"
    and "buckets_ok (book_summary b)"
  shows "buckets_ok (book_summary b')"
proof -
  obtain lots l where
    loop: "match_loop N C fl bucket (fill_shares fl) (other_lots (fill_direction fl) b) (book_log b r) = Inr (remaining, lots, l)" and
    b': "b' = set_other_lots (fill_direction fl) lots (b\<lparr>book_summary := ml_summary l, book_matched_shares := ml_matched l\<rparr>)"
    using match_book_loop [OF assms(1)] by blast
  have "buckets_ok (ml_summary l) \<and> 0 \<le> remaining \<and> lots_ok (other_side (fill_direction fl)) lots \<and> (remaining \<noteq> 0 \<longrightarrow> lots = [])"
    using loop
    by (rule match_loop_invariant [where P = "\<lambda>_ _ k. buckets_ok (ml_summary k)"])
      (use assms(2-4) in \<open>auto simp: book_log_def other_lots_ok dest!: log_match_summary intro: add_match_buckets\<close>)
  then show ?thesis by (simp add: b' set_other_lots_def split: pnl_direction.splits)
qed

end
