(* ===== verification/Pnl_Audit.thy ===== *)
theory Pnl_Audit
  imports Pnl_Books
begin

text \<open>
  Two further invariants of the replay ledger: no onchain fill is matched beyond the shares it
  opened, so the audit of \<^verbatim>\<open>finalize_book\<close> finds nothing; and books of finite decimals stay so, and
  matching in them never panics.
\<close>

section \<open>Shares matched per onchain fill\<close>

definition share_of :: "(string \<times> 'n :: linordered_field) list \<Rightarrow> string \<Rightarrow> 'n" where
  "share_of m k = (case map_of m k of None \<Rightarrow> 0 | Some v \<Rightarrow> v)"

lemma map_of_add_share: "map_of (map_add_share k v m) = (map_of m)(k \<mapsto> share_of m k + v)"
  by (simp add: map_add_share_def share_of_def AList.update_conv')

lemma share_of_add [simp]: "share_of (map_add_share k v m) k' = (if k' = k then share_of m k + v else share_of m k')"
  by (simp add: share_of_def [of "map_add_share k v m"] map_of_add_share share_of_def [of m k'])

definition onchain_ids :: "'n lot list \<Rightarrow> string list" where
  "onchain_ids lots = map lot_trade_id (filter (\<lambda>lot. lot_opened_venue lot = OnchainVenue) lots)"

definition covered :: "(string \<times> 'n :: linordered_field) list \<Rightarrow> (string \<times> 'n) list \<Rightarrow> 'n lot list \<Rightarrow> bool" where
  "covered original matched lots \<longleftrightarrow> distinct (map fst matched) \<and> distinct (onchain_ids lots) \<and>
     (\<forall>lot \<in> set lots. lot_opened_venue lot = OnchainVenue \<longrightarrow>
        map_of original (lot_trade_id lot) = Some (share_of matched (lot_trade_id lot) + lot_remaining lot)) \<and>
     (\<forall>k m. map_of matched k = Some m \<longrightarrow> (\<exists>total. map_of original k = Some total \<and> m \<le> total))"

lemma onchain_ids_simps [simp]:
  "onchain_ids [] = []"
  "onchain_ids (lot # lots) = (if lot_opened_venue lot = OnchainVenue then lot_trade_id lot # onchain_ids lots else onchain_ids lots)"
  "onchain_ids (lots @ lots') = onchain_ids lots @ onchain_ids lots'"
  by (simp_all add: onchain_ids_def)

lemma onchain_ids_set: "lot \<in> set lots \<Longrightarrow> lot_opened_venue lot = OnchainVenue \<Longrightarrow> lot_trade_id lot \<in> set (onchain_ids lots)"
  by (auto simp: onchain_ids_def)

lemma covered_matched: "covered original matched lots \<Longrightarrow> map_of matched k = Some m \<Longrightarrow>
    \<exists>total. map_of original k = Some total \<and> m \<le> total"
  by (simp add: covered_def)

lemma covered_rest: "covered original matched (lot # rest) \<Longrightarrow> covered original matched rest"
  by (auto simp: covered_def split: if_splits)

lemma covered_after_match:
  assumes cov: "covered original matched (lot # rest)" and m: "m \<le> lot_remaining lot"
  shows "covered original (if lot_opened_venue lot = OnchainVenue then map_add_share (lot_trade_id lot) m matched else matched)
    (after_match m lot rest)"
proof (cases "lot_opened_venue lot = OnchainVenue")
  case True
  let ?id = "lot_trade_id lot"
  have total: "map_of original ?id = Some (share_of matched ?id + lot_remaining lot)" using cov True by (simp add: covered_def)
  have fresh: "?id \<notin> set (onchain_ids rest)" using cov True by (simp add: covered_def)
  have others: "lot_trade_id x \<noteq> ?id" if "x \<in> set rest" "lot_opened_venue x = OnchainVenue" for x
    using onchain_ids_set [OF that] fresh by metis
  have "\<exists>t. map_of original k = Some t \<and> v \<le> t" if "map_of (map_add_share ?id m matched) k = Some v" for k v
    using that m total cov by (auto simp: map_of_add_share covered_def split: if_splits)
  moreover have "distinct (onchain_ids (after_match m lot rest))" "distinct (map fst (map_add_share ?id m matched))"
    using cov by (auto simp: covered_def after_match_def map_add_share_def AList.distinct_update)
  moreover have "map_of original (lot_trade_id x) = Some (share_of (map_add_share ?id m matched) (lot_trade_id x) + lot_remaining x)"
    if "x \<in> set (after_match m lot rest)" "lot_opened_venue x = OnchainVenue" for x
    using that total others cov by (auto simp: after_match_def covered_def algebra_simps split: if_splits)
  ultimately show ?thesis using True by (simp add: covered_def)
next
  case False
  with covered_rest [OF cov] show ?thesis by (auto simp: after_match_def covered_def)
qed

lemma log_match_matched:
  "log_match N C fl bucket (lot\<lparr>lot_remaining := v\<rparr>) m l = Inr l' \<Longrightarrow>
    ml_matched l' = (if lot_opened_venue lot = OnchainVenue then map_add_share (lot_trade_id lot) m (ml_matched l) else ml_matched l)"
  by (auto simp: log_match_def)

definition book_audited :: "('n :: linordered_field) symbol_book \<Rightarrow> bool" where
  "book_audited b \<longleftrightarrow> covered (book_original_shares b) (book_matched_shares b) (book_long_lots b @ book_short_lots b) \<and>
     dom (map_of (book_original_shares b)) \<subseteq> book_seen_onchain b"

lemma book_audited_default [simp]: "book_audited book_default"
  by (simp add: book_audited_def covered_def book_default_def)

lemma match_book_audited:
  assumes "match_book N C fl bucket b r = Inr (remaining, b', r')" and "book_ok b" and "0 < fill_shares fl"
    and "book_audited b"
  shows "book_audited b'"
proof -
  let ?d = "fill_direction fl" and ?original = "book_original_shares b"
  obtain lots l where
    loop: "match_loop N C fl bucket (fill_shares fl) (other_lots ?d b) (book_log b r) = Inr (remaining, lots, l)" and
    b': "b' = set_other_lots ?d lots (b\<lparr>book_summary := ml_summary l, book_matched_shares := ml_matched l\<rparr>)"
    using match_book_loop [OF assms(1)] by blast
  show ?thesis
  proof (cases "other_lots ?d b = []")
    case True
    with loop have "lots = []" "ml_matched l = book_matched_shares b" by (auto simp: book_log_def)
    with True assms(4) show ?thesis by (cases ?d) (simp_all add: b' set_other_lots_def book_audited_def)
  next
    case False
    then have all: "book_long_lots b @ book_short_lots b = other_lots ?d b"
      and all': "book_long_lots b' @ book_short_lots b' = lots"
      using assms(2) by (cases ?d; auto simp: book_ok_def b' set_other_lots_def)+
    have start: "covered ?original (book_matched_shares b) (other_lots ?d b)"
      using assms(4) unfolding book_audited_def all by simp
    have "covered ?original (ml_matched l) lots \<and> 0 \<le> remaining \<and> lots_ok (other_side ?d) lots \<and> (remaining \<noteq> 0 \<longrightarrow> lots = [])"
      using loop
      by (rule match_loop_invariant [where P = "\<lambda>_ ls k. covered ?original (ml_matched k) ls"])
        (use assms(2,3) start in \<open>auto simp: book_log_def other_lots_ok log_match_matched
          simp del: lots_ok_simps intro: covered_after_match split del: if_split\<close>)
    with assms(4) show ?thesis
      unfolding book_audited_def all' by (cases ?d) (simp_all add: b' set_other_lots_def)
  qed
qed


lemma open_residual_audited:
  assumes "book_audited b" and "fill_venue fl \<noteq> OnchainVenue"
  shows "book_audited (open_residual_lot b fl remaining)"
  using assms by (auto simp: book_audited_def covered_def open_residual_lot_def push_lot_def)

lemma open_onchain_audited:
  assumes "book_audited b" and "fill_id fl \<notin> dom (map_of (book_original_shares b))" and "fill_id fl \<in> book_seen_onchain b"
    and "book_long_lots b = [] \<or> book_short_lots b = []"
  shows "book_audited (open_residual_lot
    (b\<lparr>book_original_shares := map_add_share (fill_id fl) remaining (book_original_shares b)\<rparr>) fl remaining)"
proof -
  let ?id = "fill_id fl" and ?original = "book_original_shares b" and ?matched = "book_matched_shares b"
  let ?lots = "book_long_lots b @ book_short_lots b"
  have cov: "covered ?original ?matched ?lots" using assms(1) by (simp add: book_audited_def)
  have fresh: "share_of ?original ?id = 0" "share_of ?matched ?id = 0" "?id \<notin> set (onchain_ids ?lots)"
  proof -
    show "share_of ?original ?id = 0" using assms(2) by (auto simp: share_of_def split: option.splits)
    show "share_of ?matched ?id = 0" using assms(2) covered_matched [OF cov, of ?id] by (auto simp: share_of_def split: option.splits)
    show "?id \<notin> set (onchain_ids ?lots)" using assms(2) cov by (auto simp: onchain_ids_def covered_def)
  qed
  have other: "lot_trade_id x \<noteq> ?id" if "x \<in> set ?lots" "lot_opened_venue x = OnchainVenue" for x
    using onchain_ids_set [OF that] fresh(3) by metis
  have "map_of (map_add_share ?id remaining ?original) k = map_of ?original k" if "k \<noteq> ?id" for k
    using that by (simp add: map_of_add_share)
  moreover have "k \<noteq> ?id" if "map_of ?matched k = Some m" for k m
    using covered_matched [OF cov that] assms(2) by auto
  ultimately have "covered (map_add_share ?id remaining ?original) ?matched ?lots"
    using cov other by (auto simp: covered_def)
  then have "covered (map_add_share ?id remaining ?original) ?matched (lot # ?lots)"
    if "lot_trade_id lot = ?id" "lot_remaining lot = remaining" for lot
    using that fresh by (auto simp: covered_def map_of_add_share)
  moreover have "covered orig m (xs @ ys @ [lot]) = covered orig m (lot # xs @ ys)"
    "covered orig m (xs @ lot # ys) = covered orig m (lot # xs @ ys)" for orig m xs ys and lot :: "'a lot"
    by (auto simp: covered_def)
  ultimately show ?thesis
    using assms(1,3) by (auto simp: book_audited_def open_residual_lot_def push_lot_def map_of_add_share)
qed

lemma apply_onchain_fill_audited:
  assumes "apply_onchain_fill N C b fl r = Inr (b', r')" and "book_ok b" and "0 < fill_shares fl" and "book_audited b"
  shows "book_audited b'"
proof (cases "fill_id fl \<in> book_seen_onchain b")
  case True
  with assms(1,4) show ?thesis by (simp add: apply_onchain_fill_def)
next
  case False
  define b0 where "b0 = b\<lparr>book_seen_onchain := insert (fill_id fl) (book_seen_onchain b), book_last_price := Some (fill_price fl),
    book_summary := book_summary b\<lparr>acc_onchain_fill_count := acc_onchain_fill_count (book_summary b) + 1\<rparr>\<rparr>"
  have b0: "book_ok b0" "book_audited b0" using assms(2,4) by (auto simp: b0_def book_ok_def book_audited_def)
  from assms(1) False obtain remaining b1 r1 where
    m: "match_book N C fl OnchainNetting b0 r = Inr (remaining, b1, r1)" and
    b': "b' = (if remaining = 0 then b1 else open_residual_lot
      (b1\<lparr>book_original_shares := map_add_share (fill_id fl) remaining (book_original_shares b1)\<rparr>) fl remaining)"
    by (auto simp: apply_onchain_fill_def Let_def b0_def split: if_splits)
  have "book_audited b1" using match_book_audited [OF m b0(1) assms(3) b0(2)] .
  moreover have "fill_id fl \<notin> dom (map_of (book_original_shares b1))" "fill_id fl \<in> book_seen_onchain b1"
    using match_book_frame [OF m] assms(4) False by (auto simp: b0_def book_audited_def)
  moreover have "book_long_lots b1 = [] \<or> book_short_lots b1 = []"
    using match_book_amounts(2) [OF m b0(1) assms(3)] by (simp add: book_ok_def)
  ultimately show ?thesis unfolding b' by (auto intro: open_onchain_audited)
qed

lemma apply_offchain_fill_audited:
  assumes "apply_offchain_fill N C b fl r = Inr (b', r')" and "book_ok b" and "0 < fill_shares fl" and "book_audited b"
    and "fill_venue fl \<noteq> OnchainVenue"
  shows "book_audited b'"
proof (cases "fill_id fl \<in> book_seen_offchain b")
  case True
  with assms(1,4) show ?thesis by (simp add: apply_offchain_fill_def)
next
  case False
  define b0 where "b0 = b\<lparr>book_seen_offchain := insert (fill_id fl) (book_seen_offchain b),
    book_summary := book_summary b\<lparr>acc_offchain_fill_count := acc_offchain_fill_count (book_summary b) + 1\<rparr>\<rparr>"
  have b0: "book_ok b0" "book_audited b0" using assms(2,4) by (auto simp: b0_def book_ok_def book_audited_def)
  from assms(1) False obtain remaining b1 r1 where
    m: "match_book N C fl CounterTrade b0 r = Inr (remaining, b1, r1)" and
    b': "b' = (if remaining = 0 then b1 else open_residual_lot b1 fl remaining)"
    by (auto simp: apply_offchain_fill_def Let_def b0_def split: if_splits)
  show ?thesis
    unfolding b' using match_book_audited [OF m b0(1) assms(3) b0(2)] open_residual_audited assms(5) by auto
qed

section \<open>Finite decimals\<close>

definition finite_lot :: "('n :: linordered_field) lot \<Rightarrow> bool" where
  "finite_lot lot \<longleftrightarrow> finite_decimal (lot_remaining lot) \<and> finite_decimal (lot_price lot)"

definition finite_fill :: "('n :: linordered_field) fill \<Rightarrow> bool" where
  "finite_fill fl \<longleftrightarrow> finite_decimal (fill_shares fl) \<and> finite_decimal (fill_price fl)"

definition summary_amounts :: "'n summary_acc \<Rightarrow> 'n list" where
  "summary_amounts s = [acc_counter_trade_pnl s, acc_onchain_netting_pnl s, acc_inventory_baseline_pnl s,
     acc_imbalance_excess_pnl s, acc_directional_exposure_pnl s, acc_realized_pnl s, acc_matched_shares s,
     acc_onchain_notional s, acc_offchain_notional s, acc_open_long_shares s, acc_open_short_shares s,
     acc_open_long_notional s, acc_open_short_notional s, acc_unmatched_buy_shares s, acc_unmatched_sell_shares s,
     acc_unmatched_buy_notional s, acc_unmatched_sell_notional s]"

definition finite_summary :: "('n :: linordered_field) summary_acc \<Rightarrow> bool" where
  "finite_summary s \<longleftrightarrow> list_all finite_decimal (summary_amounts s)"

definition finite_entry :: "('n :: linordered_field) pnl_entry \<Rightarrow> bool" where
  "finite_entry e \<longleftrightarrow> list_all finite_decimal
     [entry_shares e, entry_opening_price e, entry_closing_price e, entry_spread e, entry_realized_pnl e]"

definition finite_book :: "('n :: linordered_field) symbol_book \<Rightarrow> bool" where
  "finite_book b \<longleftrightarrow> list_all finite_lot (book_long_lots b @ book_short_lots b) \<and> finite_summary (book_summary b) \<and>
     (\<forall>p. book_last_price b = Some p \<longrightarrow> finite_decimal p)"

lemma finite_book_default [simp]: "finite_book book_default"
  by (simp add: finite_book_def book_default_def summary_default_def finite_summary_def summary_amounts_def)

lemma finite_lot_spread: "finite_decimal (fill_price fl) \<Longrightarrow> finite_decimal (lot_price lot) \<Longrightarrow> finite_decimal (lot_spread fl lot)"
  by (simp add: lot_spread_def finite_decimal_ops)

lemma finite_add_match:
  assumes "finite_summary s" and "finite_decimal m" and "finite_decimal (fill_price fl)" and "finite_decimal (lot_price lot)"
  shows "finite_summary (add_match s bucket fl lot m)"
proof -
  have "finite_decimal (m * lot_spread fl lot)" "finite_decimal (m * lot_price lot)" "finite_decimal (m * fill_price fl)"
    using assms finite_lot_spread by (auto intro: finite_decimal_mult)
  with assms(1,2) show ?thesis
    by (cases bucket; cases "lot_opened_venue lot"; cases "fill_venue fl")
      (auto simp: add_match_def Let_def finite_summary_def summary_amounts_def finite_decimal_add)
qed

lemma match_entry_returns:
  assumes "num_sem N" and "finite_decimal (fill_price fl)" and "finite_decimal (lot_price lot)" and "finite_decimal m"
  shows "\<exists>e. match_entry N C fl bucket lot m = Inr e \<and> finite_entry e"
proof -
  obtain t u where "fmt_decimal N (lot_price lot) = Inr t" "fmt_decimal N (fill_price fl) = Inr u"
    using fmt_decimal_reads_back assms by metis
  with assms show ?thesis
    by (auto simp: match_entry_def Let_def finite_entry_def finite_lot_spread finite_decimal_mult split: prod.splits)
qed


lemma log_match_returns:
  assumes "num_sem N" and "finite_decimal (fill_price fl)" and "finite_decimal (lot_price lot)" and "finite_decimal m"
    and "finite_summary (ml_summary l)" and "list_all finite_entry (ml_entries l)"
  shows "\<exists>l'. log_match N C fl bucket lot m l = Inr l' \<and> finite_summary (ml_summary l') \<and> list_all finite_entry (ml_entries l')"
  using match_entry_returns [OF assms(1-4), of C bucket] finite_add_match [OF assms(5,4,2,3)] assms(6)
  by (auto simp: log_match_def)

text \<open>Over finite decimals matching returns, and leaves finite decimals.\<close>

lemma match_loop_returns:
  assumes "num_sem N" and "finite_decimal (fill_price fl)"
  shows "0 \<le> remaining \<Longrightarrow> finite_decimal remaining \<Longrightarrow> lots_ok side lots \<Longrightarrow> list_all finite_lot lots \<Longrightarrow>
    finite_summary (ml_summary l) \<Longrightarrow> list_all finite_entry (ml_entries l) \<Longrightarrow>
    \<exists>remaining' lots' l'. match_loop N C fl bucket remaining lots l = Inr (remaining', lots', l') \<and>
      finite_decimal remaining' \<and> list_all finite_lot lots' \<and> finite_summary (ml_summary l') \<and>
      list_all finite_entry (ml_entries l')"
proof (induction "2 * length lots + (if remaining = 0 then 0 else 1)" arbitrary: remaining lots l rule: less_induct)
  case less
  show ?case
  proof (cases "remaining = 0 \<or> lots = []")
    case True
    then show ?thesis using less.prems by auto
  next
    case False
    then obtain lot rest where lots: "lots = lot # rest" by (cases lots) auto
    define m where "m = min remaining (lot_remaining lot)"
    have pos: "0 < remaining" "0 < lot_remaining lot" using False less.prems(1,3) lots by auto
    then have m: "m \<le> remaining" "m \<le> lot_remaining lot" by (auto simp: m_def)
    have fin: "finite_decimal m" "finite_decimal (lot_price lot)" "finite_decimal (lot_remaining lot)"
      using less.prems(2,4) by (auto simp: m_def lots finite_lot_def finite_decimal_min)
    then obtain l1 where
      l1: "log_match N C fl bucket (lot\<lparr>lot_remaining := lot_remaining lot - m\<rparr>) m l = Inr l1"
        "finite_summary (ml_summary l1)" "list_all finite_entry (ml_entries l1)"
      using log_match_returns [OF assms, of "lot\<lparr>lot_remaining := lot_remaining lot - m\<rparr>" m l C bucket] less.prems(5,6) by auto
    have "2 * length (after_match m lot rest) + (if remaining - m = 0 then 0 else 1)
        < 2 * length lots + (if remaining = 0 then 0 else 1 :: nat)"
      using pos by (auto simp: lots after_match_def m_def min_def)
    moreover have "0 \<le> remaining - m" "finite_decimal (remaining - m)" "lots_ok side (after_match m lot rest)"
      using m less.prems(2,3) fin(1) after_match_ok [of side lot rest m] by (auto simp: lots finite_decimal_diff)
    moreover have "list_all finite_lot (after_match m lot rest)"
      using less.prems(4) fin by (auto simp: after_match_def lots finite_lot_def finite_decimal_diff)
    ultimately have "\<exists>remaining' lots' l'.
        match_loop N C fl bucket (remaining - m) (after_match m lot rest) l1 = Inr (remaining', lots', l') \<and>
        finite_decimal remaining' \<and> list_all finite_lot lots' \<and> finite_summary (ml_summary l') \<and>
        list_all finite_entry (ml_entries l')"
      using l1(2,3) by (rule less.hyps)
    then show ?thesis unfolding lots match_loop_step [OF pos] m_def [symmetric] Let_def l1(1) by simp
  qed
qed

lemma match_book_returns:
  assumes "num_sem N" and "finite_fill fl" and "0 < fill_shares fl" and "book_ok b" and "finite_book b"
    and "list_all finite_entry (rl_entries r)"
  shows "\<exists>remaining b' r'. match_book N C fl bucket b r = Inr (remaining, b', r') \<and> finite_decimal remaining \<and>
    finite_book b' \<and> list_all finite_entry (rl_entries r')"
proof -
  let ?d = "fill_direction fl"
  have "list_all finite_lot (other_lots ?d b)" using assms(5) by (cases ?d) (auto simp: finite_book_def)
  with match_loop_returns [OF assms(1), of fl "fill_shares fl" "other_side ?d" "other_lots ?d b" "book_log b r" C bucket]
    assms(2-6) other_lots_ok [OF assms(4)]
  obtain remaining lots l where
    "match_loop N C fl bucket (fill_shares fl) (other_lots ?d b) (book_log b r) = Inr (remaining, lots, l)"
    "finite_decimal remaining" "list_all finite_lot lots" "finite_summary (ml_summary l)" "list_all finite_entry (ml_entries l)"
    by (auto simp: finite_fill_def finite_book_def book_log_def)
  with assms(5) show ?thesis
    by (cases ?d) (auto simp: match_book_def match_fill_against_lots_def book_log_def finite_book_def Let_def)
qed

lemma finite_open_residual:
  "finite_book b \<Longrightarrow> finite_decimal remaining \<Longrightarrow> finite_decimal (fill_price fl) \<Longrightarrow> finite_book (open_residual_lot b fl remaining)"
  by (auto simp: finite_book_def open_residual_lot_def push_lot_def finite_lot_def)

lemma finite_book_frame [simp]:
  "finite_book (b\<lparr>book_original_shares := m\<rparr>) = finite_book b"
  "finite_book (b\<lparr>book_seen_onchain := x, book_last_price := Some p,
     book_summary := book_summary b\<lparr>acc_onchain_fill_count := n\<rparr>\<rparr>) \<longleftrightarrow>
   finite_book (b\<lparr>book_last_price := None\<rparr>) \<and> finite_decimal p"
  "finite_book (b\<lparr>book_seen_offchain := x, book_summary := book_summary b\<lparr>acc_offchain_fill_count := n\<rparr>\<rparr>) = finite_book b"
  by (auto simp: finite_book_def finite_summary_def summary_amounts_def)

lemma apply_onchain_fill_returns:
  assumes "num_sem N" and "finite_fill fl" and "0 < fill_shares fl" and "book_ok b" and "finite_book b"
    and "list_all finite_entry (rl_entries r)"
  shows "\<exists>b' r'. apply_onchain_fill N C b fl r = Inr (b', r') \<and> finite_book b' \<and> list_all finite_entry (rl_entries r')"
proof (cases "fill_id fl \<in> book_seen_onchain b")
  case True
  with assms show ?thesis by (simp add: apply_onchain_fill_def warn_replay_def)
next
  case False
  define b0 where "b0 = b\<lparr>book_seen_onchain := insert (fill_id fl) (book_seen_onchain b), book_last_price := Some (fill_price fl),
    book_summary := book_summary b\<lparr>acc_onchain_fill_count := acc_onchain_fill_count (book_summary b) + 1\<rparr>\<rparr>"
  have "book_ok b0" "finite_book b0"
    using assms(2,4,5) by (auto simp: b0_def book_ok_def finite_fill_def finite_book_def finite_summary_def summary_amounts_def)
  then obtain remaining b1 r1 where "match_book N C fl OnchainNetting b0 r = Inr (remaining, b1, r1)"
    "finite_decimal remaining" "finite_book b1" "list_all finite_entry (rl_entries r1)"
    using match_book_returns [OF assms(1-3) _ _ assms(6)] by blast
  with assms(2) False show ?thesis
    by (cases "remaining = 0")
      (simp_all add: apply_onchain_fill_def b0_def Let_def finite_fill_def finite_open_residual del: tryr_eq_Inr)
qed

lemma apply_offchain_fill_returns:
  assumes "num_sem N" and "finite_fill fl" and "0 < fill_shares fl" and "book_ok b" and "finite_book b"
    and "list_all finite_entry (rl_entries r)"
  shows "\<exists>b' r'. apply_offchain_fill N C b fl r = Inr (b', r') \<and> finite_book b' \<and> list_all finite_entry (rl_entries r')"
proof (cases "fill_id fl \<in> book_seen_offchain b")
  case True
  with assms show ?thesis by (simp add: apply_offchain_fill_def warn_replay_def)
next
  case False
  define b0 where "b0 = b\<lparr>book_seen_offchain := insert (fill_id fl) (book_seen_offchain b),
    book_summary := book_summary b\<lparr>acc_offchain_fill_count := acc_offchain_fill_count (book_summary b) + 1\<rparr>\<rparr>"
  have "book_ok b0" "finite_book b0" using assms(4,5) by (auto simp: b0_def book_ok_def)
  then obtain remaining b1 r1 where "match_book N C fl CounterTrade b0 r = Inr (remaining, b1, r1)"
    "finite_decimal remaining" "finite_book b1" "list_all finite_entry (rl_entries r1)"
    using match_book_returns [OF assms(1-3) _ _ assms(6)] by blast
  with assms(2) False show ?thesis
    by (cases "remaining = 0")
      (simp_all add: apply_offchain_fill_def b0_def Let_def finite_fill_def finite_open_residual del: tryr_eq_Inr)
qed

end
