(* ===== verification/Pnl_Rows.thy ===== *)
theory Pnl_Rows
  imports Pnl_Audit Finance "HOL-Library.Product_Lexorder" "HOL-Library.List_Lexorder" "HOL-Library.Char_ord"
begin

text \<open>
  The rows the report replays (\<^verbatim>\<open>dashboard/pnl/parsing.rs\<close>, the parsing half of \<^verbatim>\<open>replay.rs\<close>, and the
  replay of \<^verbatim>\<open>builder.rs\<close>): persisted events are ordered by the time of what they record, read from
  their JSON payloads and posted to the book of their symbol; then every book is closed and audited.
  \<^verbatim>\<open>serde_json::Value\<close> is a parameter: its members, what kind of value it is, and its text.
\<close>

section \<open>Payloads\<close>

datatype json_kind = JsonNull | JsonString string | JsonNumber string | JsonObject | JsonOther

record 'v json_package =
  json_get :: "'v \<Rightarrow> string \<Rightarrow> 'v option"
  json_kind_of :: "'v \<Rightarrow> json_kind"
  json_to_string :: "'v \<Rightarrow> string"

datatype pnl_field_error = InvalidJsonType | InvalidDecimal string

datatype pnl_error =
    InvalidDate string string
  | InvalidSnapshotRowid int
  | InvalidPayload int string string string
  | MalformedPayload int string string string
  | InvalidFinancialField int string string string string pnl_field_error
  | InvalidInternalDecimal string string string
  | InvalidSymbolFilter string
  | PnlDatabase string

datatype pnl_stop = PnlPanic decimal_fault | EpsilonPanic string | PnlFail pnl_error

record 'v position_event_row =
  row_rowid :: int
  row_symbol :: string
  row_event_type :: string
  row_payload :: 'v

definition SAFE_SYMBOL_CHARS :: string where
  "SAFE_SYMBOL_CHARS = ''ABCDEFGHIJKLMNOPQRSTUVWXYZabcdefghijklmnopqrstuvwxyz0123456789._-''"

definition is_safe_symbol :: "string \<Rightarrow> bool" where
  "is_safe_symbol symbol \<longleftrightarrow> symbol \<noteq> [] \<and> list_all (\<lambda>c. c \<in> set SAFE_SYMBOL_CHARS) symbol"

definition nested_record :: "'v json_package \<Rightarrow> 'v \<Rightarrow> string \<Rightarrow> 'v option" where
  "nested_record J payload key = (case json_get J payload key of
     None \<Rightarrow> None
   | Some v \<Rightarrow> if json_kind_of J v = JsonObject then Some v else None)"

definition text_field :: "'v json_package \<Rightarrow> 'v \<Rightarrow> string \<Rightarrow> string option" where
  "text_field J payload key = (case json_get J payload key of
     None \<Rightarrow> None
   | Some v \<Rightarrow> (case json_kind_of J v of JsonString text \<Rightarrow> Some text | _ \<Rightarrow> None))"

definition number_text_field :: "'v json_package \<Rightarrow> 'v \<Rightarrow> string \<Rightarrow> string option" where
  "number_text_field J payload key = (case json_get J payload key of
     None \<Rightarrow> None
   | Some v \<Rightarrow> (case json_kind_of J v of JsonString text \<Rightarrow> Some text | JsonNumber text \<Rightarrow> Some text | _ \<Rightarrow> None))"

definition persisted_decimal_value_with_null_policy ::
  "'v json_package \<Rightarrow> 'n num_package \<Rightarrow> int \<Rightarrow> string \<Rightarrow> string \<Rightarrow> 'v \<Rightarrow> string \<Rightarrow> bool \<Rightarrow> pnl_error + 'n option" where
  "persisted_decimal_value_with_null_policy J N rowid aggregate_type event_type payload key null_allowed =
     (let parse = (\<lambda>text. map_err (\<lambda>e. InvalidFinancialField rowid aggregate_type event_type key text (InvalidDecimal e))
            (map_ok Some (num_from_str N text)));
          refuse = (\<lambda>v. Inl (InvalidFinancialField rowid aggregate_type event_type key (json_to_string J v) InvalidJsonType)) in
      case json_get J payload key of
        None \<Rightarrow> Inr None
      | Some v \<Rightarrow> (case json_kind_of J v of
            JsonNull \<Rightarrow> if null_allowed then Inr None else refuse v
          | JsonString text \<Rightarrow> parse text
          | JsonNumber text \<Rightarrow> parse text
          | _ \<Rightarrow> refuse v))"

definition persisted_decimal_field :: "'v json_package \<Rightarrow> 'n num_package \<Rightarrow> 'v position_event_row \<Rightarrow> 'v \<Rightarrow> string \<Rightarrow> pnl_error + 'n option" where
  "persisted_decimal_field J N row payload key =
     persisted_decimal_value_with_null_policy J N (row_rowid row) ''Position'' (row_event_type row) payload key False"

definition optional_persisted_decimal_field :: "'v json_package \<Rightarrow> 'n num_package \<Rightarrow> 'v position_event_row \<Rightarrow> 'v \<Rightarrow> string \<Rightarrow> pnl_error + 'n option" where
  "optional_persisted_decimal_field J N row payload key =
     persisted_decimal_value_with_null_policy J N (row_rowid row) ''Position'' (row_event_type row) payload key True"

definition direction_field :: "'v json_package \<Rightarrow> 'v \<Rightarrow> string \<Rightarrow> pnl_direction option" where
  "direction_field J payload key = (case text_field J payload key of
     None \<Rightarrow> None
   | Some text \<Rightarrow>
       if text = ''Buy'' \<or> text = ''buy'' then Some PnlBuy
       else if text = ''Sell'' \<or> text = ''sell'' then Some PnlSell
       else None)"

definition malformed_position_payload :: "'v position_event_row \<Rightarrow> string \<Rightarrow> pnl_error" where
  "malformed_position_payload row reason = MalformedPayload (row_rowid row) ''Position'' (row_event_type row) reason"

section \<open>Order of replay\<close>

definition position_event_replay_timestamp :: "'v json_package \<Rightarrow> 'v position_event_row \<Rightarrow> string option" where
  "position_event_replay_timestamp J row =
     (let stamp = (\<lambda>variant field. Option.bind (nested_record J (row_payload row) variant) (\<lambda>v. text_field J v field)) in
      if row_event_type row = ''PositionEvent::OnChainOrderFilled'' then stamp ''OnChainOrderFilled'' ''block_timestamp''
      else if row_event_type row = ''PositionEvent::OffChainOrderFilled'' then stamp ''OffChainOrderFilled'' ''broker_timestamp''
      else if row_event_type row = ''PositionEvent::OffChainOrderPlaced'' then stamp ''OffChainOrderPlaced'' ''placed_at''
      else if row_event_type row = ''PositionEvent::ManualPositionAdjusted'' then stamp ''ManualPositionAdjusted'' ''adjusted_at''
      else None)"

definition replay_key :: "'v json_package \<Rightarrow> calendar \<Rightarrow> 'v position_event_row \<Rightarrow> pnl_error + int \<times> int" where
  "replay_key J C row =
     tryr (ok_or (malformed_position_payload row ''missing replay timestamp'') (position_event_replay_timestamp J row)) (\<lambda>stamp.
     tryr (ok_or (malformed_position_payload row ''invalid replay timestamp'') (cal_parse_rfc3339 C stamp)) (\<lambda>instant.
       Inr (instant div 1000000, row_rowid row)))"

definition ordered_position_events ::
  "'v json_package \<Rightarrow> calendar \<Rightarrow> 'v position_event_row list \<Rightarrow> pnl_error + 'v position_event_row list" where
  "ordered_position_events J C rows =
     tryr (try_fold (\<lambda>acc row. tryr (replay_key J C row) (\<lambda>key. Inr (acc @ [(key, row)]))) [] rows) (\<lambda>sortable.
       Inr (map snd (sort_key fst sortable)))"

section \<open>Reading fills\<close>

definition ensure_positive_fill_decimal :: "'v position_event_row \<Rightarrow> ('n :: linordered_field) \<Rightarrow> string \<Rightarrow> pnl_error + unit" where
  "ensure_positive_fill_decimal row v reason =
     (if v = 0 \<or> v < 0 then Inl (malformed_position_payload row reason) else Inr ())"

definition complete_onchain_fill ::
  "'v position_event_row \<Rightarrow> 'n option \<Rightarrow> pnl_direction option \<Rightarrow> 'n option \<Rightarrow> string option \<Rightarrow> string option \<Rightarrow> string option \<Rightarrow> pnl_error + ('n :: linordered_field) fill" where
  "complete_onchain_fill row amount direction price executed_at tx_hash log_index =
     (case (amount, direction, price, executed_at, tx_hash, log_index) of
       (Some amount, Some direction, Some price, Some executed_at, Some tx_hash, Some log_index) \<Rightarrow>
         tryr (ensure_positive_fill_decimal row amount ''non-positive OnChainOrderFilled amount'') (\<lambda>_.
         tryr (ensure_positive_fill_decimal row price ''non-positive OnChainOrderFilled price_usdc'') (\<lambda>_.
         tryr (map_err (\<lambda>_. malformed_position_payload row ''invalid OnChainOrderFilled symbol'') (symbol_new (row_symbol row))) (\<lambda>symbol.
           Inr \<lparr>fill_rowid = row_rowid row, fill_id = tx_hash @ '':'' @ log_index, fill_symbol = symbol,
             fill_shares = amount, fill_direction = direction, fill_price = price, fill_executed_at = executed_at,
             fill_venue = OnchainVenue\<rparr>)))
     | _ \<Rightarrow> Inl (malformed_position_payload row ''incomplete OnChainOrderFilled payload''))"

definition parse_onchain_fill ::
  "'v json_package \<Rightarrow> ('n :: linordered_field) num_package \<Rightarrow> 'v position_event_row \<Rightarrow> pnl_error + 'n fill" where
  "parse_onchain_fill J N row =
     tryr (ok_or (malformed_position_payload row ''missing OnChainOrderFilled'')
            (nested_record J (row_payload row) ''OnChainOrderFilled'')) (\<lambda>filled.
     tryr (persisted_decimal_field J N row filled ''amount'') (\<lambda>amount.
     let direction = direction_field J filled ''direction'' in
     tryr (persisted_decimal_field J N row filled ''price_usdc'') (\<lambda>price.
     let executed_at = text_field J filled ''block_timestamp'';
         trade_id = nested_record J filled ''trade_id'';
         tx_hash = Option.bind trade_id (\<lambda>i. text_field J i ''tx_hash'');
         log_index = Option.bind trade_id (\<lambda>i. number_text_field J i ''log_index'') in
     complete_onchain_fill row amount direction price executed_at tx_hash log_index)))"

definition complete_offchain_fill ::
  "'v position_event_row \<Rightarrow> string option \<Rightarrow> 'n option \<Rightarrow> pnl_direction option \<Rightarrow> 'n option \<Rightarrow> string option \<Rightarrow> pnl_error + ('n :: linordered_field) fill" where
  "complete_offchain_fill row order_id shares direction price executed_at =
     (case (order_id, shares, direction, price, executed_at) of
       (Some order_id, Some shares, Some direction, Some price, Some executed_at) \<Rightarrow>
         tryr (ensure_positive_fill_decimal row shares ''non-positive OffChainOrderFilled shares_filled'') (\<lambda>_.
         tryr (ensure_positive_fill_decimal row price ''non-positive OffChainOrderFilled price'') (\<lambda>_.
         tryr (map_err (\<lambda>_. malformed_position_payload row ''invalid OffChainOrderFilled symbol'') (symbol_new (row_symbol row))) (\<lambda>symbol.
           Inr \<lparr>fill_rowid = row_rowid row, fill_id = order_id, fill_symbol = symbol,
             fill_shares = shares, fill_direction = direction, fill_price = price, fill_executed_at = executed_at,
             fill_venue = OffchainVenue\<rparr>)))
     | _ \<Rightarrow> Inl (malformed_position_payload row ''incomplete OffChainOrderFilled payload''))"

definition parse_offchain_fill ::
  "'v json_package \<Rightarrow> ('n :: linordered_field) num_package \<Rightarrow> 'v position_event_row \<Rightarrow> pnl_error + 'n fill" where
  "parse_offchain_fill J N row =
     tryr (ok_or (malformed_position_payload row ''missing OffChainOrderFilled'')
            (nested_record J (row_payload row) ''OffChainOrderFilled'')) (\<lambda>filled.
     let order_id = text_field J filled ''offchain_order_id'' in
     tryr (persisted_decimal_field J N row filled ''shares_filled'') (\<lambda>shares.
     let direction = direction_field J filled ''direction'' in
     tryr (persisted_decimal_field J N row filled ''price'') (\<lambda>price.
     let executed_at = text_field J filled ''broker_timestamp'' in
     complete_offchain_fill row order_id shares direction price executed_at)))"

section \<open>Adjustments and placements\<close>

definition clear_lots :: "'n symbol_book \<Rightarrow> 'n symbol_book" where
  "clear_lots b = b\<lparr>book_long_lots := [], book_short_lots := [], book_original_shares := [], book_matched_shares := []\<rparr>"

definition apply_manual_position_adjustment ::
  "'v json_package \<Rightarrow> ('n :: linordered_field) num_package \<Rightarrow> 'n symbol_book \<Rightarrow> 'v position_event_row \<Rightarrow> 'n replay_log \<Rightarrow>
   pnl_error + 'n symbol_book \<times> 'n replay_log" where
  "apply_manual_position_adjustment J N b row r =
     (case nested_record J (row_payload row) ''ManualPositionAdjusted'' of
        None \<Rightarrow> Inr (b, warn_replay (MalformedAdjustment ''missing ManualPositionAdjusted'' (row_symbol row)) r)
      | Some adjusted \<Rightarrow>
          tryr (persisted_decimal_field J N row adjusted ''target_net'') (\<lambda>target_net.
          case (target_net, text_field J adjusted ''adjusted_at'') of
            (Some target_net, Some adjusted_at) \<Rightarrow>
              let b = clear_lots b in
              if target_net = 0 then Inr (b, r)
              else
                tryr (optional_persisted_decimal_field J N row adjusted ''price_usdc'') (\<lambda>event_price.
                tryr (ok_or (malformed_position_payload row
                       ''nonzero ManualPositionAdjusted missing price_usdc and no prior replay price'')
                       (option_or event_price (book_last_price b))) (\<lambda>price.
                  let b = (case event_price of None \<Rightarrow> b | Some p \<Rightarrow> b\<lparr>book_last_price := Some p\<rparr>);
                      side = (if target_net < 0 then ShortLot else LongLot) in
                  Inr (push_lot \<lparr>lot_trade_id = ''manual-position-adjustment:'' @ (if row_rowid row < 0 then ''-'' else []) @ decimal (nat \<bar>row_rowid row\<bar>),
                    lot_side_of = side, lot_remaining = abs_decimal target_net, lot_price = price,
                    lot_opened_at = adjusted_at, lot_opened_rowid = row_rowid row, lot_opened_venue = ManualVenue\<rparr> b, r)))
          | _ \<Rightarrow> Inr (b, warn_replay (MalformedAdjustment ''incomplete payload'' (row_symbol row)) r)))"

definition parse_offchain_placement_id :: "'v json_package \<Rightarrow> 'v position_event_row \<Rightarrow> string option" where
  "parse_offchain_placement_id J row =
     Option.bind (nested_record J (row_payload row) ''OffChainOrderPlaced'') (\<lambda>v. text_field J v ''offchain_order_id'')"

definition apply_offchain_placement ::
  "'v json_package \<Rightarrow> 'n symbol_book \<Rightarrow> 'v position_event_row \<Rightarrow> 'n replay_log \<Rightarrow> 'n symbol_book \<times> 'n replay_log" where
  "apply_offchain_placement J b row r =
     (case parse_offchain_placement_id J row of
        None \<Rightarrow> (b, warn_replay (MalformedPlacement (row_symbol row)) r)
      | Some order_id \<Rightarrow>
          if order_id \<in> book_seen_placements b
          then (b, warn_replay (DuplicatePlacement order_id (row_symbol row)) r)
          else (b\<lparr>book_seen_placements := insert order_id (book_seen_placements b)\<rparr>, r))"

section \<open>The replay\<close>

record 'n replay_state =
  rs_books :: "(symbol \<times> 'n symbol_book) list"
  rs_log :: "'n replay_log"

definition replay_event ::
  "'v json_package \<Rightarrow> ('n :: linordered_field) num_package \<Rightarrow> calendar \<Rightarrow> 'n symbol_book \<Rightarrow> 'v position_event_row \<Rightarrow>
   'n replay_log \<Rightarrow> pnl_stop + 'n symbol_book \<times> 'n replay_log" where
  "replay_event J N C b row r =
     (if row_event_type row = ''PositionEvent::OnChainOrderFilled'' then
        tryr (map_err PnlFail (parse_onchain_fill J N row)) (\<lambda>fl. map_err PnlPanic (apply_onchain_fill N C b fl r))
      else if row_event_type row = ''PositionEvent::OffChainOrderPlaced'' then Inr (apply_offchain_placement J b row r)
      else if row_event_type row = ''PositionEvent::OffChainOrderFilled'' then
        tryr (map_err PnlFail (parse_offchain_fill J N row)) (\<lambda>fl. map_err PnlPanic (apply_offchain_fill N C b fl r))
      else if row_event_type row = ''PositionEvent::ManualPositionAdjusted'' then
        map_err PnlFail (apply_manual_position_adjustment J N b row r)
      else Inr (b, r))"

definition book_at :: "(symbol \<times> ('n :: zero) symbol_book) list \<Rightarrow> symbol \<Rightarrow> 'n symbol_book" where
  "book_at books symbol = (case map_of books symbol of None \<Rightarrow> book_default | Some b \<Rightarrow> b)"

definition replay_row ::
  "'v json_package \<Rightarrow> ('n :: linordered_field) num_package \<Rightarrow> calendar \<Rightarrow> 'n replay_state \<Rightarrow> 'v position_event_row \<Rightarrow>
   pnl_stop + 'n replay_state" where
  "replay_row J N C st row =
     (if \<not> is_safe_symbol (row_symbol row)
      then Inr (st\<lparr>rs_log := warn_replay (UnsafeEventSymbol (row_symbol row)) (rs_log st)\<rparr>)
      else (case symbol_new (row_symbol row) of
          Inl _ \<Rightarrow> Inr (st\<lparr>rs_log := warn_replay (InvalidEventSymbol (row_symbol row)) (rs_log st)\<rparr>)
        | Inr symbol \<Rightarrow>
            tryr (replay_event J N C (book_at (rs_books st) symbol) row (rs_log st)) (\<lambda>(b, r).
              Inr \<lparr>rs_books = AList.update symbol b (rs_books st), rs_log = r\<rparr>)))"

definition replay_rows ::
  "'v json_package \<Rightarrow> ('n :: linordered_field) num_package \<Rightarrow> calendar \<Rightarrow> 'n replay_state \<Rightarrow> 'v position_event_row list \<Rightarrow>
   pnl_stop + 'n replay_state" where
  "replay_rows J N C st rows =
     tryr (map_err PnlFail (ordered_position_events J C rows)) (\<lambda>ordered. try_fold (replay_row J N C) st ordered)"

section \<open>Closing the books\<close>

definition audit_matched ::
  "('n :: linordered_field) num_package \<Rightarrow> 'n \<Rightarrow> symbol \<Rightarrow> (string \<times> 'n) list \<Rightarrow> pnl_warning list \<Rightarrow> string \<times> 'n \<Rightarrow>
   pnl_stop + pnl_warning list" where
  "audit_matched N epsilon symbol original warnings pair = (case pair of (trade_id, matched_shares) \<Rightarrow>
     (case map_of original trade_id of
        None \<Rightarrow> Inr warnings
      | Some original_shares \<Rightarrow>
          if matched_shares - original_shares > epsilon
          then tryr (map_err PnlPanic (fmt_decimal N matched_shares)) (\<lambda>m.
               tryr (map_err PnlPanic (fmt_decimal N original_shares)) (\<lambda>t.
                 Inr (warnings @ [MatchedAboveOriginal trade_id symbol m t])))
          else Inr warnings))"

definition finalize_book ::
  "('n :: linordered_field) num_package \<Rightarrow> symbol \<Rightarrow> 'n symbol_book \<Rightarrow> (symbol \<rightharpoonup> 'n) \<Rightarrow> pnl_warning list \<Rightarrow> 'n replay_delta list \<Rightarrow>
   pnl_stop + 'n symbol_book \<times> pnl_warning list \<times> 'n replay_delta list" where
  "finalize_book N symbol b position_nets warnings deltas =
     (let s = finalize_lots (finalize_lots (book_summary b) (book_long_lots b)) (book_short_lots b);
          b = b\<lparr>book_summary := s\<rparr> in
      tryr (map_err EpsilonPanic (num_from_str N EPSILON)) (\<lambda>epsilon.
      tryr (try_fold (audit_matched N epsilon symbol (book_original_shares b)) warnings (book_matched_shares b)) (\<lambda>warnings.
        case position_nets symbol of
          None \<Rightarrow> Inr (b, warnings, deltas)
        | Some position_net \<Rightarrow>
            let replay_net = acc_open_long_shares s - acc_open_short_shares s in
            if abs_decimal (replay_net - position_net) > epsilon
            then Inr (b, warnings, deltas @
              [\<lparr>delta_symbol = symbol, delta_replay_net = replay_net, delta_position_net = position_net\<rparr>])
            else Inr (b, warnings, deltas))))"

definition add_summary :: "('n :: linordered_field) summary_acc \<Rightarrow> 'n summary_acc \<Rightarrow> 'n summary_acc" where
  "add_summary t s = \<lparr>
     acc_counter_trade_pnl = acc_counter_trade_pnl t + acc_counter_trade_pnl s,
     acc_onchain_netting_pnl = acc_onchain_netting_pnl t + acc_onchain_netting_pnl s,
     acc_inventory_baseline_pnl = acc_inventory_baseline_pnl t + acc_inventory_baseline_pnl s,
     acc_imbalance_excess_pnl = acc_imbalance_excess_pnl t + acc_imbalance_excess_pnl s,
     acc_directional_exposure_pnl = acc_directional_exposure_pnl t + acc_directional_exposure_pnl s,
     acc_realized_pnl = acc_realized_pnl t + acc_realized_pnl s,
     acc_matched_shares = acc_matched_shares t + acc_matched_shares s,
     acc_onchain_notional = acc_onchain_notional t + acc_onchain_notional s,
     acc_offchain_notional = acc_offchain_notional t + acc_offchain_notional s,
     acc_open_long_shares = acc_open_long_shares t + acc_open_long_shares s,
     acc_open_short_shares = acc_open_short_shares t + acc_open_short_shares s,
     acc_open_long_notional = acc_open_long_notional t + acc_open_long_notional s,
     acc_open_short_notional = acc_open_short_notional t + acc_open_short_notional s,
     acc_unmatched_buy_shares = acc_unmatched_buy_shares t + acc_unmatched_buy_shares s,
     acc_unmatched_sell_shares = acc_unmatched_sell_shares t + acc_unmatched_sell_shares s,
     acc_unmatched_buy_notional = acc_unmatched_buy_notional t + acc_unmatched_buy_notional s,
     acc_unmatched_sell_notional = acc_unmatched_sell_notional t + acc_unmatched_sell_notional s,
     acc_onchain_fill_count = acc_onchain_fill_count t + acc_onchain_fill_count s,
     acc_offchain_fill_count = acc_offchain_fill_count t + acc_offchain_fill_count s,
     acc_matched_lot_count = acc_matched_lot_count t + acc_matched_lot_count s,
     acc_open_lot_count = acc_open_lot_count t + acc_open_lot_count s,
     acc_unmatched_fill_count = acc_unmatched_fill_count t + acc_unmatched_fill_count s\<rparr>"

section \<open>A log in the database\<close>

datatype demo_value = DText string | DNumber string | DNull | DObject "(string \<times> demo_value) list"

definition demo_json :: "demo_value json_package" where
  "demo_json = \<lparr>json_get = (\<lambda>v k. case v of DObject members \<Rightarrow> map_of members k | _ \<Rightarrow> None),
     json_kind_of = (\<lambda>v. case v of DText t \<Rightarrow> JsonString t | DNumber t \<Rightarrow> JsonNumber t | DNull \<Rightarrow> JsonNull | DObject _ \<Rightarrow> JsonObject),
     json_to_string = (\<lambda>_. [])\<rparr>"

definition demo_calendar :: calendar where
  "demo_calendar = \<lparr>cal_parse_rfc3339 = (\<lambda>t. Some (int (decimal_value t) * 1000000)), cal_ny_date = (\<lambda>_. ''2026-01-05''),
     cal_ny_weekend = (\<lambda>_. False), cal_ny_hour = (\<lambda>_. 10), cal_ny_minute = (\<lambda>_. 0),
     cal_to_rfc3339 = (\<lambda>_. ''1''), cal_date_text = (\<lambda>_. ''1''), cal_et_boundary = (\<lambda>_ _. None)\<rparr>"

definition demo_onchain_row :: "int \<Rightarrow> string \<Rightarrow> string \<Rightarrow> string \<Rightarrow> demo_value position_event_row" where
  "demo_onchain_row rowid hash amount stamp = \<lparr>row_rowid = rowid, row_symbol = ''AAPL'',
     row_event_type = ''PositionEvent::OnChainOrderFilled'',
     row_payload = DObject [(''OnChainOrderFilled'', DObject [(''amount'', DText amount), (''direction'', DText ''Buy''),
       (''price_usdc'', DText ''100''), (''block_timestamp'', DText stamp),
       (''trade_id'', DObject [(''tx_hash'', DText hash), (''log_index'', DNumber ''0'')])])]\<rparr>"

definition demo_offchain_row :: "int \<Rightarrow> string \<Rightarrow> string \<Rightarrow> string \<Rightarrow> demo_value position_event_row" where
  "demo_offchain_row rowid oid amount stamp = \<lparr>row_rowid = rowid, row_symbol = ''AAPL'',
     row_event_type = ''PositionEvent::OffChainOrderFilled'',
     row_payload = DObject [(''OffChainOrderFilled'', DObject [(''offchain_order_id'', DText oid), (''shares_filled'', DText amount),
       (''direction'', DText ''Sell''), (''price'', DText ''101''), (''broker_timestamp'', DText stamp)])]\<rparr>"

definition demo_adjustment_row :: "int \<Rightarrow> string \<Rightarrow> string \<Rightarrow> demo_value position_event_row" where
  "demo_adjustment_row rowid target stamp = \<lparr>row_rowid = rowid, row_symbol = ''AAPL'',
     row_event_type = ''PositionEvent::ManualPositionAdjusted'',
     row_payload = DObject [(''ManualPositionAdjusted'', DObject [(''target_net'', DText target), (''price_usdc'', DText ''100''),
       (''adjusted_at'', DText stamp)])]\<rparr>"

definition demo_placed_row :: "int \<Rightarrow> string \<Rightarrow> string \<Rightarrow> demo_value position_event_row" where
  "demo_placed_row rowid oid stamp = \<lparr>row_rowid = rowid, row_symbol = ''AAPL'',
     row_event_type = ''PositionEvent::OffChainOrderPlaced'',
     row_payload = DObject [(''OffChainOrderPlaced'', DObject [(''offchain_order_id'', DText oid), (''placed_at'', DText stamp)])]\<rparr>"

definition demo_log_rows :: "demo_value position_event_row list" where
  "demo_log_rows = [demo_onchain_row 1 ''0x1'' ''5'' ''1'', demo_placed_row 2 ''7'' ''1'', demo_offchain_row 3 ''7'' ''3'' ''2'']"

lemma demo_log_ordered: "ordered_position_events demo_json demo_calendar demo_log_rows = Inr demo_log_rows"
  by code_simp

end
