(* ===== verification/Pnl_Ledger.thy ===== *)
theory Pnl_Ledger
  imports Pnl_Rows Position
begin

text \<open>
  What the replay of a log of position events amounts to. The abstract specification is a ledger of
  postings: a fill adds its signed quantity unless its id was posted before, an adjustment sets the
  net. Every book the replay keeps refines it, and agrees with the net of the \<^verbatim>\<open>Position\<close> aggregate
  when the rows are replayed in the order the aggregate applied them.
\<close>

section \<open>What parsing promises\<close>

lemma ensure_positive_iff [simp]: "ensure_positive_fill_decimal row v reason = Inr u \<longleftrightarrow> 0 < v"
  by (auto simp: ensure_positive_fill_decimal_def)

lemma complete_onchain_fill_ok:
  assumes "complete_onchain_fill row a b c d e f = Inr fl"
  shows "0 < fill_shares fl" "0 < fill_price fl" "fill_venue fl = OnchainVenue" "symbol_new (row_symbol row) = Inr (fill_symbol fl)"
  using assms by (auto simp: complete_onchain_fill_def split: option.split_asm)

lemma parse_onchain_fill_ok:
  assumes "parse_onchain_fill J N row = Inr fl"
  shows "0 < fill_shares fl" "0 < fill_price fl" "fill_venue fl = OnchainVenue" "symbol_new (row_symbol row) = Inr (fill_symbol fl)"
  using assms by (auto simp: parse_onchain_fill_def Let_def dest: complete_onchain_fill_ok)

lemma complete_offchain_fill_ok:
  assumes "complete_offchain_fill row a b c d e = Inr fl"
  shows "0 < fill_shares fl" "0 < fill_price fl" "fill_venue fl = OffchainVenue" "symbol_new (row_symbol row) = Inr (fill_symbol fl)"
  using assms by (auto simp: complete_offchain_fill_def split: option.split_asm)

lemma parse_offchain_fill_ok:
  assumes "parse_offchain_fill J N row = Inr fl"
  shows "0 < fill_shares fl" "0 < fill_price fl" "fill_venue fl = OffchainVenue" "symbol_new (row_symbol row) = Inr (fill_symbol fl)"
  using assms by (auto simp: parse_offchain_fill_def Let_def dest: complete_offchain_fill_ok)

section \<open>Postings\<close>

datatype 'n posting = PostOnchain "'n fill" | PostOffchain "'n fill" | ResetNet 'n | NoPosting

definition manual_target :: "'v json_package \<Rightarrow> 'n num_package \<Rightarrow> 'v position_event_row \<Rightarrow> 'n option" where
  "manual_target J N row =
     (case nested_record J (row_payload row) ''ManualPositionAdjusted'' of
        None \<Rightarrow> None
      | Some adjusted \<Rightarrow> (case (persisted_decimal_field J N row adjusted ''target_net'', text_field J adjusted ''adjusted_at'') of
           (Inr (Some target_net), Some _) \<Rightarrow> Some target_net
         | _ \<Rightarrow> None))"

definition row_posting :: "'v json_package \<Rightarrow> ('n :: linordered_field) num_package \<Rightarrow> 'v position_event_row \<Rightarrow> 'n posting" where
  "row_posting J N row =
     (if row_event_type row = ''PositionEvent::OnChainOrderFilled'' then
        (case parse_onchain_fill J N row of Inr fl \<Rightarrow> PostOnchain fl | Inl _ \<Rightarrow> NoPosting)
      else if row_event_type row = ''PositionEvent::OffChainOrderFilled'' then
        (case parse_offchain_fill J N row of Inr fl \<Rightarrow> PostOffchain fl | Inl _ \<Rightarrow> NoPosting)
      else if row_event_type row = ''PositionEvent::ManualPositionAdjusted'' then
        (case manual_target J N row of Some target_net \<Rightarrow> ResetNet target_net | None \<Rightarrow> NoPosting)
      else NoPosting)"

record 'n pnl_ledger =
  pl_net :: 'n
  pl_onchain :: "string set"
  pl_offchain :: "string set"

fun post :: "('n :: linordered_field) pnl_ledger \<Rightarrow> 'n posting \<Rightarrow> 'n pnl_ledger" where
  "post l (PostOnchain fl) = (if fill_id fl \<in> pl_onchain l then l
     else l\<lparr>pl_net := pl_net l + fill_signed fl, pl_onchain := insert (fill_id fl) (pl_onchain l)\<rparr>)"
| "post l (PostOffchain fl) = (if fill_id fl \<in> pl_offchain l then l
     else l\<lparr>pl_net := pl_net l + fill_signed fl, pl_offchain := insert (fill_id fl) (pl_offchain l)\<rparr>)"
| "post l (ResetNet target_net) = l\<lparr>pl_net := target_net\<rparr>"
| "post l NoPosting = l"

definition book_ledger :: "('n :: linordered_field) symbol_book \<Rightarrow> 'n pnl_ledger" where
  "book_ledger b = \<lparr>pl_net = book_net b, pl_onchain = book_seen_onchain b, pl_offchain = book_seen_offchain b\<rparr>"

definition ledger_empty :: "('n :: linordered_field) pnl_ledger" where
  "ledger_empty = \<lparr>pl_net = 0, pl_onchain = {}, pl_offchain = {}\<rparr>"

lemma book_ledger_default [simp]: "book_ledger book_default = ledger_empty"
  by (simp add: book_ledger_def ledger_empty_def) (simp add: book_default_def)

section \<open>One event\<close>

definition book_good :: "('n :: linordered_field) symbol_book \<Rightarrow> bool" where
  "book_good b \<longleftrightarrow> book_ok b \<and> book_audited b \<and> buckets_ok (book_summary b)"

lemma book_good_default [simp]: "book_good book_default"
  by (simp add: book_good_def) (simp add: book_default_def summary_default_def buckets_ok_def closed_summary_def)

lemma apply_onchain_fill_buckets:
  assumes "apply_onchain_fill N C b fl r = Inr (b', r')" and "book_good b" and "0 < fill_shares fl"
  shows "buckets_ok (book_summary b')"
proof (cases "fill_id fl \<in> book_seen_onchain b")
  case True
  with assms show ?thesis by (simp add: apply_onchain_fill_def book_good_def)
next
  case False
  define b0 where "b0 = b\<lparr>book_seen_onchain := insert (fill_id fl) (book_seen_onchain b), book_last_price := Some (fill_price fl),
    book_summary := book_summary b\<lparr>acc_onchain_fill_count := acc_onchain_fill_count (book_summary b) + 1\<rparr>\<rparr>"
  from assms(1) False obtain remaining b1 r1 where
    m: "match_book N C fl OnchainNetting b0 r = Inr (remaining, b1, r1)" and s: "book_summary b' = book_summary b1"
    by (auto simp: apply_onchain_fill_def Let_def b0_def open_residual_frame split: if_splits)
  show ?thesis unfolding s using assms(2,3)
    by (intro match_book_buckets [OF m]) (auto simp: b0_def book_good_def book_ok_def buckets_ok_def closed_summary_def)
qed

lemma apply_offchain_fill_buckets:
  assumes "apply_offchain_fill N C b fl r = Inr (b', r')" and "book_good b" and "0 < fill_shares fl"
  shows "buckets_ok (book_summary b')"
proof (cases "fill_id fl \<in> book_seen_offchain b")
  case True
  with assms show ?thesis by (simp add: apply_offchain_fill_def book_good_def)
next
  case False
  define b0 where "b0 = b\<lparr>book_seen_offchain := insert (fill_id fl) (book_seen_offchain b),
    book_summary := book_summary b\<lparr>acc_offchain_fill_count := acc_offchain_fill_count (book_summary b) + 1\<rparr>\<rparr>"
  from assms(1) False obtain remaining b1 r1 where
    m: "match_book N C fl CounterTrade b0 r = Inr (remaining, b1, r1)" and s: "book_summary b' = book_summary b1"
    by (auto simp: apply_offchain_fill_def Let_def b0_def open_residual_frame split: if_splits)
  show ?thesis unfolding s using assms(2,3)
    by (intro match_book_buckets [OF m]) (auto simp: b0_def book_good_def book_ok_def buckets_ok_def closed_summary_def)
qed

text \<open>An adjustment replaces the lots by one of the target's size and side.\<close>

lemma push_lot_cleared:
  assumes "0 < lot_remaining lot" and "lot_opened_venue lot = ManualVenue" and "buckets_ok (book_summary b)"
    and "book_long_lots b = []" and "book_short_lots b = []" and "book_original_shares b = []" and "book_matched_shares b = []"
  shows "book_good (push_lot lot b)"
    "book_net (push_lot lot b) = (if lot_side_of lot = LongLot then lot_remaining lot else - lot_remaining lot)"
    "book_seen_onchain (push_lot lot b) = book_seen_onchain b" "book_seen_offchain (push_lot lot b) = book_seen_offchain b"
  using assms by (auto simp: push_lot_def book_good_def book_ok_def book_audited_def covered_def book_net_def split: lot_side.splits)

lemma manual_adjustment_cases:
  assumes "apply_manual_position_adjustment J N b row r = Inr (b', r')"
  obtains (skipped) w where "manual_target J N row = None" "b' = b" "r' = warn_replay w r"
    | (flat) "manual_target J N row = Some 0" "b' = clear_lots b" "r' = r"
    | (reset) adjusted q lot b1 where "manual_target J N row = Some q" "q \<noteq> 0" "r' = r" "b' = push_lot lot b1"
      "lot_side_of lot = (if q < 0 then ShortLot else LongLot)" "lot_remaining lot = \<bar>q\<bar>" "lot_opened_venue lot = ManualVenue"
      "persisted_decimal_field J N row adjusted ''target_net'' = Inr (Some q)"
      "b1 = clear_lots b \<and> book_last_price b = Some (lot_price lot) \<or>
       b1 = (clear_lots b)\<lparr>book_last_price := Some (lot_price lot)\<rparr> \<and>
         optional_persisted_decimal_field J N row adjusted ''price_usdc'' = Inr (Some (lot_price lot))"
proof (cases "nested_record J (row_payload row) ''ManualPositionAdjusted''")
  case None
  with assms show ?thesis by (intro skipped) (auto simp: apply_manual_position_adjustment_def manual_target_def)
next
  case (Some adjusted)
  from assms Some obtain target where target: "persisted_decimal_field J N row adjusted ''target_net'' = Inr target"
    by (auto simp: apply_manual_position_adjustment_def)
  show ?thesis
  proof (cases "target = None \<or> text_field J adjusted ''adjusted_at'' = None")
    case True
    with assms Some target show ?thesis
      by (intro skipped) (auto simp: apply_manual_position_adjustment_def manual_target_def split: option.splits)
  next
    case False
    then obtain q adjusted_at where q: "target = Some q" "text_field J adjusted ''adjusted_at'' = Some adjusted_at" by auto
    then have t: "manual_target J N row = Some q" using Some target by (simp add: manual_target_def)
    show ?thesis
    proof (cases "q = 0")
      case True
      with assms Some target q t show ?thesis by (intro flat) (simp_all add: apply_manual_position_adjustment_def Let_def)
    next
      case nonzero: False
      with assms Some target q obtain event_price where
        p: "optional_persisted_decimal_field J N row adjusted ''price_usdc'' = Inr event_price"
        by (auto simp: apply_manual_position_adjustment_def Let_def)
      show ?thesis
      proof (cases event_price)
        case None
        with assms Some target q nonzero p t show ?thesis
          by (auto simp: apply_manual_position_adjustment_def Let_def clear_lots_def intro!: reset [of q _ _ adjusted])
      next
        case (Some price)
        with assms \<open>nested_record J (row_payload row) _ = Some adjusted\<close> target q nonzero p t show ?thesis
          by (auto simp: apply_manual_position_adjustment_def Let_def intro!: reset [of q _ _ adjusted])
      qed
    qed
  qed
qed

lemma manual_adjustment_posts:
  assumes "apply_manual_position_adjustment J N b row r = Inr (b', r')" and "book_good b"
    and "row_event_type row = ''PositionEvent::ManualPositionAdjusted''"
  shows "book_good b' \<and> book_ledger b' = post (book_ledger b) (row_posting J N row)"
  using assms(1)
proof (cases rule: manual_adjustment_cases)
  case skipped
  with assms(2,3) show ?thesis by (simp add: row_posting_def)
next
  case flat
  with assms(2,3) show ?thesis
    by (simp add: row_posting_def book_good_def book_ok_def book_audited_def covered_def book_ledger_def book_net_def clear_lots_def)
next
  case (reset adjusted q lot b1)
  have "buckets_ok (book_summary b1)" "book_long_lots b1 = []" "book_short_lots b1 = []" "book_original_shares b1 = []"
    "book_matched_shares b1 = []" "book_seen_onchain b1 = book_seen_onchain b" "book_seen_offchain b1 = book_seen_offchain b"
    using reset(9) assms(2) by (auto simp: clear_lots_def book_good_def)
  with reset assms(3) show ?thesis by (auto simp: row_posting_def book_ledger_def push_lot_cleared)
qed

lemma replay_event_refines:
  assumes "replay_event J N C b row r = Inr (b', r')" and "book_good b"
  shows "book_good b' \<and> book_ledger b' = post (book_ledger b) (row_posting J N row)"
proof -
  have onchain: ?thesis if run: "apply_onchain_fill N C b fl r = Inr (b', r')" and fl: "parse_onchain_fill J N row = Inr fl"
    and ty: "row_event_type row = ''PositionEvent::OnChainOrderFilled''" for fl
  proof -
    have ok: "book_ok b" "book_audited b" using assms(2) by (simp_all add: book_good_def)
    note posts = apply_onchain_fill_posts [OF run ok(1) parse_onchain_fill_ok(1) [OF fl]]
    have "book_good b'" unfolding book_good_def
      using posts ok apply_onchain_fill_audited [OF run ok(1) parse_onchain_fill_ok(1) [OF fl] ok(2)]
        apply_onchain_fill_buckets [OF run assms(2) parse_onchain_fill_ok(1) [OF fl]]
      by (auto simp: fill_posted_def split: if_splits)
    with posts ty fl show ?thesis by (auto simp: row_posting_def book_ledger_def fill_posted_def split: if_splits)
  qed
  have offchain: ?thesis if run: "apply_offchain_fill N C b fl r = Inr (b', r')" and fl: "parse_offchain_fill J N row = Inr fl"
    and ty: "row_event_type row = ''PositionEvent::OffChainOrderFilled''" for fl
  proof -
    have ok: "book_ok b" "book_audited b" using assms(2) by (simp_all add: book_good_def)
    note posts = apply_offchain_fill_posts [OF run ok(1) parse_offchain_fill_ok(1) [OF fl]]
    have "book_good b'" unfolding book_good_def
      using posts ok apply_offchain_fill_audited [OF run ok(1) parse_offchain_fill_ok(1) [OF fl] ok(2)]
        parse_offchain_fill_ok(3) [OF fl] apply_offchain_fill_buckets [OF run assms(2) parse_offchain_fill_ok(1) [OF fl]]
      by (auto simp: fill_posted_def split: if_splits)
    with posts ty fl show ?thesis by (auto simp: row_posting_def book_ledger_def fill_posted_def split: if_splits)
  qed
  have placed: ?thesis if "apply_offchain_placement J b row r = (b', r')" and "row_event_type row = ''PositionEvent::OffChainOrderPlaced''"
  proof -
    from that(1) have "b' = b \<or> (\<exists>seen. b' = b\<lparr>book_seen_placements := seen\<rparr>)"
      by (auto simp: apply_offchain_placement_def split: option.splits if_splits)
    moreover have "row_posting J N row = NoPosting" using that(2) by (simp add: row_posting_def)
    ultimately show ?thesis
      using assms(2) unfolding book_good_def book_ok_def book_audited_def book_ledger_def book_net_def by fastforce
  qed
  consider "row_event_type row = ''PositionEvent::OnChainOrderFilled''" | "row_event_type row = ''PositionEvent::OffChainOrderPlaced''"
    | "row_event_type row = ''PositionEvent::OffChainOrderFilled''" | "row_event_type row = ''PositionEvent::ManualPositionAdjusted''"
    | "row_event_type row \<notin> {''PositionEvent::OnChainOrderFilled'', ''PositionEvent::OffChainOrderPlaced'',
        ''PositionEvent::OffChainOrderFilled'', ''PositionEvent::ManualPositionAdjusted''}"
    by blast
  then show ?thesis
  proof cases
    case 1
    with assms(1) onchain show ?thesis by (auto simp: replay_event_def)
  next
    case 2
    with assms(1) placed show ?thesis by (auto simp: replay_event_def)
  next
    case 3
    with assms(1) offchain show ?thesis by (auto simp: replay_event_def)
  next
    case 4
    with assms(1) have "apply_manual_position_adjustment J N b row r = Inr (b', r')" by (simp add: replay_event_def)
    from manual_adjustment_posts [OF this assms(2) 4] show ?thesis by blast
  next
    case 5
    then have "row_posting J N row = NoPosting" "replay_event J N C b row r = Inr (b, r)"
      by (simp_all add: row_posting_def replay_event_def)
    with assms show ?thesis by simp
  qed
qed


section \<open>The whole replay\<close>

definition row_for :: "symbol \<Rightarrow> 'v position_event_row \<Rightarrow> bool" where
  "row_for symbol row \<longleftrightarrow> is_safe_symbol (row_symbol row) \<and> symbol_new (row_symbol row) = Inr symbol"

lemma book_at_update [simp]: "book_at (AList.update k b books) k' = (if k' = k then b else book_at books k')"
  by (simp add: book_at_def AList.update_conv')

lemma replay_row_refines:
  assumes "replay_row J N C st row = Inr st'" and "\<And>symbol. book_good (book_at (rs_books st) symbol)"
  shows "book_good (book_at (rs_books st') symbol) \<and> book_ledger (book_at (rs_books st') symbol) =
    (if row_for symbol row then post (book_ledger (book_at (rs_books st) symbol)) (row_posting J N row)
     else book_ledger (book_at (rs_books st) symbol))"
proof (cases "is_safe_symbol (row_symbol row) \<and> (\<exists>s. symbol_new (row_symbol row) = Inr s)")
  case True
  then obtain s where s: "symbol_new (row_symbol row) = Inr s" by blast
  with True assms(1) obtain b r where
    e: "replay_event J N C (book_at (rs_books st) s) row (rs_log st) = Inr (b, r)" and
    st': "st' = \<lparr>rs_books = AList.update s b (rs_books st), rs_log = r\<rparr>"
    by (auto simp: replay_row_def)
  from replay_event_refines [OF e assms(2)] True s assms(2) show ?thesis by (auto simp: st' row_for_def)
next
  case False
  with assms show ?thesis by (auto simp: replay_row_def row_for_def split: sum.splits if_splits)
qed

lemma replay_fold_refines:
  assumes "try_fold (replay_row J N C) st rows = Inr st'" and "\<And>symbol. book_good (book_at (rs_books st) symbol)"
  shows "book_good (book_at (rs_books st') symbol) \<and> book_ledger (book_at (rs_books st') symbol) =
    foldl post (book_ledger (book_at (rs_books st) symbol)) (map (row_posting J N) (filter (row_for symbol) rows))"
  using assms
proof (induction rows arbitrary: st)
  case (Cons row rows)
  from Cons.prems(1) obtain st1 where st1: "replay_row J N C st row = Inr st1" "try_fold (replay_row J N C) st1 rows = Inr st'"
    by auto
  note step = replay_row_refines [OF st1(1) Cons.prems(2)]
  from Cons.IH [OF st1(2)] step show ?case by auto
qed simp

definition replay_start :: "pnl_warning list \<Rightarrow> 'n replay_state" where
  "replay_start warnings = \<lparr>rs_books = [], rs_log = \<lparr>rl_entries = [], rl_warnings = warnings, rl_allocations = []\<rparr>\<rparr>"

lemma replay_start_book [simp]: "book_at (rs_books (replay_start warnings)) symbol = book_default"
  by (simp add: replay_start_def book_at_def)

text \<open>
  Whatever was persisted, each book the replay builds holds the net of its symbol's postings in the
  order of replay, is never long and short at once, and splits its profit over the buckets.
\<close>

theorem replay_refines_ledger:
  assumes "ordered_position_events J C rows = Inr ordered" and "replay_rows J N C (replay_start warnings) rows = Inr st"
  shows "book_ledger (book_at (rs_books st) symbol) =
      foldl post ledger_empty (map (row_posting J N) (filter (row_for symbol) ordered)) \<and>
    book_good (book_at (rs_books st) symbol)"
  using replay_fold_refines [of J N C "replay_start warnings" ordered st symbol] assms by (auto simp: replay_rows_def)


section \<open>Cash\<close>

text \<open>The fills of a run of postings that are counted: those whose id was not posted before.\<close>

fun counted :: "('n :: linordered_field) pnl_ledger \<Rightarrow> 'n posting list \<Rightarrow> 'n fill list" where
  "counted l [] = []"
| "counted l (PostOnchain fl # ps) = (if fill_id fl \<in> pl_onchain l then [] else [fl]) @ counted (post l (PostOnchain fl)) ps"
| "counted l (PostOffchain fl # ps) = (if fill_id fl \<in> pl_offchain l then [] else [fl]) @ counted (post l (PostOffchain fl)) ps"
| "counted l (p # ps) = counted (post l p) ps"

lemma counted_Cons: "counted l (p # ps) = counted l [p] @ counted (post l p) ps"
  by (cases p) simp_all

definition book_cash :: "('n :: linordered_field) symbol_book \<Rightarrow> 'n" where
  "book_cash b = book_realized b - book_basis b"

lemma replay_event_cash:
  assumes "replay_event J N C b row r = Inr (b', r')" and "book_good b"
    and "row_event_type row \<noteq> ''PositionEvent::ManualPositionAdjusted''"
  shows "book_cash b' = book_cash b + (\<Sum>fl \<leftarrow> counted (book_ledger b) [row_posting J N row]. fill_cash fl)"
proof -
  have ok: "book_ok b" using assms(2) by (simp add: book_good_def)
  consider (onchain) fl where "row_posting J N row = PostOnchain fl" "parse_onchain_fill J N row = Inr fl" "apply_onchain_fill N C b fl r = Inr (b', r')"
    | (offchain) fl where "row_posting J N row = PostOffchain fl" "parse_offchain_fill J N row = Inr fl" "apply_offchain_fill N C b fl r = Inr (b', r')"
    | (none) "row_posting J N row = NoPosting" "book_cash b' = book_cash b"
    using assms(1,3) by (auto simp: replay_event_def row_posting_def apply_offchain_placement_def book_cash_def book_realized_def
      book_basis_def split: if_splits option.splits)
  then show ?thesis
  proof cases
    case onchain
    from apply_onchain_fill_posts [OF onchain(3) ok parse_onchain_fill_ok(1) [OF onchain(2)]] onchain(1) show ?thesis
      by (auto simp: book_ledger_def book_cash_def fill_posted_def split: if_splits)
  next
    case offchain
    from apply_offchain_fill_posts [OF offchain(3) ok parse_offchain_fill_ok(1) [OF offchain(2)]] offchain(1) show ?thesis
      by (auto simp: book_ledger_def book_cash_def fill_posted_def split: if_splits)
  next
    case none
    then show ?thesis by simp
  qed
qed

lemma demo_log_for: "filter (row_for ''AAPL'') demo_log_rows = demo_log_rows"
  by code_simp

lemma demo_log_returns: "is_ok (replay_rows demo_json demo_num demo_calendar (replay_start []) demo_log_rows)"
  by code_simp

theorem replay_refines_ledger_witness:
  "\<exists>st. replay_rows demo_json demo_num demo_calendar (replay_start []) demo_log_rows = Inr st \<and>
    book_ledger (book_at (rs_books st) ''AAPL'') = foldl post ledger_empty (map (row_posting demo_json demo_num) demo_log_rows) \<and>
    book_good (book_at (rs_books st) ''AAPL'')"
proof -
  obtain st where st: "replay_rows demo_json demo_num demo_calendar (replay_start []) demo_log_rows = Inr st"
    using demo_log_returns by (auto simp: is_ok_iff)
  from replay_refines_ledger [OF demo_log_ordered st, of "''AAPL''"] st show ?thesis by (simp add: demo_log_for)
qed

definition demo_replay :: "demo_value position_event_row list \<Rightarrow> pnl_stop + rat replay_state" where
  "demo_replay rows = replay_rows demo_json demo_num demo_calendar (replay_start []) rows"

end
