(* ===== verification/Pnl_Closing.thy ===== *)
theory Pnl_Closing
  imports Pnl_Ledger
begin

text \<open>
  What the closed books report: the profit realised is the cash the counted fills moved plus what
  the open lots cost; the audit of matched shares finds nothing; the net of the open lots is the
  net of the postings, and it is the net of the \<^verbatim>\<open>Position\<close> aggregate when the replay order is the
  aggregate's; a replay over finite decimals does not panic.
\<close>

section \<open>Profit is cash and inventory\<close>

lemma replay_row_cash:
  assumes "replay_row J N C st row = Inr st'" and "\<And>symbol. book_good (book_at (rs_books st) symbol)"
    and "row_for symbol row \<Longrightarrow> row_event_type row \<noteq> ''PositionEvent::ManualPositionAdjusted''"
  shows "book_cash (book_at (rs_books st') symbol) = book_cash (book_at (rs_books st) symbol) +
    (if row_for symbol row then (\<Sum>fl \<leftarrow> counted (book_ledger (book_at (rs_books st) symbol)) [row_posting J N row]. fill_cash fl) else 0)"
proof (cases "row_for symbol row")
  case True
  with assms(1) obtain b r where
    e: "replay_event J N C (book_at (rs_books st) symbol) row (rs_log st) = Inr (b, r)" and
    st': "st' = \<lparr>rs_books = AList.update symbol b (rs_books st), rs_log = r\<rparr>"
    by (auto simp: replay_row_def row_for_def)
  from replay_event_cash [OF e assms(2) assms(3) [OF True]] True show ?thesis by (simp add: st')
next
  case False
  then show ?thesis using assms(1) by (auto simp: replay_row_def row_for_def split: sum.splits if_splits)
qed

lemma replay_fold_cash:
  assumes "try_fold (replay_row J N C) st rows = Inr st'" and "\<And>symbol. book_good (book_at (rs_books st) symbol)"
    and "\<forall>row \<in> set rows. row_for symbol row \<longrightarrow> row_event_type row \<noteq> ''PositionEvent::ManualPositionAdjusted''"
  shows "book_cash (book_at (rs_books st') symbol) = book_cash (book_at (rs_books st) symbol) +
    (\<Sum>fl \<leftarrow> counted (book_ledger (book_at (rs_books st) symbol)) (map (row_posting J N) (filter (row_for symbol) rows)). fill_cash fl)"
  using assms
proof (induction rows arbitrary: st)
  case (Cons row rows)
  from Cons.prems(1) obtain st1 where st1: "replay_row J N C st row = Inr st1" "try_fold (replay_row J N C) st1 rows = Inr st'"
    by auto
  note step = replay_row_refines [OF st1(1) Cons.prems(2)]
  have "book_cash (book_at (rs_books st') symbol) = book_cash (book_at (rs_books st1) symbol) +
    (\<Sum>fl \<leftarrow> counted (book_ledger (book_at (rs_books st1) symbol)) (map (row_posting J N) (filter (row_for symbol) rows)). fill_cash fl)"
    using Cons.IH [OF st1(2)] step Cons.prems(3) by auto
  then show ?case
    using replay_row_cash [OF st1(1) Cons.prems(2), of symbol] step [of symbol] Cons.prems(3)
    by (simp add: counted_Cons [of _ "row_posting J N row" "map (row_posting J N) (filter (row_for symbol) rows)"] del: counted.simps)
qed simp

text \<open>
  C16. For a symbol that was never adjusted by hand the realised profit is the cash its counted fills
  moved, buys out and sells in, plus what its open lots cost.
\<close>

theorem realized_pnl_is_cash_plus_inventory:
  assumes "ordered_position_events J C rows = Inr ordered" and "replay_rows J N C (replay_start warnings) rows = Inr st"
    and "\<forall>row \<in> set ordered. row_for symbol row \<longrightarrow> row_event_type row \<noteq> ''PositionEvent::ManualPositionAdjusted''"
  shows "book_realized (book_at (rs_books st) symbol) =
    (\<Sum>fl \<leftarrow> counted ledger_empty (map (row_posting J N) (filter (row_for symbol) ordered)). fill_cash fl) +
    book_basis (book_at (rs_books st) symbol)"
  using replay_fold_cash [of J N C "replay_start warnings" ordered st symbol] assms
  by (auto simp: replay_rows_def book_cash_def algebra_simps)

theorem realized_pnl_is_cash_plus_inventory_witness:
  "\<exists>st. replay_rows demo_json demo_num demo_calendar (replay_start []) demo_log_rows = Inr st \<and>
    book_realized (book_at (rs_books st) ''AAPL'') =
      (\<Sum>fl \<leftarrow> counted ledger_empty (map (row_posting demo_json demo_num) demo_log_rows). fill_cash fl) +
      book_basis (book_at (rs_books st) ''AAPL'')"
proof -
  obtain st where st: "replay_rows demo_json demo_num demo_calendar (replay_start []) demo_log_rows = Inr st"
    using demo_log_returns by (auto simp: is_ok_iff)
  have "\<forall>row \<in> set demo_log_rows. row_for ''AAPL'' row \<longrightarrow> row_event_type row \<noteq> ''PositionEvent::ManualPositionAdjusted''"
    by (simp add: demo_log_rows_def demo_onchain_row_def demo_placed_row_def demo_offchain_row_def)
  from realized_pnl_is_cash_plus_inventory [OF demo_log_ordered st this] st show ?thesis by (simp add: demo_log_for)
qed

section \<open>Closing a book\<close>

lemma finalize_lot_sums:
  "lot_side_of lot = LongLot \<Longrightarrow> acc_open_long_shares (finalize_lot s lot) = acc_open_long_shares s + lot_remaining lot \<and>
     acc_open_short_shares (finalize_lot s lot) = acc_open_short_shares s \<and>
     acc_open_long_notional (finalize_lot s lot) = acc_open_long_notional s + lot_remaining lot * lot_price lot \<and>
     acc_open_short_notional (finalize_lot s lot) = acc_open_short_notional s"
  "lot_side_of lot = ShortLot \<Longrightarrow> acc_open_short_shares (finalize_lot s lot) = acc_open_short_shares s + lot_remaining lot \<and>
     acc_open_long_shares (finalize_lot s lot) = acc_open_long_shares s \<and>
     acc_open_short_notional (finalize_lot s lot) = acc_open_short_notional s + lot_remaining lot * lot_price lot \<and>
     acc_open_long_notional (finalize_lot s lot) = acc_open_long_notional s"
  "acc_realized_pnl (finalize_lot s lot) = acc_realized_pnl s"
  by (simp_all add: finalize_lot_def Let_def split: lot_side.splits)

lemma finalize_long_lots:
  "lots_ok LongLot lots \<Longrightarrow> acc_open_long_shares (finalize_lots s lots) = acc_open_long_shares s + lots_shares lots \<and>
     acc_open_short_shares (finalize_lots s lots) = acc_open_short_shares s \<and>
     acc_open_long_notional (finalize_lots s lots) = acc_open_long_notional s + lots_notional lots \<and>
     acc_open_short_notional (finalize_lots s lots) = acc_open_short_notional s \<and>
     acc_realized_pnl (finalize_lots s lots) = acc_realized_pnl s"
  by (induction lots arbitrary: s) (simp_all add: finalize_lots_def finalize_lot_sums)

lemma finalize_short_lots:
  "lots_ok ShortLot lots \<Longrightarrow> acc_open_short_shares (finalize_lots s lots) = acc_open_short_shares s + lots_shares lots \<and>
     acc_open_long_shares (finalize_lots s lots) = acc_open_long_shares s \<and>
     acc_open_short_notional (finalize_lots s lots) = acc_open_short_notional s + lots_notional lots \<and>
     acc_open_long_notional (finalize_lots s lots) = acc_open_long_notional s \<and>
     acc_realized_pnl (finalize_lots s lots) = acc_realized_pnl s"
  by (induction lots arbitrary: s) (simp_all add: finalize_lots_def finalize_lot_sums)

lemma audit_matched_silent:
  assumes "covered original matched lots" and "0 \<le> epsilon" and "map_of matched k = Some v"
  shows "audit_matched N epsilon symbol original warnings (k, v) = Inr warnings"
  using covered_matched [OF assms(1,3)] assms(2) by (auto simp: audit_matched_def)

lemma audit_fold_silent:
  assumes "covered original matched lots" and "0 \<le> epsilon" and "\<forall>(k, v) \<in> set pairs. map_of matched k = Some v"
  shows "try_fold (audit_matched N epsilon symbol original) warnings pairs = Inr warnings"
  using assms(3) by (induction pairs) (auto simp: audit_matched_silent [OF assms(1,2)])


lemma audit_silent:
  assumes "covered original matched lots" and "0 \<le> epsilon"
  shows "try_fold (audit_matched N epsilon symbol original) warnings matched = Inr warnings"
  using assms by (intro audit_fold_silent [OF assms]) (auto simp: covered_def)

text \<open>
  Closing a good book never raises the audit error and never panics: the open sides are its lots, and
  a difference to the position's net is reported exactly when it exceeds the tolerance.
\<close>

lemma finalize_book_reports:
  assumes "book_good b" and "num_from_str N EPSILON = Inr epsilon" and "0 \<le> epsilon"
  shows "\<exists>s. finalize_book N symbol b position_nets warnings deltas = Inr (b\<lparr>book_summary := s\<rparr>, warnings,
      deltas @ (case position_nets symbol of
         None \<Rightarrow> []
       | Some position_net \<Rightarrow> if \<bar>book_net b - position_net\<bar> > epsilon
           then [\<lparr>delta_symbol = symbol, delta_replay_net = book_net b, delta_position_net = position_net\<rparr>] else [])) \<and>
    acc_open_long_shares s - acc_open_short_shares s = book_net b \<and>
    acc_open_long_notional s - acc_open_short_notional s = book_basis b \<and>
    acc_realized_pnl s = book_realized b"
proof -
  let ?s = "finalize_lots (finalize_lots (book_summary b) (book_long_lots b)) (book_short_lots b)"
  have ok: "lots_ok LongLot (book_long_lots b)" "lots_ok ShortLot (book_short_lots b)" "closed_summary (book_summary b)"
    using assms(1) by (auto simp: book_good_def book_ok_def buckets_ok_def)
  have sums: "acc_open_long_shares ?s - acc_open_short_shares ?s = book_net b"
    "acc_open_long_notional ?s - acc_open_short_notional ?s = book_basis b" "acc_realized_pnl ?s = book_realized b"
    using finalize_long_lots [OF ok(1)] finalize_short_lots [OF ok(2)] ok(3)
    by (simp_all add: closed_summary_def book_net_def book_basis_def book_realized_def)
  have silent: "try_fold (audit_matched N epsilon symbol (book_original_shares b)) warnings (book_matched_shares b) = Inr warnings"
    using assms(1,3) by (auto simp: book_good_def book_audited_def intro: audit_silent)
  have "finalize_book N symbol b position_nets warnings deltas = Inr (b\<lparr>book_summary := ?s\<rparr>, warnings,
      deltas @ (case position_nets symbol of
         None \<Rightarrow> []
       | Some position_net \<Rightarrow> if \<bar>book_net b - position_net\<bar> > epsilon
           then [\<lparr>delta_symbol = symbol, delta_replay_net = book_net b, delta_position_net = position_net\<rparr>] else []))"
    using silent by (simp add: finalize_book_def Let_def assms(2) sums(1) split: option.splits)
  with sums show ?thesis by blast
qed


section \<open>No panic over decimals\<close>

text \<open>The parser of the number package reads decimals: it returns nothing else.\<close>

definition reads_decimals :: "('n :: linordered_field) num_package \<Rightarrow> bool" where
  "reads_decimals N \<longleftrightarrow> (\<forall>text v. num_from_str N text = Inr v \<longrightarrow> finite_decimal v)"

lemma persisted_decimal_finite:
  assumes "reads_decimals N" and "persisted_decimal_value_with_null_policy J N rowid a t payload key nulls = Inr (Some v)"
  shows "finite_decimal v"
  using assms by (auto simp: persisted_decimal_value_with_null_policy_def reads_decimals_def Let_def
    split: option.splits json_kind.splits if_splits)

lemma complete_fill_finite:
  "complete_onchain_fill row amount d price e x y = Inr fl \<Longrightarrow> (\<forall>v. amount = Some v \<or> price = Some v \<longrightarrow> finite_decimal v) \<Longrightarrow> finite_fill fl"
  "complete_offchain_fill row x amount d price e = Inr fl \<Longrightarrow> (\<forall>v. amount = Some v \<or> price = Some v \<longrightarrow> finite_decimal v) \<Longrightarrow> finite_fill fl"
  by (auto simp: complete_onchain_fill_def complete_offchain_fill_def finite_fill_def split: option.split_asm)

lemma parsed_fill_finite:
  assumes "reads_decimals N"
  shows "parse_onchain_fill J N row = Inr fl \<Longrightarrow> finite_fill fl" "parse_offchain_fill J N row = Inr fl \<Longrightarrow> finite_fill fl"
  by (auto simp: parse_onchain_fill_def parse_offchain_fill_def Let_def persisted_decimal_field_def
    intro: complete_fill_finite dest: persisted_decimal_finite [OF assms])

lemma manual_adjustment_finite:
  assumes "reads_decimals N" and "apply_manual_position_adjustment J N b row r = Inr (b', r')" and "finite_book b"
  shows "finite_book b' \<and> rl_entries r' = rl_entries r"
  using assms(2)
proof (cases rule: manual_adjustment_cases)
  case skipped
  with assms(3) show ?thesis by (simp add: warn_replay_def)
next
  case flat
  with assms(3) show ?thesis by (simp add: finite_book_def clear_lots_def)
next
  case (reset adjusted q lot b1)
  have "finite_decimal q" using reset(8) persisted_decimal_finite [OF assms(1)] by (auto simp: persisted_decimal_field_def)
  moreover have "finite_decimal (lot_price lot)"
    using reset(9) assms(3) persisted_decimal_finite [OF assms(1)] by (auto simp: optional_persisted_decimal_field_def finite_book_def)
  ultimately show ?thesis using reset(3-7,9) assms(3)
    by (auto simp: push_lot_def finite_book_def finite_lot_def clear_lots_def abs_if)
qed

definition finite_replay :: "('n :: linordered_field) symbol_book \<Rightarrow> 'n replay_log \<Rightarrow> bool" where
  "finite_replay b r \<longleftrightarrow> finite_book b \<and> list_all finite_entry (rl_entries r)"

lemma replay_event_returns:
  assumes "num_sem N" and "reads_decimals N" and "book_good b" and "finite_replay b r"
  shows "(\<exists>e. replay_event J N C b row r = Inl (PnlFail e)) \<or>
    (\<exists>b' r'. replay_event J N C b row r = Inr (b', r') \<and> finite_replay b' r')"
proof -
  have ok: "book_ok b" "finite_book b" "list_all finite_entry (rl_entries r)"
    using assms(3,4) by (auto simp: book_good_def finite_replay_def)
  have onchain: "\<exists>b' r'. apply_onchain_fill N C b fl r = Inr (b', r') \<and> finite_replay b' r'"
    if "parse_onchain_fill J N row = Inr fl" for fl
    using apply_onchain_fill_returns [OF assms(1) parsed_fill_finite(1) [OF assms(2) that] parse_onchain_fill_ok(1) [OF that] ok]
    by (simp add: finite_replay_def)
  have offchain: "\<exists>b' r'. apply_offchain_fill N C b fl r = Inr (b', r') \<and> finite_replay b' r'"
    if "parse_offchain_fill J N row = Inr fl" for fl
    using apply_offchain_fill_returns [OF assms(1) parsed_fill_finite(2) [OF assms(2) that] parse_offchain_fill_ok(1) [OF that] ok]
    by (simp add: finite_replay_def)
  have placed: "finite_replay (fst (apply_offchain_placement J b row r)) (snd (apply_offchain_placement J b row r))"
    using assms(4) by (auto simp: apply_offchain_placement_def finite_replay_def finite_book_def warn_replay_def split: option.splits)
  show ?thesis
  proof (cases "row_event_type row = ''PositionEvent::OnChainOrderFilled''")
    case True
    then show ?thesis using onchain by (cases "parse_onchain_fill J N row") (auto simp: replay_event_def)
  next
    case not_onchain: False
    consider "row_event_type row = ''PositionEvent::OffChainOrderFilled''" | "row_event_type row = ''PositionEvent::OffChainOrderPlaced''"
      | "row_event_type row = ''PositionEvent::ManualPositionAdjusted''"
      | "row_event_type row \<notin> {''PositionEvent::OffChainOrderPlaced'', ''PositionEvent::OffChainOrderFilled'', ''PositionEvent::ManualPositionAdjusted''}"
      by blast
    then show ?thesis
    proof cases
      case 1
      then show ?thesis using offchain by (cases "parse_offchain_fill J N row") (auto simp: replay_event_def)
    next
      case 2
      then have "replay_event J N C b row r = Inr (apply_offchain_placement J b row r)" by (simp add: replay_event_def)
      with placed show ?thesis by (cases "apply_offchain_placement J b row r") simp
    next
      case 3
      then have e: "replay_event J N C b row r = map_err PnlFail (apply_manual_position_adjustment J N b row r)"
        by (simp add: replay_event_def)
      show ?thesis
      proof (cases "apply_manual_position_adjustment J N b row r")
        case (Inr p)
        obtain b' r' where p: "p = (b', r')" by fastforce
        with manual_adjustment_finite [OF assms(2) Inr [unfolded p] ok(2)] ok(3) Inr e show ?thesis by (simp add: finite_replay_def)
      qed (simp add: e)
    next
      case 4
      with not_onchain have "replay_event J N C b row r = Inr (b, r)" by (simp add: replay_event_def)
      with assms(4) show ?thesis by blast
    qed
  qed
qed

lemma replay_fold_returns:
  assumes "num_sem N" and "reads_decimals N"
  shows "\<lbrakk>\<And>symbol. book_good (book_at (rs_books st) symbol); \<And>symbol. finite_replay (book_at (rs_books st) symbol) (rs_log st)\<rbrakk> \<Longrightarrow>
    (\<exists>e. try_fold (replay_row J N C) st rows = Inl (PnlFail e)) \<or> (\<exists>st'. try_fold (replay_row J N C) st rows = Inr st')"
proof (induction rows arbitrary: st)
  case (Cons row rows)
  show ?case
  proof (cases "is_safe_symbol (row_symbol row) \<and> (\<exists>s. symbol_new (row_symbol row) = Inr s)")
    case True
    then obtain s where s: "symbol_new (row_symbol row) = Inr s" by blast
    from replay_event_returns [OF assms, of "book_at (rs_books st) s" "rs_log st" J C row] Cons.prems consider
      e where "replay_event J N C (book_at (rs_books st) s) row (rs_log st) = Inl (PnlFail e)"
      | b r where "replay_event J N C (book_at (rs_books st) s) row (rs_log st) = Inr (b, r)" "finite_replay b r" by blast
    then show ?thesis
    proof cases
      case 1
      then show ?thesis using True s by (simp add: replay_row_def)
    next
      case 2
      let ?st = "\<lparr>rs_books = AList.update s b (rs_books st), rs_log = r\<rparr>"
      have row: "replay_row J N C st row = Inr ?st" using 2 True s by (simp add: replay_row_def)
      have "finite_replay (book_at (rs_books ?st) x) (rs_log ?st)" for x
        using 2(2) Cons.prems(2) [of x] by (simp add: finite_replay_def)
      then show ?thesis
        using Cons.IH [of ?st] replay_row_refines [OF row Cons.prems(1)] row by simp
    qed
  next
    case False
    have "\<exists>w. replay_row J N C st row = Inr (st\<lparr>rs_log := warn_replay w (rs_log st)\<rparr>)"
      using False by (cases "is_safe_symbol (row_symbol row)"; cases "symbol_new (row_symbol row)") (auto simp: replay_row_def)
    then obtain w where row: "replay_row J N C st row = Inr (st\<lparr>rs_log := warn_replay w (rs_log st)\<rparr>)" ..
    have "finite_replay (book_at (rs_books st) x) (warn_replay w (rs_log st))" for x
      using Cons.prems(2) [of x] by (simp add: finite_replay_def warn_replay_def)
    then show ?thesis using Cons.IH [of "st\<lparr>rs_log := warn_replay w (rs_log st)\<rparr>"] Cons.prems(1) row by simp
  qed
qed simp

text \<open>
  C35. The replay of persisted decimals returns the books or an error value: it never panics on a number
  it cannot print.
\<close>

theorem replay_never_panics:
  assumes "num_sem N" and "reads_decimals N"
  shows "(\<exists>e. replay_rows J N C (replay_start warnings) rows = Inl (PnlFail e)) \<or>
    (\<exists>st. replay_rows J N C (replay_start warnings) rows = Inr st)"
proof (cases "ordered_position_events J C rows")
  case (Inr ordered)
  have "finite_replay (book_at (rs_books (replay_start warnings)) s) (rs_log (replay_start warnings :: 'a replay_state))" for s
    by (simp add: finite_replay_def) (simp add: replay_start_def)
  with replay_fold_returns [OF assms, of "replay_start warnings" J C ordered] Inr show ?thesis
    by (simp add: replay_rows_def)
qed (simp add: replay_rows_def)

lemma demo_reads_decimals [simp]: "reads_decimals demo_num"
  by (simp add: reads_decimals_def demo_num_def finite_read_decimal)

theorem replay_never_panics_witness:
  "(\<exists>e. replay_rows demo_json demo_num demo_calendar (replay_start []) demo_log_rows = Inl (PnlFail e)) \<or>
   (\<exists>st. replay_rows demo_json demo_num demo_calendar (replay_start []) demo_log_rows = Inr st)"
  by (rule replay_never_panics) simp_all

end
