(* ===== verification/Pnl_Position.thy ===== *)
theory Pnl_Position
  imports Pnl_Closing
begin

text \<open>
  The report against the \<^verbatim>\<open>Position\<close> aggregate: when the rows of a symbol record its events and are
  replayed in the order the aggregate applied them, the replayed net is the aggregate's and closing
  the book reports no difference. The replay orders by the time of what happened, the aggregate by
  when it was told: the last section shows a fill that reaches the aggregate after an adjustment it
  precedes, and that the two nets then differ.
\<close>

section \<open>Rows of a position's log\<close>

text \<open>The events the report loads, and what their rows must post.\<close>

fun loaded :: "'f position_event \<Rightarrow> bool" where
  "loaded (OnChainOrderFilled _ _ _ _ _ _) = True"
| "loaded (OffChainOrderPlaced _ _ _ _ _ _) = True"
| "loaded (OffChainOrderFilled _ _ _ _ _ _) = True"
| "loaded (ManualPositionAdjusted _ _ _ _ _) = True"
| "loaded _ = False"

fun encodes :: "('f \<Rightarrow> rat) \<Rightarrow> 'f position_event \<Rightarrow> rat posting \<Rightarrow> bool" where
  "encodes v (OnChainOrderFilled _ a d _ _ _) p = (case p of PostOnchain fl \<Rightarrow> fill_signed fl = signed d (sval v a) | _ \<Rightarrow> False)"
| "encodes v (OffChainOrderFilled _ q d _ _ _) p =
     (case p of PostOffchain fl \<Rightarrow> fill_signed fl = signed d (sval v (positive_inner q)) | _ \<Rightarrow> False)"
| "encodes v (ManualPositionAdjusted _ target _ _ _) p = (p = ResetNet (sval v target))"
| "encodes v _ p = (p = NoPosting)"

fun fresh_postings :: "string set \<Rightarrow> string set \<Rightarrow> 'n posting list \<Rightarrow> bool" where
  "fresh_postings on off [] = True"
| "fresh_postings on off (PostOnchain fl # ps) \<longleftrightarrow> fill_id fl \<notin> on \<and> fresh_postings (insert (fill_id fl) on) off ps"
| "fresh_postings on off (PostOffchain fl # ps) \<longleftrightarrow> fill_id fl \<notin> off \<and> fresh_postings on (insert (fill_id fl) off) ps"
| "fresh_postings on off (_ # ps) = fresh_postings on off ps"

lemma ledger_loaded: "foldl (ledger_step v) l (filter loaded es) = foldl (ledger_step v) l es"
proof (induction es arbitrary: l)
  case (Cons e es)
  then show ?case by (cases e) simp_all
qed simp

lemma postings_follow_ledger:
  assumes "list_all2 (encodes v) es ps" and "fresh_postings (pl_onchain l) (pl_offchain l) ps" and "pl_net l = led_net k"
  shows "pl_net (foldl post l ps) = led_net (foldl (ledger_step v) k es)"
  using assms
proof (induction es ps arbitrary: l k rule: list_all2_induct)
  case (Cons e es p ps)
  then show ?case by (cases e; cases p) auto
qed simp

text \<open>
  C15. Replayed in the order the aggregate applied its events, and with no fill persisted twice, the
  open lots of a symbol net to the position of the aggregate, and closing the book against that
  position reports no difference and no audit error.
\<close>

theorem replay_net_is_position_net:
  assumes "float_sem F v" and "replay (position_originate F) (position_evolve F) lifecycle.Uninitialized es = Live p"
    and "ordered_position_events J C rows = Inr ordered" and "replay_rows J N C (replay_start warnings) rows = Inr st"
    and "list_all2 (encodes v) (filter loaded es) (map (row_posting J N) (filter (row_for symbol) ordered))"
    and "fresh_postings {} {} (map (row_posting J N) (filter (row_for symbol) ordered))"
    and "num_from_str N EPSILON = Inr epsilon" and "0 \<le> epsilon"
    and "position_nets symbol = Some (sval v (net p))"
  shows "book_net (book_at (rs_books st) symbol) = sval v (net p) \<and>
    (\<exists>b. finalize_book N symbol (book_at (rs_books st) symbol) position_nets ws deltas = Inr (b, ws, deltas))"
proof -
  have good: "book_good (book_at (rs_books st) symbol)" and
    ledger: "book_ledger (book_at (rs_books st) symbol) =
      foldl post ledger_empty (map (row_posting J N) (filter (row_for symbol) ordered))"
    using replay_fold_refines [of J N C "replay_start warnings" ordered st symbol] assms(3,4) by (auto simp: replay_rows_def)
  have "led_net (position_ledger v p) = led_net (foldl (ledger_step v) ledger_zero es)"
    using log_abstraction.replay_abs [OF position_log_abstraction [OF assms(1)] assms(2)] by simp
  also have "\<dots> = pl_net (foldl post ledger_empty (map (row_posting J N) (filter (row_for symbol) ordered)))"
    using postings_follow_ledger [OF assms(5), of ledger_empty ledger_zero] assms(6)
    by (simp add: ledger_loaded ledger_empty_def ledger_zero_def)
  also have "\<dots> = book_net (book_at (rs_books st) symbol)" by (simp flip: ledger add: book_ledger_def)
  finally have net: "book_net (book_at (rs_books st) symbol) = sval v (net p)" by (simp add: position_ledger_def)
  with finalize_book_reports [OF good assms(7,8), of symbol position_nets ws deltas] assms(8,9) show ?thesis by auto
qed

section \<open>A position and its rows\<close>

definition demo_position_log :: "rat position_event list" where
  "demo_position_log = [Initialized ''AAPL'' demo_threshold 1,
     OnChainOrderFilled (TradeId 1 0) (FractionalShares 5) Buy 100 1 1,
     OffChainOrderPlaced (OffchainOrderId 7) (Positive (FractionalShares 3)) Sell DryRun (SharesThreshold 5 1) 1,
     OffChainOrderFilled (OffchainOrderId 7) (Positive (FractionalShares 3)) Sell ''x'' (Usd 101) 2]"

lemma demo_log_postings:
  "list_all2 (encodes (\<lambda>x. x)) (filter loaded demo_position_log) (map (row_posting demo_json demo_num) demo_log_rows)"
  "fresh_postings {} {} (map (row_posting demo_json demo_num) demo_log_rows)"
  by code_simp+

lemma demo_epsilon: "num_from_str demo_num EPSILON = Inr (1 / 1000000)"
  by code_simp

theorem replay_net_is_position_net_witness:
  "\<exists>p st b. replay (position_originate exact_rat) (position_evolve exact_rat) lifecycle.Uninitialized demo_position_log = Live p \<and>
    replay_rows demo_json demo_num demo_calendar (replay_start []) demo_log_rows = Inr st \<and>
    book_net (book_at (rs_books st) ''AAPL'') = shares_inner (net p) \<and>
    finalize_book demo_num ''AAPL'' (book_at (rs_books st) ''AAPL'') [''AAPL'' \<mapsto> shares_inner (net p)] [] [] = Inr (b, [], [])"
proof -
  obtain p where p: "replay (position_originate exact_rat) (position_evolve exact_rat) lifecycle.Uninitialized demo_position_log = Live p"
    by (simp add: demo_position_log_def exact_rat_ops shares_add_def shares_sub_def)
  obtain st where st: "replay_rows demo_json demo_num demo_calendar (replay_start []) demo_log_rows = Inr st"
    using demo_log_returns by (auto simp: is_ok_iff)
  from replay_net_is_position_net [OF exact_rat_sem p demo_log_ordered st, of "''AAPL''" "1 / 1000000"
      "[''AAPL'' \<mapsto> shares_inner (net p)]" "[]" "[]"]
  show ?thesis using p st demo_epsilon by (simp add: demo_log_for demo_log_postings)
qed

section \<open>An adjustment out of order\<close>

text \<open>
  A fill of an earlier block that the aggregate is told of after an operator set the net is added to
  that net by the aggregate, and swept away by the adjustment in the replay, which orders by time.
\<close>

definition late_fill_log :: "rat position_event list" where
  "late_fill_log = [Initialized ''AAPL'' demo_threshold 1,
     ManualPositionAdjusted (FractionalShares 0) (FractionalShares 5) ''count'' (Some 100) 9,
     OnChainOrderFilled (TradeId 1 0) (FractionalShares 3) Buy 100 4 10]"

lemma late_fill_before_adjustment_diverges:
  "\<exists>p st. replay (position_originate exact_rat) (position_evolve exact_rat) lifecycle.Uninitialized late_fill_log = Live p \<and>
    replay_rows demo_json demo_num demo_calendar (replay_start [])
      [demo_adjustment_row 1 ''5'' ''9'', demo_onchain_row 2 ''0x1'' ''3'' ''4''] = Inr st \<and>
    shares_inner (net p) = 8 \<and> book_net (book_at (rs_books st) ''AAPL'') = 5"
proof -
  obtain p where p: "replay (position_originate exact_rat) (position_evolve exact_rat) lifecycle.Uninitialized late_fill_log = Live p"
    "shares_inner (net p) = 8"
    by (simp add: late_fill_log_def exact_rat_ops shares_add_def shares_sub_def)
  have "map_ok (\<lambda>st. book_net (book_at (rs_books st) ''AAPL'')) (demo_replay
      [demo_adjustment_row 1 ''5'' ''9'', demo_onchain_row 2 ''0x1'' ''3'' ''4'']) = Inr 5"
    by code_simp
  with p show ?thesis by (auto simp: demo_replay_def)
qed

end
