(* ===== verification/Pnl_Sessions.thy ===== *)
theory Pnl_Sessions
  imports Pnl_Costs
begin

text \<open>
  Market sessions and the filters of a report query (\<^verbatim>\<open>dashboard/pnl/sessions.rs\<close>, \<^verbatim>\<open>query.rs\<close>): the
  New York day and session of an instant, and which entries and costs a query selects. The time zone
  is the calendar's.
\<close>

section \<open>Queries\<close>

datatype pnl_market_session_filter = AllSessions | PreFilter | RthFilter | PostFilter | OvernightFilter | WeekendFilter

datatype pnl_counter_trading_filter = AllCounterTrading | CounterTradingActive | CounterTradingInactive

record pnl_query =
  q_limit :: "nat option"
  q_offset :: "nat option"
  q_as_of_rowid :: "int option"
  q_symbol :: "string option"
  q_from_date :: "string option"
  q_to_date :: "string option"
  q_market_session :: "pnl_market_session_filter option"
  q_counter_trading :: "pnl_counter_trading_filter option"

definition normalized_limit :: "pnl_query \<Rightarrow> nat" where
  "normalized_limit q = min 5000 (max 1 (case q_limit q of None \<Rightarrow> 100 | Some n \<Rightarrow> n))"

definition normalized_offset :: "pnl_query \<Rightarrow> nat" where
  "normalized_offset q = (case q_offset q of None \<Rightarrow> 0 | Some n \<Rightarrow> n)"

fun split_on :: "char \<Rightarrow> string \<Rightarrow> string list" where
  "split_on d [] = [[]]"
| "split_on d (c # s) = (if c = d then [] # split_on d s
     else (case split_on d s of p # ps \<Rightarrow> (c # p) # ps | [] \<Rightarrow> [[c]]))"

definition symbol_filter :: "pnl_query \<Rightarrow> pnl_warning list \<Rightarrow> pnl_error + string set \<times> pnl_warning list" where
  "symbol_filter q warnings = (case q_symbol q of
     None \<Rightarrow> Inr ({}, warnings)
   | Some raw \<Rightarrow>
       let named = filter (\<lambda>s. s \<noteq> []) (map str_trim (split_on CHR '','' raw));
           symbols = filter is_safe_symbol named;
           invalid = filter (\<lambda>s. \<not> is_safe_symbol s) named;
           warnings = (if invalid \<noteq> [] then warnings @ [InvalidSymbolFilters (length invalid) invalid] else warnings)
       in if named \<noteq> [] \<and> symbols = [] then Inl (InvalidSymbolFilter raw)
          else Inr (set symbols, warnings))"

section \<open>Sessions\<close>

datatype pnl_market_session = PreSession | RthSession | PostSession | OvernightSession | WeekendSession

fun pnl_market_session_as_str :: "pnl_market_session \<Rightarrow> string" where
  "pnl_market_session_as_str PreSession = ''pre''"
| "pnl_market_session_as_str RthSession = ''rth''"
| "pnl_market_session_as_str PostSession = ''post''"
| "pnl_market_session_as_str OvernightSession = ''overnight''"
| "pnl_market_session_as_str WeekendSession = ''weekend''"

definition date_key :: "calendar \<Rightarrow> string \<Rightarrow> string" where
  "date_key C stamp = (case cal_parse_rfc3339 C stamp of
     None \<Rightarrow> if 10 \<le> length stamp then take 10 stamp else stamp
   | Some t \<Rightarrow> cal_ny_date C t)"

definition market_session_for_iso :: "calendar \<Rightarrow> string \<Rightarrow> pnl_market_session" where
  "market_session_for_iso C stamp = (case cal_parse_rfc3339 C stamp of
     None \<Rightarrow> OvernightSession
   | Some t \<Rightarrow>
       if cal_ny_weekend C t then WeekendSession
       else
         let minute_of_day = cal_ny_hour C t * 60 + cal_ny_minute C t;
             pre_start = 4 * 60; rth_start = 9 * 60 + 30; post_start = 16 * 60; post_end = 20 * 60 in
         if pre_start \<le> minute_of_day \<and> minute_of_day < rth_start then PreSession
         else if rth_start \<le> minute_of_day \<and> minute_of_day < post_start then RthSession
         else if post_start \<le> minute_of_day \<and> minute_of_day < post_end then PostSession
         else OvernightSession)"

definition counter_trading_session_for_iso :: "calendar \<Rightarrow> string \<Rightarrow> string" where
  "counter_trading_session_for_iso C stamp =
     (if market_session_for_iso C stamp = RthSession then ''counter_trading_active'' else ''counter_trading_inactive'')"

definition matches_market_session_filter :: "calendar \<Rightarrow> string \<Rightarrow> pnl_market_session_filter option \<Rightarrow> bool" where
  "matches_market_session_filter C stamp f = (case (case f of None \<Rightarrow> AllSessions | Some f \<Rightarrow> f) of
     AllSessions \<Rightarrow> True
   | PreFilter \<Rightarrow> market_session_for_iso C stamp = PreSession
   | RthFilter \<Rightarrow> market_session_for_iso C stamp = RthSession
   | PostFilter \<Rightarrow> market_session_for_iso C stamp = PostSession
   | OvernightFilter \<Rightarrow> market_session_for_iso C stamp = OvernightSession
   | WeekendFilter \<Rightarrow> market_session_for_iso C stamp = WeekendSession)"

definition matches_counter_trading_filter :: "calendar \<Rightarrow> string \<Rightarrow> pnl_counter_trading_filter option \<Rightarrow> bool" where
  "matches_counter_trading_filter C stamp f = (case (case f of None \<Rightarrow> AllCounterTrading | Some f \<Rightarrow> f) of
     AllCounterTrading \<Rightarrow> True
   | CounterTradingActive \<Rightarrow> counter_trading_session_for_iso C stamp = ''counter_trading_active''
   | CounterTradingInactive \<Rightarrow> counter_trading_session_for_iso C stamp = ''counter_trading_inactive'')"

definition matches_trade_filters :: "calendar \<Rightarrow> string \<Rightarrow> pnl_query \<Rightarrow> bool" where
  "matches_trade_filters C stamp q \<longleftrightarrow>
     matches_market_session_filter C stamp (q_market_session q) \<and> matches_counter_trading_filter C stamp (q_counter_trading q)"

definition matches_date_bounds_for_iso :: "calendar \<Rightarrow> string \<Rightarrow> pnl_query \<Rightarrow> bool" where
  "matches_date_bounds_for_iso C stamp q =
     (let day = date_key C stamp in
      if (case q_from_date q of None \<Rightarrow> False | Some from_date \<Rightarrow> day < date_key C from_date) then False
      else if (case q_to_date q of None \<Rightarrow> False | Some to_date \<Rightarrow> day > date_key C to_date) then False
      else True)"

definition matches_date_filter :: "calendar \<Rightarrow> 'n pnl_entry \<Rightarrow> pnl_query \<Rightarrow> bool" where
  "matches_date_filter C e q \<longleftrightarrow>
     matches_date_bounds_for_iso C (entry_closed_at e) q \<and> matches_trade_filters C (entry_closed_at e) q"

definition matches_cost_session_filter :: "calendar \<Rightarrow> string \<Rightarrow> pnl_query \<Rightarrow> bool" where
  "matches_cost_session_filter C stamp q =
     (if cal_parse_rfc3339 C stamp \<noteq> None then matches_trade_filters C stamp q
      else (case q_market_session q of None \<Rightarrow> True | Some f \<Rightarrow> f = AllSessions) \<and>
           (case q_counter_trading q of None \<Rightarrow> True | Some f \<Rightarrow> f = AllCounterTrading))"

definition matches_cost_date_filter :: "calendar \<Rightarrow> 'n cost_entry_internal \<Rightarrow> pnl_query \<Rightarrow> bool" where
  "matches_cost_date_filter C e q \<longleftrightarrow>
     matches_date_bounds_for_iso C (ce_occurred_at e) q \<and> matches_cost_session_filter C (ce_occurred_at e) q"

definition matches_cost_symbol_filter :: "'n cost_entry_internal \<Rightarrow> string set \<Rightarrow> bool" where
  "matches_cost_symbol_filter e symbols \<longleftrightarrow>
     symbols = {} \<or> (case ce_symbol e of None \<Rightarrow> False | Some symbol \<Rightarrow> symbol \<in> symbols)"

section \<open>Partitions\<close>

text \<open>
  Every entry is selected by exactly one of the five session filters, and by exactly one of the two
  counter-trading filters: reports restricted to each add up to the whole.
\<close>

lemma session_filters_partition:
  "(\<Sum>f \<leftarrow> [PreFilter, RthFilter, PostFilter, OvernightFilter, WeekendFilter].
     of_bool (matches_market_session_filter C stamp (Some f))) = (1 :: nat)"
  by (cases "market_session_for_iso C stamp") (simp_all add: matches_market_session_filter_def)

lemma counter_trading_filters_partition:
  "matches_counter_trading_filter C stamp (Some CounterTradingActive) \<longleftrightarrow>
    \<not> matches_counter_trading_filter C stamp (Some CounterTradingInactive)"
  by (simp add: matches_counter_trading_filter_def counter_trading_session_for_iso_def)

lemma active_is_regular_hours:
  "matches_counter_trading_filter C stamp (Some CounterTradingActive) = matches_market_session_filter C stamp (Some RthFilter)"
  by (simp add: matches_counter_trading_filter_def matches_market_session_filter_def counter_trading_session_for_iso_def)

end
