(* ===== verification/Pnl_Entries.thy ===== *)
theory Pnl_Entries
  imports Pnl_Position Pnl_Sessions
begin

text \<open>
  The entries of the report and the sums it makes of them (\<^verbatim>\<open>summary_from_entries\<close> of
  \<^verbatim>\<open>dashboard/pnl/replay.rs\<close>, \<^verbatim>\<open>windows.rs\<close>): the report adds the profit up a second time, from
  its entries, by symbol and by New York day. Shown: over all entries both ways agree with what the
  books accumulated while they matched, and the days of a symbol add up to the symbol.
\<close>

section \<open>Summing entries\<close>

definition add_entry :: "('n :: linordered_field) summary_acc \<Rightarrow> 'n pnl_entry \<Rightarrow> 'n summary_acc" where
  "add_entry s e =
     (let shares = entry_shares e;
          opening_notional = shares * entry_opening_price e;
          closing_notional = shares * entry_closing_price e;
          pnl = entry_realized_pnl e;
          s = s\<lparr>acc_matched_shares := acc_matched_shares s + shares\<rparr>;
          s = (if entry_opening_venue e = OnchainVenue then add_venue_notional s OnchainVenue opening_notional
               else if entry_opening_venue e = OffchainVenue then add_venue_notional s OffchainVenue opening_notional else s);
          s = (if entry_closing_venue e = OnchainVenue then add_venue_notional s OnchainVenue closing_notional
               else if entry_closing_venue e = OffchainVenue then add_venue_notional s OffchainVenue closing_notional else s);
          s = s\<lparr>acc_matched_lot_count := acc_matched_lot_count s + 1\<rparr>
      in (case entry_bucket e of
            CounterTrade \<Rightarrow> s\<lparr>acc_counter_trade_pnl := acc_counter_trade_pnl s + pnl, acc_realized_pnl := acc_realized_pnl s + pnl\<rparr>
          | OnchainNetting \<Rightarrow> s\<lparr>acc_onchain_netting_pnl := acc_onchain_netting_pnl s + pnl, acc_realized_pnl := acc_realized_pnl s + pnl\<rparr>
          | DirectionalExposure \<Rightarrow> s\<lparr>acc_imbalance_excess_pnl := acc_imbalance_excess_pnl s + pnl,
              acc_directional_exposure_pnl := acc_directional_exposure_pnl s + pnl, acc_realized_pnl := acc_realized_pnl s + pnl\<rparr>))"

definition summary_at :: "(symbol \<times> ('n :: zero) summary_acc) list \<Rightarrow> symbol \<Rightarrow> 'n summary_acc" where
  "summary_at m symbol = (case map_of m symbol of None \<Rightarrow> summary_default | Some s \<Rightarrow> s)"

definition add_symbol_entry ::
  "(symbol \<times> ('n :: linordered_field) summary_acc) list \<Rightarrow> 'n pnl_entry \<Rightarrow> (symbol \<times> 'n summary_acc) list" where
  "add_symbol_entry per_symbol e = AList.update (entry_symbol e) (add_entry (summary_at per_symbol (entry_symbol e)) e) per_symbol"

definition symbol_summaries :: "('n :: linordered_field) pnl_entry list \<Rightarrow> (symbol \<times> 'n summary_acc) list" where
  "symbol_summaries entries = sort_key fst (foldl add_symbol_entry [] entries)"

definition total_summary :: "(symbol \<times> ('n :: linordered_field) summary_acc) list \<Rightarrow> 'n summary_acc" where
  "total_summary per_symbol = foldl add_summary summary_default (map snd per_symbol)"

section \<open>Entries and books\<close>

text \<open>The part of a summary that matching accumulates.\<close>

definition matched_part :: "'n summary_acc \<Rightarrow> 'n list \<times> nat" where
  "matched_part s = ([acc_counter_trade_pnl s, acc_onchain_netting_pnl s, acc_imbalance_excess_pnl s,
     acc_directional_exposure_pnl s, acc_realized_pnl s, acc_matched_shares s, acc_onchain_notional s,
     acc_offchain_notional s], acc_matched_lot_count s)"

lemma add_match_is_add_entry:
  assumes "match_entry N C fl bucket lot m = Inr e" and "matched_part s = matched_part s'"
  shows "matched_part (add_match s (snd (effective_bucket C fl bucket lot)) fl lot m) = matched_part (add_entry s' e)"
proof -
  have e: "entry_bucket e = snd (effective_bucket C fl bucket lot)" "entry_shares e = m" "entry_opening_price e = lot_price lot"
    "entry_closing_price e = fill_price fl" "entry_realized_pnl e = m * lot_spread fl lot"
    "entry_opening_venue e = lot_opened_venue lot" "entry_closing_venue e = fill_venue fl"
    using assms(1) by (auto simp: match_entry_def Let_def split: prod.splits)
  show ?thesis using assms(2)
    by (cases "snd (effective_bucket C fl bucket lot)"; cases "lot_opened_venue lot"; cases "fill_venue fl")
      (simp_all add: matched_part_def add_match_def add_entry_def e Let_def)
qed

definition explained :: "symbol \<Rightarrow> ('n :: linordered_field) summary_acc \<Rightarrow> 'n pnl_entry list \<Rightarrow> bool" where
  "explained symbol s entries \<longleftrightarrow>
     matched_part s = matched_part (foldl add_entry summary_default (filter (\<lambda>e. entry_symbol e = symbol) entries))"

lemma log_match_explained:
  assumes "log_match N C fl bucket lot m l = Inr l'" and "explained (fill_symbol fl) (ml_summary l) (ml_entries l)"
  shows "explained (fill_symbol fl) (ml_summary l') (ml_entries l')" "\<exists>e. ml_entries l' = ml_entries l @ [e] \<and> entry_symbol e = fill_symbol fl"
proof -
  from assms(1) obtain e where e: "match_entry N C fl bucket lot m = Inr e" and
    l': "ml_summary l' = add_match (ml_summary l) (snd (effective_bucket C fl bucket lot)) fl lot m" "ml_entries l' = ml_entries l @ [e]"
    by (auto simp: log_match_def)
  have sym: "entry_symbol e = fill_symbol fl" using e by (auto simp: match_entry_def Let_def split: prod.splits)
  show "explained (fill_symbol fl) (ml_summary l') (ml_entries l')"
    using add_match_is_add_entry [OF e assms(2) [unfolded explained_def]] by (simp add: explained_def l' sym)
  show "\<exists>e. ml_entries l' = ml_entries l @ [e] \<and> entry_symbol e = fill_symbol fl" using l'(2) sym by blast
qed

lemma explained_others: "symbol' \<noteq> symbol \<Longrightarrow> \<forall>e \<in> set new. entry_symbol e = symbol \<Longrightarrow>
    explained symbol' s (entries @ new) = explained symbol' s entries"
proof -
  assume "symbol' \<noteq> symbol" and "\<forall>e \<in> set new. entry_symbol e = symbol"
  then have "filter (\<lambda>e. entry_symbol e = symbol') new = []" by (auto simp: filter_empty_conv)
  then show ?thesis by (simp add: explained_def)
qed

lemma match_book_explained:
  assumes "match_book N C fl bucket b r = Inr (remaining, b', r')" and "book_ok b" and "0 < fill_shares fl"
    and "explained (fill_symbol fl) (book_summary b) (rl_entries r)"
  shows "explained (fill_symbol fl) (book_summary b') (rl_entries r')"
    "\<exists>new. rl_entries r' = rl_entries r @ new \<and> (\<forall>e \<in> set new. entry_symbol e = fill_symbol fl)"
proof -
  let ?P = "\<lambda>_ _ k. explained (fill_symbol fl) (ml_summary k) (ml_entries k) \<and>
    (\<exists>new. ml_entries k = rl_entries r @ new \<and> (\<forall>e \<in> set new. entry_symbol e = fill_symbol fl))"
  obtain lots l where
    loop: "match_loop N C fl bucket (fill_shares fl) (other_lots (fill_direction fl) b) (book_log b r) = Inr (remaining, lots, l)" and
    b': "b' = set_other_lots (fill_direction fl) lots (b\<lparr>book_summary := ml_summary l, book_matched_shares := ml_matched l\<rparr>)" and
    r': "r' = r\<lparr>rl_entries := ml_entries l\<rparr>"
    using match_book_loop [OF assms(1)] by blast
  have "?P remaining lots l \<and> 0 \<le> remaining \<and> lots_ok (other_side (fill_direction fl)) lots \<and> (remaining \<noteq> 0 \<longrightarrow> lots = [])"
    using loop
  proof (rule match_loop_invariant [where P = ?P])
    show "?P (fill_shares fl) (other_lots (fill_direction fl) b) (book_log b r)" using assms(4) by (simp add: book_log_def)
  next
    fix q lot rest k k' m
    assume P: "?P q (lot # rest) k" and log: "log_match N C fl bucket (lot\<lparr>lot_remaining := lot_remaining lot - m\<rparr>) m k = Inr k'"
    from P obtain new where new: "ml_entries k = rl_entries r @ new" "\<forall>e \<in> set new. entry_symbol e = fill_symbol fl" by blast
    obtain e where e: "ml_entries k' = ml_entries k @ [e]" "entry_symbol e = fill_symbol fl"
      using log_match_explained(2) [OF log] P by blast
    then have "ml_entries k' = rl_entries r @ (new @ [e]) \<and> (\<forall>x \<in> set (new @ [e]). entry_symbol x = fill_symbol fl)"
      using new by simp
    then show "?P (q - m) (after_match m lot rest) k'" using log_match_explained(1) [OF log] P by blast
  qed (use assms(2,3) other_lots_ok in auto)
  then show "explained (fill_symbol fl) (book_summary b') (rl_entries r')"
    "\<exists>new. rl_entries r' = rl_entries r @ new \<and> (\<forall>e \<in> set new. entry_symbol e = fill_symbol fl)"
    by (simp_all add: b' r' set_other_lots_def split: pnl_direction.splits)
qed


text \<open>What an event adds to the entries is its symbol's, and explains what its book gained.\<close>

definition event_explained :: "symbol \<Rightarrow> ('n :: linordered_field) symbol_book \<Rightarrow> 'n replay_log \<Rightarrow> 'n replay_log \<Rightarrow> bool" where
  "event_explained symbol b' r r' \<longleftrightarrow> explained symbol (book_summary b') (rl_entries r') \<and>
     (\<exists>new. rl_entries r' = rl_entries r @ new \<and> (\<forall>e \<in> set new. entry_symbol e = symbol))"

lemma event_explained_same: "explained symbol (book_summary b') (rl_entries r) \<Longrightarrow> rl_entries r' = rl_entries r \<Longrightarrow> event_explained symbol b' r r'"
  by (auto simp: event_explained_def)

lemma apply_onchain_fill_explained:
  assumes "apply_onchain_fill N C b fl r = Inr (b', r')" and "book_ok b" and "0 < fill_shares fl"
    and "explained (fill_symbol fl) (book_summary b) (rl_entries r)"
  shows "event_explained (fill_symbol fl) b' r r'"
proof (cases "fill_id fl \<in> book_seen_onchain b")
  case True
  with assms show ?thesis by (auto simp: apply_onchain_fill_def warn_replay_def intro: event_explained_same)
next
  case False
  define b0 where "b0 = b\<lparr>book_seen_onchain := insert (fill_id fl) (book_seen_onchain b), book_last_price := Some (fill_price fl),
    book_summary := book_summary b\<lparr>acc_onchain_fill_count := acc_onchain_fill_count (book_summary b) + 1\<rparr>\<rparr>"
  have b0: "book_ok b0" "explained (fill_symbol fl) (book_summary b0) (rl_entries r)"
    using assms(2,4) by (auto simp: b0_def book_ok_def explained_def matched_part_def)
  from assms(1) False obtain remaining b1 where
    m: "match_book N C fl OnchainNetting b0 r = Inr (remaining, b1, r')" and s: "book_summary b' = book_summary b1"
    by (auto simp: apply_onchain_fill_def Let_def b0_def open_residual_frame split: if_splits)
  from match_book_explained [OF m b0(1) assms(3) b0(2)] show ?thesis by (simp add: event_explained_def s)
qed

lemma apply_offchain_fill_explained:
  assumes "apply_offchain_fill N C b fl r = Inr (b', r')" and "book_ok b" and "0 < fill_shares fl"
    and "explained (fill_symbol fl) (book_summary b) (rl_entries r)"
  shows "event_explained (fill_symbol fl) b' r r'"
proof (cases "fill_id fl \<in> book_seen_offchain b")
  case True
  with assms show ?thesis by (auto simp: apply_offchain_fill_def warn_replay_def intro: event_explained_same)
next
  case False
  define b0 where "b0 = b\<lparr>book_seen_offchain := insert (fill_id fl) (book_seen_offchain b),
    book_summary := book_summary b\<lparr>acc_offchain_fill_count := acc_offchain_fill_count (book_summary b) + 1\<rparr>\<rparr>"
  have b0: "book_ok b0" "explained (fill_symbol fl) (book_summary b0) (rl_entries r)"
    using assms(2,4) by (auto simp: b0_def book_ok_def explained_def matched_part_def)
  from assms(1) False obtain remaining b1 r1 where
    m: "match_book N C fl CounterTrade b0 r = Inr (remaining, b1, r1)" and s: "book_summary b' = book_summary b1" "rl_entries r' = rl_entries r1"
    by (auto simp: apply_offchain_fill_def Let_def b0_def open_residual_frame split: if_splits)
  from match_book_explained [OF m b0(1) assms(3) b0(2)] show ?thesis by (simp add: event_explained_def s)
qed

lemma manual_adjustment_explained:
  assumes "apply_manual_position_adjustment J N b row r = Inr (b', r')" and "explained symbol (book_summary b) (rl_entries r)"
  shows "event_explained symbol b' r r'"
  using assms(1)
proof (cases rule: manual_adjustment_cases)
  case (reset adjusted q lot b1)
  then have "book_summary b' = book_summary b" by (auto simp: push_lot_def clear_lots_def split: lot_side.splits)
  with reset assms(2) show ?thesis by (intro event_explained_same) simp_all
qed (use assms(2) in \<open>auto simp: clear_lots_def warn_replay_def intro: event_explained_same\<close>)

lemma replay_event_explained:
  assumes "replay_event J N C b row r = Inr (b', r')" and "book_good b" and "symbol_new (row_symbol row) = Inr symbol"
    and "explained symbol (book_summary b) (rl_entries r)"
  shows "event_explained symbol b' r r'"
proof -
  have ok: "book_ok b" using assms(2) by (simp add: book_good_def)
  consider "row_event_type row = ''PositionEvent::OnChainOrderFilled''" | "row_event_type row = ''PositionEvent::OffChainOrderPlaced''"
    | "row_event_type row = ''PositionEvent::OffChainOrderFilled''" | "row_event_type row = ''PositionEvent::ManualPositionAdjusted''"
    | "row_event_type row \<notin> {''PositionEvent::OnChainOrderFilled'', ''PositionEvent::OffChainOrderPlaced'',
        ''PositionEvent::OffChainOrderFilled'', ''PositionEvent::ManualPositionAdjusted''}"
    by blast
  then show ?thesis
  proof cases
    case 1
    with assms(1) obtain fl where fl: "parse_onchain_fill J N row = Inr fl" "apply_onchain_fill N C b fl r = Inr (b', r')"
      by (auto simp: replay_event_def)
    have "fill_symbol fl = symbol" using parse_onchain_fill_ok(4) [OF fl(1)] assms(3) by simp
    with apply_onchain_fill_explained [OF fl(2) ok parse_onchain_fill_ok(1) [OF fl(1)]] assms(4) show ?thesis by simp
  next
    case 2
    with assms(1) have "apply_offchain_placement J b row r = (b', r')" by (simp add: replay_event_def)
    with assms(4) show ?thesis
      by (auto simp: apply_offchain_placement_def warn_replay_def intro!: event_explained_same split: option.splits if_splits)
  next
    case 3
    with assms(1) obtain fl where fl: "parse_offchain_fill J N row = Inr fl" "apply_offchain_fill N C b fl r = Inr (b', r')"
      by (auto simp: replay_event_def)
    have "fill_symbol fl = symbol" using parse_offchain_fill_ok(4) [OF fl(1)] assms(3) by simp
    with apply_offchain_fill_explained [OF fl(2) ok parse_offchain_fill_ok(1) [OF fl(1)]] assms(4) show ?thesis by simp
  next
    case 4
    with assms(1) have "apply_manual_position_adjustment J N b row r = Inr (b', r')" by (simp add: replay_event_def)
    from manual_adjustment_explained [OF this assms(4)] show ?thesis .
  next
    case 5
    with assms(1) have "b' = b" "r' = r" by (simp_all add: replay_event_def)
    with assms(4) show ?thesis by (auto intro: event_explained_same)
  qed
qed

definition all_explained :: "('n :: linordered_field) replay_state \<Rightarrow> bool" where
  "all_explained st \<longleftrightarrow> (\<forall>symbol. explained symbol (book_summary (book_at (rs_books st) symbol)) (rl_entries (rs_log st)))"

lemma replay_row_explained:
  assumes "replay_row J N C st row = Inr st'" and "\<And>symbol. book_good (book_at (rs_books st) symbol)" and "all_explained st"
  shows "all_explained st'"
proof (cases "is_safe_symbol (row_symbol row) \<and> (\<exists>s. symbol_new (row_symbol row) = Inr s)")
  case True
  then obtain s where s: "symbol_new (row_symbol row) = Inr s" by blast
  with True assms(1) obtain b r where
    e: "replay_event J N C (book_at (rs_books st) s) row (rs_log st) = Inr (b, r)" and
    st': "st' = \<lparr>rs_books = AList.update s b (rs_books st), rs_log = r\<rparr>"
    by (auto simp: replay_row_def)
  from replay_event_explained [OF e assms(2) s] assms(3) have "event_explained s b (rs_log st) r"
    by (simp add: all_explained_def)
  then obtain new where new: "explained s (book_summary b) (rl_entries r)" "rl_entries r = rl_entries (rs_log st) @ new"
    "\<forall>e \<in> set new. entry_symbol e = s"
    by (auto simp: event_explained_def)
  show ?thesis
    unfolding all_explained_def
  proof
    fix x
    show "explained x (book_summary (book_at (rs_books st') x)) (rl_entries (rs_log st'))"
      using new assms(3) explained_others [of x s new] by (cases "x = s") (simp_all add: st' all_explained_def)
  qed
next
  case False
  then have "rs_books st' = rs_books st" "rl_entries (rs_log st') = rl_entries (rs_log st)"
    using assms(1) by (auto simp: replay_row_def warn_replay_def split: sum.splits if_splits)
  with assms(3) show ?thesis by (simp add: all_explained_def)
qed

lemma replay_fold_explained:
  assumes "try_fold (replay_row J N C) st rows = Inr st'" and "\<And>symbol. book_good (book_at (rs_books st) symbol)" and "all_explained st"
  shows "all_explained st'"
  using assms
proof (induction rows arbitrary: st)
  case (Cons row rows)
  from Cons.prems(1) obtain st1 where st1: "replay_row J N C st row = Inr st1" "try_fold (replay_row J N C) st1 rows = Inr st'"
    by auto
  show ?case
    using Cons.IH [OF st1(2)] replay_row_refines [OF st1(1) Cons.prems(2)] replay_row_explained [OF st1(1) Cons.prems(2,3)] by blast
qed simp

section \<open>The summary of all entries\<close>

lemma summary_at_fold:
  "summary_at (foldl add_symbol_entry m entries) symbol =
    foldl add_entry (summary_at m symbol) (filter (\<lambda>e. entry_symbol e = symbol) entries)"
  by (induction entries arbitrary: m) (simp_all add: add_symbol_entry_def summary_at_def AList.update_conv')

lemma distinct_fold: "distinct (map fst m) \<Longrightarrow> distinct (map fst (foldl add_symbol_entry m entries))"
  by (induction entries arbitrary: m) (simp_all add: add_symbol_entry_def AList.distinct_update)

lemma map_of_insort_key: "k \<notin> fst ` set xs \<Longrightarrow> map_of (insort_key fst (k, v) xs) = (map_of xs)(k \<mapsto> v)"
  by (induction xs) (auto simp: fun_eq_iff)

lemma map_of_sort_key: "distinct (map fst xs) \<Longrightarrow> map_of (sort_key fst xs) = map_of xs"
  by (induction xs) (auto simp: map_of_insort_key)

lemma summary_at_symbol_summaries:
  "summary_at (symbol_summaries entries) symbol = foldl add_entry summary_default (filter (\<lambda>e. entry_symbol e = symbol) entries)"
proof -
  have "map_of (symbol_summaries entries) = map_of (foldl add_symbol_entry [] entries)"
    unfolding symbol_summaries_def by (rule map_of_sort_key) (simp add: distinct_fold)
  then have "summary_at (symbol_summaries entries) symbol = summary_at (foldl add_symbol_entry [] entries) symbol"
    by (simp add: summary_at_def)
  then show ?thesis by (simp add: summary_at_fold) (simp add: summary_at_def)
qed

text \<open>
  C32. The profit the report sums from all its entries is, symbol by symbol, what the books accumulated
  while they matched: every bucket, the shares, the notional of both venues and the count of lots.
\<close>

theorem entries_explain_books:
  assumes "replay_rows J N C (replay_start warnings) rows = Inr st"
  shows "matched_part (summary_at (symbol_summaries (rl_entries (rs_log st))) symbol) =
    matched_part (book_summary (book_at (rs_books st) symbol))"
proof -
  have "all_explained (replay_start warnings :: 'a replay_state)"
    unfolding all_explained_def explained_def replay_start_book by (simp add: replay_start_def book_default_def)
  then have "all_explained st"
    using assms replay_fold_explained [of J N C "replay_start warnings" _ st] by (auto simp: replay_rows_def)
  then show ?thesis by (simp add: all_explained_def explained_def summary_at_symbol_summaries)
qed

theorem entries_explain_books_witness:
  "\<exists>st. replay_rows demo_json demo_num demo_calendar (replay_start []) demo_log_rows = Inr st \<and>
    matched_part (summary_at (symbol_summaries (rl_entries (rs_log st))) ''AAPL'') =
      matched_part (book_summary (book_at (rs_books st) ''AAPL''))"
proof -
  obtain st where st: "replay_rows demo_json demo_num demo_calendar (replay_start []) demo_log_rows = Inr st"
    using demo_log_returns by (auto simp: is_ok_iff)
  from entries_explain_books [OF st] st show ?thesis by blast
qed

end
