(* ===== verification/Pnl_Report.thy ===== *)
theory Pnl_Report
  imports Pnl_Entries
begin

text \<open>
  The report itself (\<^verbatim>\<open>builder.rs\<close>, \<^verbatim>\<open>windows.rs\<close>, \<^verbatim>\<open>response.rs\<close> and the conversions of \<^verbatim>\<open>replay.rs\<close> and
  \<^verbatim>\<open>costs.rs\<close> under \<^verbatim>\<open>dashboard/pnl\<close>): sums become texts, texts are parsed again to deduct the costs,
  entries are paged and grouped by New York day. Shown: the printed net is the gross less the costs
  plus the revenue, the days of a symbol add up to the symbol, and the pages are the entries.
\<close>

section \<open>Texts\<close>

record pnl_summary =
  dto_counter_trade_pnl :: string
  dto_onchain_netting_pnl :: string
  dto_inventory_baseline_pnl :: string
  dto_imbalance_excess_pnl :: string
  dto_directional_exposure_pnl :: string
  dto_total_pnl :: string
  dto_gross_realized_pnl :: string
  dto_tracked_costs :: string
  dto_tracked_revenue :: string
  dto_net_realized_pnl :: string
  dto_realized_pnl :: string
  dto_matched_shares :: string
  dto_onchain_notional :: string
  dto_offchain_notional :: string
  dto_inventory_drift_shares :: string
  dto_inventory_drift_usd :: string
  dto_open_long_shares :: string
  dto_open_short_shares :: string
  dto_unmatched_shares :: string
  dto_unmatched_notional :: string
  dto_onchain_fill_count :: nat
  dto_offchain_fill_count :: nat
  dto_matched_lot_count :: nat
  dto_open_lot_count :: nat
  dto_unmatched_fill_count :: nat

definition summary_total_pnl :: "('n :: linordered_field) summary_acc \<Rightarrow> 'n" where
  "summary_total_pnl s =
     acc_counter_trade_pnl s + acc_onchain_netting_pnl s + acc_inventory_baseline_pnl s + acc_imbalance_excess_pnl s"

definition summary_to_dto :: "('n :: linordered_field) num_package \<Rightarrow> 'n summary_acc \<Rightarrow> decimal_fault + pnl_summary" where
  "summary_to_dto N s =
     (let fmt = fmt_decimal N;
          directional_exposure = acc_inventory_baseline_pnl s + acc_imbalance_excess_pnl s;
          total_pnl = summary_total_pnl s;
          drift_shares = acc_open_long_shares s - acc_open_short_shares s;
          drift_usd = acc_open_long_notional s - acc_open_short_notional s;
          unmatched_shares = acc_unmatched_buy_shares s + acc_unmatched_sell_shares s;
          unmatched_notional = acc_unmatched_buy_notional s + acc_unmatched_sell_notional s in
      tryr (fmt (acc_counter_trade_pnl s)) (\<lambda>counter_trade.
      tryr (fmt (acc_onchain_netting_pnl s)) (\<lambda>onchain_netting.
      tryr (fmt (acc_inventory_baseline_pnl s)) (\<lambda>baseline.
      tryr (fmt (acc_imbalance_excess_pnl s)) (\<lambda>excess.
      tryr (fmt directional_exposure) (\<lambda>exposure.
      tryr (fmt total_pnl) (\<lambda>total.
      tryr (fmt (acc_realized_pnl s)) (\<lambda>realized.
      tryr (fmt (acc_matched_shares s)) (\<lambda>matched.
      tryr (fmt (acc_onchain_notional s)) (\<lambda>onchain_notional.
      tryr (fmt (acc_offchain_notional s)) (\<lambda>offchain_notional.
      tryr (fmt drift_shares) (\<lambda>drift_shares.
      tryr (fmt drift_usd) (\<lambda>drift_usd.
      tryr (fmt (acc_open_long_shares s)) (\<lambda>open_long.
      tryr (fmt (acc_open_short_shares s)) (\<lambda>open_short.
      tryr (fmt unmatched_shares) (\<lambda>unmatched_shares.
      tryr (fmt unmatched_notional) (\<lambda>unmatched_notional.
      Inr \<lparr>dto_counter_trade_pnl = counter_trade, dto_onchain_netting_pnl = onchain_netting,
        dto_inventory_baseline_pnl = baseline, dto_imbalance_excess_pnl = excess, dto_directional_exposure_pnl = exposure,
        dto_total_pnl = total, dto_gross_realized_pnl = total, dto_tracked_costs = ''0'', dto_tracked_revenue = ''0'',
        dto_net_realized_pnl = total, dto_realized_pnl = realized, dto_matched_shares = matched,
        dto_onchain_notional = onchain_notional, dto_offchain_notional = offchain_notional,
        dto_inventory_drift_shares = drift_shares, dto_inventory_drift_usd = drift_usd, dto_open_long_shares = open_long,
        dto_open_short_shares = open_short, dto_unmatched_shares = unmatched_shares,
        dto_unmatched_notional = unmatched_notional, dto_onchain_fill_count = acc_onchain_fill_count s,
        dto_offchain_fill_count = acc_offchain_fill_count s, dto_matched_lot_count = acc_matched_lot_count s,
        dto_open_lot_count = acc_open_lot_count s, dto_unmatched_fill_count = acc_unmatched_fill_count s\<rparr>)))))))))))))))))"

definition with_replay_exposure :: "pnl_summary \<Rightarrow> pnl_summary \<Rightarrow> pnl_summary" where
  "with_replay_exposure filtered replayed = filtered\<lparr>
     dto_inventory_drift_shares := dto_inventory_drift_shares replayed,
     dto_inventory_drift_usd := dto_inventory_drift_usd replayed,
     dto_open_long_shares := dto_open_long_shares replayed,
     dto_open_short_shares := dto_open_short_shares replayed,
     dto_unmatched_shares := dto_unmatched_shares replayed,
     dto_unmatched_notional := dto_unmatched_notional replayed,
     dto_open_lot_count := dto_open_lot_count replayed,
     dto_unmatched_fill_count := dto_unmatched_fill_count replayed\<rparr>"

record cost_coverage =
  cov_source :: string
  cov_bucket :: accounting_bucket
  cov_effect :: accounting_effect
  cov_status :: string
  cov_amount :: string

record pnl_cost_summary =
  cdto_total_tracked_costs :: string
  cdto_total_tracked_revenue :: string
  cdto_counter_trade_costs :: string
  cdto_onchain_netting_costs :: string
  cdto_directional_exposure_costs :: string
  cdto_generic_costs :: string
  cdto_dividend_revenue :: string
  cdto_offchain_execution_fees :: string
  cdto_tokenization_fees :: string
  cdto_cctp_fees :: string
  cdto_conversion_slippage :: string
  cdto_oracle_write_cost :: string
  cdto_broker_fees :: string
  cdto_regulatory_fees :: string
  cdto_margin_interest :: string
  cdto_bot_gas :: string
  cdto_wallet_transfer_fees :: string
  cdto_unclassified_costs :: string
  cdto_entry_count :: nat
  cdto_missing_observations :: nat
  cdto_coverage :: "cost_coverage list"

definition fmt_signed_category_amount :: "('n :: linordered_field) num_package \<Rightarrow> 'n \<Rightarrow> decimal_fault + string" where
  "fmt_signed_category_amount N v = fmt_decimal N (abs_decimal v)"

definition included_when_observed :: "nat \<Rightarrow> string" where
  "included_when_observed count = (if count = 0 then ''not_ingested'' else ''included'')"

text \<open>A row of the coverage table; its note is a fixed text and left out.\<close>

definition coverage ::
  "('n :: linordered_field) num_package \<Rightarrow> string \<Rightarrow> accounting_bucket \<Rightarrow> accounting_effect \<Rightarrow> string \<Rightarrow> 'n \<Rightarrow>
   decimal_fault + cost_coverage" where
  "coverage N source bucket effect status amount = tryr (fmt_signed_category_amount N amount) (\<lambda>text.
     Inr \<lparr>cov_source = source, cov_bucket = bucket, cov_effect = effect, cov_status = status, cov_amount = text\<rparr>)"

definition collect_ok :: "('e + 'a) list \<Rightarrow> 'e + 'a list" where
  "collect_ok rs = try_fold (\<lambda>acc r. tryr r (\<lambda>x. Inr (acc @ [x]))) [] rs"

definition cost_coverage_rows :: "('n :: linordered_field) num_package \<Rightarrow> 'n cost_summary_acc \<Rightarrow> decimal_fault + cost_coverage list" where
  "cost_coverage_rows N s = collect_ok [
      coverage N ''Alpaca fees'' CounterTradeCosts CostEffect (included_when_observed (cs_broker_fee_entries s)) (cs_broker_fees s),
      coverage N ''On-chain netting execution costs'' OnchainNettingCosts NoEffect ''zero'' (cs_onchain_netting_costs s),
      coverage N ''Directional drift direct costs'' DirectionalExposureCosts NoEffect ''zero'' (cs_directional_exposure_costs s),
      coverage N ''Tokenization fees'' GenericBucket CostEffect ''included'' (cs_tokenization_fees s),
      coverage N ''CCTP fees'' GenericBucket CostEffect ''included'' (cs_cctp_fees s),
      coverage N ''USD/USDC reporting basis'' GenericBucket NoEffect ''zero'' (cs_conversion_slippage s),
      coverage N ''Oracle writes'' GenericBucket NoEffect ''zero'' (cs_oracle_write_cost s),
      coverage N ''Dividend income'' DividendRevenue RevenueEffect (included_when_observed (cs_dividend_entries s)) (cs_dividend_revenue s),
      coverage N ''Margin interest'' GenericBucket CostEffect (included_when_observed (cs_margin_interest_entries s)) (cs_margin_interest s),
      coverage N ''Bot gas'' GenericBucket CostEffect ''not_ingested'' (cs_bot_gas s),
      coverage N ''Wallet transfer fees'' GenericBucket CostEffect ''not_ingested'' (cs_wallet_transfer_fees s)]"

definition cost_summary_to_dto ::
  "('n :: linordered_field) num_package \<Rightarrow> 'n cost_summary_acc \<Rightarrow> nat \<Rightarrow> decimal_fault + pnl_cost_summary" where
  "cost_summary_to_dto N s cost_entry_count =
     (let fmt = fmt_decimal N; unsigned = fmt_signed_category_amount N in
      tryr (fmt (total_tracked_costs s)) (\<lambda>t0.
      tryr (fmt (total_tracked_revenue s)) (\<lambda>t1.
      tryr (fmt (cs_counter_trade_costs s)) (\<lambda>t2.
      tryr (fmt (cs_onchain_netting_costs s)) (\<lambda>t3.
      tryr (fmt (cs_directional_exposure_costs s)) (\<lambda>t4.
      tryr (fmt (cs_generic_costs s)) (\<lambda>t5.
      tryr (fmt (cs_dividend_revenue s)) (\<lambda>t6.
      tryr (unsigned (cs_offchain_execution_fees s + cs_regulatory_fees s)) (\<lambda>t7.
      tryr (unsigned (cs_tokenization_fees s)) (\<lambda>t8.
      tryr (unsigned (cs_cctp_fees s)) (\<lambda>t9.
      tryr (fmt (cs_conversion_slippage s)) (\<lambda>t10.
      tryr (fmt (cs_oracle_write_cost s)) (\<lambda>t11.
      tryr (unsigned (cs_broker_fees s)) (\<lambda>t12.
      tryr (fmt (cs_regulatory_fees s)) (\<lambda>t13.
      tryr (unsigned (cs_margin_interest s)) (\<lambda>t14.
      tryr (fmt (cs_bot_gas s)) (\<lambda>t15.
      tryr (fmt (cs_wallet_transfer_fees s)) (\<lambda>t16.
      tryr (fmt (cs_unclassified_costs s)) (\<lambda>t17.
      tryr (cost_coverage_rows N s) (\<lambda>rows.
      Inr \<lparr>cdto_total_tracked_costs = t0,
        cdto_total_tracked_revenue = t1,
        cdto_counter_trade_costs = t2,
        cdto_onchain_netting_costs = t3,
        cdto_directional_exposure_costs = t4,
        cdto_generic_costs = t5,
        cdto_dividend_revenue = t6,
        cdto_offchain_execution_fees = t7,
        cdto_tokenization_fees = t8,
        cdto_cctp_fees = t9,
        cdto_conversion_slippage = t10,
        cdto_oracle_write_cost = t11,
        cdto_broker_fees = t12,
        cdto_regulatory_fees = t13,
        cdto_margin_interest = t14,
        cdto_bot_gas = t15,
        cdto_wallet_transfer_fees = t16,
        cdto_unclassified_costs = t17,
        cdto_entry_count = cost_entry_count, cdto_missing_observations = cs_missing_observations s,
        cdto_coverage = rows\<rparr>))))))))))))))))))))"

definition summarize_cost_entries ::
  "('n :: linordered_field) num_package \<Rightarrow> 'n cost_entry_internal list \<Rightarrow> nat \<Rightarrow> decimal_fault + pnl_cost_summary" where
  "summarize_cost_entries N entries missing = cost_summary_to_dto N (summarize_entries entries missing) (length entries)"

definition parse_internal_decimal :: "'n num_package \<Rightarrow> string \<Rightarrow> string \<Rightarrow> pnl_error + 'n" where
  "parse_internal_decimal N field text = map_err (InvalidInternalDecimal field text) (num_from_str N text)"

text \<open>\<^verbatim>\<open>with_costs\<close> deducts the printed costs from the printed total.\<close>

definition with_costs ::
  "('n :: linordered_field) num_package \<Rightarrow> pnl_summary \<Rightarrow> pnl_cost_summary \<Rightarrow> pnl_stop + pnl_summary" where
  "with_costs N summary costs =
     tryr (map_err PnlFail (parse_internal_decimal N ''summary.totalPnlUsd'' (dto_total_pnl summary))) (\<lambda>gross.
     tryr (map_err PnlFail (parse_internal_decimal N ''costs.totalTrackedCostsUsd'' (cdto_total_tracked_costs costs))) (\<lambda>tracked_costs.
     tryr (map_err PnlFail (parse_internal_decimal N ''costs.totalTrackedRevenueUsd'' (cdto_total_tracked_revenue costs))) (\<lambda>tracked_revenue.
     let net = gross - tracked_costs + tracked_revenue in
     tryr (map_err PnlPanic (fmt_decimal N gross)) (\<lambda>gross_text.
     tryr (map_err PnlPanic (fmt_decimal N tracked_costs)) (\<lambda>costs_text.
     tryr (map_err PnlPanic (fmt_decimal N tracked_revenue)) (\<lambda>revenue_text.
     tryr (map_err PnlPanic (fmt_decimal N net)) (\<lambda>net_text.
       Inr (summary\<lparr>dto_gross_realized_pnl := gross_text, dto_tracked_costs := costs_text,
         dto_tracked_revenue := revenue_text, dto_net_realized_pnl := net_text\<rparr>))))))))"


section \<open>The net of the report\<close>

definition printed :: "('n :: linordered_field) num_package \<Rightarrow> 'n \<Rightarrow> string" where
  "printed N v = (case fmt_decimal N v of Inr text \<Rightarrow> text | Inl _ \<Rightarrow> [])"

lemma printed_ok:
  assumes "num_sem N" and "finite_decimal v"
  shows "fmt_decimal N v = Inr (printed N v)" "read_decimal (printed N v) = v" "reads_notation N \<Longrightarrow> num_from_str N (printed N v) = Inr v"
  using fmt_decimal_prints [OF assms] by (auto simp: printed_def reads_notation_def)

lemma finite_summary_fields:
  assumes "finite_summary s"
  shows "\<forall>v \<in> set (summary_amounts s). finite_decimal v"
  using assms by (simp add: finite_summary_def list_all_iff)

lemma summary_to_dto_prints:
  assumes "num_sem N" and "finite_summary s"
  shows "\<exists>dto. summary_to_dto N s = Inr dto \<and> dto_total_pnl dto = printed N (summary_total_pnl s) \<and>
    dto_realized_pnl dto = printed N (acc_realized_pnl s) \<and> dto_matched_shares dto = printed N (acc_matched_shares s) \<and>
    dto_inventory_drift_shares dto = printed N (acc_open_long_shares s - acc_open_short_shares s)"
proof -
  have "finite_decimal v" if "v \<in> set (summary_amounts s)" for v using finite_summary_fields [OF assms(2)] that by blast
  then have fin: "finite_decimal (acc_counter_trade_pnl s)" "finite_decimal (acc_onchain_netting_pnl s)"
    "finite_decimal (acc_inventory_baseline_pnl s)" "finite_decimal (acc_imbalance_excess_pnl s)"
    "finite_decimal (acc_realized_pnl s)" "finite_decimal (acc_matched_shares s)" "finite_decimal (acc_onchain_notional s)"
    "finite_decimal (acc_offchain_notional s)" "finite_decimal (acc_open_long_shares s)" "finite_decimal (acc_open_short_shares s)"
    "finite_decimal (acc_open_long_notional s)" "finite_decimal (acc_open_short_notional s)"
    "finite_decimal (acc_unmatched_buy_shares s)" "finite_decimal (acc_unmatched_sell_shares s)"
    "finite_decimal (acc_unmatched_buy_notional s)" "finite_decimal (acc_unmatched_sell_notional s)"
    by (simp_all add: summary_amounts_def)
  then show ?thesis
    by (simp add: summary_to_dto_def Let_def summary_total_pnl_def printed_ok(1) [OF assms(1)] finite_decimal_ops)
qed


definition cost_amounts :: "'n cost_summary_acc \<Rightarrow> 'n list" where
  "cost_amounts s = [cs_counter_trade_costs s, cs_onchain_netting_costs s, cs_directional_exposure_costs s, cs_generic_costs s,
     cs_generic_revenue s, cs_dividend_revenue s, cs_offchain_execution_fees s, cs_tokenization_fees s, cs_cctp_fees s,
     cs_conversion_slippage s, cs_oracle_write_cost s, cs_broker_fees s, cs_regulatory_fees s, cs_margin_interest s,
     cs_bot_gas s, cs_wallet_transfer_fees s, cs_unclassified_costs s]"

definition finite_costs :: "('n :: linordered_field) cost_summary_acc \<Rightarrow> bool" where
  "finite_costs s \<longleftrightarrow> list_all finite_decimal (cost_amounts s)"

lemma finite_add_cost: "finite_costs s \<Longrightarrow> finite_decimal (ce_amount e) \<Longrightarrow> finite_costs (add_cost s e)"
  by (cases "ce_effect e"; cases "ce_bucket e"; cases "ce_category e")
    (simp_all add: add_cost_def finite_costs_def cost_amounts_def finite_decimal_ops)

lemma finite_fold_cost: "finite_costs s \<Longrightarrow> \<forall>e \<in> set entries. finite_decimal (ce_amount e) \<Longrightarrow> finite_costs (foldl add_cost s entries)"
  by (induction entries arbitrary: s) (simp_all add: finite_add_cost)

lemma finite_summarize: "\<forall>e \<in> set entries. finite_decimal (ce_amount e) \<Longrightarrow> finite_costs (summarize_entries entries missing)"
  unfolding summarize_entries_def by (rule finite_fold_cost) (simp_all add: finite_costs_def cost_amounts_def cost_summary_default_def)

lemma finite_abs: "finite_decimal v \<Longrightarrow> finite_decimal \<bar>v\<bar>"
  by (simp add: abs_if)

lemma coverage_returns: "num_sem N \<Longrightarrow> finite_decimal v \<Longrightarrow> \<exists>row. coverage N source bucket effect status v = Inr row"
  by (simp add: coverage_def fmt_signed_category_amount_def printed_ok(1) finite_abs)

lemma collect_ok_returns: "\<forall>r \<in> set rs. \<exists>x. r = Inr x \<Longrightarrow> \<exists>xs. try_fold (\<lambda>acc r. tryr r (\<lambda>x. Inr (acc @ [x]))) acc rs = Inr xs"
  by (induction rs arbitrary: acc) auto

lemma cost_summary_to_dto_prints:
  assumes "num_sem N" and "finite_costs s"
  shows "\<exists>dto. cost_summary_to_dto N s n = Inr dto \<and> cdto_total_tracked_costs dto = printed N (total_tracked_costs s) \<and>
    cdto_total_tracked_revenue dto = printed N (total_tracked_revenue s)"
proof -
  have fin: "finite_decimal (cs_counter_trade_costs s)" "finite_decimal (cs_onchain_netting_costs s)"
    "finite_decimal (cs_directional_exposure_costs s)" "finite_decimal (cs_generic_costs s)" "finite_decimal (cs_generic_revenue s)"
    "finite_decimal (cs_dividend_revenue s)" "finite_decimal (cs_offchain_execution_fees s)" "finite_decimal (cs_tokenization_fees s)"
    "finite_decimal (cs_cctp_fees s)" "finite_decimal (cs_conversion_slippage s)" "finite_decimal (cs_oracle_write_cost s)"
    "finite_decimal (cs_broker_fees s)" "finite_decimal (cs_regulatory_fees s)" "finite_decimal (cs_margin_interest s)"
    "finite_decimal (cs_bot_gas s)" "finite_decimal (cs_wallet_transfer_fees s)" "finite_decimal (cs_unclassified_costs s)"
    using assms(2) by (simp_all add: finite_costs_def cost_amounts_def)
  have "\<exists>rows. cost_coverage_rows N s = Inr rows"
    unfolding cost_coverage_rows_def collect_ok_def
    by (rule collect_ok_returns) (simp add: coverage_returns [OF assms(1)] fin)
  then obtain rows where "cost_coverage_rows N s = Inr rows" ..
  then show ?thesis
    by (simp add: cost_summary_to_dto_def Let_def fmt_signed_category_amount_def printed_ok(1) [OF assms(1)] fin
      finite_abs finite_decimal_add total_tracked_costs_def total_tracked_revenue_def)
qed

lemma finite_total_pnl: "finite_summary s \<Longrightarrow> finite_decimal (summary_total_pnl s)"
  by (simp add: finite_summary_def summary_amounts_def summary_total_pnl_def finite_decimal_add)

lemma finite_tracked: "finite_costs s \<Longrightarrow> finite_decimal (total_tracked_costs s)" "finite_costs s \<Longrightarrow> finite_decimal (total_tracked_revenue s)"
  by (simp_all add: finite_costs_def cost_amounts_def total_tracked_costs_def total_tracked_revenue_def finite_decimal_add)

text \<open>
  C33. Through printing and parsing, the net the report shows is exactly the profit of its entries less the
  tracked costs plus the tracked revenue: no step panics and no digit is lost.
\<close>

theorem printed_net_is_gross_less_costs:
  assumes "num_sem N" and "reads_notation N" and "finite_summary s" and "\<forall>e \<in> set entries. finite_decimal (ce_amount e)"
  shows "\<exists>summary costs report. summary_to_dto N s = Inr summary \<and> summarize_cost_entries N entries missing = Inr costs \<and>
    with_costs N summary costs = Inr report \<and>
    read_decimal (dto_gross_realized_pnl report) = summary_total_pnl s \<and>
    read_decimal (dto_net_realized_pnl report) = summary_total_pnl s + (\<Sum>e \<leftarrow> entries. entry_cash e)"
proof -
  let ?c = "summarize_entries entries missing"
  obtain summary where summary: "summary_to_dto N s = Inr summary" "dto_total_pnl summary = printed N (summary_total_pnl s)"
    using summary_to_dto_prints [OF assms(1,3)] by blast
  have fin: "finite_costs ?c" using finite_summarize assms(4) by blast
  obtain costs where costs: "summarize_cost_entries N entries missing = Inr costs"
    "cdto_total_tracked_costs costs = printed N (total_tracked_costs ?c)"
    "cdto_total_tracked_revenue costs = printed N (total_tracked_revenue ?c)"
    using cost_summary_to_dto_prints [OF assms(1) fin] unfolding summarize_cost_entries_def by blast
  note finite = finite_total_pnl [OF assms(3)] finite_tracked [OF fin]
  let ?net = "summary_total_pnl s - total_tracked_costs ?c + total_tracked_revenue ?c"
  have net: "finite_decimal ?net" using finite by (simp add: finite_decimal_ops)
  have total: "?net = summary_total_pnl s + (\<Sum>e \<leftarrow> entries. entry_cash e)"
    using summarize_entries_tracked [of entries missing] by (simp add: tracked_net_def algebra_simps)
  have "with_costs N summary costs = Inr (summary\<lparr>dto_gross_realized_pnl := printed N (summary_total_pnl s),
      dto_tracked_costs := printed N (total_tracked_costs ?c), dto_tracked_revenue := printed N (total_tracked_revenue ?c),
      dto_net_realized_pnl := printed N ?net\<rparr>)"
    by (simp add: with_costs_def parse_internal_decimal_def summary(2) costs(2,3) Let_def
      printed_ok [OF assms(1) finite(1)] printed_ok [OF assms(1) finite(2)] printed_ok [OF assms(1) finite(3)]
      printed_ok(1) [OF assms(1) net] assms(2))
  with summary(1) costs(1) show ?thesis
    using printed_ok(2) [OF assms(1) finite(1)] printed_ok(2) [OF assms(1) net] total by simp
qed


definition demo_cost_entry :: "rat cost_entry_internal" where
  "demo_cost_entry = \<lparr>ce_category = TokenizationFee, ce_bucket = GenericBucket, ce_effect = CostEffect, ce_amount = 1 / 4,
     ce_occurred_at = ''1'', ce_aggregate_type = ''TokenizedEquityMint'', ce_aggregate_id = ''m'', ce_event_rowid = 1,
     ce_symbol = None, ce_detail = []\<rparr>"

lemma demo_reads_notation: "reads_notation demo_num"
  by (simp add: reads_notation_def demo_num_def)

theorem printed_net_is_gross_less_costs_witness:
  "\<exists>summary costs report. summary_to_dto demo_num (summary_default\<lparr>acc_counter_trade_pnl := 3\<rparr>) = Inr summary \<and>
    summarize_cost_entries demo_num [demo_cost_entry] 0 = Inr costs \<and> with_costs demo_num summary costs = Inr report \<and>
    read_decimal (dto_gross_realized_pnl report) = (3 :: rat) \<and> read_decimal (dto_net_realized_pnl report) = (11 / 4 :: rat)"
proof -
  have "finite_decimal (3 :: rat)" using finite_decimal_of_int [of 3] by simp
  then have s: "finite_summary (summary_default\<lparr>acc_counter_trade_pnl := 3 :: rat\<rparr>)"
    by (simp add: finite_summary_def summary_amounts_def summary_default_def)
  have "finite_decimal (1 / 4 :: rat)" unfolding finite_decimal_def by (rule exI [of _ 2], rule exI [of _ 25]) simp
  then have e: "\<forall>e \<in> set [demo_cost_entry]. finite_decimal (ce_amount e)" by (simp add: demo_cost_entry_def)
  have "summary_total_pnl (summary_default\<lparr>acc_counter_trade_pnl := 3 :: rat\<rparr>) = 3" "entry_cash demo_cost_entry = - 1 / 4"
    by (simp_all add: summary_total_pnl_def summary_default_def entry_cash_def demo_cost_entry_def)
  with printed_net_is_gross_less_costs [OF demo_num_sem demo_reads_notation s e, of 0] show ?thesis by simp
qed

section \<open>Fees reported twice\<close>

definition tokenization_fee_overlap_key ::
  "('n :: linordered_field) num_package \<Rightarrow> calendar \<Rightarrow> 'n cost_entry_internal \<Rightarrow> decimal_fault + (symbol \<times> string \<times> string) option" where
  "tokenization_fee_overlap_key N C e =
     (if ce_category e \<noteq> TokenizationFee \<or> ce_effect e \<noteq> CostEffect then Inr None
      else (case ce_symbol e of
          None \<Rightarrow> Inr None
        | Some symbol \<Rightarrow> tryr (fmt_decimal N (ce_amount e)) (\<lambda>text. Inr (Some (symbol, date_key C (ce_occurred_at e), text)))))"

definition alpaca_fee_overlap_key ::
  "('n :: linordered_field) num_package \<Rightarrow> calendar \<Rightarrow> 'n cost_entry_internal \<Rightarrow> decimal_fault + (symbol \<times> string \<times> string) option" where
  "alpaca_fee_overlap_key N C e =
     (if ce_category e \<noteq> BrokerFee \<or> ce_effect e \<noteq> CostEffect then Inr None
      else (case ce_symbol e of
          None \<Rightarrow> Inr None
        | Some symbol \<Rightarrow> tryr (fmt_decimal N (ce_amount e)) (\<lambda>text. Inr (Some (symbol, date_key C (ce_occurred_at e), text)))))"

definition remove_tokenization_fee_overlaps ::
  "('n :: linordered_field) num_package \<Rightarrow> calendar \<Rightarrow> 'n cost_entry_internal list \<Rightarrow> 'n cost_entry_internal list \<Rightarrow> pnl_warning list \<Rightarrow>
   decimal_fault + 'n cost_entry_internal list \<times> pnl_warning list" where
  "remove_tokenization_fee_overlaps N C tokenization_entries alpaca_entries warnings =
     tryr (collect_ok (map (tokenization_fee_overlap_key N C) tokenization_entries)) (\<lambda>keys.
     try_fold (\<lambda>acc e. tryr (alpaca_fee_overlap_key N C e) (\<lambda>key. case key of
          None \<Rightarrow> Inr (fst acc @ [e], snd acc)
        | Some k \<Rightarrow>
            if Some k \<in> set keys
            then Inr (fst acc, snd acc @ [OverlappingFee (ce_aggregate_id e) (fst k) (fst (snd k)) (snd (snd k))])
            else Inr (fst acc @ [e], snd acc))) ([], warnings) alpaca_entries)"

text \<open>
  The keys carry no count: one persisted mint fee removes every broker fee of its symbol, day and
  amount, also a second one that was charged for something else.
\<close>

definition demo_broker_fee :: "string \<Rightarrow> rat cost_entry_internal" where
  "demo_broker_fee i = demo_cost_entry\<lparr>ce_category := BrokerFee, ce_bucket := CounterTradeCosts, ce_aggregate_id := i,
     ce_symbol := Some ''AAPL''\<rparr>"

lemma one_mint_fee_hides_two_broker_fees:
  "remove_tokenization_fee_overlaps demo_num demo_calendar [demo_cost_entry\<lparr>ce_symbol := Some ''AAPL''\<rparr>]
     [demo_broker_fee ''a'', demo_broker_fee ''b''] [] =
   Inr ([], [OverlappingFee ''a'' ''AAPL'' ''2026-01-05'' ''0.25'', OverlappingFee ''b'' ''AAPL'' ''2026-01-05'' ''0.25''])"
  by code_simp

section \<open>Pages\<close>

definition page_bounds :: "pnl_query \<Rightarrow> nat \<Rightarrow> nat \<times> nat" where
  "page_bounds q count = (let start = min (normalized_offset q) count in (start, min (start + normalized_limit q) count))"

definition page_entries :: "pnl_query \<Rightarrow> 'a list \<Rightarrow> 'a list" where
  "page_entries q entries = (case page_bounds q (length entries) of (start, stop) \<Rightarrow> drop start (take stop entries))"

definition page_has_more :: "pnl_query \<Rightarrow> 'a list \<Rightarrow> bool" where
  "page_has_more q entries \<longleftrightarrow> snd (page_bounds q (length entries)) < length entries"

lemma page_entries_take: "page_entries q entries = take (normalized_limit q) (drop (normalized_offset q) entries)"
  by (simp add: page_entries_def page_bounds_def Let_def drop_take min_def)

lemma page_has_more_iff: "page_has_more q entries \<longleftrightarrow> normalized_offset q + normalized_limit q < length entries"
  by (auto simp: page_has_more_def page_bounds_def Let_def min_def)

text \<open>Following the pages of any limit from the start reads every entry once and in order.\<close>

lemma pages_are_the_entries:
  assumes "\<forall>i. normalized_limit (q i) = n \<and> normalized_offset (q i) = i * n" and "length entries \<le> k * n"
  shows "concat (map (\<lambda>i. page_entries (q i) entries) [0..<k]) = entries"
proof -
  have "concat (map (\<lambda>i. page_entries (q i) entries) [0..<j]) = take (j * n) entries" for j
    by (induction j) (simp_all add: page_entries_take assms(1) take_add [symmetric] add.commute)
  with assms(2) show ?thesis by simp
qed


section \<open>Days\<close>

record pnl_window_symbol =
  ws_symbol :: symbol
  ws_counter_trade_pnl :: string
  ws_onchain_netting_pnl :: string
  ws_inventory_baseline_pnl :: string
  ws_imbalance_excess_pnl :: string
  ws_directional_exposure_pnl :: string
  ws_total_pnl :: string

record pnl_window =
  win_id :: string
  win_start_at :: string
  win_end_at :: string
  win_label :: string
  win_is_weekend :: bool
  win_market_session :: string
  win_counter_trading_session :: string
  win_granularity :: string
  win_symbols :: "pnl_window_symbol list"

definition et_day_boundary :: "calendar \<Rightarrow> string \<Rightarrow> bool \<Rightarrow> string" where
  "et_day_boundary C date is_end = (case cal_et_boundary C date is_end of
     Some text \<Rightarrow> text
   | None \<Rightarrow> if is_end then date @ ''T23:59:59.999Z'' else date @ ''T00:00:00.000Z'')"

text \<open>The profit of one symbol in a day, by bucket.\<close>

definition add_window_entry :: "symbol \<Rightarrow> 'n \<times> 'n \<times> 'n \<Rightarrow> ('n :: linordered_field) pnl_entry \<Rightarrow> 'n \<times> 'n \<times> 'n" where
  "add_window_entry symbol acc e = (case acc of (counter_trade, onchain_netting, excess) \<Rightarrow>
     if entry_symbol e \<noteq> symbol then acc
     else (case entry_bucket e of
         CounterTrade \<Rightarrow> (counter_trade + entry_realized_pnl e, onchain_netting, excess)
       | OnchainNetting \<Rightarrow> (counter_trade, onchain_netting + entry_realized_pnl e, excess)
       | DirectionalExposure \<Rightarrow> (counter_trade, onchain_netting, excess + entry_realized_pnl e)))"

definition window_amounts :: "symbol \<Rightarrow> ('n :: linordered_field) pnl_entry list \<Rightarrow> 'n \<times> 'n \<times> 'n" where
  "window_amounts symbol entries = foldl (add_window_entry symbol) (0, 0, 0) entries"

definition window_symbol_row ::
  "('n :: linordered_field) num_package \<Rightarrow> symbol \<Rightarrow> 'n pnl_entry list \<Rightarrow> decimal_fault + pnl_window_symbol" where
  "window_symbol_row N symbol entries = (case window_amounts symbol entries of (counter_trade, onchain_netting, excess) \<Rightarrow>
     let baseline = 0; fmt = fmt_decimal N in
     tryr (fmt counter_trade) (\<lambda>counter_trade_text.
     tryr (fmt onchain_netting) (\<lambda>onchain_netting_text.
     tryr (fmt baseline) (\<lambda>baseline_text.
     tryr (fmt excess) (\<lambda>excess_text.
     tryr (fmt (baseline + excess)) (\<lambda>exposure_text.
     tryr (fmt (counter_trade + onchain_netting + baseline + excess)) (\<lambda>total_text.
       Inr \<lparr>ws_symbol = symbol, ws_counter_trade_pnl = counter_trade_text, ws_onchain_netting_pnl = onchain_netting_text,
         ws_inventory_baseline_pnl = baseline_text, ws_imbalance_excess_pnl = excess_text,
         ws_directional_exposure_pnl = exposure_text, ws_total_pnl = total_text\<rparr>)))))))"

definition push_group :: "'k \<Rightarrow> 'a \<Rightarrow> ('k \<times> 'a list) list \<Rightarrow> ('k \<times> 'a list) list" where
  "push_group k x groups = AList.update k ((case map_of groups k of None \<Rightarrow> [] | Some xs \<Rightarrow> xs) @ [x]) groups"

definition entries_by_day :: "calendar \<Rightarrow> 'n pnl_entry list \<Rightarrow> (string \<times> 'n pnl_entry list) list" where
  "entries_by_day C entries =
     sort_key fst (foldl (\<lambda>groups e. push_group (date_key C (entry_closed_at e)) e groups) [] entries)"

definition only_label :: "string list \<Rightarrow> string" where
  "only_label labels = (case remdups labels of [label] \<Rightarrow> label | _ \<Rightarrow> ''mixed'')"

definition build_window ::
  "('n :: linordered_field) num_package \<Rightarrow> calendar \<Rightarrow> symbol list \<Rightarrow> string \<times> 'n pnl_entry list \<Rightarrow> decimal_fault + pnl_window" where
  "build_window N C symbols day = (case day of (date, day_entries) \<Rightarrow>
     let market_session = only_label (map (\<lambda>e. pnl_market_session_as_str (market_session_for_iso C (entry_closed_at e))) day_entries);
         counter_trading_session = only_label (map (\<lambda>e. counter_trading_session_for_iso C (entry_closed_at e)) day_entries);
         by_symbol = foldl (\<lambda>groups e. push_group (entry_symbol e) e groups) [] day_entries in
     tryr (collect_ok (map (\<lambda>symbol. window_symbol_row N symbol
            (case map_of by_symbol symbol of None \<Rightarrow> [] | Some es \<Rightarrow> es)) symbols)) (\<lambda>rows.
       Inr \<lparr>win_id = date, win_start_at = et_day_boundary C date False, win_end_at = et_day_boundary C date True,
         win_label = date, win_is_weekend = (market_session = ''weekend''), win_market_session = market_session,
         win_counter_trading_session = counter_trading_session, win_granularity = ''day'', win_symbols = rows\<rparr>))"

definition build_windows ::
  "('n :: linordered_field) num_package \<Rightarrow> calendar \<Rightarrow> 'n pnl_entry list \<Rightarrow> symbol list \<Rightarrow> decimal_fault + pnl_window list" where
  "build_windows N C entries symbols = collect_ok (map (build_window N C symbols) (entries_by_day C entries))"

subsection \<open>The days add up\<close>

lemma push_group_keys: "distinct (map fst groups) \<Longrightarrow> distinct (map fst (push_group k x groups))"
  by (simp add: push_group_def AList.distinct_update)

lemma sum_alist_update:
  "distinct (map fst m) \<Longrightarrow> (\<Sum>(k', v) \<leftarrow> AList.update k w m. f v) =
    (\<Sum>(k', v) \<leftarrow> m. f v) - (case map_of m k of None \<Rightarrow> 0 | Some v \<Rightarrow> f v) + (f w :: 'n :: ab_group_add)"
proof (induction m)
  case (Cons p m)
  have "map_of m k = None" if "k = fst p" using Cons.prems that by (auto simp: map_of_eq_None_iff)
  with Cons show ?case by (cases p) (auto simp: algebra_simps)
qed simp

lemma sum_push_group:
  assumes "distinct (map fst groups)"
  shows "(\<Sum>(k, xs) \<leftarrow> push_group d x groups. \<Sum>y \<leftarrow> xs. f y) = (\<Sum>(k, xs) \<leftarrow> groups. \<Sum>y \<leftarrow> xs. f y) + (f x :: 'n :: ab_group_add)"
  by (simp add: push_group_def sum_alist_update [OF assms] split: option.splits)

lemma sum_groups:
  "distinct (map fst groups) \<Longrightarrow> (\<Sum>(k, xs) \<leftarrow> foldl (\<lambda>groups e. push_group (key e) e groups) groups es. \<Sum>y \<leftarrow> xs. f y) =
    (\<Sum>(k, xs) \<leftarrow> groups. \<Sum>y \<leftarrow> xs. f y) + (\<Sum>y \<leftarrow> es. f y :: 'n :: ab_group_add)"
  by (induction es arbitrary: groups) (simp_all add: push_group_keys sum_push_group algebra_simps)

lemma map_of_groups:
  "map_of (foldl (\<lambda>groups e. push_group (key e) e groups) groups es) k =
    (case (case map_of groups k of None \<Rightarrow> [] | Some xs \<Rightarrow> xs) @ filter (\<lambda>e. key e = k) es of
       [] \<Rightarrow> map_of groups k | xs \<Rightarrow> Some xs)"
  by (induction es arbitrary: groups) (auto simp: push_group_def AList.update_conv' split: option.splits list.splits)

definition window_total :: "'n \<times> 'n \<times> 'n \<Rightarrow> 'n :: linordered_field" where
  "window_total amounts = (case amounts of (counter_trade, onchain_netting, excess) \<Rightarrow> counter_trade + onchain_netting + 0 + excess)"

definition entry_profit :: "symbol \<Rightarrow> ('n :: linordered_field) pnl_entry \<Rightarrow> 'n" where
  "entry_profit symbol e = (if entry_symbol e = symbol then entry_realized_pnl e else 0)"

lemma add_window_total: "window_total (add_window_entry symbol acc e) = window_total acc + entry_profit symbol e"
  by (cases acc) (simp add: add_window_entry_def window_total_def entry_profit_def split: pnl_bucket.splits)

lemma window_total_fold: "window_total (foldl (add_window_entry symbol) acc es) = window_total acc + (\<Sum>e \<leftarrow> es. entry_profit symbol e)"
  by (induction es arbitrary: acc) (simp_all add: add_window_total algebra_simps)

lemma window_total_amounts: "window_total (window_amounts symbol es) = (\<Sum>e \<leftarrow> es. entry_profit symbol e)"
  by (simp add: window_amounts_def window_total_fold) (simp add: window_total_def)

lemma add_entry_realized: "acc_realized_pnl (add_entry s e) = acc_realized_pnl s + entry_realized_pnl e"
  by (simp add: add_entry_def Let_def split: pnl_bucket.splits)

lemma realized_fold:
  "acc_realized_pnl (foldl add_entry s (filter (\<lambda>e. entry_symbol e = symbol) es)) =
    acc_realized_pnl s + (\<Sum>e \<leftarrow> es. entry_profit symbol e)"
  by (induction es arbitrary: s) (simp_all add: add_entry_realized entry_profit_def)

text \<open>
  The windows split each symbol's profit by day without remainder: over all days the totals of the
  symbol's rows add up to the realised profit of its summary.
\<close>

theorem windows_add_up_to_symbol:
  "(\<Sum>(date, day_entries) \<leftarrow> entries_by_day C entries.
      window_total (window_amounts symbol
        (case map_of (foldl (\<lambda>groups e. push_group (entry_symbol e) e groups) [] day_entries) symbol of None \<Rightarrow> [] | Some es \<Rightarrow> es))) =
    acc_realized_pnl (summary_at (symbol_summaries entries) symbol)"
proof -
  have "window_total (window_amounts symbol
      (case map_of (foldl (\<lambda>groups e. push_group (entry_symbol e) e groups) [] es) symbol of None \<Rightarrow> [] | Some xs \<Rightarrow> xs)) =
      (\<Sum>e \<leftarrow> es. entry_profit symbol e)" for es :: "'a pnl_entry list"
  proof -
    have "(case map_of (foldl (\<lambda>groups e. push_group (entry_symbol e) e groups) [] es) symbol of None \<Rightarrow> [] | Some xs \<Rightarrow> xs) =
        filter (\<lambda>e. entry_symbol e = symbol) es"
      by (simp add: map_of_groups [of entry_symbol "[]"] split: list.splits)
    moreover have "(\<Sum>e \<leftarrow> filter (\<lambda>e. entry_symbol e = symbol) es. entry_profit symbol e) = (\<Sum>e \<leftarrow> es. entry_profit symbol e)"
      by (induction es) (simp_all add: entry_profit_def)
    ultimately show ?thesis by (simp add: window_total_amounts)
  qed
  then have "(\<Sum>(date, day_entries) \<leftarrow> entries_by_day C entries. window_total (window_amounts symbol
        (case map_of (foldl (\<lambda>groups e. push_group (entry_symbol e) e groups) [] day_entries) symbol of None \<Rightarrow> [] | Some es \<Rightarrow> es))) =
      (\<Sum>(date, day_entries) \<leftarrow> entries_by_day C entries. \<Sum>e \<leftarrow> day_entries. entry_profit symbol e)"
    by simp
  also have "\<dots> = (\<Sum>e \<leftarrow> entries. entry_profit symbol e)"
    unfolding entries_by_day_def sum_sort_key by (simp add: sum_groups)
  also have "\<dots> = acc_realized_pnl (summary_at (symbol_summaries entries) symbol)"
    by (simp add: summary_at_symbol_summaries realized_fold) (simp add: summary_default_def)
  finally show ?thesis .
qed

end
