(* ===== verification/Spec2Isabelle.thy ===== *)
theory Spec2Isabelle
  imports Hedge_Dispatch EquityRedemption Usdc_Guard Evm_Receipt Cash_Deposits Cash_Jobs Pnl_Report
begin

text \<open>
  Verification of st0x.liquidity, a market maker for tokenized equities: it fills orders onchain,
  hedges every fill at a brokerage, and moves shares and USDC between the two venues to keep them
  balanced. Sources are under \<^verbatim>\<open>src/\<close> (the service) and \<^verbatim>\<open>crates/\<close> (the
  libraries).

  \<^bold>\<open>The program and its theories.\<close> Every business object is an event-sourced aggregate: commands are
  validated against the state folded from its log, and accepted commands append events. Jobs and
  reactors send commands, read other aggregates' states and keep in-memory views.

  \<^item> \<^emph>\<open>Shared layers.\<close> \<open>Prelude\<close>: results, fallible state passing (\<open>seqw\<close>) with Hoare triples.
    \<open>Float_Ops\<close>: the third-party decimal number type as a record of operations. \<open>Finance\<close>
    (\<^verbatim>\<open>crates/finance\<close>): shares, dollars and USDC with their checked arithmetic.
    \<open>Execution_Types\<close> (\<^verbatim>\<open>crates/execution\<close>): orders and identifiers. \<open>Event_Sourcing\<close>: the
    lifecycle of the event-sourcing framework, with the locales \<open>aggregate\<close> (commands keep an
    invariant and never fail a lifecycle), \<open>log_abstraction\<close> (the fold refines a function of the
    log) and \<open>event_store\<close>. \<open>Event_Table\<close>: the events table and the startup queries over it,
    with the locale \<open>last_event_class\<close> (a query by the last event's type finds the streams
    in a class of states). \<open>Decimal_Text\<close>: decimal digits of natural numbers.
  \<^item> \<^emph>\<open>Trading.\<close> \<open>Position\<close> (\<^verbatim>\<open>src/position.rs\<close>), \<open>OnChainTrade\<close>
    (\<^verbatim>\<open>src/onchain_trade.rs\<close>) and \<open>OffchainOrder\<close> (\<^verbatim>\<open>src/offchain/order.rs\<close>) are the aggregates:
    one definition per \<^verbatim>\<open>originate\<close>, \<^verbatim>\<open>evolve\<close>, \<^verbatim>\<open>initialize\<close> and \<^verbatim>\<open>transition\<close>, with the
    handlers they call. \<open>Fill_Accounting\<close> (\<^verbatim>\<open>src/conductor.rs\<close>,
    \<^verbatim>\<open>src/trading/onchain/trade_accountant.rs\<close>) is the job that counts an onchain fill into its
    position exactly once over stores that may fail between any two steps. \<open>Hedge_Dispatch\<close>
    (\<^verbatim>\<open>src/conductor.rs\<close>, \<^verbatim>\<open>src/onchain/accumulator.rs\<close>, \<^verbatim>\<open>src/offchain/order/handle_rejection.rs\<close>) is
    the hedge of a fill: readiness, reservation, claim, placement, and the jobs that settle
    rejected orders.
  \<^item> \<^emph>\<open>Inventory.\<close> \<open>Venue_Balance\<close> and \<open>Inventory_View\<close> (\<^verbatim>\<open>src/inventory/\<close>): balances and
    transfers of both venues, snapshots with their watermarks, imbalance checks, outbound capacity,
    and the arms of the rebalancing reactor that feed the view. The locale \<open>amount_laws\<close> states the
    arithmetic both share and USDC balances rely on; it is interpreted for both.
  \<^item> \<^emph>\<open>Transfers between the venues.\<close> \<open>Tokenization\<close> (\<^verbatim>\<open>crates/tokenization\<close>): requests to
    the issuer, the polling loop, the check of a mint transaction. \<open>Node_Sync\<close>
    (\<^verbatim>\<open>crates/evm/src/lib.rs\<close>): the bounded wait for a node. \<open>TokenizedEquityMint\<close>,
    \<open>EquityRedemption\<close> and \<open>UsdcRebalance\<close> (the files of the same names under \<^verbatim>\<open>src/\<close>): the three
    transfer aggregates; the last one also as a step relation (\<open>rebalance_step\<close>) with one rule per
    arrow of the documented diagram.
  \<^item> \<^emph>\<open>The USDC trigger.\<close> \<open>Usdc_Trigger\<close> (\<^verbatim>\<open>src/rebalancing/trigger/usdc.rs\<close>): the size of a transfer
    and the reactor that tracks a rebalance. \<open>Usdc_Guard\<close> (\<^verbatim>\<open>src/rebalancing/trigger/mod.rs\<close>): the
    jobs table, the timeout sweep, startup recovery and the check that dispatches, composed in the
    relation \<open>usdc_run\<close>: a rebalance beside a service that sweeps, checks and restarts.
  \<^item> \<^emph>\<open>Transactions.\<close> \<open>Evm_Nonces\<close>, \<open>Evm_Submit\<close> and \<open>Evm_Receipt\<close> (\<^verbatim>\<open>crates/evm/src/\<close>,
    files \<^verbatim>\<open>nonce.rs\<close>, \<^verbatim>\<open>inflight_nonces.rs\<close>, \<^verbatim>\<open>submit.rs\<close>, \<^verbatim>\<open>lib.rs\<close> and \<^verbatim>\<open>local.rs\<close>): the nonce
    cache and the record of broadcast nonces, submission with its recovery loops, and the wait for a
    receipt.
  \<^item> \<^emph>\<open>The USDC transfer.\<close> \<open>Cash_Services\<close>, \<open>Cash_Burn\<close> and \<open>Cash_Transfer\<close>
    (\<^verbatim>\<open>src/rebalancing/usdc/manager.rs\<close>) are the orchestrator that drives a rebalance, one definition
    per method, over the bridge, the vault, the wallet, the brokerage and the event store as records of
    calls. Each call may fail; a commit may fail before or after it took effect. \<open>redrives\<close> runs a
    transfer any number of times. \<open>Cash_Frame\<close> holds the rules for invariants of such runs and the
    locale \<open>kept_transfer\<close>, interpreted for each invariant; \<open>Cash_Outcome\<close>, \<open>Cash_Safety\<close>,
    \<open>Cash_Ledgers\<close> and \<open>Cash_Deposits\<close> hold the theorems. \<open>Cash_Jobs\<close>
    (\<^verbatim>\<open>src/rebalancing/usdc/job.rs\<close>) are the two queued jobs around it, over \<open>Cash_Errors\<close>,
    which shows what each error of a run says of the aggregate.
  \<^item> \<^emph>\<open>The profit-and-loss report\<close> (\<^verbatim>\<open>src/dashboard/pnl/\<close>). \<open>Pnl_Decimal\<close>: printing exact decimals.
    \<open>Pnl_Replay\<close>: lots, books and first-in-first-out matching. \<open>Pnl_Rows\<close>: persisted rows, their order and
    the replay of each into the book of its symbol. \<open>Pnl_Costs\<close>, \<open>Pnl_Sessions\<close>: costs, brokerage
    activities, sessions and filters. \<open>Pnl_Entries\<close>, \<open>Pnl_Report\<close>: sums of entries, windows, pages and
    the texts of the response. \<open>Pnl_Books\<close> and \<open>Pnl_Audit\<close> hold the invariants of a book,
    \<open>Pnl_Ledger\<close> the abstract ledger it refines, \<open>Pnl_Closing\<close> and \<open>Pnl_Position\<close> what a whole replay
    amounts to.

  \<^bold>\<open>What the lemmas show.\<close> Fills are counted exactly once under sequential redelivery and any store
  faults, positions are the ledger of their log, at most one hedge order is in flight and it never overshoots,
  and terminal orders settle their position whichever job finalizes them. Inventory updates conserve
  value, snapshots never overwrite a balance a transfer or an open hedge owns. No command sequence
  breaks an aggregate; mints deposit only what they received and wrapped, redemptions are completed
  late only after a send, and a burn keeps the single-rebalance guard until it is settled, in the
  aggregate, in the running service and across restarts. A transaction is accepted once and its nonce
  stays owned until its fate is decided. A USDC transfer that is redriven through any faults burns at
  most once, draws on the vault at most once and sends to the brokerage at most once, and a run that
  returns has finished it; a job that ends well has settled, redriven or latched it, and its counted
  redrives stay within their budget. The report's open lots are the position's net when replayed in the
  position's order, its realised profit is cash plus inventory and the same summed from entries, by day
  and from the books, and what it prints is exact. Loops end: polling on any clock that
  advances, node synchronisation within its attempts, the receipt wait within its deadlines, the jobs
  lookup on any table. Lemmas that show
  where the code and its documentation part are named for what they show
  (e.g. \<open>sweep_drops_recorded_burn\<close>).

  \<^bold>\<open>Parameters and hypotheses.\<close> \<^verbatim>\<open>rain_math_float::Float\<close>, the event-sourcing framework's stores, the
  brokerage, the issuer, the chain, the job queue and the database are arguments. Theorems name what they
  rely on: \<open>float_sem\<close> (successful operations are exact), \<open>float_total\<close> (operations do not
  fail), \<open>fixed_decimal_sem\<close> (fixed-point conversion truncates), \<open>clock_contract\<close> (time passes),
  \<open>event_store\<close> (a store appends the events of accepted commands), \<open>table_holds\<close> (the table holds
  the given streams), \<open>clock_laws\<close> (the receipt wait's clock), and \<open>burn_laws\<close>, \<open>withdrawal_laws\<close> and
  \<open>deposit_laws\<close> (which calls of the bridge and the vault move funds, and that a scan answering
  nothing found is right), and for the report \<open>num_sem\<close>, \<open>reads_decimals\<close> and \<open>reads_notation\<close> (the number
  package's fractions and parser). Each is instantiated in a witness: \<open>exact_rat\<close> and \<open>bounded_rat\<close> for numbers,
  in-memory stores for \<open>event_store\<close>, \<open>demo_cash\<close> for the services of a transfer. Times are integers; hash maps are maps or association lists,
  whose order is the iteration order; machine integers keep their width where they can overflow.

  \<^bold>\<open>Loops and bounds.\<close> Loops over data are structural recursion. The polling loop of \<open>Tokenization\<close> and
  the jobs lookup of \<open>Usdc_Guard\<close> may run forever on some worlds, and the factor count of \<open>Pnl_Decimal\<close> on
  zero; they are partial functions into
  \<open>option\<close>, and that they return is proved where the world allows it. Node synchronisation is bounded
  by the attempts of the source.

  \<^bold>\<open>Not modelled.\<close> HTTP and RPC clients (brokerage, market data, CCTP, Raindex, wallets), contract event
  decoding and backfill, the equity managers that mostly sequence such calls, process
  supervision, job-queue wiring, the rest of the dashboard, serialization, the command line and
  configuration loading: they are calls to external services or glue around the operations above.
  Concurrency is modelled where the code relies on it being harmless
  (redelivered and interleaved fills, restarts, job workers writing the jobs table); locks that
  serialise a component are not, and the detached task that broadcasts a burn runs in sequence with
  its caller. Log lines and telemetry are left out.
\<close>

section \<open>Startup over one events table\<close>

text \<open>
  C18. After a restart no open transfer is forgotten: over one events table that holds the
  streams of all mints, redemptions and USDC rebalances (written by any sequences of commands,
  whatever number the first event gets), the three startup queries find exactly the mints and
  redemptions that are not terminal, and every rebalance that holds the guard is reported either
  by its identifier or, if that does not parse, among the unparseable rows.
\<close>

theorem startup_finds_open_transfers:
  assumes "table_holds table start ''TokenizedEquityMint'' mint_event_type mints"
    and "table_holds table start ''EquityRedemption'' redemption_event_type redemptions"
    and "table_holds table start ''UsdcRebalance'' usdc_event_type rebalances"
    and "distinct (map fst mints)" "distinct (map fst redemptions)" "distinct (map fst rebalances)"
    and "\<And>i l. (i, l) \<in> set mints \<Longrightarrow> \<exists>cs. l = mint_log F [] cs"
    and "\<And>i l. (i, l) \<in> set redemptions \<Longrightarrow> \<exists>cs. l = redemption_log F [] cs"
    and "\<And>i l. (i, l) \<in> set rebalances \<Longrightarrow> \<exists>cs. l = usdc_log F D [] cs"
    and "interrupted_mint_ids parse table = Inr mint_ids"
  shows "set mint_ids = {IssuerRequestId u | u i l m. (i, l) \<in> set mints \<and> parse i = Inr u \<and>
      mint_replay lifecycle.Uninitialized l = Live m \<and> \<not> mint_is_terminal m} \<and>
    set (interrupted_redemption_ids parse table) = {RedemptionAggregateId u | u i l r.
      (i, l) \<in> set redemptions \<and> parse i = Inr u \<and>
      redemption_replay lifecycle.Uninitialized l = Live r \<and> \<not> redemption_is_terminal r} \<and>
    (\<forall>i l s. (i, l) \<in> set rebalances \<and> usdc_replay lifecycle.Uninitialized l = Live s \<and> holds_rebalance_guard s \<longrightarrow>
      (case parse i of
         Inr u \<Rightarrow> UsdcRebalanceId u \<in> set (iur_ids (interrupted_usdc_rebalance_ids parse table))
       | Inl _ \<Rightarrow> i \<in> set (iur_unparseable (interrupted_usdc_rebalance_ids parse table))))"
proof -
  have m: "interrupted_mint_ids parse (store_rows start ''TokenizedEquityMint'' mint_event_type mints) =
      Inr mint_ids"
    using assms(10) by (simp add: interrupted_mint_ids_def table_holds_ids [OF assms(1)])
  have r: "interrupted_redemption_ids parse table =
      interrupted_redemption_ids parse (store_rows start ''EquityRedemption'' redemption_event_type redemptions)"
    by (simp add: interrupted_redemption_ids_def table_holds_ids [OF assms(2)])
  have u: "interrupted_usdc_rebalance_ids parse table =
      interrupted_usdc_rebalance_ids parse (store_rows start ''UsdcRebalance'' usdc_event_type rebalances)"
    by (simp add: interrupted_usdc_rebalance_ids_def table_holds_ids [OF assms(3)])
  have found: "set mint_ids = {IssuerRequestId u | u i l m. (i, l) \<in> set mints \<and> parse i = Inr u \<and>
      mint_replay lifecycle.Uninitialized l = Live m \<and> \<not> mint_is_terminal m}"
    using assms(7) by (rule interrupted_mints_exact [OF assms(4) _ m])
  have "set (interrupted_redemption_ids parse table) = {RedemptionAggregateId u | u i l r.
      (i, l) \<in> set redemptions \<and> parse i = Inr u \<and>
      redemption_replay lifecycle.Uninitialized l = Live r \<and> \<not> redemption_is_terminal r}"
    unfolding r using assms(8) by (rule interrupted_redemptions_exact [OF assms(5)])
  moreover have "case parse i of
      Inr u \<Rightarrow> UsdcRebalanceId u \<in> set (iur_ids (interrupted_usdc_rebalance_ids parse table))
    | Inl _ \<Rightarrow> i \<in> set (iur_unparseable (interrupted_usdc_rebalance_ids parse table))"
    if s: "(i, l) \<in> set rebalances" "usdc_replay lifecycle.Uninitialized l = Live s" "holds_rebalance_guard s"
    for i l s
  proof (cases "parse i")
    case (Inl x)
    have "i \<in> {i. \<exists>l s x. (i, l) \<in> set rebalances \<and> parse i = Inl x \<and>
        usdc_replay lifecycle.Uninitialized l = Live s \<and> usdc_candidate s}"
      using s Inl guard_is_candidate by blast
    also have "\<dots> = set (iur_unparseable (interrupted_usdc_rebalance_ids parse table))"
      using interrupted_rebalances_exact(2) [OF assms(6) assms(9) u [symmetric]] by simp
    finally show ?thesis by (simp add: Inl)
  next
    case (Inr v)
    have "UsdcRebalanceId v \<in> {UsdcRebalanceId u | u i l s. (i, l) \<in> set rebalances \<and> parse i = Inr u \<and>
        usdc_replay lifecycle.Uninitialized l = Live s \<and> usdc_candidate s}"
      using s Inr guard_is_candidate by blast
    also have "\<dots> = set (iur_ids (interrupted_usdc_rebalance_ids parse table))"
      using interrupted_rebalances_exact(1) [OF assms(6) assms(9) u [symmetric]] by simp
    finally show ?thesis by (simp add: Inr)
  qed
  ultimately show ?thesis using found by blast
qed

definition demo_table :: "unit event_row list" where
  "demo_table = [
     \<lparr>er_aggregate_type = ''UsdcRebalance'', er_aggregate_id = ''u'', er_sequence = 1,
      er_event_type = ''UsdcRebalanceEvent::WithdrawalSubmitting'', er_payload = ()\<rparr>]"

definition demo_rebalances :: "(string \<times> rat usdc_rebalance_event list) list" where
  "demo_rebalances = [(''u'', usdc_log exact_rat demo_debug [] (take 1 demo_usdc_commands))]"

lemma demo_rebalances_log:
  "usdc_log exact_rat demo_debug [] (take 1 demo_usdc_commands) =
   [usdc_rebalance_event.WithdrawalSubmitting BaseToAlpaca (Usdc 5) 100 1]"
  by (simp add: usdc_eval)

theorem startup_finds_open_transfers_witness:
  "UsdcRebalanceId 7 \<in> set (iur_ids (interrupted_usdc_rebalance_ids (\<lambda>_. Inr 7 :: string + uuid) demo_table))"
proof -
  have "table_holds demo_table 1 ''TokenizedEquityMint'' mint_event_type
      ([] :: (string \<times> rat tokenized_equity_mint_event list) list)"
    and "table_holds demo_table 1 ''EquityRedemption'' redemption_event_type
      ([] :: (string \<times> rat equity_redemption_event list) list)"
    and "table_holds demo_table 1 ''UsdcRebalance'' usdc_event_type demo_rebalances"
    by (simp_all only: demo_rebalances_def demo_rebalances_log)
      (simp_all add: table_holds_def keys_of_def row_key_def demo_table_def store_rows_def stored_row_def)
  moreover have "interrupted_mint_ids (\<lambda>_. Inr 7) demo_table = Inr []"
    by (simp add: interrupted_mint_ids_def ids_with_last_event_in_def latest_rows_def demo_table_def)
  moreover have "(''u'', usdc_log exact_rat demo_debug [] (take 1 demo_usdc_commands)) \<in> set demo_rebalances"
    by (simp only: demo_rebalances_def list.set) simp
  moreover have "usdc_replay lifecycle.Uninitialized (usdc_log exact_rat demo_debug [] (take 1 demo_usdc_commands)) =
      Live (usdc_rebalance.WithdrawalSubmitting BaseToAlpaca (Usdc 5) 100 1)"
    by (simp only: demo_rebalances_log) simp
  moreover have "\<exists>cs. l = usdc_log exact_rat demo_debug [] cs" if "(i, l) \<in> set demo_rebalances" for i l
    using that by (auto simp only: demo_rebalances_def list.set)
  moreover have "distinct (map fst demo_rebalances)"
    by (simp only: demo_rebalances_def list.map distinct.simps) simp
  moreover have "holds_rebalance_guard (usdc_rebalance.WithdrawalSubmitting BaseToAlpaca (Usdc (5::rat)) 100 1)"
    by simp
  ultimately show ?thesis
    using startup_finds_open_transfers [of demo_table 1 "[]" "[]" demo_rebalances exact_rat demo_debug
        "\<lambda>_. Inr 7" "[]"]
    by (simp del: usdc_evolve.simps replay_Cons command_log.simps holds_rebalance_guard.simps) blast
qed

end
